(* ===== verification/Prelude.thy ===== *)
theory Prelude
  imports
    Main
    "HOL-Library.List_Lexorder"
    "HOL-Library.Char_ord"
    "HOL-Library.Sublist"
    "HOL-Library.AList"
    "HOL-Library.Word"
    "HOL-Library.State_Monad"
begin

text \<open>
  Shared vocabulary of the development.

  Go values: a \<open>string\<close> or \<open>[]byte\<close> is a list of bytes (\<open>char list\<close>), so \<open>len\<close> is
  \<open>length\<close> and \<open><\<close> is the bytewise order; a \<open>time.Time\<close> is the number of nanoseconds
  since Go's zero time (January 1, year 1, UTC), so \<open>IsZero\<close> is equality with 0; a
  \<open>time.Duration\<close> is an \<open>int64\<close>, kept at its width; a Go map is an association list with
  distinct keys (one of the orders in which the runtime may range over it).

  Effects: a method of an injected dependency is a state transformer over a world \<open>'w\<close>,
  in the state monad of the library.  \<open>wp\<close> is its weakest precondition; its rules carry
  the proofs about engine operations.
\<close>

section \<open>The order of bytes\<close>

text \<open>The kernel compares bytes as binary integers.\<close>

lemma of_char_int: "(of_char c :: int) = int (of_char c)"
  by (cases c) (simp add: of_char_def)

lemma less_char_int [code]: "(c < d) = ((of_char c :: int) < of_char d)"
  by (simp add: less_char_def of_char_int)

lemma less_eq_char_int [code]: "(c \<le> d) = ((of_char c :: int) \<le> of_char d)"
  by (simp add: less_eq_char_def of_char_int)

section \<open>Times and durations\<close>

type_synonym time = int
type_synonym duration = "64 word"

abbreviation (input) IsZero :: "time \<Rightarrow> bool" where
  "IsZero t \<equiv> t = 0"

abbreviation (input) After :: "time \<Rightarrow> time \<Rightarrow> bool" where
  "After t u \<equiv> u < t"

definition time_Add :: "time \<Rightarrow> duration \<Rightarrow> time" where
  "time_Add t d = t + sint d"

text \<open>\<open>Sub\<close> saturates at the ends of the \<open>int64\<close> range.\<close>

definition time_Sub :: "time \<Rightarrow> time \<Rightarrow> duration" where
  "time_Sub t u =
     (let d = t - u
      in if d < - (2 ^ 63) then word_of_int (- (2 ^ 63))
         else if 2 ^ 63 - 1 < d then word_of_int (2 ^ 63 - 1)
         else word_of_int d)"

definition second :: int where "second = 1000000000"
definition minute :: int where "minute = 60 * second"
definition hour :: int where "hour = 60 * minute"

lemma sint_word_of_int_64:
  assumes "- (2 ^ 63) \<le> d" and "d < 2 ^ 63"
  shows "sint (word_of_int d :: 64 word) = d"
  using assms by (simp add: sint_sbintrunc' signed_take_bit_int_eq_self)

lemma time_Sub_Add:
  "sint (time_Sub (time_Add t d) t) = sint d"
proof -
  have "- (2 ^ 63) \<le> sint d" and "sint d < 2 ^ 63"
    using sint_ge [of d] sint_lt [of d] by simp_all
  then show ?thesis
    by (simp add: time_Sub_def time_Add_def Let_def)
qed

section \<open>Go maps as association lists\<close>

type_synonym ('k, 'v) gomap = "('k \<times> 'v) list"

abbreviation gm_get :: "('k, 'v) gomap \<Rightarrow> 'k \<Rightarrow> 'v option" where
  "gm_get \<equiv> map_of"

abbreviation gm_keys :: "('k, 'v) gomap \<Rightarrow> 'k list" where
  "gm_keys m \<equiv> map fst m"

abbreviation gm_wf :: "('k, 'v) gomap \<Rightarrow> bool" where
  "gm_wf m \<equiv> distinct (map fst m)"

declare map_of_eq_Some_iff [simp del] Some_eq_map_of_iff [simp del]

definition gm_set :: "'k \<Rightarrow> 'v \<Rightarrow> ('k, 'v) gomap \<Rightarrow> ('k, 'v) gomap" where
  "gm_set = AList.update"

text \<open>Deleting every entry that satisfies a test while ranging over the map.\<close>

definition gm_delete_if :: "('k \<Rightarrow> 'v \<Rightarrow> bool) \<Rightarrow> ('k, 'v) gomap \<Rightarrow> ('k, 'v) gomap" where
  "gm_delete_if P m = filter (\<lambda>(k, v). \<not> P k v) m"

text \<open>Assigning a new value to every key while ranging over the map.\<close>

definition gm_map :: "('v \<Rightarrow> 'v) \<Rightarrow> ('k, 'v) gomap \<Rightarrow> ('k, 'v) gomap" where
  "gm_map f m = map (\<lambda>(k, v). (k, f v)) m"

definition gm_count :: "('v \<Rightarrow> bool) \<Rightarrow> ('k, 'v) gomap \<Rightarrow> nat" where
  "gm_count P m = length (filter (\<lambda>(k, v). P v) m)"

named_theorems gomap_simps

lemma gm_get_set [gomap_simps, simp]:
  "gm_get (gm_set k v m) k' = (if k' = k then Some v else gm_get m k')"
  by (simp add: gm_set_def update_conv')

lemma gm_wf_set [gomap_simps, simp, intro]: "gm_wf m \<Longrightarrow> gm_wf (gm_set k v m)"
  by (simp add: gm_set_def distinct_update)

lemma gm_get_iff: "gm_wf m \<Longrightarrow> gm_get m k = Some v \<longleftrightarrow> (k, v) \<in> set m"
  by (rule map_of_eq_Some_iff)

lemma gm_set_elems:
  "gm_wf m \<Longrightarrow> set (gm_set k v m) = insert (k, v) {p \<in> set m. fst p \<noteq> k}"
proof (rule set_eqI, unfold split_paired_all)
  fix k' v'
  assume "gm_wf m"
  then have "(k', v') \<in> set (gm_set k v m) \<longleftrightarrow> gm_get (gm_set k v m) k' = Some v'"
    by (simp only: gm_get_iff gm_wf_set)
  also have "\<dots> \<longleftrightarrow> (k', v') \<in> insert (k, v) {p \<in> set m. fst p \<noteq> k}"
    using \<open>gm_wf m\<close> by (simp only: gm_get_set gm_get_iff split: if_splits) auto
  finally show "(k', v') \<in> set (gm_set k v m) \<longleftrightarrow>
      (k', v') \<in> insert (k, v) {p \<in> set m. fst p \<noteq> k}" .
qed

lemma gm_set_subset: "set (gm_set k v m) \<subseteq> insert (k, v) (set m)"
  unfolding gm_set_def by (induction m) (auto split: if_splits)

lemma gm_keys_set: "set (gm_keys (gm_set k v m)) = insert k (set (gm_keys m))"
  by (simp add: gm_set_def dom_update)

lemma gm_length_set:
  "length (gm_set k v m) = (if k \<in> set (gm_keys m) then length m else Suc (length m))"
  unfolding gm_set_def by (induction m) auto

lemma gm_length_set_old [simp]:
  "gm_get m k = Some x \<Longrightarrow> length (gm_set k v m) = length m"
  by (simp add: gm_length_set map_of_eq_None_iff [symmetric])

lemma gm_length_set_new [simp]:
  "gm_get m k = None \<Longrightarrow> length (gm_set k v m) = Suc (length m)"
  by (auto simp: gm_length_set map_of_eq_None_iff)

lemma gm_set_old_split:
  "gm_get m k = Some x \<Longrightarrow>
   \<exists>pre post. m = pre @ (k, x) # post \<and> k \<notin> set (gm_keys pre) \<and>
     gm_set k v m = pre @ (k, v) # post"
proof (induction m)
  case Nil
  then show ?case by simp
next
  case (Cons p m)
  obtain k' v' where p: "p = (k', v')" by (cases p)
  show ?case
  proof (cases "k' = k")
    case True
    with Cons.prems p show ?thesis
      by (intro exI [of _ "[]"] exI [of _ m]) (simp add: gm_set_def)
  next
    case False
    with Cons.prems p have "gm_get m k = Some x" by simp
    then obtain pre post where
      "m = pre @ (k, x) # post" "k \<notin> set (gm_keys pre)" "gm_set k v m = pre @ (k, v) # post"
      using Cons.IH by blast
    with False p show ?thesis
      by (intro exI [of _ "p # pre"] exI [of _ post]) (simp add: gm_set_def)
  qed
qed

lemma gm_set_new: "gm_get m k = None \<Longrightarrow> gm_set k v m = m @ [(k, v)]"
  unfolding gm_set_def by (induction m) (auto split: if_splits)

lemma gm_wf_delete_if [gomap_simps, simp, intro]:
  "gm_wf m \<Longrightarrow> gm_wf (gm_delete_if P m)"
  by (simp add: gm_delete_if_def distinct_map_filter)

lemma gm_get_in: "gm_get m k = Some v \<Longrightarrow> (k, v) \<in> set m"
  by (rule map_of_SomeD)

lemma gm_get_delete_if [gomap_simps]:
  assumes "gm_wf m"
  shows "gm_get (gm_delete_if P m) k =
     (case gm_get m k of None \<Rightarrow> None | Some v \<Rightarrow> if P k v then None else Some v)"
proof (cases "gm_get m k")
  case None
  then have "k \<notin> fst ` set (gm_delete_if P m)"
    by (auto simp: map_of_eq_None_iff gm_delete_if_def)
  then have "gm_get (gm_delete_if P m) k = None" by (simp only: map_of_eq_None_iff not_False_eq_True)
  with None show ?thesis by simp
next
  case (Some v)
  show ?thesis
  proof (cases "P k v")
    case True
    have "\<not> (\<exists>v'. (k, v') \<in> set (gm_delete_if P m))"
      using True assms gm_get_in [OF Some]
      by (auto simp: gm_delete_if_def dest: eq_key_imp_eq_value)
    then have "gm_get (gm_delete_if P m) k = None"
      by (auto simp: map_of_eq_None_iff)
    with Some True show ?thesis by simp
  next
    case False
    then have "(k, v) \<in> set (gm_delete_if P m)"
      using gm_get_in [OF Some] by (simp add: gm_delete_if_def)
    with Some False assms show ?thesis
      by (simp add: map_of_is_SomeI)
  qed
qed

lemma gm_length_delete_if: "length (gm_delete_if P m) \<le> length m"
  by (simp add: gm_delete_if_def)

lemma gm_set_delete_if: "set (gm_delete_if P m) = {(k, v) \<in> set m. \<not> P k v}"
  by (auto simp: gm_delete_if_def)

lemma gm_get_map [gomap_simps, simp]:
  "gm_get (gm_map f m) k = map_option f (gm_get m k)"
  by (simp add: gm_map_def map_of_map)

lemma gm_keys_map [simp]: "gm_keys (gm_map f m) = gm_keys m"
  by (simp add: gm_map_def case_prod_beta comp_def)

lemma gm_length_map [simp]: "length (gm_map f m) = length m"
  by (simp add: gm_map_def)

lemma gm_count_map_le:
  "(\<And>v. P (f v) \<Longrightarrow> P v) \<Longrightarrow> gm_count P (gm_map f m) \<le> gm_count P m"
  unfolding gm_count_def gm_map_def by (induction m) auto

lemma gm_count_delete_if_le: "gm_count P (gm_delete_if Q m) \<le> gm_count P m"
  unfolding gm_count_def gm_delete_if_def by (induction m) auto

lemma gm_count_set_new:
  "gm_get m k = None \<Longrightarrow> gm_count P (gm_set k v m) = gm_count P m + (if P v then 1 else 0)"
  by (simp add: gm_set_new gm_count_def)

lemma gm_count_set_old:
  assumes "gm_get m k = Some x"
  shows "gm_count P (gm_set k v m) + (if P x then 1 else 0) =
    gm_count P m + (if P v then 1 else 0)"
  using gm_set_old_split [OF assms, of v] by (auto simp: gm_count_def)

text \<open>A property of every entry.\<close>

definition gm_all :: "('k \<Rightarrow> 'v \<Rightarrow> bool) \<Rightarrow> ('k, 'v) gomap \<Rightarrow> bool" where
  "gm_all P m = list_all (\<lambda>(k, v). P k v) m"

lemma gm_all_Nil [simp]: "gm_all P []"
  by (simp add: gm_all_def)

lemma gm_allD: "gm_all P m \<Longrightarrow> gm_get m k = Some v \<Longrightarrow> P k v"
  by (auto simp: gm_all_def list_all_iff dest!: gm_get_in)

lemma gm_all_elemD: "gm_all P m \<Longrightarrow> (k, v) \<in> set m \<Longrightarrow> P k v"
  by (auto simp: gm_all_def list_all_iff)

lemma gm_all_set [intro]: "gm_all P m \<Longrightarrow> P k v \<Longrightarrow> gm_all P (gm_set k v m)"
  unfolding gm_all_def list_all_iff using gm_set_subset [of k v m] by blast

lemma gm_all_delete_if [simp, intro]: "gm_all P m \<Longrightarrow> gm_all P (gm_delete_if Q m)"
  by (auto simp: gm_all_def list_all_iff gm_set_delete_if)

lemma gm_all_map: "gm_all P m \<Longrightarrow> (\<And>k v. P k v \<Longrightarrow> P k (f v)) \<Longrightarrow> gm_all P (gm_map f m)"
  by (auto simp: gm_all_def list_all_iff gm_map_def)

section \<open>Weakest preconditions of state transformers\<close>

definition wp :: "('w, 'a) state \<Rightarrow> ('a \<Rightarrow> 'w \<Rightarrow> bool) \<Rightarrow> 'w \<Rightarrow> bool" where
  "wp m Q w = (case run_state m w of (a, w') \<Rightarrow> Q a w')"

named_theorems wp_simps

lemma wp_run: "wp m Q w \<longleftrightarrow> (\<forall>a w'. run_state m w = (a, w') \<longrightarrow> Q a w')"
  by (auto simp: wp_def split: prod.splits)

lemma wpD: "wp m Q w \<Longrightarrow> run_state m w = (a, w') \<Longrightarrow> Q a w'"
  by (simp add: wp_def)

lemma wpI: "(\<And>a w'. run_state m w = (a, w') \<Longrightarrow> Q a w') \<Longrightarrow> wp m Q w"
  by (simp add: wp_run)

lemma wp_return [wp_simps]: "wp (State_Monad.return a) Q w = Q a w"
  by (simp add: wp_def)

lemma wp_bind [wp_simps]:
  "wp (State_Monad.bind m f) Q w = wp m (\<lambda>a w'. wp (f a) Q w') w"
  by (simp add: wp_def split: prod.splits)

lemma wp_get [wp_simps]: "wp State_Monad.get Q w = Q w w"
  by (simp add: wp_def)

lemma wp_set [wp_simps]: "wp (State_Monad.set s) Q w = Q () s"
  by (simp add: wp_def)

lemma wp_mono:
  "wp m P w \<Longrightarrow> (\<And>a w'. P a w' \<Longrightarrow> Q a w') \<Longrightarrow> wp m Q w"
  by (auto simp: wp_run)

lemma wp_conj: "wp m (\<lambda>a w'. P a w' \<and> Q a w') w \<longleftrightarrow> wp m P w \<and> wp m Q w"
  by (auto simp: wp_run)

end
