(* ===== verification/Errors.thy ===== *)
theory Errors
  imports Prelude
begin

text \<open>
  \<open>pkg/oauthserver/errors.go\<close>: the sentinel errors of the store contract, the public
  \<open>OAuthError\<close>, its constructors, and Go's \<open>errors.Is\<close>, which follows the chain of
  \<open>Unwrap\<close>.  A Go \<open>error\<close> that is \<open>nil\<close> is \<open>None\<close>; a function that returns a value and an
  error returns \<open>go_error + 'a\<close>.  \<open>ValueError\<close> is \<open>valueError\<close> of identifiers.go,
  \<open>OtherError\<close> any error from outside the package (an SQLite failure, an entropy failure)
  and \<open>WrapError\<close> one made by \<open>fmt.Errorf\<close> with the \<open>%w\<close> verb.  \<open>GoPanic\<close> is not a returned
  error: it stands for a run-time panic, which unwinds the whole operation.
\<close>

datatype ErrorCode =
    ErrorInvalidRequest
  | ErrorInvalidClientMetadata
  | ErrorInvalidRedirectURI
  | ErrorInvalidScope
  | ErrorInvalidTarget
  | ErrorAccessDenied
  | ErrorInvalidGrant
  | ErrorUnsupportedGrant
  | ErrorTemporary

fun error_code_text :: "ErrorCode \<Rightarrow> string" where
  "error_code_text ErrorInvalidRequest = ''invalid_request''"
| "error_code_text ErrorInvalidClientMetadata = ''invalid_client_metadata''"
| "error_code_text ErrorInvalidRedirectURI = ''invalid_redirect_uri''"
| "error_code_text ErrorInvalidScope = ''invalid_scope''"
| "error_code_text ErrorInvalidTarget = ''invalid_target''"
| "error_code_text ErrorAccessDenied = ''access_denied''"
| "error_code_text ErrorInvalidGrant = ''invalid_grant''"
| "error_code_text ErrorUnsupportedGrant = ''unsupported_grant_type''"
| "error_code_text ErrorTemporary = ''temporarily_unavailable''"

datatype go_error =
    ErrNotFound
  | ErrConsumed
  | ErrExpired
  | ErrRevoked
  | ErrConflict
  | ErrCapacity
  | ErrBinding
  | ErrInvalid
  | ValueError string
  | OAuthError ErrorCode string int "go_error option"
  | OtherError string
  | WrapError string go_error
  | GoPanic string

type_synonym 'a result = "go_error + 'a"

fun error_text :: "go_error \<Rightarrow> string" where
  "error_text ErrNotFound = ''oauth record not found''"
| "error_text ErrConsumed = ''oauth credential consumed''"
| "error_text ErrExpired = ''oauth credential expired''"
| "error_text ErrRevoked = ''oauth grant revoked''"
| "error_text ErrConflict = ''oauth transition conflict''"
| "error_text ErrCapacity = ''oauth state capacity reached''"
| "error_text ErrBinding = ''oauth credential binding mismatch''"
| "error_text ErrInvalid = ''oauth value is invalid''"
| "error_text (ValueError name) = name @ '' is invalid''"
| "error_text (OAuthError code description status cause) =
     (if description = [] then error_code_text code
      else error_code_text code @ '': '' @ description)"
| "error_text (OtherError msg) = msg"
| "error_text (WrapError msg e) = msg @ '': '' @ error_text e"
| "error_text (GoPanic msg) = ''panic: '' @ msg"

fun error_unwrap :: "go_error \<Rightarrow> go_error option" where
  "error_unwrap (ValueError name) = Some ErrInvalid"
| "error_unwrap (OAuthError code description status cause) = cause"
| "error_unwrap (WrapError msg e) = Some e"
| "error_unwrap _ = None"

fun chain_length :: "go_error \<Rightarrow> nat" where
  "chain_length (ValueError name) = 1"
| "chain_length (OAuthError code description status (Some e)) = Suc (chain_length e)"
| "chain_length (WrapError msg e) = Suc (chain_length e)"
| "chain_length _ = 0"

lemma chain_length_unwrap: "error_unwrap e = Some c \<Longrightarrow> chain_length c < chain_length e"
  by (cases e) auto

function errors_Is :: "go_error \<Rightarrow> go_error \<Rightarrow> bool" where
  "errors_Is e target =
     (if e = target then True
      else (case error_unwrap e of None \<Rightarrow> False | Some c \<Rightarrow> errors_Is c target))"
  by pat_completeness auto
termination
  by (relation "measure (\<lambda>(e, t). chain_length e)") (auto dest: chain_length_unwrap)

declare errors_Is.simps [simp del]

definition oauthError :: "ErrorCode \<Rightarrow> string \<Rightarrow> int \<Rightarrow> go_error option \<Rightarrow> go_error" where
  "oauthError code description status cause = OAuthError code description status cause"

definition invalidArgument :: "string \<Rightarrow> go_error option \<Rightarrow> go_error" where
  "invalidArgument description cause = oauthError ErrorInvalidRequest description 400 cause"

definition invalidGrant :: "go_error option \<Rightarrow> go_error" where
  "invalidGrant cause = oauthError ErrorInvalidGrant ''the grant is invalid'' 400 cause"

definition invalidValue :: "string \<Rightarrow> go_error" where
  "invalidValue name = ValueError name"

text \<open>\<open>isExpectedStoreDenial\<close>, \<open>storeReasonCode\<close> and \<open>mapStoreError\<close> of engine.go.\<close>

definition isExpectedStoreDenial :: "go_error \<Rightarrow> bool" where
  "isExpectedStoreDenial err \<longleftrightarrow>
     errors_Is err ErrNotFound \<or> errors_Is err ErrBinding \<or> errors_Is err ErrExpired \<or>
     errors_Is err ErrConsumed \<or> errors_Is err ErrRevoked \<or> errors_Is err ErrConflict"

definition storeReasonCode :: "go_error \<Rightarrow> string" where
  "storeReasonCode err =
     (if errors_Is err ErrCapacity then ''store_capacity''
      else if errors_Is err ErrConflict then ''store_conflict''
      else if errors_Is err ErrConsumed then ''store_consumed''
      else if errors_Is err ErrExpired then ''store_expired''
      else if errors_Is err ErrRevoked then ''store_revoked''
      else if errors_Is err ErrBinding then ''store_binding''
      else if errors_Is err ErrNotFound then ''store_not_found''
      else ''store_error'')"

definition mapStoreError :: "go_error \<Rightarrow> ErrorCode \<Rightarrow> go_error" where
  "mapStoreError err code =
     (if errors_Is err ErrCapacity
      then oauthError ErrorTemporary ''service capacity is temporarily unavailable'' 503 (Some err)
      else if errors_Is err ErrConflict \<or> errors_Is err ErrConsumed \<or> errors_Is err ErrExpired \<or>
              errors_Is err ErrRevoked \<or> errors_Is err ErrBinding \<or> errors_Is err ErrNotFound
      then oauthError code ''the OAuth state is invalid'' 400 (Some err)
      else oauthError ErrorTemporary ''service is temporarily unavailable'' 503 (Some err))"

section \<open>Lemmas\<close>

lemma errors_Is_refl [simp]: "errors_Is e e"
  by (simp add: errors_Is.simps)

lemma errors_Is_OAuthError [simp]:
  "errors_Is (OAuthError c d s None) t = (OAuthError c d s None = t)"
  "errors_Is (OAuthError c d s (Some e)) t = (OAuthError c d s (Some e) = t \<or> errors_Is e t)"
  by (subst errors_Is.simps, simp)+

lemma errors_Is_ValueError [simp]:
  "errors_Is (ValueError n) t = (t = ValueError n \<or> t = ErrInvalid)"
  by (subst errors_Is.simps, simp, subst errors_Is.simps, auto)

lemma errors_Is_sentinel [simp]:
  "errors_Is ErrNotFound t = (t = ErrNotFound)" "errors_Is ErrConsumed t = (t = ErrConsumed)"
  "errors_Is ErrExpired t = (t = ErrExpired)" "errors_Is ErrRevoked t = (t = ErrRevoked)"
  "errors_Is ErrConflict t = (t = ErrConflict)" "errors_Is ErrCapacity t = (t = ErrCapacity)"
  "errors_Is ErrBinding t = (t = ErrBinding)" "errors_Is ErrInvalid t = (t = ErrInvalid)"
  by (simp_all add: errors_Is.simps eq_commute)

lemma errors_Is_OtherError [simp]: "errors_Is (OtherError m) t = (t = OtherError m)"
  by (simp add: errors_Is.simps eq_commute)

lemma errors_Is_WrapError [simp]:
  "errors_Is (WrapError m e) t = (t = WrapError m e \<or> errors_Is e t)"
  by (subst errors_Is.simps, auto)

lemmas error_ctor_defs = oauthError_def invalidArgument_def invalidGrant_def invalidValue_def

text \<open>The errors that leave the engine through its public operations: an \<open>OAuthError\<close> whose
  status says whose fault it is.\<close>

fun public_error :: "go_error \<Rightarrow> bool" where
  "public_error (OAuthError code description status cause) =
     (status = 400 \<and> code \<noteq> ErrorTemporary \<or> status = 503 \<and> code = ErrorTemporary)"
| "public_error _ = False"

lemma public_error_ctor [simp]:
  "public_error (invalidArgument d c)" "public_error (invalidGrant c)"
  "public_error (oauthError code d status c) =
     (status = 400 \<and> code \<noteq> ErrorTemporary \<or> status = 503 \<and> code = ErrorTemporary)"
  by (simp_all add: error_ctor_defs)

lemma public_error_mapStoreError [simp]:
  "code \<noteq> ErrorTemporary \<Longrightarrow> public_error (mapStoreError e code)"
  by (simp add: mapStoreError_def)

end
