(* ===== verification/Go_Strings.thy ===== *)
theory Go_Strings
  imports Prelude
begin

text \<open>
  The functions of Go's \<open>strings\<close> package that the program uses, on byte strings:
  \<open>TrimSpace\<close>, \<open>Fields\<close>, \<open>Join\<close>, \<open>ContainsAny\<close>, \<open>TrimRight\<close>, \<open>EqualFold\<close> on
  ASCII, and \<open>sort.Find\<close>.  White space is Unicode's \<open>White_Space\<close> property, as in
  \<open>unicode.IsSpace\<close>, recognised by its UTF-8 encodings: no encoding of a space starts with a
  continuation byte, so stepping through bytes and stepping through runes find the same
  spaces.
\<close>

section \<open>White space\<close>

definition space_runes :: "string list" where
  "space_runes =
     [[CHR 0x20], [CHR 0x09], [CHR 0x0A], [CHR 0x0B], [CHR 0x0C], [CHR 0x0D],
      [CHR 0xC2, CHR 0x85], [CHR 0xC2, CHR 0xA0], [CHR 0xE1, CHR 0x9A, CHR 0x80],
      [CHR 0xE2, CHR 0x80, CHR 0x80], [CHR 0xE2, CHR 0x80, CHR 0x81],
      [CHR 0xE2, CHR 0x80, CHR 0x82], [CHR 0xE2, CHR 0x80, CHR 0x83],
      [CHR 0xE2, CHR 0x80, CHR 0x84], [CHR 0xE2, CHR 0x80, CHR 0x85],
      [CHR 0xE2, CHR 0x80, CHR 0x86], [CHR 0xE2, CHR 0x80, CHR 0x87],
      [CHR 0xE2, CHR 0x80, CHR 0x88], [CHR 0xE2, CHR 0x80, CHR 0x89],
      [CHR 0xE2, CHR 0x80, CHR 0x8A], [CHR 0xE2, CHR 0x80, CHR 0xA8],
      [CHR 0xE2, CHR 0x80, CHR 0xA9], [CHR 0xE2, CHR 0x80, CHR 0xAF],
      [CHR 0xE2, CHR 0x81, CHR 0x9F], [CHR 0xE3, CHR 0x80, CHR 0x80]]"

text \<open>The number of bytes of the white-space rune at the front of a string, 0 for none.\<close>

definition space_prefix :: "string \<Rightarrow> nat" where
  "space_prefix s =
     (case find (\<lambda>r. take (length r) s = r) space_runes of None \<Rightarrow> 0 | Some r \<Rightarrow> length r)"

text \<open>The same at the back.\<close>

definition space_suffix :: "string \<Rightarrow> nat" where
  "space_suffix s =
     (case find (\<lambda>r. take (length r) (rev s) = rev r) space_runes of
        None \<Rightarrow> 0 | Some r \<Rightarrow> length r)"

lemma space_runes_nonempty: "r \<in> set space_runes \<Longrightarrow> r \<noteq> []"
  by (auto simp: space_runes_def)

lemma find_SomeD: "find P xs = Some x \<Longrightarrow> P x \<and> x \<in> set xs"
  by (auto simp: find_Some_iff)

lemma space_prefix_cases:
  obtains (none) "space_prefix s = 0" "\<forall>r \<in> set space_runes. take (length r) s \<noteq> r"
  | (some) r where "r \<in> set space_runes" "take (length r) s = r" "space_prefix s = length r"
      "r \<noteq> []" "length r \<le> length s"
proof (cases "find (\<lambda>r. take (length r) s = r) space_runes")
  case None
  have "\<forall>r \<in> set space_runes. take (length r) s \<noteq> r"
    using None by (simp add: find_None_iff)
  moreover have "space_prefix s = 0"
    using None by (simp add: space_prefix_def)
  ultimately show ?thesis by (intro none)
next
  case (Some r)
  then have r: "take (length r) s = r" "r \<in> set space_runes"
    by (auto dest: find_SomeD)
  then have "length r \<le> length s"
    by (metis nat_le_linear take_all)
  with r Some show ?thesis
    by (intro some) (auto simp: space_prefix_def dest: space_runes_nonempty)
qed

lemma space_prefix_le: "space_prefix s \<le> length s"
  by (cases s rule: space_prefix_cases) auto

lemma space_suffix_le: "space_suffix s \<le> length s"
proof (cases "find (\<lambda>r. take (length r) (rev s) = rev r) space_runes")
  case (Some r)
  then have "take (length r) (rev s) = rev r" by (auto dest: find_SomeD)
  then have "length r \<le> length s"
    by (metis length_rev length_take min.cobounded1)
  with Some show ?thesis by (simp add: space_suffix_def)
qed (simp add: space_suffix_def)

lemma space_prefix_shorten:
  assumes "space_prefix s = 0" shows "space_prefix (take n s) = 0"
proof (cases "take n s" rule: space_prefix_cases)
  case none
  then show ?thesis by simp
next
  case (some r)
  then have "take (length r) s = r"
    by (metis length_take min.absorb1 min_def take_take)
  with some(1) assms some(4) show ?thesis
    by (cases s rule: space_prefix_cases) auto
qed

section \<open>TrimSpace\<close>

function trim_left :: "string \<Rightarrow> string" where
  "trim_left s = (if space_prefix s = 0 then s else trim_left (drop (space_prefix s) s))"
  by pat_completeness auto
termination
proof (relation "measure length", simp, goal_cases)
  case (1 s)
  then have "0 < space_prefix s" "space_prefix s \<le> length s"
    by (auto simp: space_prefix_le)
  then show ?case by simp
qed

function trim_right :: "string \<Rightarrow> string" where
  "trim_right s =
     (if space_suffix s = 0 then s else trim_right (take (length s - space_suffix s) s))"
  by pat_completeness auto
termination
proof (relation "measure length", simp, goal_cases)
  case (1 s)
  then have "0 < space_suffix s" "space_suffix s \<le> length s"
    by (auto simp: space_suffix_le)
  then show ?case by simp
qed

declare trim_left.simps [simp del] trim_right.simps [simp del]

definition TrimSpace :: "string \<Rightarrow> string" where
  "TrimSpace s = trim_right (trim_left s)"

lemma trim_left_no_prefix: "space_prefix (trim_left s) = 0"
  by (induction s rule: trim_left.induct) (subst trim_left.simps, simp)

lemma trim_right_no_suffix: "space_suffix (trim_right s) = 0"
  by (induction s rule: trim_right.induct) (subst trim_right.simps, simp)

lemma trim_right_no_prefix: "space_prefix s = 0 \<Longrightarrow> space_prefix (trim_right s) = 0"
  by (induction s rule: trim_right.induct)
     (subst trim_right.simps, simp add: space_prefix_shorten)

lemma TrimSpace_id: "space_prefix s = 0 \<Longrightarrow> space_suffix s = 0 \<Longrightarrow> TrimSpace s = s"
  by (simp add: TrimSpace_def trim_left.simps trim_right.simps)

lemma TrimSpace_idem [simp]: "TrimSpace (TrimSpace s) = TrimSpace s"
  by (rule TrimSpace_id)
     (simp_all add: TrimSpace_def trim_right_no_suffix trim_right_no_prefix trim_left_no_prefix)

text \<open>Printable ASCII without the blank: no such byte starts or ends a white-space rune.\<close>

definition graphic :: "char \<Rightarrow> bool" where
  "graphic c \<longleftrightarrow> 33 \<le> (of_char c :: int) \<and> (of_char c :: int) \<le> 126"

lemma space_runes_ends: "\<forall>r \<in> set space_runes. r \<noteq> [] \<and> \<not> graphic (hd r) \<and> \<not> graphic (last r)"
  by (simp add: space_runes_def graphic_def)

lemma space_prefix_graphics:
  assumes "\<forall>c \<in> set s. graphic c" shows "space_prefix s = 0"
proof (cases s rule: space_prefix_cases)
  case (some r)
  then have "hd r \<in> set s"
    by (metis hd_in_set in_set_takeD)
  with assms some(1) space_runes_ends show ?thesis by blast
qed

lemma space_suffix_graphics:
  assumes "\<forall>c \<in> set s. graphic c" shows "space_suffix s = 0"
proof (cases "find (\<lambda>r. take (length r) (rev s) = rev r) space_runes")
  case (Some r)
  then have r: "take (length r) (rev s) = rev r" "r \<in> set space_runes" by (auto dest: find_SomeD)
  then have "last r \<in> set s"
    by (metis hd_rev in_set_takeD list.set_sel(1) rev_is_Nil_conv set_rev space_runes_nonempty)
  with assms r(2) space_runes_ends show ?thesis by blast
qed (simp add: space_suffix_def)

lemma TrimSpace_graphics: "\<forall>c \<in> set s. graphic c \<Longrightarrow> TrimSpace s = s"
  by (simp add: TrimSpace_id space_prefix_graphics space_suffix_graphics)

section \<open>Fields and Join\<close>

text \<open>\<open>strings.Fields\<close>: the maximal runs without white space, in order.\<close>

function fields_loop :: "string \<Rightarrow> string \<Rightarrow> string list" where
  "fields_loop [] cur = (if cur = [] then [] else [cur])"
| "fields_loop (c # s) cur =
     (if space_prefix (c # s) = 0 then fields_loop s (cur @ [c])
      else (if cur = [] then [] else [cur]) @ fields_loop (drop (space_prefix (c # s)) (c # s)) [])"
  by pat_completeness auto
termination
  by (relation "measure (\<lambda>(s, cur). length s)") (auto simp: Suc_diff_le)

definition Fields :: "string \<Rightarrow> string list" where
  "Fields s = fields_loop s []"

fun Join :: "string list \<Rightarrow> string \<Rightarrow> string" where
  "Join [] sep = []"
| "Join [x] sep = x"
| "Join (x # y # xs) sep = x @ sep @ Join (y # xs) sep"

lemma space_prefix_graphic_Cons: "graphic c \<Longrightarrow> space_prefix (c # s) = 0"
proof (cases "c # s" rule: space_prefix_cases)
  case (some r)
  then have "hd (take (length r) (c # s)) = c" by (cases "length r") auto
  with some(2) have "hd r = c" by simp
  moreover assume "graphic c"
  ultimately show ?thesis using some(1) space_runes_ends by blast
qed

lemma space_prefix_blank: "space_prefix (CHR 0x20 # s) = 1"
  by (simp add: space_prefix_def space_runes_def)

lemma fields_loop_graphics:
  "\<forall>c \<in> set x. graphic c \<Longrightarrow> fields_loop (x @ s) cur = fields_loop s (cur @ x)"
  by (induction x arbitrary: cur) (simp_all add: space_prefix_graphic_Cons)

lemma fields_loop_blank:
  "fields_loop (CHR 0x20 # s) cur = (if cur = [] then [] else [cur]) @ fields_loop s []"
  by (simp add: space_prefix_blank)

declare fields_loop.simps(2) [simp del]

lemma Fields_Join:
  "\<forall>x \<in> set xs. x \<noteq> [] \<and> (\<forall>c \<in> set x. graphic c) \<Longrightarrow> Fields (Join xs [CHR 0x20]) = xs"
proof (induction xs "[CHR 0x20]" rule: Join.induct)
  case (2 x)
  then show ?case
    using fields_loop_graphics [of x "[]" "[]"] by (simp add: Fields_def)
next
  case (3 x y xs)
  then have "fields_loop (Join (y # xs) [CHR 0x20]) [] = y # xs"
    by (simp add: Fields_def)
  with "3.prems" show ?case
    by (simp add: Fields_def fields_loop_graphics fields_loop_blank)
qed (simp add: Fields_def)

lemma Join_eq_Nil:
  "\<forall>x \<in> set xs. x \<noteq> [] \<Longrightarrow> Join xs sep = [] \<longleftrightarrow> xs = []"
  by (induction xs sep rule: Join.induct) auto

lemma hd_Join: "xs \<noteq> [] \<Longrightarrow> hd xs \<noteq> [] \<Longrightarrow> hd (Join xs sep) = hd (hd xs)"
  by (induction xs sep rule: Join.induct) auto

lemma trim_left_graphic: "graphic c \<Longrightarrow> trim_left (c # s) = c # s"
  by (simp add: trim_left.simps space_prefix_graphic_Cons)

lemma trim_right_nonempty_prefix: "space_prefix s = 0 \<Longrightarrow> s \<noteq> [] \<Longrightarrow> trim_right s \<noteq> []"
proof (induction s rule: trim_right.induct)
  case (1 s)
  show ?case
  proof (cases "space_suffix s = 0")
    case True
    with 1 show ?thesis by (subst trim_right.simps) simp
  next
    case False
    let ?t = "take (length s - space_suffix s) s"
    have "?t \<noteq> []"
    proof
      assume "?t = []"
      with space_suffix_le [of s] \<open>s \<noteq> []\<close> have len: "space_suffix s = length s" by simp
      from False obtain r where r: "find (\<lambda>r. take (length r) (rev s) = rev r) space_runes = Some r"
        by (auto simp: space_suffix_def split: option.splits)
      then have rs: "take (length r) (rev s) = rev r" "r \<in> set space_runes"
        by (auto dest: find_SomeD)
      moreover from r len have "length r = length s" by (simp add: space_suffix_def)
      ultimately have "rev s = rev r" by simp
      then have "s \<in> set space_runes" using rs by simp
      with \<open>space_prefix s = 0\<close> \<open>s \<noteq> []\<close> show False
        by (cases s rule: space_prefix_cases) auto
    qed
    with 1 False show ?thesis
      by (subst trim_right.simps) (simp add: space_prefix_shorten)
  qed
qed

section \<open>Searching\<close>

text \<open>\<open>strings.ContainsAny\<close> for a set of ASCII characters.\<close>

definition ContainsAny :: "string \<Rightarrow> string \<Rightarrow> bool" where
  "ContainsAny s cs = list_ex (\<lambda>c. c \<in> set cs) s"

definition blanks :: string where
  "blanks = [CHR 0x20, CHR 0x09, CHR 0x0D, CHR 0x0A]"

text \<open>\<open>strings.TrimRight\<close> for a set of ASCII characters.\<close>

definition TrimRight :: "string \<Rightarrow> string \<Rightarrow> string" where
  "TrimRight s cs = rev (dropWhile (\<lambda>c. c \<in> set cs) (rev s))"

text \<open>\<open>strings.EqualFold\<close> against an ASCII letter string without \<open>k\<close> and \<open>s\<close> (the two ASCII
  letters with a non-ASCII fold): ASCII case folding.\<close>

definition ascii_lower :: "char \<Rightarrow> char" where
  "ascii_lower c =
     (let n = (of_char c :: nat) in if 65 \<le> n \<and> n \<le> 90 then char_of (n + 32) else c)"

definition EqualFold :: "string \<Rightarrow> string \<Rightarrow> bool" where
  "EqualFold s t = (map ascii_lower s = map ascii_lower t)"

text \<open>\<open>sort.Find\<close>: binary search for the least index at which the comparison is not positive,
  with the loop's two indices.\<close>

function find_loop :: "(nat \<Rightarrow> int) \<Rightarrow> nat \<Rightarrow> nat \<Rightarrow> nat" where
  "find_loop cmp i j =
     (if i < j then
        let h = (i + j) div 2
        in if 0 < cmp h then find_loop cmp (h + 1) j else find_loop cmp i h
      else i)"
  by pat_completeness auto
termination
  by (relation "measure (\<lambda>(cmp, i, j). j - i)") auto

declare find_loop.simps [simp del]

definition sort_Find :: "nat \<Rightarrow> (nat \<Rightarrow> int) \<Rightarrow> nat \<times> bool" where
  "sort_Find n cmp = (let i = find_loop cmp 0 n in (i, i < n \<and> cmp i = 0))"

lemma find_loop_least:
  "(\<forall>x y. x \<le> y \<longrightarrow> y < n \<longrightarrow> cmp x \<le> 0 \<longrightarrow> cmp y \<le> 0) \<Longrightarrow>
   i \<le> j \<Longrightarrow> j \<le> n \<Longrightarrow> (\<forall>x < i. 0 < cmp x) \<Longrightarrow> (\<forall>x. j \<le> x \<longrightarrow> x < n \<longrightarrow> cmp x \<le> 0) \<Longrightarrow>
   find_loop cmp i j \<le> n \<and> (\<forall>x < find_loop cmp i j. 0 < cmp x) \<and>
   (\<forall>x. find_loop cmp i j \<le> x \<longrightarrow> x < n \<longrightarrow> cmp x \<le> 0)"
proof (induction cmp i j rule: find_loop.induct)
  case (1 cmp i j)
  show ?case
  proof (cases "i < j")
    case False
    then have "find_loop cmp i j = i" by (simp add: find_loop.simps)
    with "1.prems" False show ?thesis by simp
  next
    case True
    let ?h = "(i + j) div 2"
    from True have h: "i \<le> ?h" "?h < j" by auto
    show ?thesis
    proof (cases "0 < cmp ?h")
      case pos: True
      have below: "\<forall>x < ?h + 1. 0 < cmp x"
      proof (intro allI impI, rule ccontr)
        fix x assume "x < ?h + 1" "\<not> 0 < cmp x"
        then have "x \<le> ?h" "cmp x \<le> 0" by simp_all
        with "1.prems"(1,3) h have "cmp ?h \<le> 0"
          by (meson less_le_trans)
        with pos show False by simp
      qed
      have "find_loop cmp i j = find_loop cmp (?h + 1) j"
        using True pos by (subst find_loop.simps) (simp add: Let_def)
      moreover have "?h + 1 \<le> j" using h by simp
      ultimately show ?thesis
        using "1.IH"(1) [OF True refl pos "1.prems"(1)] "1.prems"(3,5) below by simp
    next
      case neg: False
      have above: "\<forall>x. ?h \<le> x \<longrightarrow> x < n \<longrightarrow> cmp x \<le> 0"
        using "1.prems"(1) neg by (meson not_less)
      have "find_loop cmp i j = find_loop cmp i ?h"
        using True neg by (subst find_loop.simps) (simp add: Let_def)
      moreover have "?h \<le> n" using h "1.prems"(3) by simp
      ultimately show ?thesis
        using "1.IH"(2) [OF True refl neg "1.prems"(1)] h(1) "1.prems"(4) above by simp
    qed
  qed
qed

end
