(* ===== verification/Go_Crypto.thy ===== *)
theory Go_Crypto
  imports Prelude
begin

unbundle bit_operations_syntax

text \<open>
  \<open>base64.RawURLEncoding\<close> and \<open>sha256.Sum256\<close> on byte strings.  The words of SHA-256 are
  integers between 0 and \<open>2 ^ 32 - 1\<close> with the wrap-around of every addition written out,
  which the kernel evaluates in seconds; the functions are those of FIPS 180-4.
\<close>

section \<open>base64url without padding\<close>

definition b64_alphabet :: string where
  "b64_alphabet = ''ABCDEFGHIJKLMNOPQRSTUVWXYZabcdefghijklmnopqrstuvwxyz0123456789-_''"

definition b64_char :: "int \<Rightarrow> char" where
  "b64_char n = b64_alphabet ! nat n"

definition b64_value :: "char \<Rightarrow> int option" where
  "b64_value c =
     (let n = (of_char c :: int)
      in if 65 \<le> n \<and> n \<le> 90 then Some (n - 65)
         else if 97 \<le> n \<and> n \<le> 122 then Some (n - 71)
         else if 48 \<le> n \<and> n \<le> 57 then Some (n + 4)
         else if n = 45 then Some 62
         else if n = 95 then Some 63
         else None)"

text \<open>Groups of three bytes become four characters; a rest of one or two bytes becomes two or
  three.\<close>

fun b64_encode_ints :: "int list \<Rightarrow> int list" where
  "b64_encode_ints (a # b # c # xs) =
     [a div 4, (a mod 4) * 16 + b div 16, (b mod 16) * 4 + c div 64, c mod 64] @ b64_encode_ints xs"
| "b64_encode_ints [a, b] = [a div 4, (a mod 4) * 16 + b div 16, (b mod 16) * 4]"
| "b64_encode_ints [a] = [a div 4, (a mod 4) * 16]"
| "b64_encode_ints [] = []"

text \<open>The decoder ignores the unused low bits of the last character (it is not strict), and
  rejects a single trailing character.\<close>

fun b64_decode_ints :: "int list \<Rightarrow> int list option" where
  "b64_decode_ints (a # b # c # d # xs) =
     map_option (\<lambda>ys. [a * 4 + b div 16, (b mod 16) * 16 + c div 4, (c mod 4) * 64 + d] @ ys)
       (b64_decode_ints xs)"
| "b64_decode_ints [a, b, c] = Some [a * 4 + b div 16, (b mod 16) * 16 + c div 4]"
| "b64_decode_ints [a, b] = Some [a * 4 + b div 16]"
| "b64_decode_ints [a] = None"
| "b64_decode_ints [] = Some []"

definition EncodeToString :: "string \<Rightarrow> string" where
  "EncodeToString bs = map b64_char (b64_encode_ints (map of_char bs))"

text \<open>\<open>DecodeString\<close> skips carriage returns and line feeds.\<close>

definition DecodeString :: "string \<Rightarrow> string option" where
  "DecodeString s =
     (let t = filter (\<lambda>c. c \<noteq> CHR 0x0D \<and> c \<noteq> CHR 0x0A) s;
          vs = map b64_value t
      in if list_ex Option.is_none vs then None
         else map_option (map char_of) (b64_decode_ints (map the vs)))"

lemma b64_alphabet_length: "length b64_alphabet = 64"
  by (simp add: b64_alphabet_def)

lemma b64_alphabet_values: "map b64_value b64_alphabet = map Some (map int [0..<64])"
  by (simp add: b64_alphabet_def b64_value_def upt_rec)

lemma b64_value_char: "0 \<le> n \<Longrightarrow> n < 64 \<Longrightarrow> b64_value (b64_char n) = Some n"
  using arg_cong [OF b64_alphabet_values, of "\<lambda>xs. xs ! nat n"]
  by (simp add: b64_char_def b64_alphabet_length)

lemma b64_char_graph:
  "0 \<le> n \<Longrightarrow> n < 64 \<Longrightarrow> b64_char n \<noteq> CHR 0x0D \<and> b64_char n \<noteq> CHR 0x0A"
  using b64_value_char [of n] by (auto simp: b64_value_def)

definition bytes_ok :: "int list \<Rightarrow> bool" where
  "bytes_ok xs \<longleftrightarrow> (\<forall>x \<in> set xs. 0 \<le> x \<and> x < 256)"

lemma bytes_ok_of_char: "bytes_ok (map of_char (bs :: string))"
  unfolding bytes_ok_def
proof
  fix x assume "x \<in> set (map of_char bs :: int list)"
  then obtain c where "x = of_char c" by auto
  moreover have "(of_char c :: int) = of_char c mod 256"
    by (metis char_of_char of_char_of)
  ultimately show "0 \<le> x \<and> x < 256"
    by (metis pos_mod_bound pos_mod_sign zero_less_numeral)
qed

lemma b64_two_digits:
  fixes x y :: int
  shows "0 \<le> x \<and> x < 4 \<Longrightarrow> 0 \<le> y \<and> y < 16 \<Longrightarrow> 0 \<le> x * 16 + y \<and> x * 16 + y < 64"
    and "0 \<le> x \<and> x < 16 \<Longrightarrow> 0 \<le> y \<and> y < 4 \<Longrightarrow> 0 \<le> x * 4 + y \<and> x * 4 + y < 64"
  by auto

lemma byte_div:
  fixes a :: int
  assumes "0 \<le> a" and "a < 256"
  shows "0 \<le> a div 4 \<and> a div 4 < 64" and "0 \<le> a div 16 \<and> a div 16 < 16"
    and "0 \<le> a div 64 \<and> a div 64 < 4"
  using assms by (simp_all add: pos_imp_zdiv_nonneg_iff)

lemma b64_digit_bounds:
  fixes a b :: int
  shows "0 \<le> a \<Longrightarrow> a < 256 \<Longrightarrow> 0 \<le> a div 4 \<and> a div 4 < 64"
    and "0 \<le> b \<Longrightarrow> b < 256 \<Longrightarrow> 0 \<le> a mod 4 * 16 + b div 16 \<and> a mod 4 * 16 + b div 16 < 64"
    and "0 \<le> b \<Longrightarrow> b < 256 \<Longrightarrow> 0 \<le> a mod 16 * 4 + b div 64 \<and> a mod 16 * 4 + b div 64 < 64"
    and "0 \<le> a mod 4 * 16 \<and> a mod 4 * 16 < 64"
    and "0 \<le> a mod 16 * 4 \<and> a mod 16 * 4 < 64"
  using b64_two_digits(1) [of "a mod 4" 0] b64_two_digits(2) [of "a mod 16" 0]
  by (simp_all add: byte_div b64_two_digits)

lemma b64_encode_ints_bound:
  "bytes_ok xs \<Longrightarrow> \<forall>y \<in> set (b64_encode_ints xs). 0 \<le> y \<and> y < 64"
  by (induction xs rule: b64_encode_ints.induct) (simp_all add: bytes_ok_def b64_digit_bounds)

lemma b64_nats_roundtrip: "bytes_ok xs \<Longrightarrow> b64_decode_ints (b64_encode_ints xs) = Some xs"
proof (induction xs rule: b64_encode_ints.induct)
  case (1 a b c xs)
  then have "bytes_ok xs" "0 \<le> b" "b < 256" "0 \<le> c" "c < 256"
    by (simp_all add: bytes_ok_def)
  then have "0 \<le> b div 16" "b div 16 < 16" "0 \<le> c div 64" "c div 64 < 4"
    by (simp_all add: pos_imp_zdiv_nonneg_iff)
  then show ?case using 1 \<open>bytes_ok xs\<close> by simp
next
  case (2 a b)
  then have "0 \<le> b" "b < 256" by (simp_all add: bytes_ok_def)
  then have "0 \<le> b div 16" "b div 16 < 16"
    by (simp_all add: pos_imp_zdiv_nonneg_iff)
  then show ?case by simp
qed simp_all

theorem b64_roundtrip: "DecodeString (EncodeToString bs) = Some bs"
proof -
  let ?ns = "map of_char bs :: int list"
  note e = b64_encode_ints_bound [OF bytes_ok_of_char [of bs]]
  have "filter (\<lambda>c. c \<noteq> CHR 0x0D \<and> c \<noteq> CHR 0x0A) (EncodeToString bs) = EncodeToString bs"
    using e by (auto simp: EncodeToString_def filter_id_conv b64_char_graph)
  moreover have "map b64_value (EncodeToString bs) = map Some (b64_encode_ints ?ns)"
    using e by (simp add: EncodeToString_def b64_value_char)
  moreover have "map char_of ?ns = bs"
    by (simp add: comp_def)
  moreover have "\<not> list_ex Option.is_none (map Some (b64_encode_ints ?ns))"
    by (simp add: list_ex_iff)
  moreover have "map the (map Some (b64_encode_ints ?ns)) = b64_encode_ints ?ns"
    by (simp add: comp_def)
  ultimately show ?thesis
    by (simp only: DecodeString_def Let_def b64_nats_roundtrip [OF bytes_ok_of_char] if_False
        option.map)
qed

lemma b64_encode_ints_length: "length (b64_encode_ints xs) = (length xs * 4 + 2) div 3"
  by (induction xs rule: b64_encode_ints.induct) auto

lemma EncodeToString_length: "length (EncodeToString bs) = (length bs * 4 + 2) div 3"
  by (simp add: EncodeToString_def b64_encode_ints_length)

lemma EncodeToString_inj: "EncodeToString a = EncodeToString b \<Longrightarrow> a = b"
  by (metis b64_roundtrip option.inject)

lemma EncodeToString_alphabet: "c \<in> set (EncodeToString bs) \<Longrightarrow> c \<in> set b64_alphabet"
  using b64_encode_ints_bound [OF bytes_ok_of_char [of bs]]
  by (auto simp: EncodeToString_def b64_char_def b64_alphabet_length)

section \<open>SHA-256\<close>

definition add32 :: "int \<Rightarrow> int \<Rightarrow> int" where
  "add32 x y = (x + y) AND 0xffffffff"

definition rotr :: "nat \<Rightarrow> int \<Rightarrow> int" where
  "rotr n x = drop_bit n x OR (push_bit (32 - n) x AND 0xffffffff)"

definition sha_Ch :: "int \<Rightarrow> int \<Rightarrow> int \<Rightarrow> int" where
  "sha_Ch x y z = (x AND y) XOR ((0xffffffff XOR x) AND z)"

definition sha_Maj :: "int \<Rightarrow> int \<Rightarrow> int \<Rightarrow> int" where
  "sha_Maj x y z = (x AND y) XOR (x AND z) XOR (y AND z)"

definition sha_Sigma0 :: "int \<Rightarrow> int" where
  "sha_Sigma0 x = rotr 2 x XOR rotr 13 x XOR rotr 22 x"

definition sha_Sigma1 :: "int \<Rightarrow> int" where
  "sha_Sigma1 x = rotr 6 x XOR rotr 11 x XOR rotr 25 x"

definition sha_sigma0 :: "int \<Rightarrow> int" where
  "sha_sigma0 x = rotr 7 x XOR rotr 18 x XOR drop_bit 3 x"

definition sha_sigma1 :: "int \<Rightarrow> int" where
  "sha_sigma1 x = rotr 17 x XOR rotr 19 x XOR drop_bit 10 x"

definition sha_K :: "int list" where
  "sha_K =
    [1116352408, 1899447441, 3049323471, 3921009573, 961987163, 1508970993, 2453635748,
     2870763221, 3624381080, 310598401, 607225278, 1426881987, 1925078388, 2162078206,
     2614888103, 3248222580, 3835390401, 4022224774, 264347078, 604807628, 770255983, 1249150122,
     1555081692, 1996064986, 2554220882, 2821834349, 2952996808, 3210313671, 3336571891,
     3584528711, 113926993, 338241895, 666307205, 773529912, 1294757372, 1396182291, 1695183700,
     1986661051, 2177026350, 2456956037, 2730485921, 2820302411, 3259730800, 3345764771,
     3516065817, 3600352804, 4094571909, 275423344, 430227734, 506948616, 659060556, 883997877,
     958139571, 1322822218, 1537002063, 1747873779, 1955562222, 2024104815, 2227730452,
     2361852424, 2428436474, 2756734187, 3204031479, 3329325298]"

definition sha_H0 :: "int list" where
  "sha_H0 =
    [1779033703, 3144134277, 1013904242, 2773480762, 1359893119, 2600822924, 528734635,
     1541459225]"

fun sha_t1 :: "int \<Rightarrow> int \<Rightarrow> int list \<Rightarrow> int" where
  "sha_t1 k w [a, b, c, d, e, f, g, h] =
     add32 h (add32 (sha_Sigma1 e) (add32 (sha_Ch e f g) (add32 k w)))"
| "sha_t1 _ _ _ = 0"

fun sha_t2 :: "int list \<Rightarrow> int" where
  "sha_t2 [a, b, c, d, e, f, g, h] = add32 (sha_Sigma0 a) (sha_Maj a b c)"
| "sha_t2 _ = 0"

fun sha_shift :: "int \<Rightarrow> int \<Rightarrow> int list \<Rightarrow> int list" where
  "sha_shift t1 t2 [a, b, c, d, e, f, g, h] = [add32 t1 t2, a, b, c, add32 d t1, e, f, g]"
| "sha_shift _ _ st = st"

text \<open>The message schedule as a window of sixteen words.\<close>

fun sha_schedule :: "int list \<Rightarrow> int list" where
  "sha_schedule [w0, w1, w2, w3, w4, w5, w6, w7, w8, w9, w10, w11, w12, w13, w14, w15] =
     [w1, w2, w3, w4, w5, w6, w7, w8, w9, w10, w11, w12, w13, w14, w15,
      add32 (sha_sigma1 w14) (add32 w9 (add32 (sha_sigma0 w1) w0))]"
| "sha_schedule ws = ws"

fun sha_rounds :: "int list \<Rightarrow> int list \<Rightarrow> int list \<Rightarrow> int list" where
  "sha_rounds [] ws st = st"
| "sha_rounds (k # ks) ws st =
     sha_rounds ks (sha_schedule ws) (sha_shift (sha_t1 k (hd ws) st) (sha_t2 st) st)"

definition sha_compress :: "int list \<Rightarrow> int list \<Rightarrow> int list" where
  "sha_compress st ws = map2 add32 st (sha_rounds sha_K ws st)"

fun be_words :: "int list \<Rightarrow> int list" where
  "be_words (a # b # c # d # xs) =
     (push_bit 24 a OR push_bit 16 b OR push_bit 8 c OR d) # be_words xs"
| "be_words _ = []"

definition be_bytes :: "int \<Rightarrow> int list" where
  "be_bytes w = [drop_bit 24 w AND 255, drop_bit 16 w AND 255, drop_bit 8 w AND 255, w AND 255]"

text \<open>The length field holds the number of bits as a 64-bit integer.\<close>

definition sha_pad :: "int list \<Rightarrow> int list" where
  "sha_pad bs =
     (let n = 8 * int (length bs)
      in bs @ 128 # replicate ((119 - length bs mod 64) mod 64) 0 @
           be_bytes (drop_bit 32 n AND 0xffffffff) @ be_bytes (n AND 0xffffffff))"

function sha_blocks :: "int list \<Rightarrow> int list \<Rightarrow> int list" where
  "sha_blocks [] st = st"
| "sha_blocks (w # ws) st =
     sha_blocks (drop 16 (w # ws)) (sha_compress st (take 16 (w # ws)))"
  by pat_completeness auto
termination
  by (relation "measure (\<lambda>(ws, st). length ws)") auto

definition Sum256 :: "string \<Rightarrow> string" where
  "Sum256 s =
     concat (map (\<lambda>w. map char_of (be_bytes w))
       (sha_blocks (be_words (sha_pad (map of_char s))) sha_H0))"

lemma sha_rounds_length: "length st = 8 \<Longrightarrow> length (sha_rounds ks ws st) = 8"
proof (induction ks arbitrary: ws st)
  case (Cons k ks)
  obtain a b c d e f g h where "st = [a, b, c, d, e, f, g, h]"
    using Cons.prems by (auto simp: numeral_eq_Suc length_Suc_conv)
  then show ?case using Cons.IH by simp
qed simp

lemma sha_blocks_length: "length st = 8 \<Longrightarrow> length (sha_blocks ws st) = 8"
  by (induction ws st rule: sha_blocks.induct) (simp_all add: sha_compress_def sha_rounds_length)

lemma Sum256_length [simp]: "length (Sum256 s) = 32"
proof -
  have "length (sha_blocks ws sha_H0) = 8" for ws
    by (rule sha_blocks_length) (simp add: sha_H0_def)
  then have "length (concat (map (\<lambda>w. map char_of (be_bytes w))
      (sha_blocks ws sha_H0)) :: char list) = 32" for ws
    by (simp add: length_concat comp_def be_bytes_def sum_list_triv)
  then show ?thesis by (simp add: Sum256_def)
qed

text \<open>The test vector of FIPS 180-4 for the message \<open>abc\<close>.\<close>

lemma Sum256_abc:
  "map of_char (Sum256 ''abc'') =
    [0xba, 0x78, 0x16, 0xbf, 0x8f, 0x01, 0xcf, 0xea, 0x41, 0x41, 0x40, 0xde, 0x5d, 0xae, 0x22, 0x23,
     0xb0, 0x03, 0x61, 0xa3, 0x96, 0x17, 0x7a, 0x9c, 0xb4, 0x10, 0xff, 0x61, 0xf2, 0x00, 0x15,
     0xad :: int]"
  by code_simp

end
