(* ===== verification/Go_Url.thy ===== *)
theory Go_Url
  imports Go_Strings
begin

text \<open>
  \<open>net/url\<close>: \<open>Parse\<close>, \<open>Hostname\<close>, \<open>String\<close>, \<open>Query\<close>, \<open>Values.Get\<close>, \<open>Values.Set\<close>,
  \<open>Values.Encode\<close>, \<open>QueryEscape\<close> and \<open>QueryUnescape\<close>, on byte strings, as the toolchain of
  \<open>go.mod\<close> (Go 1.26) has them: a host holds at most one colon outside brackets, and brackets
  enclose a valid IPv6 address.  The text of a parse error carries no information the program
  uses, so \<open>url_Parse\<close> returns an option.
\<close>

section \<open>Characters\<close>

definition ascii_digit :: "char \<Rightarrow> bool" where
  "ascii_digit c \<longleftrightarrow> 48 \<le> (of_char c :: int) \<and> (of_char c :: int) \<le> 57"

definition ascii_upper :: "char \<Rightarrow> bool" where
  "ascii_upper c \<longleftrightarrow> 65 \<le> (of_char c :: int) \<and> (of_char c :: int) \<le> 90"

definition ascii_lowercase :: "char \<Rightarrow> bool" where
  "ascii_lowercase c \<longleftrightarrow> 97 \<le> (of_char c :: int) \<and> (of_char c :: int) \<le> 122"

definition ascii_alnum :: "char \<Rightarrow> bool" where
  "ascii_alnum c \<longleftrightarrow> ascii_digit c \<or> ascii_upper c \<or> ascii_lowercase c"

definition hex_value :: "char \<Rightarrow> nat option" where
  "hex_value c =
     (let n = (of_char c :: nat)
      in if 48 \<le> n \<and> n \<le> 57 then Some (n - 48)
         else if 65 \<le> n \<and> n \<le> 70 then Some (n - 55)
         else if 97 \<le> n \<and> n \<le> 102 then Some (n - 87)
         else None)"

definition hex_digit :: "nat \<Rightarrow> char" where
  "hex_digit n = ''0123456789ABCDEF'' ! n"

section \<open>Splitting\<close>

text \<open>\<open>strings.Cut\<close> at a single character: what precedes it and what follows, if it occurs.\<close>

fun cut :: "char \<Rightarrow> string \<Rightarrow> string \<times> string option" where
  "cut x [] = ([], None)"
| "cut x (c # s) =
     (if c = x then ([], Some s) else (case cut x s of (a, b) \<Rightarrow> (c # a, b)))"

definition after_cut :: "string option \<Rightarrow> string" where
  "after_cut r = (case r of None \<Rightarrow> [] | Some s \<Rightarrow> s)"

text \<open>The same at the last occurrence.\<close>

definition cut_last :: "char \<Rightarrow> string \<Rightarrow> (string \<times> string) option" where
  "cut_last x s =
     (case cut x (rev s) of (b, None) \<Rightarrow> None | (b, Some a) \<Rightarrow> Some (rev a, rev b))"

lemma cut_append: "x \<notin> set a \<Longrightarrow> cut x (a @ x # b) = (a, Some b)"
  by (induction a) auto

lemma cut_none: "x \<notin> set a \<Longrightarrow> cut x a = (a, None)"
  by (induction a) auto

section \<open>Percent encoding\<close>

datatype encoding =
  encodePath | encodeHost | encodeZone | encodeUserPassword | encodeQueryComponent | encodeFragment

definition shouldEscape :: "char \<Rightarrow> encoding \<Rightarrow> bool" where
  "shouldEscape c mode =
     (if ascii_alnum c then False
      else if mode \<in> {encodeHost, encodeZone} \<and> c \<in> set ''!$&()*+,;=:[]<>'' \<union> {CHR 0x22, CHR 0x27}
        then False
      else if c \<in> set ''-_.~'' then False
      else if c \<in> set ''$&+,/:;=?@'' then
        (case mode of
           encodePath \<Rightarrow> c = CHR ''?''
         | encodeUserPassword \<Rightarrow> c \<in> set ''@/?:''
         | encodeQueryComponent \<Rightarrow> True
         | encodeFragment \<Rightarrow> False
         | _ \<Rightarrow> True)
      else if mode = encodeFragment \<and> c \<in> set ''!()*'' then False
      else True)"

definition percent :: "char \<Rightarrow> string" where
  "percent c =
     (let n = (of_char c :: nat) in [CHR ''%'', hex_digit (n div 16), hex_digit (n mod 16)])"

definition escape :: "encoding \<Rightarrow> string \<Rightarrow> string" where
  "escape mode s =
     concat (map (\<lambda>c.
       if mode = encodeQueryComponent \<and> c = CHR '' '' then [CHR ''+'']
       else if shouldEscape c mode then percent c
       else [c]) s)"

fun unescape :: "encoding \<Rightarrow> string \<Rightarrow> string option" where
  "unescape mode [] = Some []"
| "unescape mode (c # s) =
     (if c = CHR ''%'' then
        (case s of
           h # l # t \<Rightarrow>
             (case (hex_value h, hex_value l) of
                (Some a, Some b) \<Rightarrow>
                  (let v = char_of (16 * a + b); is25 = (h = CHR ''2'' \<and> l = CHR ''5'')
                   in if mode = encodeHost \<and> a < 8 \<and> \<not> is25 then None
                      else if mode = encodeZone \<and> \<not> is25 \<and> v \<noteq> CHR '' '' \<and> shouldEscape v encodeHost
                        then None
                      else map_option ((#) v) (unescape mode t))
              | _ \<Rightarrow> None)
         | _ \<Rightarrow> None)
      else if c = CHR ''+'' \<and> mode = encodeQueryComponent
        then map_option ((#) (CHR '' '')) (unescape mode s)
      else if mode \<in> {encodeHost, encodeZone} \<and> (of_char c :: int) < 128 \<and> shouldEscape c mode
        then None
      else map_option ((#) c) (unescape mode s))"

definition QueryEscape :: "string \<Rightarrow> string" where
  "QueryEscape = escape encodeQueryComponent"

definition QueryUnescape :: "string \<Rightarrow> string option" where
  "QueryUnescape = unescape encodeQueryComponent"

section \<open>IP literals\<close>

text \<open>\<open>netip.ParseAddr\<close> on the text between brackets, which must not be an IPv4 address.\<close>

fun ipv4_field :: "string \<Rightarrow> bool" where
  "ipv4_field s =
     (s \<noteq> [] \<and> length s \<le> 3 \<and> list_all ascii_digit s \<and>
      (length s = 1 \<or> hd s \<noteq> CHR ''0'') \<and>
      foldl (\<lambda>n c. 10 * n + (of_char c - 48)) (0 :: nat) s \<le> 255)"

fun split_on :: "char \<Rightarrow> string \<Rightarrow> string list" where
  "split_on x [] = [[]]"
| "split_on x (c # s) =
     (if c = x then [] # split_on x s
      else (case split_on x s of [] \<Rightarrow> [[c]] | f # fs \<Rightarrow> (c # f) # fs))"

definition ipv4_ok :: "string \<Rightarrow> bool" where
  "ipv4_ok s = (let fs = split_on (CHR ''.'') s in length fs = 4 \<and> list_all ipv4_field fs)"

text \<open>\<open>left\<close> counts the 16-bit groups still to fill; \<open>ell\<close> says whether \<open>::\<close> was seen.\<close>

fun ipv6_groups :: "nat \<Rightarrow> bool \<Rightarrow> string \<Rightarrow> bool" where
  "ipv6_groups 0 ell s = (s = [] \<and> \<not> ell)"
| "ipv6_groups (Suc left) ell s =
     (let ds = takeWhile (\<lambda>c. hex_value c \<noteq> None) s; r = dropWhile (\<lambda>c. hex_value c \<noteq> None) s
      in if ds = [] \<or> 4 < length ds then False
         else (case r of
             [] \<Rightarrow> (left = 0) \<noteq> ell
           | c # t \<Rightarrow>
               if c = CHR ''.'' then
                 (if \<not> ell \<and> left \<noteq> 1 then False
                  else if left = 0 then False
                  else ipv4_ok s \<and> ((left = 1) \<noteq> ell))
               else if c \<noteq> CHR '':'' \<or> t = [] then False
               else if hd t = CHR '':'' then
                 (if ell then False
                  else if tl t = [] then 0 < left
                  else 0 < left \<and> ipv6_groups left True (tl t))
               else ipv6_groups left ell t))"

definition ipv6_ok :: "string \<Rightarrow> bool" where
  "ipv6_ok s =
     (case cut (CHR ''%'') s of (a, zone) \<Rightarrow>
        zone \<noteq> Some [] \<and> CHR '':'' \<in> set a \<and>
        (if take 2 a = ''::'' then (if length a = 2 then True else ipv6_groups 8 True (drop 2 a))
         else ipv6_groups 8 False a))"

section \<open>Parsing\<close>

record url =
  url_Scheme :: string
  url_Opaque :: string
  url_User :: "(string \<times> string option) option"
  url_Host :: string
  url_Path :: string
  url_RawPath :: string
  url_OmitHost :: bool
  url_ForceQuery :: bool
  url_RawQuery :: string
  url_Fragment :: string
  url_RawFragment :: string

definition empty_url :: url where
  "empty_url = \<lparr>url_Scheme = [], url_Opaque = [], url_User = None, url_Host = [], url_Path = [],
     url_RawPath = [], url_OmitHost = False, url_ForceQuery = False, url_RawQuery = [],
     url_Fragment = [], url_RawFragment = []\<rparr>"

definition contains_ctl :: "string \<Rightarrow> bool" where
  "contains_ctl s = list_ex (\<lambda>c. (of_char c :: int) < 32 \<or> (of_char c :: int) = 127) s"

text \<open>The scheme scanned so far is the first argument; \<open>None\<close> is a missing scheme before a
  colon, \<open>Some ([], raw)\<close> no scheme.\<close>

fun getScheme_loop :: "string \<Rightarrow> string \<Rightarrow> string \<Rightarrow> (string \<times> string) option" where
  "getScheme_loop raw seen [] = Some ([], raw)"
| "getScheme_loop raw seen (c # s) =
     (if ascii_upper c \<or> ascii_lowercase c then getScheme_loop raw (seen @ [c]) s
      else if ascii_digit c \<or> c \<in> set ''+-.'' then
        (if seen = [] then Some ([], raw) else getScheme_loop raw (seen @ [c]) s)
      else if c = CHR '':'' then (if seen = [] then None else Some (seen, s))
      else Some ([], raw))"

definition getScheme :: "string \<Rightarrow> (string \<times> string) option" where
  "getScheme raw = getScheme_loop raw [] raw"

definition validOptionalPort :: "string \<Rightarrow> bool" where
  "validOptionalPort p = (case p of [] \<Rightarrow> True | c # s \<Rightarrow> c = CHR '':'' \<and> list_all ascii_digit s)"

definition validUserinfo :: "string \<Rightarrow> bool" where
  "validUserinfo s =
     list_all (\<lambda>c. ascii_alnum c \<or> c \<in> set ''-._:~!$&()*+,;=%@'' \<union> {CHR 0x27}) s"

fun find_zone :: "string \<Rightarrow> (string \<times> string) option" where
  "find_zone [] = None"
| "find_zone (c # s) =
     (if take 3 (c # s) = ''%25'' then Some ([], c # s)
      else map_option (\<lambda>(a, b). (c # a, b)) (find_zone s))"

definition parseHost :: "string \<Rightarrow> string option" where
  "parseHost host =
     (case cut_last (CHR ''['') host of
        Some (_, _) \<Rightarrow>
          (case cut_last (CHR '']'') host of
             None \<Rightarrow> None
           | Some (bef, colonPort) \<Rightarrow>
               (case cut_last (CHR ''['') bef of
                  None \<Rightarrow> None
                | Some (_, hostname) \<Rightarrow>
                    (if \<not> validOptionalPort colonPort then None
                     else
                       (case (unescape encodeHost colonPort,
                              (case find_zone hostname of
                                 None \<Rightarrow> unescape encodeHost hostname
                               | Some (a, z) \<Rightarrow>
                                   (case (unescape encodeHost a, unescape encodeZone z) of
                                      (Some a', Some z') \<Rightarrow> Some (a' @ z')
                                    | _ \<Rightarrow> None))) of
                          (Some port, Some h) \<Rightarrow>
                            (if ipv6_ok h then Some (''['' @ h @ '']'' @ port) else None)
                        | _ \<Rightarrow> None))))
      | None \<Rightarrow>
          (case cut (CHR '':'') host of
             (_, Some port) \<Rightarrow>
               (if validOptionalPort (CHR '':'' # port) then unescape encodeHost host else None)
           | (_, None) \<Rightarrow> unescape encodeHost host))"

definition parseAuthority :: "string \<Rightarrow> ((string \<times> string option) option \<times> string) option" where
  "parseAuthority authority =
     (case cut_last (CHR ''@'') authority of
        None \<Rightarrow> map_option (\<lambda>h. (None, h)) (parseHost authority)
      | Some (userinfo, rest) \<Rightarrow>
          (case parseHost rest of
             None \<Rightarrow> None
           | Some h \<Rightarrow>
               (if \<not> validUserinfo userinfo then None
                else
                  (case cut (CHR '':'') userinfo of
                     (name, None) \<Rightarrow>
                       map_option (\<lambda>n. (Some (n, None), h)) (unescape encodeUserPassword name)
                   | (name, Some pass) \<Rightarrow>
                       (case (unescape encodeUserPassword name, unescape encodeUserPassword pass) of
                          (Some n, Some p) \<Rightarrow> Some (Some (n, Some p), h)
                        | _ \<Rightarrow> None)))))"

definition setPath :: "string \<Rightarrow> url \<Rightarrow> url option" where
  "setPath p u =
     map_option (\<lambda>path. u\<lparr>url_Path := path,
         url_RawPath := (if escape encodePath path = p then [] else p)\<rparr>)
       (unescape encodePath p)"

definition setFragment :: "string \<Rightarrow> url \<Rightarrow> url option" where
  "setFragment f u =
     map_option (\<lambda>frag. u\<lparr>url_Fragment := frag,
         url_RawFragment := (if escape encodeFragment frag = f then [] else f)\<rparr>)
       (unescape encodeFragment f)"

definition split_query :: "string \<Rightarrow> string \<times> bool \<times> string" where
  "split_query rest =
     (if rest \<noteq> [] \<and> last rest = CHR ''?'' \<and> CHR ''?'' \<notin> set (butlast rest)
      then (butlast rest, True, [])
      else (case cut (CHR ''?'') rest of (a, q) \<Rightarrow> (a, False, after_cut q)))"

definition parse_rest :: "string \<Rightarrow> string \<Rightarrow> url option" where
  "parse_rest scheme rest0 =
     (case split_query rest0 of (rest, force, query) \<Rightarrow>
        (let u = empty_url\<lparr>url_Scheme := scheme, url_ForceQuery := force, url_RawQuery := query\<rparr>
         in if take 1 rest \<noteq> ''/'' \<and> scheme \<noteq> [] then Some (u\<lparr>url_Opaque := rest\<rparr>)
            else if take 1 rest \<noteq> ''/'' \<and> CHR '':'' \<in> set (fst (cut (CHR ''/'') rest)) then None
            else if (scheme \<noteq> [] \<or> take 3 rest \<noteq> ''///'') \<and> take 2 rest = ''//'' then
              (case cut (CHR ''/'') (drop 2 rest) of (authority, path) \<Rightarrow>
                 (case parseAuthority authority of
                    None \<Rightarrow> None
                  | Some (user, host) \<Rightarrow>
                      setPath (case path of None \<Rightarrow> [] | Some p \<Rightarrow> CHR ''/'' # p)
                        (u\<lparr>url_User := user, url_Host := host\<rparr>)))
            else setPath rest (u\<lparr>url_OmitHost := (scheme \<noteq> [] \<and> take 1 rest = ''/'')\<rparr>)))"

definition url_Parse :: "string \<Rightarrow> url option" where
  "url_Parse raw =
     (case cut (CHR ''#'') raw of (u, frag) \<Rightarrow>
        (if contains_ctl u then None
         else
           (case (if u = ''*'' then Some (empty_url\<lparr>url_Path := ''*''\<rparr>)
                  else (case getScheme u of
                          None \<Rightarrow> None
                        | Some (scheme, rest) \<Rightarrow> parse_rest (map ascii_lower scheme) rest)) of
              None \<Rightarrow> None
            | Some parsed \<Rightarrow>
                (if after_cut frag = [] then Some parsed else setFragment (after_cut frag) parsed))))"

definition url_IsAbs :: "url \<Rightarrow> bool" where
  "url_IsAbs u \<longleftrightarrow> url_Scheme u \<noteq> []"

definition url_Hostname :: "url \<Rightarrow> string" where
  "url_Hostname u =
     (let h = (case cut_last (CHR '':'') (url_Host u) of
                 Some (a, p) \<Rightarrow> if validOptionalPort (CHR '':'' # p) then a else url_Host u
               | None \<Rightarrow> url_Host u)
      in if h \<noteq> [] \<and> hd h = CHR ''['' \<and> last h = CHR '']'' then butlast (tl h) else h)"

section \<open>Query strings\<close>

type_synonym url_Values = "(string, string list) gomap"

fun parse_query_pairs :: "string list \<Rightarrow> url_Values \<Rightarrow> url_Values" where
  "parse_query_pairs [] m = m"
| "parse_query_pairs (kv # kvs) m =
     (if kv = [] \<or> CHR '';'' \<in> set kv then parse_query_pairs kvs m
      else (case cut (CHR ''='') kv of (k, v) \<Rightarrow>
             (case (QueryUnescape k, QueryUnescape (after_cut v)) of
                (Some k', Some v') \<Rightarrow>
                  parse_query_pairs kvs
                    (gm_set k' ((case gm_get m k' of None \<Rightarrow> [] | Some vs \<Rightarrow> vs) @ [v']) m)
              | _ \<Rightarrow> parse_query_pairs kvs m)))"

text \<open>\<open>URL.Query\<close> drops the malformed pairs silently, and everything when there are more than 10000
  pairs (the default of \<open>urlmaxqueryparams\<close>); \<open>decode_query\<close> is the reading without that limit.\<close>

definition decode_query :: "string \<Rightarrow> url_Values" where
  "decode_query q = parse_query_pairs (split_on (CHR ''&'') q) []"

definition too_many_params :: "string \<Rightarrow> bool" where
  "too_many_params q \<longleftrightarrow> 10000 < length (split_on (CHR ''&'') q)"

definition parse_query :: "string \<Rightarrow> url_Values" where
  "parse_query q = (if too_many_params q then [] else decode_query q)"

definition Values_Get :: "url_Values \<Rightarrow> string \<Rightarrow> string" where
  "Values_Get m k = (case gm_get m k of Some (v # _) \<Rightarrow> v | _ \<Rightarrow> [])"

definition Values_Set :: "string \<Rightarrow> string \<Rightarrow> url_Values \<Rightarrow> url_Values" where
  "Values_Set k v m = gm_set k [v] m"

definition encode_pair :: "string \<Rightarrow> string \<Rightarrow> string" where
  "encode_pair k v = QueryEscape k @ ''='' @ QueryEscape v"

definition Values_Encode :: "url_Values \<Rightarrow> string" where
  "Values_Encode m =
     Join (concat (map (\<lambda>k. map (encode_pair k) (case gm_get m k of None \<Rightarrow> [] | Some vs \<Rightarrow> vs))
             (sort (gm_keys m)))) ''&''"

section \<open>Printing\<close>

definition validEncoded :: "string \<Rightarrow> encoding \<Rightarrow> bool" where
  "validEncoded s mode =
     list_all (\<lambda>c. c \<in> set ''!$&()*+,;=:@[]%'' \<union> {CHR 0x27} \<or> \<not> shouldEscape c mode) s"

definition EscapedPath :: "url \<Rightarrow> string" where
  "EscapedPath u =
     (if url_RawPath u \<noteq> [] \<and> validEncoded (url_RawPath u) encodePath \<and>
         unescape encodePath (url_RawPath u) = Some (url_Path u)
      then url_RawPath u
      else if url_Path u = ''*'' then ''*''
      else escape encodePath (url_Path u))"

definition EscapedFragment :: "url \<Rightarrow> string" where
  "EscapedFragment u =
     (if url_RawFragment u \<noteq> [] \<and> validEncoded (url_RawFragment u) encodeFragment \<and>
         unescape encodeFragment (url_RawFragment u) = Some (url_Fragment u)
      then url_RawFragment u
      else escape encodeFragment (url_Fragment u))"

definition Userinfo_String :: "string \<times> string option \<Rightarrow> string" where
  "Userinfo_String ui =
     escape encodeUserPassword (fst ui) @
     (case snd ui of None \<Rightarrow> [] | Some p \<Rightarrow> '':'' @ escape encodeUserPassword p)"

definition url_String :: "url \<Rightarrow> string" where
  "url_String u =
     (let scheme = (if url_Scheme u = [] then [] else url_Scheme u @ '':'');
          body =
            (if url_Opaque u \<noteq> [] then url_Opaque u
             else
               (let auth =
                      (if (url_Scheme u \<noteq> [] \<or> url_Host u \<noteq> [] \<or> url_User u \<noteq> None) \<and>
                          \<not> (url_OmitHost u \<and> url_Host u = [] \<and> url_User u = None)
                       then
                         (if url_Host u \<noteq> [] \<or> url_Path u \<noteq> [] \<or> url_User u \<noteq> None then ''//'' else [])
                         @ (case url_User u of None \<Rightarrow> [] | Some ui \<Rightarrow> Userinfo_String ui @ ''@'')
                         @ escape encodeHost (url_Host u)
                       else []);
                    path = EscapedPath u;
                    slash = (if path \<noteq> [] \<and> hd path \<noteq> CHR ''/'' \<and> url_Host u \<noteq> [] then ''/'' else []);
                    dot = (if scheme @ auth @ slash = [] \<and>
                              CHR '':'' \<in> set (fst (cut (CHR ''/'') path)) then ''./'' else [])
                in auth @ slash @ dot @ path))
      in scheme @ body
         @ (if url_ForceQuery u \<or> url_RawQuery u \<noteq> [] then ''?'' @ url_RawQuery u else [])
         @ (if url_Fragment u \<noteq> [] then ''#'' @ EscapedFragment u else []))"

end
