(* ===== verification/Identifiers.thy ===== *)
theory Identifiers
  imports Errors Go_Strings Go_Crypto Go_Url
begin

text \<open>
  \<open>pkg/oauthserver/identifiers.go\<close>: the validated identifiers, opaque credentials, their
  digests and the PKCE challenge.  The named string types are synonyms; each constructor
  returns the trimmed text or the \<open>valueError\<close> of its field.
\<close>

type_synonym ClientID = string
type_synonym Subject = string
type_synonym Scope = string
type_synonym ResourceID = string
type_synonym RedirectURI = string
type_synonym TransactionToken = string
type_synonym ConsentToken = string
type_synonym AuthorizationCode = string
type_synonym RefreshToken = string
type_synonym RefreshFamilyID = string
type_synonym CredentialDigest = string

record TrustedRedirect =
  tr_uri :: RedirectURI

definition zero_digest :: CredentialDigest where
  "zero_digest = replicate 32 (CHR 0x00)"

record PKCEChallenge =
  pk_Value :: string
  pk_Method :: string

definition empty_PKCEChallenge :: PKCEChallenge where
  "empty_PKCEChallenge = \<lparr>pk_Value = [], pk_Method = []\<rparr>"

text \<open>\<open>^[A-Za-z0-9][A-Za-z0-9._:-]{0,255}$\<close>\<close>

definition identifier_char :: "char \<Rightarrow> bool" where
  "identifier_char c \<longleftrightarrow> ascii_alnum c \<or> c \<in> set ''._:-''"

fun identifierPattern :: "string \<Rightarrow> bool" where
  "identifierPattern [] = False"
| "identifierPattern (c # s) = (ascii_alnum c \<and> list_all identifier_char s \<and> length s \<le> 255)"

definition newIdentifier :: "string \<Rightarrow> string \<Rightarrow> string result" where
  "newIdentifier raw0 name =
     (let raw = TrimSpace raw0
      in if \<not> identifierPattern raw then Inl (invalidValue name) else Inr raw)"

definition NewClientID :: "string \<Rightarrow> ClientID result" where
  "NewClientID raw = newIdentifier raw ''client id''"

definition NewSubject :: "string \<Rightarrow> Subject result" where
  "NewSubject raw = newIdentifier raw ''subject''"

definition NewScope :: "string \<Rightarrow> Scope result" where
  "NewScope raw = newIdentifier raw ''scope''"

definition newURLIdentifier :: "string \<Rightarrow> string \<Rightarrow> string result" where
  "newURLIdentifier raw0 name =
     (let raw = TrimSpace raw0
      in (case url_Parse raw of
            None \<Rightarrow> Inl (invalidValue name)
          | Some u \<Rightarrow>
              (if \<not> url_IsAbs u \<or> url_Host u = [] \<or> url_User u \<noteq> None \<or> url_Fragment u \<noteq> []
               then Inl (invalidValue name) else Inr raw)))"

definition NewResourceID :: "string \<Rightarrow> ResourceID result" where
  "NewResourceID raw = newURLIdentifier raw ''resource''"

definition NewRedirectURI :: "string \<Rightarrow> RedirectURI result" where
  "NewRedirectURI raw = newURLIdentifier raw ''redirect uri''"

definition newOpaque :: "string \<Rightarrow> string \<Rightarrow> string result" where
  "newOpaque raw0 name =
     (let raw = TrimSpace raw0
      in if length raw < 16 \<or> 512 < length raw \<or> ContainsAny raw blanks
         then Inl (invalidValue name) else Inr raw)"

definition NewTransactionToken :: "string \<Rightarrow> TransactionToken result" where
  "NewTransactionToken raw = newOpaque raw ''transaction token''"

definition NewConsentToken :: "string \<Rightarrow> ConsentToken result" where
  "NewConsentToken raw = newOpaque raw ''consent token''"

definition NewAuthorizationCode :: "string \<Rightarrow> AuthorizationCode result" where
  "NewAuthorizationCode raw = newOpaque raw ''authorization code''"

definition NewRefreshToken :: "string \<Rightarrow> RefreshToken result" where
  "NewRefreshToken raw = newOpaque raw ''refresh token''"

definition NewRefreshFamilyID :: "string \<Rightarrow> RefreshFamilyID result" where
  "NewRefreshFamilyID raw = newOpaque raw ''refresh family id''"

definition DigestCredential :: "string \<Rightarrow> CredentialDigest" where
  "DigestCredential raw = Sum256 raw"

definition NewPKCEChallenge :: "string \<Rightarrow> string \<Rightarrow> PKCEChallenge result" where
  "NewPKCEChallenge value0 method0 =
     (let value = TrimSpace value0; method = TrimSpace method0
      in if method \<noteq> ''S256'' \<or> value = [] then Inl (invalidValue ''PKCE challenge'')
         else (case DecodeString value of
                 None \<Rightarrow> Inl (invalidValue ''PKCE challenge'')
               | Some decoded \<Rightarrow>
                   (if length decoded \<noteq> 32 then Inl (invalidValue ''PKCE challenge'')
                    else Inr \<lparr>pk_Value = value, pk_Method = method\<rparr>)))"

definition verifier_alphabet :: string where
  "verifier_alphabet = ''ABCDEFGHIJKLMNOPQRSTUVWXYZabcdefghijklmnopqrstuvwxyz0123456789-._~''"

text \<open>The loop ranges over runes; a rune of more than one byte, or an invalid byte, is never in
  the ASCII alphabet, and neither is any of its bytes.\<close>

definition ValidatePKCEVerifier :: "string \<Rightarrow> go_error option" where
  "ValidatePKCEVerifier verifier =
     (if length verifier < 43 \<or> 128 < length verifier \<or> ContainsAny verifier blanks
      then Some (invalidValue ''PKCE verifier'')
      else if list_ex (\<lambda>c. c \<notin> set verifier_alphabet) verifier
      then Some (invalidValue ''PKCE verifier'')
      else None)"

definition PKCE_Verify :: "PKCEChallenge \<Rightarrow> string \<Rightarrow> go_error option" where
  "PKCE_Verify c verifier =
     (case ValidatePKCEVerifier verifier of
        Some err \<Rightarrow> Some err
      | None \<Rightarrow>
          (if EncodeToString (Sum256 verifier) \<noteq> pk_Value c then Some ErrBinding else None))"

section \<open>Identifiers\<close>

lemma identifier_char_graphic: "identifier_char c \<Longrightarrow> graphic c"
  by (auto simp: identifier_char_def ascii_alnum_def ascii_digit_def ascii_upper_def
      ascii_lowercase_def graphic_def)

lemma identifierPattern_graphic: "identifierPattern s \<Longrightarrow> \<forall>c \<in> set s. graphic c"
  by (cases s) (auto simp: list_all_iff identifier_char_graphic identifier_char_def
      intro: identifier_char_graphic)

lemma identifierPattern_TrimSpace: "identifierPattern s \<Longrightarrow> TrimSpace s = s"
  by (intro TrimSpace_graphics identifierPattern_graphic)

lemma newIdentifier_Inr:
  "newIdentifier raw name = Inr s \<longleftrightarrow> identifierPattern s \<and> TrimSpace raw = s"
  by (auto simp: newIdentifier_def Let_def)

lemma newIdentifier_id: "identifierPattern s \<Longrightarrow> newIdentifier s name = Inr s"
  by (simp add: newIdentifier_Inr identifierPattern_TrimSpace)

lemmas newIdentifier_ctor_defs = NewClientID_def NewSubject_def NewScope_def

lemma newOpaque_Inr:
  "newOpaque raw name = Inr s \<longleftrightarrow>
     TrimSpace raw = s \<and> 16 \<le> length s \<and> length s \<le> 512 \<and> (\<forall>c \<in> set s. c \<notin> set blanks)"
  by (auto simp: newOpaque_def Let_def ContainsAny_def list_ex_iff)

lemmas newOpaque_ctor_defs = NewTransactionToken_def NewConsentToken_def
  NewAuthorizationCode_def NewRefreshToken_def NewRefreshFamilyID_def

lemma newURLIdentifier_Inr:
  "newURLIdentifier raw name = Inr s \<longleftrightarrow>
     TrimSpace raw = s \<and> (\<exists>u. url_Parse s = Some u \<and> url_Scheme u \<noteq> [] \<and> url_Host u \<noteq> [] \<and>
       url_User u = None \<and> url_Fragment u = [])"
  by (cases "url_Parse (TrimSpace raw)") (auto simp: newURLIdentifier_def Let_def url_IsAbs_def simp del: not_None_eq)

section \<open>PKCE\<close>

lemma ValidatePKCEVerifier_None:
  "ValidatePKCEVerifier v = None \<longleftrightarrow>
     43 \<le> length v \<and> length v \<le> 128 \<and> set v \<subseteq> set verifier_alphabet"
proof -
  have "set v \<subseteq> set verifier_alphabet \<Longrightarrow> \<not> ContainsAny v blanks"
    by (auto simp: ContainsAny_def list_ex_iff blanks_def verifier_alphabet_def)
  then show ?thesis
    by (auto simp: ValidatePKCEVerifier_def list_ex_iff)
qed

lemma PKCE_Verify_None:
  "PKCE_Verify c v = None \<longleftrightarrow>
     ValidatePKCEVerifier v = None \<and> pk_Value c = EncodeToString (Sum256 v)"
  by (auto simp: PKCE_Verify_def split: option.splits)

lemma b64_alphabet_graphic: "c \<in> set b64_alphabet \<Longrightarrow> graphic c"
  by (auto simp: b64_alphabet_def graphic_def)

lemma EncodeToString_TrimSpace: "TrimSpace (EncodeToString s) = EncodeToString s"
  by (rule TrimSpace_graphics) (auto dest: EncodeToString_alphabet b64_alphabet_graphic)

text \<open>The challenge of a verifier, as the client computes it, is accepted.\<close>

lemma NewPKCEChallenge_S256:
  "NewPKCEChallenge (EncodeToString (Sum256 v)) ''S256'' =
     Inr \<lparr>pk_Value = EncodeToString (Sum256 v), pk_Method = ''S256''\<rparr>"
proof -
  have "length (EncodeToString (Sum256 v)) = 43"
    by (simp add: EncodeToString_length)
  then have "EncodeToString (Sum256 v) \<noteq> []" by auto
  moreover have "TrimSpace ''S256'' = ''S256''"
    by (rule TrimSpace_graphics) (simp add: graphic_def)
  ultimately show ?thesis
    by (simp add: NewPKCEChallenge_def EncodeToString_TrimSpace b64_roundtrip)
qed

lemma NewPKCEChallenge_Inr:
  "NewPKCEChallenge value m = Inr c \<longleftrightarrow>
     TrimSpace m = ''S256'' \<and> c = \<lparr>pk_Value = TrimSpace value, pk_Method = ''S256''\<rparr> \<and>
     TrimSpace value \<noteq> [] \<and> (\<exists>d. DecodeString (TrimSpace value) = Some d \<and> length d = 32)"
  by (auto simp: NewPKCEChallenge_def Let_def split: option.splits if_splits)

text \<open>A challenge that verifies commits to the hash of the verifier: two verifiers accepted by the
  same challenge collide.\<close>

lemma PKCE_Verify_binding:
  "PKCE_Verify c v = None \<Longrightarrow> PKCE_Verify c v' = None \<Longrightarrow> Sum256 v = Sum256 v'"
  by (auto simp: PKCE_Verify_None dest: EncodeToString_inj)

end
