(* ===== verification/Scopes.thy ===== *)
theory Scopes
  imports Identifiers
begin

text \<open>
  \<open>pkg/oauthserver/scopes.go\<close>: the canonical scope set, a slice kept sorted and free of
  duplicates.  \<open>Contains\<close> is a binary search, \<open>Intersect\<close> a merge of the two slices.
\<close>

datatype ScopeSet = ScopeSet (scope_values: "Scope list")

definition empty_ScopeSet :: ScopeSet where
  "empty_ScopeSet = ScopeSet []"

text \<open>The loop of \<open>NewScopeSet\<close>; the accumulator is \<open>canonical\<close>, whose elements are the keys of
  \<open>seen\<close>.\<close>

fun NewScopeSet_loop :: "Scope list \<Rightarrow> Scope list \<Rightarrow> Scope list result" where
  "NewScopeSet_loop [] canonical = Inr canonical"
| "NewScopeSet_loop (value # values) canonical =
     (let raw = TrimSpace value
      in if raw = [] then Inl (invalidValue ''scope'')
         else (case NewScope raw of
                 Inl err \<Rightarrow> Inl err
               | Inr validated \<Rightarrow>
                   if validated \<in> set canonical then NewScopeSet_loop values canonical
                   else NewScopeSet_loop values (canonical @ [validated])))"

definition NewScopeSet :: "Scope list \<Rightarrow> ScopeSet result" where
  "NewScopeSet values =
     (case NewScopeSet_loop values [] of
        Inl err \<Rightarrow> Inl err
      | Inr canonical \<Rightarrow> Inr (ScopeSet (sort canonical)))"

definition ParseScopes :: "string \<Rightarrow> ScopeSet result" where
  "ParseScopes raw = (if TrimSpace raw = [] then NewScopeSet [] else NewScopeSet (Fields raw))"

definition Contains :: "ScopeSet \<Rightarrow> Scope \<Rightarrow> bool" where
  "Contains s scope =
     snd (sort_Find (length (scope_values s)) (\<lambda>i.
       if scope < scope_values s ! i then - 1
       else if scope_values s ! i < scope then 1 else 0))"

definition ScopeSet_Values :: "ScopeSet \<Rightarrow> Scope list" where
  "ScopeSet_Values s = scope_values s"

definition ScopeSet_Empty :: "ScopeSet \<Rightarrow> bool" where
  "ScopeSet_Empty s \<longleftrightarrow> length (scope_values s) = 0"

text \<open>The two-index loop of \<open>Intersect\<close>; the lists are what is left from \<open>left\<close> and \<open>right\<close> on.\<close>

fun intersect_loop :: "Scope list \<Rightarrow> Scope list \<Rightarrow> Scope list" where
  "intersect_loop (x # xs) (y # ys) =
     (if x < y then intersect_loop xs (y # ys)
      else if y < x then intersect_loop (x # xs) ys
      else x # intersect_loop xs ys)"
| "intersect_loop _ _ = []"

definition Intersect :: "ScopeSet \<Rightarrow> ScopeSet \<Rightarrow> ScopeSet" where
  "Intersect s other = ScopeSet (intersect_loop (scope_values s) (scope_values other))"

definition IsSubsetOf :: "ScopeSet \<Rightarrow> ScopeSet \<Rightarrow> bool" where
  "IsSubsetOf s other \<longleftrightarrow>
     length (scope_values (Intersect s other)) = length (scope_values s)"

definition ScopeSet_String :: "ScopeSet \<Rightarrow> string" where
  "ScopeSet_String s = Join (scope_values s) '' ''"

section \<open>Canonical sets\<close>

text \<open>What every constructor establishes.\<close>

definition scopes_wf :: "ScopeSet \<Rightarrow> bool" where
  "scopes_wf s \<longleftrightarrow> sorted (scope_values s) \<and> distinct (scope_values s) \<and>
     list_all identifierPattern (scope_values s)"

abbreviation scope_set :: "ScopeSet \<Rightarrow> Scope set" where
  "scope_set s \<equiv> set (scope_values s)"

lemma NewScopeSet_loop_Inr:
  "NewScopeSet_loop values canonical = Inr r \<Longrightarrow>
   distinct canonical \<Longrightarrow> list_all identifierPattern canonical \<Longrightarrow>
   distinct r \<and> list_all identifierPattern r \<and> set r = set canonical \<union> TrimSpace ` set values"
proof (induction "values" canonical rule: NewScopeSet_loop.induct)
  case (2 v vs canonical)
  from "2.prems"(1) obtain s where s: "TrimSpace v \<noteq> []" "NewScope (TrimSpace v) = Inr s"
    by (auto simp: Let_def split: if_splits sum.splits)
  then have id: "identifierPattern s" "s = TrimSpace v"
    by (auto simp: NewScope_def newIdentifier_Inr)
  show ?case
  proof (cases "s \<in> set canonical")
    case True
    with "2.IH"(1) [OF refl s(1) s(2)] "2.prems" s id show ?thesis
      by (auto simp: Let_def)
  next
    case False
    with "2.IH"(2) [OF refl s(1) s(2)] "2.prems" s id show ?thesis
      by (auto simp: Let_def)
  qed
qed simp

lemma NewScopeSet_wf: "NewScopeSet values = Inr s \<Longrightarrow> scopes_wf s"
  using NewScopeSet_loop_Inr [of "values" "[]"]
  by (auto simp: NewScopeSet_def scopes_wf_def list_all_iff split: sum.splits)

lemma NewScopeSet_set: "NewScopeSet values = Inr s \<Longrightarrow> scope_set s = TrimSpace ` set values"
  using NewScopeSet_loop_Inr [of "values" "[]"]
  by (auto simp: NewScopeSet_def split: sum.splits)

lemma NewScopeSet_loop_total:
  "list_all identifierPattern vs \<Longrightarrow> \<exists>r. NewScopeSet_loop vs canonical = Inr r"
  by (induction vs arbitrary: canonical)
     (auto simp: Let_def identifierPattern_TrimSpace NewScope_def newIdentifier_id)

lemma NewScopeSet_total: "list_all identifierPattern vs \<Longrightarrow> \<exists>s. NewScopeSet vs = Inr s"
  using NewScopeSet_loop_total [of vs "[]"] by (auto simp: NewScopeSet_def)

text \<open>A canonical set is determined by its elements.\<close>

lemma scopes_wf_eqI: "scopes_wf s \<Longrightarrow> scopes_wf t \<Longrightarrow> scope_set s = scope_set t \<Longrightarrow> s = t"
  by (cases s; cases t) (auto simp: scopes_wf_def sorted_distinct_set_unique)

lemma NewScopeSet_values: "scopes_wf s \<Longrightarrow> NewScopeSet (ScopeSet_Values s) = Inr s"
proof -
  assume wf: "scopes_wf s"
  then obtain t where t: "NewScopeSet (ScopeSet_Values s) = Inr t"
    using NewScopeSet_total by (auto simp: scopes_wf_def ScopeSet_Values_def)
  have "scope_set t = scope_set s"
    using NewScopeSet_set [OF t] wf
    by (force simp: ScopeSet_Values_def scopes_wf_def list_all_iff identifierPattern_TrimSpace)
  with t wf show ?thesis
    using scopes_wf_eqI NewScopeSet_wf by metis
qed

lemma empty_ScopeSet_wf [simp]: "scopes_wf empty_ScopeSet"
  by (simp add: scopes_wf_def empty_ScopeSet_def)

section \<open>Intersection and inclusion\<close>

lemma intersect_loop_subset: "set (intersect_loop xs ys) \<subseteq> set xs \<inter> set ys"
  by (induction xs ys rule: intersect_loop.induct) auto

lemma intersect_loop_set:
  "sorted_wrt (<) xs \<Longrightarrow> sorted_wrt (<) ys \<Longrightarrow> set (intersect_loop xs ys) = set xs \<inter> set ys"
proof (induction xs ys rule: intersect_loop.induct)
  case (1 x xs y ys)
  consider "x < y" | "y < x" | "x = y" by (rule linorder_cases)
  then show ?case
  proof cases
    case 1
    with "1.prems" have "x \<notin> set (y # ys)" by auto
    with 1 "1.IH"(1) "1.prems" show ?thesis by auto
  next
    case 2
    with "1.prems" have "y \<notin> set (x # xs)" by auto
    with 2 "1.IH"(2) "1.prems" show ?thesis by auto
  next
    case 3
    with "1.prems" have "x \<notin> set xs" "y \<notin> set ys" by auto
    with 3 "1.IH"(3) "1.prems" show ?thesis by auto
  qed
qed auto

lemma intersect_loop_sorted: "sorted_wrt (<) xs \<Longrightarrow> sorted_wrt (<) (intersect_loop xs ys)"
proof (induction xs ys rule: intersect_loop.induct)
  case (1 x xs y ys)
  then show ?case
    using intersect_loop_subset [of xs ys] by (auto split: if_splits)
qed auto

lemma scopes_wf_strict: "scopes_wf s \<Longrightarrow> sorted_wrt (<) (scope_values s)"
  by (simp add: scopes_wf_def strict_sorted_iff)

lemma strict_scopes_wf:
  "sorted_wrt (<) (scope_values s) \<Longrightarrow> list_all identifierPattern (scope_values s) \<Longrightarrow> scopes_wf s"
  by (simp add: scopes_wf_def strict_sorted_iff)

lemma Intersect_set [simp]:
  "scopes_wf s \<Longrightarrow> scopes_wf t \<Longrightarrow> scope_set (Intersect s t) = scope_set s \<inter> scope_set t"
  by (simp add: Intersect_def intersect_loop_set scopes_wf_strict)

lemma Intersect_subset: "scope_set (Intersect s t) \<subseteq> scope_set s \<inter> scope_set t"
  using intersect_loop_subset by (simp add: Intersect_def)

lemma Intersect_wf [simp]: "scopes_wf s \<Longrightarrow> scopes_wf (Intersect s t)"
proof (rule strict_scopes_wf)
  assume s: "scopes_wf s"
  then show "sorted_wrt (<) (scope_values (Intersect s t))"
    by (simp add: Intersect_def intersect_loop_sorted scopes_wf_strict)
  from s show "list_all identifierPattern (scope_values (Intersect s t))"
    using Intersect_subset [of s t] by (auto simp: scopes_wf_def list_all_iff)
qed

lemma IsSubsetOf_iff:
  assumes "scopes_wf s" and "scopes_wf t"
  shows "IsSubsetOf s t \<longleftrightarrow> scope_set s \<subseteq> scope_set t"
proof -
  have len: "length (scope_values u) = card (scope_set u)" if "scopes_wf u" for u
    using that by (simp add: scopes_wf_def distinct_card)
  have sub: "scope_set (Intersect s t) = scope_set s \<inter> scope_set t"
    using assms by simp
  have "IsSubsetOf s t \<longleftrightarrow> card (scope_set s \<inter> scope_set t) = card (scope_set s)"
    using assms len [of s] len [OF Intersect_wf [OF assms(1), of t]] sub
    by (simp add: IsSubsetOf_def)
  also have "\<dots> \<longleftrightarrow> scope_set s \<inter> scope_set t = scope_set s"
    by (metis List.finite_set card_subset_eq inf_le1)
  finally show ?thesis by blast
qed

text \<open>The inclusion test is sound on any slices, canonical or not: the merge only ever keeps
  elements of both, one for one.\<close>

lemma intersect_loop_length: "length (intersect_loop xs ys) \<le> length xs"
  by (induction xs ys rule: intersect_loop.induct) auto

lemma intersect_loop_full:
  "length (intersect_loop xs ys) = length xs \<Longrightarrow> intersect_loop xs ys = xs"
proof (induction xs ys rule: intersect_loop.induct)
  case (1 x xs y ys)
  show ?case
  proof (cases "x < y")
    case True
    with "1.prems" intersect_loop_length [of xs "y # ys"] show ?thesis by simp
  next
    case False
    with 1 show ?thesis by (auto split: if_splits)
  qed
qed auto

lemma IsSubsetOf_subset: "IsSubsetOf s t \<Longrightarrow> scope_set s \<subseteq> scope_set t"
  using intersect_loop_full [of "scope_values s" "scope_values t"]
    intersect_loop_subset [of "scope_values s" "scope_values t"]
  by (auto simp: IsSubsetOf_def Intersect_def)

lemma IsSubsetOf_trans:
  "scopes_wf s \<Longrightarrow> scopes_wf t \<Longrightarrow> scopes_wf u \<Longrightarrow>
   IsSubsetOf s t \<Longrightarrow> IsSubsetOf t u \<Longrightarrow> IsSubsetOf s u"
  by (auto simp: IsSubsetOf_iff)

lemma IsSubsetOf_refl: "scopes_wf s \<Longrightarrow> IsSubsetOf s s"
  by (simp add: IsSubsetOf_iff)

section \<open>Membership\<close>

lemma Contains_iff:
  assumes "scopes_wf s"
  shows "Contains s x \<longleftrightarrow> x \<in> scope_set s"
proof -
  let ?vs = "scope_values s"
  let ?n = "length ?vs"
  let ?cmp = "\<lambda>i. if x < ?vs ! i then - 1 else if ?vs ! i < x then 1 else (0 :: int)"
  let ?i = "find_loop ?cmp 0 ?n"
  have strict: "sorted_wrt (<) ?vs" using assms by (rule scopes_wf_strict)
  have mono: "\<forall>a b. a \<le> b \<longrightarrow> b < ?n \<longrightarrow> ?cmp a \<le> 0 \<longrightarrow> ?cmp b \<le> 0"
  proof (intro allI impI)
    fix a b assume "a \<le> b" "b < ?n" "?cmp a \<le> 0"
    then have "x \<le> ?vs ! a" by (auto split: if_splits)
    also have "?vs ! a \<le> ?vs ! b"
      using strict \<open>a \<le> b\<close> \<open>b < ?n\<close> by (auto simp: strict_sorted_iff sorted_iff_nth_mono)
    finally show "?cmp b \<le> 0" by auto
  qed
  have found: "?i \<le> ?n \<and> (\<forall>a < ?i. 0 < ?cmp a) \<and> (\<forall>a. ?i \<le> a \<longrightarrow> a < ?n \<longrightarrow> ?cmp a \<le> 0)"
    by (rule find_loop_least [OF mono]) simp_all
  have "x \<in> set ?vs \<longleftrightarrow> ?i < ?n \<and> ?cmp ?i = 0"
  proof
    assume "x \<in> set ?vs"
    then obtain j where j: "j < ?n" "?vs ! j = x" by (auto simp: in_set_conv_nth)
    then have "\<not> j < ?i" using found by auto
    then have "?i \<le> j" by simp
    moreover from this j have "x \<le> ?vs ! ?i" using found by (auto split: if_splits)
    moreover have "?vs ! ?i \<le> ?vs ! j"
      using strict \<open>?i \<le> j\<close> j(1) by (auto simp: strict_sorted_iff sorted_iff_nth_mono)
    ultimately show "?i < ?n \<and> ?cmp ?i = 0" using j by auto
  next
    assume "?i < ?n \<and> ?cmp ?i = 0"
    then have "x = ?vs ! ?i" by (auto split: if_splits)
    moreover have "?i < ?n" using \<open>?i < ?n \<and> ?cmp ?i = 0\<close> by simp
    ultimately show "x \<in> set ?vs" using nth_mem by metis
  qed
  then show ?thesis
    by (simp add: Contains_def sort_Find_def Let_def)
qed

section \<open>Printing and parsing\<close>

lemma ScopeSet_String_inj:
  assumes "scopes_wf s" and "scopes_wf t" and "ScopeSet_String s = ScopeSet_String t"
  shows "s = t"
proof -
  have "Fields (ScopeSet_String u) = scope_values u" if "scopes_wf u" for u
    using that identifierPattern_graphic
    by (fastforce simp: ScopeSet_String_def scopes_wf_def list_all_iff intro!: Fields_Join)
  then show ?thesis using assms by (metis ScopeSet.expand)
qed

lemma ParseScopes_String:
  assumes "scopes_wf s" shows "ParseScopes (ScopeSet_String s) = Inr s"
proof -
  have g: "\<forall>x \<in> scope_set s. x \<noteq> [] \<and> (\<forall>c \<in> set x. graphic c)"
    using assms identifierPattern_graphic by (fastforce simp: scopes_wf_def list_all_iff)
  have fields: "Fields (ScopeSet_String s) = scope_values s"
    using g by (simp add: ScopeSet_String_def Fields_Join)
  show ?thesis
  proof (cases "scope_values s")
    case Nil
    then have "s = ScopeSet []" by (cases s) simp
    moreover have "TrimSpace [] = []" by (simp add: TrimSpace_graphics)
    ultimately show ?thesis
      by (simp add: ParseScopes_def ScopeSet_String_def NewScopeSet_def)
  next
    case (Cons x xs)
    then obtain c y where x: "x = c # y" "graphic c" using g by (cases x) auto
    have "hd (ScopeSet_String s) = c" "ScopeSet_String s \<noteq> []"
      using Cons x g hd_Join [of "x # xs" "'' ''"] Join_eq_Nil [of "x # xs" "'' ''"]
      by (auto simp: ScopeSet_String_def)
    then obtain r where r: "ScopeSet_String s = c # r" by (cases "ScopeSet_String s") auto
    with x(2) have "TrimSpace (ScopeSet_String s) \<noteq> []"
      by (simp add: TrimSpace_def trim_left_graphic trim_right_nonempty_prefix
          space_prefix_graphic_Cons)
    with fields NewScopeSet_values [OF assms] show ?thesis
      by (simp add: ParseScopes_def ScopeSet_Values_def)
  qed
qed

lemma ParseScopes_wf: "ParseScopes raw = Inr s \<Longrightarrow> scopes_wf s"
  by (auto simp: ParseScopes_def NewScopeSet_wf split: if_splits)

end
