(* ===== verification/Json_Value.thy ===== *)
theory Json_Value
  imports Prelude
begin

text \<open>
  The values of \<open>encoding/json\<close> as trees, and UTF-8.  A \<open>[]byte\<close>, in the text a string of base64
  digits, is kept as its bytes (\<open>JBytes\<close>).
\<close>

datatype json =
    JNull
  | JBool bool
  | JNumber int
  | JString string
  | JBytes string
  | JArray "json list"
  | JObject "(string \<times> json) list"

section \<open>UTF-8\<close>

definition in_bytes :: "int \<Rightarrow> int \<Rightarrow> int \<Rightarrow> bool" where
  "in_bytes lo hi b \<longleftrightarrow> lo \<le> b \<and> b \<le> hi"

text \<open>The length of the encoding of a rune at the front, 0 if there is none.\<close>

fun rune_bytes :: "int list \<Rightarrow> nat" where
  "rune_bytes [] = 0"
| "rune_bytes (a # bs) =
     (if a < 128 then 1
      else (case bs of
              [] \<Rightarrow> 0
            | b # cs \<Rightarrow>
                if in_bytes 194 223 a then (if in_bytes 128 191 b then 2 else 0)
                else (case cs of
                        [] \<Rightarrow> 0
                      | c # ds \<Rightarrow>
                          if in_bytes 224 239 a then
                            (if in_bytes (if a = 224 then 160 else 128) (if a = 237 then 159 else 191) b \<and>
                                in_bytes 128 191 c then 3 else 0)
                          else (case ds of
                                  [] \<Rightarrow> 0
                                | d # _ \<Rightarrow>
                                    if in_bytes 240 244 a \<and>
                                       in_bytes (if a = 240 then 144 else 128)
                                         (if a = 244 then 143 else 191) b \<and>
                                       in_bytes 128 191 c \<and> in_bytes 128 191 d then 4 else 0))))"

definition rune_length :: "string \<Rightarrow> nat" where
  "rune_length s = rune_bytes (map of_char (take 4 s))"

definition replacement_rune :: string where
  "replacement_rune = [CHR 0xEF, CHR 0xBF, CHR 0xBD]"

function valid_text :: "string \<Rightarrow> string" where
  "valid_text [] = []"
| "valid_text (c # s) =
     (let n = rune_length (c # s)
      in if n = 0 then replacement_rune @ valid_text s
         else take n (c # s) @ valid_text (drop n (c # s)))"
  by pat_completeness auto
termination
  by (relation "measure length") auto

declare valid_text.simps(2) [simp del]

abbreviation utf8 :: "string \<Rightarrow> bool" where
  "utf8 s \<equiv> valid_text s = s"

definition ascii_text :: "string \<Rightarrow> bool" where
  "ascii_text s \<longleftrightarrow> list_all (\<lambda>c. (of_char c :: int) < 128) s"

lemma ascii_utf8: "ascii_text s \<Longrightarrow> utf8 s"
  unfolding ascii_text_def
  by (induction s) (simp_all add: valid_text.simps(2) rune_length_def)

end
