(* ===== verification/Model.thy ===== *)
theory Model
  imports Scopes Json_Value
begin

text \<open>
  The data of \<open>pkg/oauthserver\<close>: the records of model.go, the policies of config.go, the
  commits and results of ports.go and the inputs and results of engine.go.  A field carries
  the prefix of its record, since Go repeats field names.  \<open>'a\<close> is the application's
  attribute type \<open>A\<close>; \<open>reflect.DeepEqual\<close> on principals is equality.  A \<open>uint64\<close> generation
  and the \<open>uint8\<close> enumerations are words of their width, so that values outside the declared
  constants exist and reach the default branches.
\<close>

section \<open>model.go\<close>

record 'a Principal =
  p_Subject :: Subject
  p_DisplayName :: string
  p_Email :: string
  p_AuthorizationVersion :: "64 word"
  p_Attributes :: 'a

record Resource =
  res_ID :: ResourceID
  res_DisplayName :: string
  res_SupportedScopes :: ScopeSet

type_synonym ClientTrust = string

definition ClientTrustUnverified :: ClientTrust where
  "ClientTrustUnverified = ''unverified''"

definition ClientTrustConfigured :: ClientTrust where
  "ClientTrustConfigured = ''configured''"

record Client =
  cl_ID :: ClientID
  cl_DisplayName :: string
  cl_Trust :: ClientTrust
  cl_RedirectURIs :: "RedirectURI list"
  cl_AllowedScopes :: ScopeSet
  cl_CreatedAt :: time
  cl_LastUsedAt :: time

record ConsentClientSnapshot =
  snap_ID :: ClientID
  snap_DisplayName :: string
  snap_Trust :: ClientTrust
  snap_RedirectURI :: RedirectURI
  snap_RedirectOrigin :: string

record AuthorizationTransaction =
  at_Token :: TransactionToken
  at_ClientID :: ClientID
  at_RedirectURI :: RedirectURI
  at_State :: string
  at_PKCEChallenge :: PKCEChallenge
  at_RequestedScopes :: ScopeSet
  at_Resource :: ResourceID
  at_ExpiresAt :: time
  at_ConsumedAt :: time

record 'a ConsentSession =
  cs_Token :: ConsentToken
  cs_Client :: ConsentClientSnapshot
  cs_State :: string
  cs_PKCEChallenge :: PKCEChallenge
  cs_Principal :: "'a Principal"
  cs_AllowedScopes :: ScopeSet
  cs_Resource :: ResourceID
  cs_AuthorizationEnds :: time
  cs_ExpiresAt :: time
  cs_ConsumedAt :: time

record 'a AuthorizationCodeRecord =
  ac_Digest :: CredentialDigest
  ac_ClientID :: ClientID
  ac_RedirectURI :: RedirectURI
  ac_PKCEChallenge :: PKCEChallenge
  ac_Principal :: "'a Principal"
  ac_Scopes :: ScopeSet
  ac_Resource :: ResourceID
  ac_State :: string
  ac_AuthorizationEnds :: time
  ac_ExpiresAt :: time
  ac_ConsumedAt :: time

record 'a RefreshGrant =
  rg_Digest :: CredentialDigest
  rg_FamilyID :: RefreshFamilyID
  rg_Generation :: "64 word"
  rg_ClientID :: ClientID
  rg_Principal :: "'a Principal"
  rg_Scopes :: ScopeSet
  rg_Resource :: ResourceID
  rg_ExpiresAt :: time
  rg_ConsumedAt :: time
  rg_RevokedAt :: time

record LoginContext =
  lc_Transaction :: TransactionToken
  lc_ClientID :: ClientID
  lc_RedirectURI :: RedirectURI
  lc_State :: string

record ConsentScope =
  csc_Scope :: Scope
  csc_Description :: string

record ConsentViewData =
  cv_Token :: ConsentToken
  cv_ResourceName :: string
  cv_PrincipalName :: string
  cv_PrincipalEmail :: string
  cv_ClientName :: string
  cv_ClientTrust :: ClientTrust
  cv_RedirectOrigin :: string
  cv_RedirectURI :: string
  cv_AccessTokenTTL :: duration
  cv_AuthorizationEnds :: time
  cv_Scopes :: "ConsentScope list"

record 'a AccessGrant =
  ag_Principal :: "'a Principal"
  ag_ClientID :: ClientID
  ag_Resource :: ResourceID
  ag_Scopes :: ScopeSet
  ag_IssuedAt :: time
  ag_ExpiresAt :: time

record IssuedAccessToken =
  ia_Value :: string
  ia_TokenType :: string
  ia_ExpiresAt :: time

record VerifiedAccessToken =
  va_Subject :: Subject
  va_ClientID :: ClientID
  va_Issuer :: string
  va_Resource :: ResourceID
  va_Scopes :: ScopeSet
  va_IssuedAt :: time
  va_ExpiresAt :: time
  va_TokenID :: string
  va_ExtraClaims :: "(string, json) gomap"

section \<open>config.go\<close>

record ResourceConfig =
  rc_ID :: string
  rc_DisplayName :: string
  rc_SupportedScopes :: "string list"

record RegistrationPolicy =
  rp_MaxClients :: int
  rp_MaxRedirectURIs :: int
  rp_MaxDisplayName :: int
  rp_MaxScopeCount :: int
  rp_MaxRedirectBytes :: int
  rp_UnverifiedClientTTL :: duration

record StateCapacity =
  cap_MaxAuthorizations :: int
  cap_MaxConsents :: int
  cap_MaxCodes :: int
  cap_MaxRefreshGrants :: int
  cap_MaxRefreshGenerations :: "64 word"

record StatePolicy =
  sp_Registration :: RegistrationPolicy
  sp_Capacity :: StateCapacity

record HTTPPolicy =
  hp_MaxBodyBytes :: int
  hp_MaxFieldBytes :: int
  hp_MaxArrayLength :: int

record Config =
  cfg_Issuer :: string
  cfg_Resources :: "ResourceConfig list"
  cfg_SupportedScopes :: ScopeSet
  cfg_AccessTTL :: duration
  cfg_RefreshTTL :: duration
  cfg_TransactionTTL :: duration
  cfg_ConsentTTL :: duration
  cfg_CodeTTL :: duration
  cfg_StatePolicy :: StatePolicy
  cfg_HTTP :: HTTPPolicy

section \<open>ports.go\<close>

type_synonym RevalidationStatus = "8 word"

definition RevalidationUnknown :: RevalidationStatus where "RevalidationUnknown = 0"
definition RevalidationEligible :: RevalidationStatus where "RevalidationEligible = 1"
definition RevalidationIneligible :: RevalidationStatus where "RevalidationIneligible = 2"

record JWKS =
  jwks_Keys :: "(string, json) gomap list"

record 'a Revalidation =
  rv_Status :: RevalidationStatus
  rv_Principal :: "'a Principal"

record AuditEvent =
  ae_Time :: time
  ae_Operation :: string
  ae_Outcome :: string
  ae_Subject :: Subject
  ae_ClientID :: ClientID
  ae_Resource :: ResourceID
  ae_Scopes :: ScopeSet
  ae_ReasonCode :: string
  ae_RequestID :: string
  ae_Cause :: "go_error option"

type_synonym ConsentDecision = "8 word"

definition ConsentDecisionUnknown :: ConsentDecision where "ConsentDecisionUnknown = 0"
definition ConsentDecisionApprove :: ConsentDecision where "ConsentDecisionApprove = 1"
definition ConsentDecisionDeny :: ConsentDecision where "ConsentDecisionDeny = 2"

lemmas decision_defs = ConsentDecisionApprove_def ConsentDecisionDeny_def

record 'a LoginCommit =
  lco_TransactionDigest :: CredentialDigest
  lco_Consent :: "'a ConsentSession"

record 'a ConsentCommit =
  cco_ConsentDigest :: CredentialDigest
  cco_Code :: "'a AuthorizationCodeRecord"
  cco_Decision :: ConsentDecision

record ConsentCommitResult =
  ccr_RedirectURI :: string

record CodeExchangeBinding =
  ceb_Digest :: CredentialDigest
  ceb_ClientID :: ClientID
  ceb_RedirectURI :: RedirectURI
  ceb_CodeVerifier :: string

record 'a CodeExchangeCommit =
  cec_CodeDigest :: CredentialDigest
  cec_Refresh :: "'a RefreshGrant option"

record 'a RefreshRotation =
  rr_CurrentDigest :: CredentialDigest
  rr_FamilyID :: RefreshFamilyID
  rr_Generation :: "64 word"
  rr_Successor :: "'a RefreshGrant"

record PruneStats =
  ps_Clients :: int
  ps_Authorizations :: int
  ps_Consents :: int
  ps_Codes :: int
  ps_RefreshGrants :: int

record StateCounts =
  sc_Clients :: int
  sc_Authorizations :: int
  sc_Consents :: int
  sc_Codes :: int
  sc_RefreshGrants :: int

section \<open>Inputs and results of the engine\<close>

record RegisterClientInput =
  rci_DisplayName :: string
  rci_RedirectURIs :: "string list"
  rci_RequestedScopes :: "string list"

record BeginAuthorizationInput =
  bai_ClientID :: string
  bai_RedirectURI :: string
  bai_ResponseType :: string
  bai_State :: string
  bai_CodeChallenge :: string
  bai_ChallengeMethod :: string
  bai_Scopes :: "string list"
  bai_Resource :: string

record BeginAuthorizationResult =
  bar_Transaction :: TransactionToken
  bar_LoginContext :: LoginContext

record 'a CompleteLoginInput =
  cli_Transaction :: TransactionToken
  cli_Principal :: "'a Principal"

record CompleteLoginResult =
  clr_ConsentToken :: ConsentToken
  clr_ConsentURL :: string

record DecideConsentInput =
  dci_Token :: ConsentToken
  dci_Decision :: ConsentDecision
  dci_SelectedScopes :: "Scope list"

record DecideConsentResult =
  dcr_RedirectURI :: string

record ExchangeCodeInput =
  eci_Code :: string
  eci_ClientID :: string
  eci_RedirectURI :: string
  eci_CodeVerifier :: string

record TokenResponse =
  tok_AccessToken :: string
  tok_TokenType :: string
  tok_ExpiresIn :: duration
  tok_RefreshToken :: string
  tok_Scopes :: ScopeSet

record RefreshInput =
  rfi_RefreshToken :: string
  rfi_ClientID :: string

record RevokeInput =
  rvi_Token :: string
  rvi_ClientID :: string

section \<open>Zero values\<close>

text \<open>Go's zero principal has the zero value of the attribute type, a parameter of the model.\<close>

definition zero_Principal :: "'a \<Rightarrow> 'a Principal" where
  "zero_Principal z =
     \<lparr>p_Subject = [], p_DisplayName = [], p_Email = [], p_AuthorizationVersion = 0,
      p_Attributes = z\<rparr>"

definition zero_AuthorizationCodeRecord :: "'a \<Rightarrow> 'a AuthorizationCodeRecord" where
  "zero_AuthorizationCodeRecord z =
     \<lparr>ac_Digest = zero_digest, ac_ClientID = [], ac_RedirectURI = [],
      ac_PKCEChallenge = empty_PKCEChallenge, ac_Principal = zero_Principal z,
      ac_Scopes = empty_ScopeSet, ac_Resource = [], ac_State = [], ac_AuthorizationEnds = 0,
      ac_ExpiresAt = 0, ac_ConsumedAt = 0\<rparr>"

end
