(* ===== verification/Config.thy ===== *)
theory Config
  imports Model
begin

text \<open>
  \<open>pkg/oauthserver/config.go\<close>: the default configuration, its validation, and the URL tests
  of issuers, resources and redirect URIs.
\<close>

definition duration_of :: "int \<Rightarrow> duration" where
  "duration_of = word_of_int"

definition DefaultConfig :: "string \<Rightarrow> ResourceConfig list \<Rightarrow> ScopeSet \<Rightarrow> Config" where
  "DefaultConfig issuer resources scopes =
     \<lparr>cfg_Issuer = issuer,
      cfg_Resources = resources,
      cfg_SupportedScopes = scopes,
      cfg_AccessTTL = duration_of (10 * minute),
      cfg_RefreshTTL = duration_of (30 * 24 * hour),
      cfg_TransactionTTL = duration_of (5 * minute),
      cfg_ConsentTTL = duration_of (10 * minute),
      cfg_CodeTTL = duration_of minute,
      cfg_StatePolicy =
        \<lparr>sp_Registration =
           \<lparr>rp_MaxClients = 256, rp_MaxRedirectURIs = 16, rp_MaxDisplayName = 128,
            rp_MaxScopeCount = 64, rp_MaxRedirectBytes = 2048,
            rp_UnverifiedClientTTL = duration_of (24 * hour)\<rparr>,
         sp_Capacity =
           \<lparr>cap_MaxAuthorizations = 1024, cap_MaxConsents = 1024, cap_MaxCodes = 1024,
            cap_MaxRefreshGrants = 4096, cap_MaxRefreshGenerations = 16384\<rparr>\<rparr>,
      cfg_HTTP =
        \<lparr>hp_MaxBodyBytes = 1048576, hp_MaxFieldBytes = 4096, hp_MaxArrayLength = 64\<rparr>\<rparr>"

definition isLoopback :: "string \<Rightarrow> bool" where
  "isLoopback host \<longleftrightarrow> host = ''localhost'' \<or> host = ''127.0.0.1'' \<or> host = ''::1''"

definition validOrigin :: "string \<Rightarrow> bool \<Rightarrow> bool" where
  "validOrigin raw allowLoopback =
     (case url_Parse raw of
        None \<Rightarrow> False
      | Some u \<Rightarrow>
          if url_Scheme u = [] \<or> url_Host u = [] \<or> url_User u \<noteq> None \<or> url_Fragment u \<noteq> [] \<or>
             url_RawQuery u \<noteq> [] then False
          else if url_Scheme u = ''https'' then True
          else allowLoopback \<and> url_Scheme u = ''http'' \<and> isLoopback (url_Hostname u))"

definition validRedirectURI :: "string \<Rightarrow> bool \<Rightarrow> bool" where
  "validRedirectURI raw allowLoopback =
     (case url_Parse raw of
        None \<Rightarrow> False
      | Some u \<Rightarrow>
          if url_Scheme u = [] \<or> url_Host u = [] \<or> url_User u \<noteq> None \<or> url_Fragment u \<noteq> []
          then False
          else if url_Scheme u = ''https'' then True
          else allowLoopback \<and> url_Scheme u = ''http'' \<and> isLoopback (url_Hostname u))"

definition validIssuer :: "string \<Rightarrow> bool" where
  "validIssuer raw =
     (if \<not> validOrigin raw False then False
      else (case url_Parse raw of
              None \<Rightarrow> False
            | Some u \<Rightarrow> url_Path u = [] \<or> url_Path u = ''/''))"

definition stringsToScopes :: "string list \<Rightarrow> Scope list" where
  "stringsToScopes values = values"

text \<open>The loop over the configured resources; \<open>seen\<close> lists the identifiers met so far.\<close>

fun Validate_resources :: "ScopeSet \<Rightarrow> ResourceID list \<Rightarrow> ResourceConfig list \<Rightarrow> go_error option"
where
  "Validate_resources supported seen [] = None"
| "Validate_resources supported seen (rc # rcs) =
     (case NewResourceID (rc_ID rc) of
        Inl _ \<Rightarrow> Some (invalidValue ''resource configuration'')
      | Inr rid \<Rightarrow>
          if \<not> validOrigin rid True \<or> TrimSpace (rc_DisplayName rc) = []
          then Some (invalidValue ''resource configuration'')
          else if rid \<in> set seen then Some (invalidValue ''duplicate resource'')
          else (case NewScopeSet (stringsToScopes (rc_SupportedScopes rc)) of
                  Inl _ \<Rightarrow> Some (invalidValue ''resource scopes'')
                | Inr resourceScopes \<Rightarrow>
                    if \<not> IsSubsetOf resourceScopes supported
                    then Some (invalidValue ''resource scopes'')
                    else Validate_resources supported (rid # seen) rcs))"

definition bad_policy :: "StatePolicy \<Rightarrow> HTTPPolicy \<Rightarrow> bool" where
  "bad_policy p h =
     (let registration = sp_Registration p; capacity = sp_Capacity p
      in rp_MaxClients registration \<le> 0 \<or> rp_MaxRedirectURIs registration \<le> 0 \<or>
         rp_MaxDisplayName registration \<le> 0 \<or> rp_MaxScopeCount registration \<le> 0 \<or>
         rp_MaxRedirectBytes registration \<le> 0 \<or> rp_UnverifiedClientTTL registration \<le>s 0 \<or>
         cap_MaxAuthorizations capacity \<le> 0 \<or> cap_MaxConsents capacity \<le> 0 \<or>
         cap_MaxCodes capacity \<le> 0 \<or> cap_MaxRefreshGrants capacity \<le> 0 \<or>
         cap_MaxRefreshGenerations capacity = 0 \<or> hp_MaxBodyBytes h \<le> 0 \<or>
         hp_MaxFieldBytes h \<le> 0 \<or> hp_MaxArrayLength h \<le> 0)"

definition Config_Validate :: "Config \<Rightarrow> go_error option" where
  "Config_Validate c =
     (if \<not> validIssuer (cfg_Issuer c) then Some (invalidValue ''issuer'')
      else if cfg_Resources c = [] \<or> cfg_AccessTTL c \<le>s 0 \<or>
              cfg_RefreshTTL c \<le>s cfg_ConsentTTL c + cfg_CodeTTL c \<or>
              cfg_TransactionTTL c \<le>s 0 \<or> cfg_ConsentTTL c \<le>s 0 \<or> cfg_CodeTTL c \<le>s 0
      then Some (invalidValue ''configuration'')
      else (case Validate_resources (cfg_SupportedScopes c) [] (cfg_Resources c) of
              Some err \<Rightarrow> Some err
            | None \<Rightarrow>
                if bad_policy (cfg_StatePolicy c) (cfg_HTTP c)
                then Some (invalidValue ''state policy'') else None))"

section \<open>Redirect URIs and origins\<close>

lemma validRedirectURI_iff:
  "validRedirectURI raw loop \<longleftrightarrow>
     (\<exists>u. url_Parse raw = Some u \<and> url_Host u \<noteq> [] \<and> url_User u = None \<and> url_Fragment u = [] \<and>
        (url_Scheme u = ''https'' \<or>
         loop \<and> url_Scheme u = ''http'' \<and> isLoopback (url_Hostname u)))"
  by (cases "url_Parse raw") (auto simp: validRedirectURI_def simp del: not_None_eq)

lemma validOrigin_redirect: "validOrigin raw loop \<Longrightarrow> validRedirectURI raw loop"
  by (auto simp: validOrigin_def validRedirectURI_def split: option.splits if_splits)

lemma validIssuer_https:
  "validIssuer raw \<Longrightarrow>
   \<exists>u. url_Parse raw = Some u \<and> url_Scheme u = ''https'' \<and> url_Path u \<in> {[], ''/''} \<and>
     url_RawQuery u = []"
  by (auto simp: validIssuer_def validOrigin_def split: option.splits if_splits)

section \<open>Durations\<close>

lemma sint_duration_of:
  "- (2 ^ 63) \<le> n \<Longrightarrow> n < 2 ^ 63 \<Longrightarrow> sint (duration_of n) = n"
  unfolding duration_of_def by (rule sint_word_of_int_64)

lemmas time_units = second_def minute_def hour_def

section \<open>Validated configurations\<close>

lemma Config_Validate_ttls:
  assumes "Config_Validate c = None"
  shows "0 < sint (cfg_AccessTTL c)" and "0 < sint (cfg_TransactionTTL c)"
    and "0 < sint (cfg_ConsentTTL c)" and "0 < sint (cfg_CodeTTL c)"
  using assms
  by (auto simp: Config_Validate_def word_sle_eq not_le split: if_splits option.splits)

lemma Config_Validate_policy:
  assumes "Config_Validate c = None"
  shows "\<not> bad_policy (cfg_StatePolicy c) (cfg_HTTP c)"
  using assms by (auto simp: Config_Validate_def split: if_splits option.splits)

text \<open>The refresh lifetime exceeds the sum of the two others as \<open>int64\<close> values; as durations it
  does when the sum does not overflow.\<close>

lemma Config_Validate_refresh:
  assumes "Config_Validate c = None"
    and "sint (cfg_ConsentTTL c) + sint (cfg_CodeTTL c) < 2 ^ 63"
  shows "sint (cfg_ConsentTTL c) + sint (cfg_CodeTTL c) < sint (cfg_RefreshTTL c)"
proof -
  have "\<not> cfg_RefreshTTL c \<le>s cfg_ConsentTTL c + cfg_CodeTTL c"
    using assms(1) by (auto simp: Config_Validate_def split: if_splits)
  then have "sint (cfg_ConsentTTL c + cfg_CodeTTL c) < sint (cfg_RefreshTTL c)"
    by (simp add: word_sle_eq)
  moreover have "sint (cfg_ConsentTTL c + cfg_CodeTTL c) =
      sint (cfg_ConsentTTL c) + sint (cfg_CodeTTL c)"
    using Config_Validate_ttls [OF assms(1)] assms(2)
    by (simp add: sint_word_ariths signed_take_bit_int_eq_self)
  ultimately show ?thesis by simp
qed

lemma Validate_resources_None:
  "Validate_resources supd seen rcs = None \<Longrightarrow>
   \<exists>ids. map (\<lambda>rc. NewResourceID (rc_ID rc)) rcs = map Inr ids \<and> distinct ids \<and>
     set ids \<inter> set seen = {} \<and>
     (\<forall>rid \<in> set ids. validOrigin rid True)"
proof (induction supd seen rcs rule: Validate_resources.induct)
  case (2 supd seen rc rcs)
  from "2.prems" obtain rid scopes where *: "NewResourceID (rc_ID rc) = Inr rid"
    "validOrigin rid True" "TrimSpace (rc_DisplayName rc) \<noteq> []" "rid \<notin> set seen"
    "NewScopeSet (stringsToScopes (rc_SupportedScopes rc)) = Inr scopes" "IsSubsetOf scopes supd"
    "Validate_resources supd (rid # seen) rcs = None"
    by (auto split: sum.splits if_splits)
  obtain ids where "map (\<lambda>rc. NewResourceID (rc_ID rc)) rcs = map Inr ids" "distinct ids"
    "set ids \<inter> set (rid # seen) = {}" "\<forall>rid \<in> set ids. validOrigin rid True"
    using "2.IH" [OF *(1) _ *(4) *(5)] * by blast
  with * show ?case by (intro exI [of _ "rid # ids"]) auto
qed simp

text \<open>The loop only asks which identifiers it has seen.\<close>

lemma Validate_resources_cong:
  "set seen = set seen' \<Longrightarrow> Validate_resources supd seen rcs = Validate_resources supd seen' rcs"
  by (induction rcs arbitrary: seen seen') (auto split: sum.splits)

end
