(* ===== verification/Registry.thy ===== *)
theory Registry
  imports Config
begin

text \<open>
  \<open>pkg/oauthserver/registry.go\<close>: the static resource registry, a map from identifiers to
  resources built from the configuration, and the check that an injected registry agrees with
  the configuration.
\<close>

type_synonym StaticResourceRegistry = "(ResourceID, Resource) gomap"

fun NewStaticResourceRegistry_loop ::
  "ScopeSet \<Rightarrow> StaticResourceRegistry \<Rightarrow> ResourceConfig list \<Rightarrow> StaticResourceRegistry result"
where
  "NewStaticResourceRegistry_loop supported resources [] = Inr resources"
| "NewStaticResourceRegistry_loop supported resources (config # configs) =
     (case NewResourceID (rc_ID config) of
        Inl err \<Rightarrow> Inl err
      | Inr rid \<Rightarrow>
          (case NewScopeSet (stringsToScopes (rc_SupportedScopes config)) of
             Inl _ \<Rightarrow> Inl (invalidValue ''resource scopes'')
           | Inr scopes \<Rightarrow>
               if \<not> IsSubsetOf scopes supported then Inl (invalidValue ''resource scopes'')
               else if rc_DisplayName config = [] then Inl (invalidValue ''resource display name'')
               else if gm_get resources rid \<noteq> None then Inl (invalidValue ''duplicate resource'')
               else NewStaticResourceRegistry_loop supported
                      (gm_set rid \<lparr>res_ID = rid, res_DisplayName = rc_DisplayName config,
                         res_SupportedScopes = scopes\<rparr> resources) configs))"

definition NewStaticResourceRegistry ::
  "ResourceConfig list \<Rightarrow> ScopeSet \<Rightarrow> StaticResourceRegistry result" where
  "NewStaticResourceRegistry configs supported =
     NewStaticResourceRegistry_loop supported [] configs"

definition LookupResource :: "StaticResourceRegistry \<Rightarrow> ResourceID \<Rightarrow> Resource result" where
  "LookupResource r rid =
     (case gm_get r rid of None \<Rightarrow> Inl ErrNotFound | Some resource \<Rightarrow> Inr resource)"

definition ListResources :: "StaticResourceRegistry \<Rightarrow> Resource list result" where
  "ListResources r = Inr (sort_key res_ID (map snd r))"

text \<open>\<open>listed\<close> is what \<open>ListResources\<close> of the injected registry returned.\<close>

fun registry_agrees :: "StaticResourceRegistry \<Rightarrow> Resource list \<Rightarrow> go_error option" where
  "registry_agrees expected [] = None"
| "registry_agrees expected (resource # resources) =
     (case gm_get expected (res_ID resource) of
        None \<Rightarrow> Some (invalidValue ''resource registry'')
      | Some want \<Rightarrow>
          if res_DisplayName want \<noteq> res_DisplayName resource \<or>
             ScopeSet_String (res_SupportedScopes want) \<noteq>
             ScopeSet_String (res_SupportedScopes resource)
          then Some (invalidValue ''resource registry'')
          else registry_agrees expected resources)"

definition validateResourceRegistry ::
  "ResourceConfig list \<Rightarrow> ScopeSet \<Rightarrow> Resource list result \<Rightarrow> go_error option" where
  "validateResourceRegistry configs supported listed =
     (case NewStaticResourceRegistry configs supported of
        Inl err \<Rightarrow> Some err
      | Inr expected \<Rightarrow>
          (case listed of
             Inl err \<Rightarrow> Some err
           | Inr actual \<Rightarrow>
               if length actual \<noteq> length expected then Some (invalidValue ''resource registry'')
               else registry_agrees expected actual))"

section \<open>The registry built from a configuration\<close>

definition registry_wf :: "ScopeSet \<Rightarrow> StaticResourceRegistry \<Rightarrow> bool" where
  "registry_wf supported r \<longleftrightarrow> gm_wf r \<and>
     (\<forall>(rid, res) \<in> set r. res_ID res = rid \<and> scopes_wf (res_SupportedScopes res) \<and>
        IsSubsetOf (res_SupportedScopes res) supported \<and> res_DisplayName res \<noteq> [])"

lemma NewStaticResourceRegistry_loop_wf:
  "NewStaticResourceRegistry_loop supd r configs = Inr r' \<Longrightarrow> registry_wf supd r \<Longrightarrow>
   registry_wf supd r' \<and> length r' = length r + length configs \<and>
   map Inr (gm_keys r') = map Inr (gm_keys r) @ map (\<lambda>rc. NewResourceID (rc_ID rc)) configs"
proof (induction supd r configs rule: NewStaticResourceRegistry_loop.induct)
  case (2 supd r config configs)
  from "2.prems"(1) obtain rid scopes where *: "NewResourceID (rc_ID config) = Inr rid"
    "NewScopeSet (stringsToScopes (rc_SupportedScopes config)) = Inr scopes"
    "IsSubsetOf scopes supd" "rc_DisplayName config \<noteq> []" "gm_get r rid = None"
    by (auto split: sum.splits if_splits)
  let ?res = "\<lparr>res_ID = rid, res_DisplayName = rc_DisplayName config, res_SupportedScopes = scopes\<rparr>"
  have set: "gm_set rid ?res r = r @ [(rid, ?res)]"
    using * by (simp add: gm_set_new)
  have "registry_wf supd (gm_set rid ?res r)"
    using "2.prems"(2) * NewScopeSet_wf [OF *(2)] gm_wf_set [of r rid ?res]
    by (auto simp: registry_wf_def set)
  with "2.IH" * "2.prems"(1) show ?case
    by (simp add: set)
qed simp

lemma NewStaticResourceRegistry_wf:
  "NewStaticResourceRegistry configs supd = Inr r \<Longrightarrow>
   registry_wf supd r \<and> map Inr (gm_keys r) = map (\<lambda>rc. NewResourceID (rc_ID rc)) configs"
  using NewStaticResourceRegistry_loop_wf [of supd "[]" configs r]
  by (simp add: NewStaticResourceRegistry_def registry_wf_def)

lemma registry_wf_get:
  "registry_wf supd r \<Longrightarrow> gm_get r rid = Some res \<Longrightarrow>
   res_ID res = rid \<and> scopes_wf (res_SupportedScopes res) \<and>
   IsSubsetOf (res_SupportedScopes res) supd"
  by (fastforce simp: registry_wf_def dest: gm_get_in)

lemma LookupResource_wf:
  "registry_wf supd r \<Longrightarrow> LookupResource r rid = Inr res \<Longrightarrow>
   res_ID res = rid \<and> scopes_wf (res_SupportedScopes res) \<and>
   IsSubsetOf (res_SupportedScopes res) supd"
  by (auto simp: LookupResource_def registry_wf_get split: option.splits)

text \<open>Listing agrees with lookup: the identifiers in increasing order, without repetition, and
  exactly the resources that a lookup finds.\<close>

lemma ListResources_lookup:
  assumes "registry_wf supd r" and "ListResources r = Inr rs"
  shows "sorted (map res_ID rs) \<and> distinct (map res_ID rs) \<and>
    (\<forall>res. res \<in> set rs \<longleftrightarrow> LookupResource r (res_ID res) = Inr res)"
proof -
  from assms(1) have wf: "gm_wf r" and ids: "\<And>p. p \<in> set r \<Longrightarrow> res_ID (snd p) = fst p"
    by (auto simp: registry_wf_def)
  have rs: "rs = sort_key res_ID (map snd r)"
    using assms(2) by (simp add: ListResources_def)
  have keys: "map res_ID (map snd r) = gm_keys r"
    using ids by simp
  have "distinct (map res_ID (map snd r))"
    unfolding keys by (rule wf)
  then have "distinct (map res_ID rs)"
    unfolding rs by (simp only: distinct_map distinct_sort set_sort)
  moreover have "res \<in> set rs \<longleftrightarrow> LookupResource r (res_ID res) = Inr res" for res
  proof -
    have "res \<in> set rs \<longleftrightarrow> (\<exists>p \<in> set r. snd p = res)"
      unfolding rs by (auto simp: image_iff)
    also have "\<dots> \<longleftrightarrow> (res_ID res, res) \<in> set r"
    proof
      assume "\<exists>p \<in> set r. snd p = res"
      then obtain p where "p \<in> set r" "snd p = res" by blast
      with ids [of p] have "(res_ID res, res) = p" by (cases p) simp
      with \<open>p \<in> set r\<close> show "(res_ID res, res) \<in> set r" by simp
    qed force
    also have "\<dots> \<longleftrightarrow> gm_get r (res_ID res) = Some res"
      using wf by (simp add: map_of_eq_Some_iff)
    finally show ?thesis by (auto simp: LookupResource_def split: option.splits)
  qed
  ultimately show ?thesis unfolding rs by simp
qed

text \<open>The registry of a configuration passes the check against that configuration.\<close>

lemma registry_agrees_self:
  "\<forall>x \<in> set xs. gm_get r (res_ID x) = Some x \<Longrightarrow> registry_agrees r xs = None"
  by (induction xs) simp_all

lemma validateResourceRegistry_static:
  assumes "NewStaticResourceRegistry configs supd = Inr r"
  shows "validateResourceRegistry configs supd (ListResources r) = None"
proof -
  have wf: "registry_wf supd r" using NewStaticResourceRegistry_wf [OF assms] by simp
  have "registry_agrees r (sort_key res_ID (map snd r)) = None"
  proof (rule registry_agrees_self, rule ballI)
    fix x assume "x \<in> set (sort_key res_ID (map snd r))"
    then show "gm_get r (res_ID x) = Some x"
      using ListResources_lookup [OF wf, of "sort_key res_ID (map snd r)"]
      by (auto simp: ListResources_def LookupResource_def split: option.splits)
  qed
  with assms show ?thesis
    by (simp add: validateResourceRegistry_def ListResources_def)
qed

text \<open>What acceptance of an injected registry does show: every resource it lists is a configured
  one, with the configured name and scopes.\<close>

lemma registry_agrees_None:
  "registry_agrees r xs = None \<Longrightarrow> x \<in> set xs \<Longrightarrow>
   \<exists>want. gm_get r (res_ID x) = Some want \<and> res_DisplayName want = res_DisplayName x \<and>
     ScopeSet_String (res_SupportedScopes want) = ScopeSet_String (res_SupportedScopes x)"
  by (induction xs) (auto split: option.splits if_splits)

text \<open>A configuration whose resources pass \<open>Config.Validate\<close> has a static registry.\<close>

lemma TrimSpace_Nil [simp]: "TrimSpace [] = []"
  by (simp add: TrimSpace_graphics)

lemma Validate_resources_registry_loop:
  "Validate_resources supd (map fst r) configs = None \<Longrightarrow>
   \<exists>r'. NewStaticResourceRegistry_loop supd r configs = Inr r'"
proof (induction configs arbitrary: r)
  case (Cons config configs)
  from Cons.prems obtain rid scopes where *: "NewResourceID (rc_ID config) = Inr rid"
    "TrimSpace (rc_DisplayName config) \<noteq> []" "rid \<notin> set (map fst r)"
    "NewScopeSet (stringsToScopes (rc_SupportedScopes config)) = Inr scopes"
    "IsSubsetOf scopes supd" "Validate_resources supd (rid # map fst r) configs = None"
    by (auto split: sum.splits if_splits)
  let ?res = "\<lparr>res_ID = rid, res_DisplayName = rc_DisplayName config, res_SupportedScopes = scopes\<rparr>"
  have new: "gm_get r rid = None" using *(3) by (simp add: map_of_eq_None_iff)
  have "Validate_resources supd (map fst (gm_set rid ?res r)) configs = None"
    using *(6) Validate_resources_cong [of "rid # map fst r" "map fst (gm_set rid ?res r)"]
    by (simp add: gm_set_new [OF new])
  from Cons.IH [OF this] * new show ?case by auto
qed simp

lemma Validate_resources_registry:
  "Validate_resources supd [] configs = None \<Longrightarrow>
   \<exists>r. NewStaticResourceRegistry configs supd = Inr r"
  using Validate_resources_registry_loop [of supd "[]" configs]
  by (simp add: NewStaticResourceRegistry_def)

end
