(* ===== verification/Transitions.thy ===== *)
theory Transitions
  imports Model
begin

text \<open>
  \<open>pkg/oauthserver/transitions.go\<close>: the checks that every store runs inside its transaction
  before it commits a state change.
\<close>

definition ValidateLoginCommit ::
  "AuthorizationTransaction \<Rightarrow> 'a ConsentSession \<Rightarrow> time \<Rightarrow> go_error option" where
  "ValidateLoginCommit auth consent now =
     (if \<not> IsZero (at_ConsumedAt auth) then Some ErrConsumed
      else if \<not> After (at_ExpiresAt auth) now then Some ErrExpired
      else if snap_ID (cs_Client consent) \<noteq> at_ClientID auth \<or>
              snap_RedirectURI (cs_Client consent) \<noteq> at_RedirectURI auth \<or>
              cs_State consent \<noteq> at_State auth \<or>
              cs_PKCEChallenge consent \<noteq> at_PKCEChallenge auth \<or>
              cs_Resource consent \<noteq> at_Resource auth
      then Some ErrBinding
      else if p_Subject (cs_Principal consent) = [] \<or>
              \<not> IsSubsetOf (cs_AllowedScopes consent) (at_RequestedScopes auth) \<or>
              \<not> After (cs_AuthorizationEnds consent) now \<or> \<not> After (cs_ExpiresAt consent) now
      then Some ErrInvalid
      else None)"

definition ValidateConsentCommit ::
  "'a ConsentSession \<Rightarrow> 'a ConsentCommit \<Rightarrow> time \<Rightarrow> go_error option" where
  "ValidateConsentCommit consent commit now =
     (if \<not> IsZero (cs_ConsumedAt consent) then Some ErrConsumed
      else if \<not> After (cs_ExpiresAt consent) now then Some ErrExpired
      else if cco_Decision commit = ConsentDecisionDeny then
        (if ac_Digest (cco_Code commit) \<noteq> zero_digest then Some ErrInvalid else None)
      else if cco_Decision commit \<noteq> ConsentDecisionApprove then Some ErrInvalid
      else (let code = cco_Code commit
            in if ac_Digest code = zero_digest \<or>
                  ac_ClientID code \<noteq> snap_ID (cs_Client consent) \<or>
                  ac_RedirectURI code \<noteq> snap_RedirectURI (cs_Client consent) \<or>
                  ac_State code \<noteq> cs_State consent \<or>
                  ac_PKCEChallenge code \<noteq> cs_PKCEChallenge consent \<or>
                  ac_Resource code \<noteq> cs_Resource consent \<or>
                  ac_Principal code \<noteq> cs_Principal consent \<or>
                  \<not> IsSubsetOf (ac_Scopes code) (cs_AllowedScopes consent) \<or>
                  ac_AuthorizationEnds code \<noteq> cs_AuthorizationEnds consent \<or>
                  \<not> After (ac_ExpiresAt code) now
               then Some ErrBinding else None))"

definition ValidateCodeExchangeCommit ::
  "'a AuthorizationCodeRecord \<Rightarrow> 'a CodeExchangeCommit \<Rightarrow> time \<Rightarrow> go_error option" where
  "ValidateCodeExchangeCommit code commit now =
     (if \<not> IsZero (ac_ConsumedAt code) then Some ErrConsumed
      else if \<not> After (ac_ExpiresAt code) now then Some ErrExpired
      else (case cec_Refresh commit of
              None \<Rightarrow> Some ErrInvalid
            | Some refresh \<Rightarrow>
                if rg_Digest refresh = zero_digest \<or> rg_FamilyID refresh = [] \<or>
                   rg_Generation refresh \<noteq> 0 \<or> rg_ClientID refresh \<noteq> ac_ClientID code \<or>
                   rg_Principal refresh \<noteq> ac_Principal code \<or>
                   rg_Resource refresh \<noteq> ac_Resource code \<or>
                   ScopeSet_String (rg_Scopes refresh) \<noteq> ScopeSet_String (ac_Scopes code) \<or>
                   rg_ExpiresAt refresh \<noteq> ac_AuthorizationEnds code \<or>
                   \<not> After (rg_ExpiresAt refresh) now \<or> \<not> IsZero (rg_ConsumedAt refresh) \<or>
                   \<not> IsZero (rg_RevokedAt refresh)
                then Some ErrBinding else None))"

definition ValidateRefreshRotation ::
  "'a RefreshGrant \<Rightarrow> 'a RefreshRotation \<Rightarrow> time \<Rightarrow> go_error option" where
  "ValidateRefreshRotation current rotation now =
     (if rg_FamilyID current \<noteq> rr_FamilyID rotation \<or>
         rg_Generation current \<noteq> rr_Generation rotation then Some ErrBinding
      else if \<not> IsZero (rg_RevokedAt current) then Some ErrRevoked
      else if \<not> IsZero (rg_ConsumedAt current) then Some ErrConsumed
      else if \<not> After (rg_ExpiresAt current) now then Some ErrExpired
      else (let succ = rr_Successor rotation
            in if rg_Digest succ = zero_digest \<or> rg_FamilyID succ \<noteq> rg_FamilyID current \<or>
                  rg_Generation succ \<noteq> rg_Generation current + 1 \<or>
                  rg_ClientID succ \<noteq> rg_ClientID current \<or>
                  p_Subject (rg_Principal succ) \<noteq> p_Subject (rg_Principal current) \<or>
                  rg_Resource succ \<noteq> rg_Resource current \<or>
                  \<not> IsSubsetOf (rg_Scopes succ) (rg_Scopes current) \<or>
                  rg_ExpiresAt succ \<noteq> rg_ExpiresAt current \<or>
                  \<not> IsZero (rg_ConsumedAt succ) \<or> \<not> IsZero (rg_RevokedAt succ)
               then Some ErrBinding else None))"

section \<open>What each check guarantees\<close>

lemma ValidateLoginCommit_None:
  "ValidateLoginCommit auth consent now = None \<longleftrightarrow>
     at_ConsumedAt auth = 0 \<and> now < at_ExpiresAt auth \<and>
     snap_ID (cs_Client consent) = at_ClientID auth \<and>
     snap_RedirectURI (cs_Client consent) = at_RedirectURI auth \<and>
     cs_State consent = at_State auth \<and> cs_PKCEChallenge consent = at_PKCEChallenge auth \<and>
     cs_Resource consent = at_Resource auth \<and> p_Subject (cs_Principal consent) \<noteq> [] \<and>
     IsSubsetOf (cs_AllowedScopes consent) (at_RequestedScopes auth) \<and>
     now < cs_AuthorizationEnds consent \<and> now < cs_ExpiresAt consent"
  by (auto simp: ValidateLoginCommit_def)

lemma ValidateConsentCommit_None:
  "ValidateConsentCommit consent commit now = None \<longleftrightarrow>
     cs_ConsumedAt consent = 0 \<and> now < cs_ExpiresAt consent \<and>
     (cco_Decision commit = ConsentDecisionDeny \<and> ac_Digest (cco_Code commit) = zero_digest \<or>
      cco_Decision commit = ConsentDecisionApprove \<and>
      ac_Digest (cco_Code commit) \<noteq> zero_digest \<and>
      ac_ClientID (cco_Code commit) = snap_ID (cs_Client consent) \<and>
      ac_RedirectURI (cco_Code commit) = snap_RedirectURI (cs_Client consent) \<and>
      ac_State (cco_Code commit) = cs_State consent \<and>
      ac_PKCEChallenge (cco_Code commit) = cs_PKCEChallenge consent \<and>
      ac_Resource (cco_Code commit) = cs_Resource consent \<and>
      ac_Principal (cco_Code commit) = cs_Principal consent \<and>
      IsSubsetOf (ac_Scopes (cco_Code commit)) (cs_AllowedScopes consent) \<and>
      ac_AuthorizationEnds (cco_Code commit) = cs_AuthorizationEnds consent \<and>
      now < ac_ExpiresAt (cco_Code commit))"
  by (auto simp: ValidateConsentCommit_def Let_def decision_defs)

lemma ValidateCodeExchangeCommit_None:
  "ValidateCodeExchangeCommit code commit now = None \<longleftrightarrow>
     ac_ConsumedAt code = 0 \<and> now < ac_ExpiresAt code \<and>
     (\<exists>refresh. cec_Refresh commit = Some refresh \<and> rg_Digest refresh \<noteq> zero_digest \<and>
        rg_FamilyID refresh \<noteq> [] \<and> rg_Generation refresh = 0 \<and>
        rg_ClientID refresh = ac_ClientID code \<and> rg_Principal refresh = ac_Principal code \<and>
        rg_Resource refresh = ac_Resource code \<and>
        ScopeSet_String (rg_Scopes refresh) = ScopeSet_String (ac_Scopes code) \<and>
        rg_ExpiresAt refresh = ac_AuthorizationEnds code \<and> now < rg_ExpiresAt refresh \<and>
        rg_ConsumedAt refresh = 0 \<and> rg_RevokedAt refresh = 0)"
  by (cases "cec_Refresh commit") (simp_all add: ValidateCodeExchangeCommit_def)

lemma ValidateRefreshRotation_None:
  "ValidateRefreshRotation current rotation now = None \<longleftrightarrow>
     rg_FamilyID current = rr_FamilyID rotation \<and> rg_Generation current = rr_Generation rotation \<and>
     rg_RevokedAt current = 0 \<and> rg_ConsumedAt current = 0 \<and> now < rg_ExpiresAt current \<and>
     rg_Digest (rr_Successor rotation) \<noteq> zero_digest \<and>
     rg_FamilyID (rr_Successor rotation) = rg_FamilyID current \<and>
     rg_Generation (rr_Successor rotation) = rg_Generation current + 1 \<and>
     rg_ClientID (rr_Successor rotation) = rg_ClientID current \<and>
     p_Subject (rg_Principal (rr_Successor rotation)) = p_Subject (rg_Principal current) \<and>
     rg_Resource (rr_Successor rotation) = rg_Resource current \<and>
     IsSubsetOf (rg_Scopes (rr_Successor rotation)) (rg_Scopes current) \<and>
     rg_ExpiresAt (rr_Successor rotation) = rg_ExpiresAt current \<and>
     rg_ConsumedAt (rr_Successor rotation) = 0 \<and> rg_RevokedAt (rr_Successor rotation) = 0"
  by (auto simp: ValidateRefreshRotation_def Let_def)

text \<open>Every error of a check is a sentinel that the engine answers with 400 or 503.\<close>

lemma Validate_errors:
  "ValidateLoginCommit auth consent now \<in>
     {None, Some ErrConsumed, Some ErrExpired, Some ErrBinding, Some ErrInvalid}"
  "ValidateConsentCommit consent ccommit now \<in>
     {None, Some ErrConsumed, Some ErrExpired, Some ErrBinding, Some ErrInvalid}"
  "ValidateCodeExchangeCommit code xcommit now \<in>
     {None, Some ErrConsumed, Some ErrExpired, Some ErrBinding, Some ErrInvalid}"
  "ValidateRefreshRotation current rotation now \<in>
     {None, Some ErrConsumed, Some ErrExpired, Some ErrBinding, Some ErrRevoked}"
  by (auto simp: ValidateLoginCommit_def ValidateConsentCommit_def ValidateCodeExchangeCommit_def
      ValidateRefreshRotation_def Let_def split: option.splits)

end
