(* ===== verification/Core_Properties.thy ===== *)
theory Core_Properties
  imports Registry Transitions
begin

text \<open>
  The properties of the value types, the configuration and the registry of
  \<open>pkg/oauthserver\<close>.
\<close>

section \<open>Scopes\<close>

text \<open>Scope sets are canonical.  \<open>NewScopeSet\<close> returns a sorted slice without duplicates whose
  elements obey the identifier grammar and are exactly the trimmed inputs; two calls that agree on
  these elements return equal sets, whatever the order and repetition of their inputs.\<close>

lemma NewScopeSet_canonical:
  assumes "NewScopeSet vs = Inr s"
  shows "sorted (scope_values s) \<and> distinct (scope_values s) \<and>
    list_all identifierPattern (scope_values s) \<and> scope_set s = TrimSpace ` set vs \<and>
    (\<forall>vs' s'. NewScopeSet vs' = Inr s' \<longrightarrow> TrimSpace ` set vs' = TrimSpace ` set vs \<longrightarrow> s' = s)"
proof -
  note wf = NewScopeSet_wf [OF assms]
  have "s' = s" if "NewScopeSet vs' = Inr s'" "TrimSpace ` set vs' = TrimSpace ` set vs" for vs' s'
    using scopes_wf_eqI [OF NewScopeSet_wf [OF that(1)] wf] NewScopeSet_set [OF that(1)]
      NewScopeSet_set [OF assms] that(2) by simp
  with wf NewScopeSet_set [OF assms] show ?thesis by (simp add: scopes_wf_def)
qed

text \<open>The optimised set operations compute the set operations.  On canonical sets the merge
  \<open>Intersect\<close> is intersection, the length comparison \<open>IsSubsetOf\<close> is inclusion and the binary
  search \<open>Contains\<close> is membership; the result of \<open>Intersect\<close> is canonical again.\<close>

lemma scope_operations_correct:
  assumes "scopes_wf s" and "scopes_wf t"
  shows "scopes_wf (Intersect s t) \<and> scope_set (Intersect s t) = scope_set s \<inter> scope_set t \<and>
    (IsSubsetOf s t \<longleftrightarrow> scope_set s \<subseteq> scope_set t) \<and> (Contains s x \<longleftrightarrow> x \<in> scope_set s)"
  using assms by (simp add: IsSubsetOf_iff Contains_iff)

text \<open>Printing and parsing scopes round-trips.  \<open>ParseScopes\<close> of the space-separated \<open>String\<close> of
  a canonical set returns that set, so equal texts (the comparison of the code exchange) mean
  equal authority.\<close>

lemma scopes_roundtrip:
  assumes "scopes_wf s"
  shows "ParseScopes (ScopeSet_String s) = Inr s \<and>
    (\<forall>t. scopes_wf t \<longrightarrow> ScopeSet_String t = ScopeSet_String s \<longrightarrow> t = s)"
  using assms ParseScopes_String ScopeSet_String_inj by blast

section \<open>PKCE\<close>

text \<open>C28. PKCE.  The S256 challenge of a verifier is accepted by \<open>NewPKCEChallenge\<close>; \<open>Verify\<close> accepts
  a verifier exactly when it is well-formed and hashes to the challenge; and two verifiers that
  one challenge accepts have the same SHA-256 digest.\<close>

theorem pkce_correct:
  "NewPKCEChallenge (EncodeToString (Sum256 v)) ''S256'' =
     Inr \<lparr>pk_Value = EncodeToString (Sum256 v), pk_Method = ''S256''\<rparr> \<and>
   (PKCE_Verify c v = None \<longleftrightarrow>
      43 \<le> length v \<and> length v \<le> 128 \<and> set v \<subseteq> set verifier_alphabet \<and>
      pk_Value c = EncodeToString (Sum256 v)) \<and>
   (PKCE_Verify c v = None \<and> PKCE_Verify c v' = None \<longrightarrow> Sum256 v = Sum256 v')"
  using NewPKCEChallenge_S256 PKCE_Verify_binding
  by (auto simp: PKCE_Verify_None ValidatePKCEVerifier_None)

text \<open>A challenge and verifier, for the last clause.\<close>

definition example_verifier :: string where
  "example_verifier = replicate 43 (CHR ''a'')"

theorem pkce_correct_witness:
  "PKCE_Verify \<lparr>pk_Value = EncodeToString (Sum256 example_verifier), pk_Method = ''S256''\<rparr>
     example_verifier = None"
proof -
  have "43 \<le> length example_verifier \<and> length example_verifier \<le> 128 \<and>
      set example_verifier \<subseteq> set verifier_alphabet"
    by (simp add: example_verifier_def verifier_alphabet_def)
  with pkce_correct [of example_verifier "\<lparr>pk_Value = EncodeToString (Sum256 example_verifier),
      pk_Method = ''S256''\<rparr>" example_verifier] show ?thesis by simp
qed

section \<open>Identifiers and URLs\<close>

text \<open>Validated text is canonical and within its grammar.  A client id, subject or scope that a
  constructor returns starts with an alphanumeric, has at most 256 bytes and passes again
  unchanged; an opaque credential has between 16 and 512 bytes, no blank, and passes again
  unchanged.\<close>

lemma identifiers_canonical:
  assumes "newIdentifier raw name = Inr s" and "newOpaque raw' name' = Inr t"
  shows "s \<noteq> [] \<and> ascii_alnum (hd s) \<and> length s \<le> 256 \<and> list_all identifier_char s \<and>
    newIdentifier s name = Inr s \<and>
    16 \<le> length t \<and> length t \<le> 512 \<and> set t \<inter> set blanks = {} \<and> newOpaque t name' = Inr t"
proof -
  have s: "identifierPattern s" using assms(1) by (simp add: newIdentifier_Inr)
  then have "s \<noteq> []" "ascii_alnum (hd s)" "length s \<le> 256" "list_all identifier_char s"
    by (cases s; simp add: identifier_char_def)+
  moreover have "TrimSpace t = t"
    using assms(2) by (auto simp: newOpaque_Inr)
  ultimately show ?thesis
    using s assms(2) by (auto simp: newIdentifier_id newOpaque_Inr)
qed

section \<open>Configuration and registry\<close>

text \<open>The default configuration is valid for every https issuer and every valid non-empty list of
  resources, and for nothing else.\<close>

lemma DefaultConfig_valid:
  "Config_Validate (DefaultConfig issuer resources scopes) = None \<longleftrightarrow>
     validIssuer issuer \<and> resources \<noteq> [] \<and> Validate_resources scopes [] resources = None"
proof -
  have "\<not> bad_policy (cfg_StatePolicy (DefaultConfig issuer resources scopes))
      (cfg_HTTP (DefaultConfig issuer resources scopes))"
    by (simp add: bad_policy_def DefaultConfig_def duration_of_def time_units word_sle_eq)
  moreover have "0 <s cfg_AccessTTL c \<and> 0 <s cfg_TransactionTTL c \<and> 0 <s cfg_ConsentTTL c \<and>
      0 <s cfg_CodeTTL c \<and> cfg_ConsentTTL c + cfg_CodeTTL c <s cfg_RefreshTTL c"
    if "c = DefaultConfig issuer resources scopes" for c
    unfolding that
    by (simp add: DefaultConfig_def duration_of_def time_units word_sless_alt)
  ultimately show ?thesis
    by (auto simp: Config_Validate_def DefaultConfig_def word_sless_alt word_sle_eq not_less
        split: option.splits)
qed

text \<open>The one resource of the examples.\<close>

definition example_resource :: ResourceConfig where
  "example_resource = \<lparr>rc_ID = ''https://api.test'', rc_DisplayName = ''API'',
     rc_SupportedScopes = [''read'', ''write'']\<rparr>"

definition example_scopes :: ScopeSet where
  "example_scopes = ScopeSet [''read'', ''write'']"

definition example_config :: Config where
  "example_config = DefaultConfig ''https://auth.test'' [example_resource] example_scopes"

lemma example_config_valid: "Config_Validate example_config = None"
proof -
  have "validIssuer ''https://auth.test'' \<and>
      Validate_resources example_scopes [] [example_resource] = None"
    by code_simp
  then show ?thesis
    unfolding example_config_def by (simp add: Config_Validate_def DefaultConfig_def bad_policy_def
        duration_of_def time_units word_sle_eq)
qed

text \<open>What a validated configuration guarantees: the lifetimes are positive; a refresh grant
  outlives a consent and a code together, provided their sum is an \<open>int64\<close>; and the static
  registry can be built from it, lists each configured resource once under a valid origin, and
  passes the registry check of \<open>New\<close>.\<close>

lemma validated_config:
  assumes "Config_Validate c = None"
    and "sint (cfg_ConsentTTL c) + sint (cfg_CodeTTL c) < 2 ^ 63"
  shows "0 < sint (cfg_AccessTTL c) \<and> 0 < sint (cfg_TransactionTTL c) \<and>
    sint (cfg_ConsentTTL c) + sint (cfg_CodeTTL c) < sint (cfg_RefreshTTL c) \<and>
    (\<exists>r rs. NewStaticResourceRegistry (cfg_Resources c) (cfg_SupportedScopes c) = Inr r \<and>
       ListResources r = Inr rs \<and> length rs = length (cfg_Resources c) \<and>
       distinct (map res_ID rs) \<and> (\<forall>res \<in> set rs. validOrigin (res_ID res) True) \<and>
       validateResourceRegistry (cfg_Resources c) (cfg_SupportedScopes c) (ListResources r) = None)"
proof -
  have v: "Validate_resources (cfg_SupportedScopes c) [] (cfg_Resources c) = None"
    using assms(1) by (auto simp: Config_Validate_def split: if_splits option.splits)
  obtain ids where ids: "map (\<lambda>rc. NewResourceID (rc_ID rc)) (cfg_Resources c) = map Inr ids"
    "\<forall>rid \<in> set ids. validOrigin rid True"
    using Validate_resources_None [OF v] by blast
  obtain r where r: "NewStaticResourceRegistry (cfg_Resources c) (cfg_SupportedScopes c) = Inr r"
    using Validate_resources_registry [OF v] by blast
  obtain rs where rs: "ListResources r = Inr rs" "rs = sort_key res_ID (map snd r)"
    by (simp add: ListResources_def)
  note wf = NewStaticResourceRegistry_wf [OF r]
  from wf have keys: "gm_keys r = ids" using ids(1) by (metis Inr_inject map_injective inj_onI inj_def)
  have "\<forall>res \<in> set rs. validOrigin (res_ID res) True"
    using ids(2) keys wf by (force simp: rs(2) registry_wf_def)
  moreover have "length rs = length (cfg_Resources c)"
    using wf rs(2) by (metis length_map length_sort)
  ultimately show ?thesis
    using Config_Validate_ttls [OF assms(1)] Config_Validate_refresh [OF assms] r rs(1)
      ListResources_lookup [OF _ rs(1)] wf validateResourceRegistry_static [OF r] by blast
qed

text \<open>The registry is the map it lists.  A registry built from a configuration returns from
  \<open>LookupResource\<close> exactly the resources that \<open>ListResources\<close> lists, once each and in increasing
  order of identifier, every one within the supported scopes; any other identifier is
  \<open>ErrNotFound\<close>.\<close>

lemma registry_lookup_list:
  assumes "NewStaticResourceRegistry configs supported = Inr r"
  shows "\<exists>rs. ListResources r = Inr rs \<and> sorted (map res_ID rs) \<and> distinct (map res_ID rs) \<and>
    (\<forall>res. res \<in> set rs \<longleftrightarrow> LookupResource r (res_ID res) = Inr res) \<and>
    (\<forall>res \<in> set rs. IsSubsetOf (res_SupportedScopes res) supported) \<and>
    (\<forall>rid. rid \<notin> set (map res_ID rs) \<longrightarrow> LookupResource r rid = Inl ErrNotFound)"
proof -
  obtain rs where rs: "ListResources r = Inr rs" by (simp add: ListResources_def)
  have wf: "registry_wf supported r" using NewStaticResourceRegistry_wf [OF assms] by simp
  note l = ListResources_lookup [OF wf rs]
  have "IsSubsetOf (res_SupportedScopes res) supported" if "res \<in> set rs" for res
    using l that LookupResource_wf [OF wf] by blast
  moreover have "LookupResource r rid = Inl ErrNotFound" if "rid \<notin> set (map res_ID rs)" for rid
  proof (cases "LookupResource r rid")
    case (Inl e)
    then show ?thesis by (auto simp: LookupResource_def split: option.splits)
  next
    case (Inr res)
    then have "res_ID res = rid" using LookupResource_wf [OF wf] by blast
    with Inr l that show ?thesis by force
  qed
  ultimately show ?thesis using rs l by blast
qed

end
