(* ===== verification/Memory_Store.thy ===== *)
theory Memory_Store
  imports Transitions
begin

text \<open>
  \<open>pkg/memorytest/store.go\<close>: the in-memory store, which is also the reference for every other
  store.  Its five maps are association lists.  The mutex makes every method atomic, so a
  method is a function from the store to its result and the new store; the readings of the
  clock that a method makes are arguments, in the order of the calls (\<open>t1\<close> for pruning,
  \<open>t2\<close> for the transition).
\<close>

record 'a Store =
  st_clients :: "(ClientID, Client) gomap"
  st_authorizers :: "(CredentialDigest, AuthorizationTransaction) gomap"
  st_consents :: "(CredentialDigest, 'a ConsentSession) gomap"
  st_codes :: "(CredentialDigest, 'a AuthorizationCodeRecord) gomap"
  st_refresh :: "(CredentialDigest, 'a RefreshGrant) gomap"

definition NewStore :: "'a Store" where
  "NewStore = \<lparr>st_clients = [], st_authorizers = [], st_consents = [], st_codes = [],
     st_refresh = []\<rparr>"

section \<open>Clients\<close>

definition cloneClient :: "Client \<Rightarrow> Client" where
  "cloneClient client =
     client\<lparr>cl_AllowedScopes :=
       (case NewScopeSet (ScopeSet_Values (cl_AllowedScopes client)) of
          Inl _ \<Rightarrow> empty_ScopeSet | Inr s \<Rightarrow> s)\<rparr>"

definition clientHasLiveState :: "'a Store \<Rightarrow> ClientID \<Rightarrow> time \<Rightarrow> bool" where
  "clientHasLiveState s cid now \<longleftrightarrow>
     list_ex (\<lambda>(_, state). at_ClientID state = cid \<and> IsZero (at_ConsumedAt state) \<and>
         After (at_ExpiresAt state) now) (st_authorizers s) \<or>
     list_ex (\<lambda>(_, consent). snap_ID (cs_Client consent) = cid \<and> IsZero (cs_ConsumedAt consent) \<and>
         After (cs_ExpiresAt consent) now) (st_consents s) \<or>
     list_ex (\<lambda>(_, code). ac_ClientID code = cid \<and> IsZero (ac_ConsumedAt code) \<and>
         After (ac_ExpiresAt code) now) (st_codes s) \<or>
     list_ex (\<lambda>(_, grant). rg_ClientID grant = cid \<and> IsZero (rg_RevokedAt grant) \<and>
         After (rg_ExpiresAt grant) now) (st_refresh s)"

definition stale_client :: "'a Store \<Rightarrow> StatePolicy \<Rightarrow> time \<Rightarrow> ClientID \<Rightarrow> Client \<Rightarrow> bool" where
  "stale_client s policy now cid existing \<longleftrightarrow>
     cl_Trust existing = ClientTrustUnverified \<and>
     \<not> After (cl_LastUsedAt existing)
        (time_Add now (- rp_UnverifiedClientTTL (sp_Registration policy))) \<and>
     \<not> clientHasLiveState s cid now"

definition Mem_RegisterClient ::
  "time \<Rightarrow> Client \<Rightarrow> StatePolicy \<Rightarrow> 'a Store \<Rightarrow> go_error option \<times> 'a Store" where
  "Mem_RegisterClient now client policy s0 =
     (let s = s0\<lparr>st_clients := gm_delete_if (stale_client s0 policy now) (st_clients s0)\<rparr>
      in if int (length (st_clients s)) \<ge> rp_MaxClients (sp_Registration policy)
         then (Some ErrCapacity, s)
         else if gm_get (st_clients s) (cl_ID client) \<noteq> None then (Some ErrConflict, s)
         else (None, s\<lparr>st_clients := gm_set (cl_ID client) (cloneClient client) (st_clients s)\<rparr>))"

definition Mem_GetClient :: "ClientID \<Rightarrow> 'a Store \<Rightarrow> Client result" where
  "Mem_GetClient cid s =
     (case gm_get (st_clients s) cid of
        None \<Rightarrow> Inl ErrNotFound | Some client \<Rightarrow> Inr (cloneClient client))"

definition Mem_TouchClient :: "ClientID \<Rightarrow> time \<Rightarrow> 'a Store \<Rightarrow> go_error option \<times> 'a Store" where
  "Mem_TouchClient cid at s =
     (case gm_get (st_clients s) cid of
        None \<Rightarrow> (Some ErrNotFound, s)
      | Some client \<Rightarrow>
          (None, s\<lparr>st_clients := gm_set cid (client\<lparr>cl_LastUsedAt := at\<rparr>) (st_clients s)\<rparr>))"

section \<open>Pruning\<close>

text \<open>The loop that fills \<open>familyExpiry\<close>; a missing key reads as the zero time.\<close>

definition expiry_of :: "(RefreshFamilyID, time) gomap \<Rightarrow> RefreshFamilyID \<Rightarrow> time" where
  "expiry_of m family = (case gm_get m family of None \<Rightarrow> 0 | Some t \<Rightarrow> t)"

fun familyExpiry_loop ::
  "'a RefreshGrant list \<Rightarrow> (RefreshFamilyID, time) gomap \<Rightarrow> (RefreshFamilyID, time) gomap" where
  "familyExpiry_loop [] m = m"
| "familyExpiry_loop (grant # grants) m =
     familyExpiry_loop grants
       (if After (rg_ExpiresAt grant) (expiry_of m (rg_FamilyID grant))
        then gm_set (rg_FamilyID grant) (rg_ExpiresAt grant) m else m)"

definition pruneExpired :: "time \<Rightarrow> 'a Store \<Rightarrow> PruneStats \<times> 'a Store" where
  "pruneExpired now s =
     (let authorizers = gm_delete_if (\<lambda>_ state. \<not> After (at_ExpiresAt state) now) (st_authorizers s);
          consents = gm_delete_if (\<lambda>_ consent. \<not> After (cs_ExpiresAt consent) now) (st_consents s);
          codes = gm_delete_if (\<lambda>_ code. \<not> After (ac_ExpiresAt code) now) (st_codes s);
          familyExpiry = familyExpiry_loop (map snd (st_refresh s)) [];
          refresh = gm_delete_if
            (\<lambda>_ grant. \<not> After (expiry_of familyExpiry (rg_FamilyID grant)) now) (st_refresh s)
      in (\<lparr>ps_Clients = 0,
           ps_Authorizations = int (length (st_authorizers s)) - int (length authorizers),
           ps_Consents = int (length (st_consents s)) - int (length consents),
           ps_Codes = int (length (st_codes s)) - int (length codes),
           ps_RefreshGrants = int (length (st_refresh s)) - int (length refresh)\<rparr>,
          s\<lparr>st_authorizers := authorizers, st_consents := consents, st_codes := codes,
            st_refresh := refresh\<rparr>))"

definition Mem_Prune :: "time \<Rightarrow> StatePolicy \<Rightarrow> 'a Store \<Rightarrow> PruneStats result \<times> 'a Store" where
  "Mem_Prune now policy s = (case pruneExpired now s of (stats, s') \<Rightarrow> (Inr stats, s'))"

abbreviation pruned :: "time \<Rightarrow> 'a Store \<Rightarrow> 'a Store" where
  "pruned t s \<equiv> snd (pruneExpired t s)"

section \<open>Authorization, login and consent\<close>

definition Mem_CreateAuthorization ::
  "time \<Rightarrow> AuthorizationTransaction \<Rightarrow> StatePolicy \<Rightarrow> 'a Store \<Rightarrow> go_error option \<times> 'a Store" where
  "Mem_CreateAuthorization t1 state policy s0 =
     (let s = pruned t1 s0
      in if int (length (st_authorizers s)) \<ge> cap_MaxAuthorizations (sp_Capacity policy)
         then (Some ErrCapacity, s)
         else (let digest = DigestCredential (at_Token state)
               in if gm_get (st_authorizers s) digest \<noteq> None then (Some ErrConflict, s)
                  else (None, s\<lparr>st_authorizers := gm_set digest state (st_authorizers s)\<rparr>)))"

definition Mem_GetAuthorization ::
  "CredentialDigest \<Rightarrow> 'a Store \<Rightarrow> AuthorizationTransaction result" where
  "Mem_GetAuthorization digest s =
     (case gm_get (st_authorizers s) digest of None \<Rightarrow> Inl ErrNotFound | Some state \<Rightarrow> Inr state)"

definition Mem_CommitLogin ::
  "time \<Rightarrow> time \<Rightarrow> 'a LoginCommit \<Rightarrow> StatePolicy \<Rightarrow> 'a Store \<Rightarrow> go_error option \<times> 'a Store" where
  "Mem_CommitLogin t1 now commit policy s0 =
     (let s = pruned t1 s0
      in (case gm_get (st_authorizers s) (lco_TransactionDigest commit) of
            None \<Rightarrow> (Some ErrNotFound, s)
          | Some state \<Rightarrow>
              (case ValidateLoginCommit state (lco_Consent commit) now of
                 Some err \<Rightarrow> (Some err, s)
               | None \<Rightarrow>
                   if int (length (st_consents s)) \<ge> cap_MaxConsents (sp_Capacity policy)
                   then (Some ErrCapacity, s)
                   else (let consentDigest = DigestCredential (cs_Token (lco_Consent commit))
                         in if gm_get (st_consents s) consentDigest \<noteq> None
                            then (Some ErrConflict, s)
                            else (None,
                              s\<lparr>st_authorizers := gm_set (lco_TransactionDigest commit)
                                   (state\<lparr>at_ConsumedAt := now\<rparr>) (st_authorizers s),
                                st_consents := gm_set consentDigest (lco_Consent commit)
                                   (st_consents s)\<rparr>)))))"

definition Mem_GetConsent :: "CredentialDigest \<Rightarrow> 'a Store \<Rightarrow> 'a ConsentSession result" where
  "Mem_GetConsent digest s =
     (case gm_get (st_consents s) digest of None \<Rightarrow> Inl ErrNotFound | Some consent \<Rightarrow> Inr consent)"

definition Mem_CommitConsent ::
  "time \<Rightarrow> time \<Rightarrow> 'a ConsentCommit \<Rightarrow> StatePolicy \<Rightarrow> 'a Store \<Rightarrow>
   ConsentCommitResult result \<times> 'a Store" where
  "Mem_CommitConsent t1 now commit policy s0 =
     (let s = pruned t1 s0
      in (case gm_get (st_consents s) (cco_ConsentDigest commit) of
            None \<Rightarrow> (Inl ErrNotFound, s)
          | Some consent \<Rightarrow>
              (case ValidateConsentCommit consent commit now of
                 Some err \<Rightarrow> (Inl err, s)
               | None \<Rightarrow>
                   (let digest = ac_Digest (cco_Code commit);
                        consents = gm_set (cco_ConsentDigest commit)
                          (consent\<lparr>cs_ConsumedAt := now\<rparr>) (st_consents s);
                        done_result =
                          Inr \<lparr>ccr_RedirectURI = snap_RedirectURI (cs_Client consent)\<rparr>
                    in if cco_Decision commit = ConsentDecisionApprove then
                         (if int (length (st_codes s)) \<ge> cap_MaxCodes (sp_Capacity policy)
                          then (Inl ErrCapacity, s)
                          else if gm_get (st_codes s) digest \<noteq> None then (Inl ErrConflict, s)
                          else (done_result,
                            s\<lparr>st_codes := gm_set digest (cco_Code commit) (st_codes s),
                              st_consents := consents\<rparr>))
                       else (done_result, s\<lparr>st_consents := consents\<rparr>)))))"

section \<open>Codes\<close>

definition Mem_GetCodeForExchange ::
  "CodeExchangeBinding \<Rightarrow> 'a Store \<Rightarrow> 'a AuthorizationCodeRecord result" where
  "Mem_GetCodeForExchange binding s =
     (case gm_get (st_codes s) (ceb_Digest binding) of
        None \<Rightarrow> Inl ErrNotFound
      | Some code \<Rightarrow>
          if ac_ClientID code \<noteq> ceb_ClientID binding \<or>
             ac_RedirectURI code \<noteq> ceb_RedirectURI binding
          then Inl ErrBinding else Inr code)"

definition active_grant :: "'a RefreshGrant \<Rightarrow> bool" where
  "active_grant grant \<longleftrightarrow> IsZero (rg_ConsumedAt grant) \<and> IsZero (rg_RevokedAt grant)"

definition activeRefreshGrantCount :: "'a Store \<Rightarrow> int" where
  "activeRefreshGrantCount s = int (gm_count active_grant (st_refresh s))"

text \<open>A commit without a refresh grant never passes the check, so the method never dereferences
  a nil grant.\<close>

definition Mem_CommitCodeExchange ::
  "time \<Rightarrow> time \<Rightarrow> 'a CodeExchangeCommit \<Rightarrow> StatePolicy \<Rightarrow> 'a Store \<Rightarrow>
   go_error option \<times> 'a Store" where
  "Mem_CommitCodeExchange t1 now commit policy s0 =
     (let s = pruned t1 s0
      in (case gm_get (st_codes s) (cec_CodeDigest commit) of
            None \<Rightarrow> (Some ErrNotFound, s)
          | Some code \<Rightarrow>
              (case (ValidateCodeExchangeCommit code commit now, cec_Refresh commit) of
                 (Some err, _) \<Rightarrow> (Some err, s)
               | (None, None) \<Rightarrow> (Some ErrInvalid, s)
               | (None, Some refresh) \<Rightarrow>
                   if activeRefreshGrantCount s \<ge> cap_MaxRefreshGrants (sp_Capacity policy)
                   then (Some ErrCapacity, s)
                   else if gm_get (st_refresh s) (rg_Digest refresh) \<noteq> None
                   then (Some ErrConflict, s)
                   else (None,
                     s\<lparr>st_codes := gm_set (cec_CodeDigest commit) (code\<lparr>ac_ConsumedAt := now\<rparr>)
                          (st_codes s),
                       st_refresh := gm_set (rg_Digest refresh) refresh (st_refresh s)\<rparr>))))"

section \<open>Refresh grants\<close>

definition Mem_GetRefreshGrant :: "CredentialDigest \<Rightarrow> 'a Store \<Rightarrow> 'a RefreshGrant result" where
  "Mem_GetRefreshGrant digest s =
     (case gm_get (st_refresh s) digest of None \<Rightarrow> Inl ErrNotFound | Some grant \<Rightarrow> Inr grant)"

definition revoke_grant :: "RefreshFamilyID \<Rightarrow> time \<Rightarrow> 'a RefreshGrant \<Rightarrow> 'a RefreshGrant" where
  "revoke_grant family at grant =
     (if rg_FamilyID grant = family \<and> IsZero (rg_RevokedAt grant)
      then grant\<lparr>rg_RevokedAt := at\<rparr> else grant)"

definition revokeFamily :: "RefreshFamilyID \<Rightarrow> time \<Rightarrow> 'a Store \<Rightarrow> 'a Store" where
  "revokeFamily family at s =
     s\<lparr>st_refresh := gm_map (revoke_grant family at) (st_refresh s)\<rparr>"

definition Mem_RevokeRefreshFamily ::
  "RefreshFamilyID \<Rightarrow> time \<Rightarrow> 'a Store \<Rightarrow> go_error option \<times> 'a Store" where
  "Mem_RevokeRefreshFamily family at s = (None, revokeFamily family at s)"

definition Mem_CommitRefreshRotation ::
  "time \<Rightarrow> time \<Rightarrow> 'a RefreshRotation \<Rightarrow> StatePolicy \<Rightarrow> 'a Store \<Rightarrow>
   go_error option \<times> 'a Store" where
  "Mem_CommitRefreshRotation t1 now rotation policy s0 =
     (let s = pruned t1 s0
      in (case gm_get (st_refresh s) (rr_CurrentDigest rotation) of
            None \<Rightarrow> (Some ErrNotFound, s)
          | Some current \<Rightarrow>
              if rg_FamilyID current \<noteq> rr_FamilyID rotation \<or>
                 rg_Generation current \<noteq> rr_Generation rotation
              then (Some ErrBinding, s)
              else if \<not> IsZero (rg_ConsumedAt current) \<or> \<not> IsZero (rg_RevokedAt current)
              then (Some ErrRevoked, revokeFamily (rr_FamilyID rotation) now s)
              else (case ValidateRefreshRotation current rotation now of
                      Some err \<Rightarrow> (Some err, s)
                    | None \<Rightarrow>
                        if rg_Generation (rr_Successor rotation) \<ge>
                           cap_MaxRefreshGenerations (sp_Capacity policy)
                        then (Some ErrRevoked, revokeFamily (rr_FamilyID rotation) now s)
                        else if gm_get (st_refresh s) (rg_Digest (rr_Successor rotation)) \<noteq> None
                        then (Some ErrConflict, s)
                        else (None,
                          s\<lparr>st_refresh := gm_set (rg_Digest (rr_Successor rotation))
                               (rr_Successor rotation)
                               (gm_set (rr_CurrentDigest rotation)
                                 (current\<lparr>rg_ConsumedAt := now\<rparr>) (st_refresh s))\<rparr>))))"

section \<open>Counts\<close>

definition Mem_Counts :: "'a Store \<Rightarrow> StateCounts result" where
  "Mem_Counts s =
     Inr \<lparr>sc_Clients = int (length (st_clients s)),
       sc_Authorizations = int (length (st_authorizers s)),
       sc_Consents = int (length (st_consents s)), sc_Codes = int (length (st_codes s)),
       sc_RefreshGrants = int (length (st_refresh s))\<rparr>"

end
