(* ===== verification/Memory_Props.thy ===== *)
theory Memory_Props
  imports Memory_Store
begin

text \<open>
  The memory store, method by method: what pruning keeps, when each commit succeeds and what
  it then writes, and that a failing commit only prunes (a replayed rotation also revokes).
\<close>

section \<open>Pruning\<close>

lemma expiry_loop:
  "now < expiry_of (familyExpiry_loop gs m) f \<longleftrightarrow>
   now < expiry_of m f \<or> (\<exists>g \<in> set gs. rg_FamilyID g = f \<and> now < rg_ExpiresAt g)"
proof (induction gs arbitrary: m)
  case (Cons g gs)
  have "now < expiry_of (if expiry_of m (rg_FamilyID g) < rg_ExpiresAt g
        then gm_set (rg_FamilyID g) (rg_ExpiresAt g) m else m) f \<longleftrightarrow>
      now < expiry_of m f \<or> rg_FamilyID g = f \<and> now < rg_ExpiresAt g"
    by (auto simp: expiry_of_def)
  with Cons.IH show ?case by auto
qed simp

text \<open>Some member of the family outlives \<open>now\<close>.\<close>

definition family_live :: "time \<Rightarrow> 'a Store \<Rightarrow> RefreshFamilyID \<Rightarrow> bool" where
  "family_live now s f \<longleftrightarrow>
     list_ex (\<lambda>(_, g). rg_FamilyID g = f \<and> now < rg_ExpiresAt g) (st_refresh s)"

lemma family_expiry_live:
  "0 \<le> now \<Longrightarrow>
   now < expiry_of (familyExpiry_loop (map snd (st_refresh s)) []) f \<longleftrightarrow> family_live now s f"
proof -
  assume "0 \<le> now"
  then have "\<not> now < expiry_of [] f" by (simp add: expiry_of_def)
  then show ?thesis by (simp add: expiry_loop family_live_def list_ex_iff case_prod_unfold)
qed

named_theorems prune_simps

lemma pruned_clients [prune_simps, simp]: "st_clients (pruned t s) = st_clients s"
  by (simp add: pruneExpired_def Let_def)

lemma pruned_authorizers [prune_simps]:
  "st_authorizers (pruned t s) = gm_delete_if (\<lambda>_ a. at_ExpiresAt a \<le> t) (st_authorizers s)"
  by (simp add: pruneExpired_def Let_def not_less)

lemma pruned_consents [prune_simps]:
  "st_consents (pruned t s) = gm_delete_if (\<lambda>_ a. cs_ExpiresAt a \<le> t) (st_consents s)"
  by (simp add: pruneExpired_def Let_def not_less)

lemma pruned_codes [prune_simps]:
  "st_codes (pruned t s) = gm_delete_if (\<lambda>_ a. ac_ExpiresAt a \<le> t) (st_codes s)"
  by (simp add: pruneExpired_def Let_def not_less)

lemma pruned_refresh_raw:
  "st_refresh (pruned t s) = gm_delete_if
     (\<lambda>_ g. \<not> t < expiry_of (familyExpiry_loop (map snd (st_refresh s)) []) (rg_FamilyID g))
     (st_refresh s)"
  by (simp add: pruneExpired_def Let_def)

lemma pruned_refresh [prune_simps]:
  "0 \<le> t \<Longrightarrow>
   st_refresh (pruned t s) = gm_delete_if (\<lambda>_ g. \<not> family_live t s (rg_FamilyID g)) (st_refresh s)"
  by (simp add: pruned_refresh_raw family_expiry_live)

lemma pruned_refresh_subset: "set (st_refresh (pruned t s)) \<subseteq> set (st_refresh s)"
  by (auto simp: pruned_refresh_raw gm_set_delete_if)

section \<open>Well-formed maps\<close>

text \<open>Distinct keys, and every record filed under the digest it carries.\<close>

definition maps_wf :: "'a Store \<Rightarrow> bool" where
  "maps_wf s \<longleftrightarrow>
     gm_wf (st_clients s) \<and> gm_wf (st_authorizers s) \<and> gm_wf (st_consents s) \<and>
     gm_wf (st_codes s) \<and> gm_wf (st_refresh s) \<and>
     gm_all (\<lambda>cid c. cl_ID c = cid \<and> scopes_wf (cl_AllowedScopes c)) (st_clients s) \<and>
     gm_all (\<lambda>d a. DigestCredential (at_Token a) = d) (st_authorizers s) \<and>
     gm_all (\<lambda>d c. DigestCredential (cs_Token c) = d) (st_consents s) \<and>
     gm_all (\<lambda>d c. ac_Digest c = d \<and> d \<noteq> zero_digest) (st_codes s) \<and>
     gm_all (\<lambda>d g. rg_Digest g = d \<and> d \<noteq> zero_digest) (st_refresh s)"

lemma maps_wf_gm [simp]:
  "maps_wf s \<Longrightarrow> gm_wf (st_clients s)" "maps_wf s \<Longrightarrow> gm_wf (st_authorizers s)"
  "maps_wf s \<Longrightarrow> gm_wf (st_consents s)" "maps_wf s \<Longrightarrow> gm_wf (st_codes s)"
  "maps_wf s \<Longrightarrow> gm_wf (st_refresh s)"
  by (simp_all add: maps_wf_def)

lemma NewStore_maps_wf [simp]: "maps_wf NewStore"
  by (simp add: maps_wf_def NewStore_def)

lemma pruned_maps_wf [simp]: "maps_wf s \<Longrightarrow> maps_wf (pruned t s)"
  unfolding maps_wf_def
  by (simp add: prune_simps pruned_refresh_raw)

lemma pruned_get_code:
  "maps_wf s \<Longrightarrow> gm_get (st_codes (pruned t s)) d = Some c \<longleftrightarrow>
     gm_get (st_codes s) d = Some c \<and> t < ac_ExpiresAt c"
  by (auto simp: pruned_codes gm_get_delete_if split: option.splits)

lemma pruned_get_authorizer:
  "maps_wf s \<Longrightarrow> gm_get (st_authorizers (pruned t s)) d = Some a \<longleftrightarrow>
     gm_get (st_authorizers s) d = Some a \<and> t < at_ExpiresAt a"
  by (auto simp: pruned_authorizers gm_get_delete_if split: option.splits)

lemma pruned_get_consent:
  "maps_wf s \<Longrightarrow> gm_get (st_consents (pruned t s)) d = Some c \<longleftrightarrow>
     gm_get (st_consents s) d = Some c \<and> t < cs_ExpiresAt c"
  by (auto simp: pruned_consents gm_get_delete_if split: option.splits)

lemma pruned_get_refresh:
  "maps_wf s \<Longrightarrow> 0 \<le> t \<Longrightarrow> gm_get (st_refresh (pruned t s)) d = Some g \<longleftrightarrow>
     gm_get (st_refresh s) d = Some g \<and> family_live t s (rg_FamilyID g)"
  by (auto simp: pruned_refresh gm_get_delete_if split: option.splits)

lemma pruned_get_refresh_old:
  "maps_wf s \<Longrightarrow> gm_get (st_refresh (pruned t s)) d = Some g \<Longrightarrow> gm_get (st_refresh s) d = Some g"
  by (auto simp: pruned_refresh_raw gm_get_delete_if split: option.splits if_splits)

lemma family_liveI:
  "gm_get (st_refresh s) d = Some g \<Longrightarrow> t < rg_ExpiresAt g \<Longrightarrow> family_live t s (rg_FamilyID g)"
  by (auto simp: family_live_def list_ex_iff dest!: gm_get_in intro!: bexI)

section \<open>Success and failure of each method\<close>

lemma RegisterClient_None:
  assumes "Mem_RegisterClient now client policy s = (None, s')"
  shows "int (length (gm_delete_if (stale_client s policy now) (st_clients s))) <
       rp_MaxClients (sp_Registration policy)"
    and "gm_get (gm_delete_if (stale_client s policy now) (st_clients s)) (cl_ID client) = None"
    and "s' = s\<lparr>st_clients := gm_set (cl_ID client) (cloneClient client)
       (gm_delete_if (stale_client s policy now) (st_clients s))\<rparr>"
  using assms by (auto simp: Mem_RegisterClient_def Let_def split: if_splits)

lemma RegisterClient_Some:
  "Mem_RegisterClient now client policy s = (Some err, s') \<Longrightarrow>
   s' = s\<lparr>st_clients := gm_delete_if (stale_client s policy now) (st_clients s)\<rparr> \<and>
   err \<in> {ErrCapacity, ErrConflict}"
  by (auto simp: Mem_RegisterClient_def Let_def split: if_splits)

lemma TouchClient_None:
  assumes "Mem_TouchClient cid at s = (None, s')"
  obtains client where "gm_get (st_clients s) cid = Some client"
    "s' = s\<lparr>st_clients := gm_set cid (client\<lparr>cl_LastUsedAt := at\<rparr>) (st_clients s)\<rparr>"
  using assms by (auto simp: Mem_TouchClient_def split: option.splits)

lemma TouchClient_Some:
  "Mem_TouchClient cid at s = (Some err, s') \<Longrightarrow> s' = s \<and> err = ErrNotFound"
  by (auto simp: Mem_TouchClient_def split: option.splits)

lemma CreateAuthorization_None:
  assumes "Mem_CreateAuthorization t1 a policy s = (None, s')"
  shows "int (length (st_authorizers (pruned t1 s))) < cap_MaxAuthorizations (sp_Capacity policy)"
    and "gm_get (st_authorizers (pruned t1 s)) (DigestCredential (at_Token a)) = None"
    and "s' = (pruned t1 s)\<lparr>st_authorizers :=
       gm_set (DigestCredential (at_Token a)) a (st_authorizers (pruned t1 s))\<rparr>"
  using assms by (auto simp: Mem_CreateAuthorization_def Let_def split: if_splits)

lemma CreateAuthorization_Some:
  "Mem_CreateAuthorization t1 a policy s = (Some err, s') \<Longrightarrow>
   s' = pruned t1 s \<and> err \<in> {ErrCapacity, ErrConflict}"
  by (auto simp: Mem_CreateAuthorization_def Let_def split: if_splits)

lemma CommitLogin_None:
  assumes "Mem_CommitLogin t1 now c policy s = (None, s')"
  obtains a where
    "gm_get (st_authorizers (pruned t1 s)) (lco_TransactionDigest c) = Some a"
    "ValidateLoginCommit a (lco_Consent c) now = None"
    "int (length (st_consents (pruned t1 s))) < cap_MaxConsents (sp_Capacity policy)"
    "gm_get (st_consents (pruned t1 s)) (DigestCredential (cs_Token (lco_Consent c))) = None"
    "s' = (pruned t1 s)\<lparr>
       st_authorizers := gm_set (lco_TransactionDigest c) (a\<lparr>at_ConsumedAt := now\<rparr>)
         (st_authorizers (pruned t1 s)),
       st_consents := gm_set (DigestCredential (cs_Token (lco_Consent c))) (lco_Consent c)
         (st_consents (pruned t1 s))\<rparr>"
  using assms by (auto simp: Mem_CommitLogin_def Let_def split: option.splits if_splits)

lemma CommitLogin_Some:
  "Mem_CommitLogin t1 now c policy s = (Some err, s') \<Longrightarrow> s' = pruned t1 s"
  by (auto simp: Mem_CommitLogin_def Let_def split: option.splits if_splits)

lemma CommitConsent_Inr:
  assumes "Mem_CommitConsent t1 now c policy s = (Inr r, s')"
  obtains consent where
    "gm_get (st_consents (pruned t1 s)) (cco_ConsentDigest c) = Some consent"
    "ValidateConsentCommit consent c now = None"
    "r = \<lparr>ccr_RedirectURI = snap_RedirectURI (cs_Client consent)\<rparr>"
    "cco_Decision c = ConsentDecisionApprove \<Longrightarrow>
       int (length (st_codes (pruned t1 s))) < cap_MaxCodes (sp_Capacity policy) \<and>
       gm_get (st_codes (pruned t1 s)) (ac_Digest (cco_Code c)) = None"
    "s' = (pruned t1 s)\<lparr>
       st_consents := gm_set (cco_ConsentDigest c) (consent\<lparr>cs_ConsumedAt := now\<rparr>)
         (st_consents (pruned t1 s)),
       st_codes := (if cco_Decision c = ConsentDecisionApprove
         then gm_set (ac_Digest (cco_Code c)) (cco_Code c) (st_codes (pruned t1 s))
         else st_codes (pruned t1 s))\<rparr>"
  using assms
  by (auto simp: Mem_CommitConsent_def Let_def split: option.splits if_splits)

lemma CommitConsent_Inl:
  "Mem_CommitConsent t1 now c policy s = (Inl err, s') \<Longrightarrow> s' = pruned t1 s"
  by (auto simp: Mem_CommitConsent_def Let_def split: option.splits if_splits)

lemma CommitCodeExchange_None:
  assumes "Mem_CommitCodeExchange t1 now c policy s = (None, s')"
  obtains code refresh where
    "gm_get (st_codes (pruned t1 s)) (cec_CodeDigest c) = Some code"
    "cec_Refresh c = Some refresh"
    "ValidateCodeExchangeCommit code c now = None"
    "activeRefreshGrantCount (pruned t1 s) < cap_MaxRefreshGrants (sp_Capacity policy)"
    "gm_get (st_refresh (pruned t1 s)) (rg_Digest refresh) = None"
    "s' = (pruned t1 s)\<lparr>
       st_codes := gm_set (cec_CodeDigest c) (code\<lparr>ac_ConsumedAt := now\<rparr>) (st_codes (pruned t1 s)),
       st_refresh := gm_set (rg_Digest refresh) refresh (st_refresh (pruned t1 s))\<rparr>"
  using assms
  by (auto simp: Mem_CommitCodeExchange_def Let_def split: option.splits if_splits)

lemma CommitCodeExchange_Some:
  "Mem_CommitCodeExchange t1 now c policy s = (Some err, s') \<Longrightarrow> s' = pruned t1 s"
  by (auto simp: Mem_CommitCodeExchange_def Let_def split: option.splits if_splits)

lemma CommitRefreshRotation_None:
  assumes "Mem_CommitRefreshRotation t1 now r policy s = (None, s')"
  obtains cur where
    "gm_get (st_refresh (pruned t1 s)) (rr_CurrentDigest r) = Some cur"
    "ValidateRefreshRotation cur r now = None"
    "rg_Generation (rr_Successor r) < cap_MaxRefreshGenerations (sp_Capacity policy)"
    "gm_get (st_refresh (pruned t1 s)) (rg_Digest (rr_Successor r)) = None"
    "s' = (pruned t1 s)\<lparr>st_refresh := gm_set (rg_Digest (rr_Successor r)) (rr_Successor r)
       (gm_set (rr_CurrentDigest r) (cur\<lparr>rg_ConsumedAt := now\<rparr>) (st_refresh (pruned t1 s)))\<rparr>"
  using assms
  by (auto simp: Mem_CommitRefreshRotation_def Let_def not_le split: option.splits if_splits)

text \<open>A refused rotation writes nothing, or revokes the family and says so.\<close>

lemma CommitRefreshRotation_Some:
  assumes "Mem_CommitRefreshRotation t1 now r policy s = (Some err, s')"
  shows "s' = pruned t1 s \<or>
    err = ErrRevoked \<and> s' = revokeFamily (rr_FamilyID r) now (pruned t1 s)"
  using assms
  by (auto simp: Mem_CommitRefreshRotation_def Let_def split: option.splits if_splits)

text \<open>The grants that a revocation touches.\<close>

lemma revokeFamily_get [simp]:
  "gm_get (st_refresh (revokeFamily f t s)) d =
     map_option (revoke_grant f t) (gm_get (st_refresh s) d)"
  by (simp add: revokeFamily_def)

lemma revoke_grant_simps [simp]:
  "rg_Digest (revoke_grant f t g) = rg_Digest g"
  "rg_FamilyID (revoke_grant f t g) = rg_FamilyID g"
  "rg_Generation (revoke_grant f t g) = rg_Generation g"
  "rg_ClientID (revoke_grant f t g) = rg_ClientID g"
  "rg_Principal (revoke_grant f t g) = rg_Principal g"
  "rg_Scopes (revoke_grant f t g) = rg_Scopes g"
  "rg_Resource (revoke_grant f t g) = rg_Resource g"
  "rg_ExpiresAt (revoke_grant f t g) = rg_ExpiresAt g"
  "rg_ConsumedAt (revoke_grant f t g) = rg_ConsumedAt g"
  by (simp_all add: revoke_grant_def)

lemma revoke_grant_RevokedAt:
  "rg_RevokedAt (revoke_grant f t g) =
     (if rg_FamilyID g = f \<and> rg_RevokedAt g = 0 then t else rg_RevokedAt g)"
  by (simp add: revoke_grant_def)

lemma revokeFamily_maps_wf [simp]: "maps_wf s \<Longrightarrow> maps_wf (revokeFamily f t s)"
  unfolding maps_wf_def revokeFamily_def by (simp add: gm_all_map)

lemma cloneClient_simps [simp]:
  "cl_ID (cloneClient c) = cl_ID c" "cl_RedirectURIs (cloneClient c) = cl_RedirectURIs c"
  "cl_Trust (cloneClient c) = cl_Trust c" "cl_DisplayName (cloneClient c) = cl_DisplayName c"
  "cl_LastUsedAt (cloneClient c) = cl_LastUsedAt c" "cl_CreatedAt (cloneClient c) = cl_CreatedAt c"
  by (simp_all add: cloneClient_def)

lemma cloneClient_scopes_wf [simp]: "scopes_wf (cl_AllowedScopes (cloneClient c))"
  by (auto simp: cloneClient_def NewScopeSet_wf split: sum.splits)

lemma cloneClient_id: "scopes_wf (cl_AllowedScopes c) \<Longrightarrow> cloneClient c = c"
  by (simp add: cloneClient_def NewScopeSet_values)

end
