(* ===== verification/Store_Trace.thy ===== *)
theory Store_Trace
  imports Memory_Props
begin

text \<open>
  Sequences of store calls.  The mutex serialises the methods, so any interleaving of
  concurrent requests is a list of calls; \<open>store_step\<close> executes one and \<open>run\<close> a list, keeping
  the log of the calls with their errors.  \<open>one_shot\<close> is the contract of a credential that can
  be spent once per issue; it is interpreted for the four credentials of the store.
\<close>

section \<open>Running a list of calls\<close>

fun run :: "('c \<Rightarrow> 's \<Rightarrow> 'r \<times> 's) \<Rightarrow> 'c list \<Rightarrow> 's \<Rightarrow> ('c \<times> 'r) list \<times> 's" where
  "run step [] s = ([], s)"
| "run step (c # cs) s =
     (case step c s of (r, s1) \<Rightarrow> (case run step cs s1 of (log, s2) \<Rightarrow> ((c, r) # log, s2)))"

lemma fst_run_Cons:
  "fst (run step (c # cs) s) = (c, fst (step c s)) # fst (run step cs (snd (step c s)))"
  by (simp split: prod.splits)

lemma snd_run_Cons: "snd (run step (c # cs) s) = snd (run step cs (snd (step c s)))"
  by (simp split: prod.splits)

lemma run_append:
  "run step (cs @ ds) s =
     (case run step cs s of (l1, s1) \<Rightarrow> (case run step ds s1 of (l2, s2) \<Rightarrow> (l1 @ l2, s2)))"
  by (induction cs arbitrary: s) (auto split: prod.splits)

definition count_events :: "('c \<Rightarrow> 'r \<Rightarrow> bool) \<Rightarrow> ('c \<times> 'r) list \<Rightarrow> nat" where
  "count_events P log = length (filter (\<lambda>(c, r). P c r) log)"

lemma count_events_simps [simp]:
  "count_events P [] = 0"
  "count_events P ((c, r) # log) = (if P c r then Suc (count_events P log) else count_events P log)"
  by (simp_all add: count_events_def)

datatype 'a store_call =
    RegisterClient time Client
  | TouchClient ClientID time
  | CreateAuthorization time AuthorizationTransaction
  | CommitLogin time time "'a LoginCommit"
  | CommitConsent time time "'a ConsentCommit"
  | CommitCodeExchange time time "'a CodeExchangeCommit"
  | CommitRefreshRotation time time "'a RefreshRotation"
  | RevokeRefreshFamily RefreshFamilyID time
  | Prune time

definition result_error :: "'b result \<Rightarrow> go_error option" where
  "result_error r = (case r of Inl err \<Rightarrow> Some err | Inr _ \<Rightarrow> None)"

fun store_step :: "StatePolicy \<Rightarrow> 'a store_call \<Rightarrow> 'a Store \<Rightarrow> go_error option \<times> 'a Store" where
  "store_step p (RegisterClient now client) s = Mem_RegisterClient now client p s"
| "store_step p (TouchClient cid at) s = Mem_TouchClient cid at s"
| "store_step p (CreateAuthorization t1 a) s = Mem_CreateAuthorization t1 a p s"
| "store_step p (CommitLogin t1 t2 c) s = Mem_CommitLogin t1 t2 c p s"
| "store_step p (CommitConsent t1 t2 c) s =
     (case Mem_CommitConsent t1 t2 c p s of (r, s') \<Rightarrow> (result_error r, s'))"
| "store_step p (CommitCodeExchange t1 t2 c) s = Mem_CommitCodeExchange t1 t2 c p s"
| "store_step p (CommitRefreshRotation t1 t2 r) s = Mem_CommitRefreshRotation t1 t2 r p s"
| "store_step p (RevokeRefreshFamily f at) s = Mem_RevokeRefreshFamily f at s"
| "store_step p (Prune t) s = (None, pruned t s)"

text \<open>The readings of the clock are after the zero time.\<close>

fun clock_set :: "'a store_call \<Rightarrow> bool" where
  "clock_set (RegisterClient now client) = (0 < now)"
| "clock_set (TouchClient cid at) = (0 < at)"
| "clock_set (CreateAuthorization t1 a) = (0 < t1)"
| "clock_set (CommitLogin t1 t2 c) = (0 < t1 \<and> 0 < t2)"
| "clock_set (CommitConsent t1 t2 c) = (0 < t1 \<and> 0 < t2)"
| "clock_set (CommitCodeExchange t1 t2 c) = (0 < t1 \<and> 0 < t2)"
| "clock_set (CommitRefreshRotation t1 t2 r) = (0 < t1 \<and> 0 < t2)"
| "clock_set (RevokeRefreshFamily f at) = (0 < at)"
| "clock_set (Prune t) = (0 < t)"

text \<open>The cases of a step, with what a success wrote.\<close>

lemma store_step_CommitConsent:
  "store_step p (CommitConsent t1 t2 c) s = (None, s') \<Longrightarrow>
   \<exists>r. Mem_CommitConsent t1 t2 c p s = (Inr r, s')"
  "store_step p (CommitConsent t1 t2 c) s = (Some err, s') \<Longrightarrow>
   Mem_CommitConsent t1 t2 c p s = (Inl err, s')"
  by (auto simp: result_error_def split: prod.splits sum.splits)

section \<open>The maps stay well-formed\<close>

lemma maps_wf_set_code:
  "maps_wf s \<Longrightarrow> ac_Digest c = d \<Longrightarrow> d \<noteq> zero_digest \<Longrightarrow>
   maps_wf (s\<lparr>st_codes := gm_set d c (st_codes s)\<rparr>)"
  unfolding maps_wf_def by (simp add: gm_all_set)

lemma maps_wf_set_refresh:
  "maps_wf s \<Longrightarrow> rg_Digest g = d \<Longrightarrow> d \<noteq> zero_digest \<Longrightarrow>
   maps_wf (s\<lparr>st_refresh := gm_set d g (st_refresh s)\<rparr>)"
  unfolding maps_wf_def by (simp add: gm_all_set)

lemma maps_wf_set_authorizer:
  "maps_wf s \<Longrightarrow> DigestCredential (at_Token a) = d \<Longrightarrow>
   maps_wf (s\<lparr>st_authorizers := gm_set d a (st_authorizers s)\<rparr>)"
  unfolding maps_wf_def by (simp add: gm_all_set)

lemma maps_wf_set_consent:
  "maps_wf s \<Longrightarrow> DigestCredential (cs_Token c) = d \<Longrightarrow>
   maps_wf (s\<lparr>st_consents := gm_set d c (st_consents s)\<rparr>)"
  unfolding maps_wf_def by (simp add: gm_all_set)

lemma maps_wf_set_client:
  "maps_wf s \<Longrightarrow> cl_ID c = cid \<Longrightarrow> scopes_wf (cl_AllowedScopes c) \<Longrightarrow>
   maps_wf (s\<lparr>st_clients := gm_set cid c (st_clients s)\<rparr>)"
  unfolding maps_wf_def by (simp add: gm_all_set)

lemma maps_wf_delete_clients:
  "maps_wf s \<Longrightarrow> maps_wf (s\<lparr>st_clients := gm_delete_if P (st_clients s)\<rparr>)"
  unfolding maps_wf_def by simp

lemma maps_wf_code:
  "maps_wf s \<Longrightarrow> gm_get (st_codes s) d = Some c \<Longrightarrow> ac_Digest c = d \<and> d \<noteq> zero_digest"
  unfolding maps_wf_def by (blast dest: gm_allD)

lemma maps_wf_grant:
  "maps_wf s \<Longrightarrow> gm_get (st_refresh s) d = Some g \<Longrightarrow> rg_Digest g = d \<and> d \<noteq> zero_digest"
  unfolding maps_wf_def by (blast dest: gm_allD)

lemma maps_wf_authorizer:
  "maps_wf s \<Longrightarrow> gm_get (st_authorizers s) d = Some a \<Longrightarrow> DigestCredential (at_Token a) = d"
  unfolding maps_wf_def by (blast dest: gm_allD)

lemma maps_wf_consent:
  "maps_wf s \<Longrightarrow> gm_get (st_consents s) d = Some a \<Longrightarrow> DigestCredential (cs_Token a) = d"
  unfolding maps_wf_def by (blast dest: gm_allD)

lemma maps_wf_client:
  "maps_wf s \<Longrightarrow> gm_get (st_clients s) d = Some c \<Longrightarrow> cl_ID c = d \<and> scopes_wf (cl_AllowedScopes c)"
  unfolding maps_wf_def by (blast dest: gm_allD)

lemma maps_wf_CommitLogin:
  assumes "Mem_CommitLogin t1 now c p s = (r, s')" and wf: "maps_wf s" shows "maps_wf s'"
proof (cases r)
  case None
  then obtain a where a: "gm_get (st_authorizers (pruned t1 s)) (lco_TransactionDigest c) = Some a"
    and s': "s' = (pruned t1 s)\<lparr>
       st_authorizers := gm_set (lco_TransactionDigest c) (a\<lparr>at_ConsumedAt := now\<rparr>)
         (st_authorizers (pruned t1 s)),
       st_consents := gm_set (DigestCredential (cs_Token (lco_Consent c))) (lco_Consent c)
         (st_consents (pruned t1 s))\<rparr>"
    using assms(1) by (auto elim: CommitLogin_None)
  let ?s1 = "(pruned t1 s)\<lparr>st_authorizers := gm_set (lco_TransactionDigest c)
      (a\<lparr>at_ConsumedAt := now\<rparr>) (st_authorizers (pruned t1 s))\<rparr>"
  have "maps_wf ?s1"
    using wf maps_wf_authorizer [OF _ a] by (intro maps_wf_set_authorizer) simp_all
  from maps_wf_set_consent [OF this refl, of "lco_Consent c"] show ?thesis
    unfolding s' by simp
qed (use assms CommitLogin_Some in force)

lemma maps_wf_CommitConsent:
  assumes "Mem_CommitConsent t1 now c p s = (r, s')" and wf: "maps_wf s" shows "maps_wf s'"
proof (cases r)
  case (Inr res)
  then obtain consent where
    consent: "gm_get (st_consents (pruned t1 s)) (cco_ConsentDigest c) = Some consent"
    and valid: "ValidateConsentCommit consent c now = None"
    and s': "s' = (pruned t1 s)\<lparr>
       st_consents := gm_set (cco_ConsentDigest c) (consent\<lparr>cs_ConsumedAt := now\<rparr>)
         (st_consents (pruned t1 s)),
       st_codes := (if cco_Decision c = ConsentDecisionApprove
         then gm_set (ac_Digest (cco_Code c)) (cco_Code c) (st_codes (pruned t1 s))
         else st_codes (pruned t1 s))\<rparr>"
    using assms(1) by (auto elim: CommitConsent_Inr)
  let ?s1 = "(pruned t1 s)\<lparr>st_consents := gm_set (cco_ConsentDigest c)
      (consent\<lparr>cs_ConsumedAt := now\<rparr>) (st_consents (pruned t1 s))\<rparr>"
  have wf1: "maps_wf ?s1"
    using wf maps_wf_consent [OF _ consent] by (intro maps_wf_set_consent) simp_all
  show ?thesis
  proof (cases "cco_Decision c = ConsentDecisionApprove")
    case True
    with valid have "ac_Digest (cco_Code c) \<noteq> zero_digest"
      by (auto simp: ValidateConsentCommit_None decision_defs)
    from maps_wf_set_code [OF wf1 refl this] True show ?thesis
      unfolding s' by simp
  next
    case False
    with wf1 show ?thesis unfolding s' by simp
  qed
qed (use assms CommitConsent_Inl in force)

lemma maps_wf_CommitCodeExchange:
  assumes "Mem_CommitCodeExchange t1 now c p s = (r, s')" and wf: "maps_wf s" shows "maps_wf s'"
proof (cases r)
  case None
  then obtain code refresh where
    code: "gm_get (st_codes (pruned t1 s)) (cec_CodeDigest c) = Some code"
    and refresh: "cec_Refresh c = Some refresh"
    and valid: "ValidateCodeExchangeCommit code c now = None"
    and s': "s' = (pruned t1 s)\<lparr>
       st_codes := gm_set (cec_CodeDigest c) (code\<lparr>ac_ConsumedAt := now\<rparr>) (st_codes (pruned t1 s)),
       st_refresh := gm_set (rg_Digest refresh) refresh (st_refresh (pruned t1 s))\<rparr>"
    using assms(1) by (auto elim: CommitCodeExchange_None)
  let ?s1 = "(pruned t1 s)\<lparr>st_codes := gm_set (cec_CodeDigest c)
      (code\<lparr>ac_ConsumedAt := now\<rparr>) (st_codes (pruned t1 s))\<rparr>"
  have wf1: "maps_wf ?s1"
    using wf maps_wf_code [OF _ code] by (intro maps_wf_set_code) simp_all
  have "rg_Digest refresh \<noteq> zero_digest"
    using valid refresh by (auto simp: ValidateCodeExchangeCommit_None)
  from maps_wf_set_refresh [OF wf1 refl this] show ?thesis unfolding s' by simp
qed (use assms CommitCodeExchange_Some in force)

lemma maps_wf_CommitRefreshRotation:
  assumes "Mem_CommitRefreshRotation t1 now r p s = (res, s')" and wf: "maps_wf s"
  shows "maps_wf s'"
proof (cases res)
  case None
  then obtain cur where
    cur: "gm_get (st_refresh (pruned t1 s)) (rr_CurrentDigest r) = Some cur"
    and valid: "ValidateRefreshRotation cur r now = None"
    and s': "s' = (pruned t1 s)\<lparr>st_refresh := gm_set (rg_Digest (rr_Successor r)) (rr_Successor r)
       (gm_set (rr_CurrentDigest r) (cur\<lparr>rg_ConsumedAt := now\<rparr>) (st_refresh (pruned t1 s)))\<rparr>"
    using assms(1) by (auto elim: CommitRefreshRotation_None)
  let ?s1 = "(pruned t1 s)\<lparr>st_refresh := gm_set (rr_CurrentDigest r)
      (cur\<lparr>rg_ConsumedAt := now\<rparr>) (st_refresh (pruned t1 s))\<rparr>"
  have wf1: "maps_wf ?s1"
    using wf maps_wf_grant [OF _ cur] by (intro maps_wf_set_refresh) simp_all
  have "rg_Digest (rr_Successor r) \<noteq> zero_digest"
    using valid by (auto simp: ValidateRefreshRotation_None)
  from maps_wf_set_refresh [OF wf1 refl this] show ?thesis unfolding s' by simp
next
  case (Some err)
  with assms CommitRefreshRotation_Some [of t1 now r p s err s'] show ?thesis by auto
qed

lemma store_step_maps_wf:
  assumes "store_step p c s = (r, s')" and "maps_wf s" shows "maps_wf s'"
proof (cases c)
  case (RegisterClient now client)
  show ?thesis
  proof (cases r)
    case None
    with RegisterClient assms(1) have "Mem_RegisterClient now client p s = (None, s')" by simp
    from RegisterClient_None(3) [OF this] show ?thesis
      using maps_wf_set_client [OF maps_wf_delete_clients [OF assms(2)],
          of "cloneClient client" "cl_ID client" "stale_client s p now"] by simp
  next
    case (Some err)
    with RegisterClient assms have "Mem_RegisterClient now client p s = (Some err, s')" by simp
    from RegisterClient_Some [OF this] show ?thesis
      using maps_wf_delete_clients [OF assms(2)] by simp
  qed
next
  case (TouchClient cid at)
  with assms show ?thesis
    by (auto simp: Mem_TouchClient_def maps_wf_client split: option.splits
        intro!: maps_wf_set_client)
next
  case (CreateAuthorization t1 a)
  with assms show ?thesis
    by (auto simp: Mem_CreateAuthorization_def Let_def split: if_splits
        intro!: maps_wf_set_authorizer)
next
  case (CommitConsent t1 t2 x)
  with assms show ?thesis by (auto split: prod.splits intro: maps_wf_CommitConsent)
qed (use assms in \<open>auto simp: Mem_RevokeRefreshFamily_def intro: maps_wf_CommitLogin
    maps_wf_CommitCodeExchange maps_wf_CommitRefreshRotation\<close>)

end
