(* ===== verification/Single_Use.thy ===== *)
theory Single_Use
  imports Store_Trace
begin

text \<open>
  One-time credentials.  The contract \<open>one_shot\<close> speaks of any state machine in which a key is
  live or not: spending needs a live key and leaves it dead, and only issuing makes a key live.
  Along every run the key is then spent at most once per issue.  The contract is interpreted
  for the four credentials of the store: authorization transactions, consent tokens,
  authorization codes and refresh grants.
\<close>

section \<open>The contract\<close>

locale one_shot =
  fixes step :: "'c \<Rightarrow> 's \<Rightarrow> 'r \<times> 's"
    and ok :: "'c \<Rightarrow> bool"
    and inv :: "'s \<Rightarrow> bool"
    and live :: "'s \<Rightarrow> 'k \<Rightarrow> bool"
    and issues :: "'k \<Rightarrow> 'c \<Rightarrow> 'r \<Rightarrow> bool"
    and spends :: "'k \<Rightarrow> 'c \<Rightarrow> 'r \<Rightarrow> bool"
  assumes inv_step: "inv s \<Longrightarrow> step c s = (r, s') \<Longrightarrow> inv s'"
    and spend_live: "inv s \<Longrightarrow> ok c \<Longrightarrow> step c s = (r, s') \<Longrightarrow> spends k c r \<Longrightarrow> live s k"
    and spend_kills: "inv s \<Longrightarrow> ok c \<Longrightarrow> step c s = (r, s') \<Longrightarrow> spends k c r \<Longrightarrow> \<not> live s' k"
    and only_issue: "inv s \<Longrightarrow> ok c \<Longrightarrow> step c s = (r, s') \<Longrightarrow> live s' k \<Longrightarrow> live s k \<or> issues k c r"
begin

text \<open>The potential: one credit for a live key.\<close>

lemma potential_step:
  assumes "inv s" and "ok c" and "step c s = (r, s')"
  shows "(if spends k c r then 1 else 0) + (if live s' k then 1 else 0) \<le>
    (if issues k c r then 1 else 0) + (if live s k then 1 else (0 :: nat))"
  using spend_live [OF assms, of k] spend_kills [OF assms, of k] only_issue [OF assms, of k]
  by auto

lemma potential_run:
  "inv s \<Longrightarrow> list_all ok cs \<Longrightarrow> run step cs s = (log, s') \<Longrightarrow>
   count_events (spends k) log + (if live s' k then 1 else 0) \<le>
   count_events (issues k) log + (if live s k then 1 else 0)"
proof (induction cs arbitrary: s log)
  case (Cons c cs)
  obtain r s1 where 1: "step c s = (r, s1)" by fastforce
  obtain log1 s2 where 2: "run step cs s1 = (log1, s2)" by fastforce
  with 1 Cons.prems have log: "log = (c, r) # log1" "s2 = s'" by simp_all
  have "count_events (spends k) log1 + (if live s' k then 1 else 0) \<le>
      count_events (issues k) log1 + (if live s1 k then 1 else 0)"
    using Cons.IH [OF inv_step [OF Cons.prems(1) 1]] Cons.prems(2) 2 log by simp
  moreover have "(if spends k c r then 1 else 0) + (if live s1 k then 1 else 0) \<le>
      (if issues k c r then 1 else 0) + (if live s k then 1 else (0 :: nat))"
    using Cons.prems 1 by (intro potential_step) simp_all
  ultimately show ?case unfolding log(1) by (simp split: if_splits)
qed simp

lemma spent_at_most_issued:
  assumes "inv s" and "list_all ok cs" and "run step cs s = (log, s')" and "\<not> live s k"
  shows "count_events (spends k) log \<le> count_events (issues k) log"
  using potential_run [OF assms(1-3), of k] assms(4) by simp

lemma spent_at_most_once:
  assumes "inv s" and "list_all ok cs" and "run step cs s = (log, s')"
    and "count_events (issues k) log = 0"
  shows "count_events (spends k) log \<le> 1"
  using potential_run [OF assms(1-3), of k] assms(4) by (simp split: if_splits)

lemma inv_run: "inv s \<Longrightarrow> run step cs s = (log, s') \<Longrightarrow> inv s'"
proof (induction cs arbitrary: s log)
  case (Cons c cs)
  obtain r s1 where 1: "step c s = (r, s1)" by fastforce
  obtain log1 s2 where 2: "run step cs s1 = (log1, s2)" by fastforce
  with 1 Cons.prems have "s2 = s'" by simp
  with Cons.IH [OF inv_step [OF Cons.prems(1) 1]] 2 show ?case by simp
qed simp

end

section \<open>What a step does to each map\<close>

lemma pruned_getD:
  "gm_get (st_codes (pruned t s)) d = Some c \<Longrightarrow> maps_wf s \<Longrightarrow> gm_get (st_codes s) d = Some c"
  "gm_get (st_authorizers (pruned t s)) d = Some a \<Longrightarrow> maps_wf s \<Longrightarrow>
   gm_get (st_authorizers s) d = Some a"
  "gm_get (st_consents (pruned t s)) d = Some x \<Longrightarrow> maps_wf s \<Longrightarrow>
   gm_get (st_consents s) d = Some x"
  "gm_get (st_refresh (pruned t s)) d = Some g \<Longrightarrow> maps_wf s \<Longrightarrow> gm_get (st_refresh s) d = Some g"
  by (simp_all only: pruned_get_code pruned_get_authorizer pruned_get_consent)
    (erule pruned_get_refresh_old [rotated])

lemma revokeFamily_other [simp]:
  "st_codes (revokeFamily f t s) = st_codes s" "st_consents (revokeFamily f t s) = st_consents s"
  "st_authorizers (revokeFamily f t s) = st_authorizers s"
  "st_clients (revokeFamily f t s) = st_clients s"
  by (simp_all add: revokeFamily_def)

text \<open>A failing step at most prunes, drops stale clients or revokes a family.\<close>

lemma step_failure:
  assumes "store_step p c s = (Some err, s')"
  obtains (clients) m where "s' = s\<lparr>st_clients := m\<rparr>" "length m \<le> length (st_clients s)"
  | (pruned) t where "s' = pruned t s"
  | (revoked) t t' rr where "c = CommitRefreshRotation t t' rr" "err = ErrRevoked"
      "s' = revokeFamily (rr_FamilyID rr) t' (pruned t s)"
proof (cases c)
  case (RegisterClient now client)
  with assms have "Mem_RegisterClient now client p s = (Some err, s')" by simp
  from RegisterClient_Some [OF this] show thesis
    using clients [OF _ gm_length_delete_if] by blast
next
  case (TouchClient cid at)
  with assms have "Mem_TouchClient cid at s = (Some err, s')" by simp
  from TouchClient_Some [OF this] have "s' = s\<lparr>st_clients := st_clients s\<rparr>" by simp
  then show thesis by (rule clients) simp
next
  case (CreateAuthorization t1 a)
  with assms have "Mem_CreateAuthorization t1 a p s = (Some err, s')" by simp
  from CreateAuthorization_Some [OF this] show thesis using pruned by blast
next
  case (CommitLogin t1 t2 cl)
  with assms have "Mem_CommitLogin t1 t2 cl p s = (Some err, s')" by simp
  from CommitLogin_Some [OF this] show thesis by (rule pruned)
next
  case (CommitConsent t1 t2 cc)
  with assms have "s' = Memory_Store.pruned t1 s"
    using store_step_CommitConsent(2) CommitConsent_Inl by blast
  then show thesis by (rule pruned)
next
  case (CommitCodeExchange t1 t2 cx)
  with assms have "Mem_CommitCodeExchange t1 t2 cx p s = (Some err, s')" by simp
  from CommitCodeExchange_Some [OF this] show thesis by (rule pruned)
next
  case (CommitRefreshRotation t1 t2 rr)
  with assms have "Mem_CommitRefreshRotation t1 t2 rr p s = (Some err, s')" by simp
  from CommitRefreshRotation_Some [OF this] show thesis
    using pruned revoked [OF CommitRefreshRotation] by blast
qed (use assms in \<open>simp_all add: Mem_RevokeRefreshFamily_def\<close>)

text \<open>A successful step, with the method's effect.\<close>

lemma step_success:
  assumes "store_step p c s = (None, s')"
  obtains (clients) m where "s' = s\<lparr>st_clients := m\<rparr>"
      "length m \<le> length (st_clients s) \<or> int (length m) \<le> rp_MaxClients (sp_Registration p)"
  | (create) t1 a where "c = CreateAuthorization t1 a"
      "s' = (pruned t1 s)\<lparr>st_authorizers :=
         gm_set (DigestCredential (at_Token a)) a (st_authorizers (pruned t1 s))\<rparr>"
  | (login) t1 t2 cl where "c = CommitLogin t1 t2 cl" "Mem_CommitLogin t1 t2 cl p s = (None, s')"
  | (consent) t1 t2 cc r where "c = CommitConsent t1 t2 cc"
      "Mem_CommitConsent t1 t2 cc p s = (Inr r, s')"
  | (exchange) t1 t2 cx where "c = CommitCodeExchange t1 t2 cx"
      "Mem_CommitCodeExchange t1 t2 cx p s = (None, s')"
  | (rotation) t1 t2 rr where "c = CommitRefreshRotation t1 t2 rr"
      "Mem_CommitRefreshRotation t1 t2 rr p s = (None, s')"
  | (revoke) f t where "c = RevokeRefreshFamily f t" "s' = revokeFamily f t s"
  | (prune) t where "c = Prune t" "s' = pruned t s"
proof (cases c)
  case (RegisterClient now client)
  with assms have "Mem_RegisterClient now client p s = (None, s')" by simp
  from RegisterClient_None [OF this] show thesis by (intro clients) (assumption, simp)
next
  case (TouchClient cid at)
  with assms have "Mem_TouchClient cid at s = (None, s')" by simp
  then show thesis by (rule TouchClient_None) (rule clients, assumption, simp)
next
  case (CreateAuthorization t1 a)
  with assms have "Mem_CreateAuthorization t1 a p s = (None, s')" by simp
  from CreateAuthorization_None(3) [OF this] show thesis by (rule create [OF CreateAuthorization])
next
  case (CommitConsent t1 t2 cc)
  with assms consent show thesis using store_step_CommitConsent(1) by blast
qed (use assms login exchange rotation revoke prune in
    \<open>simp_all add: Mem_RevokeRefreshFamily_def\<close>)

text \<open>Every code in the store after a step was there before, or was just issued, or was just
  consumed; and likewise for the other maps.\<close>

lemma step_code_cases:
  assumes "store_step p c s = (r, s')" and wf: "maps_wf s" and "gm_get (st_codes s') d = Some x"
  obtains (old) "gm_get (st_codes s) d = Some x"
  | (issued) t1 t2 cc where "c = CommitConsent t1 t2 cc" "r = None"
      "cco_Decision cc = ConsentDecisionApprove" "x = cco_Code cc" "d = ac_Digest x"
  | (consumed) t1 t2 cx where "c = CommitCodeExchange t1 t2 cx" "r = None"
      "cec_CodeDigest cx = d" "ac_ConsumedAt x = t2"
proof (cases r)
  case (Some err)
  with assms(1) have "store_step p c s = (Some err, s')" by simp
  then have "gm_get (st_codes s) d = Some x"
    by (rule step_failure) (use assms in \<open>auto dest: pruned_getD\<close>)
  then show thesis by (rule old)
next
  case None
  with assms(1) have "store_step p c s = (None, s')" by simp
  then show thesis
  proof (rule step_success)
    fix t1 t2 cl assume "Mem_CommitLogin t1 t2 cl p s = (None, s')"
    then show thesis by (rule CommitLogin_None) (use assms old in \<open>auto dest: pruned_getD\<close>)
  next
    fix t1 t2 cc res
    assume c: "c = CommitConsent t1 t2 cc" and "Mem_CommitConsent t1 t2 cc p s = (Inr res, s')"
    from this(2) have "gm_get (st_codes s) d = Some x \<or>
        cco_Decision cc = ConsentDecisionApprove \<and> x = cco_Code cc \<and> d = ac_Digest x"
      by (rule CommitConsent_Inr) (use assms in \<open>auto split: if_splits dest: pruned_getD\<close>)
    with old issued [OF c None] show thesis by blast
  next
    fix t1 t2 cx
    assume "c = CommitCodeExchange t1 t2 cx" "Mem_CommitCodeExchange t1 t2 cx p s = (None, s')"
    from this(2) show thesis
      by (rule CommitCodeExchange_None)
        (use assms \<open>c = _\<close> None consumed old in \<open>auto split: if_splits dest: pruned_getD\<close>)
  next
    fix t1 t2 rr assume "Mem_CommitRefreshRotation t1 t2 rr p s = (None, s')"
    then show thesis
      by (rule CommitRefreshRotation_None) (use assms old in \<open>auto dest: pruned_getD\<close>)
  qed (use assms old in \<open>auto dest: pruned_getD\<close>)
qed

lemma step_authorizer_cases:
  assumes "store_step p c s = (r, s')" and wf: "maps_wf s"
    and "gm_get (st_authorizers s') d = Some x"
  obtains (old) "gm_get (st_authorizers s) d = Some x"
  | (issued) t1 where "c = CreateAuthorization t1 x" "r = None"
      "d = DigestCredential (at_Token x)"
  | (consumed) t1 t2 cl where "c = CommitLogin t1 t2 cl" "r = None"
      "lco_TransactionDigest cl = d" "at_ConsumedAt x = t2"
proof (cases r)
  case (Some err)
  with assms(1) have "store_step p c s = (Some err, s')" by simp
  then have "gm_get (st_authorizers s) d = Some x"
    by (rule step_failure) (use assms in \<open>auto dest: pruned_getD\<close>)
  then show thesis by (rule old)
next
  case None
  with assms(1) have "store_step p c s = (None, s')" by simp
  then show thesis
  proof (rule step_success)
    fix t1 a
    assume "c = CreateAuthorization t1 a" and "s' = (pruned t1 s)\<lparr>st_authorizers :=
       gm_set (DigestCredential (at_Token a)) a (st_authorizers (pruned t1 s))\<rparr>"
    with assms None issued old show thesis by (auto split: if_splits dest: pruned_getD)
  next
    fix t1 t2 cl
    assume "c = CommitLogin t1 t2 cl" "Mem_CommitLogin t1 t2 cl p s = (None, s')"
    from this(2) show thesis
      by (rule CommitLogin_None)
        (use assms \<open>c = _\<close> None consumed old in \<open>auto split: if_splits dest: pruned_getD\<close>)
  next
    fix t1 t2 cc res assume "Mem_CommitConsent t1 t2 cc p s = (Inr res, s')"
    then show thesis by (rule CommitConsent_Inr) (use assms old in \<open>auto dest: pruned_getD\<close>)
  next
    fix t1 t2 cx assume "Mem_CommitCodeExchange t1 t2 cx p s = (None, s')"
    then show thesis by (rule CommitCodeExchange_None) (use assms old in \<open>auto dest: pruned_getD\<close>)
  next
    fix t1 t2 rr assume "Mem_CommitRefreshRotation t1 t2 rr p s = (None, s')"
    then show thesis
      by (rule CommitRefreshRotation_None) (use assms old in \<open>auto dest: pruned_getD\<close>)
  qed (use assms old in \<open>auto dest: pruned_getD\<close>)
qed

lemma step_consent_cases:
  assumes "store_step p c s = (r, s')" and wf: "maps_wf s"
    and "gm_get (st_consents s') d = Some x"
  obtains (old) "gm_get (st_consents s) d = Some x"
  | (issued) t1 t2 cl where "c = CommitLogin t1 t2 cl" "r = None" "x = lco_Consent cl"
      "d = DigestCredential (cs_Token x)"
  | (consumed) t1 t2 cc where "c = CommitConsent t1 t2 cc" "r = None"
      "cco_ConsentDigest cc = d" "cs_ConsumedAt x = t2"
proof (cases r)
  case (Some err)
  with assms(1) have "store_step p c s = (Some err, s')" by simp
  then have "gm_get (st_consents s) d = Some x"
    by (rule step_failure) (use assms in \<open>auto dest: pruned_getD\<close>)
  then show thesis by (rule old)
next
  case None
  with assms(1) have "store_step p c s = (None, s')" by simp
  then show thesis
  proof (rule step_success)
    fix t1 t2 cl
    assume c: "c = CommitLogin t1 t2 cl" and "Mem_CommitLogin t1 t2 cl p s = (None, s')"
    from this(2) have "gm_get (st_consents s) d = Some x \<or>
        x = lco_Consent cl \<and> d = DigestCredential (cs_Token x)"
      by (rule CommitLogin_None) (use assms in \<open>auto split: if_splits dest: pruned_getD\<close>)
    with old issued [OF c None] show thesis by blast
  next
    fix t1 t2 cc res
    assume "c = CommitConsent t1 t2 cc" "Mem_CommitConsent t1 t2 cc p s = (Inr res, s')"
    from this(2) show thesis
      by (rule CommitConsent_Inr)
        (use assms \<open>c = _\<close> None consumed old in \<open>auto split: if_splits dest: pruned_getD\<close>)
  next
    fix t1 t2 cx assume "Mem_CommitCodeExchange t1 t2 cx p s = (None, s')"
    then show thesis by (rule CommitCodeExchange_None) (use assms old in \<open>auto dest: pruned_getD\<close>)
  next
    fix t1 t2 rr assume "Mem_CommitRefreshRotation t1 t2 rr p s = (None, s')"
    then show thesis
      by (rule CommitRefreshRotation_None) (use assms old in \<open>auto dest: pruned_getD\<close>)
  qed (use assms old in \<open>auto dest: pruned_getD\<close>)
qed

lemma step_refresh_cases:
  assumes "store_step p c s = (r, s')" and wf: "maps_wf s"
    and "gm_get (st_refresh s') d = Some x"
  obtains (old) "gm_get (st_refresh s) d = Some x"
  | (revoked) g f t where "gm_get (st_refresh s) d = Some g" "x = revoke_grant f t g"
      "\<And>e h. gm_get (st_refresh s') e = Some h \<Longrightarrow>
        \<exists>h0. gm_get (st_refresh s) e = Some h0 \<and> h = revoke_grant f t h0"
      "(c = RevokeRefreshFamily f t \<or>
        (\<exists>t1 rr. c = CommitRefreshRotation t1 t rr \<and> f = rr_FamilyID rr \<and> r = Some ErrRevoked))"
  | (exchanged) t1 t2 cx where "c = CommitCodeExchange t1 t2 cx" "r = None"
      "cec_Refresh cx = Some x" "d = rg_Digest x"
  | (rotated) t1 t2 rr where "c = CommitRefreshRotation t1 t2 rr" "r = None"
      "x = rr_Successor rr" "d = rg_Digest x" "rr_CurrentDigest rr \<noteq> d"
  | (consumed) t1 t2 rr g where "c = CommitRefreshRotation t1 t2 rr" "r = None"
      "rr_CurrentDigest rr = d" "gm_get (st_refresh s) d = Some g" "x = g\<lparr>rg_ConsumedAt := t2\<rparr>"
proof (cases r)
  case (Some err)
  with assms(1) have "store_step p c s = (Some err, s')" by simp
  then show thesis
  proof (rule step_failure)
    fix t t' rr
    assume *: "c = CommitRefreshRotation t t' rr" "err = ErrRevoked"
      "s' = revokeFamily (rr_FamilyID rr) t' (pruned t s)"
    with assms(3) obtain g where g: "gm_get (st_refresh (pruned t s)) d = Some g"
      "x = revoke_grant (rr_FamilyID rr) t' g" by auto
    show thesis
    proof (rule revoked [OF _ g(2)])
      show "gm_get (st_refresh s) d = Some g" using g wf by (auto dest: pruned_getD)
    next
      fix e h assume "gm_get (st_refresh s') e = Some h"
      with * wf show "\<exists>h0. gm_get (st_refresh s) e = Some h0 \<and>
          h = revoke_grant (rr_FamilyID rr) t' h0"
        by (auto dest: pruned_getD)
    qed (use * Some in auto)
  qed (use assms old in \<open>auto dest: pruned_getD\<close>)
next
  case None
  with assms(1) have "store_step p c s = (None, s')" by simp
  then show thesis
  proof (rule step_success)
    fix t1 t2 cl assume "Mem_CommitLogin t1 t2 cl p s = (None, s')"
    then show thesis by (rule CommitLogin_None) (use assms old in \<open>auto dest: pruned_getD\<close>)
  next
    fix t1 t2 cc res assume "Mem_CommitConsent t1 t2 cc p s = (Inr res, s')"
    then show thesis by (rule CommitConsent_Inr) (use assms old in \<open>auto dest: pruned_getD\<close>)
  next
    fix t1 t2 cx
    assume "c = CommitCodeExchange t1 t2 cx" "Mem_CommitCodeExchange t1 t2 cx p s = (None, s')"
    from this(2) show thesis
      by (rule CommitCodeExchange_None)
        (use assms \<open>c = _\<close> None exchanged old in \<open>auto split: if_splits dest: pruned_getD\<close>)
  next
    fix t1 t2 rr
    assume c: "c = CommitRefreshRotation t1 t2 rr"
      and "Mem_CommitRefreshRotation t1 t2 rr p s = (None, s')"
    from this(2) show thesis
    proof (rule CommitRefreshRotation_None)
      fix cur
      assume *: "gm_get (st_refresh (pruned t1 s)) (rr_CurrentDigest rr) = Some cur"
        "gm_get (st_refresh (pruned t1 s)) (rg_Digest (rr_Successor rr)) = None"
        "s' = (pruned t1 s)\<lparr>st_refresh := gm_set (rg_Digest (rr_Successor rr)) (rr_Successor rr)
          (gm_set (rr_CurrentDigest rr) (cur\<lparr>rg_ConsumedAt := t2\<rparr>) (st_refresh (pruned t1 s)))\<rparr>"
      then have "rr_CurrentDigest rr \<noteq> rg_Digest (rr_Successor rr)" by auto
      moreover have "gm_get (st_refresh s) (rr_CurrentDigest rr) = Some cur"
        using *(1) wf by (rule pruned_getD)
      moreover have "gm_get (st_refresh s) d = Some x \<or> x = rr_Successor rr \<and> d = rg_Digest x \<or>
          d = rr_CurrentDigest rr \<and> x = cur\<lparr>rg_ConsumedAt := t2\<rparr>"
        using *(3) assms(3) wf by (auto split: if_splits dest: pruned_getD)
      ultimately show thesis
        using old rotated [OF c None] consumed [OF c None] by blast
    qed
  next
    fix f t assume *: "c = RevokeRefreshFamily f t" "s' = revokeFamily f t s"
    with assms(3) obtain g where "gm_get (st_refresh s) d = Some g" "x = revoke_grant f t g" by auto
    then show thesis by (rule revoked) (use * in auto)
  qed (use assms old in \<open>auto dest: pruned_getD\<close>)
qed

section \<open>The four credentials\<close>

definition authorizer_live :: "'a Store \<Rightarrow> CredentialDigest \<Rightarrow> bool" where
  "authorizer_live s d =
     (case gm_get (st_authorizers s) d of None \<Rightarrow> False | Some a \<Rightarrow> at_ConsumedAt a = 0)"

definition consent_live :: "'a Store \<Rightarrow> CredentialDigest \<Rightarrow> bool" where
  "consent_live s d =
     (case gm_get (st_consents s) d of None \<Rightarrow> False | Some c \<Rightarrow> cs_ConsumedAt c = 0)"

definition code_live :: "'a Store \<Rightarrow> CredentialDigest \<Rightarrow> bool" where
  "code_live s d =
     (case gm_get (st_codes s) d of None \<Rightarrow> False | Some c \<Rightarrow> ac_ConsumedAt c = 0)"

definition grant_live :: "'a Store \<Rightarrow> CredentialDigest \<Rightarrow> bool" where
  "grant_live s d = (case gm_get (st_refresh s) d of None \<Rightarrow> False | Some g \<Rightarrow> active_grant g)"

lemmas live_defs = authorizer_live_def consent_live_def code_live_def grant_live_def

text \<open>A call with the error it returned issues or spends the credential with a given digest.\<close>

fun begins_authorization :: "CredentialDigest \<Rightarrow> 'a store_call \<Rightarrow> go_error option \<Rightarrow> bool" where
  "begins_authorization d (CreateAuthorization t1 a) None = (DigestCredential (at_Token a) = d)"
| "begins_authorization d _ _ = False"

fun completes_login :: "CredentialDigest \<Rightarrow> 'a store_call \<Rightarrow> go_error option \<Rightarrow> bool" where
  "completes_login d (CommitLogin t1 t2 c) None = (lco_TransactionDigest c = d)"
| "completes_login d _ _ = False"

fun opens_consent :: "CredentialDigest \<Rightarrow> 'a store_call \<Rightarrow> go_error option \<Rightarrow> bool" where
  "opens_consent d (CommitLogin t1 t2 c) None = (DigestCredential (cs_Token (lco_Consent c)) = d)"
| "opens_consent d _ _ = False"

fun decides_consent :: "CredentialDigest \<Rightarrow> 'a store_call \<Rightarrow> go_error option \<Rightarrow> bool" where
  "decides_consent d (CommitConsent t1 t2 c) None = (cco_ConsentDigest c = d)"
| "decides_consent d _ _ = False"

fun issues_code :: "CredentialDigest \<Rightarrow> 'a store_call \<Rightarrow> go_error option \<Rightarrow> bool" where
  "issues_code d (CommitConsent t1 t2 c) None =
     (cco_Decision c = ConsentDecisionApprove \<and> ac_Digest (cco_Code c) = d)"
| "issues_code d _ _ = False"

fun exchanges_code :: "CredentialDigest \<Rightarrow> 'a store_call \<Rightarrow> go_error option \<Rightarrow> bool" where
  "exchanges_code d (CommitCodeExchange t1 t2 c) None = (cec_CodeDigest c = d)"
| "exchanges_code d _ _ = False"

fun issues_grant :: "CredentialDigest \<Rightarrow> 'a store_call \<Rightarrow> go_error option \<Rightarrow> bool" where
  "issues_grant d (CommitCodeExchange t1 t2 c) None =
     (case cec_Refresh c of None \<Rightarrow> False | Some g \<Rightarrow> rg_Digest g = d)"
| "issues_grant d (CommitRefreshRotation t1 t2 r) None = (rg_Digest (rr_Successor r) = d)"
| "issues_grant d _ _ = False"

fun rotates_grant :: "CredentialDigest \<Rightarrow> 'a store_call \<Rightarrow> go_error option \<Rightarrow> bool" where
  "rotates_grant d (CommitRefreshRotation t1 t2 r) None = (rr_CurrentDigest r = d)"
| "rotates_grant d _ _ = False"

fun_cases completes_loginE: "completes_login d c r"
fun_cases decides_consentE: "decides_consent d c r"
fun_cases exchanges_codeE: "exchanges_code d c r"
fun_cases rotates_grantE: "rotates_grant d c r"

interpretation transaction_use:
  one_shot "store_step p" clock_set maps_wf authorizer_live begins_authorization completes_login
  for p
proof
  fix s :: "'a Store" and c r s' k
  assume wf: "maps_wf s" and step: "store_step p c s = (r, s')"
  show "maps_wf s'" by (rule store_step_maps_wf [OF step wf])
  assume ok: "clock_set c"
  {
    assume "completes_login k c r"
    then obtain t1 t2 cl where cl: "c = CommitLogin t1 t2 cl" "r = None"
      "lco_TransactionDigest cl = k" by (rule completes_loginE)
    with step have m: "Mem_CommitLogin t1 t2 cl p s = (None, s')" by simp
    show "authorizer_live s k"
      by (rule CommitLogin_None [OF m])
        (use cl wf in \<open>auto simp: live_defs ValidateLoginCommit_None dest!: pruned_getD\<close>)
    show "\<not> authorizer_live s' k"
      by (rule CommitLogin_None [OF m]) (use cl ok in \<open>auto simp: live_defs\<close>)
  }
  assume "authorizer_live s' k"
  then obtain x where x: "gm_get (st_authorizers s') k = Some x" "at_ConsumedAt x = 0"
    by (auto simp: live_defs split: option.splits)
  show "authorizer_live s k \<or> begins_authorization k c r"
    by (rule step_authorizer_cases [OF step wf x(1)]) (use x ok in \<open>auto simp: live_defs\<close>)
qed

interpretation consent_use:
  one_shot "store_step p" clock_set maps_wf consent_live opens_consent decides_consent
  for p
proof
  fix s :: "'a Store" and c r s' k
  assume wf: "maps_wf s" and step: "store_step p c s = (r, s')"
  show "maps_wf s'" by (rule store_step_maps_wf [OF step wf])
  assume ok: "clock_set c"
  {
    assume "decides_consent k c r"
    then obtain t1 t2 cc where cc: "c = CommitConsent t1 t2 cc" "r = None"
      "cco_ConsentDigest cc = k" by (rule decides_consentE)
    with step obtain res where m: "Mem_CommitConsent t1 t2 cc p s = (Inr res, s')"
      using store_step_CommitConsent(1) by blast
    show "consent_live s k"
      by (rule CommitConsent_Inr [OF m])
        (use cc wf in \<open>auto simp: live_defs ValidateConsentCommit_None dest!: pruned_getD\<close>)
    show "\<not> consent_live s' k"
      by (rule CommitConsent_Inr [OF m]) (use cc ok in \<open>auto simp: live_defs\<close>)
  }
  assume "consent_live s' k"
  then obtain x where x: "gm_get (st_consents s') k = Some x" "cs_ConsumedAt x = 0"
    by (auto simp: live_defs split: option.splits)
  show "consent_live s k \<or> opens_consent k c r"
    by (rule step_consent_cases [OF step wf x(1)]) (use x ok in \<open>auto simp: live_defs\<close>)
qed

interpretation code_use:
  one_shot "store_step p" clock_set maps_wf code_live issues_code exchanges_code
  for p
proof
  fix s :: "'a Store" and c r s' k
  assume wf: "maps_wf s" and step: "store_step p c s = (r, s')"
  show "maps_wf s'" by (rule store_step_maps_wf [OF step wf])
  assume ok: "clock_set c"
  {
    assume "exchanges_code k c r"
    then obtain t1 t2 cx where cx: "c = CommitCodeExchange t1 t2 cx" "r = None"
      "cec_CodeDigest cx = k" by (rule exchanges_codeE)
    with step have m: "Mem_CommitCodeExchange t1 t2 cx p s = (None, s')" by simp
    show "code_live s k"
      by (rule CommitCodeExchange_None [OF m])
        (use cx wf in \<open>auto simp: live_defs ValidateCodeExchangeCommit_None dest!: pruned_getD\<close>)
    show "\<not> code_live s' k"
      by (rule CommitCodeExchange_None [OF m]) (use cx ok in \<open>auto simp: live_defs\<close>)
  }
  assume "code_live s' k"
  then obtain x where x: "gm_get (st_codes s') k = Some x" "ac_ConsumedAt x = 0"
    by (auto simp: live_defs split: option.splits)
  show "code_live s k \<or> issues_code k c r"
    by (rule step_code_cases [OF step wf x(1)]) (use x ok in \<open>auto simp: live_defs\<close>)
qed

interpretation grant_use:
  one_shot "store_step p" clock_set maps_wf grant_live issues_grant rotates_grant
  for p
proof
  fix s :: "'a Store" and c r s' k
  assume wf: "maps_wf s" and step: "store_step p c s = (r, s')"
  show "maps_wf s'" by (rule store_step_maps_wf [OF step wf])
  assume ok: "clock_set c"
  {
    assume "rotates_grant k c r"
    then obtain t1 t2 rr where rr: "c = CommitRefreshRotation t1 t2 rr" "r = None"
      "rr_CurrentDigest rr = k" by (rule rotates_grantE)
    with step have m: "Mem_CommitRefreshRotation t1 t2 rr p s = (None, s')" by simp
    show "grant_live s k"
      by (rule CommitRefreshRotation_None [OF m])
        (use rr wf in \<open>auto simp: live_defs active_grant_def ValidateRefreshRotation_None
          dest!: pruned_getD\<close>)
    show "\<not> grant_live s' k"
      by (rule CommitRefreshRotation_None [OF m])
        (use rr ok in \<open>auto simp: live_defs active_grant_def\<close>)
  }
  assume "grant_live s' k"
  then obtain x where x: "gm_get (st_refresh s') k = Some x" "active_grant x"
    by (auto simp: live_defs split: option.splits)
  show "grant_live s k \<or> issues_grant k c r"
    by (rule step_refresh_cases [OF step wf x(1)])
      (use x ok in \<open>auto simp: live_defs active_grant_def revoke_grant_RevokedAt split: if_splits\<close>)
qed

end
