(* ===== verification/Families.thy ===== *)
theory Families
  imports Single_Use
begin

text \<open>
  Refresh families and capacity.  \<open>reachable\<close> is the set of stores that calls with fresh family
  identifiers produce from the empty store; its invariant orders the grants of a family by
  generation.  A family whose grants are all revoked stays so, and capacity bounds hold along
  every run.
\<close>

section \<open>Reachable stores\<close>

text \<open>A code exchange opens a family that no stored grant belongs to (the engine draws 256 random
  bits for it).\<close>

fun fresh_family :: "'a Store \<Rightarrow> 'a store_call \<Rightarrow> bool" where
  "fresh_family s (CommitCodeExchange t1 t2 c) =
     (case cec_Refresh c of
        None \<Rightarrow> True
      | Some g \<Rightarrow> list_all (\<lambda>(_, h). rg_FamilyID h \<noteq> rg_FamilyID g) (st_refresh s))"
| "fresh_family s _ = True"

inductive reachable :: "StatePolicy \<Rightarrow> 'a Store \<Rightarrow> bool" for p where
  reachable_init: "reachable p NewStore"
| reachable_step: "reachable p s \<Longrightarrow> clock_set c \<Longrightarrow> fresh_family s c \<Longrightarrow>
    store_step p c s = (r, s') \<Longrightarrow> reachable p s'"

inductive_cases reachableE: "reachable p s"

lemma reachable_maps_wf: "reachable p s \<Longrightarrow> maps_wf s"
  by (induction rule: reachable.induct) (auto intro: store_step_maps_wf)

section \<open>The order of a family\<close>

definition kin ::
  "CredentialDigest \<Rightarrow> 'a RefreshGrant \<Rightarrow> CredentialDigest \<Rightarrow> 'a RefreshGrant \<Rightarrow> bool" where
  "kin d g e h \<longleftrightarrow>
     rg_ClientID g = rg_ClientID h \<and> rg_Resource g = rg_Resource h \<and>
     p_Subject (rg_Principal g) = p_Subject (rg_Principal h) \<and>
     rg_ExpiresAt g = rg_ExpiresAt h \<and> (rg_RevokedAt g = 0 \<longleftrightarrow> rg_RevokedAt h = 0) \<and>
     (d \<noteq> e \<longrightarrow> rg_Generation g \<noteq> rg_Generation h) \<and>
     (rg_Generation g < rg_Generation h \<longrightarrow>
        rg_ConsumedAt g \<noteq> 0 \<and> scope_set (rg_Scopes h) \<subseteq> scope_set (rg_Scopes g))"

definition families_ok :: "'a Store \<Rightarrow> bool" where
  "families_ok s \<longleftrightarrow>
     (\<forall>d g e h. gm_get (st_refresh s) d = Some g \<longrightarrow> gm_get (st_refresh s) e = Some h \<longrightarrow>
        rg_FamilyID g = rg_FamilyID h \<longrightarrow> kin d g e h)"

definition generations_ok :: "StatePolicy \<Rightarrow> 'a Store \<Rightarrow> bool" where
  "generations_ok p s \<longleftrightarrow>
     (\<forall>d g. gm_get (st_refresh s) d = Some g \<longrightarrow>
        rg_Generation g < cap_MaxRefreshGenerations (sp_Capacity p))"

lemma families_okD:
  "families_ok s \<Longrightarrow> gm_get (st_refresh s) d = Some g \<Longrightarrow> gm_get (st_refresh s) e = Some h \<Longrightarrow>
   rg_FamilyID g = rg_FamilyID h \<Longrightarrow> kin d g e h"
  by (simp add: families_ok_def)

lemma families_ok_sub:
  "families_ok s \<Longrightarrow>
   (\<And>d g. gm_get (st_refresh s') d = Some g \<Longrightarrow> gm_get (st_refresh s) d = Some g) \<Longrightarrow> families_ok s'"
  unfolding families_ok_def by blast

lemma families_ok_pruned: "families_ok s \<Longrightarrow> maps_wf s \<Longrightarrow> families_ok (pruned t s)"
  by (erule families_ok_sub) (rule pruned_getD)

lemma families_ok_update [simp]:
  "families_ok (s\<lparr>st_clients := m\<rparr>) = families_ok s"
  "families_ok (s\<lparr>st_authorizers := a\<rparr>) = families_ok s"
  "families_ok (s\<lparr>st_consents := b\<rparr>) = families_ok s"
  "families_ok (s\<lparr>st_codes := k\<rparr>) = families_ok s"
  by (simp_all add: families_ok_def)

lemma kin_revoke:
  "kin d g e h \<Longrightarrow> rg_FamilyID g = rg_FamilyID h \<Longrightarrow> 0 < t \<Longrightarrow>
   kin d (revoke_grant f t g) e (revoke_grant f t h)"
  by (simp add: kin_def revoke_grant_RevokedAt)

lemma families_ok_revoke: "families_ok s \<Longrightarrow> 0 < t \<Longrightarrow> families_ok (revokeFamily f t s)"
  unfolding families_ok_def by (auto intro!: kin_revoke)

lemma families_ok_exchange:
  assumes "families_ok s" and "gm_get (st_refresh s) (rg_Digest g) = None"
    and fresh: "\<And>d h. gm_get (st_refresh s) d = Some h \<Longrightarrow> rg_FamilyID h \<noteq> rg_FamilyID g"
    and s': "st_refresh s' = gm_set (rg_Digest g) g (st_refresh s)"
  shows "families_ok s'"
  unfolding families_ok_def s'
proof (intro allI impI)
  fix d x e y
  assume "gm_get (gm_set (rg_Digest g) g (st_refresh s)) d = Some x"
    "gm_get (gm_set (rg_Digest g) g (st_refresh s)) e = Some y" "rg_FamilyID x = rg_FamilyID y"
  then show "kin d x e y"
    using fresh [of d x] fresh [of e y] families_okD [OF assms(1), of d x e y]
    by (auto simp: kin_def split: if_splits)
qed

lemma word_less_Suc:
  fixes x y z :: "'w :: len word"
  shows "x < y \<Longrightarrow> x < x + 1" and "x < y \<Longrightarrow> z < x + 1 \<longleftrightarrow> z \<le> x"
  by uint_arith+

text \<open>The grant that a rotation may replace is the newest of its family.\<close>

lemma newest:
  assumes "families_ok s" and "gm_get (st_refresh s) d = Some g" and "rg_ConsumedAt g = 0"
    and "gm_get (st_refresh s) e = Some h" and "rg_FamilyID h = rg_FamilyID g"
  shows "rg_Generation h \<le> rg_Generation g" and "e \<noteq> d \<Longrightarrow> rg_Generation h < rg_Generation g"
proof -
  have "kin d g e h" using families_okD [OF assms(1,2,4)] assms(5) by simp
  then have "\<not> rg_Generation g < rg_Generation h" and "d \<noteq> e \<Longrightarrow> rg_Generation g \<noteq> rg_Generation h"
    using assms(3) by (auto simp: kin_def)
  then show "rg_Generation h \<le> rg_Generation g" and "e \<noteq> d \<Longrightarrow> rg_Generation h < rg_Generation g"
    by auto
qed

text \<open>A successor is kin to every grant of the family that was there.\<close>

lemma kin_successor:
  assumes "families_ok s" and gen: "rg_Generation cur < y"
    and cur: "gm_get (st_refresh s) d = Some cur" "rg_ConsumedAt cur = 0" "rg_RevokedAt cur = 0"
    and h: "gm_get (st_refresh s) e = Some h" "rg_FamilyID h = rg_FamilyID cur" "e \<noteq> d"
    and succ: "rg_Generation g = rg_Generation cur + 1" "rg_ClientID g = rg_ClientID cur"
      "p_Subject (rg_Principal g) = p_Subject (rg_Principal cur)" "rg_Resource g = rg_Resource cur"
      "IsSubsetOf (rg_Scopes g) (rg_Scopes cur)" "rg_ExpiresAt g = rg_ExpiresAt cur"
      "rg_RevokedAt g = 0"
  shows "kin e h d' g" and "kin d' g e h"
proof -
  have k: "kin e h d cur" using families_okD [OF assms(1) h(1) cur(1) h(2)] .
  have lt: "rg_Generation h < rg_Generation cur" using newest(2) [OF assms(1) cur(1,2) h] .
  then have "rg_Generation h < rg_Generation g"
    using word_less_Suc(1) [OF gen] succ(1) by simp
  moreover have "scope_set (rg_Scopes g) \<subseteq> scope_set (rg_Scopes h)"
    using k lt IsSubsetOf_subset [OF succ(5)] by (auto simp: kin_def)
  ultimately show "kin e h d' g" and "kin d' g e h"
    using k lt succ cur by (auto simp: kin_def)
qed

lemma families_ok_rotation:
  assumes ok: "families_ok s" and gen: "rg_Generation cur < y" and "0 < now"
    and cur: "gm_get (st_refresh s) d = Some cur" "rg_ConsumedAt cur = 0" "rg_RevokedAt cur = 0"
    and new: "gm_get (st_refresh s) (rg_Digest g) = None"
    and succ: "rg_Generation g = rg_Generation cur + 1" "rg_ClientID g = rg_ClientID cur"
      "p_Subject (rg_Principal g) = p_Subject (rg_Principal cur)" "rg_Resource g = rg_Resource cur"
      "IsSubsetOf (rg_Scopes g) (rg_Scopes cur)" "rg_ExpiresAt g = rg_ExpiresAt cur"
      "rg_RevokedAt g = 0" and fam: "rg_FamilyID g = rg_FamilyID cur"
    and s': "st_refresh s' = gm_set (rg_Digest g) g
        (gm_set d (cur\<lparr>rg_ConsumedAt := now\<rparr>) (st_refresh s))"
  shows "families_ok s'"
  unfolding families_ok_def
proof (intro allI impI)
  let ?cur = "cur\<lparr>rg_ConsumedAt := now\<rparr>"
  have get: "gm_get (st_refresh s') e = Some x \<longleftrightarrow>
      e = rg_Digest g \<and> x = g \<or> e = d \<and> x = ?cur \<or>
      e \<noteq> rg_Digest g \<and> e \<noteq> d \<and> gm_get (st_refresh s) e = Some x" for e x
    using new cur(1) by (auto simp: s')
  have old_cur: "kin e h d ?cur" "kin d ?cur e h"
    if "gm_get (st_refresh s) e = Some h" "e \<noteq> d" "rg_FamilyID h = rg_FamilyID cur" for e h
    using families_okD [OF ok that(1) cur(1) that(3)]
      newest(2) [OF ok cur(1,2) that(1,3,2)] \<open>0 < now\<close>
    by (auto simp: kin_def)
  have succ_cur: "kin d ?cur (rg_Digest g) g" "kin (rg_Digest g) g d ?cur"
    using word_less_Suc(1) [OF gen] succ cur \<open>0 < now\<close> IsSubsetOf_subset [OF succ(5)]
    by (auto simp: kin_def)
  have refl: "kin e h e h" for e h by (simp add: kin_def)
  note all = old_cur succ_cur refl kin_successor [OF ok gen cur _ _ _ succ] families_okD [OF ok]
  fix d1 g1 e1 h1
  assume "gm_get (st_refresh s') d1 = Some g1" "gm_get (st_refresh s') e1 = Some h1"
    and f: "rg_FamilyID g1 = rg_FamilyID h1"
  then show "kin d1 g1 e1 h1"
    unfolding get by (elim disjE conjE) (simp_all add: all fam)
qed

section \<open>Every reachable store\<close>

lemma families_step:
  assumes step: "store_step p c s = (r, s')" and wf: "maps_wf s" and "clock_set c"
    and fresh: "fresh_family s c" and ok: "families_ok s" and gens: "generations_ok p s"
    and pos: "0 < cap_MaxRefreshGenerations (sp_Capacity p)"
  shows "families_ok s' \<and> generations_ok p s'"
proof (rule conjI)
  show "generations_ok p s'"
    unfolding generations_ok_def
  proof (intro allI impI)
    fix d x assume x: "gm_get (st_refresh s') d = Some x"
    show "rg_Generation x < cap_MaxRefreshGenerations (sp_Capacity p)"
    proof (rule step_refresh_cases [OF step wf x])
      fix t1 t2 cx assume *: "c = CommitCodeExchange t1 t2 cx" "r = None" "cec_Refresh cx = Some x"
      with step have "Mem_CommitCodeExchange t1 t2 cx p s = (None, s')" by simp
      then have "rg_Generation x = 0"
        by (rule CommitCodeExchange_None) (use * in \<open>auto simp: ValidateCodeExchangeCommit_None\<close>)
      with pos show ?thesis by simp
    next
      fix t1 t2 rr assume *: "c = CommitRefreshRotation t1 t2 rr" "r = None" "x = rr_Successor rr"
      with step have "Mem_CommitRefreshRotation t1 t2 rr p s = (None, s')" by simp
      then show ?thesis by (rule CommitRefreshRotation_None) (use * in simp)
    qed (use gens in \<open>auto simp: generations_ok_def\<close>)
  qed
next
  note pr = families_ok_pruned [OF ok wf]
  show "families_ok s'"
  proof (cases r)
    case (Some err)
    with step have "store_step p c s = (Some err, s')" by simp
    then show ?thesis
      by (rule step_failure)
        (use ok pr \<open>clock_set c\<close> in \<open>auto intro!: families_ok_revoke\<close>)
  next
    case None
    with step have "store_step p c s = (None, s')" by simp
    then show ?thesis
    proof (rule step_success)
      fix t1 t2 cl assume "Mem_CommitLogin t1 t2 cl p s = (None, s')"
      then show ?thesis
        by (rule CommitLogin_None) (use pr in simp)
    next
      fix t1 t2 cc res assume "Mem_CommitConsent t1 t2 cc p s = (Inr res, s')"
      then show ?thesis
        by (rule CommitConsent_Inr) (use pr in simp)
    next
      fix t1 t2 cx
      assume c: "c = CommitCodeExchange t1 t2 cx" and
        "Mem_CommitCodeExchange t1 t2 cx p s = (None, s')"
      from this(2) show ?thesis
      proof (rule CommitCodeExchange_None)
        fix code g
        assume g: "cec_Refresh cx = Some g"
          "gm_get (st_refresh (pruned t1 s)) (rg_Digest g) = None"
          "s' = (pruned t1 s)\<lparr>st_codes := gm_set (cec_CodeDigest cx) (code\<lparr>ac_ConsumedAt := t2\<rparr>)
             (st_codes (pruned t1 s)),
            st_refresh := gm_set (rg_Digest g) g (st_refresh (pruned t1 s))\<rparr>"
        show ?thesis
        proof (rule families_ok_exchange [OF pr g(2)])
          fix d h assume "gm_get (st_refresh (pruned t1 s)) d = Some h"
          then have "(d, h) \<in> set (st_refresh s)" using wf by (auto dest: pruned_getD gm_get_in)
          with fresh show "rg_FamilyID h \<noteq> rg_FamilyID g"
            by (auto simp: c g(1) list_all_iff)
        qed (simp add: g(3))
      qed
    next
      fix t1 t2 rr
      assume c: "c = CommitRefreshRotation t1 t2 rr" and
        "Mem_CommitRefreshRotation t1 t2 rr p s = (None, s')"
      from this(2) show ?thesis
      proof (rule CommitRefreshRotation_None)
        fix cur
        assume cur: "gm_get (st_refresh (pruned t1 s)) (rr_CurrentDigest rr) = Some cur"
          and v: "ValidateRefreshRotation cur rr t2 = None"
          and new: "gm_get (st_refresh (pruned t1 s)) (rg_Digest (rr_Successor rr)) = None"
          and s': "s' = (pruned t1 s)\<lparr>st_refresh := gm_set (rg_Digest (rr_Successor rr))
            (rr_Successor rr) (gm_set (rr_CurrentDigest rr) (cur\<lparr>rg_ConsumedAt := t2\<rparr>)
              (st_refresh (pruned t1 s)))\<rparr>"
        have "rg_Generation cur < cap_MaxRefreshGenerations (sp_Capacity p)"
          using gens pruned_getD(4) [OF cur wf] by (simp add: generations_ok_def)
        with v cur new pr \<open>clock_set c\<close> show ?thesis
          by (intro families_ok_rotation [OF pr _ _ cur _ _ new, where s' = s' and now = t2])
            (auto simp: ValidateRefreshRotation_None c s')
      qed
    qed (use ok pr \<open>clock_set c\<close> in
        \<open>auto intro!: families_ok_revoke\<close>)
  qed
qed

lemma reachable_families:
  "reachable p s \<Longrightarrow> 0 < cap_MaxRefreshGenerations (sp_Capacity p) \<Longrightarrow>
   families_ok s \<and> generations_ok p s"
proof (induction rule: reachable.induct)
  case reachable_init
  then show ?case by (simp add: families_ok_def generations_ok_def NewStore_def)
next
  case (reachable_step s c r s')
  then show ?case
    using families_step [OF reachable_step.hyps(4)] reachable_maps_wf by blast
qed

section \<open>Revoked families\<close>

text \<open>No grant of the family can be used any more.\<close>

definition family_revoked :: "'a Store \<Rightarrow> RefreshFamilyID \<Rightarrow> bool" where
  "family_revoked s f \<longleftrightarrow>
     list_all (\<lambda>(_, g). rg_FamilyID g = f \<longrightarrow> rg_RevokedAt g \<noteq> 0) (st_refresh s)"

lemma family_revoked_iff:
  "maps_wf s \<Longrightarrow> family_revoked s f \<longleftrightarrow>
     (\<forall>d g. gm_get (st_refresh s) d = Some g \<longrightarrow> rg_FamilyID g = f \<longrightarrow> rg_RevokedAt g \<noteq> 0)"
  by (fastforce simp: family_revoked_def list_all_iff gm_get_iff)

lemma family_revoked_revokeFamily: "0 < t \<Longrightarrow> family_revoked (revokeFamily f t s) f"
  by (auto simp: family_revoked_def list_all_iff revokeFamily_def gm_map_def
      revoke_grant_RevokedAt split: if_splits)

text \<open>A call that does not open the family.\<close>

fun opens_family :: "RefreshFamilyID \<Rightarrow> 'a store_call \<Rightarrow> bool" where
  "opens_family f (CommitCodeExchange t1 t2 c) =
     (case cec_Refresh c of None \<Rightarrow> False | Some g \<Rightarrow> rg_FamilyID g = f)"
| "opens_family f _ = False"

fun rotates_family :: "RefreshFamilyID \<Rightarrow> 'a store_call \<Rightarrow> go_error option \<Rightarrow> bool" where
  "rotates_family f (CommitRefreshRotation t1 t2 r) None = (rr_FamilyID r = f)"
| "rotates_family f _ _ = False"

lemma family_revoked_step:
  assumes step: "store_step p c s = (r, s')" and wf: "maps_wf s" and "clock_set c"
    and "\<not> opens_family f c" and dead: "family_revoked s f"
  shows "family_revoked s' f \<and> \<not> rotates_family f c r"
proof -
  have live: "rg_FamilyID cur \<noteq> f \<and> rg_FamilyID (rr_Successor rr) = rg_FamilyID cur \<and>
      rr_FamilyID rr = rg_FamilyID cur"
    if "c = CommitRefreshRotation t1 t2 rr" "r = None"
      "Mem_CommitRefreshRotation t1 t2 rr p s = (None, s')"
      "gm_get (st_refresh (pruned t1 s)) (rr_CurrentDigest rr) = Some cur"
      "ValidateRefreshRotation cur rr t2 = None" for t1 t2 rr cur
    using that(5) dead pruned_getD(4) [OF that(4) wf] wf
    by (auto simp: ValidateRefreshRotation_None family_revoked_iff)
  have "\<not> rotates_family f c r"
  proof
    assume "rotates_family f c r"
    then obtain t1 t2 rr where *: "c = CommitRefreshRotation t1 t2 rr" "r = None"
      "rr_FamilyID rr = f" by (cases "(f, c, r)" rule: rotates_family.cases) auto
    with step have m: "Mem_CommitRefreshRotation t1 t2 rr p s = (None, s')" by simp
    show False
      by (rule CommitRefreshRotation_None [OF m]) (use live [OF *(1,2) m] *(3) in auto)
  qed
  moreover have "family_revoked s' f"
    unfolding family_revoked_iff [OF store_step_maps_wf [OF step wf]]
  proof (intro allI impI)
    fix d x assume x: "gm_get (st_refresh s') d = Some x" "rg_FamilyID x = f"
    show "rg_RevokedAt x \<noteq> 0"
    proof (rule step_refresh_cases [OF step wf x(1)])
      fix t1 t2 cx assume "c = CommitCodeExchange t1 t2 cx" "cec_Refresh cx = Some x"
      with x assms(4) show ?thesis by simp
    next
      fix t1 t2 rr assume *: "c = CommitRefreshRotation t1 t2 rr" "r = None" "x = rr_Successor rr"
      with step have m: "Mem_CommitRefreshRotation t1 t2 rr p s = (None, s')" by simp
      show ?thesis
        by (rule CommitRefreshRotation_None [OF m]) (use live [OF *(1,2) m] * x in auto)
    qed (use x dead wf \<open>clock_set c\<close> in
        \<open>auto simp: family_revoked_iff revoke_grant_RevokedAt split: if_splits\<close>)
  qed
  ultimately show ?thesis by simp
qed

lemma family_revoked_run:
  "maps_wf s \<Longrightarrow> list_all clock_set cs \<Longrightarrow> list_all (\<lambda>c. \<not> opens_family f c) cs \<Longrightarrow>
   family_revoked s f \<Longrightarrow> run (store_step p) cs s = (log, s') \<Longrightarrow>
   family_revoked s' f \<and> count_events (rotates_family f) log = 0"
proof (induction cs arbitrary: s log)
  case (Cons c cs)
  obtain r s1 where 1: "store_step p c s = (r, s1)" by fastforce
  obtain log1 s2 where 2: "run (store_step p) cs s1 = (log1, s2)" by fastforce
  have 3: "family_revoked s1 f \<and> \<not> rotates_family f c r"
    using family_revoked_step [OF 1] Cons.prems by simp
  have log: "log = (c, r) # log1" "s2 = s'" using Cons.prems(5) 1 2 by simp_all
  have "family_revoked s' f \<and> count_events (rotates_family f) log1 = 0"
    using Cons.IH [OF store_step_maps_wf [OF 1 Cons.prems(1)]] Cons.prems 2 3 log(2) by simp
  with 3 log show ?case by simp
qed simp

end
