(* ===== verification/Capacity.thy ===== *)
theory Capacity
  imports Single_Use
begin

text \<open>
  The capacity bounds of \<open>StatePolicy\<close> are an invariant of every sequence of store calls, and
  what pruning and client registration remove is exactly what has expired.
\<close>

section \<open>Bounds\<close>

definition capacity_ok :: "StatePolicy \<Rightarrow> 'a Store \<Rightarrow> bool" where
  "capacity_ok p s \<longleftrightarrow>
     int (length (st_clients s)) \<le> rp_MaxClients (sp_Registration p) \<and>
     int (length (st_authorizers s)) \<le> cap_MaxAuthorizations (sp_Capacity p) \<and>
     int (length (st_consents s)) \<le> cap_MaxConsents (sp_Capacity p) \<and>
     int (length (st_codes s)) \<le> cap_MaxCodes (sp_Capacity p) \<and>
     activeRefreshGrantCount s \<le> cap_MaxRefreshGrants (sp_Capacity p)"

lemma activeRefreshGrantCount_cong:
  "st_refresh s = st_refresh s' \<Longrightarrow> activeRefreshGrantCount s = activeRefreshGrantCount s'"
  by (simp add: activeRefreshGrantCount_def)

lemma active_pruned: "activeRefreshGrantCount (pruned t s) \<le> activeRefreshGrantCount s"
  by (simp add: activeRefreshGrantCount_def pruned_refresh_raw gm_count_delete_if_le)

lemma active_revoke:
  "0 < t \<Longrightarrow> activeRefreshGrantCount (revokeFamily f t s) \<le> activeRefreshGrantCount s"
  by (simp add: activeRefreshGrantCount_def revokeFamily_def)
    (rule gm_count_map_le, auto simp: active_grant_def revoke_grant_RevokedAt split: if_splits)

lemma length_delete_if_le: "int (length m) \<le> n \<Longrightarrow> int (length (gm_delete_if P m)) \<le> n"
  using gm_length_delete_if [of P m] by linarith

lemma capacity_ok_pruned: "capacity_ok p s \<Longrightarrow> capacity_ok p (pruned t s)"
  using active_pruned [of t s]
  by (simp add: capacity_ok_def pruned_authorizers pruned_consents pruned_codes
      length_delete_if_le)

lemma capacity_ok_revoke: "capacity_ok p s \<Longrightarrow> 0 < t \<Longrightarrow> capacity_ok p (revokeFamily f t s)"
  using active_revoke [of t f s] by (auto simp: capacity_ok_def)

lemma active_count_set_new:
  "gm_get (st_refresh s) d = None \<Longrightarrow> st_refresh s' = gm_set d g (st_refresh s) \<Longrightarrow>
   activeRefreshGrantCount s' \<le> activeRefreshGrantCount s + 1"
  by (simp add: activeRefreshGrantCount_def gm_count_set_new)

lemma active_count_rotation:
  assumes "gm_get (st_refresh s) d = Some cur" and "active_grant cur" and "0 < now"
    and "gm_get (st_refresh s) e = None"
    and "st_refresh s' = gm_set e g (gm_set d (cur\<lparr>rg_ConsumedAt := now\<rparr>) (st_refresh s))"
  shows "activeRefreshGrantCount s' \<le> activeRefreshGrantCount s"
proof -
  let ?m = "gm_set d (cur\<lparr>rg_ConsumedAt := now\<rparr>) (st_refresh s)"
  have "gm_count active_grant ?m + 1 = gm_count active_grant (st_refresh s)"
    using gm_count_set_old [OF assms(1), of active_grant "cur\<lparr>rg_ConsumedAt := now\<rparr>"] assms(2,3)
    by (simp add: active_grant_def)
  moreover have "gm_get ?m e = None" using assms(1,4) by auto
  ultimately show ?thesis
    using gm_count_set_new [of ?m e active_grant g]
    by (simp add: activeRefreshGrantCount_def assms(5))
qed

lemma active_update [simp]:
  "activeRefreshGrantCount (s\<lparr>st_clients := m\<rparr>) = activeRefreshGrantCount s"
  "activeRefreshGrantCount (s\<lparr>st_authorizers := a\<rparr>) = activeRefreshGrantCount s"
  "activeRefreshGrantCount (s\<lparr>st_consents := b\<rparr>) = activeRefreshGrantCount s"
  "activeRefreshGrantCount (s\<lparr>st_codes := k\<rparr>) = activeRefreshGrantCount s"
  by (simp_all add: activeRefreshGrantCount_def)

lemma capacity_ok_step:
  assumes step: "store_step p c s = (r, s')" and "clock_set c" and ok: "capacity_ok p s"
  shows "capacity_ok p s'"
proof (cases r)
  case (Some err)
  with step have "store_step p c s = (Some err, s')" by simp
  then show ?thesis
  proof (rule step_failure)
    fix m assume "s' = s\<lparr>st_clients := m\<rparr>" "length m \<le> length (st_clients s)"
    with ok show ?thesis by (simp add: capacity_ok_def)
  qed (use ok \<open>clock_set c\<close> in \<open>simp_all add: capacity_ok_pruned capacity_ok_revoke\<close>)
next
  case None
  have pr: "capacity_ok p (pruned t s)" for t using ok by (rule capacity_ok_pruned)
  from None step have "store_step p c s = (None, s')" by simp
  then show ?thesis
  proof (rule step_success)
    fix m assume "s' = s\<lparr>st_clients := m\<rparr>"
      "length m \<le> length (st_clients s) \<or> int (length m) \<le> rp_MaxClients (sp_Registration p)"
    with ok show ?thesis by (auto simp: capacity_ok_def)
  next
    fix t1 a assume c: "c = CreateAuthorization t1 a"
    with step None have "Mem_CreateAuthorization t1 a p s = (None, s')" by simp
    from CreateAuthorization_None [OF this] pr [of t1] show ?thesis
      by (simp add: capacity_ok_def)
  next
    fix t1 t2 cl assume "Mem_CommitLogin t1 t2 cl p s = (None, s')"
    then show ?thesis
      by (rule CommitLogin_None) (use pr [of t1] in \<open>simp add: capacity_ok_def\<close>)
  next
    fix t1 t2 cc res assume "Mem_CommitConsent t1 t2 cc p s = (Inr res, s')"
    then show ?thesis
      by (rule CommitConsent_Inr) (use pr [of t1] in \<open>auto simp: capacity_ok_def\<close>)
  next
    fix t1 t2 cx assume "Mem_CommitCodeExchange t1 t2 cx p s = (None, s')"
    then show ?thesis
    proof (rule CommitCodeExchange_None)
      fix code g
      assume *: "gm_get (st_codes (pruned t1 s)) (cec_CodeDigest cx) = Some code"
        "activeRefreshGrantCount (pruned t1 s) < cap_MaxRefreshGrants (sp_Capacity p)"
        "gm_get (st_refresh (pruned t1 s)) (rg_Digest g) = None"
        "s' = (pruned t1 s)\<lparr>st_codes := gm_set (cec_CodeDigest cx) (code\<lparr>ac_ConsumedAt := t2\<rparr>)
            (st_codes (pruned t1 s)),
          st_refresh := gm_set (rg_Digest g) g (st_refresh (pruned t1 s))\<rparr>"
      have "activeRefreshGrantCount s' \<le> activeRefreshGrantCount (pruned t1 s) + 1"
        by (rule active_count_set_new [OF *(3), of _ g]) (simp add: *(4))
      with * pr [of t1] show ?thesis by (simp add: capacity_ok_def)
    qed
  next
    fix t1 t2 rr
    assume c: "c = CommitRefreshRotation t1 t2 rr" and
      "Mem_CommitRefreshRotation t1 t2 rr p s = (None, s')"
    from this(2) show ?thesis
    proof (rule CommitRefreshRotation_None)
      fix cur
      assume *: "gm_get (st_refresh (pruned t1 s)) (rr_CurrentDigest rr) = Some cur"
        "ValidateRefreshRotation cur rr t2 = None"
        "gm_get (st_refresh (pruned t1 s)) (rg_Digest (rr_Successor rr)) = None"
        "s' = (pruned t1 s)\<lparr>st_refresh := gm_set (rg_Digest (rr_Successor rr)) (rr_Successor rr)
          (gm_set (rr_CurrentDigest rr) (cur\<lparr>rg_ConsumedAt := t2\<rparr>) (st_refresh (pruned t1 s)))\<rparr>"
      have "activeRefreshGrantCount s' \<le> activeRefreshGrantCount (pruned t1 s)"
        by (rule active_count_rotation [OF *(1) _ _ *(3)])
          (use * \<open>clock_set c\<close> in \<open>simp_all add: c active_grant_def ValidateRefreshRotation_None\<close>)
      with * pr [of t1] show ?thesis by (simp add: capacity_ok_def)
    qed
  qed (use ok pr \<open>clock_set c\<close> in \<open>simp_all add: capacity_ok_revoke\<close>)
qed

lemma capacity_ok_run:
  "list_all clock_set cs \<Longrightarrow> capacity_ok p s \<Longrightarrow> capacity_ok p (snd (run (store_step p) cs s))"
proof (induction cs arbitrary: s)
  case (Cons c cs)
  obtain r s1 where 1: "store_step p c s = (r, s1)" by fastforce
  then have "capacity_ok p s1" using Cons.prems by (auto intro: capacity_ok_step)
  with Cons 1 show ?case by (simp split: prod.splits) (metis snd_conv)
qed simp

section \<open>What registration may drop\<close>

lemma RegisterClient_keeps:
  assumes "Mem_RegisterClient now client p s = (r, s')" and "maps_wf s"
    and "gm_get (st_clients s) cid = Some c" and "\<not> stale_client s p now cid c"
    and "r = None \<longrightarrow> cl_ID client \<noteq> cid"
  shows "gm_get (st_clients s') cid = Some c"
proof -
  have kept: "gm_get (gm_delete_if (stale_client s p now) (st_clients s)) cid = Some c"
    using assms(2-4) by (simp add: gm_get_delete_if)
  show ?thesis
  proof (cases r)
    case None
    with RegisterClient_None(3) [of now client p s s'] assms kept show ?thesis by simp
  next
    case (Some err)
    with RegisterClient_Some [of now client p s err s'] assms kept show ?thesis by simp
  qed
qed

end
