(* ===== verification/Store_Properties.thy ===== *)
theory Store_Properties
  imports Families Capacity
begin

text \<open>
  The properties of the store, with a sample session that every witness evaluates: one client,
  one principal, a code and a refresh family.  Digests of the sample are blocks of one letter,
  so no witness computes a hash.
\<close>

section \<open>A sample session\<close>

definition sample_digest :: "char \<Rightarrow> CredentialDigest" where
  "sample_digest c = replicate 32 c"

definition sample_policy :: StatePolicy where
  "sample_policy =
     \<lparr>sp_Registration =
        \<lparr>rp_MaxClients = 2, rp_MaxRedirectURIs = 4, rp_MaxDisplayName = 64, rp_MaxScopeCount = 8,
         rp_MaxRedirectBytes = 128, rp_UnverifiedClientTTL = 1000\<rparr>,
      sp_Capacity =
        \<lparr>cap_MaxAuthorizations = 2, cap_MaxConsents = 2, cap_MaxCodes = 2,
         cap_MaxRefreshGrants = 2, cap_MaxRefreshGenerations = 5\<rparr>\<rparr>"

definition sample_principal :: "unit Principal" where
  "sample_principal =
     \<lparr>p_Subject = ''alice'', p_DisplayName = ''Alice'', p_Email = ''a@example.test'',
      p_AuthorizationVersion = 1, p_Attributes = ()\<rparr>"

definition sample_scopes :: ScopeSet where
  "sample_scopes = ScopeSet [''read'', ''write'']"

definition sample_challenge :: PKCEChallenge where
  "sample_challenge = \<lparr>pk_Value = ''challenge'', pk_Method = ''S256''\<rparr>"

definition sample_redirect :: string where
  "sample_redirect = ''https://app.test/cb''"

definition sample_client :: Client where
  "sample_client =
     \<lparr>cl_ID = ''app'', cl_DisplayName = ''App'', cl_Trust = ClientTrustUnverified,
      cl_RedirectURIs = [sample_redirect], cl_AllowedScopes = sample_scopes, cl_CreatedAt = 10,
      cl_LastUsedAt = 10\<rparr>"

definition sample_authorization :: AuthorizationTransaction where
  "sample_authorization =
     \<lparr>at_Token = ''transaction-token-1'', at_ClientID = ''app'', at_RedirectURI = sample_redirect,
      at_State = ''xyz'', at_PKCEChallenge = sample_challenge, at_RequestedScopes = sample_scopes,
      at_Resource = ''https://api.test'', at_ExpiresAt = 500, at_ConsumedAt = 0\<rparr>"

definition sample_consent :: "unit ConsentSession" where
  "sample_consent =
     \<lparr>cs_Token = ''consent-token-0001'',
      cs_Client = \<lparr>snap_ID = ''app'', snap_DisplayName = ''App'',
        snap_Trust = ClientTrustUnverified, snap_RedirectURI = sample_redirect,
        snap_RedirectOrigin = ''https://app.test''\<rparr>,
      cs_State = ''xyz'', cs_PKCEChallenge = sample_challenge, cs_Principal = sample_principal,
      cs_AllowedScopes = sample_scopes, cs_Resource = ''https://api.test'',
      cs_AuthorizationEnds = 2000, cs_ExpiresAt = 600, cs_ConsumedAt = 0\<rparr>"

definition sample_code :: "unit AuthorizationCodeRecord" where
  "sample_code =
     \<lparr>ac_Digest = sample_digest (CHR ''c''), ac_ClientID = ''app'', ac_RedirectURI = sample_redirect,
      ac_PKCEChallenge = sample_challenge, ac_Principal = sample_principal,
      ac_Scopes = sample_scopes, ac_Resource = ''https://api.test'', ac_State = ''xyz'',
      ac_AuthorizationEnds = 2000, ac_ExpiresAt = 700, ac_ConsumedAt = 0\<rparr>"

definition sample_grant :: "char \<Rightarrow> 64 word \<Rightarrow> ScopeSet \<Rightarrow> unit RefreshGrant" where
  "sample_grant c n scopes =
     \<lparr>rg_Digest = sample_digest c, rg_FamilyID = ''family-000000001'', rg_Generation = n,
      rg_ClientID = ''app'', rg_Principal = sample_principal, rg_Scopes = scopes,
      rg_Resource = ''https://api.test'', rg_ExpiresAt = 2000, rg_ConsumedAt = 0,
      rg_RevokedAt = 0\<rparr>"

definition sample_login :: "unit store_call" where
  "sample_login = CommitLogin 30 30
     \<lparr>lco_TransactionDigest = DigestCredential ''transaction-token-1'', lco_Consent = sample_consent\<rparr>"

definition sample_approval :: "unit store_call" where
  "sample_approval = CommitConsent 40 40
     \<lparr>cco_ConsentDigest = DigestCredential ''consent-token-0001'', cco_Code = sample_code,
      cco_Decision = ConsentDecisionApprove\<rparr>"

definition sample_exchange :: "char \<Rightarrow> unit store_call" where
  "sample_exchange c = CommitCodeExchange 50 50
     \<lparr>cec_CodeDigest = sample_digest (CHR ''c''),
      cec_Refresh = Some (sample_grant c 0 sample_scopes)\<rparr>"

definition sample_rotation :: "char \<Rightarrow> char \<Rightarrow> 64 word \<Rightarrow> unit RefreshRotation" where
  "sample_rotation c d n =
     \<lparr>rr_CurrentDigest = sample_digest c, rr_FamilyID = ''family-000000001'', rr_Generation = n,
      rr_Successor = sample_grant d (n + 1) (ScopeSet [''read''])\<rparr>"

text \<open>A store that holds the code, and one that holds a family whose first grant was rotated.\<close>

definition sample_code_store :: "unit Store" where
  "sample_code_store = NewStore\<lparr>st_codes := [(sample_digest (CHR ''c''), sample_code)]\<rparr>"

definition sample_family_store :: "unit Store" where
  "sample_family_store = NewStore\<lparr>st_refresh :=
     [(sample_digest (CHR ''f''), (sample_grant (CHR ''f'') 0 sample_scopes)\<lparr>rg_ConsumedAt := 60\<rparr>),
      (sample_digest (CHR ''g''), sample_grant (CHR ''g'') 1 (ScopeSet [''read'']))]\<rparr>"

lemmas sample_defs = sample_digest_def sample_policy_def sample_principal_def sample_scopes_def
  sample_challenge_def sample_redirect_def sample_client_def sample_authorization_def
  sample_consent_def sample_code_def sample_grant_def sample_login_def sample_approval_def
  sample_exchange_def sample_rotation_def sample_code_store_def sample_family_store_def

lemma sample_stores_wf: "maps_wf sample_code_store" "maps_wf sample_family_store"
  by (simp_all add: maps_wf_def sample_defs NewStore_def gm_all_def zero_digest_def)

section \<open>Single use\<close>

text \<open>Single use of authorization codes.  Whatever calls reach the store, in whatever order,
  a code with digest \<open>d\<close> is exchanged for tokens at most as often as an approval issued it, plus
  once if the store held it live at the start: two racing exchanges of one code never both
  succeed.\<close>

lemma code_single_use:
  assumes "maps_wf s" and "list_all clock_set calls"
  shows "count_events (exchanges_code d) (fst (run (store_step p) calls s)) \<le>
    count_events (issues_code d) (fst (run (store_step p) calls s)) +
    (if code_live s d then 1 else 0)"
proof -
  obtain log s' where "run (store_step p) calls s = (log, s')" by fastforce
  with code_use.potential_run [OF assms this, of d] show ?thesis by simp
qed

text \<open>Refresh rotation is single use.  Along every sequence of calls a refresh grant is rotated
  successfully at most as often as it was created, plus once if it was live at the start.\<close>

lemma rotation_single_use:
  assumes "maps_wf s" and "list_all clock_set calls"
  shows "count_events (rotates_grant d) (fst (run (store_step p) calls s)) \<le>
    count_events (issues_grant d) (fst (run (store_step p) calls s)) +
    (if grant_live s d then 1 else 0)"
proof -
  obtain log s' where "run (store_step p) calls s = (log, s')" by fastforce
  with grant_use.potential_run [OF assms this, of d] show ?thesis by simp
qed

text \<open>One login per authorization transaction and one decision per consent token.  From a
  store that does not hold the digest live, logins complete at most as often as transactions
  were begun under it, and consents are decided at most as often as a login opened them.\<close>

lemma login_and_consent_single_use:
  assumes "maps_wf s" and "list_all clock_set calls"
    and "\<not> authorizer_live s d" and "\<not> consent_live s e"
  shows "count_events (completes_login d) (fst (run (store_step p) calls s)) \<le>
      count_events (begins_authorization d) (fst (run (store_step p) calls s)) \<and>
    count_events (decides_consent e) (fst (run (store_step p) calls s)) \<le>
      count_events (opens_consent e) (fst (run (store_step p) calls s))"
proof -
  obtain log s' where r: "run (store_step p) calls s = (log, s')" by fastforce
  from transaction_use.spent_at_most_issued [OF assms(1,2) r assms(3)]
    consent_use.spent_at_most_issued [OF assms(1,2) r assms(4)]
  show ?thesis by (simp add: r)
qed

section \<open>Refresh families\<close>

text \<open>C24. Replay detection.  A rotation that presents a grant already consumed or revoked, in a
  family that has not expired, returns \<open>ErrRevoked\<close>, revokes every grant of that family, and
  leaves the grants of every other live family as they were.\<close>

theorem replay_revokes_family:
  assumes "maps_wf s" and "0 < t1" and "0 < t2"
    and "gm_get (st_refresh s) (rr_CurrentDigest r) = Some g" and "t1 < rg_ExpiresAt g"
    and "rr_FamilyID r = rg_FamilyID g" and "rr_Generation r = rg_Generation g"
    and "\<not> active_grant g"
  shows "\<exists>s'. Mem_CommitRefreshRotation t1 t2 r p s = (Some ErrRevoked, s') \<and>
    family_revoked s' (rg_FamilyID g) \<and>
    (\<forall>d h. rg_FamilyID h \<noteq> rg_FamilyID g \<longrightarrow> gm_get (st_refresh s') d = Some h \<longleftrightarrow>
       gm_get (st_refresh s) d = Some h \<and> family_live t1 s (rg_FamilyID h))"
proof -
  let ?s1 = "pruned t1 s"
  let ?s' = "revokeFamily (rg_FamilyID g) t2 ?s1"
  have "gm_get (st_refresh ?s1) (rr_CurrentDigest r) = Some g"
    using assms(1,2,4) family_liveI [OF assms(4,5)] by (simp add: pruned_get_refresh)
  then have "Mem_CommitRefreshRotation t1 t2 r p s = (Some ErrRevoked, ?s')"
    using assms(6-8) by (simp add: Mem_CommitRefreshRotation_def Let_def active_grant_def)
  moreover have "family_revoked ?s' (rg_FamilyID g)"
    using assms(3) by (rule family_revoked_revokeFamily)
  moreover have "gm_get (st_refresh ?s') d = Some h \<longleftrightarrow>
      gm_get (st_refresh s) d = Some h \<and> family_live t1 s (rg_FamilyID h)"
    if "rg_FamilyID h \<noteq> rg_FamilyID g" for d h
  proof -
    have "revoke_grant (rg_FamilyID g) t2 x = h \<longleftrightarrow> x = h" for x
      using that by (auto simp: revoke_grant_def)
    then have "gm_get (st_refresh ?s') d = Some h \<longleftrightarrow> gm_get (st_refresh ?s1) d = Some h"
      by (cases "gm_get (st_refresh ?s1) d") auto
    then show ?thesis using assms(1,2) by (simp add: pruned_get_refresh)
  qed
  ultimately show ?thesis by blast
qed

theorem replay_revokes_family_witness:
  "\<exists>s'. Mem_CommitRefreshRotation 80 80 (sample_rotation (CHR ''f'') (CHR ''i'') 0) sample_policy
     sample_family_store = (Some ErrRevoked, s') \<and> family_revoked s' ''family-000000001''"
proof -
  let ?g = "(sample_grant (CHR ''f'') 0 sample_scopes)\<lparr>rg_ConsumedAt := 60\<rparr>"
  let ?r = "sample_rotation (CHR ''f'') (CHR ''i'') 0"
  have "gm_get (st_refresh sample_family_store) (rr_CurrentDigest ?r) = Some ?g"
    "80 < rg_ExpiresAt ?g" "rr_FamilyID ?r = rg_FamilyID ?g"
    "rr_Generation ?r = rg_Generation ?g" "\<not> active_grant ?g"
    by (simp_all add: sample_family_store_def sample_rotation_def sample_grant_def active_grant_def)
  from replay_revokes_family [OF sample_stores_wf(2) _ _ this, of 80 sample_policy]
  show ?thesis by (auto simp: sample_grant_def)
qed

text \<open>C25. A revoked family stays revoked.  From a store in which every grant of family \<open>f\<close> is
  revoked, no sequence of calls that does not open \<open>f\<close> anew rotates a grant of \<open>f\<close>, and every
  grant of \<open>f\<close> is still revoked at the end.\<close>

theorem revoked_family_stays_revoked:
  assumes "maps_wf s" and "list_all clock_set calls"
    and "list_all (\<lambda>c. \<not> opens_family f c) calls" and "family_revoked s f"
  shows "count_events (rotates_family f) (fst (run (store_step p) calls s)) = 0 \<and>
    family_revoked (snd (run (store_step p) calls s)) f"
proof -
  obtain log s' where "run (store_step p) calls s = (log, s')" by fastforce
  with family_revoked_run [OF assms this] show ?thesis by simp
qed

theorem revoked_family_stays_revoked_witness:
  "family_revoked (snd (run (store_step sample_policy)
     [CommitRefreshRotation 90 90 (sample_rotation (CHR ''g'') (CHR ''h'') 1), Prune 100]
     (revokeFamily ''family-000000001'' 85 sample_family_store))) ''family-000000001''"
proof -
  let ?cs = "[CommitRefreshRotation 90 90 (sample_rotation (CHR ''g'') (CHR ''h'') 1), Prune 100]"
  let ?s = "revokeFamily ''family-000000001'' 85 sample_family_store"
  have "maps_wf ?s" "family_revoked ?s ''family-000000001''"
    by (simp_all add: sample_stores_wf family_revoked_revokeFamily)
  from revoked_family_stays_revoked [OF this(1) _ _ this(2), of ?cs sample_policy] show ?thesis
    by simp
qed

text \<open>C26. Along a family authority only narrows.  In every store that calls reach, two grants of
  one family agree on client, resource, subject and expiry and on whether they are revoked; the
  one of the later generation has a subset of the scopes of the earlier one, which is consumed;
  so at most one grant of a family is active.\<close>

theorem family_authority_narrows:
  assumes "reachable p s" and "0 < cap_MaxRefreshGenerations (sp_Capacity p)"
    and "gm_get (st_refresh s) d = Some g" and "gm_get (st_refresh s) e = Some h"
    and "rg_FamilyID g = rg_FamilyID h"
  shows "rg_ClientID g = rg_ClientID h \<and> rg_Resource g = rg_Resource h \<and>
    p_Subject (rg_Principal g) = p_Subject (rg_Principal h) \<and> rg_ExpiresAt g = rg_ExpiresAt h \<and>
    (rg_RevokedAt g = 0 \<longleftrightarrow> rg_RevokedAt h = 0) \<and>
    (rg_Generation g < rg_Generation h \<longrightarrow>
       rg_ConsumedAt g \<noteq> 0 \<and> scope_set (rg_Scopes h) \<subseteq> scope_set (rg_Scopes g)) \<and>
    (active_grant g \<and> active_grant h \<longrightarrow> d = e)"
proof -
  have "families_ok s" using reachable_families [OF assms(1,2)] by simp
  from families_okD [OF this assms(3-5)] families_okD [OF this assms(4,3) assms(5) [symmetric]]
  have "kin d g e h" "kin e h d g" by simp_all
  then show ?thesis by (auto simp: kin_def active_grant_def neq_iff)
qed

text \<open>The sample session, call by call, from the empty store.\<close>

definition sample_consented :: "unit Store" where
  "sample_consented = NewStore\<lparr>
     st_authorizers := [(DigestCredential ''transaction-token-1'',
       sample_authorization\<lparr>at_ConsumedAt := 30\<rparr>)],
     st_consents := [(DigestCredential ''consent-token-0001'', sample_consent)]\<rparr>"

definition sample_approved :: "unit Store" where
  "sample_approved = sample_consented\<lparr>
     st_consents := [(DigestCredential ''consent-token-0001'', sample_consent\<lparr>cs_ConsumedAt := 40\<rparr>)],
     st_codes := [(sample_digest (CHR ''c''), sample_code)]\<rparr>"

definition sample_exchanged :: "unit Store" where
  "sample_exchanged = sample_approved\<lparr>
     st_codes := [(sample_digest (CHR ''c''), sample_code\<lparr>ac_ConsumedAt := 50\<rparr>)],
     st_refresh := [(sample_digest (CHR ''f''), sample_grant (CHR ''f'') 0 sample_scopes)]\<rparr>"

definition sample_rotated :: "unit Store" where
  "sample_rotated = sample_exchanged\<lparr>st_refresh :=
     [(sample_digest (CHR ''f''), (sample_grant (CHR ''f'') 0 sample_scopes)\<lparr>rg_ConsumedAt := 60\<rparr>),
      (sample_digest (CHR ''g''), sample_grant (CHR ''g'') 1 (ScopeSet [''read'']))]\<rparr>"

lemmas sample_store_defs = sample_consented_def sample_approved_def sample_exchanged_def
  sample_rotated_def NewStore_def

lemma sample_prune:
  "0 < t \<Longrightarrow> t < 100 \<Longrightarrow> pruned t sample_consented = sample_consented"
  "0 < t \<Longrightarrow> t < 100 \<Longrightarrow> pruned t sample_approved = sample_approved"
  "0 < t \<Longrightarrow> t < 100 \<Longrightarrow> pruned t sample_exchanged = sample_exchanged"
  by (simp_all add: pruneExpired_def Let_def gm_delete_if_def sample_store_defs
      sample_authorization_def sample_consent_def sample_code_def sample_grant_def expiry_of_def)

lemma sample_digests: "sample_digest c = sample_digest d \<longleftrightarrow> c = d"
  by (simp add: sample_digest_def)

lemma sample_digest_zero: "sample_digest c = zero_digest \<longleftrightarrow> c = CHR 0x00"
  by (simp add: sample_digest_def zero_digest_def)

lemma sample_subsets: "IsSubsetOf sample_scopes sample_scopes"
  "IsSubsetOf (ScopeSet [''read'']) sample_scopes"
  by code_simp+

lemma sample_valid:
  "ValidateLoginCommit sample_authorization sample_consent 30 = None"
  "ValidateConsentCommit sample_consent \<lparr>cco_ConsentDigest = d, cco_Code = sample_code,
     cco_Decision = ConsentDecisionApprove\<rparr> 40 = None"
  "ValidateCodeExchangeCommit sample_code \<lparr>cec_CodeDigest = d,
     cec_Refresh = Some (sample_grant (CHR ''f'') 0 sample_scopes)\<rparr> 50 = None"
  "ValidateRefreshRotation (sample_grant (CHR ''f'') 0 sample_scopes)
     (sample_rotation (CHR ''f'') (CHR ''g'') 0) 60 = None"
  by (simp_all add: ValidateLoginCommit_None ValidateConsentCommit_None
      ValidateCodeExchangeCommit_None ValidateRefreshRotation_None sample_authorization_def
      sample_consent_def sample_code_def sample_grant_def sample_rotation_def sample_principal_def
      sample_subsets sample_digest_zero)

lemma sample_capacity: "sp_Capacity sample_policy = \<lparr>cap_MaxAuthorizations = 2,
    cap_MaxConsents = 2, cap_MaxCodes = 2, cap_MaxRefreshGrants = 2,
    cap_MaxRefreshGenerations = 5\<rparr>"
  by (simp add: sample_policy_def)

definition sample_begun :: "unit Store" where
  "sample_begun = NewStore\<lparr>st_authorizers :=
     [(DigestCredential ''transaction-token-1'', sample_authorization)]\<rparr>"

lemma sample_begin_step:
  "store_step sample_policy (CreateAuthorization 20 sample_authorization) NewStore =
   (None, sample_begun)"
proof -
  have "pruned 20 NewStore = (NewStore :: unit Store)"
    by (simp add: pruneExpired_def gm_delete_if_def NewStore_def Let_def)
  then show ?thesis
    by (simp add: Mem_CreateAuthorization_def sample_capacity NewStore_def Let_def gm_set_def
        sample_authorization_def sample_begun_def)
qed

lemma sample_login_step:
  "store_step sample_policy sample_login sample_begun = (None, sample_consented)"
proof -
  have p: "pruned 30 sample_begun = sample_begun"
    by (simp add: pruneExpired_def gm_delete_if_def NewStore_def Let_def sample_authorization_def
        sample_begun_def)
  have get: "st_authorizers sample_begun =
      [(DigestCredential ''transaction-token-1'', sample_authorization)]"
    "st_consents sample_begun = []"
    "cs_Token sample_consent = ''consent-token-0001''"
    by (simp_all add: sample_begun_def NewStore_def sample_consent_def)
  have "store_step sample_policy sample_login sample_begun = (None, sample_begun\<lparr>
      st_authorizers := [(DigestCredential ''transaction-token-1'',
        sample_authorization\<lparr>at_ConsumedAt := 30\<rparr>)],
      st_consents := [(DigestCredential ''consent-token-0001'', sample_consent)]\<rparr>)"
    by (simp add: sample_login_def Mem_CommitLogin_def p get sample_valid sample_capacity Let_def
        gm_set_def)
  then show ?thesis by (simp add: sample_consented_def sample_begun_def)
qed

lemma sample_approval_step:
  "store_step sample_policy sample_approval sample_consented = (None, sample_approved)"
proof -
  have get: "st_consents sample_consented =
      [(DigestCredential ''consent-token-0001'', sample_consent)]"
    "st_codes sample_consented = []" "ac_Digest sample_code = sample_digest (CHR ''c'')"
    by (simp_all add: sample_consented_def NewStore_def sample_code_def)
  have "store_step sample_policy sample_approval sample_consented = (None, sample_consented\<lparr>
      st_codes := [(sample_digest (CHR ''c''), sample_code)],
      st_consents := [(DigestCredential ''consent-token-0001'', sample_consent\<lparr>cs_ConsumedAt := 40\<rparr>)]\<rparr>)"
    by (simp add: sample_approval_def Mem_CommitConsent_def sample_prune sample_valid get
        sample_capacity Let_def result_error_def gm_set_def)
  then show ?thesis by (simp add: sample_approved_def sample_consented_def)
qed

lemma sample_exchange_step:
  "store_step sample_policy (sample_exchange (CHR ''f'')) sample_approved = (None, sample_exchanged)"
proof -
  have get: "st_codes sample_approved = [(sample_digest (CHR ''c''), sample_code)]"
    "st_refresh sample_approved = []"
    "rg_Digest (sample_grant (CHR ''f'') 0 sample_scopes) = sample_digest (CHR ''f'')"
    by (simp_all add: sample_approved_def sample_consented_def NewStore_def sample_grant_def)
  have "store_step sample_policy (sample_exchange (CHR ''f'')) sample_approved = (None,
      sample_approved\<lparr>st_codes := [(sample_digest (CHR ''c''), sample_code\<lparr>ac_ConsumedAt := 50\<rparr>)],
        st_refresh := [(sample_digest (CHR ''f''), sample_grant (CHR ''f'') 0 sample_scopes)]\<rparr>)"
    by (simp add: sample_exchange_def Mem_CommitCodeExchange_def sample_prune sample_valid get
        sample_capacity Let_def gm_set_def activeRefreshGrantCount_def gm_count_def)
  then show ?thesis by (simp add: sample_exchanged_def)
qed

lemma sample_rotation_step:
  "store_step sample_policy
     (CommitRefreshRotation 60 60 (sample_rotation (CHR ''f'') (CHR ''g'') 0)) sample_exchanged =
   (None, sample_rotated)"
proof -
  let ?g = "sample_grant (CHR ''f'') 0 sample_scopes"
  have g: "rg_FamilyID ?g = ''family-000000001''" "rg_Generation ?g = 0" "rg_ConsumedAt ?g = 0"
    "rg_RevokedAt ?g = 0" by (simp_all add: sample_grant_def)
  have r: "rr_CurrentDigest (sample_rotation c d n) = sample_digest c"
    "rr_FamilyID (sample_rotation c d n) = ''family-000000001''"
    "rr_Generation (sample_rotation c d n) = n"
    "rr_Successor (sample_rotation c d n) = sample_grant d (n + 1) (ScopeSet [''read''])"
    "rg_Generation (sample_grant d n u) = n" "rg_Digest (sample_grant d n u) = sample_digest d"
    for c d n u by (simp_all add: sample_rotation_def sample_grant_def)
  have get: "gm_get (st_refresh sample_exchanged) (sample_digest (CHR ''f'')) = Some ?g"
    "gm_get (st_refresh sample_exchanged) (sample_digest (CHR ''g'')) = None"
    "gm_set (sample_digest (CHR ''g'')) y (gm_set (sample_digest (CHR ''f'')) x
       (st_refresh sample_exchanged)) =
     [(sample_digest (CHR ''f''), x), (sample_digest (CHR ''g''), y)]" for x y
    by (simp_all add: sample_exchanged_def gm_set_def sample_digests)
  show ?thesis
    by (simp add: Mem_CommitRefreshRotation_def sample_prune sample_valid sample_capacity Let_def
        get g r sample_rotated_def word_le_nat_alt)
qed

lemma sample_reachable: "reachable sample_policy sample_rotated"
proof -
  from reachable_step [OF reachable_init _ _ sample_begin_step]
  have "reachable sample_policy sample_begun" by simp
  from reachable_step [OF this _ _ sample_login_step]
  have "reachable sample_policy sample_consented" by (simp add: sample_login_def)
  from reachable_step [OF this _ _ sample_approval_step]
  have "reachable sample_policy sample_approved" by (simp add: sample_approval_def)
  from reachable_step [OF this _ _ sample_exchange_step]
  have "reachable sample_policy sample_exchanged"
    by (simp add: sample_exchange_def sample_store_defs)
  from reachable_step [OF this _ _ sample_rotation_step] show ?thesis by simp
qed

theorem family_authority_narrows_witness:
  "rg_ConsumedAt ((sample_grant (CHR ''f'') 0 sample_scopes)\<lparr>rg_ConsumedAt := 60\<rparr>) \<noteq> 0 \<and>
   scope_set (ScopeSet [''read'']) \<subseteq> scope_set sample_scopes"
proof -
  let ?g = "(sample_grant (CHR ''f'') 0 sample_scopes)\<lparr>rg_ConsumedAt := 60\<rparr>"
  let ?h = "sample_grant (CHR ''g'') 1 (ScopeSet [''read''])"
  have "gm_get (st_refresh sample_rotated) (sample_digest (CHR ''f'')) = Some ?g"
    "gm_get (st_refresh sample_rotated) (sample_digest (CHR ''g'')) = Some ?h"
    by (simp_all add: sample_rotated_def sample_digests)
  from family_authority_narrows [OF sample_reachable _ this] show ?thesis
    by (simp add: sample_capacity sample_grant_def)
qed

section \<open>Transitions\<close>

text \<open>Every transition preserves bindings and narrows authority.  A login commit that is accepted
  opens a consent for the client, redirect URI, state, PKCE challenge and resource of its
  transaction with a subset of its scopes; an accepted approval issues a code with exactly the
  consent's bindings, principal and end of authorization and a subset of its scopes; an accepted
  exchange opens a family at generation 0 with exactly the code's scopes, client, resource,
  principal and end; each of them only before the expiry of an unconsumed record.\<close>

lemma transitions_narrow:
  assumes "ValidateLoginCommit auth consent t = None"
    and "ValidateConsentCommit consent' commit t' = None"
    and "cco_Decision commit = ConsentDecisionApprove"
    and "ValidateCodeExchangeCommit code exchange t'' = None"
    and "scopes_wf (ac_Scopes code)"
  shows "at_ConsumedAt auth = 0 \<and> t < at_ExpiresAt auth \<and>
    snap_ID (cs_Client consent) = at_ClientID auth \<and>
    snap_RedirectURI (cs_Client consent) = at_RedirectURI auth \<and>
    cs_PKCEChallenge consent = at_PKCEChallenge auth \<and> cs_Resource consent = at_Resource auth \<and>
    scope_set (cs_AllowedScopes consent) \<subseteq> scope_set (at_RequestedScopes auth) \<and>
    cs_ConsumedAt consent' = 0 \<and> t' < cs_ExpiresAt consent' \<and>
    ac_ClientID (cco_Code commit) = snap_ID (cs_Client consent') \<and>
    ac_RedirectURI (cco_Code commit) = snap_RedirectURI (cs_Client consent') \<and>
    ac_PKCEChallenge (cco_Code commit) = cs_PKCEChallenge consent' \<and>
    ac_Principal (cco_Code commit) = cs_Principal consent' \<and>
    scope_set (ac_Scopes (cco_Code commit)) \<subseteq> scope_set (cs_AllowedScopes consent') \<and>
    ac_ConsumedAt code = 0 \<and> t'' < ac_ExpiresAt code \<and>
    (\<exists>g. cec_Refresh exchange = Some g \<and> rg_Generation g = 0 \<and> rg_ClientID g = ac_ClientID code \<and>
       rg_Principal g = ac_Principal code \<and> rg_Resource g = ac_Resource code \<and>
       rg_ExpiresAt g = ac_AuthorizationEnds code \<and>
       (scopes_wf (rg_Scopes g) \<longrightarrow> rg_Scopes g = ac_Scopes code))"
proof -
  obtain g where g: "cec_Refresh exchange = Some g"
    "ScopeSet_String (rg_Scopes g) = ScopeSet_String (ac_Scopes code)"
    and rest: "ac_ConsumedAt code = 0" "t'' < ac_ExpiresAt code" "rg_Generation g = 0"
      "rg_ClientID g = ac_ClientID code" "rg_Principal g = ac_Principal code"
      "rg_Resource g = ac_Resource code" "rg_ExpiresAt g = ac_AuthorizationEnds code"
    using assms(4) by (auto simp: ValidateCodeExchangeCommit_None)
  then have "scopes_wf (rg_Scopes g) \<longrightarrow> rg_Scopes g = ac_Scopes code"
    using ScopeSet_String_inj assms(5) by blast
  with g rest assms(1-3) show ?thesis
    by (auto simp: ValidateLoginCommit_None ValidateConsentCommit_None decision_defs
        dest: IsSubsetOf_subset)
qed

section \<open>Capacity and pruning\<close>

text \<open>C27. Capacity.  From the empty store no sequence of calls exceeds the configured numbers of
  clients, authorizations, consents, codes and active refresh grants.\<close>

theorem capacity_bounds:
  assumes "list_all clock_set calls" and "capacity_ok p (NewStore :: 'a Store)"
  shows "capacity_ok p (snd (run (store_step p) calls (NewStore :: 'a Store)))"
  using assms by (rule capacity_ok_run)

theorem capacity_bounds_witness:
  "capacity_ok sample_policy (snd (run (store_step sample_policy)
     [CreateAuthorization 20 sample_authorization, sample_login] NewStore))"
  using capacity_bounds [of "[CreateAuthorization 20 sample_authorization, sample_login]"
      sample_policy]
  by (simp add: sample_login_def capacity_ok_def sample_policy_def NewStore_def
      activeRefreshGrantCount_def gm_count_def del: run.simps)

text \<open>Pruning is exact.  \<open>Prune\<close> at time \<open>t\<close> keeps precisely the authorizations, consents and
  codes that expire after \<open>t\<close>, and a refresh grant precisely when some grant of its family
  expires after \<open>t\<close>, so that replay of an old member is still detected; its statistics count
  what was removed.\<close>

lemma prune_exact:
  assumes "maps_wf s" and "0 \<le> t"
  shows "\<exists>stats s'. Mem_Prune t p s = (Inr stats, s') \<and> st_clients s' = st_clients s \<and>
    (\<forall>d a. gm_get (st_authorizers s') d = Some a \<longleftrightarrow>
       gm_get (st_authorizers s) d = Some a \<and> t < at_ExpiresAt a) \<and>
    (\<forall>d c. gm_get (st_consents s') d = Some c \<longleftrightarrow>
       gm_get (st_consents s) d = Some c \<and> t < cs_ExpiresAt c) \<and>
    (\<forall>d c. gm_get (st_codes s') d = Some c \<longleftrightarrow>
       gm_get (st_codes s) d = Some c \<and> t < ac_ExpiresAt c) \<and>
    (\<forall>d g. gm_get (st_refresh s') d = Some g \<longleftrightarrow>
       gm_get (st_refresh s) d = Some g \<and> family_live t s (rg_FamilyID g)) \<and>
    ps_Codes stats = int (length (st_codes s)) - int (length (st_codes s')) \<and>
    ps_RefreshGrants stats = int (length (st_refresh s)) - int (length (st_refresh s'))"
proof -
  obtain stats s' where p: "pruneExpired t s = (stats, s')" by fastforce
  then have s': "s' = pruned t s" and "Mem_Prune t p s = (Inr stats, s')"
    by (simp_all add: Mem_Prune_def)
  moreover have "ps_Codes stats = int (length (st_codes s)) - int (length (st_codes s'))"
    "ps_RefreshGrants stats = int (length (st_refresh s)) - int (length (st_refresh s'))"
    using p by (auto simp: pruneExpired_def Let_def)
  ultimately show ?thesis
    using pruned_get_authorizer [OF assms(1)] pruned_get_consent [OF assms(1)]
      pruned_get_code [OF assms(1)] pruned_get_refresh [OF assms] by auto
qed

text \<open>Registration drops only stale clients.  \<open>RegisterClient\<close> leaves every other client that is
  configured, was used within \<open>UnverifiedClientTTL\<close>, or still has a live authorization, consent,
  code or refresh grant exactly as it was, whether it succeeds or fails.\<close>

lemma registration_keeps_live_clients:
  assumes "Mem_RegisterClient now client policy s = (r, s')" and "maps_wf s"
    and "gm_get (st_clients s) cid = Some c" and "r = None \<longrightarrow> cl_ID client \<noteq> cid"
    and "cl_Trust c \<noteq> ClientTrustUnverified \<or>
      time_Add now (- rp_UnverifiedClientTTL (sp_Registration policy)) < cl_LastUsedAt c \<or>
      clientHasLiveState s cid now"
  shows "gm_get (st_clients s') cid = Some c"
  using RegisterClient_keeps [OF assms(1-3) _ assms(4)] assms(5) by (auto simp: stale_client_def)

end
