(* ===== verification/Correlation.thy ===== *)
theory Correlation
  imports Errors Go_Strings
begin

text \<open>
  \<open>pkg/correlation/correlation.go\<close>: request identifiers.  A context is the request identifier
  it carries, if any; the entropy source of \<open>NewID\<close> is a parameter, a method that fills a buffer
  of the given length or fails.
\<close>

type_synonym ctx = "string option"

definition MinIDLength :: nat where "MinIDLength = 8"
definition MaxIDLength :: nat where "MaxIDLength = 64"

definition WithID :: "ctx \<Rightarrow> string \<Rightarrow> ctx" where
  "WithID ctx rid = Some rid"

definition FromContext :: "ctx \<Rightarrow> string" where
  "FromContext ctx = (case ctx of None \<Rightarrow> [] | Some rid \<Rightarrow> rid)"

text \<open>The loop ranges over runes; a byte outside ASCII is part of no accepted rune.\<close>

definition in_range :: "char \<Rightarrow> char \<Rightarrow> char \<Rightarrow> bool" where
  "in_range r lo hi \<longleftrightarrow> r \<ge> lo \<and> r \<le> hi"

definition id_char :: "char \<Rightarrow> bool" where
  "id_char r \<longleftrightarrow>
     in_range r (CHR ''0'') (CHR ''9'') \<or> in_range r (CHR ''a'') (CHR ''z'') \<or>
     in_range r (CHR ''A'') (CHR ''Z'') \<or> r \<in> set ''-_.''"

definition ValidID :: "string \<Rightarrow> bool" where
  "ValidID rid \<longleftrightarrow>
     \<not> (length rid < MinIDLength \<or> MaxIDLength < length rid) \<and> list_all id_char rid"

text \<open>\<open>hex.EncodeToString\<close>.\<close>

definition hex_lower :: string where
  "hex_lower = ''0123456789abcdef''"

definition hex_encode :: "string \<Rightarrow> string" where
  "hex_encode bs = concat (map (\<lambda>c.
     (let n = (of_char c :: int) in [hex_lower ! nat (n div 16), hex_lower ! nat (n mod 16)])) bs)"

type_synonym 'w entropy = "nat \<Rightarrow> ('w, string result) state"

definition NewID :: "'w entropy \<Rightarrow> ('w, string result) state" where
  "NewID rand = do {
     r \<leftarrow> rand 16;
     (case r of
        Inl err \<Rightarrow> State_Monad.return (Inl err)
      | Inr buf \<Rightarrow> State_Monad.return (Inr (hex_encode buf)))
   }"

definition SanitizeInbound :: "'w entropy \<Rightarrow> string \<Rightarrow> ('w, string result) state" where
  "SanitizeInbound rand inbound =
     (if ValidID inbound then State_Monad.return (Inr inbound) else NewID rand)"

section \<open>Lemmas\<close>

lemma of_char_bounds: "0 \<le> (of_char c :: int) \<and> (of_char c :: int) < 256"
  by (metis char_of_char of_char_of pos_mod_bound pos_mod_sign zero_less_numeral)

lemma hex_lower_id: "0 \<le> n \<Longrightarrow> n < 16 \<Longrightarrow> id_char (hex_lower ! nat n)"
proof -
  assume "0 \<le> n" "n < 16"
  then have "hex_lower ! nat n \<in> set hex_lower"
    by (intro nth_mem) (simp add: hex_lower_def)
  moreover have "\<forall>c \<in> set hex_lower. id_char c"
    by (simp add: hex_lower_def id_char_def in_range_def less_eq_char_def)
  ultimately show ?thesis by blast
qed

lemma hex_encode_length: "length (hex_encode bs) = 2 * length bs"
  by (induction bs) (simp_all add: hex_encode_def Let_def)

lemma hex_encode_id: "list_all id_char (hex_encode bs)"
proof -
  have "id_char (hex_lower ! nat (of_char c div 16)) \<and> id_char (hex_lower ! nat (of_char c mod 16))"
    for c using of_char_bounds [of c] by (intro conjI hex_lower_id) auto
  then show ?thesis by (auto simp: hex_encode_def list_all_iff Let_def)
qed

lemma ValidID_hex: "length bs = 16 \<Longrightarrow> ValidID (hex_encode bs)"
  by (simp add: ValidID_def hex_encode_length MinIDLength_def MaxIDLength_def hex_encode_id)

lemma FromContext_WithID [simp]: "FromContext (WithID ctx rid) = rid"
  by (simp add: FromContext_def WithID_def)

end
