(* ===== verification/Ports.thy ===== *)
theory Ports
  imports Memory_Store Registry Correlation
begin

text \<open>
  \<open>pkg/oauthserver/ports.go\<close>: the interfaces of the engine's dependencies.  A Go interface is a
  record of its methods (a dictionary); a method is a state transformer over a world \<open>'w\<close> that
  holds whatever the dependencies keep (tables, counters, the clock, an audit log).  The context
  argument of the store methods only cancels, so a store may fail at any call; it is left out.
  A \<open>Dependencies\<close> field of Go's \<open>Dependencies\<close> struct may be nil: \<open>None\<close>.
\<close>

record ('w, 'a) StorePort =
  store_RegisterClient :: "Client \<Rightarrow> StatePolicy \<Rightarrow> ('w, go_error option) state"
  store_GetClient :: "ClientID \<Rightarrow> ('w, Client result) state"
  store_TouchClient :: "ClientID \<Rightarrow> time \<Rightarrow> ('w, go_error option) state"
  store_CreateAuthorization ::
    "AuthorizationTransaction \<Rightarrow> StatePolicy \<Rightarrow> ('w, go_error option) state"
  store_GetAuthorization :: "CredentialDigest \<Rightarrow> ('w, AuthorizationTransaction result) state"
  store_CommitLogin :: "'a LoginCommit \<Rightarrow> StatePolicy \<Rightarrow> ('w, go_error option) state"
  store_GetConsent :: "CredentialDigest \<Rightarrow> ('w, 'a ConsentSession result) state"
  store_CommitConsent ::
    "'a ConsentCommit \<Rightarrow> StatePolicy \<Rightarrow> ('w, ConsentCommitResult result) state"
  store_GetCodeForExchange ::
    "CodeExchangeBinding \<Rightarrow> ('w, 'a AuthorizationCodeRecord result) state"
  store_CommitCodeExchange ::
    "'a CodeExchangeCommit \<Rightarrow> StatePolicy \<Rightarrow> ('w, go_error option) state"
  store_GetRefreshGrant :: "CredentialDigest \<Rightarrow> ('w, 'a RefreshGrant result) state"
  store_CommitRefreshRotation ::
    "'a RefreshRotation \<Rightarrow> StatePolicy \<Rightarrow> ('w, go_error option) state"
  store_RevokeRefreshFamily :: "RefreshFamilyID \<Rightarrow> time \<Rightarrow> ('w, go_error option) state"
  store_Prune :: "StatePolicy \<Rightarrow> ('w, PruneStats result) state"
  store_Counts :: "('w, StateCounts result) state"

record 'w ResourcePort =
  resources_Lookup :: "ctx \<Rightarrow> ResourceID \<Rightarrow> ('w, Resource result) state"
  resources_List :: "ctx \<Rightarrow> ('w, Resource list result) state"

record ('w, 'a) TokenPort =
  tokens_TokenIssuer :: "('w, string) state"
  tokens_IssueAccessToken :: "ctx \<Rightarrow> 'a AccessGrant \<Rightarrow> ('w, IssuedAccessToken result) state"
  tokens_VerifyAccessToken :: "ctx \<Rightarrow> string \<Rightarrow> ResourceID \<Rightarrow> ('w, VerifiedAccessToken result) state"
  tokens_JWKS :: "ctx \<Rightarrow> ('w, JWKS result) state"

record 'w SecretPort =
  secrets_NewClientID :: "('w, ClientID result) state"
  secrets_NewTransactionToken :: "('w, TransactionToken result) state"
  secrets_NewConsentToken :: "('w, ConsentToken result) state"
  secrets_NewAuthorizationCode :: "('w, AuthorizationCode result) state"
  secrets_NewRefreshToken :: "('w, RefreshToken result) state"
  secrets_NewRefreshFamilyID :: "('w, RefreshFamilyID result) state"

type_synonym ('w, 'a) ScopePort =
  "ctx \<Rightarrow> 'a Principal \<Rightarrow> Resource \<Rightarrow> ('w, ScopeSet result) state"

type_synonym ('w, 'a) RevalidatorPort = "ctx \<Rightarrow> Subject \<Rightarrow> ('w, 'a Revalidation result) state"

type_synonym 'w ClockPort = "('w, time) state"

type_synonym 'w AuditPort = "ctx \<Rightarrow> AuditEvent \<Rightarrow> ('w, unit) state"

record ('w, 'a) Dependencies =
  deps_Store :: "('w, 'a) StorePort option"
  deps_Resources :: "'w ResourcePort option"
  deps_Scopes :: "('w, 'a) ScopePort option"
  deps_Revalidator :: "('w, 'a) RevalidatorPort option"
  deps_Tokens :: "('w, 'a) TokenPort option"
  deps_Secrets :: "'w SecretPort option"
  deps_Clock :: "'w ClockPort option"
  deps_Audit :: "'w AuditPort option"

text \<open>\<open>NopAudit\<close> of secrets.go.\<close>

definition NopAudit :: "'w AuditPort" where
  "NopAudit ctx ev = State_Monad.return ()"

text \<open>The engine after \<open>New\<close>: its configuration and dependencies that are not nil; \<open>en_zero\<close> is
  the zero value of the attribute type.\<close>

record ('w, 'a) Engine =
  en_config :: Config
  en_Store :: "('w, 'a) StorePort"
  en_Resources :: "'w ResourcePort"
  en_Scopes :: "('w, 'a) ScopePort"
  en_Revalidator :: "('w, 'a) RevalidatorPort"
  en_Tokens :: "('w, 'a) TokenPort"
  en_Secrets :: "'w SecretPort"
  en_Clock :: "'w ClockPort"
  en_Audit :: "'w AuditPort"
  en_zero :: 'a

end
