(* ===== verification/World.thy ===== *)
theory World
  imports Ports Store_Trace
begin

text \<open>
  What the engine relies on in its dependencies, one locale per interface of ports.go.  A world
  holds whatever the dependencies keep; a \<open>Ghost\<close> names the part of it that the contracts speak
  about: the abstract store (\<open>gh_view\<close>), the sequence of observable events (\<open>gh_obs\<close>: audit
  records, access tokens issued, secrets drawn) and an invariant of the world (\<open>gh_ok\<close>).

  The contract of a store is refinement of the in-memory store: a read returns what the abstract
  store holds, a commit performs one step of it at some positive reading of the clock, and
  either may fail operationally (an I/O error, a cancelled context) without any effect.
\<close>

datatype 'a observation =
    Audited AuditEvent
  | Issued "'a AccessGrant" IssuedAccessToken
  | Drawn string

record ('w, 'a) Ghost =
  gh_view :: "'w \<Rightarrow> 'a Store"
  gh_obs :: "'w \<Rightarrow> 'a observation list"
  gh_ok :: "'w \<Rightarrow> bool"

text \<open>A call that only appends events.\<close>

definition logs :: "('w, 'a) Ghost \<Rightarrow> 'a observation list \<Rightarrow> 'w \<Rightarrow> 'w \<Rightarrow> bool" where
  "logs g xs w w' \<longleftrightarrow>
     gh_ok g w' \<and> gh_view g w' = gh_view g w \<and> gh_obs g w' = gh_obs g w @ xs"

text \<open>An error that no transition of the store returns.  A store that panics keeps no contract.\<close>

fun is_panic :: "go_error \<Rightarrow> bool" where
  "is_panic (GoPanic msg) = True"
| "is_panic _ = False"

definition operational :: "go_error \<Rightarrow> bool" where
  "operational err \<longleftrightarrow> \<not> isExpectedStoreDenial err \<and> \<not> errors_Is err ErrCapacity \<and> \<not> is_panic err"

definition commits ::
  "('w, 'a) Ghost \<Rightarrow> StatePolicy \<Rightarrow> 'a store_call set \<Rightarrow> go_error option \<Rightarrow> 'w \<Rightarrow> 'w \<Rightarrow> bool" where
  "commits g p C r w w' \<longleftrightarrow>
     gh_ok g w' \<and> gh_obs g w' = gh_obs g w \<and>
     ((\<exists>c \<in> C. clock_set c \<and> store_step p c (gh_view g w) = (r, gh_view g w')) \<or>
      (\<exists>err. r = Some err \<and> operational err \<and> gh_view g w' = gh_view g w))"

definition reads :: "('w, 'a) Ghost \<Rightarrow> ('w, 'r result) state \<Rightarrow> ('a Store \<Rightarrow> 'r result) \<Rightarrow> bool" where
  "reads g m q \<longleftrightarrow>
     (\<forall>w. gh_ok g w \<longrightarrow>
        wp m (\<lambda>r w'. logs g [] w w' \<and>
          (r = q (gh_view g w) \<or> (\<exists>err. r = Inl err \<and> operational err))) w)"

definition writes ::
  "('w, 'a) Ghost \<Rightarrow> StatePolicy \<Rightarrow> ('w, go_error option) state \<Rightarrow> 'a store_call set \<Rightarrow> bool" where
  "writes g p m C \<longleftrightarrow> (\<forall>w. gh_ok g w \<longrightarrow> wp m (\<lambda>r w'. commits g p C r w w') w)"

text \<open>A call of any other dependency: its result satisfies \<open>P\<close> and its events are \<open>f\<close> of it.\<close>

definition observes ::
  "('w, 'a) Ghost \<Rightarrow> ('w, 'r) state \<Rightarrow> ('r \<Rightarrow> 'a observation list) \<Rightarrow> ('r \<Rightarrow> bool) \<Rightarrow> bool" where
  "observes g m f P \<longleftrightarrow>
     (\<forall>w. gh_ok g w \<longrightarrow> wp m (\<lambda>r w'. logs g (f r) w w' \<and> P r) w)"

definition on_success :: "('r \<Rightarrow> 'b list) \<Rightarrow> 'r result \<Rightarrow> 'b list" where
  "on_success f r = (case r of Inl _ \<Rightarrow> [] | Inr x \<Rightarrow> f x)"

definition whenever :: "('r \<Rightarrow> bool) \<Rightarrow> 'r result \<Rightarrow> bool" where
  "whenever P r = (case r of Inl _ \<Rightarrow> True | Inr x \<Rightarrow> P x)"

lemma on_success_simps [simp]: "on_success f (Inl e) = []" "on_success f (Inr x) = f x"
  by (simp_all add: on_success_def)

lemma whenever_simps [simp]: "whenever P (Inl e)" "whenever P (Inr x) = P x"
  by (simp_all add: whenever_def)

lemma logsD:
  "logs g xs w w' \<Longrightarrow> gh_ok g w'" "logs g xs w w' \<Longrightarrow> gh_view g w' = gh_view g w"
  "logs g xs w w' \<Longrightarrow> gh_obs g w' = gh_obs g w @ xs"
  by (simp_all add: logs_def)

lemma logs_refl: "gh_ok g w \<Longrightarrow> logs g [] w w"
  by (simp add: logs_def)

lemma logs_trans [trans]: "logs g xs w w1 \<Longrightarrow> logs g ys w1 w2 \<Longrightarrow> logs g (xs @ ys) w w2"
  by (simp add: logs_def)

lemma wp_reads:
  assumes "reads g m q" and "gh_ok g w"
    and "\<And>r w'. logs g [] w w' \<Longrightarrow> r = q (gh_view g w) \<or> (\<exists>err. r = Inl err \<and> operational err) \<Longrightarrow>
      Q r w'"
  shows "wp m Q w"
  using assms unfolding reads_def by (blast intro: wp_mono)

lemma wp_writes:
  assumes "writes g p m C" and "gh_ok g w" and "\<And>r w'. commits g p C r w w' \<Longrightarrow> Q r w'"
  shows "wp m Q w"
  using assms unfolding writes_def by (blast intro: wp_mono)

lemma wp_observes:
  assumes "observes g m f P" and "gh_ok g w" and "\<And>r w'. logs g (f r) w w' \<Longrightarrow> P r \<Longrightarrow> Q r w'"
  shows "wp m Q w"
  using assms unfolding observes_def by (blast intro: wp_mono)

section \<open>The contracts\<close>

locale store_port =
  fixes st :: "('w, 'a) StorePort" and g :: "('w, 'a) Ghost" and p :: StatePolicy
  assumes get_client: "reads g (store_GetClient st cid) (Mem_GetClient cid)"
    and get_authorization: "reads g (store_GetAuthorization st d) (Mem_GetAuthorization d)"
    and get_consent: "reads g (store_GetConsent st d) (Mem_GetConsent d)"
    and get_code: "reads g (store_GetCodeForExchange st b) (Mem_GetCodeForExchange b)"
    and get_grant: "reads g (store_GetRefreshGrant st d) (Mem_GetRefreshGrant d)"
    and register_client:
      "writes g p (store_RegisterClient st client p) {RegisterClient t client | t. True}"
    and touch_client:
      "0 < at \<Longrightarrow> writes g p (store_TouchClient st cid at) {TouchClient cid at}"
    and create_authorization:
      "writes g p (store_CreateAuthorization st a p) {CreateAuthorization t a | t. True}"
    and commit_login: "writes g p (store_CommitLogin st lc p) {CommitLogin t1 t2 lc | t1 t2. True}"
    and commit_consent:
      "writes g p (State_Monad.bind (store_CommitConsent st cc p)
         (\<lambda>r. State_Monad.return (result_error r))) {CommitConsent t1 t2 cc | t1 t2. True}"
    and commit_exchange:
      "writes g p (store_CommitCodeExchange st xc p) {CommitCodeExchange t1 t2 xc | t1 t2. True}"
    and commit_rotation:
      "writes g p (store_CommitRefreshRotation st rr p)
         {CommitRefreshRotation t1 t2 rr | t1 t2. True}"
    and revoke_family:
      "0 < at \<Longrightarrow> writes g p (store_RevokeRefreshFamily st f at) {RevokeRefreshFamily f at}"

locale resource_port =
  fixes rs :: "'w ResourcePort" and g :: "('w, 'a) Ghost"
  assumes lookup_resource: "observes g (resources_Lookup rs ctx rid) (on_success (\<lambda>_. []))
    (whenever (\<lambda>r. scopes_wf (res_SupportedScopes r)))"

locale scope_port =
  fixes sp :: "('w, 'a) ScopePort" and g :: "('w, 'a) Ghost"
  assumes available_scopes: "observes g (sp ctx princ r) (on_success (\<lambda>_. []))
    (whenever scopes_wf)"

locale revalidator_port =
  fixes rv :: "('w, 'a) RevalidatorPort" and g :: "('w, 'a) Ghost"
  assumes revalidate: "observes g (rv ctx subject) (on_success (\<lambda>_. []))
    (whenever (\<lambda>_. True))"

locale token_port =
  fixes tk :: "('w, 'a) TokenPort" and g :: "('w, 'a) Ghost"
  assumes issue_token: "observes g (tokens_IssueAccessToken tk ctx grant)
    (on_success (\<lambda>a. [Issued grant a])) (whenever (\<lambda>_. True))"

text \<open>Drawing a secret that satisfies the format of its type.\<close>

definition draws ::
  "('w, 'a) Ghost \<Rightarrow> ('w, string result) state \<Rightarrow> (string \<Rightarrow> string result) \<Rightarrow> bool" where
  "draws g m new \<longleftrightarrow> observes g m (on_success (\<lambda>v. [Drawn v])) (whenever (\<lambda>v. new v = Inr v))"

locale secret_port =
  fixes sc :: "'w SecretPort" and g :: "('w, 'a) Ghost"
  assumes draw_client: "draws g (secrets_NewClientID sc) NewClientID"
    and draw_transaction: "draws g (secrets_NewTransactionToken sc) NewTransactionToken"
    and draw_consent: "draws g (secrets_NewConsentToken sc) NewConsentToken"
    and draw_code: "draws g (secrets_NewAuthorizationCode sc) NewAuthorizationCode"
    and draw_refresh: "draws g (secrets_NewRefreshToken sc) NewRefreshToken"
    and draw_family: "draws g (secrets_NewRefreshFamilyID sc) NewRefreshFamilyID"

locale clock_port =
  fixes ck :: "'w ClockPort" and g :: "('w, 'a) Ghost"
  assumes now: "observes g ck (\<lambda>_. []) (\<lambda>t. 0 < t)"

locale audit_port =
  fixes au :: "'w AuditPort" and g :: "('w, 'a) Ghost"
  assumes record_event: "observes g (au ctx ev) (\<lambda>_. [Audited ev]) (\<lambda>_. True)"

locale engine_world =
  store_port "en_Store e" g "cfg_StatePolicy (en_config e)" +
  resource_port "en_Resources e" g +
  scope_port "en_Scopes e" g +
  revalidator_port "en_Revalidator e" g +
  token_port "en_Tokens e" g +
  secret_port "en_Secrets e" g +
  clock_port "en_Clock e" g +
  audit_port "en_Audit e" g
  for e :: "('w, 'a) Engine" and g :: "('w, 'a) Ghost"

end
