(* ===== verification/Engine.thy ===== *)
theory Engine
  imports Ports
begin

text \<open>
  \<open>pkg/oauthserver/engine.go\<close>: the protocol engine.  Every method is a state transformer in the
  monad of the ports, with the calls and early returns of the code in its order; an error
  return is \<open>Inl\<close>.  A run-time panic (the nil dereference in \<open>snapshotClient\<close>) is the error
  \<open>GoPanic\<close>.
\<close>

section \<open>Construction\<close>

definition New :: "'a \<Rightarrow> Config \<Rightarrow> ('w, 'a) Dependencies \<Rightarrow> ('w, ('w, 'a) Engine result) state" where
  "New zero config deps =
     (case Config_Validate config of
        Some err \<Rightarrow> State_Monad.return (Inl err)
      | None \<Rightarrow>
          (case (deps_Store deps, deps_Resources deps, deps_Scopes deps, deps_Revalidator deps,
                 deps_Tokens deps, deps_Secrets deps, deps_Clock deps) of
             (Some store, Some resources, Some scopes, Some revalidator, Some tokens,
              Some secrets, Some clock) \<Rightarrow>
               do {
                 issuer \<leftarrow> tokens_TokenIssuer tokens;
                 if issuer \<noteq> cfg_Issuer config
                 then State_Monad.return (Inl (invalidValue ''token issuer''))
                 else do {
                   listed \<leftarrow> (case NewStaticResourceRegistry (cfg_Resources config)
                                 (cfg_SupportedScopes config) of
                               Inl err \<Rightarrow> State_Monad.return (Inl err)
                             | Inr _ \<Rightarrow> resources_List resources None);
                   (case validateResourceRegistry (cfg_Resources config)
                           (cfg_SupportedScopes config) listed of
                      Some _ \<Rightarrow> State_Monad.return (Inl (invalidValue ''resource registry''))
                    | None \<Rightarrow>
                        State_Monad.return (Inr
                          \<lparr>en_config = config, en_Store = store, en_Resources = resources,
                           en_Scopes = scopes, en_Revalidator = revalidator, en_Tokens = tokens,
                           en_Secrets = secrets, en_Clock = clock,
                           en_Audit = (case deps_Audit deps of None \<Rightarrow> NopAudit | Some a \<Rightarrow> a),
                           en_zero = zero\<rparr>))
                 }
               }
           | _ \<Rightarrow> State_Monad.return (Inl (invalidValue ''engine dependencies''))))"

definition Engine_now :: "('w, 'a) Engine \<Rightarrow> ('w, time) state" where
  "Engine_now e = en_Clock e"

abbreviation en_policy :: "('w, 'a) Engine \<Rightarrow> StatePolicy" where
  "en_policy e \<equiv> cfg_StatePolicy (en_config e)"

section \<open>Audit\<close>

definition audit ::
  "('w, 'a) Engine \<Rightarrow> ctx \<Rightarrow> string \<Rightarrow> string \<Rightarrow> 'a Principal \<Rightarrow> ClientID \<Rightarrow> ResourceID \<Rightarrow> ScopeSet \<Rightarrow>
   string \<Rightarrow> ('w, unit) state" where
  "audit e ctx operation outcome princ client resource scopes reason = do {
     now \<leftarrow> Engine_now e;
     en_Audit e ctx \<lparr>ae_Time = now, ae_Operation = operation, ae_Outcome = outcome,
       ae_Subject = p_Subject princ, ae_ClientID = client, ae_Resource = resource,
       ae_Scopes = scopes, ae_ReasonCode = reason, ae_RequestID = FromContext ctx,
       ae_Cause = None\<rparr>
   }"

definition auditDenied ::
  "('w, 'a) Engine \<Rightarrow> ctx \<Rightarrow> string \<Rightarrow> string \<Rightarrow> 'a Principal \<Rightarrow> ClientID \<Rightarrow> ResourceID \<Rightarrow> ScopeSet \<Rightarrow>
   ('w, unit) state" where
  "auditDenied e ctx operation reason princ client resource scopes = do {
     now \<leftarrow> Engine_now e;
     en_Audit e ctx \<lparr>ae_Time = now, ae_Operation = operation, ae_Outcome = ''denied'',
       ae_Subject = p_Subject princ, ae_ClientID = client, ae_Resource = resource,
       ae_Scopes = scopes, ae_ReasonCode = reason, ae_RequestID = FromContext ctx,
       ae_Cause = None\<rparr>
   }"

definition auditError ::
  "('w, 'a) Engine \<Rightarrow> ctx \<Rightarrow> string \<Rightarrow> string \<Rightarrow> Subject \<Rightarrow> ClientID \<Rightarrow> ResourceID \<Rightarrow> ScopeSet \<Rightarrow>
   go_error \<Rightarrow> ('w, unit) state" where
  "auditError e ctx operation reason subject client resource scopes cause = do {
     now \<leftarrow> Engine_now e;
     en_Audit e ctx \<lparr>ae_Time = now, ae_Operation = operation, ae_Outcome = ''error'',
       ae_Subject = subject, ae_ClientID = client, ae_Resource = resource,
       ae_Scopes = scopes, ae_ReasonCode = reason, ae_RequestID = FromContext ctx,
       ae_Cause = Some cause\<rparr>
   }"

definition auditStoreRead ::
  "('w, 'a) Engine \<Rightarrow> ctx \<Rightarrow> string \<Rightarrow> go_error \<Rightarrow> Subject \<Rightarrow> ClientID \<Rightarrow> ResourceID \<Rightarrow> ('w, unit) state"
where
  "auditStoreRead e ctx operation err subject client resource =
     (if isExpectedStoreDenial err
      then auditDenied e ctx operation (storeReasonCode err)
             ((zero_Principal (en_zero e))\<lparr>p_Subject := subject\<rparr>) client resource empty_ScopeSet
      else auditError e ctx operation (storeReasonCode err) subject client resource
             empty_ScopeSet err)"

text \<open>Record an event and return an error: the shape of every early return.\<close>

definition denied ::
  "('w, 'a) Engine \<Rightarrow> ctx \<Rightarrow> string \<Rightarrow> string \<Rightarrow> 'a Principal \<Rightarrow> ClientID \<Rightarrow> ResourceID \<Rightarrow> ScopeSet \<Rightarrow>
   go_error \<Rightarrow> ('w, 'r result) state" where
  "denied e ctx operation reason princ client resource scopes err = do {
     _ \<leftarrow> auditDenied e ctx operation reason princ client resource scopes;
     State_Monad.return (Inl err)
   }"

definition failed ::
  "('w, 'a) Engine \<Rightarrow> ctx \<Rightarrow> string \<Rightarrow> string \<Rightarrow> Subject \<Rightarrow> ClientID \<Rightarrow> ResourceID \<Rightarrow> ScopeSet \<Rightarrow>
   go_error \<Rightarrow> go_error \<Rightarrow> ('w, 'r result) state" where
  "failed e ctx operation reason subject client resource scopes cause err = do {
     _ \<leftarrow> auditError e ctx operation reason subject client resource scopes cause;
     State_Monad.return (Inl err)
   }"

definition store_read_failed ::
  "('w, 'a) Engine \<Rightarrow> ctx \<Rightarrow> string \<Rightarrow> go_error \<Rightarrow> Subject \<Rightarrow> ClientID \<Rightarrow> ResourceID \<Rightarrow> go_error \<Rightarrow>
   ('w, 'r result) state" where
  "store_read_failed e ctx operation cause subject client resource err = do {
     _ \<leftarrow> auditStoreRead e ctx operation cause subject client resource;
     State_Monad.return (Inl err)
   }"

definition completed ::
  "('w, 'a) Engine \<Rightarrow> ctx \<Rightarrow> string \<Rightarrow> string \<Rightarrow> 'a Principal \<Rightarrow> ClientID \<Rightarrow> ResourceID \<Rightarrow> ScopeSet \<Rightarrow>
   'r \<Rightarrow> ('w, 'r result) state" where
  "completed e ctx operation outcome princ client resource scopes r = do {
     _ \<leftarrow> audit e ctx operation outcome princ client resource scopes [];
     State_Monad.return (Inr r)
   }"

section \<open>RegisterClient and ValidateRedirect\<close>

fun register_redirects ::
  "Config \<Rightarrow> RedirectURI list \<Rightarrow> string list \<Rightarrow> RedirectURI list result" where
  "register_redirects config redirects [] = Inr redirects"
| "register_redirects config redirects (raw # raws) =
     (case NewRedirectURI raw of
        Inl err \<Rightarrow>
          Inl (oauthError ErrorInvalidRedirectURI ''redirect URI is invalid'' 400 (Some err))
      | Inr redirect \<Rightarrow>
          if \<not> validRedirectURI redirect True
          then Inl (oauthError ErrorInvalidRedirectURI ''redirect URI is invalid'' 400 None)
          else if int (length redirect) >
                  rp_MaxRedirectBytes (sp_Registration (cfg_StatePolicy config))
          then Inl (oauthError ErrorInvalidRedirectURI ''redirect URI is too long'' 400
                 (Some ErrInvalid))
          else if redirect \<in> set redirects
          then Inl (oauthError ErrorInvalidRedirectURI ''redirect URI is duplicated'' 400
                 (Some ErrInvalid))
          else register_redirects config (redirects @ [redirect]) raws)"

definition register_scopes :: "Config \<Rightarrow> string list \<Rightarrow> ScopeSet result" where
  "register_scopes config requested =
     (case (if requested = [] then Inr (cfg_SupportedScopes config)
            else NewScopeSet (stringsToScopes requested)) of
        Inl err \<Rightarrow> Inl (oauthError ErrorInvalidScope ''requested scopes are invalid'' 400 (Some err))
      | Inr scopes \<Rightarrow>
          if int (length (ScopeSet_Values scopes)) >
               rp_MaxScopeCount (sp_Registration (cfg_StatePolicy config)) \<or>
             \<not> IsSubsetOf scopes (cfg_SupportedScopes config)
          then Inl (oauthError ErrorInvalidScope ''requested scopes are invalid'' 400 None)
          else Inr scopes)"

definition Engine_RegisterClient ::
  "('w, 'a) Engine \<Rightarrow> ctx \<Rightarrow> RegisterClientInput \<Rightarrow> ('w, Client result) state" where
  "Engine_RegisterClient e ctx inp =
     (let reg = sp_Registration (en_policy e)
      in if length (rci_DisplayName inp) = 0 \<or>
            int (length (rci_DisplayName inp)) > rp_MaxDisplayName reg \<or>
            length (rci_RedirectURIs inp) = 0 \<or>
            int (length (rci_RedirectURIs inp)) > rp_MaxRedirectURIs reg
         then State_Monad.return (Inl (oauthError ErrorInvalidClientMetadata
                ''client metadata is invalid'' 400 (Some ErrInvalid)))
         else (case register_redirects (en_config e) [] (rci_RedirectURIs inp) of
             Inl err \<Rightarrow> State_Monad.return (Inl err)
           | Inr redirects \<Rightarrow>
               (case register_scopes (en_config e) (rci_RequestedScopes inp) of
                  Inl err \<Rightarrow> State_Monad.return (Inl err)
                | Inr scopes \<Rightarrow> do {
                    r \<leftarrow> secrets_NewClientID (en_Secrets e);
                    (case r of
                       Inl err \<Rightarrow>
                         failed e ctx ''register_client'' ''secret_generation'' [] [] [] scopes err
                           (oauthError ErrorTemporary ''could not create client'' 503 (Some err))
                     | Inr clientID \<Rightarrow> do {
                         now \<leftarrow> Engine_now e;
                         let client = \<lparr>cl_ID = clientID, cl_DisplayName = rci_DisplayName inp,
                               cl_Trust = ClientTrustUnverified, cl_RedirectURIs = redirects,
                               cl_AllowedScopes = scopes, cl_CreatedAt = now,
                               cl_LastUsedAt = now\<rparr>;
                         s \<leftarrow> store_RegisterClient (en_Store e) client (en_policy e);
                         (case s of
                            Some err \<Rightarrow>
                              failed e ctx ''register_client'' (storeReasonCode err) []
                                (cl_ID client) [] scopes err
                                (mapStoreError err ErrorInvalidClientMetadata)
                          | None \<Rightarrow>
                              completed e ctx ''register_client'' ''success''
                                (zero_Principal (en_zero e)) (cl_ID client) [] scopes client)
                       })
                  })))"

definition containsRedirect :: "RedirectURI list \<Rightarrow> RedirectURI \<Rightarrow> bool" where
  "containsRedirect values target = list_ex (\<lambda>value. value = target) values"

definition Engine_ValidateRedirect ::
  "('w, 'a) Engine \<Rightarrow> string \<Rightarrow> string \<Rightarrow> ('w, TrustedRedirect result) state" where
  "Engine_ValidateRedirect e clientIDRaw redirectRaw =
     (case NewClientID clientIDRaw of
        Inl err \<Rightarrow> State_Monad.return (Inl err)
      | Inr clientID \<Rightarrow>
          (case NewRedirectURI redirectRaw of
             Inl _ \<Rightarrow> State_Monad.return (Inl ErrBinding)
           | Inr redirect \<Rightarrow>
               if \<not> validRedirectURI redirect True then State_Monad.return (Inl ErrBinding)
               else do {
                 r \<leftarrow> store_GetClient (en_Store e) clientID;
                 State_Monad.return (case r of
                     Inl err \<Rightarrow> Inl err
                   | Inr client \<Rightarrow>
                       if \<not> containsRedirect (cl_RedirectURIs client) redirect
                       then Inl ErrBinding else Inr \<lparr>tr_uri = redirect\<rparr>)
               }))"

section \<open>BeginAuthorization\<close>

text \<open>Each long operation is split where the code first calls the store: the tests of the input come
  first, and the rest is a function of their results.\<close>

definition begin_create ::
  "('w, 'a) Engine \<Rightarrow> ctx \<Rightarrow> ClientID \<Rightarrow> RedirectURI \<Rightarrow> string \<Rightarrow> PKCEChallenge \<Rightarrow> ScopeSet \<Rightarrow>
   ResourceID \<Rightarrow> ('w, BeginAuthorizationResult result) state" where
  "begin_create e ctx clientID redirect state_text challenge requested resourceID = do {
     t \<leftarrow> secrets_NewTransactionToken (en_Secrets e);
     (case t of
        Inl err \<Rightarrow>
          failed e ctx ''begin_authorization'' ''secret_generation'' [] clientID resourceID requested
            err (oauthError ErrorTemporary ''could not start authorization'' 503 (Some err))
      | Inr token \<Rightarrow> do {
          now \<leftarrow> Engine_now e;
          let authorization = \<lparr>at_Token = token, at_ClientID = clientID, at_RedirectURI = redirect,
                at_State = state_text, at_PKCEChallenge = challenge,
                at_RequestedScopes = requested, at_Resource = resourceID,
                at_ExpiresAt = time_Add now (cfg_TransactionTTL (en_config e)),
                at_ConsumedAt = 0\<rparr>;
          s \<leftarrow> store_CreateAuthorization (en_Store e) authorization (en_policy e);
          (case s of
             Some err \<Rightarrow>
               failed e ctx ''begin_authorization'' (storeReasonCode err) [] clientID resourceID
                 requested err (mapStoreError err ErrorInvalidRequest)
           | None \<Rightarrow>
               completed e ctx ''begin_authorization'' ''success'' (zero_Principal (en_zero e))
                 clientID resourceID requested
                 \<lparr>bar_Transaction = token,
                  bar_LoginContext = \<lparr>lc_Transaction = token, lc_ClientID = clientID,
                    lc_RedirectURI = redirect, lc_State = state_text\<rparr>\<rparr>)
        })
   }"

definition begin_authorize ::
  "('w, 'a) Engine \<Rightarrow> ctx \<Rightarrow> ClientID \<Rightarrow> RedirectURI \<Rightarrow> string \<Rightarrow> PKCEChallenge \<Rightarrow> ScopeSet \<Rightarrow>
   ResourceID \<Rightarrow> ('w, BeginAuthorizationResult result) state" where
  "begin_authorize e ctx clientID redirect state_text challenge requested resourceID =
     (let op = ''begin_authorization''; nobody = zero_Principal (en_zero e)
      in do {
       c \<leftarrow> store_GetClient (en_Store e) clientID;
       (case c of
          Inl err \<Rightarrow> store_read_failed e ctx op err [] clientID resourceID
            (invalidArgument ''client is invalid'' (Some err))
        | Inr client \<Rightarrow>
            if \<not> containsRedirect (cl_RedirectURIs client) redirect
            then denied e ctx op ''redirect_not_registered'' nobody clientID [] empty_ScopeSet
                   (oauthError ErrorInvalidRedirectURI ''redirect URI is not registered'' 400
                     (Some ErrBinding))
            else do {
              r \<leftarrow> resources_Lookup (en_Resources e) ctx resourceID;
              (case r of
                 Inl err \<Rightarrow> denied e ctx op ''resource_not_supported'' nobody clientID resourceID
                   empty_ScopeSet
                   (oauthError ErrorInvalidTarget ''resource is not supported'' 400 (Some err))
               | Inr resource \<Rightarrow>
                   if \<not> IsSubsetOf requested (cl_AllowedScopes client) \<or>
                      \<not> IsSubsetOf requested (res_SupportedScopes resource) \<or>
                      \<not> IsSubsetOf requested (cfg_SupportedScopes (en_config e))
                   then denied e ctx op ''scope_not_allowed'' nobody clientID resourceID requested
                          (oauthError ErrorInvalidScope ''requested scopes are not allowed'' 400
                            (Some ErrInvalid))
                   else do {
                     now \<leftarrow> Engine_now e;
                     s \<leftarrow> store_TouchClient (en_Store e) (cl_ID client) now;
                     (case s of
                        Some err \<Rightarrow>
                          failed e ctx op (storeReasonCode err) [] clientID resourceID requested err
                            (mapStoreError err ErrorInvalidRequest)
                      | None \<Rightarrow>
                          begin_create e ctx clientID redirect state_text challenge requested
                            resourceID)
                   })
            })
     })"

definition Engine_BeginAuthorization ::
  "('w, 'a) Engine \<Rightarrow> ctx \<Rightarrow> BeginAuthorizationInput \<Rightarrow> ('w, BeginAuthorizationResult result) state"
where
  "Engine_BeginAuthorization e ctx inp =
     (let op = ''begin_authorization'';
          deny = (\<lambda>reason err. denied e ctx op reason (zero_Principal (en_zero e)) [] []
            empty_ScopeSet err)
      in (case NewClientID (bai_ClientID inp) of
            Inl err \<Rightarrow> deny ''invalid_request''
              (invalidArgument ''authorization request is invalid'' (Some err))
          | Inr clientID \<Rightarrow>
              if bai_ResponseType inp \<noteq> ''code'' \<or> bai_State inp = [] \<or>
                 int (length (bai_State inp)) > hp_MaxFieldBytes (cfg_HTTP (en_config e))
              then deny ''invalid_request''
                     (invalidArgument ''authorization request is invalid'' None)
              else (case NewRedirectURI (bai_RedirectURI inp) of
                  Inl err \<Rightarrow> deny ''invalid_redirect_uri''
                    (oauthError ErrorInvalidRedirectURI ''redirect URI is invalid'' 400 (Some err))
                | Inr redirect \<Rightarrow>
                    if \<not> validRedirectURI redirect True
                    then deny ''invalid_redirect_uri''
                      (oauthError ErrorInvalidRedirectURI ''redirect URI is invalid'' 400 None)
                    else (case NewPKCEChallenge (bai_CodeChallenge inp) (bai_ChallengeMethod inp) of
                        Inl err \<Rightarrow> deny ''invalid_pkce''
                          (invalidArgument ''PKCE is required'' (Some err))
                      | Inr challenge \<Rightarrow>
                          (case NewScopeSet (stringsToScopes (bai_Scopes inp)) of
                             Inl err \<Rightarrow> deny ''invalid_scope''
                               (oauthError ErrorInvalidScope ''requested scopes are invalid'' 400
                                 (Some err))
                           | Inr requested \<Rightarrow>
                               (case NewResourceID (bai_Resource inp) of
                                  Inl err \<Rightarrow> deny ''invalid_resource''
                                    (oauthError ErrorInvalidTarget ''resource is invalid'' 400
                                      (Some err))
                                | Inr resourceID \<Rightarrow>
                                    begin_authorize e ctx clientID redirect (bai_State inp)
                                      challenge requested resourceID))))))"

section \<open>CompleteLogin\<close>

text \<open>\<open>snapshotClient\<close> ignores the error of \<open>url.Parse\<close> and dereferences the URL: \<open>None\<close> is the nil
  dereference on a redirect URI that does not parse.\<close>

definition snapshotClient :: "Client \<Rightarrow> RedirectURI \<Rightarrow> ConsentClientSnapshot option" where
  "snapshotClient client redirect =
     map_option (\<lambda>u. \<lparr>snap_ID = cl_ID client, snap_DisplayName = cl_DisplayName client,
         snap_Trust = cl_Trust client, snap_RedirectURI = redirect,
         snap_RedirectOrigin = url_Scheme u @ ''://'' @ url_Host u\<rparr>)
       (url_Parse redirect)"

definition login_consent ::
  "Config \<Rightarrow> 'a Principal \<Rightarrow> AuthorizationTransaction \<Rightarrow> ScopeSet \<Rightarrow> ConsentToken \<Rightarrow> time \<Rightarrow>
   ConsentClientSnapshot \<Rightarrow> 'a ConsentSession" where
  "login_consent config princ auth allowed consentToken now snapshot =
     \<lparr>cs_Token = consentToken, cs_Client = snapshot, cs_State = at_State auth,
      cs_PKCEChallenge = at_PKCEChallenge auth, cs_Principal = princ, cs_AllowedScopes = allowed,
      cs_Resource = at_Resource auth,
      cs_AuthorizationEnds = time_Add now (cfg_RefreshTTL config),
      cs_ExpiresAt = time_Add now (cfg_ConsentTTL config), cs_ConsumedAt = 0\<rparr>"

definition login_store ::
  "('w, 'a) Engine \<Rightarrow> ctx \<Rightarrow> 'a CompleteLoginInput \<Rightarrow> AuthorizationTransaction \<Rightarrow> ScopeSet \<Rightarrow>
   'a ConsentSession \<Rightarrow> ('w, CompleteLoginResult result) state" where
  "login_store e ctx inp auth allowed consent = do {
     s \<leftarrow> store_CommitLogin (en_Store e)
       \<lparr>lco_TransactionDigest = DigestCredential (cli_Transaction inp), lco_Consent = consent\<rparr>
       (en_policy e);
     (case s of
        Some err \<Rightarrow>
          failed e ctx ''complete_login'' (storeReasonCode err) (p_Subject (cli_Principal inp))
            (at_ClientID auth) (at_Resource auth) allowed err (mapStoreError err ErrorInvalidGrant)
      | None \<Rightarrow>
          completed e ctx ''complete_login'' ''success'' (cli_Principal inp) (at_ClientID auth)
            (at_Resource auth) allowed
            \<lparr>clr_ConsentToken = cs_Token consent,
             clr_ConsentURL = ''/oauth/consent?token='' @ QueryEscape (cs_Token consent)\<rparr>)
   }"

definition login_commit ::
  "('w, 'a) Engine \<Rightarrow> ctx \<Rightarrow> 'a CompleteLoginInput \<Rightarrow> AuthorizationTransaction \<Rightarrow> Client \<Rightarrow> ScopeSet \<Rightarrow>
   ('w, CompleteLoginResult result) state" where
  "login_commit e ctx inp auth client allowed = do {
     t \<leftarrow> secrets_NewConsentToken (en_Secrets e);
     (case t of
        Inl err \<Rightarrow>
          failed e ctx ''complete_login'' ''secret_generation'' (p_Subject (cli_Principal inp))
            (at_ClientID auth) (at_Resource auth) allowed err
            (oauthError ErrorTemporary ''could not create consent'' 503 (Some err))
      | Inr consentToken \<Rightarrow> do {
          now \<leftarrow> Engine_now e;
          (case snapshotClient client (at_RedirectURI auth) of
             None \<Rightarrow> State_Monad.return (Inl (GoPanic ''nil pointer dereference''))
           | Some snapshot \<Rightarrow>
               login_store e ctx inp auth allowed
                 (login_consent (en_config e) (cli_Principal inp) auth allowed consentToken now
                   snapshot))
        })
   }"

definition login_authorize ::
  "('w, 'a) Engine \<Rightarrow> ctx \<Rightarrow> 'a CompleteLoginInput \<Rightarrow> AuthorizationTransaction \<Rightarrow> Client \<Rightarrow>
   ('w, CompleteLoginResult result) state" where
  "login_authorize e ctx inp auth client =
     (let op = ''complete_login''
      in do {
       r \<leftarrow> resources_Lookup (en_Resources e) ctx (at_Resource auth);
       (case r of
          Inl err \<Rightarrow> denied e ctx op ''resource_not_supported'' (cli_Principal inp) (at_ClientID auth)
            (at_Resource auth) empty_ScopeSet (invalidGrant (Some err))
        | Inr resource \<Rightarrow> do {
            a \<leftarrow> en_Scopes e ctx (cli_Principal inp) resource;
            (case a of
               Inl err \<Rightarrow>
                 failed e ctx op ''scope_policy'' (p_Subject (cli_Principal inp)) (at_ClientID auth)
                   (at_Resource auth) empty_ScopeSet err
                   (oauthError ErrorTemporary ''could not determine permissions'' 503 (Some err))
             | Inr available \<Rightarrow>
                 login_commit e ctx inp auth client
                   (Intersect (Intersect (Intersect (at_RequestedScopes auth)
                      (cl_AllowedScopes client)) (res_SupportedScopes resource)) available))
          })
     })"

definition Engine_CompleteLogin ::
  "('w, 'a) Engine \<Rightarrow> ctx \<Rightarrow> 'a CompleteLoginInput \<Rightarrow> ('w, CompleteLoginResult result) state" where
  "Engine_CompleteLogin e ctx inp =
     (let op = ''complete_login''; princ = cli_Principal inp
      in (case NewSubject (p_Subject princ) of
            Inl err \<Rightarrow> denied e ctx op ''invalid_subject'' princ [] [] empty_ScopeSet
              (oauthError ErrorAccessDenied ''authenticated principal is invalid'' 400 (Some err))
          | Inr _ \<Rightarrow> do {
              g \<leftarrow> store_GetAuthorization (en_Store e) (DigestCredential (cli_Transaction inp));
              (case g of
                 Inl err \<Rightarrow> store_read_failed e ctx op err (p_Subject princ) [] []
                   (invalidGrant (Some err))
               | Inr auth \<Rightarrow> do {
                   now \<leftarrow> Engine_now e;
                   if After now (at_ExpiresAt auth)
                   then denied e ctx op ''store_expired'' princ (at_ClientID auth)
                     (at_Resource auth) empty_ScopeSet (invalidGrant (Some ErrExpired))
                   else do {
                     c \<leftarrow> store_GetClient (en_Store e) (at_ClientID auth);
                     (case c of
                        Inl err \<Rightarrow>
                          if \<not> isExpectedStoreDenial err
                          then failed e ctx op (storeReasonCode err) (p_Subject princ)
                            (at_ClientID auth) (at_Resource auth) empty_ScopeSet err
                            (invalidGrant (Some err))
                          else denied e ctx op ''store_binding'' princ (at_ClientID auth)
                            (at_Resource auth) empty_ScopeSet (invalidGrant (Some err))
                      | Inr client \<Rightarrow>
                          if \<not> containsRedirect (cl_RedirectURIs client) (at_RedirectURI auth)
                          then denied e ctx op ''store_binding'' princ (at_ClientID auth)
                            (at_Resource auth) empty_ScopeSet (invalidGrant None)
                          else login_authorize e ctx inp auth client)
                   }
                 })
            }))"

section \<open>ConsentView and DecideConsent\<close>

definition Engine_ConsentView ::
  "('w, 'a) Engine \<Rightarrow> ctx \<Rightarrow> ConsentToken \<Rightarrow> ('w, ConsentViewData result) state" where
  "Engine_ConsentView e ctx token = do {
     g \<leftarrow> store_GetConsent (en_Store e) (DigestCredential token);
     (case g of
        Inl err \<Rightarrow> State_Monad.return (Inl (invalidGrant (Some err)))
      | Inr consent \<Rightarrow> do {
          now \<leftarrow> Engine_now e;
          if After now (cs_ExpiresAt consent)
          then State_Monad.return (Inl (invalidGrant (Some ErrExpired)))
          else do {
            r \<leftarrow> resources_Lookup (en_Resources e) ctx (cs_Resource consent);
            State_Monad.return (case r of
                Inl err \<Rightarrow> Inl (invalidGrant (Some err))
              | Inr resource \<Rightarrow> Inr
                  \<lparr>cv_Token = token, cv_ResourceName = res_DisplayName resource,
                   cv_PrincipalName = p_DisplayName (cs_Principal consent),
                   cv_PrincipalEmail = p_Email (cs_Principal consent),
                   cv_ClientName = snap_DisplayName (cs_Client consent),
                   cv_ClientTrust = snap_Trust (cs_Client consent),
                   cv_RedirectOrigin = snap_RedirectOrigin (cs_Client consent),
                   cv_RedirectURI = snap_RedirectURI (cs_Client consent),
                   cv_AccessTokenTTL = cfg_AccessTTL (en_config e),
                   cv_AuthorizationEnds = cs_AuthorizationEnds consent,
                   cv_Scopes = map (\<lambda>scope. \<lparr>csc_Scope = scope, csc_Description = []\<rparr>)
                     (ScopeSet_Values (cs_AllowedScopes consent))\<rparr>)
          }
        })
   }"

definition redirectResult ::
  "RedirectURI \<Rightarrow> string \<Rightarrow> ConsentDecision \<Rightarrow> string \<Rightarrow> string result" where
  "redirectResult base state_text decision rawCode =
     (case url_Parse base of
        None \<Rightarrow>
          Inl (invalidArgument ''redirect URI is invalid'' (Some (OtherError ''parse error'')))
      | Some u \<Rightarrow>
          (let query = Values_Set ''state'' state_text (parse_query (url_RawQuery u))
           in if decision = ConsentDecisionApprove then
                (if rawCode = []
                 then Inl (invalidArgument ''authorization code is missing'' (Some ErrInvalid))
                 else Inr (url_String (u\<lparr>url_RawQuery :=
                        Values_Encode (Values_Set ''code'' rawCode query)\<rparr>)))
              else Inr (url_String (u\<lparr>url_RawQuery :=
                     Values_Encode (Values_Set ''error'' (error_code_text ErrorAccessDenied)
                       query)\<rparr>))))"

definition valueOrEmpty ::
  "'a \<Rightarrow> 'a AuthorizationCodeRecord option \<Rightarrow> 'a AuthorizationCodeRecord" where
  "valueOrEmpty z v = (case v of None \<Rightarrow> zero_AuthorizationCodeRecord z | Some c \<Rightarrow> c)"

text \<open>From \<open>CommitConsent\<close> on; \<open>code\<close> is nil on a denial.\<close>

definition consent_commit ::
  "('w, 'a) Engine \<Rightarrow> ctx \<Rightarrow> DecideConsentInput \<Rightarrow> 'a ConsentSession \<Rightarrow> ScopeSet \<Rightarrow>
   'a AuthorizationCodeRecord option \<Rightarrow> string \<Rightarrow> ('w, DecideConsentResult result) state" where
  "consent_commit e ctx inp consent selected code rawCode = do {
     s \<leftarrow> store_CommitConsent (en_Store e)
       \<lparr>cco_ConsentDigest = DigestCredential (dci_Token inp),
        cco_Code = valueOrEmpty (en_zero e) code, cco_Decision = dci_Decision inp\<rparr> (en_policy e);
     (case s of
        Inl err \<Rightarrow>
          failed e ctx ''decide_consent'' (storeReasonCode err) (p_Subject (cs_Principal consent))
            (snap_ID (cs_Client consent)) (cs_Resource consent) selected err
            (mapStoreError err ErrorInvalidGrant)
      | Inr _ \<Rightarrow>
          (case redirectResult (snap_RedirectURI (cs_Client consent)) (cs_State consent)
                  (dci_Decision inp) rawCode of
             Inl err \<Rightarrow> State_Monad.return (Inl err)
           | Inr redirect \<Rightarrow>
               completed e ctx ''decide_consent''
                 (if dci_Decision inp = ConsentDecisionApprove then ''approved'' else ''denied'')
                 (cs_Principal consent) (snap_ID (cs_Client consent)) (cs_Resource consent)
                 selected \<lparr>dcr_RedirectURI = redirect\<rparr>))
   }"

definition consent_code ::
  "Config \<Rightarrow> 'a ConsentSession \<Rightarrow> ScopeSet \<Rightarrow> AuthorizationCode \<Rightarrow> time \<Rightarrow>
   'a AuthorizationCodeRecord" where
  "consent_code config consent selected rawCode now =
     \<lparr>ac_Digest = DigestCredential rawCode, ac_ClientID = snap_ID (cs_Client consent),
      ac_RedirectURI = snap_RedirectURI (cs_Client consent),
      ac_PKCEChallenge = cs_PKCEChallenge consent, ac_Principal = cs_Principal consent,
      ac_Scopes = selected, ac_Resource = cs_Resource consent, ac_State = cs_State consent,
      ac_AuthorizationEnds = cs_AuthorizationEnds consent,
      ac_ExpiresAt = time_Add now (cfg_CodeTTL config), ac_ConsumedAt = 0\<rparr>"

definition consent_decide ::
  "('w, 'a) Engine \<Rightarrow> ctx \<Rightarrow> DecideConsentInput \<Rightarrow> 'a ConsentSession \<Rightarrow> ScopeSet \<Rightarrow>
   ('w, DecideConsentResult result) state" where
  "consent_decide e ctx inp consent selected =
     (if dci_Decision inp = ConsentDecisionApprove then do {
        r \<leftarrow> secrets_NewAuthorizationCode (en_Secrets e);
        (case r of
           Inl err \<Rightarrow>
             failed e ctx ''decide_consent'' ''secret_generation''
               (p_Subject (cs_Principal consent)) (snap_ID (cs_Client consent))
               (cs_Resource consent) selected err
               (oauthError ErrorTemporary ''could not create authorization code'' 503 (Some err))
         | Inr rawCode \<Rightarrow> do {
             now \<leftarrow> Engine_now e;
             consent_commit e ctx inp consent selected
               (Some (consent_code (en_config e) consent selected rawCode now)) rawCode
           })
      }
      else consent_commit e ctx inp consent selected None [])"

definition Engine_DecideConsent ::
  "('w, 'a) Engine \<Rightarrow> ctx \<Rightarrow> DecideConsentInput \<Rightarrow> ('w, DecideConsentResult result) state" where
  "Engine_DecideConsent e ctx inp =
     (let op = ''decide_consent''
      in do {
       g \<leftarrow> store_GetConsent (en_Store e) (DigestCredential (dci_Token inp));
       (case g of
          Inl err \<Rightarrow> store_read_failed e ctx op err [] [] [] (invalidGrant (Some err))
        | Inr consent \<Rightarrow> do {
            now \<leftarrow> Engine_now e;
            let deny = (\<lambda>reason scopes err. denied e ctx op reason (cs_Principal consent)
                  (snap_ID (cs_Client consent)) (cs_Resource consent) scopes err);
            (if After now (cs_ExpiresAt consent)
             then deny ''store_expired'' empty_ScopeSet (invalidGrant (Some ErrExpired))
             else if dci_Decision inp \<noteq> ConsentDecisionApprove \<and>
                     dci_Decision inp \<noteq> ConsentDecisionDeny
             then deny ''invalid_decision'' empty_ScopeSet
                    (invalidArgument ''consent decision is invalid'' (Some ErrInvalid))
             else (case NewScopeSet (dci_SelectedScopes inp) of
                 Inl err \<Rightarrow> deny ''invalid_scope'' empty_ScopeSet
                   (oauthError ErrorInvalidScope ''selected scopes are invalid'' 400 (Some err))
               | Inr selected \<Rightarrow>
                   if dci_Decision inp = ConsentDecisionApprove \<and>
                      \<not> IsSubsetOf selected (cs_AllowedScopes consent)
                   then deny ''scope_not_allowed'' selected
                     (oauthError ErrorInvalidScope ''selected scopes are not allowed'' 400
                       (Some ErrInvalid))
                   else consent_decide e ctx inp consent selected))
          })
     })"

section \<open>ExchangeCode\<close>

definition exchange_grant ::
  "'a AuthorizationCodeRecord \<Rightarrow> RefreshToken \<Rightarrow> RefreshFamilyID \<Rightarrow> 'a RefreshGrant" where
  "exchange_grant code refresh family =
     \<lparr>rg_Digest = DigestCredential refresh, rg_FamilyID = family, rg_Generation = 0,
      rg_ClientID = ac_ClientID code, rg_Principal = ac_Principal code, rg_Scopes = ac_Scopes code,
      rg_Resource = ac_Resource code, rg_ExpiresAt = ac_AuthorizationEnds code,
      rg_ConsumedAt = 0, rg_RevokedAt = 0\<rparr>"

definition exchange_store ::
  "('w, 'a) Engine \<Rightarrow> ctx \<Rightarrow> 'a AuthorizationCodeRecord \<Rightarrow> time \<Rightarrow> IssuedAccessToken \<Rightarrow>
   RefreshToken \<Rightarrow> RefreshFamilyID \<Rightarrow> ('w, TokenResponse result) state" where
  "exchange_store e ctx code now access refresh family = do {
     s \<leftarrow> store_CommitCodeExchange (en_Store e)
       \<lparr>cec_CodeDigest = ac_Digest code, cec_Refresh = Some (exchange_grant code refresh family)\<rparr>
       (en_policy e);
     (case s of
        Some err \<Rightarrow>
          failed e ctx ''exchange_code'' (storeReasonCode err) (p_Subject (ac_Principal code))
            (ac_ClientID code) (ac_Resource code) (ac_Scopes code) err
            (mapStoreError err ErrorInvalidGrant)
      | None \<Rightarrow>
          completed e ctx ''exchange_code'' ''success'' (ac_Principal code) (ac_ClientID code)
            (ac_Resource code) (ac_Scopes code)
            \<lparr>tok_AccessToken = ia_Value access, tok_TokenType = ia_TokenType access,
             tok_ExpiresIn = time_Sub (ia_ExpiresAt access) now, tok_RefreshToken = refresh,
             tok_Scopes = ac_Scopes code\<rparr>)
   }"

definition exchange_issue ::
  "('w, 'a) Engine \<Rightarrow> ctx \<Rightarrow> 'a AuthorizationCodeRecord \<Rightarrow> ('w, TokenResponse result) state" where
  "exchange_issue e ctx code =
     (let fail = (\<lambda>reason err description. failed e ctx ''exchange_code'' reason
            (p_Subject (ac_Principal code)) (ac_ClientID code) (ac_Resource code) (ac_Scopes code)
            err (oauthError ErrorTemporary description 503 (Some err)))
      in do {
       now \<leftarrow> Engine_now e;
       a \<leftarrow> tokens_IssueAccessToken (en_Tokens e) ctx
         \<lparr>ag_Principal = ac_Principal code, ag_ClientID = ac_ClientID code,
          ag_Resource = ac_Resource code, ag_Scopes = ac_Scopes code, ag_IssuedAt = now,
          ag_ExpiresAt = time_Add now (cfg_AccessTTL (en_config e))\<rparr>;
       (case a of
          Inl err \<Rightarrow> fail ''token_issuance'' err ''could not issue access token''
        | Inr access \<Rightarrow> do {
            t \<leftarrow> secrets_NewRefreshToken (en_Secrets e);
            (case t of
               Inl err \<Rightarrow> fail ''secret_generation'' err ''could not issue refresh token''
             | Inr refresh \<Rightarrow> do {
                 f \<leftarrow> secrets_NewRefreshFamilyID (en_Secrets e);
                 (case f of
                    Inl err \<Rightarrow> fail ''secret_generation'' err ''could not issue refresh grant''
                  | Inr family \<Rightarrow> exchange_store e ctx code now access refresh family)
               })
          })
     })"

definition Engine_ExchangeCode ::
  "('w, 'a) Engine \<Rightarrow> ctx \<Rightarrow> ExchangeCodeInput \<Rightarrow> ('w, TokenResponse result) state" where
  "Engine_ExchangeCode e ctx inp =
     (let op = ''exchange_code''; nobody = zero_Principal (en_zero e)
      in (case NewClientID (eci_ClientID inp) of
            Inl err \<Rightarrow> denied e ctx op ''invalid_request'' nobody [] [] empty_ScopeSet
              (invalidGrant (Some err))
          | Inr clientID \<Rightarrow>
              if eci_Code inp = []
              then denied e ctx op ''invalid_request'' nobody [] [] empty_ScopeSet
                     (invalidGrant None)
              else (case NewRedirectURI (eci_RedirectURI inp) of
                  Inl err \<Rightarrow> denied e ctx op ''invalid_redirect_uri'' nobody clientID []
                    empty_ScopeSet (invalidGrant (Some err))
                | Inr redirect \<Rightarrow>
                    (case ValidatePKCEVerifier (eci_CodeVerifier inp) of
                       Some err \<Rightarrow> denied e ctx op ''invalid_pkce'' nobody clientID []
                         empty_ScopeSet (invalidGrant (Some err))
                     | None \<Rightarrow> do {
                         c \<leftarrow> store_GetCodeForExchange (en_Store e)
                           \<lparr>ceb_Digest = DigestCredential (eci_Code inp), ceb_ClientID = clientID,
                            ceb_RedirectURI = redirect, ceb_CodeVerifier = eci_CodeVerifier inp\<rparr>;
                         (case c of
                            Inl err \<Rightarrow> store_read_failed e ctx op err [] clientID []
                              (invalidGrant (Some err))
                          | Inr code \<Rightarrow> do {
                              now \<leftarrow> Engine_now e;
                              (if After now (ac_ExpiresAt code)
                               then denied e ctx op ''store_expired'' (ac_Principal code)
                                 (ac_ClientID code) (ac_Resource code) (ac_Scopes code)
                                 (invalidGrant (Some ErrExpired))
                               else if PKCE_Verify (ac_PKCEChallenge code) (eci_CodeVerifier inp)
                                       \<noteq> None
                               then denied e ctx op ''pkce_mismatch'' (ac_Principal code)
                                 (ac_ClientID code) (ac_Resource code) (ac_Scopes code)
                                 (invalidGrant (Some ErrBinding))
                               else exchange_issue e ctx code)
                            })
                       }))))"

section \<open>Refresh\<close>

definition refresh_successor ::
  "'a RefreshGrant \<Rightarrow> 'a Principal \<Rightarrow> ScopeSet \<Rightarrow> RefreshToken \<Rightarrow> 'a RefreshGrant" where
  "refresh_successor grant princ nextScopes nextToken =
     \<lparr>rg_Digest = DigestCredential nextToken, rg_FamilyID = rg_FamilyID grant,
      rg_Generation = rg_Generation grant + 1, rg_ClientID = rg_ClientID grant,
      rg_Principal = princ, rg_Scopes = nextScopes, rg_Resource = rg_Resource grant,
      rg_ExpiresAt = rg_ExpiresAt grant, rg_ConsumedAt = 0, rg_RevokedAt = 0\<rparr>"

definition refresh_failed ::
  "('w, 'a) Engine \<Rightarrow> ctx \<Rightarrow> string \<Rightarrow> 'a RefreshGrant \<Rightarrow> ScopeSet \<Rightarrow> go_error \<Rightarrow> go_error \<Rightarrow>
   ('w, TokenResponse result) state" where
  "refresh_failed e ctx reason grant scopes cause err =
     failed e ctx ''refresh'' reason (p_Subject (rg_Principal grant)) (rg_ClientID grant)
       (rg_Resource grant) scopes cause err"

definition refresh_denied ::
  "('w, 'a) Engine \<Rightarrow> ctx \<Rightarrow> string \<Rightarrow> 'a RefreshGrant \<Rightarrow> go_error \<Rightarrow>
   ('w, TokenResponse result) state" where
  "refresh_denied e ctx reason grant err =
     denied e ctx ''refresh'' reason (rg_Principal grant) (rg_ClientID grant) (rg_Resource grant)
       (rg_Scopes grant) err"

definition refresh_store ::
  "('w, 'a) Engine \<Rightarrow> ctx \<Rightarrow> 'a RefreshGrant \<Rightarrow> time \<Rightarrow> 'a Principal \<Rightarrow> ScopeSet \<Rightarrow>
   IssuedAccessToken \<Rightarrow> RefreshToken \<Rightarrow> ('w, TokenResponse result) state" where
  "refresh_store e ctx grant now princ nextScopes access nextToken = do {
     s \<leftarrow> store_CommitRefreshRotation (en_Store e)
       \<lparr>rr_CurrentDigest = rg_Digest grant, rr_FamilyID = rg_FamilyID grant,
        rr_Generation = rg_Generation grant,
        rr_Successor = refresh_successor grant princ nextScopes nextToken\<rparr> (en_policy e);
     (case s of
        Some err \<Rightarrow>
          refresh_failed e ctx (storeReasonCode err) grant nextScopes err
            (mapStoreError err ErrorInvalidGrant)
      | None \<Rightarrow>
          completed e ctx ''refresh'' ''success'' princ (rg_ClientID grant) (rg_Resource grant)
            nextScopes
            \<lparr>tok_AccessToken = ia_Value access, tok_TokenType = ia_TokenType access,
             tok_ExpiresIn = time_Sub (ia_ExpiresAt access) now, tok_RefreshToken = nextToken,
             tok_Scopes = nextScopes\<rparr>)
   }"

definition refresh_issue ::
  "('w, 'a) Engine \<Rightarrow> ctx \<Rightarrow> 'a RefreshGrant \<Rightarrow> time \<Rightarrow> 'a Principal \<Rightarrow>
   ('w, TokenResponse result) state" where
  "refresh_issue e ctx grant now princ = do {
     r \<leftarrow> resources_Lookup (en_Resources e) ctx (rg_Resource grant);
     (case r of
        Inl err \<Rightarrow> refresh_denied e ctx ''resource_not_supported'' grant (invalidGrant (Some err))
      | Inr resource \<Rightarrow> do {
          a \<leftarrow> en_Scopes e ctx princ resource;
          (case a of
             Inl err \<Rightarrow> refresh_failed e ctx ''scope_policy'' grant (rg_Scopes grant) err
               (oauthError ErrorTemporary ''could not determine permissions'' 503 (Some err))
           | Inr available \<Rightarrow> do {
               let nextScopes = Intersect (rg_Scopes grant) available;
               i \<leftarrow> tokens_IssueAccessToken (en_Tokens e) ctx
                 \<lparr>ag_Principal = princ, ag_ClientID = rg_ClientID grant,
                  ag_Resource = rg_Resource grant, ag_Scopes = nextScopes, ag_IssuedAt = now,
                  ag_ExpiresAt = time_Add now (cfg_AccessTTL (en_config e))\<rparr>;
               (case i of
                  Inl err \<Rightarrow> refresh_failed e ctx ''token_issuance'' grant nextScopes err
                    (oauthError ErrorTemporary ''could not issue access token'' 503 (Some err))
                | Inr access \<Rightarrow> do {
                    t \<leftarrow> secrets_NewRefreshToken (en_Secrets e);
                    (case t of
                       Inl err \<Rightarrow> refresh_failed e ctx ''secret_generation'' grant nextScopes err
                         (oauthError ErrorTemporary ''could not issue refresh token'' 503
                           (Some err))
                     | Inr nextToken \<Rightarrow>
                         refresh_store e ctx grant now princ nextScopes access nextToken)
                  })
             })
        })
   }"

text \<open>Revoking the family, after a replay or for a principal that lost eligibility.\<close>

definition refresh_revoke ::
  "('w, 'a) Engine \<Rightarrow> ctx \<Rightarrow> 'a RefreshGrant \<Rightarrow> time \<Rightarrow> string \<Rightarrow> string \<Rightarrow>
   ('w, TokenResponse result) state" where
  "refresh_revoke e ctx grant now reason description = do {
     s \<leftarrow> store_RevokeRefreshFamily (en_Store e) (rg_FamilyID grant) now;
     (case s of
        Some err \<Rightarrow> refresh_failed e ctx ''store_error'' grant (rg_Scopes grant) err
          (oauthError ErrorTemporary description 503 (Some err))
      | None \<Rightarrow> do {
          _ \<leftarrow> audit e ctx ''refresh'' ''revoked'' (rg_Principal grant) (rg_ClientID grant)
            (rg_Resource grant) (rg_Scopes grant) reason;
          State_Monad.return (Inl (invalidGrant (Some ErrRevoked)))
        })
   }"

definition refresh_revalidate ::
  "('w, 'a) Engine \<Rightarrow> ctx \<Rightarrow> 'a RefreshGrant \<Rightarrow> time \<Rightarrow> ('w, TokenResponse result) state" where
  "refresh_revalidate e ctx grant now =
     (let unavailable = (\<lambda>cause. refresh_failed e ctx ''identity_revalidation'' grant
            (rg_Scopes grant) cause
            (oauthError ErrorTemporary ''identity could not be revalidated'' 503 (Some cause)))
      in do {
       v \<leftarrow> en_Revalidator e ctx (p_Subject (rg_Principal grant));
       (case v of
          Inl err \<Rightarrow> unavailable err
        | Inr revalidation \<Rightarrow>
            if rv_Status revalidation = RevalidationUnknown then unavailable ErrInvalid
            else if rv_Status revalidation = RevalidationIneligible
            then refresh_revoke e ctx grant now ''principal_ineligible''
                   ''identity revocation could not be persisted''
            else if rv_Status revalidation = RevalidationEligible then
              (if p_Subject (rv_Principal revalidation) = [] \<or>
                  p_Subject (rv_Principal revalidation) \<noteq> p_Subject (rg_Principal grant)
               then refresh_denied e ctx ''subject_mismatch'' grant
                      (oauthError ErrorTemporary ''identity could not be revalidated'' 503
                        (Some ErrBinding))
               else refresh_issue e ctx grant now (rv_Principal revalidation))
            else unavailable ErrInvalid)
     })"

definition Engine_Refresh ::
  "('w, 'a) Engine \<Rightarrow> ctx \<Rightarrow> RefreshInput \<Rightarrow> ('w, TokenResponse result) state" where
  "Engine_Refresh e ctx inp =
     (let op = ''refresh''; nobody = zero_Principal (en_zero e)
      in (case NewClientID (rfi_ClientID inp) of
            Inl err \<Rightarrow> denied e ctx op ''invalid_request'' nobody [] [] empty_ScopeSet
              (invalidGrant (Some err))
          | Inr clientID \<Rightarrow>
              if rfi_RefreshToken inp = []
              then denied e ctx op ''invalid_request'' nobody [] [] empty_ScopeSet
                     (invalidGrant None)
              else do {
                g \<leftarrow> store_GetRefreshGrant (en_Store e) (DigestCredential (rfi_RefreshToken inp));
                (case g of
                   Inl err \<Rightarrow> store_read_failed e ctx op err [] clientID []
                     (invalidGrant (Some err))
                 | Inr grant \<Rightarrow> do {
                     now \<leftarrow> Engine_now e;
                     (if \<not> IsZero (rg_RevokedAt grant)
                      then refresh_denied e ctx ''store_revoked'' grant
                             (invalidGrant (Some ErrBinding))
                      else if After now (rg_ExpiresAt grant)
                      then refresh_denied e ctx ''store_expired'' grant
                             (invalidGrant (Some ErrBinding))
                      else if rg_ClientID grant \<noteq> clientID
                      then refresh_denied e ctx ''store_binding'' grant
                             (invalidGrant (Some ErrBinding))
                      else if \<not> IsZero (rg_ConsumedAt grant)
                      then refresh_revoke e ctx grant now ''refresh_replay''
                             ''refresh replay revocation could not be persisted''
                      else refresh_revalidate e ctx grant now)
                   })
              }))"

section \<open>Revoke\<close>

definition Engine_Revoke ::
  "('w, 'a) Engine \<Rightarrow> ctx \<Rightarrow> RevokeInput \<Rightarrow> ('w, go_error option) state" where
  "Engine_Revoke e ctx inp =
     (case NewClientID (rvi_ClientID inp) of
        Inl _ \<Rightarrow> State_Monad.return None
      | Inr clientID \<Rightarrow>
          if rvi_Token inp = [] then State_Monad.return None
          else do {
            g \<leftarrow> store_GetRefreshGrant (en_Store e) (DigestCredential (rvi_Token inp));
            (case g of
               Inl err \<Rightarrow>
                 if errors_Is err ErrNotFound then State_Monad.return None
                 else do {
                   _ \<leftarrow> auditError e ctx ''revoke'' ''store_error'' [] clientID [] empty_ScopeSet err;
                   State_Monad.return (Some err)
                 }
             | Inr grant \<Rightarrow>
                 if rg_ClientID grant \<noteq> clientID then State_Monad.return None
                 else do {
                   now \<leftarrow> Engine_now e;
                   s \<leftarrow> store_RevokeRefreshFamily (en_Store e) (rg_FamilyID grant) now;
                   (case s of
                      Some err \<Rightarrow> do {
                        _ \<leftarrow> auditError e ctx ''revoke'' (storeReasonCode err)
                          (p_Subject (rg_Principal grant)) (rg_ClientID grant) (rg_Resource grant)
                          (rg_Scopes grant) err;
                        State_Monad.return (Some err)
                      }
                    | None \<Rightarrow> do {
                        _ \<leftarrow> audit e ctx ''revoke'' ''success'' (rg_Principal grant)
                          (rg_ClientID grant) (rg_Resource grant) (rg_Scopes grant) [];
                        State_Monad.return None
                      })
                 })
          })"

end
