(* ===== verification/Engine_Rules.thy ===== *)
theory Engine_Rules
  imports World Engine
begin

text \<open>
  Symbolic execution of the engine against the contracts of its dependencies.  \<open>acts\<close> records the
  events and the store calls between two worlds, \<open>traces\<close> is the weakest precondition of an
  operation for a postcondition on its result, its events and its store calls; one rule per
  primitive call and per control construct makes \<open>intro\<close> a verification-condition generator.
\<close>

section \<open>Events and store calls between two worlds\<close>

definition acts ::
  "('w, 'a) Ghost \<Rightarrow> StatePolicy \<Rightarrow> 'a observation list \<Rightarrow> ('a store_call \<times> go_error option) list \<Rightarrow>
   'w \<Rightarrow> 'w \<Rightarrow> bool" where
  "acts g p xs log w w' \<longleftrightarrow>
     gh_ok g w' \<and> gh_obs g w' = gh_obs g w @ xs \<and>
     (\<exists>calls. list_all clock_set calls \<and>
        run (store_step p) calls (gh_view g w) = (log, gh_view g w'))"

lemma run_calls: "run step cs s = (log, s') \<Longrightarrow> cs = map fst log"
  by (induction cs arbitrary: s log) (auto split: prod.splits)

lemma acts_refl: "gh_ok g w \<Longrightarrow> acts g p [] [] w w"
  unfolding acts_def by (simp add: exI [of _ "[]"])

lemma acts_ok: "acts g p xs log w w' \<Longrightarrow> gh_ok g w'"
  by (simp add: acts_def)

lemma acts_obs: "acts g p xs log w w' \<Longrightarrow> gh_obs g w' = gh_obs g w @ xs"
  by (simp add: acts_def)

lemma acts_run:
  "acts g p xs log w w' \<longleftrightarrow> gh_ok g w' \<and> gh_obs g w' = gh_obs g w @ xs \<and>
     list_all clock_set (map fst log) \<and>
     run (store_step p) (map fst log) (gh_view g w) = (log, gh_view g w')"
  unfolding acts_def by (auto dest: run_calls)

lemma acts_view: "acts g p xs [] w w' \<Longrightarrow> gh_view g w' = gh_view g w"
  by (simp add: acts_run)

lemma acts_call:
  "acts g p xs [(c, r)] w w' \<Longrightarrow>
   clock_set c \<and> store_step p c (gh_view g w) = (r, gh_view g w')"
  by (simp add: acts_run split: prod.splits)

lemma acts_logs: "acts g p xs log w w1 \<Longrightarrow> logs g ys w1 w' \<Longrightarrow> acts g p (xs @ ys) log w w'"
  by (simp add: acts_def logs_def)

lemma acts_logs_nil: "acts g p xs log w w1 \<Longrightarrow> logs g [] w1 w' \<Longrightarrow> acts g p xs log w w'"
  using acts_logs [of g p xs log w w1 "[]"] by simp

lemma acts_commit:
  assumes "acts g p xs log w w1" and "gh_ok g w'" and "gh_obs g w' = gh_obs g w1"
    and "clock_set c" and "store_step p c (gh_view g w1) = (r, gh_view g w')"
  shows "acts g p xs (log @ [(c, r)]) w w'"
  using assms by (simp add: acts_run run_append)

section \<open>Symbolic execution\<close>

definition traces ::
  "('w, 'a) Ghost \<Rightarrow> StatePolicy \<Rightarrow> 'w \<Rightarrow> 'a observation list \<Rightarrow>
   ('a store_call \<times> go_error option) list \<Rightarrow> ('w, 'r) state \<Rightarrow>
   ('r \<Rightarrow> 'a observation list \<Rightarrow> ('a store_call \<times> go_error option) list \<Rightarrow> bool) \<Rightarrow> 'w \<Rightarrow> bool" where
  "traces g p w0 xs log m Q w \<longleftrightarrow>
     (acts g p xs log w0 w \<longrightarrow>
        wp m (\<lambda>r w'. \<exists>xs' log'. acts g p xs' log' w0 w' \<and> Q r xs' log') w)"

lemma traces_wp:
  "traces g p w [] [] m Q w \<Longrightarrow> gh_ok g w \<Longrightarrow> run_state m w = (r, w') \<Longrightarrow>
   \<exists>xs log. acts g p xs log w w' \<and> Q r xs log"
  unfolding traces_def by (auto simp: acts_refl dest: wpD)

lemma traces_return: "Q r xs log \<Longrightarrow> traces g p w0 xs log (State_Monad.return r) Q w"
  by (auto simp: traces_def wp_simps)

lemma traces_sum:
  assumes "\<And>e. s = Inl e \<Longrightarrow> traces g p w0 xs log (a e) Q w"
    and "\<And>x. s = Inr x \<Longrightarrow> traces g p w0 xs log (b x) Q w"
  shows "traces g p w0 xs log (case s of Inl e \<Rightarrow> a e | Inr x \<Rightarrow> b x) Q w"
  using assms by (cases s) simp_all

lemma traces_option:
  assumes "s = None \<Longrightarrow> traces g p w0 xs log a Q w"
    and "\<And>x. s = Some x \<Longrightarrow> traces g p w0 xs log (b x) Q w"
  shows "traces g p w0 xs log (case s of None \<Rightarrow> a | Some x \<Rightarrow> b x) Q w"
  using assms by (cases s) simp_all

lemma traces_if:
  assumes "c \<Longrightarrow> traces g p w0 xs log a Q w" and "\<not> c \<Longrightarrow> traces g p w0 xs log b Q w"
  shows "traces g p w0 xs log (if c then a else b) Q w"
  using assms by simp

lemma traces_observes:
  assumes "observes g m h P" and "\<And>r w'. P r \<Longrightarrow> traces g p w0 (xs @ h r) log (f r) Q w'"
  shows "traces g p w0 xs log (State_Monad.bind m f) Q w"
  unfolding traces_def wp_bind
proof
  assume a: "acts g p xs log w0 w"
  show "wp m (\<lambda>r w'. wp (f r)
      (\<lambda>r w'. \<exists>xs' log'. acts g p xs' log' w0 w' \<and> Q r xs' log') w') w"
    by (rule wp_observes [OF assms(1) acts_ok [OF a]])
      (use assms(2) acts_logs [OF a] in \<open>auto simp: traces_def\<close>)
qed

lemma traces_silent:
  assumes "observes g m (\<lambda>_. []) P" and "\<And>r w'. P r \<Longrightarrow> traces g p w0 xs log (f r) Q w'"
  shows "traces g p w0 xs log (State_Monad.bind m f) Q w"
  by (rule traces_observes [OF assms(1)]) (simp add: assms(2))

lemma traces_success:
  assumes "observes g m (on_success h) (whenever P)"
    and "\<And>e w'. traces g p w0 xs log (f (Inl e)) Q w'"
    and "\<And>x w'. P x \<Longrightarrow> traces g p w0 (xs @ h x) log (f (Inr x)) Q w'"
  shows "traces g p w0 xs log (State_Monad.bind m f) Q w"
proof (rule traces_observes [OF assms(1)])
  fix r w'
  assume "whenever P r"
  with assms(2,3) show "traces g p w0 (xs @ on_success h r) log (f r) Q w'"
    by (cases r) simp_all
qed

text \<open>Every read comes before the first call that changes the store.\<close>

lemma traces_reads:
  assumes "reads g m q"
    and "\<And>err w'. q (gh_view g w0) = Inl err \<or> operational err \<Longrightarrow>
      traces g p w0 xs [] (f (Inl err)) Q w'"
    and "\<And>x w'. q (gh_view g w0) = Inr x \<Longrightarrow> traces g p w0 xs [] (f (Inr x)) Q w'"
  shows "traces g p w0 xs [] (State_Monad.bind m f) Q w"
  unfolding traces_def wp_bind
proof
  assume a: "acts g p xs [] w0 w"
  show "wp m (\<lambda>r w'. wp (f r)
      (\<lambda>r w'. \<exists>xs' log'. acts g p xs' log' w0 w' \<and> Q r xs' log') w') w"
  proof (rule wp_reads [OF assms(1) acts_ok [OF a]])
    fix r w'
    assume "logs g [] w w'"
      and r: "r = q (gh_view g w) \<or> (\<exists>err. r = Inl err \<and> operational err)"
    then have "acts g p xs [] w0 w'" using acts_logs_nil [OF a] by simp
    moreover have "traces g p w0 xs [] (f r) Q w'"
      using r assms(2,3) acts_view [OF a] by (metis sum.exhaust)
    ultimately show "wp (f r) (\<lambda>r w'. \<exists>xs' log'. acts g p xs' log' w0 w' \<and> Q r xs' log') w'"
      by (simp add: traces_def)
  qed
qed

lemma traces_commits:
  assumes c: "commits g p C r w w'" and a: "acts g p xs log w0 w"
    and "\<And>c. c \<in> C \<Longrightarrow> traces g p w0 xs (log @ [(c, r)]) m Q w'"
    and "\<And>err. r = Some err \<Longrightarrow> operational err \<Longrightarrow> traces g p w0 xs log m Q w'"
  shows "wp m (\<lambda>r w'. \<exists>xs' log'. acts g p xs' log' w0 w' \<and> Q r xs' log') w'"
proof -
  from c have w': "gh_ok g w'" "gh_obs g w' = gh_obs g w" by (simp_all add: commits_def)
  from c consider (step) c where "c \<in> C" "clock_set c"
      "store_step p c (gh_view g w) = (r, gh_view g w')"
    | (failure) err where "r = Some err" "operational err" "gh_view g w' = gh_view g w"
    unfolding commits_def by blast
  then show ?thesis
  proof cases
    case step
    then show ?thesis using assms(3) [OF step(1)] acts_commit [OF a w'] by (simp add: traces_def)
  next
    case failure
    moreover have "acts g p xs log w0 w'"
      using a w' failure(3) by (intro acts_logs_nil [OF a]) (simp add: logs_def)
    ultimately show ?thesis using assms(4) by (simp add: traces_def)
  qed
qed

lemma traces_writes:
  assumes "writes g p m C"
    and "\<And>c r w'. c \<in> C \<Longrightarrow> traces g p w0 xs (log @ [(c, r)]) (f r) Q w'"
    and "\<And>err w'. operational err \<Longrightarrow> traces g p w0 xs log (f (Some err)) Q w'"
  shows "traces g p w0 xs log (State_Monad.bind m f) Q w"
  unfolding traces_def wp_bind
proof
  assume a: "acts g p xs log w0 w"
  show "wp m (\<lambda>r w'. wp (f r)
      (\<lambda>r w'. \<exists>xs' log'. acts g p xs' log' w0 w' \<and> Q r xs' log') w') w"
    by (rule wp_writes [OF assms(1) acts_ok [OF a]], rule traces_commits [OF _ a])
      (use assms(2,3) in auto)
qed

lemma traces_writes_result:
  fixes m :: "('w, 'b result) state"
  assumes "writes g p (State_Monad.bind m (\<lambda>r. State_Monad.return (result_error r))) C"
    and "\<And>c r w'. c \<in> C \<Longrightarrow> traces g p w0 xs (log @ [(c, result_error r)]) (f r) Q w'"
    and "\<And>err w'. operational err \<Longrightarrow> traces g p w0 xs log (f (Inl err)) Q w'"
  shows "traces g p w0 xs log (State_Monad.bind m f) Q w"
  unfolding traces_def wp_bind
proof
  assume a: "acts g p xs log w0 w"
  then have "wp m (\<lambda>r w'. commits g p C (result_error r) w w') w"
    using assms(1) acts_ok [OF a] unfolding writes_def by (auto simp: wp_simps)
  then show "wp m (\<lambda>r w'. wp (f r)
      (\<lambda>r w'. \<exists>xs' log'. acts g p xs' log' w0 w' \<and> Q r xs' log') w') w"
  proof (rule wp_mono)
    fix r :: "'b result" and w'
    assume "commits g p C (result_error r) w w'"
    then show "wp (f r) (\<lambda>r w'. \<exists>xs' log'. acts g p xs' log' w0 w' \<and> Q r xs' log') w'"
    proof (rule traces_commits [OF _ a])
      fix err
      assume "result_error r = Some err" "operational err"
      with assms(3) show "traces g p w0 xs log (f r) Q w'"
        by (auto simp: result_error_def split: sum.splits)
    qed (rule assms(2))
  qed
qed

text \<open>The control constructs, as rules for \<open>intro\<close>; a constructor selects its branch.\<close>

lemma traces_ctor:
  "traces g p w0 xs log (a err) Q w \<Longrightarrow>
   traces g p w0 xs log (case Inl err of Inl e \<Rightarrow> a e | Inr x \<Rightarrow> b x) Q w"
  "traces g p w0 xs log (b y) Q w \<Longrightarrow>
   traces g p w0 xs log (case Inr y of Inl e \<Rightarrow> a e | Inr x \<Rightarrow> b x) Q w"
  "traces g p w0 xs log c Q w \<Longrightarrow>
   traces g p w0 xs log (case None of None \<Rightarrow> c | Some x \<Rightarrow> d x) Q w"
  "traces g p w0 xs log (d y) Q w \<Longrightarrow>
   traces g p w0 xs log (case Some y of None \<Rightarrow> c | Some x \<Rightarrow> d x) Q w"
  by simp_all

lemmas traces_control = traces_ctor traces_return traces_sum traces_option traces_if


section \<open>The rules of the engine's calls\<close>

abbreviation (input) event ::
  "time \<Rightarrow> string \<Rightarrow> string \<Rightarrow> Subject \<Rightarrow> ClientID \<Rightarrow> ResourceID \<Rightarrow> ScopeSet \<Rightarrow> string \<Rightarrow> ctx \<Rightarrow>
   go_error option \<Rightarrow> AuditEvent" where
  "event t op outcome subject client resource scopes reason ctx cause \<equiv>
     \<lparr>ae_Time = t, ae_Operation = op, ae_Outcome = outcome, ae_Subject = subject,
      ae_ClientID = client, ae_Resource = resource, ae_Scopes = scopes, ae_ReasonCode = reason,
      ae_RequestID = FromContext ctx, ae_Cause = cause\<rparr>"

text \<open>The answer to a request that is refused: an \<open>OAuthError\<close> with the status of its code, one
  audit event of the operation at its end and none before, and no store call that succeeded
  except the benign ones.\<close>

fun is_audit :: "'a observation \<Rightarrow> bool" where
  "is_audit (Audited ev) = True"
| "is_audit _ = False"

fun benign :: "'a store_call \<Rightarrow> bool" where
  "benign (TouchClient cid at) = True"
| "benign (RevokeRefreshFamily f at) = True"
| "benign _ = False"

definition refusal ::
  "ctx \<Rightarrow> string \<Rightarrow> go_error \<Rightarrow> 'a observation list \<Rightarrow> ('a store_call \<times> go_error option) list \<Rightarrow> bool"
where
  "refusal ctx op err xs log \<longleftrightarrow>
     public_error err \<and> list_all (\<lambda>(c, r). r \<noteq> None \<or> benign c) log \<and>
     (\<exists>ys ev. xs = ys @ [Audited ev] \<and> list_all (\<lambda>x. \<not> is_audit x) ys \<and>
        ae_Operation ev = op \<and> ae_Outcome ev \<in> {''denied'', ''error'', ''revoked''} \<and>
        ae_RequestID ev = FromContext ctx \<and> 0 < ae_Time ev)"

lemma refusalI:
  "public_error err \<Longrightarrow> list_all (\<lambda>(c, r). r \<noteq> None \<or> benign c) log \<Longrightarrow>
   list_all (\<lambda>x. \<not> is_audit x) ys \<Longrightarrow> ae_Operation ev = op \<Longrightarrow>
   ae_Outcome ev \<in> {''denied'', ''error'', ''revoked''} \<Longrightarrow> ae_RequestID ev = FromContext ctx \<Longrightarrow>
   0 < ae_Time ev \<Longrightarrow> refusal ctx op err (ys @ [Audited ev]) log"
  unfolding refusal_def by blast

context engine_world
begin

abbreviation "policy \<equiv> cfg_StatePolicy (en_config e)"

lemma traces_now:
  assumes "\<And>t w'. 0 < t \<Longrightarrow> traces g p w0 xs log (f t) Q w'"
  shows "traces g p w0 xs log (State_Monad.bind (Engine_now e) f) Q w"
  unfolding Engine_now_def using now by (rule traces_silent) (rule assms)

lemma traces_event:
  assumes "\<And>t w'. 0 < t \<Longrightarrow> traces g p w0 (xs @ [Audited (ev t)]) log (f ()) Q w'"
  shows "traces g p w0 xs log (State_Monad.bind
     (State_Monad.bind (Engine_now e) (\<lambda>t. en_Audit e ctx (ev t))) f) Q w"
  unfolding State_Monad.bind_assoc
proof (rule traces_now)
  fix t w'
  assume "0 < (t :: time)"
  from assms [OF this]
  show "traces g p w0 xs log (State_Monad.bind (en_Audit e ctx (ev t)) f) Q w'"
    by (intro traces_observes [OF record_event]) simp
qed

lemma traces_audit:
  assumes "\<And>t w'. 0 < t \<Longrightarrow> traces g p w0
     (xs @ [Audited (event t op outcome (p_Subject princ) client resource scopes reason ctx None)])
     log (f ()) Q w'"
  shows "traces g p w0 xs log
     (State_Monad.bind (audit e ctx op outcome princ client resource scopes reason) f) Q w"
  unfolding audit_def by (rule traces_event) (rule assms)

lemma traces_auditDenied:
  assumes "\<And>t w'. 0 < t \<Longrightarrow> traces g p w0
     (xs @ [Audited (event t op ''denied'' (p_Subject princ) client resource scopes reason ctx None)])
     log (f ()) Q w'"
  shows "traces g p w0 xs log
     (State_Monad.bind (auditDenied e ctx op reason princ client resource scopes) f) Q w"
  unfolding auditDenied_def by (rule traces_event) (rule assms)

lemma traces_auditError:
  assumes "\<And>t w'. 0 < t \<Longrightarrow> traces g p w0
     (xs @ [Audited (event t op ''error'' subject client resource scopes reason ctx (Some cause))])
     log (f ()) Q w'"
  shows "traces g p w0 xs log
     (State_Monad.bind (auditError e ctx op reason subject client resource scopes cause) f) Q w"
  unfolding auditError_def by (rule traces_event) (rule assms)

lemma traces_denied:
  assumes "\<And>t. 0 < t \<Longrightarrow> Q (Inl err)
     (xs @ [Audited (event t op ''denied'' (p_Subject princ) client resource scopes reason ctx None)])
     log"
  shows "traces g p w0 xs log (denied e ctx op reason princ client resource scopes err) Q w"
  unfolding denied_def by (intro traces_auditDenied traces_return assms)

lemma traces_failed:
  assumes "\<And>t. 0 < t \<Longrightarrow> Q (Inl err)
     (xs @ [Audited (event t op ''error'' subject client resource scopes reason ctx (Some cause))])
     log"
  shows "traces g p w0 xs log (failed e ctx op reason subject client resource scopes cause err) Q w"
  unfolding failed_def by (intro traces_auditError traces_return assms)

lemma traces_completed:
  assumes "\<And>t. 0 < t \<Longrightarrow> Q (Inr r)
     (xs @ [Audited (event t op outcome (p_Subject princ) client resource scopes [] ctx None)])
     log"
  shows "traces g p w0 xs log (completed e ctx op outcome princ client resource scopes r) Q w"
  unfolding completed_def by (intro traces_audit traces_return assms)

lemma traces_read_failed:
  assumes "\<And>t. 0 < t \<Longrightarrow> isExpectedStoreDenial cause \<Longrightarrow> Q (Inl err) (xs @ [Audited
      (event t op ''denied'' subject client resource empty_ScopeSet (storeReasonCode cause) ctx None)])
      log"
    and "\<And>t. 0 < t \<Longrightarrow> \<not> isExpectedStoreDenial cause \<Longrightarrow> Q (Inl err) (xs @ [Audited
      (event t op ''error'' subject client resource empty_ScopeSet (storeReasonCode cause) ctx
        (Some cause))]) log"
  shows "traces g p w0 xs log (store_read_failed e ctx op cause subject client resource err) Q w"
  unfolding store_read_failed_def auditStoreRead_def
  by (cases "isExpectedStoreDenial cause")
    (auto intro!: traces_auditDenied traces_auditError traces_return assms)

lemmas traces_reports = traces_denied traces_failed traces_completed traces_read_failed

lemmas traces_gets =
  traces_reads [OF get_client] traces_reads [OF get_authorization] traces_reads [OF get_consent]
  traces_reads [OF get_code] traces_reads [OF get_grant]

lemmas traces_others =
  traces_success [OF lookup_resource] traces_success [OF available_scopes]
  traces_success [OF revalidate] traces_success [OF issue_token]
  traces_success [OF draw_client [unfolded draws_def]]
  traces_success [OF draw_transaction [unfolded draws_def]]
  traces_success [OF draw_consent [unfolded draws_def]]
  traces_success [OF draw_code [unfolded draws_def]]
  traces_success [OF draw_refresh [unfolded draws_def]]
  traces_success [OF draw_family [unfolded draws_def]]

lemmas traces_changes =
  traces_writes [OF register_client] traces_writes [OF touch_client]
  traces_writes [OF create_authorization] traces_writes [OF commit_login]
  traces_writes_result [OF commit_consent] traces_writes [OF commit_exchange]
  traces_writes [OF commit_rotation] traces_writes [OF revoke_family]

lemmas traces_rules = traces_control traces_now traces_audit traces_auditError traces_reports
  traces_gets traces_others traces_changes

end

end
