(* ===== verification/Engine_Traces.thy ===== *)
theory Engine_Traces
  imports Engine_Rules
begin

text \<open>
  What each operation of the engine does, on every path: its result, its events and its store
  calls, from the contracts of the dependencies alone.
\<close>

text \<open>Simplifying a generated condition.\<close>

lemmas refusal_simps = mapStoreError_def error_ctor_defs

lemma zero_Principal_Subject [simp]: "p_Subject (zero_Principal z) = []"
  by (simp add: zero_Principal_def)

lemma NewSubject_nonempty [simp]: "NewSubject [] \<noteq> Inr s"
  by (auto simp: NewSubject_def newIdentifier_Inr)

lemma snapshotClient_None [simp]: "snapshotClient client redirect = None \<longleftrightarrow> url_Parse redirect = None"
  by (simp add: snapshotClient_def)

lemma login_consent_Token [simp]: "cs_Token (login_consent config princ auth allowed t now snap) = t"
  by (simp add: login_consent_def)

lemma NewAuthorizationCode_nonempty [simp]: "NewAuthorizationCode [] \<noteq> Inr s"
  by (auto simp: NewAuthorizationCode_def newOpaque_Inr)

lemma result_error_simps [simp]: "result_error (Inl err) = Some err" "result_error (Inr x) = None"
  by (simp_all add: result_error_def)

lemma consent_code_Digest:
  "ac_Digest (consent_code config consent selected rawCode t) = DigestCredential rawCode"
  by (simp add: consent_code_def)

lemma redirectResult_ok [simp]:
  "url_Parse base = Some u \<Longrightarrow> NewAuthorizationCode rawCode = Inr rawCode \<Longrightarrow>
   redirectResult base state_text decision rawCode \<noteq> Inl err"
  "url_Parse base = Some u \<Longrightarrow> redirectResult base state_text ConsentDecisionDeny rawCode \<noteq> Inl err"
  by (auto simp: redirectResult_def Let_def decision_defs split: if_splits)

lemma redirectResult_None:
  "redirectResult base state_text decision rawCode = Inl err \<Longrightarrow>
   decision = ConsentDecisionDeny \<or> NewAuthorizationCode rawCode = Inr rawCode \<Longrightarrow>
   url_Parse base = None"
  by (cases "url_Parse base") auto

lemma register_redirects_error:
  "register_redirects config rs raws = Inl err \<Longrightarrow> public_error err"
  by (induction config rs raws rule: register_redirects.induct)
    (auto split: sum.splits if_splits)

lemma register_scopes_error: "register_scopes config requested = Inl err \<Longrightarrow> public_error err"
  by (auto simp: register_scopes_def split: sum.splits if_splits)

context engine_world
begin

lemma exchange_traces:
  "traces g policy w [] [] (Engine_ExchangeCode e ctx inp)
     (\<lambda>r xs log. case r of
        Inl err \<Rightarrow> refusal ctx ''exchange_code'' err xs log
      | Inr tok \<Rightarrow> \<exists>client redirect code t0 t t' access refresh family t1 t2.
          NewClientID (eci_ClientID inp) = Inr client \<and>
          NewRedirectURI (eci_RedirectURI inp) = Inr redirect \<and>
          Mem_GetCodeForExchange
            \<lparr>ceb_Digest = DigestCredential (eci_Code inp), ceb_ClientID = client,
             ceb_RedirectURI = redirect, ceb_CodeVerifier = eci_CodeVerifier inp\<rparr>
            (gh_view g w) = Inr code \<and>
          PKCE_Verify (ac_PKCEChallenge code) (eci_CodeVerifier inp) = None \<and>
          t0 \<le> ac_ExpiresAt code \<and> 0 < t0 \<and>
          tok = \<lparr>tok_AccessToken = ia_Value access, tok_TokenType = ia_TokenType access,
             tok_ExpiresIn = time_Sub (ia_ExpiresAt access) t, tok_RefreshToken = refresh,
             tok_Scopes = ac_Scopes code\<rparr> \<and>
          log = [(CommitCodeExchange t1 t2 \<lparr>cec_CodeDigest = ac_Digest code,
             cec_Refresh = Some (exchange_grant code refresh family)\<rparr>, None)] \<and>
          xs = [Issued \<lparr>ag_Principal = ac_Principal code, ag_ClientID = ac_ClientID code,
                  ag_Resource = ac_Resource code, ag_Scopes = ac_Scopes code, ag_IssuedAt = t,
                  ag_ExpiresAt = time_Add t (cfg_AccessTTL (en_config e))\<rparr> access,
                Drawn refresh, Drawn family,
                Audited (event t' ''exchange_code'' ''success'' (p_Subject (ac_Principal code))
                  (ac_ClientID code) (ac_Resource code) (ac_Scopes code) [] ctx None)]) w"
  unfolding Engine_ExchangeCode_def exchange_issue_def exchange_store_def Let_def
  by (intro traces_rules; (simp only: sum.case);
      ((rule refusalI; auto simp: refusal_simps; fail) | (auto simp: not_less; fail)))

lemma refresh_traces:
  "traces g policy w [] [] (Engine_Refresh e ctx inp)
     (\<lambda>r xs log. case r of
        Inl err \<Rightarrow> refusal ctx ''refresh'' err xs log
      | Inr tok \<Rightarrow> \<exists>grant t t' princ scopes access next t1 t2.
          Mem_GetRefreshGrant (DigestCredential (rfi_RefreshToken inp)) (gh_view g w) = Inr grant \<and>
          NewClientID (rfi_ClientID inp) = Inr (rg_ClientID grant) \<and>
          rg_RevokedAt grant = 0 \<and> rg_ConsumedAt grant = 0 \<and>
          0 < t \<and> t \<le> rg_ExpiresAt grant \<and>
          p_Subject princ = p_Subject (rg_Principal grant) \<and>
          tok = \<lparr>tok_AccessToken = ia_Value access, tok_TokenType = ia_TokenType access,
             tok_ExpiresIn = time_Sub (ia_ExpiresAt access) t, tok_RefreshToken = next,
             tok_Scopes = scopes\<rparr> \<and>
          log = [(CommitRefreshRotation t1 t2
             \<lparr>rr_CurrentDigest = rg_Digest grant, rr_FamilyID = rg_FamilyID grant,
              rr_Generation = rg_Generation grant,
              rr_Successor = refresh_successor grant princ scopes next\<rparr>, None)] \<and>
          xs = [Issued \<lparr>ag_Principal = princ, ag_ClientID = rg_ClientID grant,
                  ag_Resource = rg_Resource grant, ag_Scopes = scopes, ag_IssuedAt = t,
                  ag_ExpiresAt = time_Add t (cfg_AccessTTL (en_config e))\<rparr> access,
                Drawn next,
                Audited (event t' ''refresh'' ''success'' (p_Subject princ)
                  (rg_ClientID grant) (rg_Resource grant) scopes [] ctx None)] \<and>
          (\<exists>available. scopes_wf available \<and> scopes = Intersect (rg_Scopes grant) available)) w"
  unfolding Engine_Refresh_def refresh_revalidate_def refresh_revoke_def refresh_issue_def
    refresh_store_def refresh_failed_def refresh_denied_def Let_def
  by (intro traces_rules; (simp only: sum.case);
      ((rule refusalI; auto simp: refusal_simps; fail) | (auto simp: not_less; fail)))

lemma revoke_traces:
  "traces g policy w [] [] (Engine_Revoke e ctx inp)
     (\<lambda>r xs log. case r of
        Some err \<Rightarrow> (\<exists>ev. xs = [Audited ev] \<and> ae_Operation ev = ''revoke'' \<and>
          ae_Outcome ev = ''error'' \<and> ae_Cause ev = Some err) \<and> list_all (\<lambda>(c, r). r \<noteq> None) log
      | None \<Rightarrow> xs = [] \<and> log = [] \<or>
          (\<exists>grant t ev.
            Mem_GetRefreshGrant (DigestCredential (rvi_Token inp)) (gh_view g w) = Inr grant \<and>
            NewClientID (rvi_ClientID inp) = Inr (rg_ClientID grant) \<and> 0 < t \<and>
            log = [(RevokeRefreshFamily (rg_FamilyID grant) t, None)] \<and>
            xs = [Audited ev] \<and> ae_Operation ev = ''revoke'' \<and> ae_Outcome ev = ''success'')) w"
  unfolding Engine_Revoke_def Let_def
  by (intro traces_rules; auto; fail)

lemma register_traces:
  "traces g policy w [] [] (Engine_RegisterClient e ctx inp)
     (\<lambda>r xs log. case r of
        Inl err \<Rightarrow> public_error err \<and> xs = [] \<and> log = [] \<or> refusal ctx ''register_client'' err xs log
      | Inr client \<Rightarrow> \<exists>t t' t1.
          rci_DisplayName inp \<noteq> [] \<and>
          int (length (rci_DisplayName inp)) \<le> rp_MaxDisplayName (sp_Registration policy) \<and>
          int (length (rci_RedirectURIs inp)) \<le> rp_MaxRedirectURIs (sp_Registration policy) \<and>
          register_redirects (en_config e) [] (rci_RedirectURIs inp) = Inr (cl_RedirectURIs client) \<and>
          rci_RedirectURIs inp \<noteq> [] \<and>
          register_scopes (en_config e) (rci_RequestedScopes inp) = Inr (cl_AllowedScopes client) \<and>
          NewClientID (cl_ID client) = Inr (cl_ID client) \<and> 0 < t \<and>
          client = \<lparr>cl_ID = cl_ID client, cl_DisplayName = rci_DisplayName inp,
            cl_Trust = ClientTrustUnverified, cl_RedirectURIs = cl_RedirectURIs client,
            cl_AllowedScopes = cl_AllowedScopes client, cl_CreatedAt = t, cl_LastUsedAt = t\<rparr> \<and>
          log = [(RegisterClient t1 client, None)] \<and>
          xs = [Drawn (cl_ID client), Audited (event t' ''register_client'' ''success'' []
            (cl_ID client) [] (cl_AllowedScopes client) [] ctx None)]) w"
  unfolding Engine_RegisterClient_def Let_def
  by (intro traces_rules; (simp only: sum.case)?;
      ((rule disjI2, rule refusalI; auto simp: refusal_simps; fail) | (auto simp: not_less register_redirects_error register_scopes_error)))

lemma begin_traces:
  "traces g policy w [] [] (Engine_BeginAuthorization e ctx inp)
     (\<lambda>r xs log. case r of
        Inl err \<Rightarrow> refusal ctx ''begin_authorization'' err xs log
      | Inr res \<Rightarrow> \<exists>client redirect challenge requested resource token cid t0 t t' t1.
          NewClientID (bai_ClientID inp) = Inr cid \<and>
          NewRedirectURI (bai_RedirectURI inp) = Inr redirect \<and> validRedirectURI redirect True \<and>
          NewPKCEChallenge (bai_CodeChallenge inp) (bai_ChallengeMethod inp) = Inr challenge \<and>
          NewScopeSet (stringsToScopes (bai_Scopes inp)) = Inr requested \<and>
          NewResourceID (bai_Resource inp) = Inr resource \<and>
          bai_ResponseType inp = ''code'' \<and> bai_State inp \<noteq> [] \<and>
          Mem_GetClient cid (gh_view g w) = Inr client \<and>
          containsRedirect (cl_RedirectURIs client) redirect \<and>
          IsSubsetOf requested (cl_AllowedScopes client) \<and>
          IsSubsetOf requested (cfg_SupportedScopes (en_config e)) \<and>
          log = [(TouchClient (cl_ID client) t0, None),
            (CreateAuthorization t1 \<lparr>at_Token = token, at_ClientID = cid, at_RedirectURI = redirect,
               at_State = bai_State inp, at_PKCEChallenge = challenge,
               at_RequestedScopes = requested, at_Resource = resource,
               at_ExpiresAt = time_Add t (cfg_TransactionTTL (en_config e)),
               at_ConsumedAt = 0\<rparr>, None)] \<and>
          xs = [Drawn token, Audited (event t' ''begin_authorization'' ''success'' [] cid resource
            requested [] ctx None)] \<and>
          res = \<lparr>bar_Transaction = token, bar_LoginContext = \<lparr>lc_Transaction = token,
            lc_ClientID = cid, lc_RedirectURI = redirect, lc_State = bai_State inp\<rparr>\<rparr>) w"
  unfolding Engine_BeginAuthorization_def begin_authorize_def begin_create_def Let_def
  by (intro traces_rules; (simp only: sum.case)?;
      ((rule refusalI; auto simp: refusal_simps; fail) | (auto simp: not_less register_redirects_error register_scopes_error)))

lemma login_traces:
  "traces g policy w [] [] (Engine_CompleteLogin e ctx inp)
     (\<lambda>r xs log. case r of
        Inl err \<Rightarrow> refusal ctx ''complete_login'' err xs log \<or>
          (\<exists>auth. Mem_GetAuthorization (DigestCredential (cli_Transaction inp)) (gh_view g w) =
             Inr auth \<and> url_Parse (at_RedirectURI auth) = None) \<and> log = []
      | Inr res \<Rightarrow> \<exists>auth client snapshot allowed t t' t1 t2.
          Mem_GetAuthorization (DigestCredential (cli_Transaction inp)) (gh_view g w) = Inr auth \<and>
          Mem_GetClient (at_ClientID auth) (gh_view g w) = Inr client \<and>
          containsRedirect (cl_RedirectURIs client) (at_RedirectURI auth) \<and>
          snapshotClient client (at_RedirectURI auth) = Some snapshot \<and>
          p_Subject (cli_Principal inp) \<noteq> [] \<and>
          log = [(CommitLogin t1 t2
             \<lparr>lco_TransactionDigest = DigestCredential (cli_Transaction inp),
              lco_Consent = login_consent (en_config e) (cli_Principal inp) auth allowed
                (clr_ConsentToken res) t snapshot\<rparr>, None)] \<and>
          xs = [Drawn (clr_ConsentToken res), Audited (event t' ''complete_login'' ''success''
            (p_Subject (cli_Principal inp)) (at_ClientID auth) (at_Resource auth) allowed [] ctx
            None)] \<and>
          clr_ConsentURL res = ''/oauth/consent?token='' @ QueryEscape (clr_ConsentToken res) \<and>
          (\<exists>supported available. scopes_wf supported \<and> scopes_wf available \<and>
             allowed = Intersect (Intersect (Intersect (at_RequestedScopes auth)
               (cl_AllowedScopes client)) supported) available)) w"
  unfolding Engine_CompleteLogin_def login_authorize_def login_commit_def login_store_def Let_def
  by (intro traces_rules; (simp only: sum.case)?;
      ((rule disjI1, rule refusalI; auto simp: refusal_simps; fail) | (auto simp: not_less)))

lemma consent_view_traces:
  "traces g policy w [] [] (Engine_ConsentView e ctx token)
     (\<lambda>r xs log. xs = [] \<and> log = [] \<and> (case r of
        Inl err \<Rightarrow> public_error err
      | Inr v \<Rightarrow> \<exists>consent t.
          Mem_GetConsent (DigestCredential token) (gh_view g w) = Inr consent \<and>
          0 < t \<and> t \<le> cs_ExpiresAt consent \<and> cv_Token v = token \<and>
          cv_PrincipalName v = p_DisplayName (cs_Principal consent) \<and>
          cv_PrincipalEmail v = p_Email (cs_Principal consent) \<and>
          cv_ClientName v = snap_DisplayName (cs_Client consent) \<and>
          cv_ClientTrust v = snap_Trust (cs_Client consent) \<and>
          cv_RedirectOrigin v = snap_RedirectOrigin (cs_Client consent) \<and>
          cv_RedirectURI v = snap_RedirectURI (cs_Client consent) \<and>
          cv_AccessTokenTTL v = cfg_AccessTTL (en_config e) \<and>
          cv_AuthorizationEnds v = cs_AuthorizationEnds consent \<and>
          map csc_Scope (cv_Scopes v) = ScopeSet_Values (cs_AllowedScopes consent))) w"
  unfolding Engine_ConsentView_def
  by (intro traces_rules; auto simp: not_less comp_def)

lemma validate_redirect_traces:
  "traces g policy w [] [] (Engine_ValidateRedirect e clientIDRaw redirectRaw)
     (\<lambda>r xs log. xs = [] \<and> log = [] \<and> (case r of
        Inl err \<Rightarrow> True
      | Inr trusted \<Rightarrow> \<exists>cid client.
          NewClientID clientIDRaw = Inr cid \<and> Mem_GetClient cid (gh_view g w) = Inr client \<and>
          NewRedirectURI redirectRaw = Inr (tr_uri trusted) \<and>
          validRedirectURI (tr_uri trusted) True \<and>
          containsRedirect (cl_RedirectURIs client) (tr_uri trusted))) w"
  unfolding Engine_ValidateRedirect_def
  by (intro traces_rules; auto)

lemma decide_traces:
  "traces g policy w [] [] (Engine_DecideConsent e ctx inp)
     (\<lambda>r xs log. case r of
        Inl err \<Rightarrow> refusal ctx ''decide_consent'' err xs log \<or>
          (\<exists>consent. Mem_GetConsent (DigestCredential (dci_Token inp)) (gh_view g w) = Inr consent \<and>
             url_Parse (snap_RedirectURI (cs_Client consent)) = None) \<and>
          (\<exists>t1 t2 c. log = [(CommitConsent t1 t2 c, None)] \<and>
             (cco_Decision c = ConsentDecisionDeny \<or>
              dci_Decision inp = ConsentDecisionApprove \<and>
              (\<exists>rawCode. xs = [Drawn rawCode] \<and>
                 ac_Digest (cco_Code c) = DigestCredential rawCode)))
      | Inr res \<Rightarrow> \<exists>consent selected t t' t1 t2 rawCode.
          Mem_GetConsent (DigestCredential (dci_Token inp)) (gh_view g w) = Inr consent \<and>
          NewScopeSet (dci_SelectedScopes inp) = Inr selected \<and>
          redirectResult (snap_RedirectURI (cs_Client consent)) (cs_State consent)
            (dci_Decision inp) rawCode = Inr (dcr_RedirectURI res) \<and>
          (dci_Decision inp = ConsentDecisionApprove \<and>
           IsSubsetOf selected (cs_AllowedScopes consent) \<and>
           log = [(CommitConsent t1 t2
              \<lparr>cco_ConsentDigest = DigestCredential (dci_Token inp),
               cco_Code = consent_code (en_config e) consent selected rawCode t,
               cco_Decision = dci_Decision inp\<rparr>, None)] \<and>
           xs = [Drawn rawCode, Audited (event t' ''decide_consent'' ''approved''
             (p_Subject (cs_Principal consent)) (snap_ID (cs_Client consent))
             (cs_Resource consent) selected [] ctx None)] \<or>
           dci_Decision inp = ConsentDecisionDeny \<and> rawCode = [] \<and>
           log = [(CommitConsent t1 t2
              \<lparr>cco_ConsentDigest = DigestCredential (dci_Token inp),
               cco_Code = zero_AuthorizationCodeRecord (en_zero e),
               cco_Decision = dci_Decision inp\<rparr>, None)] \<and>
           xs = [Audited (event t' ''decide_consent'' ''denied''
             (p_Subject (cs_Principal consent)) (snap_ID (cs_Client consent))
             (cs_Resource consent) selected [] ctx None)])) w"
  unfolding Engine_DecideConsent_def consent_decide_def consent_commit_def Let_def
  by (intro traces_rules; (simp only: sum.case)?;
      ((rule disjI1, rule refusalI; auto simp: refusal_simps; fail) |
       (rule disjI2; auto simp: valueOrEmpty_def consent_code_Digest intro: redirectResult_None; fail) |
       (auto simp: not_less valueOrEmpty_def; fail)))

end

end
