(* ===== verification/Engine_System.thy ===== *)
theory Engine_System
  imports Engine_Traces Families Capacity Single_Use
begin

text \<open>
  The engine as a system that serves a sequence of requests.  \<open>serve\<close> dispatches a request to its
  operation, \<open>served\<close> also returns the events that the request produced.  Every request is a
  sequence of steps of the abstract store, so what holds of the store along every sequence of
  calls holds of the engine along every sequence of requests.
\<close>

datatype 'a request =
    RegisterReq ctx RegisterClientInput
  | ValidateRedirectReq string string
  | BeginReq ctx BeginAuthorizationInput
  | LoginReq ctx "'a CompleteLoginInput"
  | ConsentViewReq ctx ConsentToken
  | DecideReq ctx DecideConsentInput
  | ExchangeReq ctx ExchangeCodeInput
  | RefreshReq ctx RefreshInput
  | RevokeReq ctx RevokeInput

datatype response =
    Failed go_error
  | Registered Client
  | Trusted TrustedRedirect
  | Begun BeginAuthorizationResult
  | LoggedIn CompleteLoginResult
  | Viewed ConsentViewData
  | Decided DecideConsentResult
  | TokensIssued TokenResponse
  | Revoked

definition respond :: "('r \<Rightarrow> response) \<Rightarrow> 'r result \<Rightarrow> response" where
  "respond f r = (case r of Inl err \<Rightarrow> Failed err | Inr x \<Rightarrow> f x)"

definition revoke_response :: "go_error option \<Rightarrow> response" where
  "revoke_response r = (case r of None \<Rightarrow> Revoked | Some err \<Rightarrow> Failed err)"

fun serve :: "('w, 'a) Engine \<Rightarrow> 'a request \<Rightarrow> 'w \<Rightarrow> response \<times> 'w" where
  "serve e (RegisterReq ctx inp) w = apfst (respond Registered) (run_state (Engine_RegisterClient e ctx inp) w)"
| "serve e (ValidateRedirectReq cid uri) w =
     apfst (respond Trusted) (run_state (Engine_ValidateRedirect e cid uri) w)"
| "serve e (BeginReq ctx inp) w = apfst (respond Begun) (run_state (Engine_BeginAuthorization e ctx inp) w)"
| "serve e (LoginReq ctx inp) w = apfst (respond LoggedIn) (run_state (Engine_CompleteLogin e ctx inp) w)"
| "serve e (ConsentViewReq ctx token) w = apfst (respond Viewed) (run_state (Engine_ConsentView e ctx token) w)"
| "serve e (DecideReq ctx inp) w = apfst (respond Decided) (run_state (Engine_DecideConsent e ctx inp) w)"
| "serve e (ExchangeReq ctx inp) w = apfst (respond TokensIssued) (run_state (Engine_ExchangeCode e ctx inp) w)"
| "serve e (RefreshReq ctx inp) w = apfst (respond TokensIssued) (run_state (Engine_Refresh e ctx inp) w)"
| "serve e (RevokeReq ctx inp) w =
     apfst revoke_response (run_state (Engine_Revoke e ctx inp) w)"

definition served ::
  "('w, 'a) Engine \<Rightarrow> ('w, 'a) Ghost \<Rightarrow> 'a request \<Rightarrow> 'w \<Rightarrow> (response \<times> 'a observation list) \<times> 'w" where
  "served e g req w =
     (case serve e req w of (resp, w') \<Rightarrow>
        ((resp, drop (length (gh_obs g w)) (gh_obs g w')), w'))"

lemma respond_simps [simp]: "respond f (Inl err) = Failed err" "respond f (Inr x) = f x"
  by (simp_all add: respond_def)

text \<open>The request that may issue or spend a code, with what it answered.\<close>

fun mints_code ::
  "CredentialDigest \<Rightarrow> 'a request \<Rightarrow> response \<times> 'a observation list \<Rightarrow> bool" where
  "mints_code d (DecideReq ctx inp) (resp, xs) =
     (dci_Decision inp = ConsentDecisionApprove \<and>
      list_ex (\<lambda>x. case x of Drawn v \<Rightarrow> DigestCredential v = d | _ \<Rightarrow> False) xs)"
| "mints_code d _ _ = False"

fun redeems_code ::
  "CredentialDigest \<Rightarrow> 'a request \<Rightarrow> response \<times> 'a observation list \<Rightarrow> bool" where
  "redeems_code d (ExchangeReq ctx inp) (TokensIssued tok, xs) = (DigestCredential (eci_Code inp) = d)"
| "redeems_code d _ _ = False"

fun mints_grant ::
  "CredentialDigest \<Rightarrow> 'a request \<Rightarrow> response \<times> 'a observation list \<Rightarrow> bool" where
  "mints_grant d (ExchangeReq ctx inp) (TokensIssued tok, xs) =
     (DigestCredential (tok_RefreshToken tok) = d)"
| "mints_grant d (RefreshReq ctx inp) (TokensIssued tok, xs) =
     (DigestCredential (tok_RefreshToken tok) = d)"
| "mints_grant d _ _ = False"

fun redeems_grant ::
  "CredentialDigest \<Rightarrow> 'a request \<Rightarrow> response \<times> 'a observation list \<Rightarrow> bool" where
  "redeems_grant d (RefreshReq ctx inp) (TokensIssued tok, xs) =
     (DigestCredential (rfi_RefreshToken inp) = d)"
| "redeems_grant d _ _ = False"

section \<open>The store calls of a request\<close>

definition mints :: "'a request \<Rightarrow> response \<times> 'a observation list \<Rightarrow>
    ('a store_call \<times> go_error option) list \<Rightarrow> bool" where
  "mints req r log \<longleftrightarrow>
     list_all (\<lambda>(c, s). \<forall>d. (issues_code d c s \<longrightarrow> mints_code d req r) \<and>
        (issues_grant d c s \<longrightarrow> mints_grant d req r)) log"

definition redeems :: "'a request \<Rightarrow> response \<times> 'a observation list \<Rightarrow>
    ('a store_call \<times> go_error option) list \<Rightarrow> bool" where
  "redeems req r log \<longleftrightarrow>
     (\<forall>d. (redeems_code d req r \<longrightarrow> (\<exists>c. log = [(c, None)] \<and> exchanges_code d c None)) \<and>
          (redeems_grant d req r \<longrightarrow> (\<exists>c. log = [(c, None)] \<and> rotates_grant d c None)))"

text \<open>A call that failed, or a benign one, issues nothing.\<close>

lemma quiet_call [simp]:
  "\<not> issues_code d c (Some err)" "\<not> issues_grant d c (Some err)"
  "benign c \<Longrightarrow> \<not> issues_code d c r" "benign c \<Longrightarrow> \<not> issues_grant d c r"
  by (cases c; cases r; simp)+

lemma mints_quiet: "list_all (\<lambda>(c, r). r \<noteq> None \<or> benign c) log \<Longrightarrow> mints req r log"
  unfolding mints_def by (induction log) auto

lemma mints_count:
  "mints req r log \<Longrightarrow> \<not> mints_code d req r \<Longrightarrow> count_events (issues_code d) log = 0"
  "mints req r log \<Longrightarrow> \<not> mints_grant d req r \<Longrightarrow> count_events (issues_grant d) log = 0"
  unfolding mints_def by (induction log) auto

lemma mints_refusal: "refusal ctx op err xs log \<Longrightarrow> mints req r log"
  by (rule mints_quiet) (simp add: refusal_def)

lemma redeems_failed [simp]: "redeems req (Failed err, xs) log"
  by (cases req) (simp_all add: redeems_def)

lemma code_of_digest:
  "Mem_GetCodeForExchange b s = Inr code \<Longrightarrow> maps_wf s \<Longrightarrow> ac_Digest code = ceb_Digest b"
  by (auto simp: Mem_GetCodeForExchange_def dest: maps_wf_code split: option.splits if_splits)

lemma grant_of_digest:
  "Mem_GetRefreshGrant d s = Inr grant \<Longrightarrow> maps_wf s \<Longrightarrow> rg_Digest grant = d"
  by (auto simp: Mem_GetRefreshGrant_def dest: maps_wf_grant split: option.splits)

definition accounted :: "'a request \<Rightarrow> ('r \<Rightarrow> response) \<Rightarrow> 'r \<Rightarrow> 'a observation list \<Rightarrow>
    ('a store_call \<times> go_error option) list \<Rightarrow> bool" where
  "accounted req f r xs log \<longleftrightarrow> mints req (f r, xs) log \<and> redeems req (f r, xs) log"

lemma accounted_refusal [intro]: "refusal ctx op err xs log \<Longrightarrow> accounted req (respond f) (Inl err) xs log"
  by (simp add: accounted_def mints_refusal)

lemma accounted_quiet [simp]: "accounted req (respond f) (Inl err) xs []"
  by (simp add: accounted_def mints_def)

lemmas accounted_defs = accounted_def mints_def redeems_def

lemma traces_mono:
  "traces g p w0 xs log m Q w \<Longrightarrow> (\<And>r xs log. Q r xs log \<Longrightarrow> Q' r xs log) \<Longrightarrow>
   traces g p w0 xs log m Q' w"
  unfolding traces_def by (blast intro: wp_mono)

lemma result_cases:
  assumes "case r of Inl err \<Rightarrow> A err | Inr x \<Rightarrow> B x"
  obtains (failure) err where "r = Inl err" "A err" | (success) x where "r = Inr x" "B x"
  using assms by (cases r) auto

lemmas issue_simps = exchange_grant_def refresh_successor_def consent_code_Digest

context engine_world
begin

lemma exchange_accounted:
  assumes "maps_wf (gh_view g w)"
  shows "traces g policy w [] [] (Engine_ExchangeCode e ctx inp)
    (accounted (ExchangeReq ctx inp) (respond TokensIssued)) w"
  by (rule traces_mono [OF exchange_traces], erule result_cases, hypsubst, erule accounted_refusal)
    (use assms in \<open>auto simp: accounted_defs issue_simps dest: code_of_digest\<close>)

lemma refresh_accounted:
  assumes "maps_wf (gh_view g w)"
  shows "traces g policy w [] [] (Engine_Refresh e ctx inp)
    (accounted (RefreshReq ctx inp) (respond TokensIssued)) w"
  by (rule traces_mono [OF refresh_traces], erule result_cases, hypsubst, erule accounted_refusal)
    (use assms in \<open>auto simp: accounted_defs issue_simps dest: grant_of_digest\<close>)

lemma register_accounted:
  "traces g policy w [] [] (Engine_RegisterClient e ctx inp)
    (accounted (RegisterReq ctx inp) (respond Registered)) w"
  by (rule traces_mono [OF register_traces], erule result_cases, hypsubst, erule disjE)
    (simp, erule accounted_refusal, clarify, simp (no_asm) add: accounted_defs)

lemma begin_accounted:
  "traces g policy w [] [] (Engine_BeginAuthorization e ctx inp)
    (accounted (BeginReq ctx inp) (respond Begun)) w"
  by (rule traces_mono [OF begin_traces], erule result_cases, hypsubst, erule accounted_refusal)
    (auto simp: accounted_defs)

lemma login_accounted:
  "traces g policy w [] [] (Engine_CompleteLogin e ctx inp)
    (accounted (LoginReq ctx inp) (respond LoggedIn)) w"
  by (rule traces_mono [OF login_traces], erule result_cases, hypsubst, erule disjE,
      erule accounted_refusal) (auto simp: accounted_defs)

lemma view_accounted:
  "traces g policy w [] [] (Engine_ConsentView e ctx token)
    (accounted (ConsentViewReq ctx token) (respond Viewed)) w"
  by (rule traces_mono [OF consent_view_traces]) (auto simp: accounted_defs)

lemma validate_accounted:
  "traces g policy w [] [] (Engine_ValidateRedirect e cid uri)
    (accounted (ValidateRedirectReq cid uri) (respond Trusted)) w"
  by (rule traces_mono [OF validate_redirect_traces]) (auto simp: accounted_defs)

lemma decide_accounted:
  "traces g policy w [] [] (Engine_DecideConsent e ctx inp)
    (accounted (DecideReq ctx inp) (respond Decided)) w"
  by (rule traces_mono [OF decide_traces], erule result_cases, hypsubst, erule disjE,
      erule accounted_refusal) (auto simp: accounted_defs issue_simps decision_defs)

lemma revoke_accounted:
  "traces g policy w [] [] (Engine_Revoke e ctx inp)
    (accounted (RevokeReq ctx inp) revoke_response) w"
proof (rule traces_mono [OF revoke_traces])
  fix r :: "go_error option" and xs :: "'a observation list"
    and log :: "('a store_call \<times> go_error option) list"
  assume "case r of
      Some err \<Rightarrow> (\<exists>ev. xs = [Audited ev] \<and> ae_Operation ev = ''revoke'' \<and>
        ae_Outcome ev = ''error'' \<and> ae_Cause ev = Some err) \<and> list_all (\<lambda>(c, r). r \<noteq> None) log
    | None \<Rightarrow> xs = [] \<and> log = [] \<or>
        (\<exists>grant t ev.
          Mem_GetRefreshGrant (DigestCredential (rvi_Token inp)) (gh_view g w) = Inr grant \<and>
          NewClientID (rvi_ClientID inp) = Inr (rg_ClientID grant) \<and> 0 < t \<and>
          log = [(RevokeRefreshFamily (rg_FamilyID grant) t, None)] \<and>
          xs = [Audited ev] \<and> ae_Operation ev = ''revoke'' \<and> ae_Outcome ev = ''success'')"
  then have "list_all (\<lambda>(c, r). r \<noteq> None \<or> benign c) log"
    by (cases r) (auto elim: list.pred_mono_strong)
  then show "accounted (RevokeReq ctx inp) revoke_response r xs log"
    by (simp add: accounted_def mints_quiet redeems_def)
qed

text \<open>A postcondition on the answer, the events and the store calls of an operation is one of the
  request that it serves.\<close>

lemma served_traces:
  assumes "traces g policy w [] [] m (\<lambda>r. Q (f r)) w" and "gh_ok g w"
    and "serve e req w = apfst f (run_state m w)" and "served e g req w = ((resp, xs), w')"
  shows "\<exists>log. acts g policy xs log w w' \<and> Q resp xs log"
proof -
  obtain r w1 where r: "run_state m w = (r, w1)" by fastforce
  with assms(3,4) have w1: "resp = f r" "w1 = w'" and xs: "xs = drop (length (gh_obs g w)) (gh_obs g w')"
    by (auto simp: served_def)
  obtain ys log where ys: "acts g policy ys log w w'" "Q (f r) ys log"
    using traces_wp [OF assms(1,2) r] w1 by blast
  with xs have "xs = ys" by (simp add: acts_obs)
  with w1 ys show ?thesis by auto
qed

text \<open>Whatever the request, its events and its store calls account for its answer.\<close>

lemma served_by:
  assumes "traces g policy w [] [] m (accounted req f) w" and "gh_ok g w"
    and "served e g req w = ((resp, xs), w')" and "serve e req w = apfst f (run_state m w)"
  shows "\<exists>log. acts g policy xs log w w' \<and> mints req (resp, xs) log \<and> redeems req (resp, xs) log"
  using served_traces [of w m "\<lambda>resp xs log. mints req (resp, xs) log \<and> redeems req (resp, xs) log" f]
    assms unfolding accounted_def by blast

lemma served_acts:
  assumes "served e g req w = ((resp, xs), w')" and "gh_ok g w" and "maps_wf (gh_view g w)"
  shows "\<exists>log. acts g policy xs log w w' \<and> mints req (resp, xs) log \<and> redeems req (resp, xs) log"
  using assms(1)
  by (cases req)
    (auto intro: served_by [OF register_accounted assms(2)]
      served_by [OF validate_accounted assms(2)] served_by [OF begin_accounted assms(2)]
      served_by [OF login_accounted assms(2)] served_by [OF view_accounted assms(2)]
      served_by [OF decide_accounted assms(2)] served_by [OF revoke_accounted assms(2)]
      served_by [OF exchange_accounted [OF assms(3)] assms(2)]
      served_by [OF refresh_accounted [OF assms(3)] assms(2)])

lemma acts_maps_wf: "acts g policy xs log w w' \<Longrightarrow> maps_wf (gh_view g w) \<Longrightarrow> maps_wf (gh_view g w')"
  unfolding acts_run by (rule code_use.inv_run) auto

definition sound :: "'w \<Rightarrow> bool" where
  "sound w \<longleftrightarrow> gh_ok g w \<and> maps_wf (gh_view g w)"

lemma served_sound: "sound w \<Longrightarrow> served e g req w = (r, w') \<Longrightarrow> sound w'"
  using served_acts [of req w "fst r" "snd r" w'] acts_maps_wf
  by (auto simp: sound_def dest: acts_ok)

lemma served_code_issue:
  assumes "sound w" and "served e g req w = (r, w')" and "code_live (gh_view g w') d"
  shows "code_live (gh_view g w) d \<or> mints_code d req r"
proof (rule ccontr)
  assume no: "\<not> ?thesis"
  obtain log where acts: "acts g policy (snd r) log w w'" and mints: "mints req r log"
    using served_acts [of req w "fst r" "snd r" w'] assms(1,2) by (auto simp: sound_def)
  from mints no have "count_events (issues_code d) log = 0" by (simp add: mints_count)
  with code_use.potential_run [of "gh_view g w" "map fst log" policy log "gh_view g w'" d] acts no
    assms(1,3)
  show False by (simp add: acts_run sound_def)
qed

lemma served_grant_issue:
  assumes "sound w" and "served e g req w = (r, w')" and "grant_live (gh_view g w') d"
  shows "grant_live (gh_view g w) d \<or> mints_grant d req r"
proof (rule ccontr)
  assume no: "\<not> ?thesis"
  obtain log where acts: "acts g policy (snd r) log w w'" and mints: "mints req r log"
    using served_acts [of req w "fst r" "snd r" w'] assms(1,2) by (auto simp: sound_def)
  from mints no have "count_events (issues_grant d) log = 0" by (simp add: mints_count)
  with grant_use.potential_run [of "gh_view g w" "map fst log" policy log "gh_view g w'" d] acts no
    assms(1,3)
  show False by (simp add: acts_run sound_def)
qed

lemma served_spend:
  assumes "sound w" and "served e g req w = (r, w')"
  shows "redeems_code d req r \<Longrightarrow> code_live (gh_view g w) d \<and> \<not> code_live (gh_view g w') d"
    and "redeems_grant d req r \<Longrightarrow> grant_live (gh_view g w) d \<and> \<not> grant_live (gh_view g w') d"
proof -
  obtain log where acts: "acts g policy (snd r) log w w'" and "redeems req r log"
    using served_acts [of req w "fst r" "snd r" w'] assms by (auto simp: sound_def)
  then have call: "log = [(c, None)] \<Longrightarrow>
      clock_set c \<and> store_step policy c (gh_view g w) = (None, gh_view g w')" for c
    using acts_call by fastforce
  show "code_live (gh_view g w) d \<and> \<not> code_live (gh_view g w') d" if "redeems_code d req r"
  proof -
    from that \<open>redeems req r log\<close> obtain c where c: "log = [(c, None)]" "exchanges_code d c None"
      by (auto simp: redeems_def)
    from assms(1) call [OF c(1)] have "maps_wf (gh_view g w)" "clock_set c"
      and "store_step policy c (gh_view g w) = (None, gh_view g w')" by (simp_all add: sound_def)
    with code_use.spend_live [OF this c(2)] code_use.spend_kills [OF this c(2)] show ?thesis by simp
  qed
  show "grant_live (gh_view g w) d \<and> \<not> grant_live (gh_view g w') d" if "redeems_grant d req r"
  proof -
    from that \<open>redeems req r log\<close> obtain c where c: "log = [(c, None)]" "rotates_grant d c None"
      by (auto simp: redeems_def)
    from assms(1) call [OF c(1)] have "maps_wf (gh_view g w)" "clock_set c"
      and "store_step policy c (gh_view g w) = (None, gh_view g w')" by (simp_all add: sound_def)
    with grant_use.spend_live [OF this c(2)] grant_use.spend_kills [OF this c(2)] show ?thesis by simp
  qed
qed

end

text \<open>So codes and refresh tokens are one-shot credentials of the engine itself.\<close>

sublocale engine_world \<subseteq> codes: one_shot "served e g" "\<lambda>_. True" sound
    "\<lambda>w. code_live (gh_view g w)" mints_code redeems_code
  by unfold_locales (auto intro: served_sound dest: served_code_issue served_spend)

sublocale engine_world \<subseteq> grants: one_shot "served e g" "\<lambda>_. True" sound
    "\<lambda>w. grant_live (gh_view g w)" mints_grant redeems_grant
  by unfold_locales (auto intro: served_sound dest: served_grant_issue served_spend)

context engine_world
begin

lemma codes_once:
  "sound w \<Longrightarrow> count_events (redeems_code d) (fst (run (served e g) requests w)) \<le>
     count_events (mints_code d) (fst (run (served e g) requests w)) +
     (if code_live (gh_view g w) d then 1 else 0)"
  using codes.potential_run [of w requests _ _ d]
  by (cases "run (served e g) requests w") (fastforce simp: list_all_iff)

lemma grants_once:
  "sound w \<Longrightarrow> count_events (redeems_grant d) (fst (run (served e g) requests w)) \<le>
     count_events (mints_grant d) (fst (run (served e g) requests w)) +
     (if grant_live (gh_view g w) d then 1 else 0)"
  using grants.potential_run [of w requests _ _ d]
  by (cases "run (served e g) requests w") (fastforce simp: list_all_iff)

end

end
