(* ===== verification/Go_Format.thy ===== *)
theory Go_Format
  imports Go_Strings
begin

text \<open>
  The decimal verbs of \<open>fmt.Sprintf\<close> that the program uses: \<open>%d\<close> and \<open>%0<width>d\<close> for numbers
  that are not negative.
\<close>

definition digit :: "int \<Rightarrow> char" where
  "digit d = char_of (48 + d mod 10)"

function decimal :: "int \<Rightarrow> string" where
  "decimal n = (if n < 10 then [digit n] else decimal (n div 10) @ [digit n])"
  by pat_completeness auto
termination
  by (relation "measure nat") auto

declare decimal.simps [simp del]

definition padded :: "nat \<Rightarrow> int \<Rightarrow> string" where
  "padded width n = (let s = decimal n in replicate (width - length s) (CHR ''0'') @ s)"

definition is_digit :: "char \<Rightarrow> bool" where
  "is_digit c \<longleftrightarrow> 48 \<le> (of_char c :: int) \<and> (of_char c :: int) \<le> 57"

lemma of_char_digit [simp]: "(of_char (digit d) :: int) = 48 + d mod 10"
proof -
  have "(of_char (char_of (48 + d mod 10) :: char) :: int) = (48 + d mod 10) mod 256"
    by (simp add: of_char_of)
  also have "\<dots> = 48 + d mod 10"
  proof (rule mod_pos_pos_trivial)
    show "48 + d mod 10 < 256" using pos_mod_bound [of 10 d] by simp
  qed simp
  finally show ?thesis by (simp add: digit_def)
qed

lemma is_digit_digit [simp]: "is_digit (digit d)"
  using pos_mod_bound [of 10 d] pos_mod_sign [of 10 d] by (simp add: is_digit_def)

lemma decimal_digits: "\<forall>c \<in> set (decimal n). is_digit c"
proof (induction n rule: decimal.induct)
  case (1 n)
  then show ?case by (subst decimal.simps) auto
qed

lemma decimal_nonempty [simp]: "decimal n \<noteq> []"
  by (subst decimal.simps) simp

lemma is_digit_0 [simp]: "is_digit (CHR ''0'')"
  by (simp add: is_digit_def)

lemma padded_digits: "\<forall>c \<in> set (padded w n). is_digit c"
  using decimal_digits [of n] by (auto simp: padded_def Let_def)

lemma padded_length_ge: "w \<le> length (padded w n)"
  by (simp add: padded_def Let_def)

lemma decimal_length_le: "n < 10 ^ Suc k \<Longrightarrow> length (decimal n) \<le> Suc k"
proof (induction k arbitrary: n)
  case 0
  then show ?case by (subst decimal.simps) simp
next
  case (Suc k)
  show ?case
  proof (cases "n < 10")
    case True
    then show ?thesis by (subst decimal.simps) simp
  next
    case False
    have "n div 10 < 10 ^ Suc k" using Suc.prems by simp
    from Suc.IH [OF this] False show ?thesis by (subst decimal.simps) simp
  qed
qed

lemma padded_length: "n < 10 ^ Suc k \<Longrightarrow> Suc k \<le> w \<Longrightarrow> length (padded w n) = w"
  using decimal_length_le [of n k] by (simp add: padded_def Let_def)

text \<open>Reading the digits back.\<close>

definition digit_value :: "char \<Rightarrow> int" where
  "digit_value c = of_char c - 48"

fun decimal_value :: "int \<Rightarrow> string \<Rightarrow> int" where
  "decimal_value acc [] = acc"
| "decimal_value acc (c # s) = decimal_value (10 * acc + digit_value c) s"

lemma decimal_value_append: "decimal_value acc (s @ t) = decimal_value (decimal_value acc s) t"
  by (induction s arbitrary: acc) auto

lemma decimal_value_decimal: "0 \<le> n \<Longrightarrow> decimal_value 0 (decimal n) = n"
proof (induction n rule: decimal.induct)
  case (1 n)
  then show ?case
    by (subst decimal.simps) (auto simp: decimal_value_append digit_value_def)
qed

lemma decimal_value_padded [simp]: "0 \<le> n \<Longrightarrow> decimal_value 0 (padded w n) = n"
proof -
  assume "0 \<le> n"
  moreover have "decimal_value 0 (replicate k (CHR ''0'') @ s) = decimal_value 0 s" for k s
    by (induction k) (auto simp: digit_value_def)
  ultimately show ?thesis by (simp add: padded_def Let_def decimal_value_decimal)
qed

lemma padded_inj: "0 \<le> m \<Longrightarrow> 0 \<le> n \<Longrightarrow> padded w m = padded w n \<longleftrightarrow> m = n"
  by (metis decimal_value_padded)

end
