(* ===== verification/Fixtures.thy ===== *)
theory Fixtures
  imports Engine_System Go_Format
begin

text \<open>
  \<open>pkg/memorytest/fixtures.go\<close>: the in-memory dependencies, and the in-memory store as a
  \<open>StorePort\<close>.  The world holds what they keep: the store, the clock and the two counters, and
  as a history variable the events that the contracts speak about.  Every contract of World.thy
  is interpreted on them.
\<close>

record 'a World =
  w_store :: "'a Store"
  w_clock :: time
  w_secrets :: "64 word"
  w_tokens :: "64 word"
  w_obs :: "'a observation list"

definition world_ghost :: "('a World, 'a) Ghost" where
  "world_ghost = \<lparr>gh_view = w_store, gh_obs = w_obs, gh_ok = (\<lambda>w. 0 < w_clock w)\<rparr>"

definition observe :: "'a observation \<Rightarrow> 'a World \<Rightarrow> 'a World" where
  "observe x w = w\<lparr>w_obs := w_obs w @ [x]\<rparr>"

section \<open>Clock, secrets, policies and tokens\<close>

definition Clock_Now :: "('a World, time) state" where
  "Clock_Now = State (\<lambda>w. (w_clock w, w))"

definition Clock_Advance :: "duration \<Rightarrow> ('a World, unit) state" where
  "Clock_Advance d = State (\<lambda>w. ((), w\<lparr>w_clock := time_Add (w_clock w) d\<rparr>))"

definition secret_value :: "string \<Rightarrow> 'a World \<Rightarrow> string \<times> 'a World" where
  "secret_value label w =
     (let next = w_secrets w + 1
      in (label @ ''-'' @ padded 40 (uint next), w\<lparr>w_secrets := next\<rparr>))"

text \<open>A constructor applied to the next value; the history records what is handed out.\<close>

definition secret :: "(string \<Rightarrow> string result) \<Rightarrow> string \<Rightarrow> ('a World, string result) state" where
  "secret new label = State (\<lambda>w.
     (case secret_value label w of (v, w') \<Rightarrow>
        (case new v of Inl err \<Rightarrow> (Inl err, w') | Inr s \<Rightarrow> (Inr s, observe (Drawn s) w'))))"

definition Secrets :: "'a World SecretPort" where
  "Secrets =
     \<lparr>secrets_NewClientID = secret NewClientID ''client'',
      secrets_NewTransactionToken = secret NewTransactionToken ''tx'',
      secrets_NewConsentToken = secret NewConsentToken ''consent'',
      secrets_NewAuthorizationCode = secret NewAuthorizationCode ''code'',
      secrets_NewRefreshToken = secret NewRefreshToken ''refresh'',
      secrets_NewRefreshFamilyID = secret NewRefreshFamilyID ''family''\<rparr>"

definition ScopePolicy :: "ScopeSet \<Rightarrow> ('a World, 'a) ScopePort" where
  "ScopePolicy available ctx princ resource = State_Monad.return (Inr available)"

text \<open>A Go method that returns a value and an error: a non-nil error wins.\<close>

definition Revalidator :: "'a Revalidation \<Rightarrow> go_error option \<Rightarrow> ('a World, 'a) RevalidatorPort" where
  "Revalidator rv err ctx subject =
     State_Monad.return (case err of None \<Rightarrow> Inr rv | Some e \<Rightarrow> Inl e)"

definition TokenService :: "string \<Rightarrow> go_error option \<Rightarrow> ('a World, 'a) TokenPort" where
  "TokenService issuer err =
     \<lparr>tokens_TokenIssuer = State_Monad.return issuer,
      tokens_IssueAccessToken = (\<lambda>ctx grant.
        (case err of
           Some e \<Rightarrow> State_Monad.return (Inl e)
         | None \<Rightarrow> State (\<lambda>w.
             (let next = w_tokens w + 1;
                  token = \<lparr>ia_Value = ''access-'' @ decimal (uint next), ia_TokenType = ''Bearer'',
                    ia_ExpiresAt = ag_ExpiresAt grant\<rparr>
              in (Inr token, observe (Issued grant token) (w\<lparr>w_tokens := next\<rparr>)))))),
      tokens_VerifyAccessToken = (\<lambda>ctx raw resource. State_Monad.return (Inl ErrNotFound)),
      tokens_JWKS = (\<lambda>ctx. State_Monad.return (Inr \<lparr>jwks_Keys = []\<rparr>))\<rparr>"

definition capturingSink :: "'a World AuditPort" where
  "capturingSink ctx ev = State (\<lambda>w. ((), observe (Audited ev) w))"

section \<open>The in-memory store and the static registry as ports\<close>

definition on_store :: "('a Store \<Rightarrow> 'r \<times> 'a Store) \<Rightarrow> ('a World, 'r) state" where
  "on_store f = State (\<lambda>w. (case f (w_store w) of (r, s) \<Rightarrow> (r, w\<lparr>w_store := s\<rparr>)))"

definition read_store :: "('a Store \<Rightarrow> 'r) \<Rightarrow> ('a World, 'r) state" where
  "read_store q = State (\<lambda>w. (q (w_store w), w))"

text \<open>\<open>NewStoreWithClock\<close> with the \<open>Now\<close> of the clock: every reading inside one call is the same.\<close>

definition at_clock :: "(time \<Rightarrow> 'a Store \<Rightarrow> 'r \<times> 'a Store) \<Rightarrow> ('a World, 'r) state" where
  "at_clock f = State_Monad.bind Clock_Now (\<lambda>now. on_store (f now))"

definition memory_port :: "('a World, 'a) StorePort" where
  "memory_port =
     \<lparr>store_RegisterClient = (\<lambda>c p. at_clock (\<lambda>t. Mem_RegisterClient t c p)),
      store_GetClient = (\<lambda>cid. read_store (Mem_GetClient cid)),
      store_TouchClient = (\<lambda>cid at. on_store (Mem_TouchClient cid at)),
      store_CreateAuthorization = (\<lambda>a p. at_clock (\<lambda>t. Mem_CreateAuthorization t a p)),
      store_GetAuthorization = (\<lambda>d. read_store (Mem_GetAuthorization d)),
      store_CommitLogin = (\<lambda>c p. at_clock (\<lambda>t. Mem_CommitLogin t t c p)),
      store_GetConsent = (\<lambda>d. read_store (Mem_GetConsent d)),
      store_CommitConsent = (\<lambda>c p. at_clock (\<lambda>t. Mem_CommitConsent t t c p)),
      store_GetCodeForExchange = (\<lambda>b. read_store (Mem_GetCodeForExchange b)),
      store_CommitCodeExchange = (\<lambda>c p. at_clock (\<lambda>t. Mem_CommitCodeExchange t t c p)),
      store_GetRefreshGrant = (\<lambda>d. read_store (Mem_GetRefreshGrant d)),
      store_CommitRefreshRotation = (\<lambda>r p. at_clock (\<lambda>t. Mem_CommitRefreshRotation t t r p)),
      store_RevokeRefreshFamily = (\<lambda>f at. on_store (Mem_RevokeRefreshFamily f at)),
      store_Prune = (\<lambda>p. at_clock (\<lambda>t. Mem_Prune t p)),
      store_Counts = read_store Mem_Counts\<rparr>"

definition registry_port :: "StaticResourceRegistry \<Rightarrow> 'w ResourcePort" where
  "registry_port r =
     \<lparr>resources_Lookup = (\<lambda>ctx rid. State_Monad.return (LookupResource r rid)),
      resources_List = (\<lambda>ctx. State_Monad.return (ListResources r))\<rparr>"

section \<open>The contracts hold\<close>

lemma world_ghost_simps [simp]:
  "gh_view world_ghost = w_store" "gh_obs world_ghost = w_obs"
  "gh_ok world_ghost w \<longleftrightarrow> 0 < w_clock w"
  by (simp_all add: world_ghost_def)

lemma reads_store [simp]: "reads world_ghost (read_store q) q"
  by (simp add: reads_def read_store_def wp_def logs_def)

lemma wp_on_store: "wp (on_store f) Q w = (case f (w_store w) of (r, s) \<Rightarrow> Q r (w\<lparr>w_store := s\<rparr>))"
  by (simp add: wp_def on_store_def split: prod.splits)

lemma wp_at_clock:
  "wp (at_clock f) Q w = (case f (w_clock w) (w_store w) of (r, s) \<Rightarrow> Q r (w\<lparr>w_store := s\<rparr>))"
  by (simp add: at_clock_def wp_simps wp_on_store) (simp add: wp_def Clock_Now_def)

lemma commits_step:
  assumes "0 < w_clock w" and "c \<in> C" and "clock_set c" and "store_step p c (w_store w) = (r, s)"
  shows "commits world_ghost p C r w (w\<lparr>w_store := s\<rparr>)"
  using assms by (auto simp: commits_def)

lemma writes_on_store:
  "(\<And>s. store_step p c s = f s) \<Longrightarrow> clock_set c \<Longrightarrow> writes world_ghost p (on_store f) {c}"
  by (auto simp: writes_def wp_on_store split: prod.splits intro!: commits_step)

lemma writes_at_clock:
  assumes "\<And>t s. store_step p (c t) s = f t s" and "\<And>t. 0 < t \<Longrightarrow> clock_set (c t)"
    and "\<And>t. c t \<in> C"
  shows "writes world_ghost p (at_clock f) C"
  unfolding writes_def wp_at_clock
proof (clarsimp)
  fix w :: "'a World" and r s
  assume "0 < w_clock w" and "f (w_clock w) (w_store w) = (r, s)"
  with assms show "commits world_ghost p C r w (w\<lparr>w_store := s\<rparr>)"
    by (intro commits_step [of _ "c (w_clock w)"]) simp_all
qed

interpretation memory: store_port memory_port world_ghost p for p
proof
  show "writes world_ghost p (State_Monad.bind (store_CommitConsent memory_port cc p)
     (\<lambda>r. State_Monad.return (result_error r))) {CommitConsent t1 t2 cc | t1 t2. True}" for cc
    by (auto simp: memory_port_def writes_def wp_simps wp_at_clock split: prod.splits
        intro!: commits_step [where c = "CommitConsent t t cc" for t])
  show "writes world_ghost p (store_RegisterClient memory_port c p)
      {RegisterClient t c | t. True}" for c
    by (auto simp: memory_port_def intro!: writes_at_clock [of _ "\<lambda>t. RegisterClient t c"])
  show "writes world_ghost p (store_CreateAuthorization memory_port a p)
      {CreateAuthorization t a | t. True}" for a
    by (auto simp: memory_port_def intro!: writes_at_clock [of _ "\<lambda>t. CreateAuthorization t a"])
  show "writes world_ghost p (store_CommitLogin memory_port lc p)
      {CommitLogin t1 t2 lc | t1 t2. True}" for lc
    by (auto simp: memory_port_def intro!: writes_at_clock [of _ "\<lambda>t. CommitLogin t t lc"])
  show "writes world_ghost p (store_CommitCodeExchange memory_port xc p)
      {CommitCodeExchange t1 t2 xc | t1 t2. True}" for xc
    by (auto simp: memory_port_def intro!: writes_at_clock [of _ "\<lambda>t. CommitCodeExchange t t xc"])
  show "writes world_ghost p (store_CommitRefreshRotation memory_port rr p)
      {CommitRefreshRotation t1 t2 rr | t1 t2. True}" for rr
    by (auto simp: memory_port_def
        intro!: writes_at_clock [of _ "\<lambda>t. CommitRefreshRotation t t rr"])
qed (auto simp: memory_port_def intro!: writes_on_store)

lemma registry_port_contract:
  "registry_wf supported r \<Longrightarrow> resource_port (registry_port r) world_ghost"
  by unfold_locales (auto simp: registry_port_def observes_def wp_simps logs_def whenever_def
      on_success_def dest: LookupResource_wf split: sum.splits)

definition static_registry :: "ResourceConfig list \<Rightarrow> ScopeSet \<Rightarrow> StaticResourceRegistry" where
  "static_registry configs supported =
     (case NewStaticResourceRegistry configs supported of Inl _ \<Rightarrow> [] | Inr r \<Rightarrow> r)"

lemma static_registry_wf: "registry_wf supported (static_registry configs supported)"
  using NewStaticResourceRegistry_wf [of configs supported]
  by (auto simp: static_registry_def registry_wf_def split: sum.splits)

interpretation registry: resource_port "registry_port (static_registry configs supported)" world_ghost
  for configs supported
  by (rule registry_port_contract [OF static_registry_wf])

lemma ScopePolicy_contract: "scopes_wf available \<Longrightarrow> scope_port (ScopePolicy available) world_ghost"
  by unfold_locales (auto simp: ScopePolicy_def observes_def wp_simps logs_def)

definition canonical_scopes :: "string list \<Rightarrow> ScopeSet" where
  "canonical_scopes raw = (case NewScopeSet raw of Inl _ \<Rightarrow> empty_ScopeSet | Inr s \<Rightarrow> s)"

lemma canonical_scopes_wf [simp]: "scopes_wf (canonical_scopes raw)"
  by (auto simp: canonical_scopes_def NewScopeSet_wf split: sum.splits)

interpretation policy: scope_port "ScopePolicy (canonical_scopes raw)" world_ghost for raw
  by (rule ScopePolicy_contract [OF canonical_scopes_wf])

interpretation identity: revalidator_port "Revalidator rv err" world_ghost for rv err
  by unfold_locales
    (auto simp: Revalidator_def observes_def wp_simps logs_def split: option.splits)

interpretation tokens: token_port "TokenService issuer err" world_ghost for issuer err
  by unfold_locales (auto simp: TokenService_def observes_def wp_simps wp_def logs_def Let_def
      observe_def split: option.splits)

interpretation clock: clock_port Clock_Now world_ghost
  by unfold_locales (auto simp: Clock_Now_def observes_def wp_def logs_def)

interpretation sink: audit_port capturingSink world_ghost
  by unfold_locales (auto simp: capturingSink_def observes_def wp_def logs_def observe_def)

lemma draws_secret:
  assumes "\<And>v s. new v = Inr s \<Longrightarrow> new s = Inr s"
  shows "draws world_ghost (secret new label) new"
  using assms
  by (auto simp: draws_def observes_def secret_def secret_value_def wp_def logs_def observe_def
      Let_def split: sum.splits)

lemma newIdentifier_again: "newIdentifier raw name = Inr s \<Longrightarrow> newIdentifier s name = Inr s"
  by (auto simp: newIdentifier_Inr identifierPattern_TrimSpace)

lemma newOpaque_again: "newOpaque raw name = Inr s \<Longrightarrow> newOpaque s name = Inr s"
  by (auto simp: newOpaque_Inr)

interpretation secrets: secret_port Secrets world_ghost
  by unfold_locales (auto simp: Secrets_def newOpaque_ctor_defs NewClientID_def
      intro!: draws_secret newIdentifier_again newOpaque_again)

section \<open>The engine on these dependencies\<close>

definition fixture_engine ::
  "Config \<Rightarrow> string list \<Rightarrow> 'a Revalidation \<Rightarrow> go_error option \<Rightarrow> go_error option \<Rightarrow> 'a \<Rightarrow>
   ('a World, 'a) Engine" where
  "fixture_engine config available rv rv_err token_err zero =
     \<lparr>en_config = config, en_Store = memory_port,
      en_Resources =
        registry_port (static_registry (cfg_Resources config) (cfg_SupportedScopes config)),
      en_Scopes = ScopePolicy (canonical_scopes available), en_Revalidator = Revalidator rv rv_err,
      en_Tokens = TokenService (cfg_Issuer config) token_err, en_Secrets = Secrets,
      en_Clock = Clock_Now, en_Audit = capturingSink, en_zero = zero\<rparr>"

lemma fixture_engine_world:
  "engine_world (fixture_engine config available rv rv_err token_err zero) world_ghost"
  unfolding engine_world_def fixture_engine_def
  by (simp add: memory.store_port_axioms registry.resource_port_axioms policy.scope_port_axioms
      identity.revalidator_port_axioms tokens.token_port_axioms secrets.secret_port_axioms
      clock.clock_port_axioms sink.audit_port_axioms)

interpretation fixture:
  engine_world "fixture_engine config available rv rv_err token_err zero" world_ghost
  for config available rv rv_err token_err zero
  by (rule fixture_engine_world)

end
