(* ===== verification/Session.thy ===== *)
theory Session
  imports Fixtures
begin

text \<open>
  A complete session on the in-memory dependencies, evaluated by the simplifier: registration,
  authorization, login, consent, code exchange, refresh, a replay of the spent refresh token and
  a revocation.  It is the concrete world of the witnesses of the engine's properties.
\<close>

definition demo_scopes :: "string list" where
  "demo_scopes = [''read'', ''write'']"

definition demo_config :: Config where
  "demo_config = DefaultConfig ''https://id.test''
     [\<lparr>rc_ID = ''https://api.test'', rc_DisplayName = ''API'', rc_SupportedScopes = demo_scopes\<rparr>]
     (ScopeSet demo_scopes)"

definition demo_principal :: "unit Principal" where
  "demo_principal = \<lparr>p_Subject = ''alice'', p_DisplayName = ''Alice'', p_Email = ''alice@id.test'',
     p_AuthorizationVersion = 1, p_Attributes = ()\<rparr>"

definition demo_engine :: "(unit World, unit) Engine" where
  "demo_engine = fixture_engine demo_config demo_scopes
     \<lparr>rv_Status = RevalidationEligible, rv_Principal = demo_principal\<rparr> None None ()"

definition demo_world :: "unit World" where
  "demo_world = \<lparr>w_store = NewStore, w_clock = 1000000000000, w_secrets = 0, w_tokens = 0,
     w_obs = []\<rparr>"

definition demo_secret :: "string \<Rightarrow> char \<Rightarrow> string" where
  "demo_secret label n = label @ ''-'' @ replicate 39 (CHR ''0'') @ [n]"

definition demo_redirect :: string where
  "demo_redirect = ''https://app.test/cb''"

definition demo_verifier :: string where
  "demo_verifier = ''verifier-0123456789-abcdefghijklmnopqrstuvwx''"

definition demo_registration :: RegisterClientInput where
  "demo_registration = \<lparr>rci_DisplayName = ''App'', rci_RedirectURIs = [demo_redirect],
     rci_RequestedScopes = []\<rparr>"

definition demo_authorization :: BeginAuthorizationInput where
  "demo_authorization = \<lparr>bai_ClientID = demo_secret ''client'' (CHR ''1''),
     bai_RedirectURI = demo_redirect, bai_ResponseType = ''code'', bai_State = ''xyz'',
     bai_CodeChallenge = ''GRu3eXUpUrCBjfR4N39PZ2b1nrpvUKlkPmAeGlnZnSc'',
     bai_ChallengeMethod = ''S256'', bai_Scopes = [''read''], bai_Resource = ''https://api.test''\<rparr>"

definition demo_login :: "unit CompleteLoginInput" where
  "demo_login = \<lparr>cli_Transaction = demo_secret ''tx'' (CHR ''2''), cli_Principal = demo_principal\<rparr>"

definition demo_decision :: DecideConsentInput where
  "demo_decision = \<lparr>dci_Token = demo_secret ''consent'' (CHR ''3''),
     dci_Decision = ConsentDecisionApprove, dci_SelectedScopes = [''read'']\<rparr>"

definition demo_exchange :: ExchangeCodeInput where
  "demo_exchange = \<lparr>eci_Code = demo_secret ''code'' (CHR ''4''),
     eci_ClientID = demo_secret ''client'' (CHR ''1''), eci_RedirectURI = demo_redirect,
     eci_CodeVerifier = demo_verifier\<rparr>"

definition demo_refresh :: RefreshInput where
  "demo_refresh = \<lparr>rfi_RefreshToken = demo_secret ''refresh'' (CHR ''5''),
     rfi_ClientID = demo_secret ''client'' (CHR ''1'')\<rparr>"

definition demo_revocation :: RevokeInput where
  "demo_revocation = \<lparr>rvi_Token = demo_secret ''refresh'' (CHR ''7''),
     rvi_ClientID = demo_secret ''client'' (CHR ''1'')\<rparr>"

definition demo_requests :: "unit request list" where
  "demo_requests =
     [RegisterReq None demo_registration, BeginReq None demo_authorization, LoginReq None demo_login,
      DecideReq None demo_decision, ExchangeReq None demo_exchange, RefreshReq None demo_refresh,
      RefreshReq None demo_refresh, RevokeReq None demo_revocation]"

fun answered :: "response \<Rightarrow> bool" where
  "answered (Failed err) = False"
| "answered _ = True"

definition demo_step :: "unit request \<Rightarrow> unit World \<Rightarrow> (response \<times> unit observation list) \<times> unit World"
where "demo_step = served demo_engine world_ghost"

text \<open>Every request of the session succeeds, except the replay.\<close>

lemma demo_session:
  "map (\<lambda>(_, (resp, _)). answered resp) (fst (run demo_step demo_requests demo_world)) =
   [True, True, True, True, True, True, False, True]"
  by code_simp

text \<open>The world before each request.\<close>

definition demo_at :: "nat \<Rightarrow> unit World" where
  "demo_at n = snd (run demo_step (take n demo_requests) demo_world)"

lemma run_nth:
  "i < length cs \<Longrightarrow>
   fst (run step cs s) ! i = (cs ! i, fst (step (cs ! i) (snd (run step (take i cs) s))))"
proof (induction cs arbitrary: i s)
  case (Cons c cs)
  then show ?case by (cases i) (simp_all add: fst_run_Cons snd_run_Cons del: run.simps(2))
qed simp

lemma length_run: "length (fst (run step cs s)) = length cs"
  by (induction cs arbitrary: s) (simp_all add: fst_run_Cons del: run.simps(2))

lemma demo_answer:
  assumes "n < 8"
  shows "answered (fst (fst (demo_step (demo_requests ! n) (demo_at n)))) =
    [True, True, True, True, True, True, False, True] ! n"
proof -
  have len: "n < length demo_requests" using assms by (simp add: demo_requests_def)
  then have "map (\<lambda>(_, (resp, _)). answered resp) (fst (run demo_step demo_requests demo_world)) ! n =
      answered (fst (fst (demo_step (demo_requests ! n) (demo_at n))))"
    by (simp add: length_run run_nth demo_at_def split: prod.splits)
  then show ?thesis unfolding demo_session by simp
qed

lemma demo_sound: "0 < w_clock (demo_at n) \<and> maps_wf (w_store (demo_at n))"
proof -
  have "fixture.sound demo_world"
    by (simp add: fixture.sound_def demo_world_def)
  from fixture.codes.inv_run [OF this, of demo_config demo_scopes
      "\<lparr>rv_Status = RevalidationEligible, rv_Principal = demo_principal\<rparr>" None None "()"
      "take n demo_requests"]
  show ?thesis
    by (simp add: fixture.sound_def demo_at_def demo_step_def demo_engine_def prod_eq_iff)
qed

end
