(* ===== verification/Engine_Properties.thy ===== *)
theory Engine_Properties
  imports Session
begin

text \<open>
  The properties of the engine's operations, for any dependencies that keep the contracts of
  World.thy (\<open>engine_world\<close>); the witnesses apply them to the session on the in-memory
  dependencies.
\<close>

lemma demo_contract: "engine_world demo_engine world_ghost"
  unfolding demo_engine_def by (rule fixture_engine_world)

lemma demo_ok [simp]: "0 < w_clock (demo_at n)" "maps_wf (w_store (demo_at n))"
  using demo_sound by simp_all

text \<open>The operations of the session return results.\<close>

lemma answered_run:
  assumes "serve demo_engine req (demo_at n) = apfst (respond f) (run_state m (demo_at n))"
    and "n < 8" and "demo_requests ! n = req"
  shows "answered (fst (fst (demo_step (demo_requests ! n) (demo_at n)))) \<Longrightarrow>
      \<exists>x w'. run_state m (demo_at n) = (Inr x, w')"
    and "\<not> answered (fst (fst (demo_step (demo_requests ! n) (demo_at n)))) \<Longrightarrow>
      (\<And>x. answered (f x)) \<Longrightarrow> \<exists>x w'. run_state m (demo_at n) = (Inl x, w')"
proof -
  obtain r w' where r: "run_state m (demo_at n) = (r, w')" by fastforce
  with assms have "fst (fst (demo_step (demo_requests ! n) (demo_at n))) = respond f r"
    by (simp add: demo_step_def served_def)
  with r show "answered (fst (fst (demo_step (demo_requests ! n) (demo_at n)))) \<Longrightarrow>
      \<exists>x w'. run_state m (demo_at n) = (Inr x, w')"
    and "\<not> answered (fst (fst (demo_step (demo_requests ! n) (demo_at n)))) \<Longrightarrow>
      (\<And>x. answered (f x)) \<Longrightarrow> \<exists>x w'. run_state m (demo_at n) = (Inl x, w')"
    by (cases r; simp)+
qed

lemmas demo_ran = answered_run(1) [OF serve.simps(1), of 0] answered_run(1) [OF serve.simps(3), of 1]
  answered_run(1) [OF serve.simps(4), of 2] answered_run(1) [OF serve.simps(6), of 3]
  answered_run(1) [OF serve.simps(7), of 4] answered_run(1) [OF serve.simps(8), of 5]
  answered_run(2) [OF serve.simps(8), of 6]

lemma demo_run:
  "\<exists>x w'. run_state (Engine_RegisterClient demo_engine None demo_registration) (demo_at 0) = (Inr x, w')"
  "\<exists>x w'. run_state (Engine_BeginAuthorization demo_engine None demo_authorization) (demo_at 1) = (Inr x, w')"
  "\<exists>x w'. run_state (Engine_CompleteLogin demo_engine None demo_login) (demo_at 2) = (Inr x, w')"
  "\<exists>x w'. run_state (Engine_DecideConsent demo_engine None demo_decision) (demo_at 3) = (Inr x, w')"
  "\<exists>x w'. run_state (Engine_ExchangeCode demo_engine None demo_exchange) (demo_at 4) = (Inr x, w')"
  "\<exists>x w'. run_state (Engine_Refresh demo_engine None demo_refresh) (demo_at 5) = (Inr x, w')"
  "\<exists>x w'. run_state (Engine_Refresh demo_engine None demo_refresh) (demo_at 6) = (Inl x, w')"
  by - (rule demo_ran; (simp add: demo_answer; fail | simp add: demo_requests_def))+

section \<open>What a successful commit leaves in the store\<close>

lemma exchange_effect:
  assumes "Mem_CommitCodeExchange t1 t2 c p s = (None, s')" and "maps_wf s"
    and "cec_Refresh c = Some grant"
  obtains code where "gm_get (st_codes s) (cec_CodeDigest c) = Some code" "ac_ConsumedAt code = 0"
    "t2 < ac_ExpiresAt code"
    "gm_get (st_codes s') (cec_CodeDigest c) = Some (code\<lparr>ac_ConsumedAt := t2\<rparr>)"
    "gm_get (st_refresh s') (rg_Digest grant) = Some grant"
proof -
  from assms(1) obtain code refresh where
    c: "gm_get (st_codes (pruned t1 s)) (cec_CodeDigest c) = Some code"
    and "cec_Refresh c = Some refresh" "ValidateCodeExchangeCommit code c t2 = None"
    and "s' = (pruned t1 s)\<lparr>
       st_codes := gm_set (cec_CodeDigest c) (code\<lparr>ac_ConsumedAt := t2\<rparr>) (st_codes (pruned t1 s)),
       st_refresh := gm_set (rg_Digest refresh) refresh (st_refresh (pruned t1 s))\<rparr>"
    by (rule CommitCodeExchange_None)
  with assms(3) that [of code] pruned_getD(1) [OF c assms(2)] show ?thesis
    by (simp add: ValidateCodeExchangeCommit_None)
qed

lemma rotation_effect:
  assumes "Mem_CommitRefreshRotation t1 t2 r p s = (None, s')" and "maps_wf s"
  obtains cur where "gm_get (st_refresh s) (rr_CurrentDigest r) = Some cur"
    "rg_ConsumedAt cur = 0" "rg_RevokedAt cur = 0" "t2 < rg_ExpiresAt cur"
    "IsSubsetOf (rg_Scopes (rr_Successor r)) (rg_Scopes cur)"
    "gm_get (st_refresh s') (rr_CurrentDigest r) = Some (cur\<lparr>rg_ConsumedAt := t2\<rparr>)"
    "gm_get (st_refresh s') (rg_Digest (rr_Successor r)) = Some (rr_Successor r)"
proof -
  from assms(1) obtain cur where
    cur: "gm_get (st_refresh (pruned t1 s)) (rr_CurrentDigest r) = Some cur"
    and "ValidateRefreshRotation cur r t2 = None"
    and "gm_get (st_refresh (pruned t1 s)) (rg_Digest (rr_Successor r)) = None"
    and "s' = (pruned t1 s)\<lparr>st_refresh := gm_set (rg_Digest (rr_Successor r)) (rr_Successor r)
       (gm_set (rr_CurrentDigest r) (cur\<lparr>rg_ConsumedAt := t2\<rparr>) (st_refresh (pruned t1 s)))\<rparr>"
    by (rule CommitRefreshRotation_None)
  moreover from this have "rg_Digest (rr_Successor r) \<noteq> rr_CurrentDigest r" by auto
  ultimately show ?thesis
    using that [of cur] pruned_getD(4) [OF cur assms(2)] by (simp add: ValidateRefreshRotation_None)
qed

lemma login_effect:
  assumes "Mem_CommitLogin t1 t2 c p s = (None, s')" and "maps_wf s"
  obtains auth where "gm_get (st_authorizers s) (lco_TransactionDigest c) = Some auth"
    "at_ConsumedAt auth = 0" "t2 < at_ExpiresAt auth"
    "gm_get (st_authorizers s') (lco_TransactionDigest c) = Some (auth\<lparr>at_ConsumedAt := t2\<rparr>)"
    "gm_get (st_consents s') (DigestCredential (cs_Token (lco_Consent c))) = Some (lco_Consent c)"
proof -
  from assms(1) obtain auth where
    a: "gm_get (st_authorizers (pruned t1 s)) (lco_TransactionDigest c) = Some auth"
    and "ValidateLoginCommit auth (lco_Consent c) t2 = None"
    and "s' = (pruned t1 s)\<lparr>
       st_authorizers := gm_set (lco_TransactionDigest c) (auth\<lparr>at_ConsumedAt := t2\<rparr>)
         (st_authorizers (pruned t1 s)),
       st_consents := gm_set (DigestCredential (cs_Token (lco_Consent c))) (lco_Consent c)
         (st_consents (pruned t1 s))\<rparr>"
    by (rule CommitLogin_None)
  with that [of auth] pruned_getD(2) [OF a assms(2)] show ?thesis
    by (simp add: ValidateLoginCommit_None)
qed

lemma consent_effect:
  assumes "Mem_CommitConsent t1 t2 c p s = (Inr r, s')" and "maps_wf s"
  obtains consent where "gm_get (st_consents s) (cco_ConsentDigest c) = Some consent"
    "cs_ConsumedAt consent = 0" "t2 < cs_ExpiresAt consent"
    "gm_get (st_consents s') (cco_ConsentDigest c) = Some (consent\<lparr>cs_ConsumedAt := t2\<rparr>)"
    "cco_Decision c = ConsentDecisionApprove \<Longrightarrow>
       gm_get (st_codes s') (ac_Digest (cco_Code c)) = Some (cco_Code c)"
    "cco_Decision c = ConsentDecisionDeny \<Longrightarrow> st_codes s' = st_codes (pruned t1 s)"
proof -
  from assms(1) obtain consent where
    c: "gm_get (st_consents (pruned t1 s)) (cco_ConsentDigest c) = Some consent"
    and "ValidateConsentCommit consent c t2 = None"
    and "s' = (pruned t1 s)\<lparr>
       st_consents := gm_set (cco_ConsentDigest c) (consent\<lparr>cs_ConsumedAt := t2\<rparr>)
         (st_consents (pruned t1 s)),
       st_codes := (if cco_Decision c = ConsentDecisionApprove
         then gm_set (ac_Digest (cco_Code c)) (cco_Code c) (st_codes (pruned t1 s))
         else st_codes (pruned t1 s))\<rparr>"
    by (rule CommitConsent_Inr)
  with that [of consent] pruned_getD(3) [OF c assms(2)] show ?thesis
    by (simp add: ValidateConsentCommit_None decision_defs)
qed

lemma step_CommitConsent_None:
  assumes "store_step p (CommitConsent t1 t2 c) s = (None, s')"
  obtains r where "Mem_CommitConsent t1 t2 c p s = (Inr r, s')"
  using store_step_CommitConsent(1) [OF assms] by blast

lemma get_code_found:
  "Mem_GetCodeForExchange b s = Inr code \<Longrightarrow>
   gm_get (st_codes s) (ceb_Digest b) = Some code \<and> ac_ClientID code = ceb_ClientID b \<and>
   ac_RedirectURI code = ceb_RedirectURI b"
  by (auto simp: Mem_GetCodeForExchange_def split: option.splits if_splits)

lemma get_found:
  "Mem_GetRefreshGrant d s = Inr grant \<Longrightarrow> gm_get (st_refresh s) d = Some grant"
  "Mem_GetConsent d s = Inr consent \<Longrightarrow> gm_get (st_consents s) d = Some consent"
  "Mem_GetAuthorization d s = Inr auth \<Longrightarrow> gm_get (st_authorizers s) d = Some auth"
  by (auto simp: Mem_GetRefreshGrant_def Mem_GetConsent_def Mem_GetAuthorization_def
      split: option.splits)

section \<open>Tokens\<close>

text \<open>C3. ExchangeCode.  When it returns tokens, the code existed, was unconsumed and unexpired,
  was issued to this client for this redirect URI, and the verifier matches its PKCE challenge;
  the code is now consumed and the first grant of a new family is stored under the digest of the
  returned refresh token, bound to the code's principal, client, resource, scopes and end of
  authorization; exactly one access token was issued, for the principal, client, resource and
  scopes of the code, and one success was recorded.\<close>

theorem exchange_code_correct:
  assumes "engine_world e g" and "gh_ok g w" and "maps_wf (gh_view g w)"
    and "run_state (Engine_ExchangeCode e ctx inp) w = (Inr tok, w')"
  shows "\<exists>code family access t t' now.
    gm_get (st_codes (gh_view g w)) (DigestCredential (eci_Code inp)) = Some code \<and>
    ac_ConsumedAt code = 0 \<and> 0 < now \<and> now < ac_ExpiresAt code \<and>
    NewClientID (eci_ClientID inp) = Inr (ac_ClientID code) \<and>
    NewRedirectURI (eci_RedirectURI inp) = Inr (ac_RedirectURI code) \<and>
    PKCE_Verify (ac_PKCEChallenge code) (eci_CodeVerifier inp) = None \<and>
    gm_get (st_codes (gh_view g w')) (DigestCredential (eci_Code inp)) =
      Some (code\<lparr>ac_ConsumedAt := now\<rparr>) \<and>
    gm_get (st_refresh (gh_view g w')) (DigestCredential (tok_RefreshToken tok)) =
      Some \<lparr>rg_Digest = DigestCredential (tok_RefreshToken tok), rg_FamilyID = family,
        rg_Generation = 0, rg_ClientID = ac_ClientID code, rg_Principal = ac_Principal code,
        rg_Scopes = ac_Scopes code, rg_Resource = ac_Resource code,
        rg_ExpiresAt = ac_AuthorizationEnds code, rg_ConsumedAt = 0, rg_RevokedAt = 0\<rparr> \<and>
    tok_AccessToken tok = ia_Value access \<and> tok_TokenType tok = ia_TokenType access \<and>
    tok_Scopes tok = ac_Scopes code \<and>
    gh_obs g w' = gh_obs g w @
      [Issued \<lparr>ag_Principal = ac_Principal code, ag_ClientID = ac_ClientID code,
         ag_Resource = ac_Resource code, ag_Scopes = ac_Scopes code, ag_IssuedAt = t,
         ag_ExpiresAt = time_Add t (cfg_AccessTTL (en_config e))\<rparr> access,
       Drawn (tok_RefreshToken tok), Drawn family,
       Audited (event t' ''exchange_code'' ''success'' (p_Subject (ac_Principal code))
         (ac_ClientID code) (ac_Resource code) (ac_Scopes code) [] ctx None)]"
proof -
  obtain xs log client redirect code t0 t t' access refresh family t1 now where
    acts: "acts g (cfg_StatePolicy (en_config e)) xs log w w'"
    and *: "NewClientID (eci_ClientID inp) = Inr client" "NewRedirectURI (eci_RedirectURI inp) = Inr redirect"
      "Mem_GetCodeForExchange
         \<lparr>ceb_Digest = DigestCredential (eci_Code inp), ceb_ClientID = client,
          ceb_RedirectURI = redirect, ceb_CodeVerifier = eci_CodeVerifier inp\<rparr>
         (gh_view g w) = Inr code"
      "PKCE_Verify (ac_PKCEChallenge code) (eci_CodeVerifier inp) = None"
      "tok = \<lparr>tok_AccessToken = ia_Value access, tok_TokenType = ia_TokenType access,
         tok_ExpiresIn = time_Sub (ia_ExpiresAt access) t, tok_RefreshToken = refresh,
         tok_Scopes = ac_Scopes code\<rparr>"
    and log: "log = [(CommitCodeExchange t1 now \<lparr>cec_CodeDigest = ac_Digest code,
         cec_Refresh = Some (exchange_grant code refresh family)\<rparr>, None)]"
    and xs: "xs = [Issued \<lparr>ag_Principal = ac_Principal code, ag_ClientID = ac_ClientID code,
         ag_Resource = ac_Resource code, ag_Scopes = ac_Scopes code, ag_IssuedAt = t,
         ag_ExpiresAt = time_Add t (cfg_AccessTTL (en_config e))\<rparr> access,
       Drawn refresh, Drawn family,
       Audited (event t' ''exchange_code'' ''success'' (p_Subject (ac_Principal code))
         (ac_ClientID code) (ac_Resource code) (ac_Scopes code) [] ctx None)]"
    using traces_wp [OF engine_world.exchange_traces [OF assms(1)] assms(2,4)] by auto
  note found = get_code_found [OF *(3)] code_of_digest [OF *(3) assms(3)]
  from acts log have "0 < now" and
    step: "Mem_CommitCodeExchange t1 now \<lparr>cec_CodeDigest = ac_Digest code,
       cec_Refresh = Some (exchange_grant code refresh family)\<rparr> (cfg_StatePolicy (en_config e))
       (gh_view g w) = (None, gh_view g w')"
    by (auto dest: acts_call)
  show ?thesis
    by (rule exchange_effect [OF step assms(3)], simp)
      (use * found \<open>0 < now\<close> acts_obs [OF acts] xs in \<open>auto simp: exchange_grant_def\<close>)
qed

theorem exchange_code_correct_witness:
  "\<exists>tok w' code. run_state (Engine_ExchangeCode demo_engine None demo_exchange) (demo_at 4) = (Inr tok, w') \<and>
     gm_get (st_codes (w_store w')) (DigestCredential (eci_Code demo_exchange)) = Some code \<and>
     ac_ConsumedAt code \<noteq> 0"
proof -
  obtain tok w' where r: "run_state (Engine_ExchangeCode demo_engine None demo_exchange) (demo_at 4) = (Inr tok, w')"
    using demo_run(5) by blast
  from exchange_code_correct [OF demo_contract _ _ r] show ?thesis
    using r by fastforce
qed

text \<open>C4. Refresh.  When it returns tokens, the presented token is the digest of a stored grant
  of this client that was neither consumed, revoked nor expired; the grant is now consumed and
  its successor stored under the digest of the returned token: same family, client, resource and
  expiry, next generation, the freshly revalidated principal of the same subject, and scopes that
  are a subset of the old ones, which are also the scopes of the issued access token.\<close>

theorem refresh_correct:
  assumes "engine_world e g" and "gh_ok g w" and "maps_wf (gh_view g w)"
    and "run_state (Engine_Refresh e ctx inp) w = (Inr tok, w')"
  shows "\<exists>grant princ access t t' now.
    gm_get (st_refresh (gh_view g w)) (DigestCredential (rfi_RefreshToken inp)) = Some grant \<and>
    NewClientID (rfi_ClientID inp) = Inr (rg_ClientID grant) \<and>
    rg_ConsumedAt grant = 0 \<and> rg_RevokedAt grant = 0 \<and> 0 < now \<and> now < rg_ExpiresAt grant \<and>
    p_Subject princ = p_Subject (rg_Principal grant) \<and>
    IsSubsetOf (tok_Scopes tok) (rg_Scopes grant) \<and>
    gm_get (st_refresh (gh_view g w')) (DigestCredential (rfi_RefreshToken inp)) =
      Some (grant\<lparr>rg_ConsumedAt := now\<rparr>) \<and>
    gm_get (st_refresh (gh_view g w')) (DigestCredential (tok_RefreshToken tok)) =
      Some \<lparr>rg_Digest = DigestCredential (tok_RefreshToken tok), rg_FamilyID = rg_FamilyID grant,
        rg_Generation = rg_Generation grant + 1, rg_ClientID = rg_ClientID grant,
        rg_Principal = princ, rg_Scopes = tok_Scopes tok, rg_Resource = rg_Resource grant,
        rg_ExpiresAt = rg_ExpiresAt grant, rg_ConsumedAt = 0, rg_RevokedAt = 0\<rparr> \<and>
    tok_AccessToken tok = ia_Value access \<and>
    gh_obs g w' = gh_obs g w @
      [Issued \<lparr>ag_Principal = princ, ag_ClientID = rg_ClientID grant,
         ag_Resource = rg_Resource grant, ag_Scopes = tok_Scopes tok, ag_IssuedAt = t,
         ag_ExpiresAt = time_Add t (cfg_AccessTTL (en_config e))\<rparr> access,
       Drawn (tok_RefreshToken tok),
       Audited (event t' ''refresh'' ''success'' (p_Subject princ) (rg_ClientID grant)
         (rg_Resource grant) (tok_Scopes tok) [] ctx None)]"
proof -
  obtain xs log grant t t' princ access t1 now where
    acts: "acts g (cfg_StatePolicy (en_config e)) xs log w w'"
    and *: "Mem_GetRefreshGrant (DigestCredential (rfi_RefreshToken inp)) (gh_view g w) = Inr grant"
      "NewClientID (rfi_ClientID inp) = Inr (rg_ClientID grant)"
      "p_Subject princ = p_Subject (rg_Principal grant)"
      "tok_AccessToken tok = ia_Value access"
    and log: "log = [(CommitRefreshRotation t1 now
       \<lparr>rr_CurrentDigest = rg_Digest grant, rr_FamilyID = rg_FamilyID grant,
        rr_Generation = rg_Generation grant,
        rr_Successor = refresh_successor grant princ (tok_Scopes tok) (tok_RefreshToken tok)\<rparr>,
       None)]"
    and xs: "xs = [Issued \<lparr>ag_Principal = princ, ag_ClientID = rg_ClientID grant,
         ag_Resource = rg_Resource grant, ag_Scopes = tok_Scopes tok, ag_IssuedAt = t,
         ag_ExpiresAt = time_Add t (cfg_AccessTTL (en_config e))\<rparr> access,
       Drawn (tok_RefreshToken tok),
       Audited (event t' ''refresh'' ''success'' (p_Subject princ) (rg_ClientID grant)
         (rg_Resource grant) (tok_Scopes tok) [] ctx None)]"
    using traces_wp [OF engine_world.refresh_traces [OF assms(1)] assms(2,4)] by auto
  note found = get_found(1) [OF *(1)] grant_of_digest [OF *(1) assms(3)]
  from acts log have "0 < now" and
    step: "Mem_CommitRefreshRotation t1 now
       \<lparr>rr_CurrentDigest = rg_Digest grant, rr_FamilyID = rg_FamilyID grant,
        rr_Generation = rg_Generation grant,
        rr_Successor = refresh_successor grant princ (tok_Scopes tok) (tok_RefreshToken tok)\<rparr>
       (cfg_StatePolicy (en_config e)) (gh_view g w) = (None, gh_view g w')"
    by (auto dest: acts_call)
  show ?thesis
    by (rule rotation_effect [OF step assms(3)])
      (use * found \<open>0 < now\<close> acts_obs [OF acts] xs in \<open>auto simp: refresh_successor_def\<close>)
qed

theorem refresh_correct_witness:
  "\<exists>tok w' grant. run_state (Engine_Refresh demo_engine None demo_refresh) (demo_at 5) = (Inr tok, w') \<and>
     gm_get (st_refresh (w_store w')) (DigestCredential (tok_RefreshToken tok)) = Some grant \<and>
     rg_Scopes grant = tok_Scopes tok"
proof -
  obtain tok w' where r: "run_state (Engine_Refresh demo_engine None demo_refresh) (demo_at 5) = (Inr tok, w')"
    using demo_run(6) by blast
  from refresh_correct [OF demo_contract _ _ r] show ?thesis using r by fastforce
qed

text \<open>A call whose run is known, and an operation that only reports.\<close>

lemma run_bind: "run_state m w = (a, w1) \<Longrightarrow> run_state (State_Monad.bind m f) w = run_state (f a) w1"
  by (simp add: State_Monad.bind_def)

lemma reports_only:
  assumes "traces g p w [] [] m (\<lambda>r xs log. log = [] \<and> Q r xs) w" and "gh_ok g w"
    and "run_state m w = (r, w')"
  shows "\<exists>xs. gh_view g w' = gh_view g w \<and> gh_obs g w' = gh_obs g w @ xs \<and> Q r xs"
  using traces_wp [OF assms] by (auto simp: acts_run)

context engine_world
begin

lemma denied_effect:
  assumes "gh_ok g w" and "run_state (denied e ctx op reason princ client resource scopes err) w = (r, w')"
  shows "\<exists>ev. r = Inl err \<and> gh_view g w' = gh_view g w \<and> gh_obs g w' = gh_obs g w @ [Audited ev] \<and>
    ae_ReasonCode ev = reason"
  by (rule exE [OF reports_only [OF traces_denied assms,
        where Q = "\<lambda>r xs. \<exists>ev. r = Inl err \<and> xs = [Audited ev] \<and> ae_ReasonCode ev = reason"]]) auto

lemma failed_effect:
  assumes "gh_ok g w" and "run_state (failed e ctx op reason subject client resource scopes cause err) w = (r, w')"
  shows "\<exists>ev. r = Inl err \<and> gh_view g w' = gh_view g w \<and> gh_obs g w' = gh_obs g w @ [Audited ev] \<and>
    ae_ReasonCode ev = reason \<and> ae_Cause ev = Some cause"
  by (rule exE [OF reports_only [OF traces_failed assms, where Q = "\<lambda>r xs. \<exists>ev. r = Inl err \<and>
      xs = [Audited ev] \<and> ae_ReasonCode ev = reason \<and> ae_Cause ev = Some cause"]]) auto

lemma read_failed_effect:
  assumes "gh_ok g w" and "run_state (store_read_failed e ctx op cause subject client resource err) w = (r, w')"
  shows "\<exists>ev. r = Inl err \<and> gh_view g w' = gh_view g w \<and> gh_obs g w' = gh_obs g w @ [Audited ev]"
  by (rule exE [OF reports_only [OF traces_read_failed assms,
        where Q = "\<lambda>r xs. \<exists>ev. r = Inl err \<and> xs = [Audited ev]"]]) auto

text \<open>The revocation at the end of a replay.\<close>

lemma refresh_revoke_effect:
  assumes "gh_ok g w" and "0 < now" and "run_state (refresh_revoke e ctx grant now reason description) w = (r, w')"
  shows "\<exists>err ev. r = Inl err \<and> gh_obs g w' = gh_obs g w @ [Audited ev] \<and>
    (case run_state (store_RevokeRefreshFamily (en_Store e) (rg_FamilyID grant) now) w of
       (Some cause, _) \<Rightarrow> operational cause \<and> ae_Cause ev = Some cause \<and> gh_view g w' = gh_view g w
     | (None, _) \<Rightarrow> err = invalidGrant (Some ErrRevoked) \<and> ae_ReasonCode ev = reason \<and>
         gh_view g w' = revokeFamily (rg_FamilyID grant) now (gh_view g w))"
proof -
  obtain s w1 where s: "run_state (store_RevokeRefreshFamily (en_Store e) (rg_FamilyID grant) now) w = (s, w1)"
    by fastforce
  have "commits g policy {RevokeRefreshFamily (rg_FamilyID grant) now} s w w1"
    using revoke_family [OF assms(2)] assms(1) wpD [OF _ s] unfolding writes_def by blast
  then have w1: "gh_ok g w1" "gh_obs g w1 = gh_obs g w"
    "s = None \<and> gh_view g w1 = revokeFamily (rg_FamilyID grant) now (gh_view g w) \<or>
     (\<exists>cause. s = Some cause \<and> operational cause \<and> gh_view g w1 = gh_view g w)"
    by (auto simp: commits_def Mem_RevokeRefreshFamily_def)
  note run = assms(3) [unfolded refresh_revoke_def run_bind [OF s]]
  show ?thesis
  proof (cases s)
    case (Some cause)
    with run failed_effect [OF w1(1)] w1 s show ?thesis by (fastforce simp: refresh_failed_def)
  next
    case None
    from run None reports_only [OF traces_audit [OF traces_return,
        where Q = "\<lambda>r xs log. log = [] \<and> r = Inl (invalidGrant (Some ErrRevoked)) \<and>
          (\<exists>ev. xs = [Audited ev] \<and> ae_ReasonCode ev = reason)"] w1(1)]
    show ?thesis using w1 s None by fastforce
  qed
qed

text \<open>A replayed token: what becomes of it depends on the store, the clock and nothing else.\<close>

lemma replay_effect:
  assumes "gh_ok g w" and "Mem_GetRefreshGrant (DigestCredential (rfi_RefreshToken inp)) (gh_view g w) = Inr grant"
    and "NewClientID (rfi_ClientID inp) = Inr (rg_ClientID grant)" and "rfi_RefreshToken inp \<noteq> []"
    and "rg_RevokedAt grant = 0" and "rg_ConsumedAt grant \<noteq> 0"
    and "run_state (Engine_Refresh e ctx inp) w = (r, w')"
  shows "\<exists>err ev. r = Inl err \<and> gh_obs g w' = gh_obs g w @ [Audited ev] \<and>
    (case run_state (store_GetRefreshGrant (en_Store e) (DigestCredential (rfi_RefreshToken inp))) w of
       (Inl cause, _) \<Rightarrow> operational cause \<and> gh_view g w' = gh_view g w
     | (Inr _, w1) \<Rightarrow>
         (case run_state (en_Clock e) w1 of (now, w2) \<Rightarrow>
            if rg_ExpiresAt grant < now
            then err = invalidGrant (Some ErrBinding) \<and> ae_ReasonCode ev = ''store_expired'' \<and> gh_view g w' = gh_view g w
            else
              (case run_state (store_RevokeRefreshFamily (en_Store e) (rg_FamilyID grant) now) w2 of
                 (Some cause, _) \<Rightarrow> operational cause \<and> ae_Cause ev = Some cause \<and> gh_view g w' = gh_view g w
               | (None, _) \<Rightarrow> err = invalidGrant (Some ErrRevoked) \<and> ae_ReasonCode ev = ''refresh_replay'' \<and>
                   gh_view g w' = revokeFamily (rg_FamilyID grant) now (gh_view g w) \<and>
                   family_revoked (gh_view g w') (rg_FamilyID grant))))"
proof -
  let ?read = "store_GetRefreshGrant (en_Store e) (DigestCredential (rfi_RefreshToken inp))"
  obtain q w1 where q: "run_state ?read w = (q, w1)" by fastforce
  have "logs g [] w w1 \<and> (q = Inr grant \<or> (\<exists>err. q = Inl err \<and> operational err))"
    using get_grant assms(1) wpD [OF _ q] unfolding reads_def assms(2) [symmetric] by blast
  then have w1: "gh_ok g w1" "gh_view g w1 = gh_view g w" "gh_obs g w1 = gh_obs g w"
    "q = Inr grant \<or> (\<exists>err. q = Inl err \<and> operational err)"
    by (simp_all add: logs_def)
  note run = assms(7) [unfolded Engine_Refresh_def Let_def assms(3) sum.case if_not_P [OF assms(4)] run_bind [OF q]]
  show ?thesis
  proof (cases q)
    case (Inl cause)
    with run read_failed_effect [OF w1(1)] w1 q show ?thesis by fastforce
  next
    case (Inr x)
    with w1(4) have x: "x = grant" by simp
    obtain now w2 where tick: "run_state (en_Clock e) w1 = (now, w2)" by fastforce
    have "logs g [] w1 w2 \<and> 0 < now"
      using now w1(1) wpD [OF _ tick] unfolding observes_def by blast
    then have w2: "gh_ok g w2" "gh_view g w2 = gh_view g w" "gh_obs g w2 = gh_obs g w" "0 < now"
      using w1 by (simp_all add: logs_def)
    have run2: "run_state (if rg_ExpiresAt grant < now
        then refresh_denied e ctx ''store_expired'' grant (invalidGrant (Some ErrBinding))
        else refresh_revoke e ctx grant now ''refresh_replay'' ''refresh replay revocation could not be persisted'') w2 =
      (r, w')"
      using run assms(5,6) unfolding Inr x sum.case Engine_now_def run_bind [OF tick] by (simp cong: if_cong)

    show ?thesis
    proof (cases "rg_ExpiresAt grant < now")
      case True
      with run2 denied_effect [OF w2(1)] w2 q tick Inr show ?thesis by (fastforce simp: refresh_denied_def)
    next
      case False
      obtain s w3 where s: "run_state (store_RevokeRefreshFamily (en_Store e) (rg_FamilyID grant) now) w2 = (s, w3)"
        by fastforce
      from False run2 have "run_state (refresh_revoke e ctx grant now ''refresh_replay''
          ''refresh replay revocation could not be persisted'') w2 = (r, w')" by simp
      from refresh_revoke_effect [OF w2(1,4) this, unfolded s w2(2,3)] obtain err ev where
        effect: "r = Inl err" "gh_obs g w' = gh_obs g w @ [Audited ev]"
        "case s of Some cause \<Rightarrow> operational cause \<and> ae_Cause ev = Some cause \<and> gh_view g w' = gh_view g w
         | None \<Rightarrow> err = invalidGrant (Some ErrRevoked) \<and> ae_ReasonCode ev = ''refresh_replay'' \<and>
             gh_view g w' = revokeFamily (rg_FamilyID grant) now (gh_view g w)"
        by (auto split: option.splits)
      show ?thesis
        unfolding q Inr prod.case sum.case tick s if_not_P [OF False]
        by (intro exI [of _ err] exI [of _ ev] conjI effect(1,2))
          (use effect(3) in \<open>cases s; simp add: family_revoked_revokeFamily [OF w2(4)]\<close>)
    qed
  qed
qed

end

text \<open>C5. Replay.  Presenting a refresh token that was already rotated never returns tokens, and
  leaves one audit record.  When the engine reads the grant, its clock is not past the expiry of the
  grant and its store revokes the family, every grant of the family is revoked, the client is told only
  that the grant is invalid, and the revocation is audited as a replay.  When the clock is past the
  expiry, or the store fails to read the grant or to revoke the family with an error of its own, the
  abstract store is left alone; the failed revocation is audited with that error.\<close>

theorem refresh_replay_revokes:
  assumes "engine_world e g" and "gh_ok g w"
    and "gm_get (st_refresh (gh_view g w)) (DigestCredential (rfi_RefreshToken inp)) = Some grant"
    and "NewClientID (rfi_ClientID inp) = Inr (rg_ClientID grant)" and "rfi_RefreshToken inp \<noteq> []"
    and "rg_RevokedAt grant = 0" and "rg_ConsumedAt grant \<noteq> 0"
    and "run_state (Engine_Refresh e ctx inp) w = (r, w')"
  shows "\<exists>err ev. r = Inl err \<and> gh_obs g w' = gh_obs g w @ [Audited ev] \<and>
    (case run_state (store_GetRefreshGrant (en_Store e) (DigestCredential (rfi_RefreshToken inp))) w of
       (Inl cause, _) \<Rightarrow> operational cause \<and> gh_view g w' = gh_view g w
     | (Inr _, w1) \<Rightarrow>
         (case run_state (en_Clock e) w1 of (now, w2) \<Rightarrow>
            if rg_ExpiresAt grant < now
            then err = invalidGrant (Some ErrBinding) \<and> ae_ReasonCode ev = ''store_expired'' \<and> gh_view g w' = gh_view g w
            else
              (case run_state (store_RevokeRefreshFamily (en_Store e) (rg_FamilyID grant) now) w2 of
                 (Some cause, _) \<Rightarrow> operational cause \<and> ae_Cause ev = Some cause \<and> gh_view g w' = gh_view g w
               | (None, _) \<Rightarrow> err = invalidGrant (Some ErrRevoked) \<and> ae_ReasonCode ev = ''refresh_replay'' \<and>
                   gh_view g w' = revokeFamily (rg_FamilyID grant) now (gh_view g w) \<and>
                   family_revoked (gh_view g w') (rg_FamilyID grant))))"
proof -
  have found: "Mem_GetRefreshGrant (DigestCredential (rfi_RefreshToken inp)) (gh_view g w) = Inr grant"
    using assms(3) by (simp add: Mem_GetRefreshGrant_def)
  from engine_world.replay_effect [OF assms(1,2) found assms(4-8)] show ?thesis .
qed

lemma demo_at_Suc:
  assumes "n < 8"
  shows "demo_at (Suc n) = snd (demo_step (demo_requests ! n) (demo_at n))"
proof -
  have "n < length demo_requests" using assms by (simp add: demo_requests_def)
  then have take: "take (Suc n) demo_requests = take n demo_requests @ [demo_requests ! n]"
    by (rule take_Suc_conv_app_nth)
  show ?thesis unfolding demo_at_def take by (simp add: run_append split: prod.splits)
qed

text \<open>The grant that the session rotates before it replays the token.\<close>

lemma demo_rotated:
  "\<exists>grant. gm_get (st_refresh (w_store (demo_at 6)))
       (DigestCredential (rfi_RefreshToken demo_refresh)) = Some grant \<and>
     NewClientID (rfi_ClientID demo_refresh) = Inr (rg_ClientID grant) \<and>
     rg_RevokedAt grant = 0 \<and> rg_ConsumedAt grant \<noteq> 0"
proof -
  obtain tok w' where r: "run_state (Engine_Refresh demo_engine None demo_refresh) (demo_at 5) = (Inr tok, w')"
    using demo_run(6) by blast
  have w': "w' = demo_at 6"
    using demo_at_Suc [of 5] r by (simp add: demo_step_def served_def demo_requests_def)
  let ?p = "cfg_StatePolicy (en_config demo_engine)"
  obtain xs log grant rr t1 now where acts: "acts world_ghost ?p xs log (demo_at 5) w'"
    and grant: "Mem_GetRefreshGrant (DigestCredential (rfi_RefreshToken demo_refresh)) (w_store (demo_at 5)) = Inr grant"
      "NewClientID (rfi_ClientID demo_refresh) = Inr (rg_ClientID grant)"
    and log: "log = [(CommitRefreshRotation t1 now rr, None)]" and rr: "rr_CurrentDigest rr = rg_Digest grant"
    using traces_wp [OF engine_world.refresh_traces [OF demo_contract], of "demo_at 5", OF _ r]
    by fastforce
  from acts log have "0 < now"
    and step: "Mem_CommitRefreshRotation t1 now rr ?p (w_store (demo_at 5)) = (None, w_store w')"
    by (auto dest: acts_call)
  note found = get_found(1) [OF grant(1)] grant_of_digest [OF grant(1) demo_ok(2)]
  show ?thesis
    by (rule rotation_effect [OF step demo_ok(2)]) (use found grant(2) rr \<open>0 < now\<close> w' in auto)
qed

theorem refresh_replay_revokes_witness:
  "\<exists>err w'. run_state (Engine_Refresh demo_engine None demo_refresh) (demo_at 6) = (Inl err, w') \<and>
     length (w_obs w') = length (w_obs (demo_at 6)) + 1"
proof -
  obtain r w' where r: "run_state (Engine_Refresh demo_engine None demo_refresh) (demo_at 6) = (r, w')"
    by fastforce
  have "rfi_RefreshToken demo_refresh \<noteq> []" by (simp add: demo_refresh_def demo_secret_def)
  with refresh_replay_revokes [OF demo_contract, of "demo_at 6" demo_refresh] demo_rotated r
  show ?thesis by fastforce
qed

section \<open>Single use, of the engine\<close>

text \<open>C1. Along every sequence of requests an authorization code is exchanged for tokens at most
  as often as a consent minted it (plus once if it was live at the start): two exchanges of one
  code never both succeed, and neither do two exchanges of different codes with one digest.\<close>

theorem code_redeemed_once:
  assumes "engine_world e g" and "gh_ok g w" and "maps_wf (gh_view g w)"
  shows "count_events (redeems_code d) (fst (run (served e g) requests w)) \<le>
    count_events (mints_code d) (fst (run (served e g) requests w)) +
    (if code_live (gh_view g w) d then 1 else 0)"
  by (rule engine_world.codes_once [OF assms(1)]) (use assms in \<open>simp add: engine_world.sound_def [OF assms(1)]\<close>)

theorem code_redeemed_once_witness:
  "\<forall>d. count_events (redeems_code d) (fst (run (served demo_engine world_ghost)
     [ExchangeReq None demo_exchange, ExchangeReq None demo_exchange] (demo_at 4))) \<le> 1"
proof
  fix d
  let ?r = "[ExchangeReq None demo_exchange, ExchangeReq None demo_exchange]"
  have "count_events (mints_code d) (fst (run (served demo_engine world_ghost) ?r (demo_at 4))) = 0"
    by (simp add: fst_run_Cons del: run.simps(2))
  with code_redeemed_once [OF demo_contract, of "demo_at 4" d ?r]
  show "count_events (redeems_code d) (fst (run (served demo_engine world_ghost) ?r (demo_at 4))) \<le> 1"
    by (simp split: if_splits)
qed

text \<open>C2. Along every sequence of requests a refresh token yields new tokens at most as often as it
  was handed out (plus once if it was live at the start).\<close>

theorem refresh_token_redeemed_once:
  assumes "engine_world e g" and "gh_ok g w" and "maps_wf (gh_view g w)"
  shows "count_events (redeems_grant d) (fst (run (served e g) requests w)) \<le>
    count_events (mints_grant d) (fst (run (served e g) requests w)) +
    (if grant_live (gh_view g w) d then 1 else 0)"
  by (rule engine_world.grants_once [OF assms(1)]) (use assms in \<open>simp add: engine_world.sound_def [OF assms(1)]\<close>)

theorem refresh_token_redeemed_once_witness:
  "\<forall>d. count_events (redeems_grant d) (fst (run (served demo_engine world_ghost)
     [RefreshReq None demo_refresh] (demo_at 5))) \<le>
   count_events (mints_grant d) (fst (run (served demo_engine world_ghost)
     [RefreshReq None demo_refresh] (demo_at 5))) + 1"
proof
  fix d
  show "count_events (redeems_grant d) (fst (run (served demo_engine world_ghost)
      [RefreshReq None demo_refresh] (demo_at 5))) \<le>
    count_events (mints_grant d) (fst (run (served demo_engine world_ghost)
      [RefreshReq None demo_refresh] (demo_at 5))) + 1"
    using refresh_token_redeemed_once [OF demo_contract, of "demo_at 5" d "[RefreshReq None demo_refresh]"]
    by (simp split: if_splits)
qed

end
