(* ===== verification/Engine_Invariants.thy ===== *)
theory Engine_Invariants
  imports Engine_Properties
begin

text \<open>
  What the engine keeps of the records it writes, beyond what the store checks: the redirect URIs
  of stored transactions and consents parse, and the scopes of every record are canonical.  With
  it no request panics and every refusal is an OAuth error.
\<close>

definition records_wf :: "'a Store \<Rightarrow> bool" where
  "records_wf s \<longleftrightarrow>
     gm_all (\<lambda>_ a. scopes_wf (at_RequestedScopes a) \<and> url_Parse (at_RedirectURI a) \<noteq> None)
       (st_authorizers s) \<and>
     gm_all (\<lambda>_ c. scopes_wf (cs_AllowedScopes c) \<and>
         url_Parse (snap_RedirectURI (cs_Client c)) \<noteq> None) (st_consents s) \<and>
     gm_all (\<lambda>_ c. scopes_wf (ac_Scopes c)) (st_codes s) \<and>
     gm_all (\<lambda>_ g. scopes_wf (rg_Scopes g)) (st_refresh s)"

text \<open>The same of what a call stores when it succeeds.\<close>

fun writes_wf :: "'a store_call \<Rightarrow> bool" where
  "writes_wf (CreateAuthorization t1 a) =
     (scopes_wf (at_RequestedScopes a) \<and> url_Parse (at_RedirectURI a) \<noteq> None)"
| "writes_wf (CommitLogin t1 t2 c) =
     (scopes_wf (cs_AllowedScopes (lco_Consent c)) \<and>
      url_Parse (snap_RedirectURI (cs_Client (lco_Consent c))) \<noteq> None)"
| "writes_wf (CommitConsent t1 t2 c) =
     (cco_Decision c = ConsentDecisionApprove \<longrightarrow> scopes_wf (ac_Scopes (cco_Code c)))"
| "writes_wf (CommitCodeExchange t1 t2 c) =
     (case cec_Refresh c of None \<Rightarrow> True | Some g \<Rightarrow> scopes_wf (rg_Scopes g))"
| "writes_wf (CommitRefreshRotation t1 t2 r) = scopes_wf (rg_Scopes (rr_Successor r))"
| "writes_wf _ = True"

lemma benign_writes_wf [simp]: "benign c \<Longrightarrow> writes_wf c"
  by (cases c) simp_all

lemma records_wf_NewStore [simp]: "records_wf NewStore"
  by (simp add: records_wf_def NewStore_def)

lemma records_wf_pruned [simp]: "records_wf s \<Longrightarrow> records_wf (pruned t s)"
  by (simp add: records_wf_def prune_simps pruned_refresh_raw)

lemma records_wf_revoke [simp]: "records_wf s \<Longrightarrow> records_wf (revokeFamily f t s)"
  by (auto simp: records_wf_def revokeFamily_def intro: gm_all_map)

lemma records_wf_clients [simp]: "records_wf (s\<lparr>st_clients := m\<rparr>) = records_wf s"
  by (simp add: records_wf_def)

lemma records_wfD:
  "records_wf s \<Longrightarrow> gm_get (st_authorizers s) d = Some a \<Longrightarrow>
     scopes_wf (at_RequestedScopes a) \<and> url_Parse (at_RedirectURI a) \<noteq> None"
  "records_wf s \<Longrightarrow> gm_get (st_consents s) d = Some c \<Longrightarrow>
     scopes_wf (cs_AllowedScopes c) \<and> url_Parse (snap_RedirectURI (cs_Client c)) \<noteq> None"
  "records_wf s \<Longrightarrow> gm_get (st_codes s) d = Some x \<Longrightarrow> scopes_wf (ac_Scopes x)"
  "records_wf s \<Longrightarrow> gm_get (st_refresh s) d = Some g \<Longrightarrow> scopes_wf (rg_Scopes g)"
  unfolding records_wf_def by (blast dest: gm_allD)+

lemma records_wf_step:
  assumes step: "store_step p c s = (r, s')" and "r = None \<Longrightarrow> writes_wf c" and ok: "records_wf s"
  shows "records_wf s'"
proof (cases r)
  case (Some err)
  with step have "store_step p c s = (Some err, s')" by simp
  then show ?thesis by (rule step_failure) (use ok in simp_all)
next
  case None
  with assms(2) have w: "writes_wf c" by simp
  note pr = records_wf_pruned [OF ok]
  note parts = records_wf_def gm_all_set
  from None step have "store_step p c s = (None, s')" by simp
  then show ?thesis
  proof (rule step_success)
    fix t1 a
    assume "c = CreateAuthorization t1 a" "s' = (pruned t1 s)\<lparr>st_authorizers :=
         gm_set (DigestCredential (at_Token a)) a (st_authorizers (pruned t1 s))\<rparr>"
    with w pr [of t1] show ?thesis by (simp add: parts)
  next
    fix t1 t2 cl assume c: "c = CommitLogin t1 t2 cl" and "Mem_CommitLogin t1 t2 cl p s = (None, s')"
    from this(2) show ?thesis
      by (rule CommitLogin_None)
        (use w c pr [of t1] records_wfD(1) [OF pr] in \<open>fastforce simp: parts\<close>)
  next
    fix t1 t2 cc res
    assume c: "c = CommitConsent t1 t2 cc" and "Mem_CommitConsent t1 t2 cc p s = (Inr res, s')"
    from this(2) show ?thesis
      by (rule CommitConsent_Inr)
        (use w c pr [of t1] records_wfD(2) [OF pr] in \<open>fastforce simp: parts\<close>)
  next
    fix t1 t2 cx
    assume c: "c = CommitCodeExchange t1 t2 cx"
      and "Mem_CommitCodeExchange t1 t2 cx p s = (None, s')"
    from this(2) show ?thesis
      by (rule CommitCodeExchange_None)
        (use w c pr [of t1] records_wfD(3) [OF pr] in \<open>fastforce simp: parts\<close>)
  next
    fix t1 t2 rr
    assume c: "c = CommitRefreshRotation t1 t2 rr"
      and "Mem_CommitRefreshRotation t1 t2 rr p s = (None, s')"
    from this(2) show ?thesis
      by (rule CommitRefreshRotation_None)
        (use w c pr [of t1] records_wfD(4) [OF pr] in \<open>fastforce simp: parts\<close>)
  qed (use ok in simp_all)
qed

lemma records_wf_run:
  "run (store_step p) cs s = (log, s') \<Longrightarrow> list_all (\<lambda>(c, r). r = None \<longrightarrow> writes_wf c) log \<Longrightarrow>
   records_wf s \<Longrightarrow> records_wf s'"
proof (induction cs arbitrary: s log)
  case (Cons c cs)
  obtain r s1 where 1: "store_step p c s = (r, s1)" by fastforce
  obtain log1 s2 where 2: "run (store_step p) cs s1 = (log1, s2)" by fastforce
  with 1 Cons.prems have "log = (c, r) # log1" "s2 = s'" by simp_all
  with Cons.IH [OF 2 [unfolded \<open>s2 = s'\<close>]] Cons.prems(2,3) records_wf_step [OF 1] show ?case
    by simp
qed simp

section \<open>Answers\<close>

text \<open>\<open>ValidateRedirect\<close> and \<open>Revoke\<close> hand on the errors of the store; all others answer with
  an \<open>OAuthError\<close>.\<close>

fun hands_on :: "'a request \<Rightarrow> bool" where
  "hands_on (ValidateRedirectReq cid uri) = True"
| "hands_on (RevokeReq ctx inp) = True"
| "hands_on _ = False"

fun context_of :: "'a request \<Rightarrow> ctx" where
  "context_of (RegisterReq ctx inp) = ctx"
| "context_of (ValidateRedirectReq cid uri) = None"
| "context_of (BeginReq ctx inp) = ctx"
| "context_of (LoginReq ctx inp) = ctx"
| "context_of (ConsentViewReq ctx token) = ctx"
| "context_of (DecideReq ctx inp) = ctx"
| "context_of (ExchangeReq ctx inp) = ctx"
| "context_of (RefreshReq ctx inp) = ctx"
| "context_of (RevokeReq ctx inp) = ctx"

fun operation_of :: "'a request \<Rightarrow> string" where
  "operation_of (RegisterReq ctx inp) = ''register_client''"
| "operation_of (BeginReq ctx inp) = ''begin_authorization''"
| "operation_of (LoginReq ctx inp) = ''complete_login''"
| "operation_of (DecideReq ctx inp) = ''decide_consent''"
| "operation_of (ExchangeReq ctx inp) = ''exchange_code''"
| "operation_of (RefreshReq ctx inp) = ''refresh''"
| "operation_of (RevokeReq ctx inp) = ''revoke''"
| "operation_of _ = []"

text \<open>Refusals that leave no record: of a view and of a redirect check, which record nothing, and of
  a registration whose input is rejected.\<close>

fun silent :: "'a request \<Rightarrow> bool" where
  "silent (RegisterReq ctx inp) = True"
| "silent (ValidateRedirectReq cid uri) = True"
| "silent (ConsentViewReq ctx token) = True"
| "silent _ = False"

text \<open>The record of a refusal: one, at the end, that names the operation and the request.\<close>

definition records_refusal :: "'a request \<Rightarrow> 'a observation list \<Rightarrow> bool" where
  "records_refusal req xs \<longleftrightarrow>
     (\<exists>ys ev. xs = ys @ [Audited ev] \<and> list_all (\<lambda>x. \<not> is_audit x) ys \<and>
        ae_Operation ev = operation_of req \<and> ae_RequestID ev = FromContext (context_of req) \<and>
        ae_Outcome ev \<in> {''denied'', ''error'', ''revoked''})"

text \<open>A record that reports a refusal.  The denial by the user is a decision, and no refusal.\<close>

fun reports_refusal :: "'a observation \<Rightarrow> bool" where
  "reports_refusal (Audited ev) =
     (ae_Outcome ev \<in> {''error'', ''revoked''} \<or> ae_Outcome ev = ''denied'' \<and> ae_Operation ev \<noteq> ''decide_consent'')"
| "reports_refusal _ = False"

definition quiet :: "('a store_call \<times> go_error option) list \<Rightarrow> bool" where
  "quiet log \<longleftrightarrow> list_all (\<lambda>(c, r). r \<noteq> None \<or> benign c) log"

definition proper ::
  "'a request \<Rightarrow> response \<Rightarrow> 'a observation list \<Rightarrow> ('a store_call \<times> go_error option) list \<Rightarrow> bool"
where
  "proper req resp xs log \<longleftrightarrow>
     list_all (\<lambda>(c, r). r = None \<longrightarrow> writes_wf c) log \<and>
     (\<forall>err. resp = Failed err \<longrightarrow> quiet log \<and>
        (hands_on req \<or> public_error err) \<and> (silent req \<and> xs = [] \<or> records_refusal req xs)) \<and>
     ((\<forall>err. resp \<noteq> Failed err) \<longrightarrow> list_all (\<lambda>x. \<not> reports_refusal x) xs)"

lemma proper_success:
  "(\<And>err. resp \<noteq> Failed err) \<Longrightarrow> list_all (\<lambda>(c, r). r = None \<longrightarrow> writes_wf c) log \<Longrightarrow>
   list_all (\<lambda>x. \<not> reports_refusal x) xs \<Longrightarrow> proper req resp xs log"
  by (simp add: proper_def)

lemma quiet_writes: "quiet log \<Longrightarrow> list_all (\<lambda>(c, r). r = None \<longrightarrow> writes_wf c) log"
  unfolding quiet_def by (induction log) auto

lemma proper_refusal:
  "refusal ctx op err xs log \<Longrightarrow> ctx = context_of req \<Longrightarrow> op = operation_of req \<Longrightarrow> proper req (Failed err) xs log"
proof -
  assume r: "refusal ctx op err xs log" "ctx = context_of req" "op = operation_of req"
  then have "public_error err" "quiet log" "records_refusal req xs"
    by (auto simp: refusal_def quiet_def records_refusal_def)
  with quiet_writes show ?thesis by (auto simp: proper_def)
qed

lemma proper_silent: "public_error err \<Longrightarrow> silent req \<Longrightarrow> proper req (Failed err) [] []"
  by (simp add: proper_def quiet_def)

lemma proper_handed_on:
  "hands_on req \<Longrightarrow> quiet log \<Longrightarrow> silent req \<and> xs = [] \<or> records_refusal req xs \<Longrightarrow> proper req (Failed err) xs log"
  by (simp add: proper_def quiet_writes)

text \<open>A result that is no panic of Go.\<close>

definition unpanicked :: "'r result \<Rightarrow> bool" where
  "unpanicked r = (case r of Inl err \<Rightarrow> \<not> is_panic err | Inr y \<Rightarrow> True)"

lemma unpanicked_simps [simp]: "unpanicked (Inl err) \<longleftrightarrow> \<not> is_panic err" "unpanicked (Inr y)"
  by (simp_all add: unpanicked_def)

lemma NewClientID_error: "NewClientID raw = Inl err \<Longrightarrow> \<not> is_panic err"
  by (auto simp: NewClientID_def newIdentifier_def invalidValue_def Let_def split: if_splits)

lemma public_not_panic [simp]: "public_error err \<Longrightarrow> \<not> is_panic err"
  by (cases err) simp_all

lemma NewScopeSet_scopes_wf: "NewScopeSet raws = Inr s \<Longrightarrow> scopes_wf s"
  using NewScopeSet_wf by blast

lemma validRedirectURI_parses: "validRedirectURI uri loop \<Longrightarrow> url_Parse uri \<noteq> None"
  by (auto simp: validRedirectURI_iff)

lemma snapshot_parses:
  "snapshotClient client uri = Some snap \<Longrightarrow>
   snap_RedirectURI snap = uri \<and> url_Parse uri \<noteq> None"
  by (auto simp: snapshotClient_def)

lemma stored_wf:
  "Mem_GetCodeForExchange b s = Inr code \<Longrightarrow> records_wf s \<Longrightarrow> scopes_wf (ac_Scopes code)"
  "Mem_GetRefreshGrant d s = Inr grant \<Longrightarrow> records_wf s \<Longrightarrow> scopes_wf (rg_Scopes grant)"
  "Mem_GetAuthorization d s = Inr auth \<Longrightarrow> records_wf s \<Longrightarrow>
     scopes_wf (at_RequestedScopes auth) \<and> url_Parse (at_RedirectURI auth) \<noteq> None"
  "Mem_GetConsent d s = Inr consent \<Longrightarrow> records_wf s \<Longrightarrow>
     url_Parse (snap_RedirectURI (cs_Client consent)) \<noteq> None"
  by (blast dest: get_code_found get_found records_wfD)+

context engine_world
begin

lemma exchange_proper:
  assumes "records_wf (gh_view g w)"
  shows "traces g policy w [] [] (Engine_ExchangeCode e ctx inp)
    (\<lambda>r. proper (ExchangeReq ctx inp) (respond TokensIssued r)) w"
  by (rule traces_mono [OF exchange_traces], erule result_cases, simp add: proper_refusal,
      rule proper_success)
    (use stored_wf(1) [OF _ assms] in \<open>auto simp: exchange_grant_def\<close>)

lemma refresh_proper:
  assumes "records_wf (gh_view g w)"
  shows "traces g policy w [] [] (Engine_Refresh e ctx inp)
    (\<lambda>r. proper (RefreshReq ctx inp) (respond TokensIssued r)) w"
  by (rule traces_mono [OF refresh_traces], erule result_cases, simp add: proper_refusal,
      rule proper_success)
    (use stored_wf(2) [OF _ assms] in \<open>auto simp: refresh_successor_def\<close>)

lemma register_proper:
  "traces g policy w [] [] (Engine_RegisterClient e ctx inp)
    (\<lambda>r. proper (RegisterReq ctx inp) (respond Registered r)) w"
  by (rule traces_mono [OF register_traces], erule result_cases,
      use proper_refusal proper_silent in force, rule proper_success, simp, (clarify, simp (no_asm))+)

lemma begin_proper:
  "traces g policy w [] [] (Engine_BeginAuthorization e ctx inp)
    (\<lambda>r. proper (BeginReq ctx inp) (respond Begun r)) w"
  by (rule traces_mono [OF begin_traces], erule result_cases, simp add: proper_refusal,
      rule proper_success)
    (auto dest: NewScopeSet_scopes_wf validRedirectURI_parses)

lemma login_proper:
  assumes "records_wf (gh_view g w)"
  shows "traces g policy w [] [] (Engine_CompleteLogin e ctx inp)
    (\<lambda>r. proper (LoginReq ctx inp) (respond LoggedIn r)) w"
  by (rule traces_mono [OF login_traces], erule result_cases,
      use stored_wf(3) [OF _ assms] proper_refusal in force, rule proper_success)
    (use stored_wf(3) [OF _ assms] in \<open>auto simp: login_consent_def dest: snapshot_parses\<close>)

lemma view_proper:
  "traces g policy w [] [] (Engine_ConsentView e ctx token)
    (\<lambda>r. proper (ConsentViewReq ctx token) (respond Viewed r)) w"
  by (rule traces_mono [OF consent_view_traces], elim conjE, erule result_cases,
      simp add: proper_silent, rule proper_success) auto

lemma validate_proper:
  "traces g policy w [] [] (Engine_ValidateRedirect e cid uri)
    (\<lambda>r. proper (ValidateRedirectReq cid uri) (respond Trusted r)) w"
  by (rule traces_mono [OF validate_redirect_traces], elim conjE, erule result_cases,
      simp add: proper_handed_on quiet_def, rule proper_success) auto

lemma decide_proper:
  assumes "records_wf (gh_view g w)"
  shows "traces g policy w [] [] (Engine_DecideConsent e ctx inp)
    (\<lambda>r. proper (DecideReq ctx inp) (respond Decided r)) w"
  by (rule traces_mono [OF decide_traces], erule result_cases,
      use stored_wf(4) [OF _ assms] proper_refusal in force, rule proper_success)
    (auto simp: consent_code_def decision_defs dest: NewScopeSet_scopes_wf)

lemma revoke_records:
  "traces g policy w [] [] (Engine_Revoke e ctx inp)
    (\<lambda>r xs log. case r of
       None \<Rightarrow> list_all (\<lambda>x. \<not> reports_refusal x) xs \<and> (log = [] \<or> (\<exists>f t. log = [(RevokeRefreshFamily f t, None)]))
     | Some err \<Rightarrow> list_all (\<lambda>(c, r). r \<noteq> None) log \<and> records_refusal (RevokeReq ctx inp :: 'a request) xs) w"
  unfolding Engine_Revoke_def records_refusal_def
  by (intro traces_rules; fastforce)

lemma revoke_proper:
  "traces g policy w [] [] (Engine_Revoke e ctx inp)
    (\<lambda>r. proper (RevokeReq ctx inp) (revoke_response r)) w"
proof (rule traces_mono [OF revoke_records], goal_cases)
  case (1 r xs log)
  then show ?case
    by (cases r) (auto simp: revoke_response_def quiet_def list_all_iff
      intro!: proper_success proper_handed_on)
qed

lemma served_proper:
  assumes "served e g req w = ((resp, xs), w')" and "gh_ok g w" and "records_wf (gh_view g w)"
  shows "\<exists>log. acts g policy xs log w w' \<and> proper req resp xs log"
proof -
  note s = served_traces [where Q = "proper req" and req = req, OF _ assms(2) _ assms(1)]
  show ?thesis
  proof (cases req)
    case (RegisterReq ctx inp)
    show ?thesis unfolding RegisterReq
      by (rule s [unfolded RegisterReq, OF register_proper serve.simps(1)])
  next
    case (ValidateRedirectReq cid uri)
    show ?thesis unfolding ValidateRedirectReq
      by (rule s [unfolded ValidateRedirectReq, OF validate_proper serve.simps(2)])
  next
    case (BeginReq ctx inp)
    show ?thesis unfolding BeginReq
      by (rule s [unfolded BeginReq, OF begin_proper serve.simps(3)])
  next
    case (LoginReq ctx inp)
    show ?thesis unfolding LoginReq
      by (rule s [unfolded LoginReq, OF login_proper [OF assms(3)] serve.simps(4)])
  next
    case (ConsentViewReq ctx token)
    show ?thesis unfolding ConsentViewReq
      by (rule s [unfolded ConsentViewReq, OF view_proper serve.simps(5)])
  next
    case (DecideReq ctx inp)
    show ?thesis unfolding DecideReq
      by (rule s [unfolded DecideReq, OF decide_proper [OF assms(3)] serve.simps(6)])
  next
    case (ExchangeReq ctx inp)
    show ?thesis unfolding ExchangeReq
      by (rule s [unfolded ExchangeReq, OF exchange_proper [OF assms(3)] serve.simps(7)])
  next
    case (RefreshReq ctx inp)
    show ?thesis unfolding RefreshReq
      by (rule s [unfolded RefreshReq, OF refresh_proper [OF assms(3)] serve.simps(8)])
  next
    case (RevokeReq ctx inp)
    show ?thesis unfolding RevokeReq
      by (rule s [unfolded RevokeReq, OF revoke_proper serve.simps(9)])
  qed
qed

text \<open>No request panics.\<close>

lemma validate_unpanicked:
  "traces g policy w [] [] (Engine_ValidateRedirect e cid uri) (\<lambda>r xs log. unpanicked r) w"
  unfolding Engine_ValidateRedirect_def
  by (intro traces_rules; auto simp: operational_def Mem_GetClient_def NewClientID_error split: option.splits)

lemma revoke_unpanicked:
  "traces g policy w [] [] (Engine_Revoke e ctx inp) (\<lambda>r xs log.
     \<forall>err. r = Some err \<longrightarrow> \<not> is_panic err \<or> (\<exists>f t. log = [(RevokeRefreshFamily f t, Some err)])) w"
  unfolding Engine_Revoke_def
  by (intro traces_rules; auto simp: operational_def Mem_GetRefreshGrant_def split: option.splits)

lemma served_unpanicked:
  assumes "served e g req w = ((Failed err, xs), w')" and "gh_ok g w" and "records_wf (gh_view g w)"
  shows "\<not> is_panic err"
proof (cases "hands_on req")
  case False
  with served_proper [OF assms] show ?thesis by (auto simp: proper_def)
next
  case True
  then consider (validate) cid uri where "req = ValidateRedirectReq cid uri" | (revoke) ctx inp where "req = RevokeReq ctx inp"
    by (cases req) auto
  then show ?thesis
  proof cases
    case validate
    obtain r where "Failed err = respond Trusted r" "unpanicked r"
      using served_traces [OF traces_mono [OF validate_unpanicked], where f = "respond Trusted"
          and Q = "\<lambda>resp xs log. \<exists>r. resp = respond Trusted r \<and> unpanicked r", OF _ assms(2) _ assms(1)] validate
      by auto
    then show ?thesis by (auto simp: respond_def unpanicked_def split: sum.splits)
  next
    case revoke
    let ?Q = "\<lambda>resp xs log. \<exists>r. resp = revoke_response r \<and>
      (\<forall>err. r = Some err \<longrightarrow> \<not> is_panic err \<or> (\<exists>f t. log = [(RevokeRefreshFamily f t, Some err)]))"
    have "\<exists>log. acts g policy xs log w w' \<and> ?Q (Failed err) xs log"
      by (rule served_traces [where m = "Engine_Revoke e ctx inp" and f = revoke_response,
          OF traces_mono [OF revoke_unpanicked] assms(2) _ assms(1)])
        (blast, simp add: revoke)
    then obtain r log where "Failed err = revoke_response r" and acts: "acts g policy xs log w w'"
      and r: "\<forall>err. r = Some err \<longrightarrow> \<not> is_panic err \<or> (\<exists>f t. log = [(RevokeRefreshFamily f t, Some err)])"
      by blast
    then have "r = Some err" by (simp add: revoke_response_def split: option.splits)
    with r acts show ?thesis by (auto simp: Mem_RevokeRefreshFamily_def dest: acts_call)
  qed
qed

text \<open>The invariant of the engine's world.\<close>

definition orderly :: "'w \<Rightarrow> bool" where
  "orderly w \<longleftrightarrow> gh_ok g w \<and> maps_wf (gh_view g w) \<and> records_wf (gh_view g w)"

lemma served_orderly:
  assumes "orderly w" and "served e g req w = ((resp, xs), w')"
  shows "orderly w'"
proof -
  obtain log where acts: "acts g policy xs log w w'" and "proper req resp xs log"
    using served_proper [OF assms(2)] assms(1) by (auto simp: orderly_def)
  then have "records_wf (gh_view g w')"
    using assms(1) records_wf_run unfolding acts_run proper_def orderly_def by blast
  moreover have "sound w'"
    by (rule served_sound [OF _ assms(2)]) (use assms(1) in \<open>simp add: orderly_def sound_def\<close>)
  ultimately show ?thesis by (simp add: orderly_def sound_def)
qed

lemma run_orderly:
  "orderly w \<Longrightarrow> run (served e g) requests w = (log, w') \<Longrightarrow>
   orderly w' \<and> list_all (\<lambda>(req, resp, xs). \<forall>err. resp = Failed err \<longrightarrow>
     \<not> is_panic err \<and> (hands_on req \<or> public_error err)) log"
proof (induction requests arbitrary: w log)
  case (Cons req requests)
  obtain resp xs w1 where 1: "served e g req w = ((resp, xs), w1)" by (metis prod.exhaust)
  obtain log1 w2 where 2: "run (served e g) requests w1 = (log1, w2)" by fastforce
  with 1 Cons.prems have log: "log = (req, resp, xs) # log1" "w2 = w'" by simp_all
  have "\<forall>err. resp = Failed err \<longrightarrow> \<not> is_panic err \<and> (hands_on req \<or> public_error err)"
    using served_proper [OF 1] served_unpanicked 1 Cons.prems(1) by (auto simp: orderly_def proper_def)
  with Cons.IH [OF served_orderly [OF Cons.prems(1) 1]] 2 log show ?case by auto
qed simp

text \<open>A sequence of requests is a sequence of store calls.\<close>

lemma run_refines:
  "orderly w \<Longrightarrow> run (served e g) requests w = (log, w') \<Longrightarrow>
   \<exists>calls slog. list_all clock_set calls \<and>
     run (store_step policy) calls (gh_view g w) = (slog, gh_view g w')"
proof (induction requests arbitrary: w log)
  case (Cons req requests)
  obtain resp xs w1 where 1: "served e g req w = ((resp, xs), w1)" by (metis prod.exhaust)
  obtain log1 w2 where 2: "run (served e g) requests w1 = (log1, w2)" by fastforce
  with 1 Cons.prems have "w2 = w'" by simp
  with Cons.IH [OF served_orderly [OF Cons.prems(1) 1]] 2 obtain calls2 slog2 where
    "list_all clock_set calls2"
    "run (store_step policy) calls2 (gh_view g w1) = (slog2, gh_view g w')" by blast
  moreover obtain slog1 where "acts g policy xs slog1 w w1"
    using served_proper [OF 1] Cons.prems(1) by (auto simp: orderly_def)
  ultimately show ?case
    by (intro exI [of _ "map fst slog1 @ calls2"] exI [of _ "slog1 @ slog2"])
      (simp add: acts_run run_append)
qed (auto intro: exI [of _ "[]"])

end

section \<open>What a refusal leaves behind\<close>

text \<open>Nothing was granted: no new transaction, consent, code, grant or client; of the old records
  only the time of last use and of revocation may have changed.\<close>

definition nothing_granted :: "'a Store \<Rightarrow> 'a Store \<Rightarrow> bool" where
  "nothing_granted s s' \<longleftrightarrow>
     (\<forall>d x. gm_get (st_authorizers s') d = Some x \<longrightarrow> gm_get (st_authorizers s) d = Some x) \<and>
     (\<forall>d x. gm_get (st_consents s') d = Some x \<longrightarrow> gm_get (st_consents s) d = Some x) \<and>
     (\<forall>d x. gm_get (st_codes s') d = Some x \<longrightarrow> gm_get (st_codes s) d = Some x) \<and>
     (\<forall>d x. gm_get (st_refresh s') d = Some x \<longrightarrow>
        (\<exists>y t. gm_get (st_refresh s) d = Some y \<and> x = y\<lparr>rg_RevokedAt := t\<rparr>)) \<and>
     (\<forall>cid x. gm_get (st_clients s') cid = Some x \<longrightarrow>
        (\<exists>y t. gm_get (st_clients s) cid = Some y \<and> x = y\<lparr>cl_LastUsedAt := t\<rparr>))"

lemma same_record:
  "\<exists>t. x = x\<lparr>rg_RevokedAt := t\<rparr>" "\<exists>t. c = c\<lparr>cl_LastUsedAt := t\<rparr>"
  by (rule exI [of _ "rg_RevokedAt x"], simp) (rule exI [of _ "cl_LastUsedAt c"], simp)

lemma nothing_granted_sub:
  assumes "\<And>d x. gm_get (st_authorizers s') d = Some x \<Longrightarrow> gm_get (st_authorizers s) d = Some x"
    and "\<And>d x. gm_get (st_consents s') d = Some x \<Longrightarrow> gm_get (st_consents s) d = Some x"
    and "\<And>d x. gm_get (st_codes s') d = Some x \<Longrightarrow> gm_get (st_codes s) d = Some x"
    and "\<And>d x. gm_get (st_refresh s') d = Some x \<Longrightarrow> gm_get (st_refresh s) d = Some x"
    and "\<And>d x. gm_get (st_clients s') d = Some x \<Longrightarrow> gm_get (st_clients s) d = Some x"
  shows "nothing_granted s s'"
  unfolding nothing_granted_def using assms same_record by blast

lemma nothing_granted_refl: "nothing_granted s s"
  by (rule nothing_granted_sub)

lemma nothing_granted_trans:
  assumes "nothing_granted s s1" and "nothing_granted s1 s2" shows "nothing_granted s s2"
proof -
  have "\<exists>y t. gm_get (st_refresh s) d = Some y \<and> x = y\<lparr>rg_RevokedAt := t\<rparr>"
    if x: "gm_get (st_refresh s2) d = Some x" for d x
  proof -
    obtain y t where "gm_get (st_refresh s1) d = Some y" "x = y\<lparr>rg_RevokedAt := t\<rparr>"
      using assms(2) x unfolding nothing_granted_def by blast
    moreover from this obtain z t' where "gm_get (st_refresh s) d = Some z" "y = z\<lparr>rg_RevokedAt := t'\<rparr>"
      using assms(1) unfolding nothing_granted_def by blast
    ultimately show ?thesis by auto
  qed
  moreover have "\<exists>y t. gm_get (st_clients s) d = Some y \<and> x = y\<lparr>cl_LastUsedAt := t\<rparr>"
    if x: "gm_get (st_clients s2) d = Some x" for d x
  proof -
    obtain y t where "gm_get (st_clients s1) d = Some y" "x = y\<lparr>cl_LastUsedAt := t\<rparr>"
      using assms(2) x unfolding nothing_granted_def by blast
    moreover from this obtain z t' where "gm_get (st_clients s) d = Some z" "y = z\<lparr>cl_LastUsedAt := t'\<rparr>"
      using assms(1) unfolding nothing_granted_def by blast
    ultimately show ?thesis by auto
  qed
  ultimately show ?thesis using assms unfolding nothing_granted_def by blast
qed

lemma nothing_granted_pruned: "maps_wf s \<Longrightarrow> nothing_granted s (pruned t s)"
  by (rule nothing_granted_sub) (auto dest: pruned_getD)

lemma revoke_grant_record: "\<exists>t'. revoke_grant f t x = x\<lparr>rg_RevokedAt := t'\<rparr>"
  using same_record(1) [of x] by (auto simp: revoke_grant_def)

lemma nothing_granted_revoke: "nothing_granted s (revokeFamily f t s)"
proof -
  have "\<exists>y t'. gm_get (st_refresh s) d = Some y \<and> x = y\<lparr>rg_RevokedAt := t'\<rparr>"
    if "gm_get (st_refresh (revokeFamily f t s)) d = Some x" for d x
    using that revoke_grant_record by auto
  then show ?thesis
    unfolding nothing_granted_def using same_record(2) by (auto simp: revokeFamily_def)
qed

lemma nothing_granted_failure:
  assumes step: "store_step p c s = (Some err, s')" and wf: "maps_wf s"
  shows "nothing_granted s s'"
proof (cases c)
  case (RegisterClient now client)
  with step have "Mem_RegisterClient now client p s = (Some err, s')" by simp
  from RegisterClient_Some [OF this] wf show ?thesis
    by (intro nothing_granted_sub) (auto simp: gm_get_delete_if split: option.splits if_splits)
next
  case (TouchClient cid at)
  with step have "Mem_TouchClient cid at s = (Some err, s')" by simp
  from TouchClient_Some [OF this] show ?thesis by (simp add: nothing_granted_refl)
next
  case (CreateAuthorization t1 a)
  with step have "Mem_CreateAuthorization t1 a p s = (Some err, s')" by simp
  from CreateAuthorization_Some [OF this] wf show ?thesis by (simp add: nothing_granted_pruned)
next
  case (CommitLogin t1 t2 x)
  with step have "Mem_CommitLogin t1 t2 x p s = (Some err, s')" by simp
  from CommitLogin_Some [OF this] wf show ?thesis by (simp add: nothing_granted_pruned)
next
  case (CommitConsent t1 t2 x)
  with step have "Mem_CommitConsent t1 t2 x p s = (Inl err, s')"
    using store_step_CommitConsent(2) by blast
  from CommitConsent_Inl [OF this] wf show ?thesis by (simp add: nothing_granted_pruned)
next
  case (CommitCodeExchange t1 t2 x)
  with step have "Mem_CommitCodeExchange t1 t2 x p s = (Some err, s')" by simp
  from CommitCodeExchange_Some [OF this] wf show ?thesis by (simp add: nothing_granted_pruned)
next
  case (CommitRefreshRotation t1 t2 x)
  with step have "Mem_CommitRefreshRotation t1 t2 x p s = (Some err, s')" by simp
  from CommitRefreshRotation_Some [OF this] show ?thesis
    using nothing_granted_pruned [OF wf] nothing_granted_trans nothing_granted_revoke by metis
qed (use step in \<open>simp_all add: Mem_RevokeRefreshFamily_def\<close>)

lemma nothing_granted_benign:
  assumes "store_step p c s = (None, s')" and "benign c" shows "nothing_granted s s'"
  using assms(2)
proof (cases c)
  case (TouchClient cid at)
  with assms(1) have "Mem_TouchClient cid at s = (None, s')" by simp
  then obtain client where client: "gm_get (st_clients s) cid = Some client"
    and s': "s' = s\<lparr>st_clients := gm_set cid (client\<lparr>cl_LastUsedAt := at\<rparr>) (st_clients s)\<rparr>"
    by (rule TouchClient_None)
  have "\<exists>y t. gm_get (st_clients s) d = Some y \<and> x = y\<lparr>cl_LastUsedAt := t\<rparr>"
    if "gm_get (st_clients s') d = Some x" for d x
    using that client same_record(2) [of x] unfolding s' by (auto split: if_splits)
  then show ?thesis
    unfolding nothing_granted_def by (simp add: s') (blast intro: same_record)
next
  case (RevokeRefreshFamily f at)
  with assms(1) show ?thesis by (auto simp: Mem_RevokeRefreshFamily_def nothing_granted_revoke)
qed simp_all

lemma nothing_granted_step:
  "store_step p c s = (r, s') \<Longrightarrow> r \<noteq> None \<or> benign c \<Longrightarrow> maps_wf s \<Longrightarrow> nothing_granted s s'"
  by (cases r) (auto intro: nothing_granted_failure nothing_granted_benign)

lemma nothing_granted_run:
  "run (store_step p) cs s = (log, s') \<Longrightarrow> quiet log \<Longrightarrow> maps_wf s \<Longrightarrow> nothing_granted s s'"
proof (induction cs arbitrary: s log)
  case (Cons c cs)
  obtain r s1 where 1: "store_step p c s = (r, s1)" by fastforce
  obtain log1 s2 where 2: "run (store_step p) cs s1 = (log1, s2)" by fastforce
  with 1 Cons.prems have log: "log = (c, r) # log1" "s2 = s'" by simp_all
  then have "r \<noteq> None \<or> benign c" "quiet log1" using Cons.prems(2) by (simp_all add: quiet_def)
  with Cons.IH 1 2 log nothing_granted_step [OF 1 _ Cons.prems(3)] nothing_granted_trans
    store_step_maps_wf [OF 1 Cons.prems(3)] show ?case by blast
qed (simp add: nothing_granted_refl)

end
