(* ===== verification/Flow_Properties.thy ===== *)
theory Flow_Properties
  imports Engine_Invariants
begin

text \<open>
  The properties of the authorization flow: registration, the authorization request, login, the
  consent decision and revocation, each from the contracts of the dependencies.
\<close>

section \<open>Lemmas\<close>

lemma get_client_found:
  "Mem_GetClient cid s = Inr client \<Longrightarrow> maps_wf s \<Longrightarrow>
   gm_get (st_clients s) cid = Some client \<and> cl_ID client = cid \<and>
   scopes_wf (cl_AllowedScopes client)"
  unfolding maps_wf_def
  by (auto simp: Mem_GetClient_def cloneClient_id dest: gm_allD split: option.splits)

lemma containsRedirect_iff [simp]: "containsRedirect uris uri \<longleftrightarrow> uri \<in> set uris"
  by (induction uris) (auto simp: containsRedirect_def)

lemma acts_calls:
  "acts g p xs [(c, r), (c', r')] w w' \<Longrightarrow>
   \<exists>s. store_step p c (gh_view g w) = (r, s) \<and> store_step p c' s = (r', gh_view g w')"
  by (auto simp: acts_run split: prod.splits)

lemma registered_redirects:
  "register_redirects config seen raws = Inr uris \<Longrightarrow>
   \<exists>new. uris = seen @ new \<and> map NewRedirectURI raws = map Inr new \<and>
     list_all (\<lambda>uri. validRedirectURI uri True \<and>
       int (length uri) \<le> rp_MaxRedirectBytes (sp_Registration (cfg_StatePolicy config))) new \<and>
     (distinct seen \<longrightarrow> distinct uris)"
  by (induction config seen raws rule: register_redirects.induct)
    (fastforce split: sum.splits if_splits)+

lemma registered_scopes:
  "register_scopes config requested = Inr scopes \<Longrightarrow>
   IsSubsetOf scopes (cfg_SupportedScopes config) \<and>
   int (length (ScopeSet_Values scopes)) \<le> rp_MaxScopeCount (sp_Registration (cfg_StatePolicy config))"
  by (auto simp: register_scopes_def split: sum.splits if_splits)

lemma begin_effect:
  assumes "store_step p (TouchClient cid t0) s = (None, s1)"
    and "store_step p (CreateAuthorization t1 a) s1 = (None, s')"
  shows "gm_get (st_authorizers s') (DigestCredential (at_Token a)) = Some a"
  using CreateAuthorization_None(3) [of t1 a p s1 s'] assms(2) by simp

section \<open>Registration\<close>

text \<open>C9. RegisterClient.  A returned client is stored as it is, unverified, under a fresh
  identifier; every redirect URI of the request was accepted, within the configured bounds and
  without duplicates, its scopes are within the supported ones, and no other client record is
  changed except that idle unverified clients may go.\<close>

theorem register_client_correct:
  assumes "engine_world e g" and "gh_ok g w" and "maps_wf (gh_view g w)"
    and "run_state (Engine_RegisterClient e ctx inp) w = (Inr client, w')"
  shows "cl_Trust client = ClientTrustUnverified \<and> cl_DisplayName client = rci_DisplayName inp \<and>
    0 < length (cl_DisplayName client) \<and> cl_CreatedAt client = cl_LastUsedAt client \<and>
    map NewRedirectURI (rci_RedirectURIs inp) = map Inr (cl_RedirectURIs client) \<and>
    distinct (cl_RedirectURIs client) \<and> cl_RedirectURIs client \<noteq> [] \<and>
    list_all (\<lambda>uri. validRedirectURI uri True) (cl_RedirectURIs client) \<and>
    IsSubsetOf (cl_AllowedScopes client) (cfg_SupportedScopes (en_config e)) \<and>
    gm_get (st_clients (gh_view g w')) (cl_ID client) = Some (cloneClient client) \<and>
    set (st_clients (gh_view g w')) \<subseteq>
      insert (cl_ID client, cloneClient client) (set (st_clients (gh_view g w))) \<and>
    (\<exists>t. gh_obs g w' = gh_obs g w @ [Drawn (cl_ID client),
       Audited (event t ''register_client'' ''success'' [] (cl_ID client) []
         (cl_AllowedScopes client) [] ctx None)])"
proof -
  obtain xs log t t' t1 where acts: "acts g (cfg_StatePolicy (en_config e)) xs log w w'"
    and in_bounds: "rci_DisplayName inp \<noteq> []" "rci_RedirectURIs inp \<noteq> []"
    and uris: "register_redirects (en_config e) [] (rci_RedirectURIs inp) = Inr (cl_RedirectURIs client)"
    and scopes: "register_scopes (en_config e) (rci_RequestedScopes inp) = Inr (cl_AllowedScopes client)"
    and client: "client = \<lparr>cl_ID = cl_ID client, cl_DisplayName = rci_DisplayName inp,
       cl_Trust = ClientTrustUnverified, cl_RedirectURIs = cl_RedirectURIs client,
       cl_AllowedScopes = cl_AllowedScopes client, cl_CreatedAt = t, cl_LastUsedAt = t\<rparr>"
    and log: "log = [(RegisterClient t1 client, None)]"
    and xs: "xs = [Drawn (cl_ID client), Audited (event t' ''register_client'' ''success'' []
       (cl_ID client) [] (cl_AllowedScopes client) [] ctx None)]"
    using traces_wp [OF engine_world.register_traces [OF assms(1)] assms(2,4)] by auto
  from client have fields: "cl_DisplayName client = rci_DisplayName inp"
      "cl_Trust client = ClientTrustUnverified" "cl_CreatedAt client = t" "cl_LastUsedAt client = t"
    by (metis Client.select_convs)+
  from acts log have "Mem_RegisterClient t1 client (cfg_StatePolicy (en_config e)) (gh_view g w) =
      (None, gh_view g w')" by (auto dest: acts_call)
  note stored = RegisterClient_None(3) [OF this]
  have "set (st_clients (gh_view g w')) \<subseteq>
      insert (cl_ID client, cloneClient client) (set (st_clients (gh_view g w)))"
    using gm_set_subset by (fastforce simp: stored gm_set_delete_if)
  with registered_redirects [OF uris] registered_scopes [OF scopes] in_bounds fields stored
    acts_obs [OF acts] xs
  show ?thesis by (fastforce simp: list_all_iff)
qed

theorem register_client_correct_witness:
  "\<exists>client w'. run_state (Engine_RegisterClient demo_engine None demo_registration) (demo_at 0) =
       (Inr client, w') \<and> length (cl_RedirectURIs client) = 1 \<and>
     gm_get (st_clients (w_store w')) (cl_ID client) = Some (cloneClient client)"
proof -
  obtain client w' where r: "run_state (Engine_RegisterClient demo_engine None demo_registration)
      (demo_at 0) = (Inr client, w')" using demo_run(1) by blast
  from register_client_correct [OF demo_contract _ _ r]
  have *: "map NewRedirectURI (rci_RedirectURIs demo_registration) = map Inr (cl_RedirectURIs client)"
    and "gm_get (st_clients (w_store w')) (cl_ID client) = Some (cloneClient client)" by simp_all
  moreover from arg_cong [OF *, of length] have "length (cl_RedirectURIs client) = 1"
    by (simp add: demo_registration_def)
  ultimately show ?thesis using r by blast
qed

section \<open>The authorization request\<close>

text \<open>C8. BeginAuthorization.  When it starts a transaction, the client is registered with exactly
  this redirect URI, the request carries a state and an S256 challenge, the requested scopes are
  within those of the client and of the server, and the transaction that is stored under the
  digest of the returned token holds what the request asked for and nothing else.\<close>

theorem begin_authorization_correct:
  assumes "engine_world e g" and "gh_ok g w" and "maps_wf (gh_view g w)"
    and "run_state (Engine_BeginAuthorization e ctx inp) w = (Inr res, w')"
  shows "\<exists>client redirect challenge requested resource t t'.
    gm_get (st_clients (gh_view g w)) (cl_ID client) = Some client \<and>
    NewClientID (bai_ClientID inp) = Inr (cl_ID client) \<and>
    NewRedirectURI (bai_RedirectURI inp) = Inr redirect \<and> redirect \<in> set (cl_RedirectURIs client) \<and>
    validRedirectURI redirect True \<and>
    NewPKCEChallenge (bai_CodeChallenge inp) (bai_ChallengeMethod inp) = Inr challenge \<and>
    NewScopeSet (bai_Scopes inp) = Inr requested \<and>
    IsSubsetOf requested (cl_AllowedScopes client) \<and>
    IsSubsetOf requested (cfg_SupportedScopes (en_config e)) \<and>
    bai_ResponseType inp = ''code'' \<and> bai_State inp \<noteq> [] \<and>
    NewResourceID (bai_Resource inp) = Inr resource \<and>
    gm_get (st_authorizers (gh_view g w')) (DigestCredential (bar_Transaction res)) =
      Some \<lparr>at_Token = bar_Transaction res, at_ClientID = cl_ID client, at_RedirectURI = redirect,
        at_State = bai_State inp, at_PKCEChallenge = challenge, at_RequestedScopes = requested,
        at_Resource = resource, at_ExpiresAt = time_Add t (cfg_TransactionTTL (en_config e)),
        at_ConsumedAt = 0\<rparr> \<and>
    bar_LoginContext res = \<lparr>lc_Transaction = bar_Transaction res, lc_ClientID = cl_ID client,
      lc_RedirectURI = redirect, lc_State = bai_State inp\<rparr> \<and>
    gh_obs g w' = gh_obs g w @ [Drawn (bar_Transaction res),
      Audited (event t' ''begin_authorization'' ''success'' [] (cl_ID client) resource requested []
        ctx None)]"
proof -
  obtain xs log client redirect challenge requested resource cid t0 t t' t1 where
    acts: "acts g (cfg_StatePolicy (en_config e)) xs log w w'"
    and *: "NewClientID (bai_ClientID inp) = Inr cid" "NewRedirectURI (bai_RedirectURI inp) = Inr redirect"
      "validRedirectURI redirect True"
      "NewPKCEChallenge (bai_CodeChallenge inp) (bai_ChallengeMethod inp) = Inr challenge"
      "NewScopeSet (stringsToScopes (bai_Scopes inp)) = Inr requested"
      "NewResourceID (bai_Resource inp) = Inr resource" "bai_ResponseType inp = ''code''"
      "bai_State inp \<noteq> []" "redirect \<in> set (cl_RedirectURIs client)"
      "IsSubsetOf requested (cl_AllowedScopes client)"
      "IsSubsetOf requested (cfg_SupportedScopes (en_config e))"
    and client: "Mem_GetClient cid (gh_view g w) = Inr client"
    and log: "log = [(TouchClient (cl_ID client) t0, None),
       (CreateAuthorization t1 \<lparr>at_Token = bar_Transaction res, at_ClientID = cid,
          at_RedirectURI = redirect, at_State = bai_State inp, at_PKCEChallenge = challenge,
          at_RequestedScopes = requested, at_Resource = resource,
          at_ExpiresAt = time_Add t (cfg_TransactionTTL (en_config e)), at_ConsumedAt = 0\<rparr>, None)]"
    and xs: "xs = [Drawn (bar_Transaction res), Audited (event t' ''begin_authorization'' ''success''
       [] cid resource requested [] ctx None)]"
    and res: "bar_LoginContext res = \<lparr>lc_Transaction = bar_Transaction res, lc_ClientID = cid,
       lc_RedirectURI = redirect, lc_State = bai_State inp\<rparr>"
    using traces_wp [OF engine_world.begin_traces [OF assms(1)] assms(2,4)] by auto
  from get_client_found [OF client assms(3)] have "cl_ID client = cid"
    and "gm_get (st_clients (gh_view g w)) cid = Some client" by simp_all
  moreover from acts_calls [OF acts [unfolded log]] begin_effect
  have "gm_get (st_authorizers (gh_view g w')) (DigestCredential (bar_Transaction res)) =
      Some \<lparr>at_Token = bar_Transaction res, at_ClientID = cid,
          at_RedirectURI = redirect, at_State = bai_State inp, at_PKCEChallenge = challenge,
          at_RequestedScopes = requested, at_Resource = resource,
          at_ExpiresAt = time_Add t (cfg_TransactionTTL (en_config e)), at_ConsumedAt = 0\<rparr>"
    by fastforce
  ultimately show ?thesis
    using * acts_obs [OF acts] xs res by (auto simp: stringsToScopes_def)
qed

theorem begin_authorization_correct_witness:
  "\<exists>res w' a. run_state (Engine_BeginAuthorization demo_engine None demo_authorization) (demo_at 1) =
       (Inr res, w') \<and>
     gm_get (st_authorizers (w_store w')) (DigestCredential (bar_Transaction res)) = Some a \<and>
     at_State a = ''xyz''"
proof -
  obtain res w' where r: "run_state (Engine_BeginAuthorization demo_engine None demo_authorization)
      (demo_at 1) = (Inr res, w')" using demo_run(2) by blast
  from begin_authorization_correct [OF demo_contract _ _ r] show ?thesis
    using r by (fastforce simp: demo_authorization_def)
qed

section \<open>Login\<close>

text \<open>C7. CompleteLogin.  When it hands out a consent token, the transaction existed, was neither
  consumed nor expired and is consumed now; the consent session stored under the digest of the
  token carries the transaction's state, challenge, client, redirect URI and resource and the
  principal that logged in, with scopes within those requested and within those of the client;
  the redirect URI is still registered with the client.\<close>

theorem complete_login_correct:
  assumes "engine_world e g" and "gh_ok g w" and "maps_wf (gh_view g w)"
    and "run_state (Engine_CompleteLogin e ctx inp) w = (Inr res, w')"
    and "records_wf (gh_view g w)"
  shows "\<exists>auth client consent now t.
    gm_get (st_authorizers (gh_view g w)) (DigestCredential (cli_Transaction inp)) = Some auth \<and>
    at_ConsumedAt auth = 0 \<and> 0 < now \<and> now < at_ExpiresAt auth \<and>
    gm_get (st_authorizers (gh_view g w')) (DigestCredential (cli_Transaction inp)) =
      Some (auth\<lparr>at_ConsumedAt := now\<rparr>) \<and>
    gm_get (st_clients (gh_view g w)) (at_ClientID auth) = Some client \<and>
    at_RedirectURI auth \<in> set (cl_RedirectURIs client) \<and>
    gm_get (st_consents (gh_view g w')) (DigestCredential (clr_ConsentToken res)) = Some consent \<and>
    cs_Token consent = clr_ConsentToken res \<and> cs_ConsumedAt consent = 0 \<and>
    snap_ID (cs_Client consent) = at_ClientID auth \<and>
    snap_RedirectURI (cs_Client consent) = at_RedirectURI auth \<and>
    cs_State consent = at_State auth \<and> cs_PKCEChallenge consent = at_PKCEChallenge auth \<and>
    cs_Resource consent = at_Resource auth \<and> cs_Principal consent = cli_Principal inp \<and>
    IsSubsetOf (cs_AllowedScopes consent) (at_RequestedScopes auth) \<and>
    IsSubsetOf (cs_AllowedScopes consent) (cl_AllowedScopes client) \<and>
    clr_ConsentURL res = ''/oauth/consent?token='' @ QueryEscape (clr_ConsentToken res) \<and>
    gh_obs g w' = gh_obs g w @ [Drawn (clr_ConsentToken res),
      Audited (event t ''complete_login'' ''success'' (p_Subject (cli_Principal inp))
        (at_ClientID auth) (at_Resource auth) (cs_AllowedScopes consent) [] ctx None)]"
proof -
  obtain xs log auth client snapshot allowed t t' t1 now where
    acts: "acts g (cfg_StatePolicy (en_config e)) xs log w w'"
    and auth: "Mem_GetAuthorization (DigestCredential (cli_Transaction inp)) (gh_view g w) = Inr auth"
    and client: "Mem_GetClient (at_ClientID auth) (gh_view g w) = Inr client"
      "at_RedirectURI auth \<in> set (cl_RedirectURIs client)"
      "snapshotClient client (at_RedirectURI auth) = Some snapshot"
    and log: "log = [(CommitLogin t1 now
       \<lparr>lco_TransactionDigest = DigestCredential (cli_Transaction inp),
        lco_Consent = login_consent (en_config e) (cli_Principal inp) auth allowed
          (clr_ConsentToken res) t snapshot\<rparr>, None)]"
    and xs: "xs = [Drawn (clr_ConsentToken res), Audited (event t' ''complete_login'' ''success''
       (p_Subject (cli_Principal inp)) (at_ClientID auth) (at_Resource auth) allowed [] ctx None)]"
    and url: "clr_ConsentURL res = ''/oauth/consent?token='' @ QueryEscape (clr_ConsentToken res)"
    and allowed: "\<exists>supported available. scopes_wf supported \<and> scopes_wf available \<and>
       allowed = Intersect (Intersect (Intersect (at_RequestedScopes auth)
         (cl_AllowedScopes client)) supported) available"
    using traces_wp [OF engine_world.login_traces [OF assms(1)] assms(2,4)]
    unfolding sum.case containsRedirect_iff by (elim exE conjE) (rule that; (assumption | blast))
  note found = get_found(3) [OF auth] get_client_found [OF client(1) assms(3)]
  from acts log have "0 < now" and step: "Mem_CommitLogin t1 now
       \<lparr>lco_TransactionDigest = DigestCredential (cli_Transaction inp),
        lco_Consent = login_consent (en_config e) (cli_Principal inp) auth allowed
          (clr_ConsentToken res) t snapshot\<rparr> (cfg_StatePolicy (en_config e)) (gh_view g w) =
     (None, gh_view g w')" by (auto dest: acts_call)
  have "scopes_wf (at_RequestedScopes auth)" using stored_wf(3) [OF auth assms(5)] by simp
  with allowed found have "IsSubsetOf allowed (at_RequestedScopes auth)"
    and "IsSubsetOf allowed (cl_AllowedScopes client)"
    by (auto simp: IsSubsetOf_iff)
  with found client(2,3) url xs acts_obs [OF acts] \<open>0 < now\<close> show ?thesis
    by - (rule login_effect [OF step assms(3)], auto simp: login_consent_def snapshotClient_def)
qed

lemma demo_orderly: "records_wf (w_store (demo_at n))"
proof -
  obtain log where run: "run (served demo_engine world_ghost) (take n demo_requests) demo_world =
      (log, demo_at n)" by (metis demo_at_def demo_step_def prod.collapse)
  have "engine_world.orderly world_ghost demo_world"
    by (simp add: engine_world.orderly_def [OF demo_contract] demo_world_def)
  from engine_world.run_orderly [OF demo_contract this run]
  have "engine_world.orderly world_ghost (demo_at n)" by (rule conjunct1)
  then show ?thesis by (simp add: engine_world.orderly_def [OF demo_contract])
qed

theorem complete_login_correct_witness:
  "\<exists>res w' auth. run_state (Engine_CompleteLogin demo_engine None demo_login) (demo_at 2) =
       (Inr res, w') \<and>
     gm_get (st_authorizers (w_store (demo_at 2))) (DigestCredential (cli_Transaction demo_login)) =
       Some auth \<and> at_ConsumedAt auth = 0"
proof -
  obtain res w' where r: "run_state (Engine_CompleteLogin demo_engine None demo_login) (demo_at 2) =
      (Inr res, w')" using demo_run(3) by blast
  from complete_login_correct [OF demo_contract _ _ r] show ?thesis
    using r demo_orderly [of 2] by fastforce
qed

section \<open>Consent\<close>

text \<open>C6. DecideConsent.  A decision that is answered was taken on a consent session that existed,
  was neither decided nor expired and is consumed now, and the user agent is sent to the redirect
  URI of that session with its state.  An approval stored one code under the digest of the secret
  that the redirect carries, for the session's client, principal, resource and challenge, with
  scopes within those of the session; a denial stored no code.\<close>

theorem decide_consent_correct:
  assumes "engine_world e g" and "gh_ok g w" and "maps_wf (gh_view g w)"
    and "run_state (Engine_DecideConsent e ctx inp) w = (Inr res, w')"
  shows "\<exists>consent now rawCode selected t.
    gm_get (st_consents (gh_view g w)) (DigestCredential (dci_Token inp)) = Some consent \<and>
    cs_ConsumedAt consent = 0 \<and> 0 < now \<and> now < cs_ExpiresAt consent \<and>
    gm_get (st_consents (gh_view g w')) (DigestCredential (dci_Token inp)) =
      Some (consent\<lparr>cs_ConsumedAt := now\<rparr>) \<and>
    NewScopeSet (dci_SelectedScopes inp) = Inr selected \<and>
    redirectResult (snap_RedirectURI (cs_Client consent)) (cs_State consent) (dci_Decision inp)
      rawCode = Inr (dcr_RedirectURI res) \<and>
    (dci_Decision inp = ConsentDecisionApprove \<and> IsSubsetOf selected (cs_AllowedScopes consent) \<and>
     gm_get (st_codes (gh_view g w')) (DigestCredential rawCode) =
       Some (consent_code (en_config e) consent selected rawCode t) \<and>
     Drawn rawCode \<in> set (drop (length (gh_obs g w)) (gh_obs g w')) \<or>
     dci_Decision inp = ConsentDecisionDeny \<and>
     set (st_codes (gh_view g w')) \<subseteq> set (st_codes (gh_view g w)))"
proof -
  let ?p = "cfg_StatePolicy (en_config e)"
  obtain xs log consent selected t t' t1 now rawCode where
    acts: "acts g ?p xs log w w'"
    and consent: "Mem_GetConsent (DigestCredential (dci_Token inp)) (gh_view g w) = Inr consent"
    and *: "NewScopeSet (dci_SelectedScopes inp) = Inr selected"
      "redirectResult (snap_RedirectURI (cs_Client consent)) (cs_State consent) (dci_Decision inp)
         rawCode = Inr (dcr_RedirectURI res)"
    and decided:
      "dci_Decision inp = ConsentDecisionApprove \<and> IsSubsetOf selected (cs_AllowedScopes consent) \<and>
       log = [(CommitConsent t1 now \<lparr>cco_ConsentDigest = DigestCredential (dci_Token inp),
         cco_Code = consent_code (en_config e) consent selected rawCode t,
         cco_Decision = dci_Decision inp\<rparr>, None)] \<and> Drawn rawCode \<in> set xs \<or>
       dci_Decision inp = ConsentDecisionDeny \<and>
       log = [(CommitConsent t1 now \<lparr>cco_ConsentDigest = DigestCredential (dci_Token inp),
         cco_Code = zero_AuthorizationCodeRecord (en_zero e),
         cco_Decision = dci_Decision inp\<rparr>, None)]"
    using traces_wp [OF engine_world.decide_traces [OF assms(1)] assms(2,4)]
    unfolding sum.case by (elim exE conjE) (rule that, assumption, assumption, assumption,
        assumption, erule disjE;
        ((elim conjE, rule disjI1, intro conjI, assumption, assumption, assumption, simp; fail) |
         (elim conjE, rule disjI2, intro conjI; assumption)))
  note found = get_found(2) [OF consent]
  have obs: "drop (length (gh_obs g w)) (gh_obs g w') = xs" using acts_obs [OF acts] by simp
  define code where "code = (if dci_Decision inp = ConsentDecisionApprove
      then consent_code (en_config e) consent selected rawCode t
      else zero_AuthorizationCodeRecord (en_zero e))"
  have deny: "ConsentDecisionDeny \<noteq> ConsentDecisionApprove" by (simp add: decision_defs)
  have decision: "dci_Decision inp = ConsentDecisionApprove \<or> dci_Decision inp = ConsentDecisionDeny"
    and code: "dci_Decision inp = ConsentDecisionApprove \<Longrightarrow>
       code = consent_code (en_config e) consent selected rawCode t \<and> Drawn rawCode \<in> set xs \<and>
       IsSubsetOf selected (cs_AllowedScopes consent)"
    using decided deny by (elim disjE conjE; simp add: code_def)+
  have log: "log = [(CommitConsent t1 now
      \<lparr>cco_ConsentDigest = DigestCredential (dci_Token inp), cco_Code = code,
       cco_Decision = dci_Decision inp\<rparr>, None)]"
    using decided deny by (elim disjE conjE) (simp_all add: code_def)
  from acts log have "0 < now" and "store_step ?p (CommitConsent t1 now
      \<lparr>cco_ConsentDigest = DigestCredential (dci_Token inp), cco_Code = code,
       cco_Decision = dci_Decision inp\<rparr>) (gh_view g w) = (None, gh_view g w')"
    by (auto dest: acts_call simp del: store_step.simps)
  from step_CommitConsent_None [OF this(2)] obtain r where
    step: "Mem_CommitConsent t1 now \<lparr>cco_ConsentDigest = DigestCredential (dci_Token inp),
       cco_Code = code, cco_Decision = dci_Decision inp\<rparr> ?p (gh_view g w) = (Inr r, gh_view g w')" .
  have kept: "set (st_codes (pruned t1 (gh_view g w))) \<subseteq> set (st_codes (gh_view g w))"
    by (auto simp: pruned_codes gm_set_delete_if)
  from decision show ?thesis
  proof
    assume d: "dci_Decision inp = ConsentDecisionApprove"
    from code [OF d] have code: "code = consent_code (en_config e) consent selected rawCode t"
      and drawn: "Drawn rawCode \<in> set xs" "IsSubsetOf selected (cs_AllowedScopes consent)"
      by blast+
    show ?thesis
      by (rule consent_effect [OF step assms(3)], intro exI conjI disjI1)
        (use * found code drawn d obs \<open>0 < now\<close> in \<open>simp_all add: consent_code_Digest\<close>)
  next
    assume d: "dci_Decision inp = ConsentDecisionDeny"
    show ?thesis
      by (rule consent_effect [OF step assms(3)], intro exI conjI disjI2)
        (use * found d \<open>0 < now\<close> kept in simp_all)
  qed
qed

theorem decide_consent_correct_witness:
  "\<exists>res w' consent. run_state (Engine_DecideConsent demo_engine None demo_decision) (demo_at 3) =
       (Inr res, w') \<and>
     gm_get (st_consents (w_store (demo_at 3))) (DigestCredential (dci_Token demo_decision)) =
       Some consent \<and> cs_ConsumedAt consent = 0"
proof -
  obtain res w' where r: "run_state (Engine_DecideConsent demo_engine None demo_decision) (demo_at 3) =
      (Inr res, w')" using demo_run(4) by blast
  from decide_consent_correct [OF demo_contract _ _ r] show ?thesis using r by fastforce
qed

end
