(* ===== verification/System_Properties.thy ===== *)
theory System_Properties
  imports Flow_Properties
begin

text \<open>
  The properties of the engine as a whole: revocation, what refusals leave behind, the invariants
  along every sequence of requests, refinement to the store, construction, and progress.
\<close>

section \<open>Revocation\<close>

context engine_world
begin

lemma revoke_found_traces:
  assumes "Mem_GetRefreshGrant (DigestCredential (rvi_Token inp)) (gh_view g w) = Inr grant"
    and "rvi_Token inp \<noteq> []"
  shows "traces g policy w [] [] (Engine_Revoke e ctx inp)
     (\<lambda>r xs log. case r of
        None \<Rightarrow>
          if NewClientID (rvi_ClientID inp) = Inr (rg_ClientID grant)
          then \<exists>t t'. log = [(RevokeRefreshFamily (rg_FamilyID grant) t, None)] \<and> 0 < t \<and>
            xs = [Audited (event t' ''revoke'' ''success'' (p_Subject (rg_Principal grant))
              (rg_ClientID grant) (rg_Resource grant) (rg_Scopes grant) [] ctx None)]
          else log = [] \<and> xs = []
      | Some err \<Rightarrow> \<exists>ev. xs = [Audited ev] \<and> ae_Outcome ev = ''error'' \<and> ae_Cause ev = Some err \<and>
          (log = [] \<or> (\<exists>t err'. log = [(RevokeRefreshFamily (rg_FamilyID grant) t, Some err')]))) w"
  unfolding Engine_Revoke_def Let_def
  by (intro traces_rules; use assms in \<open>auto simp: operational_def isExpectedStoreDenial_def\<close>)

end

text \<open>C10. Revoke.  When a stored refresh token is presented by its own client, its whole family is
  revoked and one success recorded, or the store could not be reached, nothing changes and the
  failure is reported; presented by any other client it changes nothing and records nothing.\<close>

theorem revoke_correct:
  assumes "engine_world e g" and "gh_ok g w"
    and "gm_get (st_refresh (gh_view g w)) (DigestCredential (rvi_Token inp)) = Some grant"
    and "rvi_Token inp \<noteq> []" and "run_state (Engine_Revoke e ctx inp) w = (r, w')"
  shows "case r of
      None \<Rightarrow>
        if NewClientID (rvi_ClientID inp) = Inr (rg_ClientID grant)
        then family_revoked (gh_view g w') (rg_FamilyID grant) \<and>
          (\<exists>t. gh_obs g w' = gh_obs g w @ [Audited (event t ''revoke'' ''success''
             (p_Subject (rg_Principal grant)) (rg_ClientID grant) (rg_Resource grant)
             (rg_Scopes grant) [] ctx None)])
        else gh_view g w' = gh_view g w \<and> gh_obs g w' = gh_obs g w
    | Some err \<Rightarrow> gh_view g w' = gh_view g w \<and>
        (\<exists>ev. gh_obs g w' = gh_obs g w @ [Audited ev] \<and> ae_Outcome ev = ''error'')"
proof -
  have found: "Mem_GetRefreshGrant (DigestCredential (rvi_Token inp)) (gh_view g w) = Inr grant"
    using assms(3) by (simp add: Mem_GetRefreshGrant_def)
  have family: "acts g p xs [(RevokeRefreshFamily f t, s)] w w' \<Longrightarrow>
      s = None \<and> gh_view g w' = revokeFamily f t (gh_view g w)" for p xs f t s
    by (auto dest!: acts_call simp: Mem_RevokeRefreshFamily_def)
  from traces_wp [OF engine_world.revoke_found_traces [OF assms(1) found assms(4)] assms(2,5)]
  obtain xs log where acts: "acts g (cfg_StatePolicy (en_config e)) xs log w w'"
    and post: "case r of
        None \<Rightarrow>
          if NewClientID (rvi_ClientID inp) = Inr (rg_ClientID grant)
          then \<exists>t t'. log = [(RevokeRefreshFamily (rg_FamilyID grant) t, None)] \<and> 0 < t \<and>
            xs = [Audited (event t' ''revoke'' ''success'' (p_Subject (rg_Principal grant))
              (rg_ClientID grant) (rg_Resource grant) (rg_Scopes grant) [] ctx None)]
          else log = [] \<and> xs = []
      | Some err \<Rightarrow> \<exists>ev. xs = [Audited ev] \<and> ae_Outcome ev = ''error'' \<and> ae_Cause ev = Some err \<and>
          (log = [] \<or> (\<exists>t err'. log = [(RevokeRefreshFamily (rg_FamilyID grant) t, Some err')]))"
    by blast
  show ?thesis
  proof (cases r)
    case None
    with post acts family [of _ xs] acts_obs [OF acts] show ?thesis
      by (cases "NewClientID (rvi_ClientID inp) = Inr (rg_ClientID grant)")
        (fastforce simp: family_revoked_revokeFamily dest: acts_view)+
  next
    case (Some err)
    with post acts family [of _ xs] acts_obs [OF acts] show ?thesis
      by (fastforce dest: acts_view)
  qed
qed

theorem revoke_correct_witness:
  "\<exists>grant r w'. gm_get (st_refresh (w_store (demo_at 6)))
       (DigestCredential (rfi_RefreshToken demo_refresh)) = Some grant \<and>
     run_state (Engine_Revoke demo_engine None \<lparr>rvi_Token = rfi_RefreshToken demo_refresh,
       rvi_ClientID = rfi_ClientID demo_refresh\<rparr>) (demo_at 6) = (r, w') \<and>
     (case r of None \<Rightarrow> family_revoked (w_store w') (rg_FamilyID grant)
      | Some err \<Rightarrow> w_store w' = w_store (demo_at 6))"
proof -
  let ?inp = "\<lparr>rvi_Token = rfi_RefreshToken demo_refresh, rvi_ClientID = rfi_ClientID demo_refresh\<rparr>"
  obtain grant where grant: "gm_get (st_refresh (w_store (demo_at 6)))
      (DigestCredential (rfi_RefreshToken demo_refresh)) = Some grant"
    and client: "NewClientID (rfi_ClientID demo_refresh) = Inr (rg_ClientID grant)"
    using demo_rotated by blast
  obtain r w' where r: "run_state (Engine_Revoke demo_engine None ?inp) (demo_at 6) = (r, w')"
    by fastforce
  have "rvi_Token ?inp \<noteq> []" by (simp add: demo_refresh_def demo_secret_def)
  with revoke_correct [OF demo_contract, of "demo_at 6" ?inp grant None r w'] grant client r
  show ?thesis by (intro exI [of _ grant] exI [of _ r] exI [of _ w']) (simp split: option.splits)
qed

section \<open>Every request is answered\<close>

text \<open>C19. Along every sequence of requests to an engine whose store it alone has written, the store
  stays well-formed, the redirect URIs it holds parse and its scopes are canonical; no request
  panics, and every refusal is an \<open>OAuthError\<close> with status 400, or 503 for a temporary failure,
  except for the two operations that hand on the error they meet: \<open>ValidateRedirect\<close> and \<open>Revoke\<close>.\<close>

theorem requests_answered:
  assumes "engine_world e g" and "gh_ok g w" and "maps_wf (gh_view g w)"
    and "records_wf (gh_view g w)" and "run (served e g) requests w = (log, w')"
  shows "gh_ok g w' \<and> maps_wf (gh_view g w') \<and> records_wf (gh_view g w') \<and>
    list_all (\<lambda>(req, resp, xs). \<forall>err. resp = Failed err \<longrightarrow>
      \<not> is_panic err \<and> (hands_on req \<or> public_error err)) log"
proof -
  have "engine_world.orderly g w"
    using assms(2-4) by (simp add: engine_world.orderly_def [OF assms(1)])
  from engine_world.run_orderly [OF assms(1) this assms(5)] show ?thesis
    by (simp add: engine_world.orderly_def [OF assms(1)])
qed

theorem requests_answered_witness:
  "\<exists>log w'. run (served demo_engine world_ghost) demo_requests (demo_at 0) = (log, w') \<and>
     records_wf (w_store w')"
proof -
  obtain log w' where r: "run (served demo_engine world_ghost) demo_requests (demo_at 0) = (log, w')"
    by fastforce
  from requests_answered [OF demo_contract _ _ _ r] r show ?thesis by (simp add: demo_orderly)
qed

text \<open>C20. A request that is refused grants nothing: it leaves no new transaction, consent, code, grant
  or client behind, and changes of the existing records at most the last use of a client, the
  revocation of a grant or, by pruning, their presence.  It leaves exactly one audit record, at the end,
  that names the operation and the identifier of the request and is not a success; only the check
  of a redirect URI and the view of a consent, which record nothing, and a registration may be refused
  without any event.\<close>

theorem refused_request_grants_nothing:
  assumes "engine_world e g" and "gh_ok g w" and "maps_wf (gh_view g w)"
    and "records_wf (gh_view g w)" and "served e g req w = ((Failed err, xs), w')"
  shows "nothing_granted (gh_view g w) (gh_view g w') \<and>
    (silent req \<and> xs = [] \<or>
     (\<exists>ys ev. xs = ys @ [Audited ev] \<and> list_all (\<lambda>x. \<not> is_audit x) ys \<and>
        ae_Operation ev = operation_of req \<and> ae_RequestID ev = FromContext (context_of req) \<and>
        ae_Outcome ev \<in> {''denied'', ''error'', ''revoked''}))"
proof -
  obtain log where acts: "acts g (cfg_StatePolicy (en_config e)) xs log w w'"
    and "proper req (Failed err) xs log"
    using engine_world.served_proper [OF assms(1,5,2,4)] by blast
  then have "quiet log" and "silent req \<and> xs = [] \<or> records_refusal req xs"
    by (simp_all add: proper_def)
  with acts nothing_granted_run [OF _ _ assms(3)] show ?thesis
    unfolding acts_run records_refusal_def by blast
qed

theorem refused_request_grants_nothing_witness:
  "\<exists>err xs w'. served demo_engine world_ghost (RefreshReq None demo_refresh) (demo_at 6) =
       ((Failed err, xs), w') \<and> nothing_granted (w_store (demo_at 6)) (w_store w')"
proof -
  obtain err w' where "run_state (Engine_Refresh demo_engine None demo_refresh) (demo_at 6) =
      (Inl err, w')" using demo_run(7) by blast
  then obtain xs where r: "served demo_engine world_ghost (RefreshReq None demo_refresh) (demo_at 6) =
      ((Failed err, xs), w')" by (simp add: served_def)
  from refused_request_grants_nothing [OF demo_contract _ _ _ r] r show ?thesis
    by (simp add: demo_orderly)
qed

section \<open>Refinement\<close>

text \<open>C21. The engine refines its store: whatever the dependencies do within their contracts, a
  sequence of requests changes the abstract store as some sequence of store calls does, each at a
  positive reading of the clock; hence every capacity bound holds throughout.\<close>

theorem engine_refines_store:
  assumes "engine_world e g" and "gh_ok g w" and "maps_wf (gh_view g w)"
    and "records_wf (gh_view g w)" and "run (served e g) requests w = (log, w')"
    and "capacity_ok (cfg_StatePolicy (en_config e)) (gh_view g w)"
  shows "\<exists>calls slog. list_all clock_set calls \<and>
      run (store_step (cfg_StatePolicy (en_config e))) calls (gh_view g w) = (slog, gh_view g w') \<and>
      capacity_ok (cfg_StatePolicy (en_config e)) (gh_view g w')"
proof -
  have "engine_world.orderly g w"
    using assms(2-4) by (simp add: engine_world.orderly_def [OF assms(1)])
  from engine_world.run_refines [OF assms(1) this assms(5)] obtain calls slog where
    calls: "list_all clock_set calls"
    and r: "run (store_step (cfg_StatePolicy (en_config e))) calls (gh_view g w) =
      (slog, gh_view g w')" by blast
  moreover have "capacity_ok (cfg_StatePolicy (en_config e)) (gh_view g w')"
    using capacity_ok_run [OF calls assms(6)] r by simp
  ultimately show ?thesis by blast
qed

theorem engine_refines_store_witness:
  "capacity_ok (cfg_StatePolicy demo_config)
     (w_store (snd (run (served demo_engine world_ghost) demo_requests (demo_at 0))))"
proof -
  obtain log w' where r: "run (served demo_engine world_ghost) demo_requests (demo_at 0) = (log, w')"
    by fastforce
  have config: "en_config demo_engine = demo_config"
    by (simp add: demo_engine_def fixture_engine_def)
  have "capacity_ok (cfg_StatePolicy demo_config) (w_store (demo_at 0))"
    by (simp add: demo_at_def demo_world_def capacity_ok_def NewStore_def demo_config_def
        DefaultConfig_def activeRefreshGrantCount_def gm_count_def)
  with engine_refines_store [OF demo_contract _ _ _ r] r show ?thesis
    by (auto simp: demo_orderly config)
qed

section \<open>Construction\<close>

lemma wp_cases:
  "wp (if c then m else n) Q w = (if c then wp m Q w else wp n Q w)"
  "wp (case o1 of None \<Rightarrow> m | Some x \<Rightarrow> f x) Q w =
     (case o1 of None \<Rightarrow> wp m Q w | Some x \<Rightarrow> wp (f x) Q w)"
  "wp (case s of Inl err \<Rightarrow> h err | Inr y \<Rightarrow> k y) Q w =
     (case s of Inl err \<Rightarrow> wp (h err) Q w | Inr y \<Rightarrow> wp (k y) Q w)"
  by (simp_all split: option.splits sum.splits)

text \<open>C23. New.  An engine is returned only for a configuration that validates, with every required
  dependency present and a token service of the configured issuer; it holds exactly these, and an
  audit sink that records nothing if none was given.\<close>

theorem New_correct:
  assumes "run_state (New zero config deps) w = (Inr e, w')"
  shows "Config_Validate config = None \<and> en_config e = config \<and> en_zero e = zero \<and>
    deps_Store deps = Some (en_Store e) \<and> deps_Resources deps = Some (en_Resources e) \<and>
    deps_Scopes deps = Some (en_Scopes e) \<and> deps_Revalidator deps = Some (en_Revalidator e) \<and>
    deps_Tokens deps = Some (en_Tokens e) \<and> deps_Secrets deps = Some (en_Secrets e) \<and>
    deps_Clock deps = Some (en_Clock e) \<and>
    en_Audit e = (case deps_Audit deps of None \<Rightarrow> NopAudit | Some sink \<Rightarrow> sink) \<and>
    fst (run_state (tokens_TokenIssuer (en_Tokens e)) w) = cfg_Issuer config"
proof -
  have "wp (New zero config deps) (\<lambda>r _. \<forall>e. r = Inr e \<longrightarrow>
      Config_Validate config = None \<and> en_config e = config \<and> en_zero e = zero \<and>
      deps_Store deps = Some (en_Store e) \<and> deps_Resources deps = Some (en_Resources e) \<and>
      deps_Scopes deps = Some (en_Scopes e) \<and> deps_Revalidator deps = Some (en_Revalidator e) \<and>
      deps_Tokens deps = Some (en_Tokens e) \<and> deps_Secrets deps = Some (en_Secrets e) \<and>
      deps_Clock deps = Some (en_Clock e) \<and>
      en_Audit e = (case deps_Audit deps of None \<Rightarrow> NopAudit | Some sink \<Rightarrow> sink) \<and>
      fst (run_state (tokens_TokenIssuer (en_Tokens e)) w) = cfg_Issuer config) w"
    unfolding New_def wp_cases prod.case wp_return
    by (auto simp: wp_simps wp_cases wp_def split: option.splits sum.splits prod.splits)
  from wpD [OF this assms] show ?thesis by simp
qed

text \<open>The dependencies of the in-memory fixtures.\<close>

definition fixture_dependencies ::
  "Config \<Rightarrow> string list \<Rightarrow> 'a Revalidation \<Rightarrow> go_error option \<Rightarrow> go_error option \<Rightarrow>
   ('a World, 'a) Dependencies" where
  "fixture_dependencies config available rv rv_err token_err =
     \<lparr>deps_Store = Some memory_port,
      deps_Resources = Some
        (registry_port (static_registry (cfg_Resources config) (cfg_SupportedScopes config))),
      deps_Scopes = Some (ScopePolicy (canonical_scopes available)),
      deps_Revalidator = Some (Revalidator rv rv_err),
      deps_Tokens = Some (TokenService (cfg_Issuer config) token_err),
      deps_Secrets = Some Secrets, deps_Clock = Some Clock_Now,
      deps_Audit = Some capturingSink\<rparr>"

lemma New_fixture:
  assumes "Config_Validate config = None"
  shows "run_state (New zero config (fixture_dependencies config available rv rv_err token_err)) w =
    (Inr (fixture_engine config available rv rv_err token_err zero), w)"
proof -
  have "Validate_resources (cfg_SupportedScopes config) [] (cfg_Resources config) = None"
    using assms by (auto simp: Config_Validate_def split: if_splits option.splits)
  then obtain r where r: "NewStaticResourceRegistry (cfg_Resources config)
      (cfg_SupportedScopes config) = Inr r" using Validate_resources_registry by blast
  then have static: "static_registry (cfg_Resources config) (cfg_SupportedScopes config) = r"
    by (simp add: static_registry_def)
  have "wp (New zero config (fixture_dependencies config available rv rv_err token_err))
      (\<lambda>a w'. (a, w') = (Inr (fixture_engine config available rv rv_err token_err zero), w)) w"
    using assms r static validateResourceRegistry_static [OF r]
    by (simp add: New_def fixture_dependencies_def fixture_engine_def TokenService_def
        registry_port_def wp_simps)
  then show ?thesis by (simp add: wp_def split: prod.splits)
qed

lemma demo_config_valid: "Config_Validate demo_config = None"
  by code_simp

theorem New_correct_witness:
  "\<exists>e w'. run_state (New () demo_config (fixture_dependencies demo_config demo_scopes
       \<lparr>rv_Status = RevalidationEligible, rv_Principal = demo_principal\<rparr> None None)) demo_world =
       (Inr e, w') \<and> en_Audit e = capturingSink"
proof -
  note r = New_fixture [OF demo_config_valid, of "()" demo_scopes
      "\<lparr>rv_Status = RevalidationEligible, rv_Principal = demo_principal\<rparr>" None None demo_world]
  from New_correct [OF r] r show ?thesis by (auto simp: fixture_dependencies_def)
qed

text \<open>Construction succeeds: with the in-memory dependencies, the static registry of its own
  configuration and a token service of its issuer, every configuration that validates yields an
  engine without changing anything, and this engine's dependencies keep every contract that the
  properties of the engine rest on.\<close>

lemma New_succeeds:
  assumes "Config_Validate config = None"
  shows "\<exists>e. run_state (New zero config
      (fixture_dependencies config available rv rv_err token_err)) w = (Inr e, w) \<and>
    en_config e = config \<and> engine_world e world_ghost"
  by (intro exI conjI, rule New_fixture [OF assms], simp add: fixture_engine_def,
      rule fixture_engine_world)

section \<open>Progress\<close>

lemma secret_graphic:
  assumes "\<forall>c \<in> set label. graphic c"
  shows "\<forall>c \<in> set (label @ ''-'' @ padded 40 n). graphic c"
proof -
  have "graphic c" if "is_digit c" for c using that by (simp add: graphic_def is_digit_def)
  moreover have "graphic (CHR ''-'')" by (simp add: graphic_def)
  ultimately show ?thesis using assms padded_digits [of 40 n] by auto
qed

lemma fixture_secret:
  assumes "\<forall>c \<in> set label. graphic c" and "length label \<le> 100"
  shows "newOpaque (label @ ''-'' @ padded 40 (uint (n :: 64 word))) name =
    Inr (label @ ''-'' @ padded 40 (uint n))"
proof -
  have "uint n < 2 ^ 64" using uint_bounded [of n] by simp
  then have "length (padded 40 (uint n)) = 40" by (intro padded_length [of _ 19]) simp_all
  moreover note g = secret_graphic [OF assms(1), of "uint n"]
  moreover have "c \<notin> set blanks" if "graphic c" for c
    using that by (auto simp: graphic_def blanks_def)
  ultimately show ?thesis
    using assms(2) TrimSpace_graphics [OF g] by (auto simp: newOpaque_Inr)
qed

lemma wp_fixtures:
  "wp Clock_Now Q w = Q (w_clock w) w"
  "wp (read_store q) Q' w = Q' (q (w_store w)) w"
  "wp (capturingSink ctx ev) Q'' w = Q'' () (observe (Audited ev) w)"
  "wp (State f) P w = (case f w of (r, w') \<Rightarrow> P r w')"
  by (simp_all add: wp_def Clock_Now_def read_store_def capturingSink_def)

lemma wp_secret:
  "wp (secret new label) Q w =
     (let w' = w\<lparr>w_secrets := w_secrets w + 1\<rparr>
      in (case new (label @ ''-'' @ padded 40 (uint (w_secrets w + 1))) of
            Inl err \<Rightarrow> Q (Inl err) w' | Inr v \<Rightarrow> Q (Inr v) (observe (Drawn v) w')))"
  by (simp add: wp_def secret_def secret_value_def Let_def split: sum.splits)

text \<open>The refresh token that the fixtures draw next.\<close>

definition next_refresh :: "'a World \<Rightarrow> RefreshToken" where
  "next_refresh w = ''refresh-'' @ padded 40 (uint (w_secrets w + 1))"

lemma next_secrets:
  "newOpaque (''refresh-'' @ padded 40 (uint (n :: 64 word))) l = Inr (''refresh-'' @ padded 40 (uint n))"
  "newOpaque (''family-'' @ padded 40 (uint (n :: 64 word))) l = Inr (''family-'' @ padded 40 (uint n))"
  using fixture_secret [of "''refresh''" n l] fixture_secret [of "''family''" n l]
  by (simp_all add: graphic_def)

lemma observe_simps [simp]:
  "w_store (observe x w) = w_store w" "w_clock (observe x w) = w_clock w"
  "w_secrets (observe x w) = w_secrets w" "w_tokens (observe x w) = w_tokens w"
  by (simp_all add: observe_def)

text \<open>A code that the store will exchange now for a grant with a given digest.\<close>

definition exchangeable :: "StatePolicy \<Rightarrow> time \<Rightarrow> 'a AuthorizationCodeRecord \<Rightarrow> CredentialDigest \<Rightarrow>
    'a Store \<Rightarrow> bool" where
  "exchangeable p now code d s \<longleftrightarrow>
     ac_ConsumedAt code = 0 \<and> now < ac_ExpiresAt code \<and> now < ac_AuthorizationEnds code \<and>
     activeRefreshGrantCount s < cap_MaxRefreshGrants (sp_Capacity p) \<and>
     d \<noteq> zero_digest \<and> gm_get (st_refresh s) d = None"

lemma exchange_commits:
  assumes "gm_get (st_codes s) (ac_Digest code) = Some code" and "maps_wf s" and "0 < now"
    and "exchangeable p now code (DigestCredential refresh) s" and "family \<noteq> []"
  shows "fst (Mem_CommitCodeExchange now now \<lparr>cec_CodeDigest = ac_Digest code,
    cec_Refresh = Some (exchange_grant code refresh family)\<rparr> p s) = None"
proof -
  have "gm_get (st_codes (pruned now s)) (ac_Digest code) = Some code"
    using assms by (simp add: pruned_get_code exchangeable_def)
  moreover have "gm_get (st_refresh (pruned now s)) (DigestCredential refresh) = None"
    using assms pruned_getD(4) unfolding exchangeable_def by (metis not_None_eq)
  moreover have "activeRefreshGrantCount (pruned now s) < cap_MaxRefreshGrants (sp_Capacity p)"
    using assms(4) active_pruned [of now s] by (simp add: exchangeable_def)
  moreover have "ValidateCodeExchangeCommit code \<lparr>cec_CodeDigest = ac_Digest code,
      cec_Refresh = Some (exchange_grant code refresh family)\<rparr> now = None"
    using assms(4,5) by (simp add: ValidateCodeExchangeCommit_None exchange_grant_def exchangeable_def)
  ultimately show ?thesis
    by (simp add: Mem_CommitCodeExchange_def Let_def exchange_grant_def)
qed

text \<open>C22. Progress.  On the in-memory dependencies a client that presents a live code with its own
  identifier, redirect URI and PKCE verifier gets tokens, as long as the capacity for refresh
  grants is not exhausted and the next refresh token is fresh.\<close>

theorem exchange_succeeds:
  assumes "0 < w_clock w" and "maps_wf (w_store w)"
    and "gm_get (st_codes (w_store w)) (DigestCredential (eci_Code inp)) = Some code"
    and "exchangeable (cfg_StatePolicy config) (w_clock w) code
      (DigestCredential (next_refresh w)) (w_store w)"
    and "eci_Code inp \<noteq> []" and "NewClientID (eci_ClientID inp) = Inr (ac_ClientID code)"
    and "NewRedirectURI (eci_RedirectURI inp) = Inr (ac_RedirectURI code)"
    and "PKCE_Verify (ac_PKCEChallenge code) (eci_CodeVerifier inp) = None"
  shows "\<exists>tok w'. run_state (Engine_ExchangeCode
      (fixture_engine config available rv rv_err None zero) ctx inp) w = (Inr tok, w') \<and>
    tok_RefreshToken tok = next_refresh w"
proof -
  let ?e = "fixture_engine config available rv rv_err None zero :: ('a World, 'a) Engine"
  have digest: "ac_Digest code = DigestCredential (eci_Code inp)"
    using maps_wf_code [OF assms(2,3)] by simp
  have verifier: "ValidatePKCEVerifier (eci_CodeVerifier inp) = None"
    using assms(8) by (auto simp: PKCE_Verify_def split: option.splits)
  have family: "''family-'' @ padded 40 (uint (2 + w_secrets w)) \<noteq> []" by simp
  obtain s' where commit: "Mem_CommitCodeExchange (w_clock w) (w_clock w)
      \<lparr>cec_CodeDigest = DigestCredential (eci_Code inp), cec_Refresh = Some (exchange_grant code
         (''refresh-'' @ padded 40 (uint (w_secrets w + 1)))
         (''family-'' @ padded 40 (uint (2 + w_secrets w))))\<rparr>
      (cfg_StatePolicy config) (w_store w) = (None, s')"
    using exchange_commits [OF assms(3) [folded digest] assms(2,1,4) family]
    unfolding next_refresh_def digest by (metis prod.collapse)
  have "wp (Engine_ExchangeCode ?e ctx inp) (\<lambda>r w'. \<exists>tok. r = Inr tok \<and>
      tok_RefreshToken tok = next_refresh w) w"
    using assms commit verifier digest unfolding exchangeable_def
    by (simp add: Engine_ExchangeCode_def exchange_issue_def exchange_store_def fixture_engine_def
        wp_simps wp_cases wp_fixtures memory_port_def Mem_GetCodeForExchange_def Let_def Engine_now_def
        TokenService_def Secrets_def wp_secret newOpaque_ctor_defs next_secrets [simplified] wp_at_clock
        completed_def audit_def next_refresh_def)
  then show ?thesis by (auto simp: wp_def split: prod.splits)
qed

text \<open>A world that holds one live code.\<close>

definition ready_code :: "unit AuthorizationCodeRecord" where
  "ready_code = \<lparr>ac_Digest = DigestCredential (eci_Code demo_exchange),
     ac_ClientID = eci_ClientID demo_exchange, ac_RedirectURI = demo_redirect,
     ac_PKCEChallenge = \<lparr>pk_Value = bai_CodeChallenge demo_authorization, pk_Method = ''S256''\<rparr>,
     ac_Principal = demo_principal, ac_Scopes = ScopeSet [''read''],
     ac_Resource = ''https://api.test'', ac_State = ''xyz'', ac_AuthorizationEnds = 2000000000000,
     ac_ExpiresAt = 1500000000000, ac_ConsumedAt = 0\<rparr>"

definition ready_world :: "unit World" where
  "ready_world = demo_world\<lparr>w_store := NewStore\<lparr>st_codes := [(ac_Digest ready_code, ready_code)]\<rparr>\<rparr>"

lemma ready_digests:
  "DigestCredential (eci_Code demo_exchange) \<noteq> zero_digest"
  "DigestCredential (next_refresh ready_world) \<noteq> zero_digest"
  by code_simp+

lemma ready_input:
  "NewClientID (eci_ClientID demo_exchange) = Inr (ac_ClientID ready_code)"
  "NewRedirectURI (eci_RedirectURI demo_exchange) = Inr (ac_RedirectURI ready_code)"
  "PKCE_Verify (ac_PKCEChallenge ready_code) (eci_CodeVerifier demo_exchange) = None"
  by code_simp+

theorem exchange_succeeds_witness:
  "\<exists>tok w'. run_state (Engine_ExchangeCode demo_engine None demo_exchange) ready_world =
     (Inr tok, w') \<and> tok_RefreshToken tok = next_refresh ready_world"
proof -
  have "0 < w_clock ready_world" by (simp add: ready_world_def demo_world_def)
  moreover have "maps_wf (w_store ready_world)"
    using ready_digests(1)
    by (simp add: ready_world_def maps_wf_def NewStore_def gm_all_def
        ready_code_def)
  moreover have "gm_get (st_codes (w_store ready_world)) (DigestCredential (eci_Code demo_exchange)) =
      Some ready_code"
    by (simp add: ready_world_def ready_code_def)
  moreover have "exchangeable (cfg_StatePolicy demo_config) (w_clock ready_world) ready_code
      (DigestCredential (next_refresh ready_world)) (w_store ready_world)"
    using ready_digests(2)
    by (simp add: exchangeable_def ready_code_def ready_world_def demo_world_def NewStore_def
        activeRefreshGrantCount_def gm_count_def demo_config_def DefaultConfig_def)
  moreover have "eci_Code demo_exchange \<noteq> []" by (simp add: demo_exchange_def demo_secret_def)
  ultimately show ?thesis
    unfolding demo_engine_def by (rule exchange_succeeds [OF _ _ _ _ _ ready_input])
qed

end
