(* ===== verification/Redirects.thy ===== *)
theory Redirects
  imports Engine
begin

text \<open>
  Round trips of the query encoding of \<open>net/url\<close>, and with them what the redirect that ends the
  authorization flow carries.
\<close>

section \<open>Escaping\<close>

lemma hex_value_digit: "n < 16 \<Longrightarrow> hex_value (hex_digit n) = Some n"
proof -
  have "map (\<lambda>n. hex_value (hex_digit n)) [0..<16] = map Some [0..<16]"
    by (simp add: upt_rec hex_value_def hex_digit_def)
  from arg_cong [OF this, of "\<lambda>xs. xs ! n"] show "n < 16 \<Longrightarrow> ?thesis" by simp
qed

lemma of_char_less: "(of_char c :: nat) < 256"
  by (metis of_char_of char_of_char mod_less_divisor zero_less_numeral)

lemma nibbles: "(of_char c :: nat) div 16 < 16" "(of_char c :: nat) mod 16 < 16"
  using of_char_less [of c] by (simp_all add: less_mult_imp_div_less)

definition query_char :: "char \<Rightarrow> string" where
  "query_char c =
     (if c = CHR '' '' then [CHR ''+''] else if shouldEscape c encodeQueryComponent then percent c
      else [c])"

lemma QueryEscape_chars: "QueryEscape s = concat (map query_char s)"
  by (simp add: QueryEscape_def escape_def query_char_def [abs_def])

lemma unescaped_char:
  "\<not> shouldEscape c encodeQueryComponent \<Longrightarrow> ascii_alnum c \<or> c \<in> set ''-_.~''"
  by (auto simp: shouldEscape_def split: if_splits)

lemma unescape_query_char:
  "unescape encodeQueryComponent (query_char c @ t) =
     map_option ((#) c) (unescape encodeQueryComponent t)"
proof -
  let ?n = "of_char c :: nat"
  have "hex_value (hex_digit (?n div 16)) = Some (?n div 16)"
    and "hex_value (hex_digit (?n mod 16)) = Some (?n mod 16)"
    by (simp_all add: hex_value_digit nibbles)
  moreover have "char_of (16 * (?n div 16) + ?n mod 16) = c" by simp
  moreover have "c \<noteq> CHR ''%'' \<and> c \<noteq> CHR ''+''" if "\<not> shouldEscape c encodeQueryComponent"
    using unescaped_char [OF that]
    by (auto simp: ascii_alnum_def ascii_digit_def ascii_upper_def ascii_lowercase_def)
  ultimately show ?thesis
    by (auto simp: query_char_def percent_def Let_def simp del: mult_div_mod_eq)
qed

lemma QueryUnescape_Escape [simp]: "QueryUnescape (QueryEscape s) = Some s"
  by (induction s) (simp_all add: QueryEscape_chars QueryUnescape_def unescape_query_char)

text \<open>The characters of an escaped string do not separate.\<close>

lemma hex_digit_alnum: "n < 16 \<Longrightarrow> ascii_alnum (hex_digit n)"
proof -
  have "list_all (\<lambda>n. ascii_alnum (hex_digit n)) [0..<16]"
    by (simp add: upt_rec ascii_alnum_def ascii_digit_def ascii_upper_def ascii_lowercase_def
        hex_digit_def)
  then show "n < 16 \<Longrightarrow> ?thesis" by (simp add: list_all_iff)
qed

lemma separators: "x \<in> set ''=&;'' \<Longrightarrow> \<not> ascii_alnum x \<and> x \<notin> set ''-_.~+%''"
  by (auto simp: ascii_alnum_def ascii_digit_def ascii_upper_def ascii_lowercase_def)

lemma query_char_separators: "x \<in> set ''=&;'' \<Longrightarrow> x \<notin> set (query_char c)"
proof -
  assume x: "x \<in> set ''=&;''"
  let ?n = "of_char c :: nat"
  have "ascii_alnum (hex_digit (?n div 16))" "ascii_alnum (hex_digit (?n mod 16))"
    by (simp_all add: hex_digit_alnum nibbles)
  with separators [OF x] unescaped_char [of c] show ?thesis
    by (auto simp: query_char_def percent_def Let_def)
qed

lemma QueryEscape_separators: "x \<in> set ''=&;'' \<Longrightarrow> x \<notin> set (QueryEscape s)"
  using query_char_separators by (auto simp: QueryEscape_chars)

section \<open>Query strings\<close>

lemma split_on_none: "x \<notin> set s \<Longrightarrow> split_on x s = [s]"
  by (induction s) auto

lemma split_on_append: "x \<notin> set s \<Longrightarrow> split_on x (s @ x # t) = s # split_on x t"
  by (induction s) auto

lemma split_on_Join:
  "ss \<noteq> [] \<Longrightarrow> \<forall>s \<in> set ss. x \<notin> set s \<Longrightarrow> split_on x (Join ss [x]) = ss"
proof (induction ss rule: induct_list012)
  case (3 s t ss)
  then show ?case by (simp add: split_on_append)
qed (simp_all add: split_on_none)

definition add_value :: "string \<times> string \<Rightarrow> url_Values \<Rightarrow> url_Values" where
  "add_value kv m =
     gm_set (fst kv) ((case gm_get m (fst kv) of None \<Rightarrow> [] | Some vs \<Rightarrow> vs) @ [snd kv]) m"

lemma encode_pair_parts:
  "cut (CHR ''='') (encode_pair k v) = (QueryEscape k, Some (QueryEscape v))"
  "encode_pair k v \<noteq> []" "CHR '';'' \<notin> set (encode_pair k v)" "CHR ''&'' \<notin> set (encode_pair k v)"
  using QueryEscape_separators [of "CHR ''=''" k] QueryEscape_separators [of "CHR '';''"]
    QueryEscape_separators [of "CHR ''&''"]
  by (auto simp: encode_pair_def cut_append)

lemma parse_encoded_pairs:
  "parse_query_pairs (map (\<lambda>(k, v). encode_pair k v) kvs) m = fold add_value kvs m"
  by (induction kvs arbitrary: m)
    (auto simp: encode_pair_parts after_cut_def add_value_def)

definition values_of :: "url_Values \<Rightarrow> string \<Rightarrow> string list" where
  "values_of m k = (case gm_get m k of None \<Rightarrow> [] | Some vs \<Rightarrow> vs)"

lemma values_of_fold:
  "values_of (fold add_value kvs m) k = values_of m k @ map snd (filter (\<lambda>kv. fst kv = k) kvs)"
  by (induction kvs arbitrary: m) (auto simp: add_value_def values_of_def)

definition pairs_of :: "url_Values \<Rightarrow> (string \<times> string) list" where
  "pairs_of m = concat (map (\<lambda>k. map (Pair k) (values_of m k)) (sort (gm_keys m)))"

lemma Values_Encode_pairs:
  "Values_Encode m = Join (map (\<lambda>(k, v). encode_pair k v) (pairs_of m)) ''&''"
  by (simp add: Values_Encode_def pairs_of_def values_of_def map_concat comp_def)

lemma values_of_sorted:
  "distinct ks \<Longrightarrow>
   map snd (filter (\<lambda>kv. fst kv = k) (concat (map (\<lambda>k. map (Pair k) (f k)) ks))) =
     (if k \<in> set ks then f k else [])"
  by (induction ks) (auto simp: filter_empty_conv comp_def cong: filter_cong)

lemma values_of_pairs:
  "gm_wf m \<Longrightarrow> map snd (filter (\<lambda>kv. fst kv = k) (pairs_of m)) = values_of m k"
proof (cases "k \<in> set (gm_keys m)")
  case False
  then have "gm_get m k = None" by (simp add: map_of_eq_None_iff)
  with False show "gm_wf m \<Longrightarrow> ?thesis"
    by (simp add: pairs_of_def values_of_sorted) (simp add: values_of_def)
qed (simp add: pairs_of_def values_of_sorted)

text \<open>Decoding inverts encoding.\<close>

lemma decode_query_Encode: "gm_wf m \<Longrightarrow> values_of (decode_query (Values_Encode m)) k = values_of m k"
proof (cases "pairs_of m = []")
  case True
  moreover assume "gm_wf m"
  from values_of_pairs [OF this, of k] True have "values_of m k = []" by simp
  ultimately show ?thesis
    by (simp add: Values_Encode_pairs decode_query_def values_of_def)
next
  case False
  assume wf: "gm_wf m"
  have "split_on (CHR ''&'') (Values_Encode m) = map (\<lambda>(k, v). encode_pair k v) (pairs_of m)"
    unfolding Values_Encode_pairs
    by (rule split_on_Join) (use False encode_pair_parts(4) in auto)
  then have "decode_query (Values_Encode m) = fold add_value (pairs_of m) []"
    by (simp add: decode_query_def parse_encoded_pairs)
  then show ?thesis
    using values_of_fold [of "pairs_of m" "[]" k] values_of_pairs [OF wf] by (simp add: values_of_def)
qed

lemma Values_Get_values: "Values_Get m k = (case values_of m k of [] \<Rightarrow> [] | v # _ \<Rightarrow> v)"
  by (simp add: Values_Get_def values_of_def split: option.splits list.splits)

lemma parse_query_wf: "gm_wf m \<Longrightarrow> gm_wf (parse_query_pairs kvs m)"
  by (induction kvs m rule: parse_query_pairs.induct) (auto split: prod.splits option.splits)

lemma parse_query_gm_wf [simp]: "gm_wf (decode_query q)" "gm_wf (parse_query q)"
  by (simp_all add: parse_query_def decode_query_def parse_query_wf)

lemma values_of_Set [simp]:
  "values_of (Values_Set k v m) k' = (if k' = k then [v] else values_of m k')"
  by (simp add: values_of_def Values_Set_def)

lemma Values_Set_wf [simp]: "gm_wf m \<Longrightarrow> gm_wf (Values_Set k v m)"
  by (simp add: Values_Set_def)

section \<open>The final redirect\<close>

text \<open>C30. The redirect that ends the flow.  It differs from the client's redirect URI in the query
  only; its query decodes to the state of the request and, for an approval, to the raw
  authorization code, for any other decision to \<open>access_denied\<close> and no code beyond what the
  redirect URI itself had; all other parameters of the redirect URI are kept.\<close>

theorem redirect_carries_result:
  assumes "redirectResult base state_text decision rawCode = Inr location"
  shows "\<exists>u q. url_Parse base = Some u \<and> location = url_String (u\<lparr>url_RawQuery := q\<rparr>) \<and>
    Values_Get (decode_query q) ''state'' = state_text \<and>
    (if decision = ConsentDecisionApprove then Values_Get (decode_query q) ''code'' = rawCode
     else Values_Get (decode_query q) ''error'' = ''access_denied'' \<and>
       values_of (decode_query q) ''code'' = values_of (parse_query (url_RawQuery u)) ''code'') \<and>
    (\<forall>k. k \<in> {''state'', ''code'', ''error''} \<or>
       values_of (decode_query q) k = values_of (parse_query (url_RawQuery u)) k)"
proof -
  obtain u where u: "url_Parse base = Some u"
    using assms by (auto simp: redirectResult_def split: option.splits)
  let ?q = "parse_query (url_RawQuery u)"
  let ?m = "if decision = ConsentDecisionApprove
    then Values_Set ''code'' rawCode (Values_Set ''state'' state_text ?q)
    else Values_Set ''error'' ''access_denied'' (Values_Set ''state'' state_text ?q)"
  have "location = url_String (u\<lparr>url_RawQuery := Values_Encode ?m\<rparr>)"
    using assms u by (auto simp: redirectResult_def Let_def split: if_splits)
  with u show ?thesis
    by (intro exI [of _ u] exI [of _ "Values_Encode ?m"])
      (auto simp: Values_Get_values decode_query_Encode)
qed

theorem redirect_carries_result_witness:
  "\<exists>location u q. redirectResult ''https://app.test/cb?tenant=1'' ''a&b'' ConsentDecisionApprove ''code-1'' =
       Inr location \<and> location = url_String (u\<lparr>url_RawQuery := q\<rparr>) \<and>
     Values_Get (decode_query q) ''state'' = ''a&b'' \<and> Values_Get (decode_query q) ''code'' = ''code-1''"
proof -
  have "redirectResult ''https://app.test/cb?tenant=1'' ''a&b'' ConsentDecisionApprove ''code-1'' =
      Inr ''https://app.test/cb?code=code-1&state=a%26b&tenant=1''" by code_simp
  from redirect_carries_result [OF this] this show ?thesis by fastforce
qed

end
