(* ===== verification/Redirect_Origin.thy ===== *)
theory Redirect_Origin
  imports Redirects
begin

text \<open>
  Where the redirect that ends the flow leads: the text that \<open>URL.String\<close> prints is parsed again, as a
  browser does, and names the origin and the path of the registered redirect URI.
\<close>

section \<open>Characters of a printed URL\<close>

definition mode_char :: "encoding \<Rightarrow> char \<Rightarrow> string" where
  "mode_char mode c = (if shouldEscape c mode then percent c else [c])"

lemma escape_mode_chars:
  "mode \<noteq> encodeQueryComponent \<Longrightarrow> escape mode s = concat (map (mode_char mode) s)"
  by (simp add: escape_def mode_char_def [abs_def])

lemma percent_chars: "x \<in> set (percent c) \<Longrightarrow> x = CHR ''%'' \<or> ascii_alnum x"
  using hex_digit_alnum [OF nibbles(1), of c] hex_digit_alnum [OF nibbles(2), of c]
  by (auto simp: percent_def Let_def)

lemmas ascii_defs = ascii_alnum_def ascii_digit_def ascii_upper_def ascii_lowercase_def

lemma unescaped_host_char:
  "\<not> shouldEscape c encodeHost \<Longrightarrow>
   ascii_alnum c \<or> c \<in> set ''!$&()*+,;=:[]<>-_.~'' \<union> {CHR 0x22, CHR 0x27}"
  by (auto simp: shouldEscape_def split: if_splits)

lemma unescaped_path_char:
  "\<not> shouldEscape c encodePath \<Longrightarrow> ascii_alnum c \<or> c \<in> set ''-_.~$&+,/:;=@''"
  by (auto simp: shouldEscape_def split: if_splits)

text \<open>The characters that end a part of a URL, and the control characters.\<close>

definition plain :: "char \<Rightarrow> bool" where
  "plain c \<longleftrightarrow> c \<notin> set ''#?'' \<and> 32 \<le> (of_char c :: int) \<and> (of_char c :: int) \<noteq> 127"

lemma plain_alnum: "ascii_alnum c \<Longrightarrow> plain c \<and> c \<notin> set ''/@:[]%+''"
  by (auto simp: plain_def ascii_defs)

lemma plain_percent: "x \<in> set (percent c) \<Longrightarrow> plain x \<and> x \<notin> set ''/@:[]''"
  using percent_chars [of x c] plain_alnum [of x] by (auto simp: plain_def)

lemma plain_host: "\<not> shouldEscape c encodeHost \<Longrightarrow> plain c \<and> c \<notin> set ''/@%''"
  using unescaped_host_char [of c] plain_alnum [of c] by (auto simp: plain_def)

lemma plain_path: "\<not> shouldEscape c encodePath \<Longrightarrow> plain c \<and> c \<noteq> CHR ''%''"
  using unescaped_path_char [of c] plain_alnum [of c] by (auto simp: plain_def)

lemma mode_text_char:
  assumes "x \<in> set (escape mode s)" "mode \<noteq> encodeQueryComponent"
  obtains "x \<in> set s" "\<not> shouldEscape x mode" | c where "x \<in> set (percent c)"
  using assms by (auto simp: escape_mode_chars mode_char_def split: if_splits)

lemma host_text_chars:
  assumes "x \<in> set (escape encodeHost s)"
  shows "plain x" "x \<notin> set ''/@''" "x \<in> set '':[]'' \<Longrightarrow> x \<in> set s"
proof -
  have "plain x \<and> x \<notin> set ''/@'' \<and> (x \<in> set '':[]'' \<longrightarrow> x \<in> set s)"
  proof (rule mode_text_char [OF assms])
    show "x \<in> set s \<Longrightarrow> \<not> shouldEscape x encodeHost \<Longrightarrow> ?thesis" using plain_host [of x] by auto
    show "x \<in> set (percent c) \<Longrightarrow> ?thesis" for c using plain_percent [of x c] by auto
  qed simp
  then show "plain x" "x \<notin> set ''/@''" "x \<in> set '':[]'' \<Longrightarrow> x \<in> set s" by blast+
qed

lemma path_text_chars: "x \<in> set (escape encodePath s) \<Longrightarrow> plain x"
  by (erule mode_text_char) (simp_all add: plain_path plain_percent)

lemma raw_path_chars:
  assumes "validEncoded s encodePath" "x \<in> set s"
  shows "plain x"
proof -
  have "x \<in> set ''!$&()*+,;=:@[]%'' \<union> {CHR 0x27} \<or> \<not> shouldEscape x encodePath"
    using assms by (simp only: validEncoded_def list_all_iff)
  then show ?thesis
  proof
    assume "x \<in> set ''!$&()*+,;=:@[]%'' \<union> {CHR 0x27}"
    then show ?thesis by (auto simp: plain_def)
  qed (simp add: plain_path)
qed

lemma query_text_chars: "x \<in> set (QueryEscape s) \<Longrightarrow> plain x"
proof -
  assume "x \<in> set (QueryEscape s)"
  then obtain c where "x \<in> set (query_char c)" by (auto simp: QueryEscape_chars)
  then have "x = CHR ''+'' \<or> x \<in> set (percent c) \<or> ascii_alnum x \<or> x \<in> set ''-_.~''"
    using unescaped_char [of c] by (cases "shouldEscape c encodeQueryComponent") (auto simp: query_char_def split: if_splits)
  then show ?thesis using plain_percent [of x c] plain_alnum [of x] by (auto simp: plain_def)
qed

lemma set_Join: "set (Join ss sep) \<subseteq> \<Union> (set ` set ss) \<union> set sep"
  by (induction ss rule: induct_list012) auto

lemma Values_Encode_plain: "x \<in> set (Values_Encode m) \<Longrightarrow> plain x"
proof -
  assume "x \<in> set (Values_Encode m)"
  then have "x = CHR ''&'' \<or> (\<exists>k v. x \<in> set (encode_pair k v))"
    using set_Join [of "map (\<lambda>(k, v). encode_pair k v) (pairs_of m)" "''&''"]
    by (auto simp: Values_Encode_pairs)
  then show ?thesis
    using query_text_chars [of x] by (auto simp: encode_pair_def plain_def)
qed

section \<open>Decoding what was printed\<close>

lemma unescape_percent:
  assumes "mode \<noteq> encodeZone" and "mode = encodeHost \<Longrightarrow> 128 \<le> (of_char c :: nat)"
  shows "unescape mode (percent c @ t) = map_option ((#) c) (unescape mode t)"
proof -
  let ?n = "of_char c :: nat"
  have "hex_value (hex_digit (?n div 16)) = Some (?n div 16)"
    and "hex_value (hex_digit (?n mod 16)) = Some (?n mod 16)"
    by (simp_all add: hex_value_digit nibbles)
  moreover have "char_of (16 * (?n div 16) + ?n mod 16) = c" by simp
  moreover have "\<not> ?n div 16 < 8" if "mode = encodeHost"
    using assms(2) [OF that] by linarith
  ultimately show ?thesis using assms(1) by (auto simp: percent_def Let_def simp del: mult_div_mod_eq)
qed

lemma unescape_path [simp]: "unescape encodePath (escape encodePath s) = Some s"
proof -
  have "unescape encodePath (mode_char encodePath c @ t) = map_option ((#) c) (unescape encodePath t)" for c t
    using plain_path [of c] unescape_percent [of encodePath c t]
    by (auto simp: mode_char_def)
  then show ?thesis by (induction s) (simp_all add: escape_mode_chars)
qed

text \<open>The characters of a decoded host: those that need no escape, and bytes outside ASCII.\<close>

definition host_ok :: "char \<Rightarrow> bool" where
  "host_ok c \<longleftrightarrow> \<not> shouldEscape c encodeHost \<or> 128 \<le> (of_char c :: nat)"

lemma unescape_host:
  "list_all host_ok s \<Longrightarrow> unescape encodeHost (escape encodeHost s) = Some s"
proof (induction s)
  case (Cons c s)
  have "unescape encodeHost (mode_char encodeHost c @ t) = map_option ((#) c) (unescape encodeHost t)" for t
    using Cons.prems plain_host [of c] unescape_percent [of encodeHost c t]
    by (auto simp: mode_char_def host_ok_def)
  with Cons show ?case by (simp add: escape_mode_chars)
qed (simp add: escape_def)

section \<open>Hosts\<close>

lemma cut_last_append: "x \<notin> set b \<Longrightarrow> cut_last x (a @ x # b) = Some (a, b)"
  by (simp add: cut_last_def cut_append)

lemma cut_Some: "cut x s = (a, Some b) \<Longrightarrow> s = a @ x # b \<and> x \<notin> set a"
  by (induction s arbitrary: a) (auto split: if_splits prod.splits)

lemma cut_None: "cut x s = (a, None) \<Longrightarrow> a = s \<and> x \<notin> set s"
  by (induction s arbitrary: a) (auto split: if_splits prod.splits)

lemma cut_last_None: "cut_last x s = None \<longleftrightarrow> x \<notin> set s"
proof (cases "cut x (rev s)")
  case (Pair a r)
  then show ?thesis
    using cut_None [of x "rev s" a] cut_Some [of x "rev s" a "the r"] set_rev [of s]
    by (cases r) (auto simp: cut_last_def simp del: set_rev)
qed

lemma cut_last_Some: "cut_last x s = Some (a, b) \<Longrightarrow> s = a @ x # b \<and> x \<notin> set b"
  using cut_Some [of x "rev s"] by (auto simp: cut_last_def rev_eq_append_conv split: prod.splits option.splits)

lemma unescape_digits:
  "list_all ascii_digit s \<Longrightarrow> unescape encodeHost s = Some s"
  by (induction s) (auto simp: ascii_digit_def shouldEscape_def ascii_alnum_def)

lemma unescape_port: "validOptionalPort s \<Longrightarrow> unescape encodeHost s = Some s"
  by (cases s) (simp_all add: validOptionalPort_def unescape_digits shouldEscape_def)

text \<open>How a host is decoded: a character stands for itself or three of them for a percent sign or a byte outside
  ASCII.\<close>

inductive host_decodes :: "string \<Rightarrow> string \<Rightarrow> bool" where
  nothing: "host_decodes [] []"
| itself: "host_decodes (c # s) (c # h)" if "host_decodes s h" "host_ok c" "c \<noteq> CHR ''%''"
| escaped: "host_decodes (CHR ''%'' # x # y # s) (c # h)"
    if "host_decodes s h" "x \<notin> set '':[]''" "y \<notin> set '':[]''" "c = CHR ''%'' \<or> 128 \<le> (of_char c :: nat)"

lemma hex_value_Some:
  "hex_value c = Some n \<Longrightarrow> n < 16 \<and> c \<notin> set '':[]''"
  by (auto simp: hex_value_def Let_def split: if_splits)

lemma high_byte: "8 \<le> a \<Longrightarrow> a < 16 \<Longrightarrow> b < 16 \<Longrightarrow> 128 \<le> (of_char (char_of (16 * a + b :: nat)) :: nat)"
  by (simp add: take_bit_nat_eq_self of_char_of)

lemma unescape_decodes: "unescape encodeHost s = Some h \<Longrightarrow> host_decodes s h"
proof (induction s arbitrary: h rule: length_induct)
  case (1 s)
  show ?case
  proof (cases s)
    case Nil
    with 1(2) show ?thesis by (simp add: host_decodes.nothing)
  next
    case (Cons c t)
    show ?thesis
    proof (cases "c = CHR ''%''")
      case False
      with 1(2) Cons obtain h' where "h = c # h'" "unescape encodeHost t = Some h'" "host_ok c"
        by (auto simp: host_ok_def of_char_int split: if_splits)
      with 1(1) Cons False show ?thesis by (auto intro: itself)
    next
      case True
      with 1(2) Cons obtain x y t' where t: "t = x # y # t'" by (auto split: list.splits)
      with 1(2) Cons True obtain a b h' where d: "hex_value x = Some a" "hex_value y = Some b"
        "h = char_of (16 * a + b) # h'" "unescape encodeHost t' = Some h'"
        "8 \<le> a \<or> x = CHR ''2'' \<and> y = CHR ''5''"
        by (auto simp: Let_def not_less split: option.splits if_splits)
      have "char_of (16 * a + b) = CHR ''%'' \<or> 128 \<le> (of_char (char_of (16 * a + b :: nat)) :: nat)"
        using d(5)
      proof
        assume "x = CHR ''2'' \<and> y = CHR ''5''"
        with d(1,2) have "a = 2" "b = 5" by (simp_all add: hex_value_def)
        moreover have "char_of (37 :: nat) = CHR ''%''" by code_simp
        ultimately show ?thesis by simp
      qed (use d(1,2) hex_value_Some high_byte in blast)
      with 1(1) Cons True t d hex_value_Some show ?thesis by (auto intro!: escaped)
    qed
  qed
qed

lemma decodes_chars:
  "host_decodes s h \<Longrightarrow> c \<in> set h \<Longrightarrow> c \<noteq> CHR ''%'' \<Longrightarrow> host_ok c \<and> (c \<in> set '':[]'' \<longrightarrow> c \<in> set s)"
  by (induction rule: host_decodes.induct) (auto simp: host_ok_def)

text \<open>The first colon stays the first one.\<close>

lemma decodes_port:
  "host_decodes s h \<Longrightarrow> rel_option host_decodes (snd (cut (CHR '':'') s)) (snd (cut (CHR '':'') h))"
  by (induction rule: host_decodes.induct) (auto split: prod.splits)

lemma cut_append_other: "x \<notin> set a \<Longrightarrow> snd (cut x (a @ s)) = snd (cut x s)"
  by (induction a) (auto split: prod.splits)

lemma escape_port:
  "snd (cut (CHR '':'') (escape encodeHost h)) = map_option (escape encodeHost) (snd (cut (CHR '':'') h))"
proof (induction h)
  case (Cons c h)
  have step: "escape encodeHost (c # h) = mode_char encodeHost c @ escape encodeHost h"
    by (simp add: escape_mode_chars)
  show ?case
  proof (cases "c = CHR '':''")
    case True
    then show ?thesis by (subst step) (simp add: mode_char_def shouldEscape_def)
  next
    case False
    then have "CHR '':'' \<notin> set (mode_char encodeHost c)"
      using plain_percent [of "CHR '':''" c] by (auto simp: mode_char_def)
    with False Cons.IH show ?thesis by (simp add: step cut_append_other split: prod.splits)
  qed
qed (simp add: escape_def)

lemma escape_same: "list_all (\<lambda>c. \<not> shouldEscape c encodeHost) s \<Longrightarrow> escape encodeHost s = s"
  by (induction s) (simp_all add: escape_def)

lemma digit_text: "ascii_digit c \<Longrightarrow> \<not> shouldEscape c encodeHost"
  by (simp add: shouldEscape_def ascii_alnum_def)

lemma escape_digits: "list_all ascii_digit s \<Longrightarrow> escape encodeHost s = s"
  by (rule escape_same) (auto simp: list_all_iff digit_text)

text \<open>A host without brackets.\<close>

lemma plain_host_again:
  assumes "parseHost h0 = Some h" "CHR ''['' \<notin> set h0" "CHR ''%'' \<notin> set h"
  shows "parseHost (escape encodeHost h) = Some h"
proof -
  have unbracketed: "cut_last (CHR ''['') h0 = None" using assms(2) by (simp add: cut_last_None)
  then have "unescape encodeHost h0 = Some h"
    using assms(1) by (auto simp: parseHost_def split: prod.splits option.splits if_splits)
  note decodes = unescape_decodes [OF this]
  have ok: "list_all host_ok h"
    using decodes_chars [OF decodes] assms(3) by (auto simp: list_all_iff)
  note again = unescape_host [OF this]
  have "CHR ''['' \<notin> set h" using decodes_chars [OF decodes] assms(2) by fastforce
  then have "cut_last (CHR ''['') (escape encodeHost h) = None"
    using host_text_chars(3) [of "CHR ''[''" h] by (auto simp: cut_last_None)
  moreover have "validOptionalPort (CHR '':'' # q)" if q: "snd (cut (CHR '':'') (escape encodeHost h)) = Some q" for q
  proof -
    from q obtain p where p: "snd (cut (CHR '':'') h) = Some p" "q = escape encodeHost p"
      by (auto simp: escape_port)
    with decodes_port [OF decodes] obtain p0 where p0: "snd (cut (CHR '':'') h0) = Some p0" "host_decodes p0 p"
      by (auto simp: option_rel_Some2)
    with assms(1) unbracketed have digits: "list_all ascii_digit p0"
      by (auto simp: parseHost_def validOptionalPort_def split: prod.splits option.splits if_splits)
    have "p = p0"
      using p0(2) digits by (induction rule: host_decodes.induct) (auto simp: ascii_digit_def)
    with digits p(2) show ?thesis by (simp add: validOptionalPort_def escape_digits)
  qed
  ultimately show ?thesis using again by (auto simp: parseHost_def split: prod.splits option.splits)
qed

text \<open>An IPv6 address in brackets.\<close>

definition ip_char :: "char \<Rightarrow> bool" where
  "ip_char c \<longleftrightarrow> ascii_alnum c \<or> c \<in> set '':.''"

lemma ip_colon: "list_all ip_char (CHR '':'' # t) \<longleftrightarrow> list_all ip_char t"
  by (simp add: ip_char_def)

lemma hex_ip_char: "hex_value c = Some n \<Longrightarrow> ip_char c"
  by (auto simp: ip_char_def ascii_defs hex_value_def Let_def of_char_int split: if_splits)

lemma split_on_chars: "c \<in> set s \<Longrightarrow> c \<noteq> x \<Longrightarrow> \<exists>f \<in> set (split_on x s). c \<in> set f"
  by (induction s) (auto split: list.splits)

lemma ipv4_chars: "ipv4_ok s \<Longrightarrow> list_all ip_char s"
proof -
  assume ok: "ipv4_ok s"
  have "ip_char c" if "c \<in> set s" for c
  proof (cases "c = CHR ''.''")
    case False
    with split_on_chars [OF that, of "CHR ''.''"] ok obtain f where "f \<in> set (split_on (CHR ''.'') s)" "c \<in> set f" by blast
    with ok show ?thesis by (auto simp: ipv4_ok_def Let_def list_all_iff ip_char_def ascii_alnum_def)
  qed (simp add: ip_char_def)
  then show ?thesis by (simp add: list_all_iff)
qed

lemma hex_run_chars: "list_all ip_char (takeWhile (\<lambda>c. hex_value c \<noteq> None) s)"
  by (auto simp: list_all_iff dest!: set_takeWhileD hex_ip_char)

lemma ipv6_groups_chars: "ipv6_groups n ell s \<Longrightarrow> list_all ip_char s"
proof (induction n ell s rule: ipv6_groups.induct)
  case (2 left ell s)
  have run: "s = takeWhile (\<lambda>c. hex_value c \<noteq> None) s @ dropWhile (\<lambda>c. hex_value c \<noteq> None) s" by simp
  show ?case
  proof (cases "dropWhile (\<lambda>c. hex_value c \<noteq> None) s")
    case Nil
    with run hex_run_chars [of s] show ?thesis by (metis append_Nil2)
  next
    case (Cons c t)
    note groups = 2(3) [unfolded ipv6_groups.simps Let_def Cons list.case]
    show ?thesis
    proof (cases "c = CHR ''.''")
      case True
      with groups ipv4_chars show ?thesis by (simp split: if_splits)
    next
      case False
      with groups have t: "c = CHR '':''" "t \<noteq> []" by (auto split: if_splits)
      have "list_all ip_char t"
      proof (cases "hd t = CHR '':''")
        case True
        then have "t = CHR '':'' # tl t" using t(2) by (cases t) auto
        moreover have "list_all ip_char (tl t)"
          using 2(1) groups Cons t True by (auto split: if_splits)
        ultimately show ?thesis by (metis ip_colon)
      next
        case False
        with 2(2) groups Cons t show ?thesis by (auto split: if_splits)
      qed
      with run Cons t(1) hex_run_chars [of s] show ?thesis
        by (metis ip_colon list_all_append)
    qed
  qed
qed simp

lemma ipv6_chars:
  assumes "ipv6_ok s" "CHR ''%'' \<notin> set s"
  shows "list_all ip_char s"
proof -
  have ok: "if take 2 s = ''::'' then length s = 2 \<or> ipv6_groups 8 True (drop 2 s) else ipv6_groups 8 False s"
    using assms by (auto simp: ipv6_ok_def cut_none split: if_splits)
  show ?thesis
  proof (cases "take 2 s = ''::''")
    case True
    then have s: "s = CHR '':'' # CHR '':'' # drop 2 s" by (metis append_Cons append_Nil append_take_drop_id)
    moreover have "list_all ip_char (drop 2 s)" using ok True ipv6_groups_chars [of 8 True "drop 2 s"] by auto
    ultimately show ?thesis by (metis ip_colon)
  qed (use ok ipv6_groups_chars in simp)
qed

lemma ip_text: "ip_char c \<Longrightarrow> \<not> shouldEscape c encodeHost \<and> c \<notin> set ''[]%''"
  using plain_alnum [of c] by (auto simp: ip_char_def shouldEscape_def)

lemma find_zone_none: "CHR ''%'' \<notin> set s \<Longrightarrow> find_zone s = None"
  by (induction s) auto

lemma bracketed:
  assumes "parseHost h0 = Some h" "CHR ''['' \<in> set h0"
  obtains ip port where "h = CHR ''['' # ip @ CHR '']'' # port" "ipv6_ok ip" "validOptionalPort port"
proof -
  from assms(2) obtain a b where "cut_last (CHR ''['') h0 = Some (a, b)"
    using cut_last_None [of "CHR ''[''" h0] by fastforce
  with assms(1) show ?thesis
    by (auto simp: parseHost_def unescape_port intro!: that split: option.splits prod.splits if_splits)
qed

lemma bracket_host_again:
  assumes "parseHost h0 = Some h" "CHR ''['' \<in> set h0" "CHR ''%'' \<notin> set h"
  shows "parseHost (escape encodeHost h) = Some h"
proof -
  obtain ip port where h: "h = CHR ''['' # ip @ CHR '']'' # port" "ipv6_ok ip" "validOptionalPort port"
    by (rule bracketed [OF assms(1,2)])
  have ip: "list_all ip_char ip" using ipv6_chars [OF h(2)] h(1) assms(3) by simp
  have port: "list_all (\<lambda>c. ascii_digit c \<or> c = CHR '':'') port"
    using h(3) by (cases port) (auto simp: validOptionalPort_def list_all_iff)
  have port_text: "list_all (\<lambda>c. \<not> shouldEscape c encodeHost) port" "CHR '']'' \<notin> set port"
  proof -
    have "\<not> shouldEscape (CHR '':'') encodeHost" "\<not> ascii_digit (CHR '']'')"
      by (simp_all add: shouldEscape_def ascii_digit_def)
    then show "list_all (\<lambda>c. \<not> shouldEscape c encodeHost) port" "CHR '']'' \<notin> set port"
      using port by (auto simp: list_all_iff dest: digit_text)
  qed
  have ip_plain: "list_all (\<lambda>c. \<not> shouldEscape c encodeHost) ip" "list_all (\<lambda>c. c \<notin> set ''[]%'') ip"
    by (rule list.pred_mono_strong [OF ip]; use ip_text in blast)+
  then have ip_same: "escape encodeHost ip = ip" "list_all host_ok ip"
    by (simp_all add: escape_same host_ok_def list_all_iff)
  have "\<not> shouldEscape (CHR ''['') encodeHost" "\<not> shouldEscape (CHR '']'') encodeHost"
    by (simp_all add: shouldEscape_def)
  with ip_plain(1) port_text(1) have same: "escape encodeHost h = h" by (intro escape_same) (simp add: h(1))
  have brackets: "CHR ''['' \<notin> set ip" "CHR ''%'' \<notin> set ip" using ip_plain(2) by (auto simp: list_all_iff)
  have "cut_last (CHR '']'') h = Some (CHR ''['' # ip, port)"
    using cut_last_append [OF port_text(2), of "CHR ''['' # ip"] by (simp add: h(1))
  moreover have "cut_last (CHR ''['') (CHR ''['' # ip) = Some ([], ip)"
    using cut_last_append [OF brackets(1), of "[]"] by simp
  moreover have "\<exists>a b. cut_last (CHR ''['') h = Some (a, b)"
    using cut_last_None [of "CHR ''[''" h] h(1) by fastforce
  ultimately have "parseHost h = Some (CHR ''['' # ip @ CHR '']'' # port)"
    using h(2,3) unescape_host [OF ip_same(2)] ip_same(1) find_zone_none [OF brackets(2)]
    by (auto simp: parseHost_def unescape_port)
  with same h(1) show ?thesis by simp
qed

lemma host_again:
  "parseHost h0 = Some h \<Longrightarrow> CHR ''%'' \<notin> set h \<Longrightarrow> parseHost (escape encodeHost h) = Some h"
  using plain_host_again bracket_host_again by blast

section \<open>Parsing a printed URL\<close>

text \<open>What \<open>url.Parse\<close> guarantees of a URL with a host.\<close>

definition hierarchical :: "url \<Rightarrow> bool" where
  "hierarchical u \<longleftrightarrow> url_Opaque u = [] \<and> \<not> url_OmitHost u \<and> (\<exists>h0. parseHost h0 = Some (url_Host u)) \<and>
     (take 1 (url_Path u) = ''/'' \<and> (url_RawPath u = [] \<or> take 1 (url_RawPath u) = ''/'') \<or>
      url_Path u = [] \<and> url_RawPath u = [])"

lemma setPath_fields:
  "setPath p v = Some u \<Longrightarrow> url_Host u = url_Host v \<and> url_User u = url_User v \<and> url_Opaque u = url_Opaque v \<and>
     url_OmitHost u = url_OmitHost v \<and> url_RawPath u \<in> {[], p} \<and> unescape encodePath p = Some (url_Path u)"
  by (auto simp: setPath_def)

lemma setPath_hierarchical:
  assumes "setPath p v = Some u" "p = [] \<or> (\<exists>p'. p = CHR ''/'' # p')" "url_Opaque v = []" "\<not> url_OmitHost v"
    "parseHost h0 = Some (url_Host v)"
  shows "hierarchical u"
proof (cases p)
  case Nil
  with setPath_fields [OF assms(1)] assms(3-5) show ?thesis by (auto simp: hierarchical_def)
next
  case (Cons c p')
  with assms(2) have p: "p = CHR ''/'' # p'" by simp
  from setPath_fields [OF assms(1)] have "unescape encodePath p = Some (url_Path u)" by blast
  with p have "map_option ((#) (CHR ''/'')) (unescape encodePath p') = Some (url_Path u)" by simp
  then obtain z where "url_Path u = CHR ''/'' # z" by (metis map_option_eq_Some)
  with setPath_fields [OF assms(1)] assms(3-5) p show ?thesis by (auto simp: hierarchical_def)
qed

lemma parseAuthority_host:
  "parseAuthority a = Some (user, h) \<Longrightarrow> \<exists>h0. parseHost h0 = Some h"
  by (auto simp: parseAuthority_def split: option.splits prod.splits if_splits)

lemma parse_rest_hierarchical:
  assumes "parse_rest S rest = Some u" "url_Host u \<noteq> []"
  shows "hierarchical u"
proof -
  obtain r force q where split: "split_query rest = (r, force, q)" by (cases "split_query rest")
  let ?v = "empty_url\<lparr>url_Scheme := S, url_ForceQuery := force, url_RawQuery := q\<rparr>"
  note parse = assms(1) [unfolded parse_rest_def split prod.case Let_def]
  have none: "url_Host ?v = []" "url_Opaque ?v = []" "\<not> url_OmitHost ?v" by (simp_all add: empty_url_def)
  have slash: "take 1 r = ''/''"
  proof (rule ccontr)
    assume other: "take 1 r \<noteq> ''/''"
    then have "take 2 r \<noteq> ''//''" by (cases r) auto
    with parse other assms(2) setPath_fields [of r _ u] none(1) show False by (auto split: if_splits)
  qed
  have "(S \<noteq> [] \<or> take 3 r \<noteq> ''///'') \<and> take 2 r = ''//''"
  proof (rule ccontr)
    assume "\<not> ?thesis"
    with parse slash have "setPath r (?v\<lparr>url_OmitHost := S \<noteq> [] \<and> take 1 r = ''/''\<rparr>) = Some u"
      by (simp only: if_False if_True not_True_eq_False simp_thms)
    from setPath_fields [OF this] assms(2) none(1) show False by simp
  qed
  with parse slash obtain a path user h where a: "cut (CHR ''/'') (drop 2 r) = (a, path)"
    "parseAuthority a = Some (user, h)"
    "setPath (case path of None \<Rightarrow> [] | Some p \<Rightarrow> CHR ''/'' # p) (?v\<lparr>url_User := user, url_Host := h\<rparr>) = Some u"
    by (simp only: if_False if_True not_True_eq_False simp_thms) (auto split: prod.splits option.splits)
  from parseAuthority_host [OF a(2)] obtain h0 where "parseHost h0 = Some h" by blast
  with none show ?thesis
    by (intro setPath_hierarchical [OF a(3)]) (auto split: option.split)
qed

lemma setFragment_hierarchical:
  "setFragment f v = Some u \<Longrightarrow> hierarchical u = hierarchical v \<and> url_Host u = url_Host v"
  by (auto simp: setFragment_def hierarchical_def)

lemma parsed_hierarchical:
  assumes "url_Parse raw = Some u" "url_Host u \<noteq> []"
  shows "hierarchical u"
proof -
  obtain a frag where "cut (CHR ''#'') raw = (a, frag)" by fastforce
  with assms(1) obtain v where v: "v = u \<or> setFragment (after_cut frag) v = Some u"
    "v = empty_url\<lparr>url_Path := ''*''\<rparr> \<or> (\<exists>S rest. parse_rest S rest = Some v)"
    by (auto simp: url_Parse_def split: option.splits prod.splits if_splits)
  then have "url_Host v \<noteq> []" "hierarchical u = hierarchical v"
    using assms(2) setFragment_hierarchical [of "after_cut frag" v u] by auto
  with v(2) show ?thesis using parse_rest_hierarchical by (auto simp: empty_url_def)
qed

lemma EscapedPath_text:
  assumes "hierarchical u"
  shows "unescape encodePath (EscapedPath u) = Some (url_Path u)" "list_all plain (EscapedPath u)"
    "EscapedPath u = [] \<or> (\<exists>p. EscapedPath u = CHR ''/'' # p)"
proof -
  have path: "url_Path u = [] \<or> (\<exists>p. url_Path u = CHR ''/'' # p)"
    using assms by (cases "url_Path u") (auto simp: hierarchical_def)
  have raw: "url_RawPath u = [] \<or> (\<exists>p. url_RawPath u = CHR ''/'' # p)"
    using assms by (cases "url_RawPath u") (auto simp: hierarchical_def)
  from path have "url_RawPath u \<noteq> [] \<and> validEncoded (url_RawPath u) encodePath \<and>
      unescape encodePath (url_RawPath u) = Some (url_Path u) \<and> EscapedPath u = url_RawPath u \<or>
    EscapedPath u = escape encodePath (url_Path u)" (is "?raw \<or> ?path")
    by (auto simp: EscapedPath_def)
  then have "unescape encodePath (EscapedPath u) = Some (url_Path u) \<and> list_all plain (EscapedPath u) \<and>
      (EscapedPath u = [] \<or> (\<exists>p. EscapedPath u = CHR ''/'' # p))"
  proof
    assume ?raw
    then show ?thesis using raw raw_path_chars by (auto simp: list_all_iff)
  next
    have "escape encodePath (CHR ''/'' # p) = CHR ''/'' # escape encodePath p" for p
      by (simp add: escape_def shouldEscape_def)
    moreover assume ?path
    moreover have "escape encodePath [] = []" by (simp add: escape_def)
    ultimately show ?thesis
      using path path_text_chars unescape_path [of "url_Path u"] by (auto simp: list_all_iff simp del: unescape_path)
  qed
  then show "unescape encodePath (EscapedPath u) = Some (url_Path u)" "list_all plain (EscapedPath u)"
    "EscapedPath u = [] \<or> (\<exists>p. EscapedPath u = CHR ''/'' # p)" by blast+
qed

text \<open>The text of a web address with a query.\<close>

lemma printed:
  assumes "hierarchical u" "url_Host u \<noteq> []" "url_User u = None" "url_Fragment u = []"
    "url_Scheme u \<noteq> []" "q \<noteq> []"
  shows "url_String (u\<lparr>url_RawQuery := q\<rparr>) =
    url_Scheme u @ ''://'' @ escape encodeHost (url_Host u) @ EscapedPath u @ ''?'' @ q"
proof -
  have "EscapedPath (u\<lparr>url_RawQuery := q\<rparr>) = EscapedPath u" by (simp add: EscapedPath_def)
  with EscapedPath_text(3) [OF assms(1)] assms show ?thesis
    by (auto simp: url_String_def Let_def hierarchical_def)
qed

lemma plain_text: "list_all plain s \<Longrightarrow> CHR ''#'' \<notin> set s \<and> CHR ''?'' \<notin> set s \<and> \<not> contains_ctl s"
  by (induction s) (auto simp: plain_def contains_ctl_def)

lemma parse_printed:
  assumes S: "S = ''http'' \<or> S = ''https''"
    and h: "list_all plain h" "set h \<inter> set ''/@'' = {}" "parseHost h = Some host"
    and p: "list_all plain p" "p = [] \<or> (\<exists>p'. p = CHR ''/'' # p')" "unescape encodePath p = Some path"
    and q: "list_all plain q" "q \<noteq> []"
  shows "\<exists>raw. url_Parse (S @ ''://'' @ h @ p @ ''?'' @ q) = Some (empty_url\<lparr>url_Scheme := S, url_RawQuery := q,
      url_Host := host, url_Path := path, url_RawPath := raw\<rparr>)"
proof -
  let ?rest = "''//'' @ h @ p @ ''?'' @ q" and ?u = "S @ ''://'' @ h @ p @ ''?'' @ q"
  note plain = plain_text [OF h(1)] plain_text [OF p(1)] plain_text [OF q(1)]
  have "CHR ''#'' \<notin> set ?u" "\<not> contains_ctl ?u" "?u \<noteq> ''*''"
    using S plain by (auto simp: contains_ctl_def)
  moreover have "getScheme ?u = Some (S, ?rest)"
    using S by (auto simp: getScheme_def ascii_upper_def ascii_lowercase_def ascii_digit_def)
  moreover have "map ascii_lower S = S" using S by (auto simp: ascii_lower_def)
  moreover have "split_query ?rest = (''//'' @ h @ p, False, q)"
  proof -
    have "last ?rest = last q" using q(2) by simp
    with plain(3) last_in_set [OF q(2)] have "last ?rest \<noteq> CHR ''?''" by metis
    moreover have "cut (CHR ''?'') (''//'' @ h @ p @ CHR ''?'' # q) = (''//'' @ h @ p, Some q)"
      using cut_append [of "CHR ''?''" "''//'' @ h @ p" q] plain by simp
    ultimately show ?thesis by (simp add: split_query_def after_cut_def)
  qed
  moreover have "cut (CHR ''/'') (h @ p) = (h, if p = [] then None else Some (tl p))"
    using h(2) p(2) cut_none [of "CHR ''/''" h] cut_append [of "CHR ''/''" h] by auto
  moreover have "parseAuthority h = Some (None, host)"
    using h(2,3) cut_last_None [of "CHR ''@''" h] by (simp add: parseAuthority_def)
  moreover have "setPath (case if p = [] then None else Some (tl p) of None \<Rightarrow> [] | Some p' \<Rightarrow> CHR ''/'' # p') v =
      Some (v\<lparr>url_Path := path, url_RawPath := if escape encodePath path = p then [] else p\<rparr>)" for v
    using p(2,3) by (auto simp: setPath_def)
  moreover have "S \<noteq> []" using S by auto
  ultimately show ?thesis
    by (simp add: url_Parse_def cut_none parse_rest_def Let_def after_cut_def empty_url_def)
qed

lemma redirect_again:
  assumes "url_Parse r = Some u" "url_Scheme u = ''http'' \<or> url_Scheme u = ''https''" "url_Host u \<noteq> []"
    "url_User u = None" "url_Fragment u = []" "CHR ''%'' \<notin> set (url_Host u)" "list_all plain q" "q \<noteq> []"
  shows "\<exists>raw. url_Parse (url_String (u\<lparr>url_RawQuery := q\<rparr>)) = Some (empty_url\<lparr>url_Scheme := url_Scheme u,
    url_RawQuery := q, url_Host := url_Host u, url_Path := url_Path u, url_RawPath := raw\<rparr>)"
proof -
  note H = parsed_hierarchical [OF assms(1,3)]
  note path = EscapedPath_text [OF H]
  from H obtain h0 where "parseHost h0 = Some (url_Host u)" by (auto simp: hierarchical_def)
  note host = host_again [OF this assms(6)]
  have chars: "list_all plain (escape encodeHost (url_Host u))" "set (escape encodeHost (url_Host u)) \<inter> set ''/@'' = {}"
    using host_text_chars [of _ "url_Host u"] by (auto simp: list_all_iff)
  have "url_Scheme u \<noteq> []" using assms(2) by auto
  from parse_printed [OF assms(2) chars host path(2,3,1) assms(7,8)]
    printed [OF H assms(3,4,5) this assms(8)]
  show ?thesis by simp
qed

section \<open>The origin of the redirect\<close>

lemma Values_Encode_ne:
  assumes "gm_wf m" "values_of m k \<noteq> []"
  shows "Values_Encode m \<noteq> []"
proof
  assume "Values_Encode m = []"
  with decode_query_Encode [OF assms(1), of k] have "values_of (decode_query []) k = values_of m k" by simp
  with assms(2) show False by (simp add: decode_query_def values_of_def)
qed

lemma Hostname_host: "url_Host v = url_Host u \<Longrightarrow> url_Hostname v = url_Hostname u"
  unfolding url_Hostname_def by (simp only:)

text \<open>C29. The flow ends where the user was told.  For a redirect URI that registration accepts, with a
  host without percent sign (no IPv6 zone), the text of the final redirect is parsed again, as a browser does: it leads to the
  origin that the consent page shows and to the path of the registered URI, over https or to a loopback host,
  with neither credentials nor fragment, and its query gives the state of the request and, for an
  approval, the code.\<close>

theorem redirect_stays_at_origin:
  assumes "validRedirectURI r True"
    and "snapshotClient client r = Some snap" and "CHR ''%'' \<notin> set (snap_RedirectOrigin snap)"
    and "redirectResult r state_text decision rawCode = Inr location"
  shows "\<exists>u v. url_Parse r = Some u \<and> url_Parse location = Some v \<and>
    url_Scheme v @ ''://'' @ url_Host v = snap_RedirectOrigin snap \<and> url_Path v = url_Path u \<and>
    (url_Scheme v = ''https'' \<or> url_Scheme v = ''http'' \<and> isLoopback (url_Hostname v)) \<and>
    url_User v = None \<and> url_Fragment v = [] \<and>
    Values_Get (decode_query (url_RawQuery v)) ''state'' = state_text \<and>
    (decision = ConsentDecisionApprove \<longrightarrow> Values_Get (decode_query (url_RawQuery v)) ''code'' = rawCode)"
proof -
  from assms(1) obtain u where u: "url_Parse r = Some u" "url_Host u \<noteq> []" "url_User u = None"
    "url_Fragment u = []" "url_Scheme u = ''https'' \<or> url_Scheme u = ''http'' \<and> isLoopback (url_Hostname u)"
    by (auto simp: validRedirectURI_iff)
  from assms(2,3) u(1) have origin: "snap_RedirectOrigin snap = url_Scheme u @ ''://'' @ url_Host u"
    "CHR ''%'' \<notin> set (url_Host u)"
    by (auto simp: snapshotClient_def)
  let ?q = "Values_Set ''state'' state_text (parse_query (url_RawQuery u))"
  let ?m = "if decision = ConsentDecisionApprove then Values_Set ''code'' rawCode ?q
    else Values_Set ''error'' ''access_denied'' ?q"
  have location: "location = url_String (u\<lparr>url_RawQuery := Values_Encode ?m\<rparr>)"
    using assms(4) u(1) by (auto simp: redirectResult_def Let_def split: if_splits)
  have "gm_wf ?m" "values_of ?m ''state'' \<noteq> []" by simp_all
  then have q: "Values_Encode ?m \<noteq> []" by (rule Values_Encode_ne)
  have "list_all plain (Values_Encode ?m)" using Values_Encode_plain by (auto simp: list_all_iff)
  from redirect_again [OF u(1) _ u(2-4) origin(2) this q] u(5) obtain raw' where
    v: "url_Parse location = Some (empty_url\<lparr>url_Scheme := url_Scheme u, url_RawQuery := Values_Encode ?m,
      url_Host := url_Host u, url_Path := url_Path u, url_RawPath := raw'\<rparr>)"
    by (auto simp: location)
  let ?v = "empty_url\<lparr>url_Scheme := url_Scheme u, url_RawQuery := Values_Encode ?m,
      url_Host := url_Host u, url_Path := url_Path u, url_RawPath := raw'\<rparr>"
  have "url_Hostname ?v = url_Hostname u" by (rule Hostname_host) simp
  with u(1,5) origin(1) v show ?thesis
    by (intro exI [of _ u] exI [of _ ?v]) (auto simp: Values_Get_values decode_query_Encode, simp_all add: empty_url_def)
qed

theorem redirect_stays_at_origin_witness:
  "\<exists>location v. redirectResult ''http://[::1]:8080/cb?x=1'' ''s#t'' ConsentDecisionApprove ''code-1'' = Inr location \<and>
     url_Parse location = Some v \<and> url_Scheme v @ ''://'' @ url_Host v = ''http://[::1]:8080'' \<and>
     url_Path v = ''/cb'' \<and> Values_Get (decode_query (url_RawQuery v)) ''code'' = ''code-1''"
proof -
  let ?r = "''http://[::1]:8080/cb?x=1''"
  let ?client = "\<lparr>cl_ID = ''app'', cl_DisplayName = ''App'', cl_Trust = ClientTrustUnverified, cl_RedirectURIs = [?r],
    cl_AllowedScopes = ScopeSet [], cl_CreatedAt = 1, cl_LastUsedAt = 1\<rparr>"
  have r: "validRedirectURI ?r True" by code_simp
  have path: "map_option url_Path (url_Parse ?r) = Some ''/cb''" by code_simp
  have origin: "map_option snap_RedirectOrigin (snapshotClient ?client ?r) = Some ''http://[::1]:8080''" by code_simp
  then obtain snap where snap: "snapshotClient ?client ?r = Some snap" "snap_RedirectOrigin snap = ''http://[::1]:8080''"
    by blast
  then have zone: "CHR ''%'' \<notin> set (snap_RedirectOrigin snap)" by simp
  have "redirectResult ?r ''s#t'' ConsentDecisionApprove ''code-1'' =
      Inr ''http://[::1]:8080/cb?code=code-1&state=s%23t&x=1''" by code_simp
  from redirect_stays_at_origin [OF r snap(1) zone this] this snap(2) path show ?thesis by auto
qed

end
