(* ===== verification/Secrets_Source.thy ===== *)
theory Secrets_Source
  imports Session
begin

text \<open>
  \<open>pkg/oauthserver/secrets.go\<close>: the credential source of production.  The entropy source is a
  parameter, \<open>io.ReadFull\<close> of a buffer of the given length; a nil \<open>Reader\<close> falls back to
  \<open>rand.Reader\<close>, the second parameter.
\<close>

definition reader :: "'w entropy option \<Rightarrow> 'w entropy \<Rightarrow> 'w entropy" where
  "reader field rand = (case field of Some r \<Rightarrow> r | None \<Rightarrow> rand)"

definition opaque ::
  "'w entropy \<Rightarrow> (string \<Rightarrow> go_error option) \<Rightarrow> ('w, string result) state" where
  "opaque source makeValue = do {
     r \<leftarrow> source 32;
     State_Monad.return (case r of
         Inl err \<Rightarrow> Inl err
       | Inr bytes \<Rightarrow>
           (let value = EncodeToString bytes
            in (case makeValue value of Some err \<Rightarrow> Inl err | None \<Rightarrow> Inr value)))
   }"

definition CryptoSecrets_NewClientID :: "'w entropy \<Rightarrow> ('w, ClientID result) state" where
  "CryptoSecrets_NewClientID source = do {
     r \<leftarrow> opaque source (\<lambda>value. result_error (NewClientID (''c'' @ value)));
     State_Monad.return (case r of Inl err \<Rightarrow> Inl err | Inr value \<Rightarrow> Inr (''c'' @ value))
   }"

definition CryptoSecrets :: "'w entropy option \<Rightarrow> 'w entropy \<Rightarrow> 'w SecretPort" where
  "CryptoSecrets field rand =
     (let source = reader field rand
      in \<lparr>secrets_NewClientID = CryptoSecrets_NewClientID source,
          secrets_NewTransactionToken =
            opaque source (\<lambda>value. result_error (NewTransactionToken value)),
          secrets_NewConsentToken = opaque source (\<lambda>value. result_error (NewConsentToken value)),
          secrets_NewAuthorizationCode =
            opaque source (\<lambda>value. result_error (NewAuthorizationCode value)),
          secrets_NewRefreshToken = opaque source (\<lambda>value. result_error (NewRefreshToken value)),
          secrets_NewRefreshFamilyID =
            opaque source (\<lambda>value. result_error (NewRefreshFamilyID value))\<rparr>)"

section \<open>The constructors accept what is drawn\<close>

lemma encoded_opaque:
  "length bytes = 32 \<Longrightarrow> newOpaque (EncodeToString bytes) name = Inr (EncodeToString bytes)"
proof -
  have "c \<notin> set blanks" if "c \<in> set (EncodeToString bytes)" for c
    using b64_alphabet_graphic [OF EncodeToString_alphabet [OF that]]
    by (auto simp: graphic_def blanks_def)
  then show "length bytes = 32 \<Longrightarrow> ?thesis"
    by (simp add: newOpaque_Inr EncodeToString_TrimSpace EncodeToString_length)
qed

lemma b64_identifiers: "list_all identifier_char b64_alphabet"
  by code_simp

lemma b64_identifier: "c \<in> set b64_alphabet \<Longrightarrow> identifier_char c"
  using b64_identifiers by (simp add: list_all_iff)

lemma encoded_client:
  assumes "length bytes = 32"
  shows "NewClientID (''c'' @ EncodeToString bytes) = Inr (''c'' @ EncodeToString bytes)"
proof -
  have "length (EncodeToString bytes) = 43" using assms by (simp add: EncodeToString_length)
  moreover have "list_all identifier_char (EncodeToString bytes)"
    by (auto simp: list_all_iff intro: b64_identifier EncodeToString_alphabet)
  ultimately have "identifierPattern (''c'' @ EncodeToString bytes)"
    by (simp add: ascii_alnum_def ascii_lowercase_def)
  then show ?thesis unfolding NewClientID_def by (rule newIdentifier_id)
qed

text \<open>An entropy source in the world of the fixtures: it returns as many bytes as asked for, or
  fails, and records no event.\<close>

definition entropy_ok :: "('w, 'a) Ghost \<Rightarrow> 'w entropy \<Rightarrow> bool" where
  "entropy_ok g source \<longleftrightarrow>
     (\<forall>n. observes g (source n) (\<lambda>_. []) (whenever (\<lambda>bytes. length bytes = n)))"

lemma wp_entropy:
  assumes "entropy_ok g source" and "gh_ok g w"
    and "\<And>err w'. logs g [] w w' \<Longrightarrow> Q (Inl err) w'"
    and "\<And>bytes w'. logs g [] w w' \<Longrightarrow> length bytes = n \<Longrightarrow> Q (Inr bytes) w'"
  shows "wp (source n) Q w"
proof (rule wp_observes [where m = "source n"])
  show "observes g (source n) (\<lambda>_. []) (whenever (\<lambda>bytes. length bytes = n))"
    using assms(1) by (simp add: entropy_ok_def)
  fix r :: "string result" and w'
  assume "logs g [] w w'" "whenever (\<lambda>bytes. length bytes = n) r"
  then show "Q r w'" using assms(3,4) by (cases r) simp_all
qed (rule assms(2))

lemma wp_opaque:
  assumes "entropy_ok g source" and "gh_ok g w"
    and "\<And>bytes. length bytes = 32 \<Longrightarrow> makeValue (EncodeToString bytes) = None"
    and "\<And>err w'. logs g [] w w' \<Longrightarrow> Q (Inl err) w'"
    and "\<And>bytes w'. logs g [] w w' \<Longrightarrow> length bytes = 32 \<Longrightarrow> Q (Inr (EncodeToString bytes)) w'"
  shows "wp (opaque source makeValue) Q w"
  unfolding opaque_def wp_bind
  by (rule wp_entropy [OF assms(1,2)]) (simp_all add: wp_simps assms(3-5))

text \<open>The same secrets with the history variable of the fixtures: what is drawn is recorded.\<close>

definition recorded :: "('a World, string result) state \<Rightarrow> ('a World, string result) state" where
  "recorded m = do {
     r \<leftarrow> m;
     _ \<leftarrow> State (\<lambda>w. ((), (case r of Inl err \<Rightarrow> w | Inr v \<Rightarrow> observe (Drawn v) w)));
     State_Monad.return r
   }"

definition recorded_secrets :: "'a World SecretPort \<Rightarrow> 'a World SecretPort" where
  "recorded_secrets s =
     \<lparr>secrets_NewClientID = recorded (secrets_NewClientID s),
      secrets_NewTransactionToken = recorded (secrets_NewTransactionToken s),
      secrets_NewConsentToken = recorded (secrets_NewConsentToken s),
      secrets_NewAuthorizationCode = recorded (secrets_NewAuthorizationCode s),
      secrets_NewRefreshToken = recorded (secrets_NewRefreshToken s),
      secrets_NewRefreshFamilyID = recorded (secrets_NewRefreshFamilyID s)\<rparr>"

lemma draws_recorded:
  assumes "\<And>w. gh_ok world_ghost w \<Longrightarrow>
    wp m (\<lambda>r w'. logs world_ghost [] w w' \<and> whenever (\<lambda>v. new v = Inr v) r) w"
  shows "draws world_ghost (recorded m) new"
  unfolding draws_def observes_def recorded_def wp_bind
proof (intro allI impI)
  fix w :: "'a World"
  assume "gh_ok world_ghost w"
  from assms [OF this] show "wp m (\<lambda>a w'. wp (State (\<lambda>w. ((), case a of Inl err \<Rightarrow> w
       | Inr v \<Rightarrow> observe (Drawn v) w))) (\<lambda>_ w'. wp (State_Monad.return a)
       (\<lambda>r w'. logs world_ghost (on_success (\<lambda>v. [Drawn v]) r) w w' \<and>
          whenever (\<lambda>v. new v = Inr v) r) w') w') w"
    by (rule wp_mono) (auto simp: wp_simps wp_def logs_def observe_def split: sum.splits)
qed

lemma draws_opaque:
  assumes "entropy_ok world_ghost source"
    and "\<And>bytes. length bytes = 32 \<Longrightarrow> new (EncodeToString bytes) = Inr (EncodeToString bytes)"
  shows "draws world_ghost (recorded (opaque source (\<lambda>v. result_error (new v)))) new"
proof (rule draws_recorded)
  fix w :: "'a World"
  assume "gh_ok world_ghost w"
  with assms show "wp (opaque source (\<lambda>v. result_error (new v)))
      (\<lambda>r w'. logs world_ghost [] w w' \<and> whenever (\<lambda>v. new v = Inr v) r) w"
    by (intro wp_opaque [OF assms(1)]) simp_all
qed

lemma crypto_secret_port:
  assumes "entropy_ok world_ghost (reader field rand)"
  shows "secret_port (recorded_secrets (CryptoSecrets field rand)) world_ghost"
proof -
  let ?s = "reader field rand"
  note opaque = draws_opaque [OF assms]
  have "draws world_ghost (recorded (CryptoSecrets_NewClientID ?s)) NewClientID"
  proof (rule draws_recorded)
    fix w :: "'a World"
    assume "gh_ok world_ghost w"
    with assms show "wp (CryptoSecrets_NewClientID ?s)
        (\<lambda>r w'. logs world_ghost [] w w' \<and> whenever (\<lambda>v. NewClientID v = Inr v) r) w"
      unfolding CryptoSecrets_NewClientID_def wp_bind
      by (intro wp_opaque [OF assms]) (simp_all add: wp_simps encoded_client del: append_Cons)
  qed
  moreover note opaque [of NewTransactionToken] opaque [of NewConsentToken]
    opaque [of NewAuthorizationCode] opaque [of NewRefreshToken] opaque [of NewRefreshFamilyID]
  ultimately show ?thesis
    by unfold_locales
      (simp_all add: recorded_secrets_def CryptoSecrets_def Let_def newOpaque_ctor_defs encoded_opaque)
qed

lemma opaque_outcome:
  assumes "\<And>bytes. length bytes = 32 \<Longrightarrow> makeValue (EncodeToString bytes) = None"
    and "run_state (source 32) w = (r, w')" and "whenever (\<lambda>bytes. length bytes = 32) r"
  shows "run_state (opaque source makeValue) w = (map_sum id EncodeToString r, w')"
  using assms by (cases r) (simp_all add: opaque_def State_Monad.bind_def State_Monad.return_def)

lemma client_outcome:
  assumes "run_state (source 32) w = (r, w')" and "whenever (\<lambda>bytes. length bytes = 32) r"
  shows "run_state (CryptoSecrets_NewClientID source) w = (map_sum id (\<lambda>bytes. ''c'' @ EncodeToString bytes) r, w')"
proof -
  have "run_state (opaque source (\<lambda>value. result_error (NewClientID (''c'' @ value)))) w =
      (map_sum id EncodeToString r, w')"
    by (rule opaque_outcome [where source = source, OF _ assms]) (simp_all add: encoded_client del: append_Cons)
  then show ?thesis
    by (cases r) (simp_all add: CryptoSecrets_NewClientID_def State_Monad.bind_def State_Monad.return_def)
qed

lemma entropy_fills:
  assumes "entropy_ok g source" and "gh_ok g w" and "run_state (source 32) w = (r, w')"
  shows "whenever (\<lambda>bytes. length bytes = 32) r"
proof -
  have "wp (source 32) (\<lambda>r _. whenever (\<lambda>bytes. length bytes = 32) r) w"
    by (rule wp_entropy [OF assms(1,2)]) simp_all
  from wpD [OF this assms(3)] show ?thesis .
qed

text \<open>The six methods, each with the constructor of its type and the prefix of its values.\<close>

definition secret_draws ::
  "'w SecretPort \<Rightarrow> (('w, string result) state \<times> (string \<Rightarrow> string result) \<times> string) list" where
  "secret_draws s =
     [(secrets_NewClientID s, NewClientID, ''c''),
      (secrets_NewTransactionToken s, NewTransactionToken, []),
      (secrets_NewConsentToken s, NewConsentToken, []),
      (secrets_NewAuthorizationCode s, NewAuthorizationCode, []),
      (secrets_NewRefreshToken s, NewRefreshToken, []),
      (secrets_NewRefreshFamilyID s, NewRefreshFamilyID, [])]"

lemma crypto_draws:
  assumes "(draw, new, lead) \<in> set (secret_draws (CryptoSecrets field rand))"
    and "run_state (reader field rand 32) w = (r, w')" and "whenever (\<lambda>bytes. length bytes = 32) r"
  shows "run_state draw w = (map_sum id (\<lambda>bytes. lead @ EncodeToString bytes) r, w')"
    and "r = Inr bytes \<Longrightarrow> new (lead @ EncodeToString bytes) = Inr (lead @ EncodeToString bytes)"
proof -
  note opaque = opaque_outcome [where source = "reader field rand", OF _ assms(2,3)]
  from assms(1) client_outcome [where source = "reader field rand", OF assms(2,3)]
  show "run_state draw w = (map_sum id (\<lambda>bytes. lead @ EncodeToString bytes) r, w')"
    by (auto simp: secret_draws_def CryptoSecrets_def Let_def newOpaque_ctor_defs encoded_opaque intro!: opaque)
  assume "r = Inr bytes"
  with assms(1,3) encoded_client [of bytes]
  show "new (lead @ EncodeToString bytes) = Inr (lead @ EncodeToString bytes)"
    by (auto simp: secret_draws_def newOpaque_ctor_defs encoded_opaque)
qed

text \<open>C31. The production secrets.  Given any entropy source that fills the buffer or fails, each of the
  six methods reads 32 bytes once and no more: if the source fails it answers that error, and otherwise it
  always answers the base64 text of those bytes, for client identifiers with a leading \<open>c\<close>, and the
  constructor of its type accepts this text unchanged.  No draw is rejected, although the grammar of client
  identifiers forbids a leading hyphen or underscore.  So the methods keep the contract that every
  property of the engine assumes of its secrets.\<close>

theorem crypto_secrets_contract:
  assumes "entropy_ok world_ghost (reader field rand)"
  shows "(\<forall>(draw, new, lead) \<in> set (secret_draws (CryptoSecrets field rand)). \<forall>w. gh_ok world_ghost w \<longrightarrow>
      (case run_state (reader field rand 32) w of
         (Inl err, w') \<Rightarrow> run_state draw w = (Inl err, w')
       | (Inr bytes, w') \<Rightarrow>
           run_state draw w = (Inr (lead @ EncodeToString bytes), w') \<and>
           new (lead @ EncodeToString bytes) = Inr (lead @ EncodeToString bytes))) \<and>
    secret_port (recorded_secrets (CryptoSecrets field rand)) world_ghost"
proof -
  have draws: "case run_state (reader field rand 32) w of
         (Inl err, w') \<Rightarrow> run_state draw w = (Inl err, w')
       | (Inr bytes, w') \<Rightarrow> run_state draw w = (Inr (lead @ EncodeToString bytes), w') \<and>
           new (lead @ EncodeToString bytes) = Inr (lead @ EncodeToString bytes)"
    if draw: "(draw, new, lead) \<in> set (secret_draws (CryptoSecrets field rand))" and "gh_ok world_ghost w"
    for draw new lead and w :: "'a World"
  proof -
    obtain r w' where run: "run_state (reader field rand 32) w = (r, w')" by fastforce
    have "whenever (\<lambda>bytes. length bytes = 32) r"
      using entropy_fills [OF assms \<open>gh_ok world_ghost w\<close> run] .
    note crypto_draws [OF draw run this]
    with run show ?thesis by (cases r) simp_all
  qed
  show ?thesis
  proof (intro conjI crypto_secret_port [OF assms] ballI)
    fix x
    assume "x \<in> set (secret_draws (CryptoSecrets field rand))"
    moreover obtain draw new lead where "x = (draw, new, lead)" by (cases x)
    ultimately show "case x of (draw, new, lead) \<Rightarrow> \<forall>w. gh_ok world_ghost w \<longrightarrow>
      (case run_state (reader field rand 32) w of
         (Inl err, w') \<Rightarrow> run_state draw w = (Inl err, w')
       | (Inr bytes, w') \<Rightarrow>
           run_state draw w = (Inr (lead @ EncodeToString bytes), w') \<and>
           new (lead @ EncodeToString bytes) = Inr (lead @ EncodeToString bytes))"
      using draws by simp
  qed
qed

text \<open>A source that counts.\<close>

definition counting_source :: "'a World entropy" where
  "counting_source n = State (\<lambda>w.
     (Inr (replicate n (char_of (uint (w_secrets w)))), w\<lparr>w_secrets := w_secrets w + 1\<rparr>))"

lemma counting_source_ok: "entropy_ok world_ghost counting_source"
  by (simp add: entropy_ok_def observes_def counting_source_def wp_def logs_def)

theorem crypto_secrets_contract_witness:
  "let text = ''c'' @ EncodeToString (replicate 32 (char_of (uint (w_secrets demo_world))))
   in run_state (secrets_NewClientID (CryptoSecrets (Some counting_source) counting_source)) demo_world =
        (Inr text, demo_world\<lparr>w_secrets := w_secrets demo_world + 1\<rparr>) \<and>
      NewClientID text = Inr text"
proof -
  let ?c = "counting_source :: unit World entropy"
  let ?s = "CryptoSecrets (Some ?c) ?c"
  have source: "reader (Some ?c) ?c = ?c" by (simp add: reader_def)
  then have "entropy_ok world_ghost (reader (Some ?c) ?c)" by (simp add: counting_source_ok)
  note contract = crypto_secrets_contract [OF this, THEN conjunct1]
  have "(secrets_NewClientID ?s, NewClientID, ''c'') \<in> set (secret_draws ?s)" by (simp add: secret_draws_def)
  moreover have "gh_ok world_ghost demo_world" by (simp add: demo_world_def)
  ultimately show ?thesis
    using contract unfolding source
    by (fastforce simp: counting_source_def Let_def simp del: append_Cons)
qed

section \<open>Request identifiers\<close>

text \<open>A request identifier that comes out of \<open>SanitizeInbound\<close> is always safe to log: 8 to 64
  letters, digits, hyphens, underscores and dots.  A safe inbound identifier is kept, any other is
  replaced by a fresh one of 32 hexadecimal digits, and no entropy is drawn for a safe one.\<close>

lemma sanitized_ids_safe:
  assumes "run_state (SanitizeInbound rand inbound) w = (Inr rid, w')"
    and "\<And>n w bs w'. run_state (rand n) w = (Inr bs, w') \<Longrightarrow> length bs = n"
  shows "ValidID rid \<and> (if ValidID inbound then rid = inbound \<and> w' = w else length rid = 32)"
proof (cases "ValidID inbound")
  case True
  with assms(1) show ?thesis by (simp add: SanitizeInbound_def)
next
  case False
  have "wp (NewID rand) (\<lambda>r _. case r of Inl err \<Rightarrow> True
      | Inr rid \<Rightarrow> ValidID rid \<and> length rid = 32) w"
    unfolding NewID_def wp_bind
    by (rule wpI) (auto simp: wp_simps ValidID_hex hex_encode_length dest: assms(2)
        split: sum.splits)
  moreover from False assms(1) have "run_state (NewID rand) w = (Inr rid, w')"
    by (simp add: SanitizeInbound_def)
  ultimately have "ValidID rid \<and> length rid = 32" by (auto dest: wpD)
  with False show ?thesis by simp
qed

end
