(* ===== verification/Go_Time.thy ===== *)
theory Go_Time
  imports Go_Format
begin

text \<open>
  \<open>time.Time.Format\<close> and \<open>time.Parse\<close> for the layout \<open>time.RFC3339Nano\<close> in UTC: the texts that the
  SQLite store keeps for its timestamps and compares as text.  The calendar is the proleptic
  Gregorian one; day 0 is January 1 of year 1.
\<close>

section \<open>The calendar\<close>

definition leap :: "int \<Rightarrow> bool" where
  "leap y \<longleftrightarrow> 4 dvd y \<and> (\<not> 100 dvd y \<or> 400 dvd y)"

text \<open>The days before January 1 of a year.\<close>

definition year_days :: "int \<Rightarrow> int" where
  "year_days y = 365 * (y - 1) + (y - 1) div 4 - (y - 1) div 100 + (y - 1) div 400"

lemma div_step:
  fixes y k :: int
  assumes "0 < k"
  shows "y div k = (y - 1) div k + (if k dvd y then 1 else 0)"
proof (cases "k dvd y")
  case True
  then obtain q where "y = k * q" ..
  moreover from this have "(y - 1) div k = q - 1"
    using assms by (intro int_div_pos_eq [where r = "k - 1"]) (simp_all add: right_diff_distrib)
  ultimately show ?thesis using assms by simp
next
  case False
  then have "0 < y mod k" using assms pos_mod_sign [of k y] by (auto simp: dvd_eq_mod_eq_0 less_le)
  moreover have "y mod k < k" using assms by simp
  moreover have "y - 1 = k * (y div k) + (y mod k - 1)" by simp
  ultimately have "(y - 1) div k = y div k"
    by (intro int_div_pos_eq [where r = "y mod k - 1"]) simp_all
  with False show ?thesis by simp
qed

lemma year_days_step: "year_days (y + 1) = year_days y + (if leap y then 366 else 365)"
proof -
  have dvd: "100 dvd y \<Longrightarrow> 4 dvd y" "400 dvd y \<Longrightarrow> 100 dvd y"
    by (rule dvd_trans [rotated], assumption, simp)+
  have "y div 4 - y div 100 + y div 400 =
      (y - 1) div 4 - (y - 1) div 100 + (y - 1) div 400 + (if leap y then 1 else 0)"
    unfolding div_step [of 4 y, simplified] div_step [of 100 y, simplified]
      div_step [of 400 y, simplified] leap_def
    using dvd by (cases "4 dvd y"; cases "100 dvd y"; cases "400 dvd y") simp_all
  then show ?thesis unfolding year_days_def add_diff_cancel_right'
    by (smt (verit))
qed

lemma year_days_mono: "y \<le> z \<Longrightarrow> year_days y \<le> year_days z"
proof (induction z rule: int_ge_induct)
  case (step z)
  then show ?case using year_days_step [of z] by simp
qed simp

text \<open>The year that contains a day, searched from an estimate that is never too late.\<close>

function year_search :: "int \<Rightarrow> int \<Rightarrow> int" where
  "year_search n y = (if year_days (y + 1) \<le> n then year_search n (y + 1) else y)"
  by pat_completeness auto
termination
proof (relation "measure (\<lambda>(n, y). nat (n - year_days y))")
  fix n y :: int
  assume "year_days (y + 1) \<le> n"
  then show "((n, y + 1), (n, y)) \<in> measure (\<lambda>(n, y). nat (n - year_days y))"
    using year_days_step [of y] by (auto split: if_splits)
qed simp

declare year_search.simps [simp del]

definition year_of :: "int \<Rightarrow> int" where
  "year_of n = year_search n ((n - 1) * 400 div 146097 + 1)"

lemma year_search: "year_days y \<le> n \<Longrightarrow>
  year_days (year_search n y) \<le> n \<and> n < year_days (year_search n y + 1)"
proof (induction n y rule: year_search.induct)
  case (1 n y)
  then show ?case by (subst (1 2) year_search.simps) auto
qed

lemma year_estimate: "year_days ((n - 1) * 400 div 146097 + 1) \<le> n"
proof -
  define a where "a = (n - 1) * 400 div 146097"
  define q4 q100 q400 where q: "q4 = a div 4" "q100 = a div 100" "q400 = a div 400"
  have "146097 * a \<le> (n - 1) * 400"
    using div_mult_mod_eq [of "(n - 1) * 400" 146097] pos_mod_sign [of 146097 "(n - 1) * 400"]
    unfolding a_def by linarith
  moreover have "400 * (365 * a + q4 - q100 + q400) \<le> 146097 * a + 396"
  proof -
    have "4 * q4 \<le> a" "a \<le> 100 * q100 + 99" "400 * q400 \<le> a"
      unfolding q by presburger+
    then have "100 * (4 * q4) \<le> 100 * a" "4 * a \<le> 4 * (100 * q100 + 99)" "400 * q400 \<le> a"
      by simp_all
    then show ?thesis by simp
  qed
  ultimately have "365 * a + q4 - q100 + q400 \<le> n" by simp
  then show ?thesis
    unfolding year_days_def add_diff_cancel_right' a_def [symmetric] q [symmetric] .
qed

lemma year_of: "year_days (year_of n) \<le> n" "n < year_days (year_of n + 1)"
  using year_search [OF year_estimate] by (simp_all add: year_of_def)

lemma year_of_mono: "n \<le> k \<Longrightarrow> year_of n \<le> year_of k"
proof (rule ccontr)
  assume "n \<le> k" "\<not> year_of n \<le> year_of k"
  then have "year_days (year_of k + 1) \<le> year_days (year_of n)"
    by (intro year_days_mono) simp
  with year_of(1) [of n] year_of(2) [of k] \<open>n \<le> k\<close> show False by linarith
qed

lemma year_of_unique: "year_days y \<le> n \<Longrightarrow> n < year_days (y + 1) \<Longrightarrow> year_of n = y"
  using year_of [of n] year_days_mono [of "year_of n + 1" y] year_days_mono [of "y + 1" "year_of n"]
  by fastforce

text \<open>Months.\<close>

definition month_lengths :: "bool \<Rightarrow> int list" where
  "month_lengths leap_year =
     [31, if leap_year then 29 else 28, 31, 30, 31, 30, 31, 31, 30, 31, 30, 31]"

fun split_month :: "int list \<Rightarrow> int \<Rightarrow> int \<times> int" where
  "split_month [] d = (1, d + 1)"
| "split_month (l # ls) d =
     (if d < l then (1, d + 1) else (case split_month ls (d - l) of (m, dd) \<Rightarrow> (m + 1, dd)))"

definition join_month :: "int list \<Rightarrow> int \<Rightarrow> int \<Rightarrow> int" where
  "join_month ls m dd = sum_list (take (nat (m - 1)) ls) + dd - 1"

lemma split_month_ge: "split_month ls d = (m, dd) \<Longrightarrow> 1 \<le> m"
  by (induction ls arbitrary: d m dd) (force split: if_splits prod.splits)+

lemma join_split_month: "split_month ls d = (m, dd) \<Longrightarrow> join_month ls m dd = d"
proof (induction ls arbitrary: d m dd)
  case (Cons l ls)
  show ?case
  proof (cases "d < l")
    case False
    with Cons.prems obtain m' where m: "split_month ls (d - l) = (m', dd)" "m = m' + 1"
      by (auto split: prod.splits)
    then have "nat (m - 1) = Suc (nat (m' - 1))" using split_month_ge [OF m(1)] by simp
    with Cons.IH [OF m(1)] show ?thesis by (simp add: join_month_def)
  qed (use Cons.prems in \<open>auto simp: join_month_def\<close>)
qed (simp add: join_month_def)

lemma split_month_range:
  "split_month ls d = (m, dd) \<Longrightarrow> 0 \<le> d \<Longrightarrow> d < sum_list ls \<Longrightarrow>
   m \<le> int (length ls) \<and> 1 \<le> dd \<and> dd \<le> ls ! nat (m - 1)"
proof (induction ls arbitrary: d m dd)
  case (Cons l ls)
  show ?case
  proof (cases "d < l")
    case False
    with Cons.prems obtain m' where m: "split_month ls (d - l) = (m', dd)" "m = m' + 1"
      by (auto split: prod.splits)
    then have "nat (m - 1) = Suc (nat (m' - 1))" using split_month_ge [OF m(1)] by simp
    with Cons.IH [OF m(1)] False Cons.prems m(2) show ?thesis by simp
  qed (use Cons.prems in auto)
qed simp

lemma split_month_mono:
  "d < e \<Longrightarrow> split_month ls d = (m, x) \<Longrightarrow> split_month ls e = (k, y) \<Longrightarrow> m < k \<or> m = k \<and> x < y"
proof (induction ls arbitrary: d e m k x y)
  case (Cons l ls)
  show ?case
  proof (cases "d < l")
    case True
    then show ?thesis using Cons.prems
      by (auto split: if_splits prod.splits dest: split_month_ge)
  next
    case False
    with Cons.prems obtain m' k' where
      "split_month ls (d - l) = (m', x)" "m = m' + 1" "split_month ls (e - l) = (k', y)" "k = k' + 1"
      by (auto split: prod.splits)
    with Cons.IH [of "d - l" "e - l" m' x k' y] Cons.prems(1) show ?thesis by auto
  qed
qed auto

definition civil :: "int \<Rightarrow> int \<times> int \<times> int" where
  "civil n =
     (let y = year_of n in (y, split_month (month_lengths (leap y)) (n - year_days y)))"

definition civil_days :: "int \<Rightarrow> int \<Rightarrow> int \<Rightarrow> int" where
  "civil_days y m d = year_days y + join_month (month_lengths (leap y)) m d"

lemma civil_days_civil: "civil n = (y, m, d) \<Longrightarrow> civil_days y m d = n"
  by (auto simp: civil_def Let_def civil_days_def dest: join_split_month)

lemma civil_mono:
  assumes "n < k" "civil n = (y, m, d)" "civil k = (y', m', d')"
  shows "y < y' \<or> y = y' \<and> (m < m' \<or> m = m' \<and> d < d')"
proof (cases "y = y'")
  case True
  with assms show ?thesis
    using split_month_mono [of "n - year_days y" "k - year_days y" "month_lengths (leap y)" m d m' d']
    by (auto simp: civil_def Let_def)
next
  case False
  with assms year_of_mono [of n k] show ?thesis by (auto simp: civil_def Let_def)
qed

lemma civil_range:
  assumes "civil n = (y, m, d)"
  shows "1 \<le> m \<and> m \<le> 12 \<and> 1 \<le> d \<and> d \<le> month_lengths (leap y) ! nat (m - 1) \<and> d \<le> 31"
proof -
  let ?ls = "month_lengths (leap y)"
  have y: "y = year_of n" and s: "split_month ?ls (n - year_days y) = (m, d)"
    using assms by (auto simp: civil_def Let_def)
  have "sum_list ?ls = (if leap y then 366 else 365)" by (simp add: month_lengths_def)
  moreover have "0 \<le> n - year_days y" "n - year_days y < (if leap y then 366 else 365)"
    using year_of [of n] year_days_step [of y] unfolding y by (auto split: if_splits)
  ultimately have r: "m \<le> int (length ?ls)" "1 \<le> d" "d \<le> ?ls ! nat (m - 1)"
    using split_month_range [OF s] by auto
  have "1 \<le> m" using split_month_ge [OF s] .
  moreover have "m \<le> 12" using r(1) by (simp add: month_lengths_def)
  moreover have "?ls ! nat (m - 1) \<le> 31"
  proof -
    have "list_all (\<lambda>l. l \<le> 31) ?ls" by (simp add: month_lengths_def)
    moreover have "nat (m - 1) < length ?ls" using \<open>m \<le> 12\<close> \<open>1 \<le> m\<close> by (simp add: month_lengths_def)
    ultimately show ?thesis by (auto simp: list_all_length)
  qed
  ultimately show ?thesis using r by auto
qed

section \<open>Formatting\<close>

definition format_year :: "int \<Rightarrow> string" where
  "format_year y = (if y < 0 then CHR ''-'' # padded 4 (- y) else padded 4 y)"

text \<open>The date and time of a number of seconds, of fixed width for the years 0 to 9999.\<close>

definition date_text :: "int \<Rightarrow> string" where
  "date_text secs =
     (case civil (secs div 86400) of (y, m, d) \<Rightarrow>
        (let r = secs mod 86400
         in format_year y @ ''-'' @ padded 2 m @ ''-'' @ padded 2 d @ ''T'' @
            padded 2 (r div 3600) @ '':'' @ padded 2 (r mod 3600 div 60) @ '':'' @
            padded 2 (r mod 60)))"

text \<open>The fraction, without trailing zeros and absent when it is 0.\<close>

definition trim_zeros :: "string \<Rightarrow> string" where
  "trim_zeros s = rev (dropWhile (\<lambda>c. c = CHR ''0'') (rev s))"

definition fraction_text :: "int \<Rightarrow> string" where
  "fraction_text ns = (if ns = 0 then [] else CHR ''.'' # trim_zeros (padded 9 ns))"

definition rfc3339 :: "time \<Rightarrow> string" where
  "rfc3339 t = date_text (t div second) @ fraction_text (t mod second) @ ''Z''"

definition time_year :: "time \<Rightarrow> int" where
  "time_year t = year_of (t div second div 86400)"

section \<open>Parsing\<close>

text \<open>A text with an offset other than \<open>Z\<close> does not occur: every time that is stored was
  converted to UTC.\<close>

definition number :: "nat \<Rightarrow> string \<Rightarrow> (int \<times> string) option" where
  "number n s =
     (let ds = take n s
      in if length ds = n \<and> list_all is_digit ds then Some (decimal_value 0 ds, drop n s) else None)"

fun expect :: "char \<Rightarrow> string \<Rightarrow> string option" where
  "expect c [] = None"
| "expect c (x # s) = (if x = c then Some s else None)"

fun fraction :: "string \<Rightarrow> (int \<times> string) option" where
  "fraction [] = Some (0, [])"
| "fraction (c # s) =
     (if c \<noteq> CHR ''.'' then Some (0, c # s)
      else (let ds = takeWhile is_digit s
            in if ds = [] then None
               else Some (decimal_value 0 (take 9 (ds @ replicate 9 (CHR ''0''))),
                 dropWhile is_digit s)))"

definition time_Parse :: "string \<Rightarrow> time option" where
  "time_Parse s0 = do {
     (y, s1) \<leftarrow> number 4 s0;
     s2 \<leftarrow> expect (CHR ''-'') s1;
     (m, s3) \<leftarrow> number 2 s2;
     s4 \<leftarrow> expect (CHR ''-'') s3;
     (d, s5) \<leftarrow> number 2 s4;
     s6 \<leftarrow> expect (CHR ''T'') s5;
     (h, s7) \<leftarrow> number 2 s6;
     s8 \<leftarrow> expect (CHR '':'') s7;
     (mi, s9) \<leftarrow> number 2 s8;
     s10 \<leftarrow> expect (CHR '':'') s9;
     (sec, s11) \<leftarrow> number 2 s10;
     (ns, s12) \<leftarrow> fraction s11;
     if s12 = ''Z'' \<and> 1 \<le> m \<and> m \<le> 12 \<and> 1 \<le> d \<and> d \<le> month_lengths (leap y) ! nat (m - 1) \<and>
        h < 24 \<and> mi < 60 \<and> sec < 60
     then Some ((((civil_days y m d * 24 + h) * 60 + mi) * 60 + sec) * second + ns)
     else None
   }"

section \<open>Parsing inverts formatting\<close>

lemma number_padded:
  "0 \<le> v \<Longrightarrow> v < 10 ^ Suc k \<Longrightarrow> n = Suc k \<Longrightarrow> number n (padded n v @ s) = Some (v, s)"
  using padded_length [of v k n] padded_digits [of n v]
  by (simp add: number_def Let_def list_all_iff)

lemma number_2: "0 \<le> v \<Longrightarrow> v < 100 \<Longrightarrow> number 2 (padded 2 v @ s) = Some (v, s)"
  and number_4: "0 \<le> v \<Longrightarrow> v < 10000 \<Longrightarrow> number 4 (padded 4 v @ s) = Some (v, s)"
  by (rule number_padded [where k = 1] number_padded [where k = 3]; simp)+

lemma trim_zeros_replicate:
  "trim_zeros s @ replicate (length s - length (trim_zeros s)) (CHR ''0'') = s"
proof -
  let ?z = "\<lambda>c. c = CHR ''0''"
  have "takeWhile ?z (rev s) = replicate (length (takeWhile ?z (rev s))) (CHR ''0'')"
    by (rule replicate_length_same [symmetric]) (auto dest: set_takeWhileD)
  moreover have "s = trim_zeros s @ rev (takeWhile ?z (rev s))"
    unfolding trim_zeros_def rev_append [symmetric] takeWhile_dropWhile_id by simp
  moreover from this have "length (takeWhile ?z (rev s)) = length s - length (trim_zeros s)"
    by (metis add_diff_cancel_left' length_append length_rev)
  ultimately show ?thesis by (metis rev_replicate)
qed

lemma trim_zeros_subset: "set (trim_zeros s) \<subseteq> set s"
  unfolding trim_zeros_def using set_dropWhileD by fastforce

lemma trim_zeros_nonempty: "decimal_value 0 s \<noteq> 0 \<Longrightarrow> trim_zeros s \<noteq> []"
proof
  assume "decimal_value 0 s \<noteq> 0" "trim_zeros s = []"
  moreover have "decimal_value 0 (replicate k (CHR ''0'')) = 0" for k
    by (induction k) (simp_all add: digit_value_def)
  ultimately show False using trim_zeros_replicate [of s] by (metis append_Nil)
qed

lemma fraction_fraction_text:
  assumes "0 \<le> ns" "ns < second"
  shows "fraction (fraction_text ns @ ''Z'') = Some (ns, ''Z'')"
proof (cases "ns = 0")
  case False
  let ?p = "padded 9 ns"
  have len: "length ?p = 9"
    using assms padded_length [of ns 8 9] by (simp add: second_def)
  have digits: "\<forall>c \<in> set (trim_zeros ?p). is_digit c"
    using padded_digits [of 9 ns] trim_zeros_subset [of ?p] by blast
  have Z: "\<not> is_digit (CHR ''Z'')" by (simp add: is_digit_def)
  have "trim_zeros ?p \<noteq> []"
    using trim_zeros_nonempty [of ?p] assms False by simp
  moreover have "take 9 (trim_zeros ?p @ replicate 9 (CHR ''0'')) = ?p"
  proof -
    have "replicate 9 (CHR ''0'') = replicate (9 - length (trim_zeros ?p)) (CHR ''0'') @
        replicate (length (trim_zeros ?p)) (CHR ''0'')"
      using len by (simp add: replicate_add [symmetric] trim_zeros_def
          length_dropWhile_le [THEN order_trans])
    then have "trim_zeros ?p @ replicate 9 (CHR ''0'') =
        ?p @ replicate (length (trim_zeros ?p)) (CHR ''0'')"
      using trim_zeros_replicate [of ?p] len by (metis append.assoc)
    then show ?thesis using len by simp
  qed
  ultimately show ?thesis
    using False assms digits Z
    by (simp add: fraction_text_def Let_def takeWhile_append2 dropWhile_append2)
qed (simp add: fraction_text_def)

lemma clock_split:
  fixes r :: int
  shows "(r div 3600 * 60 + r mod 3600 div 60) * 60 + r mod 60 = r"
proof -
  have "r mod 3600 mod 60 = r mod 60" by (simp add: mod_mod_cancel)
  then show ?thesis
    using div_mult_mod_eq [of "r mod 3600" 60] div_mult_mod_eq [of r 3600] by (smt (verit))
qed

lemma clock_range:
  fixes r :: int
  assumes "r = secs mod 86400"
  shows "0 \<le> r div 3600" "r div 3600 < 24" "0 \<le> r mod 3600 div 60" "r mod 3600 div 60 < 60"
    "0 \<le> r mod 60" "r mod 60 < 60"
  using assms by (auto simp: div_pos_geq pos_imp_zdiv_nonneg_iff)

lemma time_Parse_parts:
  assumes "0 \<le> y" "y \<le> 9999" "0 \<le> ns" "ns < second"
    and "1 \<le> m \<and> m \<le> 12 \<and> 1 \<le> d \<and> d \<le> month_lengths (leap y) ! nat (m - 1) \<and> d \<le> 31"
    and "0 \<le> h" "h < 24" "0 \<le> mi" "mi < 60" "0 \<le> sec" "sec < 60"
  shows "time_Parse (padded 4 y @ ''-'' @ padded 2 m @ ''-'' @ padded 2 d @ ''T'' @
      padded 2 h @ '':'' @ padded 2 mi @ '':'' @ padded 2 sec @ fraction_text ns @ ''Z'') =
    Some ((((civil_days y m d * 24 + h) * 60 + mi) * 60 + sec) * second + ns)"
  using assms
  by (simp add: time_Parse_def number_2 number_4 fraction_fraction_text [OF assms(3,4), simplified]
      del: fraction.simps)

lemma time_Parse_rfc3339:
  assumes "0 \<le> time_year t" "time_year t \<le> 9999"
  shows "time_Parse (rfc3339 t) = Some t"
proof -
  define secs where "secs = t div second"
  define r where "r = secs mod 86400"
  obtain y m d where c: "civil (secs div 86400) = (y, m, d)" by (cases "civil (secs div 86400)")
  have y: "0 \<le> y" "y \<le> 9999"
    using assms c by (auto simp: time_year_def secs_def civil_def Let_def)
  have ns: "0 \<le> t mod second" "t mod second < second" by (simp_all add: second_def)
  have "secs div 86400 * 86400 + r = secs" by (simp add: r_def)
  then have "((secs div 86400 * 24 + r div 3600) * 60 + r mod 3600 div 60) * 60 + r mod 60 = secs"
    using clock_split [of r] by (smt (verit))
  then have "(((civil_days y m d * 24 + r div 3600) * 60 + r mod 3600 div 60) * 60 + r mod 60)
      * second + t mod second = t"
    unfolding civil_days_civil [OF c] by (simp add: secs_def)
  moreover have "rfc3339 t = padded 4 y @ ''-'' @ padded 2 m @ ''-'' @ padded 2 d @ ''T'' @
      padded 2 (r div 3600) @ '':'' @ padded 2 (r mod 3600 div 60) @ '':'' @
      padded 2 (r mod 60) @ fraction_text (t mod second) @ ''Z''"
    using y by (simp add: rfc3339_def date_text_def secs_def [symmetric] c r_def [symmetric]
        format_year_def)
  ultimately show ?thesis
    using time_Parse_parts [OF y ns civil_range [OF c] clock_range [OF r_def]] by simp
qed

section \<open>The order of the texts\<close>

lemma decimal_value_acc: "decimal_value acc s = acc * 10 ^ length s + decimal_value 0 s"
proof (induction s arbitrary: acc)
  case (Cons c s)
  from Cons.IH [of "10 * acc + digit_value c"] Cons.IH [of "digit_value c"] show ?case
    by (simp add: algebra_simps)
qed simp

lemma decimal_value_range:
  "list_all is_digit s \<Longrightarrow> 0 \<le> decimal_value 0 s \<and> decimal_value 0 s < 10 ^ length s"
proof (induction s)
  case (Cons c s)
  then have "0 \<le> digit_value c" "digit_value c \<le> 9" by (auto simp: is_digit_def digit_value_def)
  define k where "k = (10 ^ length s :: int)"
  define v where "v = decimal_value 0 s"
  have "0 < k" by (simp add: k_def)
  with \<open>0 \<le> digit_value c\<close> \<open>digit_value c \<le> 9\<close>
  have "0 \<le> digit_value c * k" "digit_value c * k \<le> 9 * k" by (simp_all add: mult_right_mono)
  moreover from Cons have "0 \<le> v" "v < k" by (simp_all add: v_def k_def)
  ultimately have "0 \<le> digit_value c * k + v \<and> digit_value c * k + v < 10 * k" by linarith
  then show ?case
    using decimal_value_acc [of "digit_value c" s] by (simp add: k_def v_def)
qed simp

lemma digits_less:
  "length s = length u \<Longrightarrow> list_all is_digit s \<Longrightarrow> list_all is_digit u \<Longrightarrow>
   s < u \<longleftrightarrow> decimal_value 0 s < decimal_value 0 u"
proof (induction s u rule: list_induct2)
  case (Cons c s d u)
  let ?p = "10 ^ length s :: int"
  note r = decimal_value_range [of s] decimal_value_range [of u]
  have v: "decimal_value 0 (c # s) = digit_value c * ?p + decimal_value 0 s"
    "decimal_value 0 (d # u) = digit_value d * ?p + decimal_value 0 u"
    using decimal_value_acc [of "digit_value c" s] decimal_value_acc [of "digit_value d" u]
      Cons.hyps by simp_all
  have step: "x * ?p + a < y * ?p + b"
    if "x < y" "a < ?p" "0 \<le> b" for x y a b :: int
  proof -
    from \<open>x < y\<close> have "(x + 1) * ?p \<le> y * ?p" by (intro mult_right_mono) simp_all
    with that show ?thesis by (simp add: algebra_simps)
  qed
  consider "digit_value c < digit_value d" | "digit_value c = digit_value d"
    | "digit_value d < digit_value c" by linarith
  then show ?case
  proof cases
    case 1
    with step [OF 1] r Cons.prems Cons.hyps v show ?thesis
      by (simp add: digit_value_def less_char_int)
  next
    case 2
    then have "c = d" by (auto simp: digit_value_def)
    with Cons v show ?thesis by simp
  next
    case 3
    with step [OF 3, of "decimal_value 0 u" "decimal_value 0 s"] r Cons.prems Cons.hyps v
    show ?thesis by (auto simp: digit_value_def less_char_int)
  qed
qed simp

lemma append_less:
  "length xs = length ys \<Longrightarrow> xs @ us < ys @ vs \<longleftrightarrow> xs < ys \<or> xs = ys \<and> us < vs"
  for xs ys :: "'a::linorder list"
  by (induction xs ys rule: list_induct2) auto

lemma padded_less:
  assumes "0 \<le> a" "0 \<le> b" "a < 10 ^ Suc k" "b < 10 ^ Suc k" "n = Suc k"
  shows "padded n a @ us < padded n b @ vs \<longleftrightarrow> a < b \<or> a = b \<and> us < vs"
  using assms padded_length [of a k n] padded_length [of b k n] padded_digits [of n a]
    padded_digits [of n b]
  by (subst append_less) (auto simp: list_all_iff digits_less padded_inj)

lemma padded_2_less: "0 \<le> a \<Longrightarrow> 0 \<le> b \<Longrightarrow> a < 100 \<Longrightarrow> b < 100 \<Longrightarrow>
    padded 2 a @ us < padded 2 b @ vs \<longleftrightarrow> a < b \<or> a = b \<and> us < vs"
  and padded_4_less: "0 \<le> a \<Longrightarrow> 0 \<le> b \<Longrightarrow> a < 10000 \<Longrightarrow> b < 10000 \<Longrightarrow>
    padded 4 a @ us < padded 4 b @ vs \<longleftrightarrow> a < b \<or> a = b \<and> us < vs"
  by (rule padded_less [where k = 1] padded_less [where k = 3]; simp)+

lemma clock_mono:
  fixes r r' :: int
  assumes "r < r'"
  shows "r div 3600 < r' div 3600 \<or> r div 3600 = r' div 3600 \<and>
      (r mod 3600 div 60 < r' mod 3600 div 60 \<or>
       r mod 3600 div 60 = r' mod 3600 div 60 \<and> r mod 60 < r' mod 60)"
proof -
  have "0 \<le> x mod 3600 div 60 \<and> x mod 3600 div 60 < 60 \<and> 0 \<le> x mod 60 \<and> x mod 60 < 60" for x :: int
    by (simp add: div_pos_geq pos_imp_zdiv_nonneg_iff div_less_iff_less_mult)
  from this [of r] this [of r'] assms clock_split [of r] clock_split [of r'] show ?thesis
    by smt
qed

lemma date_text_less:
  assumes "a < b" "0 \<le> year_of (a div 86400)" "year_of (b div 86400) \<le> 9999"
  shows "date_text a @ us < date_text b @ vs"
proof -
  define r r' where r_def: "r = a mod 86400" and r'_def: "r' = b mod 86400"
  obtain y m d where c: "civil (a div 86400) = (y, m, d)" by (cases "civil (a div 86400)")
  obtain y' m' d' where c': "civil (b div 86400) = (y', m', d')" by (cases "civil (b div 86400)")
  define h mi sec where t: "h = r div 3600" "mi = r mod 3600 div 60" "sec = r mod 60"
  define h' mi' sec' where t': "h' = r' div 3600" "mi' = r' mod 3600 div 60" "sec' = r' mod 60"
  note range = civil_range [OF c] civil_range [OF c']
    and clock = clock_range [OF r_def, folded t] clock_range [OF r'_def, folded t']
  have "y \<le> y'"
    using year_of_mono [of "a div 86400" "b div 86400"] assms(1) c c'
    by (auto simp: civil_def Let_def zdiv_mono1)
  then have y: "0 \<le> y" "y < 10000" "0 \<le> y'" "y' < 10000"
    using assms(2,3) c c' by (auto simp: civil_def Let_def)
  have "a div 86400 < b div 86400 \<or> a div 86400 = b div 86400 \<and> r < r'"
    using assms(1) div_mult_mod_eq [of a 86400] div_mult_mod_eq [of b 86400]
      zdiv_mono1 [of a b 86400] unfolding r_def r'_def by linarith
  then have "(y < y' \<or> y = y' \<and> (m < m' \<or> m = m' \<and> d < d')) \<or> (y, m, d) = (y', m', d') \<and> r < r'"
    using civil_mono [OF _ c c'] c c' by auto
  then have order: "y < y' \<or> y = y' \<and> (m < m' \<or> m = m' \<and> (d < d' \<or> d = d' \<and>
      (h < h' \<or> h = h' \<and> (mi < mi' \<or> mi = mi' \<and> sec < sec'))))"
    using clock_mono [of r r', folded t t'] by auto
  have texts: "date_text a @ us = padded 4 y @ CHR ''-'' # padded 2 m @ CHR ''-'' # padded 2 d @
      CHR ''T'' # padded 2 h @ CHR '':'' # padded 2 mi @ CHR '':'' # padded 2 sec @ us"
    "date_text b @ vs = padded 4 y' @ CHR ''-'' # padded 2 m' @ CHR ''-'' # padded 2 d' @
      CHR ''T'' # padded 2 h' @ CHR '':'' # padded 2 mi' @ CHR '':'' # padded 2 sec' @ vs"
    using y by (simp_all add: date_text_def c c' r_def [symmetric] r'_def [symmetric]
        format_year_def t t')
  from range clock have bounds: "0 \<le> m" "m < 100" "0 \<le> d" "d < 100" "h < 100" "mi < 100" "sec < 100"
    "0 \<le> m'" "m' < 100" "0 \<le> d'" "d' < 100" "h' < 100" "mi' < 100" "sec' < 100"
    by auto
  show ?thesis
    unfolding texts using order
    by (auto simp only: padded_2_less padded_4_less y bounds clock Cons_less_Cons)
qed

text \<open>Times of different seconds are ordered like their texts; so are whole seconds.\<close>

lemma rfc3339_less:
  assumes "t div second < u div second" "0 \<le> time_year t" "time_year u \<le> 9999"
  shows "rfc3339 t < rfc3339 u"
  using date_text_less [OF assms(1)] assms(2,3) by (simp add: rfc3339_def time_year_def)

definition json_time :: "time \<Rightarrow> bool" where
  "json_time t \<longleftrightarrow> 0 \<le> time_year t \<and> time_year t \<le> 9999"

lemma rfc3339_order:
  assumes "t div second \<noteq> u div second" "json_time t" "json_time u"
  shows "rfc3339 t \<le> rfc3339 u \<longleftrightarrow> t \<le> u"
proof (cases "t div second < u div second")
  case True
  then have "t \<le> u" using zdiv_mono1 [of u t second] by (force simp: second_def)
  with rfc3339_less [OF True] assms show ?thesis by (auto simp: json_time_def)
next
  case False
  with assms(1) have *: "u div second < t div second" by simp
  then have "\<not> t \<le> u" using zdiv_mono1 [of t u second] by (force simp: second_def)
  with rfc3339_less [OF *] assms show ?thesis by (auto simp: json_time_def)
qed

lemma rfc3339_inj: "json_time t \<Longrightarrow> json_time u \<Longrightarrow> rfc3339 t = rfc3339 u \<longleftrightarrow> t = u"
  unfolding json_time_def by (metis time_Parse_rfc3339 option.inject)

lemma whole_seconds: "second dvd t \<Longrightarrow> second dvd u \<Longrightarrow> t div second = u div second \<Longrightarrow> t = u"
  by (metis dvd_mult_div_cancel)

end
