(* ===== verification/Json.thy ===== *)
theory Json
  imports Go_Time Model
begin

text \<open>
  \<open>encoding/json\<close> as far as the program stores its records with it.  A JSON text is the tree that
  it denotes: \<open>Marshal\<close> builds a tree, \<open>Unmarshal\<close> reads one.  Strings are the UTF-8 text that
  \<open>Marshal\<close> writes, with every invalid byte replaced; a time is its RFC 3339 text.  A field tagged
  \<open>json:"-"\<close> is left out.
\<close>

section \<open>Values\<close>

definition json_error :: go_error where
  "json_error = OtherError ''json: cannot unmarshal value''"

definition year_error :: go_error where
  "year_error = OtherError ''Time.MarshalJSON: year outside of range [0,9999]''"

definition enc_string :: "string \<Rightarrow> json" where
  "enc_string s = JString (valid_text s)"

definition enc_strings :: "string list \<Rightarrow> json" where
  "enc_strings xs = JArray (map enc_string xs)"

definition enc_time :: "time \<Rightarrow> json" where
  "enc_time t = JString (rfc3339 t)"

definition enc_digest :: "CredentialDigest \<Rightarrow> json" where
  "enc_digest d = JArray (map (\<lambda>c. JNumber (of_char c)) d)"

definition enc_PKCEChallenge :: "PKCEChallenge \<Rightarrow> json" where
  "enc_PKCEChallenge c =
     JObject [(''Value'', enc_string (pk_Value c)), (''Method'', enc_string (pk_Method c))]"

text \<open>\<open>Marshal\<close> of a struct whose time fields are \<open>ts\<close>: it fails on a year that RFC 3339 has not.\<close>

definition marshal_struct :: "time list \<Rightarrow> (string \<times> json) list \<Rightarrow> json result" where
  "marshal_struct ts fs =
     (if list_all json_time ts then Inr (JObject fs) else Inl year_error)"

definition json_field :: "json \<Rightarrow> string \<Rightarrow> json option" where
  "json_field j name = (case j of JObject fs \<Rightarrow> map_of fs name | _ \<Rightarrow> None)"

text \<open>A field that is absent or null leaves the zero value.\<close>

fun dec_string :: "json option \<Rightarrow> string result" where
  "dec_string None = Inr []"
| "dec_string (Some JNull) = Inr []"
| "dec_string (Some (JString s)) = Inr s"
| "dec_string (Some _) = Inl json_error"

fun dec_time :: "json option \<Rightarrow> time result" where
  "dec_time None = Inr 0"
| "dec_time (Some JNull) = Inr 0"
| "dec_time (Some (JString s)) =
     (case time_Parse s of None \<Rightarrow> Inl json_error | Some t \<Rightarrow> Inr t)"
| "dec_time (Some _) = Inl json_error"

fun dec_uint64 :: "json option \<Rightarrow> 64 word result" where
  "dec_uint64 None = Inr 0"
| "dec_uint64 (Some JNull) = Inr 0"
| "dec_uint64 (Some (JNumber n)) =
     (if 0 \<le> n \<and> n < 2 ^ 64 then Inr (word_of_int n) else Inl json_error)"
| "dec_uint64 (Some _) = Inl json_error"

fun dec_bytes :: "json option \<Rightarrow> string result" where
  "dec_bytes None = Inr []"
| "dec_bytes (Some JNull) = Inr []"
| "dec_bytes (Some (JBytes bs)) = Inr bs"
| "dec_bytes (Some _) = Inl json_error"

fun dec_list :: "(json option \<Rightarrow> 'b result) \<Rightarrow> json list \<Rightarrow> 'b list result" where
  "dec_list dec [] = Inr []"
| "dec_list dec (j # js) =
     (case dec (Some j) of
        Inl err \<Rightarrow> Inl err
      | Inr x \<Rightarrow> (case dec_list dec js of Inl err \<Rightarrow> Inl err | Inr xs \<Rightarrow> Inr (x # xs)))"

fun dec_strings :: "json option \<Rightarrow> string list result" where
  "dec_strings None = Inr []"
| "dec_strings (Some JNull) = Inr []"
| "dec_strings (Some (JArray js)) = dec_list dec_string js"
| "dec_strings (Some _) = Inl json_error"

fun dec_byte :: "json option \<Rightarrow> char result" where
  "dec_byte (Some (JNumber n)) =
     (if 0 \<le> n \<and> n < 256 then Inr (char_of n) else Inl json_error)"
| "dec_byte (Some JNull) = Inr (CHR 0x00)"
| "dec_byte _ = Inl json_error"

text \<open>Into an array of 32 bytes: what is missing stays zero, what is left over is dropped.\<close>

fun dec_digest :: "json option \<Rightarrow> CredentialDigest result" where
  "dec_digest None = Inr zero_digest"
| "dec_digest (Some JNull) = Inr zero_digest"
| "dec_digest (Some (JArray js)) =
     (case dec_list dec_byte js of
        Inl err \<Rightarrow> Inl err
      | Inr bs \<Rightarrow> Inr (take 32 (bs @ replicate 32 (CHR 0x00))))"
| "dec_digest (Some _) = Inl json_error"

definition result_then :: "'b result \<Rightarrow> ('b \<Rightarrow> 'c result) \<Rightarrow> 'c result" where
  "result_then r f = (case r of Inl err \<Rightarrow> Inl err | Inr x \<Rightarrow> f x)"

lemma result_then_simps [simp]: "result_then (Inl err) f = Inl err" "result_then (Inr x) f = f x"
  by (simp_all add: result_then_def)

fun dec_object :: "json option \<Rightarrow> json result" where
  "dec_object None = Inr (JObject [])"
| "dec_object (Some JNull) = Inr (JObject [])"
| "dec_object (Some (JObject fs)) = Inr (JObject fs)"
| "dec_object (Some _) = Inl json_error"

definition dec_PKCEChallenge :: "json option \<Rightarrow> PKCEChallenge result" where
  "dec_PKCEChallenge field =
     result_then (dec_object field) (\<lambda>j.
     result_then (dec_string (json_field j ''Value'')) (\<lambda>v.
     result_then (dec_string (json_field j ''Method'')) (\<lambda>m.
     Inr \<lparr>pk_Value = v, pk_Method = m\<rparr>)))"

section \<open>Scope sets\<close>

text \<open>\<open>ScopeSet.MarshalJSON\<close> and \<open>UnmarshalJSON\<close> of scopes.go.\<close>

definition ScopeSet_MarshalJSON :: "ScopeSet \<Rightarrow> json" where
  "ScopeSet_MarshalJSON s = enc_strings (scope_values s)"

definition ScopeSet_UnmarshalJSON :: "json \<Rightarrow> ScopeSet result" where
  "ScopeSet_UnmarshalJSON data =
     result_then (dec_strings (Some data)) (\<lambda>values. ParseScopes (Join values '' ''))"

definition dec_scopes :: "json option \<Rightarrow> ScopeSet result" where
  "dec_scopes field =
     (case field of None \<Rightarrow> Inr empty_ScopeSet | Some j \<Rightarrow> ScopeSet_UnmarshalJSON j)"

section \<open>Reading back what was written\<close>

named_theorems json_simps

lemma dec_enc_string [json_simps]: "dec_string (Some (enc_string s)) = Inr (valid_text s)"
  by (simp add: enc_string_def)

lemma dec_enc_strings [json_simps]:
  "dec_strings (Some (enc_strings xs)) = Inr (map valid_text xs)"
proof -
  have "dec_list dec_string (map enc_string xs) = Inr (map valid_text xs)"
    by (induction xs) (simp_all add: enc_string_def)
  then show ?thesis by (simp add: enc_strings_def)
qed

lemma dec_enc_time [json_simps]: "json_time t \<Longrightarrow> dec_time (Some (enc_time t)) = Inr t"
  by (simp add: enc_time_def json_time_def time_Parse_rfc3339)

lemma dec_enc_uint64 [json_simps]: "dec_uint64 (Some (JNumber (uint g))) = Inr g"
  using uint_bounded [of g] by simp

lemma of_char_range: "0 \<le> (of_char c :: int) \<and> (of_char c :: int) < 256"
  by (metis char_of_char of_char_of pos_mod_bound pos_mod_sign zero_less_numeral)

lemma dec_enc_digest [json_simps]:
  assumes "length d = 32"
  shows "dec_digest (Some (enc_digest d)) = Inr d"
proof -
  have "dec_list dec_byte (map (\<lambda>c. JNumber (of_char c)) d) = Inr d" for d
    using of_char_range by (induction d) simp_all
  with assms show ?thesis by (simp add: enc_digest_def)
qed

lemma json_field_JObject [json_simps]: "json_field (JObject fs) name = map_of fs name"
  by (simp add: json_field_def)

lemma dec_enc_PKCEChallenge:
  "dec_PKCEChallenge (Some (enc_PKCEChallenge c)) =
     Inr \<lparr>pk_Value = valid_text (pk_Value c), pk_Method = valid_text (pk_Method c)\<rparr>"
  by (simp add: dec_PKCEChallenge_def enc_PKCEChallenge_def json_simps)

lemma identifier_ascii: "identifierPattern s \<Longrightarrow> ascii_text s"
proof -
  assume "identifierPattern s"
  moreover have "(of_char c :: int) < 128" if "identifier_char c" for c
    using that unfolding identifier_char_def
    by (auto simp: ascii_alnum_def ascii_digit_def ascii_upper_def ascii_lowercase_def)
  ultimately show "ascii_text s"
    by (cases s) (auto simp: ascii_text_def list_all_iff identifier_char_def)
qed

lemma identifier_utf8: "identifierPattern s \<Longrightarrow> utf8 s"
  by (rule ascii_utf8 [OF identifier_ascii])

lemma dec_enc_scopes [json_simps]:
  assumes "scopes_wf s"
  shows "dec_scopes (Some (ScopeSet_MarshalJSON s)) = Inr s"
proof -
  have "map valid_text (scope_values s) = scope_values s"
    using assms by (intro map_idI identifier_utf8) (simp add: scopes_wf_def list_all_iff)
  with ParseScopes_String [OF assms] show ?thesis
    by (simp add: dec_scopes_def ScopeSet_UnmarshalJSON_def ScopeSet_MarshalJSON_def
        dec_enc_strings ScopeSet_String_def)
qed

lemma marshal_struct_Inr [json_simps]:
  "list_all json_time ts \<Longrightarrow> marshal_struct ts fs = Inr (JObject fs)"
  by (simp add: marshal_struct_def)

lemma marshal_struct_Inl: "marshal_struct ts fs = Inl err \<Longrightarrow> err = year_error"
  by (simp add: marshal_struct_def split: if_splits)

end
