(* ===== verification/Result_State.thy ===== *)
theory Result_State
  imports Errors
begin

text \<open>
  Calls that return a result and an error: a state transformer with a \<open>result\<close>, sequenced as the
  early returns of the code sequence it.
\<close>

text \<open>\<open>if err != nil { return err }\<close>.\<close>

definition unless_error ::
  "('s, 'b result) state \<Rightarrow> ('b \<Rightarrow> ('s, 'c result) state) \<Rightarrow> ('s, 'c result) state" where
  "unless_error m f = do {
     r \<leftarrow> m;
     (case r of Inl err \<Rightarrow> State_Monad.return (Inl err) | Inr x \<Rightarrow> f x)
   }"

definition give :: "'b result \<Rightarrow> ('s, 'b result) state" where
  "give r = State_Monad.return r"

text \<open>\<open>fmt.Errorf("...: %w", err)\<close>.\<close>

definition wrapping :: "string \<Rightarrow> ('s, 'b result) state \<Rightarrow> ('s, 'b result) state" where
  "wrapping msg m = do {
     r \<leftarrow> m;
     State_Monad.return (map_sum (WrapError msg) id r)
   }"

section \<open>Weakest preconditions\<close>

lemma wp_give [wp_simps]: "wp (give r) Q w = Q r w"
  by (simp add: give_def wp_simps)

lemma wp_unless_error:
  "wp (unless_error m f) Q c = wp m (\<lambda>r c'. case r of Inl err \<Rightarrow> Q (Inl err) c' | Inr x \<Rightarrow> wp (f x) Q c') c"
proof -
  have "(\<lambda>r c'. wp (case r of Inl err \<Rightarrow> State_Monad.return (Inl err) | Inr x \<Rightarrow> f x) Q c') =
      (\<lambda>r c'. case r of Inl err \<Rightarrow> Q (Inl err) c' | Inr x \<Rightarrow> wp (f x) Q c')"
    by (intro ext) (simp add: wp_simps split: sum.splits)
  then show ?thesis by (simp add: unless_error_def wp_bind)
qed

lemma wp_wrapping [wp_simps]:
  "wp (wrapping msg m) Q c = wp m (\<lambda>r. Q (map_sum (WrapError msg) id r)) c"
  by (simp add: wrapping_def wp_bind wp_simps)

section \<open>Runs that succeed\<close>

lemma run_give [simp]: "run_state (give r) w = (r, w)"
  by (simp add: give_def)

lemma run_unless_error_Inr:
  "run_state (unless_error m f) w = (Inr y, w') \<longleftrightarrow>
   (\<exists>x w1. run_state m w = (Inr x, w1) \<and> run_state (f x) w1 = (Inr y, w'))"
  by (auto simp: unless_error_def split: prod.splits sum.splits)

end
