(* ===== verification/Sql.thy ===== *)
theory Sql
  imports Json Store_Trace Result_State
begin

text \<open>
  The database under \<open>pkg/sqlitestore/store.go\<close>: its five tables, the one connection
  (\<open>SetMaxOpenConns(1)\<close>) with its open transaction, and the statements.  A table is a list of rows
  with their primary keys in row order; a column that may be NULL is an option.  Every statement
  and every commit may fail: the connection holds a script of faults, and a statement that draws
  one reports it and changes nothing.  What the driver reports for a violated UNIQUE constraint
  is a parameter, a field of the connection.
\<close>

section \<open>Tables\<close>

record ClientRow =
  row_payload :: json
  row_created :: string
  row_used :: "string option"

text \<open>A row of \<open>oauth_authorizations\<close>, \<open>oauth_consents\<close> or \<open>oauth_codes\<close>.\<close>

record StateRow =
  sr_payload :: json
  sr_consumed :: "string option"

record GrantRow =
  gr_family :: string
  gr_generation :: int
  gr_payload :: json
  gr_consumed :: "string option"
  gr_revoked :: "string option"

record DB =
  db_versions :: "int list"
  db_client_columns :: "string list"
  db_clients :: "(string, ClientRow) gomap"
  db_authorizations :: "(CredentialDigest, StateRow) gomap"
  db_consents :: "(CredentialDigest, StateRow) gomap"
  db_codes :: "(CredentialDigest, StateRow) gomap"
  db_grants :: "(CredentialDigest, GrantRow) gomap"

text \<open>The value at a path, NULL if there is none; comparisons with NULL do not hold.\<close>

fun json_extract :: "json \<Rightarrow> string list \<Rightarrow> json option" where
  "json_extract j [] = Some j"
| "json_extract j (name # path) =
     (case json_field j name of None \<Rightarrow> None | Some j' \<Rightarrow> json_extract j' path)"

definition extract_text :: "json \<Rightarrow> string list \<Rightarrow> string option" where
  "extract_text j path = (case json_extract j path of Some (JString s) \<Rightarrow> Some s | _ \<Rightarrow> None)"

definition sql_le :: "string option \<Rightarrow> string \<Rightarrow> bool" where
  "sql_le x y = (case x of None \<Rightarrow> False | Some s \<Rightarrow> s \<le> y)"

definition sql_gt :: "string option \<Rightarrow> string \<Rightarrow> bool" where
  "sql_gt x y = (case x of None \<Rightarrow> False | Some s \<Rightarrow> y < s)"

definition sql_eq :: "string option \<Rightarrow> string \<Rightarrow> bool" where
  "sql_eq x y \<longleftrightarrow> x = Some y"

text \<open>\<open>NOT IN\<close> of a list that holds a NULL never holds.\<close>

definition sql_not_in :: "string \<Rightarrow> string option list \<Rightarrow> bool" where
  "sql_not_in x ys \<longleftrightarrow> None \<notin> set ys \<and> Some x \<notin> set ys"

text \<open>\<open>MAX\<close> skips NULL.\<close>

fun sql_max :: "string option list \<Rightarrow> string option" where
  "sql_max [] = None"
| "sql_max (None # xs) = sql_max xs"
| "sql_max (Some s # xs) = (case sql_max xs of None \<Rightarrow> Some s | Some t \<Rightarrow> Some (max s t))"

section \<open>Errors of the driver\<close>

definition ContextCanceled :: go_error where
  "ContextCanceled = OtherError ''context canceled''"

definition contains :: "string \<Rightarrow> string \<Rightarrow> bool" where
  "contains value part =
     list_ex (\<lambda>i. take (length part) (drop i value) = part)
       [0..<Suc (length value) - length part]"

definition isConstraint :: "go_error option \<Rightarrow> bool" where
  "isConstraint err =
     (case err of
        None \<Rightarrow> False
      | Some e \<Rightarrow> \<not> errors_Is e ContextCanceled \<and>
          (contains (error_text e) ''UNIQUE constraint'' \<or>
           contains (error_text e) ''constraint failed''))"

section \<open>The connection\<close>

record Conn =
  cn_db :: DB
  cn_tx :: "DB option"
  cn_faults :: "go_error option list"
  cn_violation :: "string \<Rightarrow> go_error"

definition next_fault :: "(Conn, go_error option) state" where
  "next_fault = State (\<lambda>c. (case cn_faults c of
     [] \<Rightarrow> (None, c) | fault # faults \<Rightarrow> (fault, c\<lparr>cn_faults := faults\<rparr>)))"

text \<open>The tables that a statement sees: those of the open transaction, if any.\<close>

definition cn_current :: "Conn \<Rightarrow> DB" where
  "cn_current c = (case cn_tx c of None \<Rightarrow> cn_db c | Some db \<Rightarrow> db)"

definition set_current :: "DB \<Rightarrow> Conn \<Rightarrow> Conn" where
  "set_current db c =
     (case cn_tx c of None \<Rightarrow> c\<lparr>cn_db := db\<rparr> | Some _ \<Rightarrow> c\<lparr>cn_tx := Some db\<rparr>)"

definition statement ::
  "((string \<Rightarrow> go_error) \<Rightarrow> DB \<Rightarrow> 'r result \<times> DB) \<Rightarrow> (Conn, 'r result) state" where
  "statement f = do {
     fault \<leftarrow> next_fault;
     (case fault of
        Some err \<Rightarrow> State_Monad.return (Inl err)
      | None \<Rightarrow> State (\<lambda>c. (case f (cn_violation c) (cn_current c) of
          (r, db) \<Rightarrow> (r, set_current db c))))
   }"

definition query :: "(DB \<Rightarrow> 'r) \<Rightarrow> (Conn, 'r result) state" where
  "query f = statement (\<lambda>_ db. (Inr (f db), db))"

definition exec :: "(DB \<Rightarrow> DB) \<Rightarrow> (Conn, unit result) state" where
  "exec f = statement (\<lambda>_ db. (Inr (), f db))"

definition exec_count :: "(DB \<Rightarrow> int \<times> DB) \<Rightarrow> (Conn, int result) state" where
  "exec_count f = statement (\<lambda>_ db. (case f db of (n, db') \<Rightarrow> (Inr n, db')))"

text \<open>\<open>INSERT\<close> of a row into a table with its primary key.\<close>

definition insert_row ::
  "string \<Rightarrow> (DB \<Rightarrow> ('k, 'v) gomap) \<Rightarrow> (('k, 'v) gomap \<Rightarrow> DB \<Rightarrow> DB) \<Rightarrow> 'k \<Rightarrow> 'v \<Rightarrow>
   (Conn, unit result) state" where
  "insert_row column table set_table key row = statement (\<lambda>violation db.
     (if gm_get (table db) key \<noteq> None then (Inl (violation column), db)
      else (Inr (), set_table (table db @ [(key, row)]) db)))"

text \<open>\<open>UPDATE ... WHERE\<close>.\<close>

definition update_rows :: "('k \<Rightarrow> 'v \<Rightarrow> bool) \<Rightarrow> ('v \<Rightarrow> 'v) \<Rightarrow> ('k, 'v) gomap \<Rightarrow> ('k, 'v) gomap" where
  "update_rows P f table = map (\<lambda>(k, row). (k, if P k row then f row else row)) table"

definition BeginTx :: "(Conn, unit result) state" where
  "BeginTx = do {
     fault \<leftarrow> next_fault;
     (case fault of
        Some err \<Rightarrow> State_Monad.return (Inl err)
      | None \<Rightarrow> State (\<lambda>c. (Inr (), c\<lparr>cn_tx := Some (cn_db c)\<rparr>)))
   }"

text \<open>A commit that fails leaves the transaction rolled back.\<close>

definition Commit :: "(Conn, unit result) state" where
  "Commit = do {
     fault \<leftarrow> next_fault;
     (case fault of
        Some err \<Rightarrow> State (\<lambda>c. (Inl err, c\<lparr>cn_tx := None\<rparr>))
      | None \<Rightarrow> State (\<lambda>c. (Inr (), c\<lparr>cn_db := cn_current c, cn_tx := None\<rparr>)))
   }"

definition rollback :: "(Conn, unit) state" where
  "rollback = State (\<lambda>c. ((), c\<lparr>cn_tx := None\<rparr>))"

text \<open>\<open>BeginTx\<close>, \<open>defer rollback(tx)\<close> and the rest of the method.\<close>

definition in_tx :: "(Conn, 'b result) state \<Rightarrow> (Conn, 'b result) state" where
  "in_tx body = unless_error BeginTx (\<lambda>_. do {
     r \<leftarrow> body;
     _ \<leftarrow> rollback;
     State_Monad.return r
   })"

text \<open>An \<open>INSERT\<close> whose constraint violation is a conflict.\<close>

definition insert_or_conflict ::
  "(Conn, unit result) state \<Rightarrow> (Conn, 'b result) state \<Rightarrow> (Conn, 'b result) state" where
  "insert_or_conflict m next = do {
     r \<leftarrow> m;
     (case r of
        Inl err \<Rightarrow>
          (if isConstraint (Some err) then State_Monad.return (Inl ErrConflict)
           else State_Monad.return (Inl err))
      | Inr _ \<Rightarrow> next)
   }"

end
