(* ===== verification/Sqlite_Rows.thy ===== *)
theory Sqlite_Rows
  imports Sql
begin

text \<open>
  The rows of \<open>pkg/sqlitestore/store.go\<close>: the records of model.go as JSON payloads (tokens and
  principals carry the tag \<open>json:"-"\<close>), the envelopes that add the principal in the encoding of the
  \<open>PrincipalCodec\<close>, a parameter, and the columns that override what the payload says.
  \<open>codec_Zero\<close> is the zero value of the application's attribute type, which a principal has until
  it is decoded.
\<close>

record 'a PrincipalCodec =
  codec_Encode :: "'a Principal \<Rightarrow> string result"
  codec_Decode :: "string \<Rightarrow> 'a Principal result"
  codec_Zero :: 'a

text \<open>The default codec is \<open>encoding/json\<close> on the application's type.\<close>

definition JSONPrincipalCodec ::
  "('a Principal \<Rightarrow> string result) \<Rightarrow> (string \<Rightarrow> 'a Principal result) \<Rightarrow> 'a \<Rightarrow> 'a PrincipalCodec" where
  "JSONPrincipalCodec marshal unmarshal z =
     \<lparr>codec_Encode = marshal, codec_Decode = unmarshal, codec_Zero = z\<rparr>"

definition encodePrincipal :: "'a PrincipalCodec \<Rightarrow> 'a Principal \<Rightarrow> string result" where
  "encodePrincipal codec p = codec_Encode codec p"

definition digestBytes :: "string \<Rightarrow> CredentialDigest" where
  "digestBytes token = DigestCredential token"

section \<open>Clients\<close>

definition marshal_Client :: "Client \<Rightarrow> json result" where
  "marshal_Client c = marshal_struct [cl_CreatedAt c, cl_LastUsedAt c]
     [(''ID'', enc_string (cl_ID c)), (''DisplayName'', enc_string (cl_DisplayName c)),
      (''Trust'', enc_string (cl_Trust c)), (''RedirectURIs'', enc_strings (cl_RedirectURIs c)),
      (''AllowedScopes'', ScopeSet_MarshalJSON (cl_AllowedScopes c)),
      (''CreatedAt'', enc_time (cl_CreatedAt c)), (''LastUsedAt'', enc_time (cl_LastUsedAt c))]"

definition unmarshal_Client :: "json \<Rightarrow> Client result" where
  "unmarshal_Client payload =
     result_then (dec_object (Some payload)) (\<lambda>j.
     result_then (dec_string (json_field j ''ID'')) (\<lambda>cid.
     result_then (dec_string (json_field j ''DisplayName'')) (\<lambda>name.
     result_then (dec_string (json_field j ''Trust'')) (\<lambda>trust.
     result_then (dec_strings (json_field j ''RedirectURIs'')) (\<lambda>redirects.
     result_then (dec_scopes (json_field j ''AllowedScopes'')) (\<lambda>scopes.
     result_then (dec_time (json_field j ''CreatedAt'')) (\<lambda>created.
     result_then (dec_time (json_field j ''LastUsedAt'')) (\<lambda>used.
     Inr \<lparr>cl_ID = cid, cl_DisplayName = name, cl_Trust = trust, cl_RedirectURIs = redirects,
       cl_AllowedScopes = scopes, cl_CreatedAt = created, cl_LastUsedAt = used\<rparr>))))))))"

section \<open>Authorization transactions\<close>

definition marshal_AuthorizationTransaction :: "AuthorizationTransaction \<Rightarrow> json result" where
  "marshal_AuthorizationTransaction a = marshal_struct [at_ExpiresAt a, at_ConsumedAt a]
     [(''ClientID'', enc_string (at_ClientID a)), (''RedirectURI'', enc_string (at_RedirectURI a)),
      (''State'', enc_string (at_State a)),
      (''PKCEChallenge'', enc_PKCEChallenge (at_PKCEChallenge a)),
      (''RequestedScopes'', ScopeSet_MarshalJSON (at_RequestedScopes a)),
      (''Resource'', enc_string (at_Resource a)), (''ExpiresAt'', enc_time (at_ExpiresAt a)),
      (''ConsumedAt'', enc_time (at_ConsumedAt a))]"

definition unmarshal_AuthorizationTransaction :: "json \<Rightarrow> AuthorizationTransaction result" where
  "unmarshal_AuthorizationTransaction payload =
     result_then (dec_object (Some payload)) (\<lambda>j.
     result_then (dec_string (json_field j ''ClientID'')) (\<lambda>client.
     result_then (dec_string (json_field j ''RedirectURI'')) (\<lambda>redirect.
     result_then (dec_string (json_field j ''State'')) (\<lambda>state.
     result_then (dec_PKCEChallenge (json_field j ''PKCEChallenge'')) (\<lambda>challenge.
     result_then (dec_scopes (json_field j ''RequestedScopes'')) (\<lambda>scopes.
     result_then (dec_string (json_field j ''Resource'')) (\<lambda>resource.
     result_then (dec_time (json_field j ''ExpiresAt'')) (\<lambda>expires.
     result_then (dec_time (json_field j ''ConsumedAt'')) (\<lambda>consumed.
     Inr \<lparr>at_Token = [], at_ClientID = client, at_RedirectURI = redirect, at_State = state,
       at_PKCEChallenge = challenge, at_RequestedScopes = scopes, at_Resource = resource,
       at_ExpiresAt = expires, at_ConsumedAt = consumed\<rparr>)))))))))"

section \<open>Consent sessions\<close>

definition enc_ConsentClientSnapshot :: "ConsentClientSnapshot \<Rightarrow> json" where
  "enc_ConsentClientSnapshot c = JObject
     [(''ID'', enc_string (snap_ID c)), (''DisplayName'', enc_string (snap_DisplayName c)),
      (''Trust'', enc_string (snap_Trust c)), (''RedirectURI'', enc_string (snap_RedirectURI c)),
      (''RedirectOrigin'', enc_string (snap_RedirectOrigin c))]"

definition dec_ConsentClientSnapshot :: "json option \<Rightarrow> ConsentClientSnapshot result" where
  "dec_ConsentClientSnapshot field =
     result_then (dec_object field) (\<lambda>j.
     result_then (dec_string (json_field j ''ID'')) (\<lambda>cid.
     result_then (dec_string (json_field j ''DisplayName'')) (\<lambda>name.
     result_then (dec_string (json_field j ''Trust'')) (\<lambda>trust.
     result_then (dec_string (json_field j ''RedirectURI'')) (\<lambda>redirect.
     result_then (dec_string (json_field j ''RedirectOrigin'')) (\<lambda>origin.
     Inr \<lparr>snap_ID = cid, snap_DisplayName = name, snap_Trust = trust,
       snap_RedirectURI = redirect, snap_RedirectOrigin = origin\<rparr>))))))"

definition marshal_ConsentSession :: "'a ConsentSession \<Rightarrow> json result" where
  "marshal_ConsentSession c =
     marshal_struct [cs_AuthorizationEnds c, cs_ExpiresAt c, cs_ConsumedAt c]
     [(''Client'', enc_ConsentClientSnapshot (cs_Client c)), (''State'', enc_string (cs_State c)),
      (''PKCEChallenge'', enc_PKCEChallenge (cs_PKCEChallenge c)),
      (''AllowedScopes'', ScopeSet_MarshalJSON (cs_AllowedScopes c)),
      (''Resource'', enc_string (cs_Resource c)),
      (''AuthorizationEnds'', enc_time (cs_AuthorizationEnds c)),
      (''ExpiresAt'', enc_time (cs_ExpiresAt c)), (''ConsumedAt'', enc_time (cs_ConsumedAt c))]"

definition unmarshal_ConsentSession :: "'a \<Rightarrow> json option \<Rightarrow> 'a ConsentSession result" where
  "unmarshal_ConsentSession z field =
     result_then (dec_object field) (\<lambda>j.
     result_then (dec_ConsentClientSnapshot (json_field j ''Client'')) (\<lambda>client.
     result_then (dec_string (json_field j ''State'')) (\<lambda>state.
     result_then (dec_PKCEChallenge (json_field j ''PKCEChallenge'')) (\<lambda>challenge.
     result_then (dec_scopes (json_field j ''AllowedScopes'')) (\<lambda>scopes.
     result_then (dec_string (json_field j ''Resource'')) (\<lambda>resource.
     result_then (dec_time (json_field j ''AuthorizationEnds'')) (\<lambda>ends.
     result_then (dec_time (json_field j ''ExpiresAt'')) (\<lambda>expires.
     result_then (dec_time (json_field j ''ConsumedAt'')) (\<lambda>consumed.
     Inr \<lparr>cs_Token = [], cs_Client = client, cs_State = state, cs_PKCEChallenge = challenge,
       cs_Principal = zero_Principal z, cs_AllowedScopes = scopes, cs_Resource = resource,
       cs_AuthorizationEnds = ends, cs_ExpiresAt = expires, cs_ConsumedAt = consumed\<rparr>)))))))))"

definition marshal_consentEnvelope :: "'a ConsentSession \<Rightarrow> string \<Rightarrow> json result" where
  "marshal_consentEnvelope session p =
     result_then (marshal_ConsentSession session) (\<lambda>j.
     Inr (JObject [(''session'', j), (''principal'', JBytes p)]))"

section \<open>Codes\<close>

definition marshal_AuthorizationCodeRecord :: "'a AuthorizationCodeRecord \<Rightarrow> json result" where
  "marshal_AuthorizationCodeRecord c =
     marshal_struct [ac_AuthorizationEnds c, ac_ExpiresAt c, ac_ConsumedAt c]
     [(''Digest'', enc_digest (ac_Digest c)), (''ClientID'', enc_string (ac_ClientID c)),
      (''RedirectURI'', enc_string (ac_RedirectURI c)),
      (''PKCEChallenge'', enc_PKCEChallenge (ac_PKCEChallenge c)),
      (''Scopes'', ScopeSet_MarshalJSON (ac_Scopes c)), (''Resource'', enc_string (ac_Resource c)),
      (''State'', enc_string (ac_State c)),
      (''AuthorizationEnds'', enc_time (ac_AuthorizationEnds c)),
      (''ExpiresAt'', enc_time (ac_ExpiresAt c)), (''ConsumedAt'', enc_time (ac_ConsumedAt c))]"

definition unmarshal_AuthorizationCodeRecord ::
  "'a \<Rightarrow> json option \<Rightarrow> 'a AuthorizationCodeRecord result" where
  "unmarshal_AuthorizationCodeRecord z field =
     result_then (dec_object field) (\<lambda>j.
     result_then (dec_digest (json_field j ''Digest'')) (\<lambda>digest.
     result_then (dec_string (json_field j ''ClientID'')) (\<lambda>client.
     result_then (dec_string (json_field j ''RedirectURI'')) (\<lambda>redirect.
     result_then (dec_PKCEChallenge (json_field j ''PKCEChallenge'')) (\<lambda>challenge.
     result_then (dec_scopes (json_field j ''Scopes'')) (\<lambda>scopes.
     result_then (dec_string (json_field j ''Resource'')) (\<lambda>resource.
     result_then (dec_string (json_field j ''State'')) (\<lambda>state.
     result_then (dec_time (json_field j ''AuthorizationEnds'')) (\<lambda>ends.
     result_then (dec_time (json_field j ''ExpiresAt'')) (\<lambda>expires.
     result_then (dec_time (json_field j ''ConsumedAt'')) (\<lambda>consumed.
     Inr \<lparr>ac_Digest = digest, ac_ClientID = client, ac_RedirectURI = redirect,
       ac_PKCEChallenge = challenge, ac_Principal = zero_Principal z, ac_Scopes = scopes, ac_Resource = resource,
       ac_State = state, ac_AuthorizationEnds = ends, ac_ExpiresAt = expires,
       ac_ConsumedAt = consumed\<rparr>)))))))))))"

definition marshal_codeEnvelope :: "'a AuthorizationCodeRecord \<Rightarrow> string \<Rightarrow> json result" where
  "marshal_codeEnvelope code p =
     result_then (marshal_AuthorizationCodeRecord code) (\<lambda>j.
     Inr (JObject [(''record'', j), (''principal'', JBytes p)]))"

section \<open>Refresh grants\<close>

definition marshal_RefreshGrant :: "'a RefreshGrant \<Rightarrow> json result" where
  "marshal_RefreshGrant g = marshal_struct [rg_ExpiresAt g, rg_ConsumedAt g, rg_RevokedAt g]
     [(''Digest'', enc_digest (rg_Digest g)), (''FamilyID'', enc_string (rg_FamilyID g)),
      (''Generation'', JNumber (uint (rg_Generation g))),
      (''ClientID'', enc_string (rg_ClientID g)), (''Scopes'', ScopeSet_MarshalJSON (rg_Scopes g)),
      (''Resource'', enc_string (rg_Resource g)), (''ExpiresAt'', enc_time (rg_ExpiresAt g)),
      (''ConsumedAt'', enc_time (rg_ConsumedAt g)), (''RevokedAt'', enc_time (rg_RevokedAt g))]"

definition unmarshal_RefreshGrant :: "'a \<Rightarrow> json option \<Rightarrow> 'a RefreshGrant result" where
  "unmarshal_RefreshGrant z field =
     result_then (dec_object field) (\<lambda>j.
     result_then (dec_digest (json_field j ''Digest'')) (\<lambda>digest.
     result_then (dec_string (json_field j ''FamilyID'')) (\<lambda>family.
     result_then (dec_uint64 (json_field j ''Generation'')) (\<lambda>generation.
     result_then (dec_string (json_field j ''ClientID'')) (\<lambda>client.
     result_then (dec_scopes (json_field j ''Scopes'')) (\<lambda>scopes.
     result_then (dec_string (json_field j ''Resource'')) (\<lambda>resource.
     result_then (dec_time (json_field j ''ExpiresAt'')) (\<lambda>expires.
     result_then (dec_time (json_field j ''ConsumedAt'')) (\<lambda>consumed.
     result_then (dec_time (json_field j ''RevokedAt'')) (\<lambda>revoked.
     Inr \<lparr>rg_Digest = digest, rg_FamilyID = family, rg_Generation = generation,
       rg_ClientID = client, rg_Principal = zero_Principal z, rg_Scopes = scopes, rg_Resource = resource,
       rg_ExpiresAt = expires, rg_ConsumedAt = consumed, rg_RevokedAt = revoked\<rparr>))))))))))"

definition marshal_refreshEnvelope :: "'a RefreshGrant \<Rightarrow> string \<Rightarrow> json result" where
  "marshal_refreshEnvelope grant p =
     result_then (marshal_RefreshGrant grant) (\<lambda>j.
     Inr (JObject [(''grant'', j), (''principal'', JBytes p)]))"

section \<open>Reading rows\<close>

text \<open>A timestamp column; the error of \<open>time.Parse\<close> is dropped, which leaves the zero time.\<close>

definition parse_column :: "string \<Rightarrow> time" where
  "parse_column s = (case time_Parse s of None \<Rightarrow> 0 | Some t \<Rightarrow> t)"

definition column_or :: "string option \<Rightarrow> time \<Rightarrow> time" where
  "column_or col t = (case col of None \<Rightarrow> t | Some s \<Rightarrow> parse_column s)"

definition read_authorization :: "StateRow \<Rightarrow> AuthorizationTransaction result" where
  "read_authorization row =
     result_then (unmarshal_AuthorizationTransaction (sr_payload row)) (\<lambda>a.
     Inr (a\<lparr>at_ConsumedAt := column_or (sr_consumed row) (at_ConsumedAt a)\<rparr>))"

text \<open>\<open>json.Unmarshal\<close> of an envelope: the record and the encoded principal.\<close>

definition unmarshal_envelope ::
  "string \<Rightarrow> (json option \<Rightarrow> 'r result) \<Rightarrow> json \<Rightarrow> ('r \<times> string) result" where
  "unmarshal_envelope name unmarshal payload =
     result_then (dec_object (Some payload)) (\<lambda>j.
     result_then (unmarshal (json_field j name)) (\<lambda>r.
     result_then (dec_bytes (json_field j ''principal'')) (\<lambda>bs.
     Inr (r, bs))))"

definition read_consent :: "'a PrincipalCodec \<Rightarrow> StateRow \<Rightarrow> 'a ConsentSession result" where
  "read_consent codec row =
     result_then (unmarshal_envelope ''session'' (unmarshal_ConsentSession (codec_Zero codec))
       (sr_payload row)) (\<lambda>(c, bs).
     result_then (codec_Decode codec bs) (\<lambda>p.
     Inr (c\<lparr>cs_Principal := p, cs_ConsumedAt := column_or (sr_consumed row) (cs_ConsumedAt c)\<rparr>)))"

definition unmarshal_codeEnvelope ::
  "'a PrincipalCodec \<Rightarrow> json \<Rightarrow> ('a AuthorizationCodeRecord \<times> string) result" where
  "unmarshal_codeEnvelope codec =
     unmarshal_envelope ''record'' (unmarshal_AuthorizationCodeRecord (codec_Zero codec))"

definition decode_code ::
  "'a PrincipalCodec \<Rightarrow> string option \<Rightarrow> 'a AuthorizationCodeRecord \<times> string \<Rightarrow>
   'a AuthorizationCodeRecord result" where
  "decode_code codec consumed = (\<lambda>(c, bs).
     result_then (codec_Decode codec bs) (\<lambda>p.
     Inr (c\<lparr>ac_Principal := p, ac_ConsumedAt := column_or consumed (ac_ConsumedAt c)\<rparr>)))"

definition unmarshal_refreshEnvelope ::
  "'a PrincipalCodec \<Rightarrow> json \<Rightarrow> ('a RefreshGrant \<times> string) result" where
  "unmarshal_refreshEnvelope codec =
     unmarshal_envelope ''grant'' (unmarshal_RefreshGrant (codec_Zero codec))"

text \<open>\<open>decodeRefresh\<close>, without the columns.\<close>

definition decodeRefresh ::
  "'a PrincipalCodec \<Rightarrow> 'a RefreshGrant \<times> string \<Rightarrow> 'a RefreshGrant result" where
  "decodeRefresh codec = (\<lambda>(g, bs).
     result_then (codec_Decode codec bs) (\<lambda>p. Inr (g\<lparr>rg_Principal := p\<rparr>)))"

end
