(* ===== verification/Sqlite_Store.thy ===== *)
theory Sqlite_Store
  imports Sqlite_Rows
begin

text \<open>
  The methods of the SQLite store, each as its sequence of statements.  \<open>now\<close> is the reading of the
  store's clock in the method.  A refused \<open>uint64\<close> argument is \<open>database/sql\<close>'s.
\<close>

section \<open>Pruning\<close>

definition delete_expired ::
  "string list \<Rightarrow> string \<Rightarrow> (CredentialDigest, StateRow) gomap \<Rightarrow> (CredentialDigest, StateRow) gomap" where
  "delete_expired path cutoff =
     gm_delete_if (\<lambda>_ row. sql_le (extract_text (sr_payload row) path) cutoff)"

definition family_max :: "(CredentialDigest, GrantRow) gomap \<Rightarrow> string \<Rightarrow> string option" where
  "family_max grants family =
     sql_max (map (\<lambda>(_, row). extract_text (gr_payload row) [''grant'', ''ExpiresAt''])
       (filter (\<lambda>(_, row). gr_family row = family) grants))"

definition delete_families ::
  "string \<Rightarrow> (CredentialDigest, GrantRow) gomap \<Rightarrow> (CredentialDigest, GrantRow) gomap" where
  "delete_families cutoff grants =
     gm_delete_if (\<lambda>_ row. sql_le (family_max grants (gr_family row)) cutoff) grants"

text \<open>\<open>RowsAffected\<close> of a DELETE.\<close>

definition removed :: "('k, 'v) gomap \<Rightarrow> ('k, 'v) gomap \<Rightarrow> int" where
  "removed before_rows after_rows = int (length before_rows) - int (length after_rows)"

definition pruneTx :: "time \<Rightarrow> (Conn, PruneStats result) state" where
  "pruneTx now =
     (let cutoff = rfc3339 now
      in unless_error (exec_count (\<lambda>db.
           (let rows = delete_expired [''ExpiresAt''] cutoff (db_authorizations db)
            in (removed (db_authorizations db) rows, db\<lparr>db_authorizations := rows\<rparr>)))) (\<lambda>authorizations.
         unless_error (exec_count (\<lambda>db.
           (let rows = delete_expired [''session'', ''ExpiresAt''] cutoff (db_consents db)
            in (removed (db_consents db) rows, db\<lparr>db_consents := rows\<rparr>)))) (\<lambda>consents.
         unless_error (exec_count (\<lambda>db.
           (let rows = delete_expired [''record'', ''ExpiresAt''] cutoff (db_codes db)
            in (removed (db_codes db) rows, db\<lparr>db_codes := rows\<rparr>)))) (\<lambda>codes.
         unless_error (exec_count (\<lambda>db.
           (let rows = delete_families cutoff (db_grants db)
            in (removed (db_grants db) rows, db\<lparr>db_grants := rows\<rparr>)))) (\<lambda>grants.
         give (Inr \<lparr>ps_Clients = 0, ps_Authorizations = authorizations, ps_Consents = consents,
           ps_Codes = codes, ps_RefreshGrants = grants\<rparr>))))))"

definition Sql_Prune :: "time \<Rightarrow> (Conn, PruneStats result) state" where
  "Sql_Prune now = in_tx (
     unless_error (pruneTx now) (\<lambda>stats.
     unless_error Commit (\<lambda>_.
     give (Inr stats))))"

text \<open>The clients that the four subqueries of \<open>pruneClientsTx\<close> keep.\<close>

definition live_owners ::
  "string list \<Rightarrow> string list \<Rightarrow> string \<Rightarrow> (CredentialDigest, StateRow) gomap \<Rightarrow> string option list" where
  "live_owners owner expiry now_text table =
     map (\<lambda>(_, row). extract_text (sr_payload row) owner)
       (filter (\<lambda>(_, row). sr_consumed row = None \<and>
          sql_gt (extract_text (sr_payload row) expiry) now_text) table)"

definition live_grant_owners :: "string \<Rightarrow> (CredentialDigest, GrantRow) gomap \<Rightarrow> string option list" where
  "live_grant_owners now_text grants =
     map (\<lambda>(_, row). extract_text (gr_payload row) [''grant'', ''ClientID''])
       (filter (\<lambda>(_, row). gr_revoked row = None \<and>
          sql_gt (extract_text (gr_payload row) [''grant'', ''ExpiresAt'']) now_text) grants)"

definition live_clients :: "string \<Rightarrow> DB \<Rightarrow> string option list" where
  "live_clients now_text db =
     live_owners [''ClientID''] [''ExpiresAt''] now_text (db_authorizations db) @
     live_owners [''session'', ''Client'', ''ID''] [''session'', ''ExpiresAt''] now_text (db_consents db) @
     live_owners [''record'', ''ClientID''] [''record'', ''ExpiresAt''] now_text (db_codes db) @
     live_grant_owners now_text (db_grants db)"

definition pruneClientsTx :: "RegistrationPolicy \<Rightarrow> time \<Rightarrow> (Conn, int result) state" where
  "pruneClientsTx policy now =
     (let cutoff = rfc3339 (time_Add now (- rp_UnverifiedClientTTL policy))
      in exec_count (\<lambda>db.
           (let rows = gm_delete_if (\<lambda>cid row. sql_le (row_used row) cutoff \<and>
                  sql_eq (extract_text (row_payload row) [''Trust'']) ClientTrustUnverified \<and>
                  sql_not_in cid (live_clients (rfc3339 now) db)) (db_clients db)
            in (removed (db_clients db) rows, db\<lparr>db_clients := rows\<rparr>))))"

section \<open>Clients\<close>

definition count_rows :: "(DB \<Rightarrow> ('k, 'v) gomap) \<Rightarrow> (Conn, int result) state" where
  "count_rows table = query (\<lambda>db. int (length (table db)))"

definition Sql_RegisterClient :: "time \<Rightarrow> Client \<Rightarrow> StatePolicy \<Rightarrow> (Conn, unit result) state" where
  "Sql_RegisterClient now client policy = in_tx (
     unless_error (pruneTx now) (\<lambda>_.
     unless_error (pruneClientsTx (sp_Registration policy) now) (\<lambda>_.
     unless_error (count_rows db_clients) (\<lambda>count.
     if count \<ge> rp_MaxClients (sp_Registration policy) then give (Inl ErrCapacity)
     else
     unless_error (give (marshal_Client client)) (\<lambda>payload.
     insert_or_conflict (insert_row ''oauth_clients.id'' db_clients (\<lambda>t. db_clients_update (\<lambda>_. t))
       (cl_ID client) \<lparr>row_payload = payload, row_created = rfc3339 (cl_CreatedAt client),
         row_used = Some (rfc3339 (cl_LastUsedAt client))\<rparr>)
     Commit)))))"

definition Sql_GetClient :: "ClientID \<Rightarrow> (Conn, Client result) state" where
  "Sql_GetClient cid =
     unless_error (query (\<lambda>db. gm_get (db_clients db) cid)) (\<lambda>found.
     (case found of
        None \<Rightarrow> give (Inl ErrNotFound)
      | Some row \<Rightarrow>
          (case row_used row of
             None \<Rightarrow> give (Inl (OtherError ''sql: converting NULL to string is unsupported''))
           | Some used \<Rightarrow>
               (case unmarshal_Client (row_payload row) of
                  Inl err \<Rightarrow> give (Inl (WrapError ''decode client'' err))
                | Inr client \<Rightarrow>
                    (case time_Parse used of
                       None \<Rightarrow> give (Inl (WrapError ''decode client activity''
                         (OtherError ''parsing time'')))
                     | Some t \<Rightarrow> give (Inr (client\<lparr>cl_LastUsedAt := t\<rparr>)))))))"

definition Sql_TouchClient :: "ClientID \<Rightarrow> time \<Rightarrow> (Conn, unit result) state" where
  "Sql_TouchClient cid at =
     unless_error (exec_count (\<lambda>db.
       (int (length (filter (\<lambda>(k, _). k = cid) (db_clients db))),
        db\<lparr>db_clients := update_rows (\<lambda>k _. k = cid) (\<lambda>row. row\<lparr>row_used := Some (rfc3339 at)\<rparr>)
          (db_clients db)\<rparr>))) (\<lambda>n.
     if n = 0 then give (Inl ErrNotFound) else give (Inr ()))"

section \<open>Authorization, login and consent\<close>

text \<open>\<open>UPDATE ... SET consumed_at=? WHERE digest=? AND consumed_at IS NULL\<close>.\<close>

definition consume_row ::
  "CredentialDigest \<Rightarrow> string \<Rightarrow> (CredentialDigest, StateRow) gomap \<Rightarrow> (CredentialDigest, StateRow) gomap" where
  "consume_row digest now_text =
     update_rows (\<lambda>k row. k = digest \<and> sr_consumed row = None)
       (\<lambda>row. row\<lparr>sr_consumed := Some now_text\<rparr>)"

definition select_row ::
  "(DB \<Rightarrow> (CredentialDigest, 'v) gomap) \<Rightarrow> CredentialDigest \<Rightarrow> (Conn, 'v result) state" where
  "select_row table digest =
     unless_error (query (\<lambda>db. gm_get (table db) digest)) (\<lambda>found.
     give (case found of None \<Rightarrow> Inl ErrNotFound | Some row \<Rightarrow> Inr row))"

definition new_row :: "json \<Rightarrow> StateRow" where
  "new_row payload = \<lparr>sr_payload = payload, sr_consumed = None\<rparr>"

definition Sql_CreateAuthorization ::
  "time \<Rightarrow> AuthorizationTransaction \<Rightarrow> StatePolicy \<Rightarrow> (Conn, unit result) state" where
  "Sql_CreateAuthorization now state policy = in_tx (
     unless_error (pruneTx now) (\<lambda>_.
     unless_error (count_rows db_authorizations) (\<lambda>count.
     if count \<ge> cap_MaxAuthorizations (sp_Capacity policy) then give (Inl ErrCapacity)
     else
     unless_error (give (marshal_AuthorizationTransaction state)) (\<lambda>payload.
     insert_or_conflict (insert_row ''oauth_authorizations.digest'' db_authorizations
       (\<lambda>t. db_authorizations_update (\<lambda>_. t)) (digestBytes (at_Token state)) (new_row payload))
     Commit))))"

definition Sql_GetAuthorization ::
  "CredentialDigest \<Rightarrow> (Conn, AuthorizationTransaction result) state" where
  "Sql_GetAuthorization digest =
     unless_error (select_row db_authorizations digest) (\<lambda>row. give (read_authorization row))"

definition Sql_CommitLogin ::
  "'a PrincipalCodec \<Rightarrow> time \<Rightarrow> 'a LoginCommit \<Rightarrow> StatePolicy \<Rightarrow> (Conn, unit result) state" where
  "Sql_CommitLogin codec now commit policy = in_tx (
     unless_error (pruneTx now) (\<lambda>_.
     unless_error (select_row db_authorizations (lco_TransactionDigest commit)) (\<lambda>row.
     unless_error (give (read_authorization row)) (\<lambda>authorization.
     (case ValidateLoginCommit authorization (lco_Consent commit) now of
        Some err \<Rightarrow> give (Inl err)
      | None \<Rightarrow>
     unless_error (count_rows db_consents) (\<lambda>count.
     if count \<ge> cap_MaxConsents (sp_Capacity policy) then give (Inl ErrCapacity)
     else
     unless_error (give (encodePrincipal codec (cs_Principal (lco_Consent commit)))) (\<lambda>p.
     unless_error (give (marshal_consentEnvelope (lco_Consent commit) p)) (\<lambda>payload.
     insert_or_conflict (insert_row ''oauth_consents.digest'' db_consents
       (\<lambda>t. db_consents_update (\<lambda>_. t)) (digestBytes (cs_Token (lco_Consent commit)))
       (new_row payload))
     (unless_error (exec (db_authorizations_update
       (consume_row (lco_TransactionDigest commit) (rfc3339 now)))) (\<lambda>_.
     Commit))))))))))"

definition Sql_GetConsent ::
  "'a PrincipalCodec \<Rightarrow> CredentialDigest \<Rightarrow> (Conn, 'a ConsentSession result) state" where
  "Sql_GetConsent codec digest =
     unless_error (select_row db_consents digest) (\<lambda>row. give (read_consent codec row))"

definition Sql_CommitConsent ::
  "'a PrincipalCodec \<Rightarrow> time \<Rightarrow> 'a ConsentCommit \<Rightarrow> StatePolicy \<Rightarrow>
   (Conn, ConsentCommitResult result) state" where
  "Sql_CommitConsent codec now commit policy = in_tx (
     unless_error (pruneTx now) (\<lambda>_.
     unless_error (select_row db_consents (cco_ConsentDigest commit)) (\<lambda>row.
     unless_error (give (read_consent codec row)) (\<lambda>session.
     (case ValidateConsentCommit session commit now of
        Some err \<Rightarrow> give (Inl err)
      | None \<Rightarrow>
     (let finish =
        unless_error (exec (db_consents_update
          (consume_row (cco_ConsentDigest commit) (rfc3339 now)))) (\<lambda>_.
        unless_error Commit (\<lambda>_. give (Inr \<lparr>ccr_RedirectURI = []\<rparr>)))
      in if cco_Decision commit = ConsentDecisionApprove then
     unless_error (count_rows db_codes) (\<lambda>count.
     if count \<ge> cap_MaxCodes (sp_Capacity policy) then give (Inl ErrCapacity)
     else
     unless_error (give (encodePrincipal codec (ac_Principal (cco_Code commit)))) (\<lambda>p.
     unless_error (give (marshal_codeEnvelope (cco_Code commit) p)) (\<lambda>payload.
     insert_or_conflict (insert_row ''oauth_codes.digest'' db_codes
       (\<lambda>t. db_codes_update (\<lambda>_. t)) (ac_Digest (cco_Code commit)) (new_row payload))
     finish)))
      else finish))))))"

section \<open>Codes\<close>

definition Sql_GetCodeForExchange ::
  "'a PrincipalCodec \<Rightarrow> CodeExchangeBinding \<Rightarrow> (Conn, 'a AuthorizationCodeRecord result) state" where
  "Sql_GetCodeForExchange codec binding =
     unless_error (select_row db_codes (ceb_Digest binding)) (\<lambda>row.
     unless_error (give (unmarshal_codeEnvelope codec (sr_payload row))) (\<lambda>envelope.
     if ac_ClientID (fst envelope) \<noteq> ceb_ClientID binding \<or>
        ac_RedirectURI (fst envelope) \<noteq> ceb_RedirectURI binding
     then give (Inl ErrBinding)
     else give (decode_code codec (sr_consumed row) envelope)))"

text \<open>A column of type INTEGER takes no \<open>uint64\<close> with the high bit set.\<close>

definition driver_uint64 :: "64 word \<Rightarrow> int result" where
  "driver_uint64 g =
     (if uint g < 2 ^ 63 then Inr (uint g)
      else Inl (OtherError ''sql: uint64 values with high bit set are not supported''))"

definition insert_grant :: "'a RefreshGrant \<Rightarrow> json \<Rightarrow> (Conn, unit result) state" where
  "insert_grant grant payload =
     unless_error (give (driver_uint64 (rg_Generation grant))) (\<lambda>generation.
     insert_row ''oauth_refresh_grants.digest'' db_grants (\<lambda>t. db_grants_update (\<lambda>_. t))
       (rg_Digest grant) \<lparr>gr_family = rg_FamilyID grant, gr_generation = generation,
         gr_payload = payload, gr_consumed = None, gr_revoked = None\<rparr>)"

definition active_row :: "GrantRow \<Rightarrow> bool" where
  "active_row row \<longleftrightarrow> gr_consumed row = None \<and> gr_revoked row = None"

text \<open>A commit without a refresh grant never passes the check.\<close>

definition Sql_CommitCodeExchange ::
  "'a PrincipalCodec \<Rightarrow> time \<Rightarrow> 'a CodeExchangeCommit \<Rightarrow> StatePolicy \<Rightarrow> (Conn, unit result) state" where
  "Sql_CommitCodeExchange codec now commit policy = in_tx (
     unless_error (pruneTx now) (\<lambda>_.
     unless_error (select_row db_codes (cec_CodeDigest commit)) (\<lambda>row.
     unless_error (give (unmarshal_codeEnvelope codec (sr_payload row))) (\<lambda>envelope.
     unless_error (give (decode_code codec (sr_consumed row) envelope)) (\<lambda>code.
     (case (ValidateCodeExchangeCommit code commit now, cec_Refresh commit) of
        (Some err, _) \<Rightarrow> give (Inl err)
      | (None, None) \<Rightarrow> give (Inl ErrInvalid)
      | (None, Some refresh) \<Rightarrow>
     unless_error (query (\<lambda>db. int (gm_count active_row (db_grants db)))) (\<lambda>activeFamilies.
     if activeFamilies \<ge> cap_MaxRefreshGrants (sp_Capacity policy) then give (Inl ErrCapacity)
     else
     unless_error (give (encodePrincipal codec (rg_Principal refresh))) (\<lambda>p.
     unless_error (give (marshal_refreshEnvelope refresh p)) (\<lambda>payload.
     insert_or_conflict (insert_grant refresh payload)
     (unless_error (exec (db_codes_update (consume_row (cec_CodeDigest commit) (rfc3339 now)))) (\<lambda>_.
     Commit)))))))))))"

section \<open>Refresh grants\<close>

definition Sql_GetRefreshGrant ::
  "'a PrincipalCodec \<Rightarrow> CredentialDigest \<Rightarrow> (Conn, 'a RefreshGrant result) state" where
  "Sql_GetRefreshGrant codec digest =
     unless_error (select_row db_grants digest) (\<lambda>row.
     unless_error (give (unmarshal_refreshEnvelope codec (gr_payload row))) (\<lambda>envelope.
     unless_error (give (decodeRefresh codec envelope)) (\<lambda>grant.
     give (Inr (grant\<lparr>rg_ConsumedAt := column_or (gr_consumed row) (rg_ConsumedAt grant),
       rg_RevokedAt := column_or (gr_revoked row) (rg_RevokedAt grant)\<rparr>)))))"

definition revokeFamilyTx :: "RefreshFamilyID \<Rightarrow> time \<Rightarrow> (Conn, unit result) state" where
  "revokeFamilyTx family at =
     exec (db_grants_update (update_rows (\<lambda>_ row. gr_family row = family \<and> gr_revoked row = None)
       (\<lambda>row. row\<lparr>gr_revoked := Some (rfc3339 at)\<rparr>)))"

definition Sql_RevokeRefreshFamily :: "RefreshFamilyID \<Rightarrow> time \<Rightarrow> (Conn, unit result) state" where
  "Sql_RevokeRefreshFamily family at = in_tx (
     unless_error (revokeFamilyTx family at) (\<lambda>_. Commit))"

definition consume_grant ::
  "CredentialDigest \<Rightarrow> string \<Rightarrow> (CredentialDigest, GrantRow) gomap \<Rightarrow> (CredentialDigest, GrantRow) gomap" where
  "consume_grant digest now_text =
     update_rows (\<lambda>k row. k = digest \<and> gr_consumed row = None)
       (\<lambda>row. row\<lparr>gr_consumed := Some now_text\<rparr>)"

definition Sql_CommitRefreshRotation ::
  "'a PrincipalCodec \<Rightarrow> time \<Rightarrow> 'a RefreshRotation \<Rightarrow> StatePolicy \<Rightarrow> (Conn, unit result) state" where
  "Sql_CommitRefreshRotation codec now rotation policy = in_tx (
     unless_error (pruneTx now) (\<lambda>_.
     unless_error (select_row db_grants (rr_CurrentDigest rotation)) (\<lambda>row.
     (let revoke_all =
        unless_error (revokeFamilyTx (rr_FamilyID rotation) now) (\<lambda>_.
        unless_error Commit (\<lambda>_. give (Inl ErrRevoked)))
      in
     if gr_family row \<noteq> rr_FamilyID rotation \<or> gr_generation row \<noteq> uint (rr_Generation rotation)
     then give (Inl ErrBinding)
     else if gr_consumed row \<noteq> None \<or> gr_revoked row \<noteq> None then revoke_all
     else
     unless_error (give (unmarshal_refreshEnvelope codec (gr_payload row))) (\<lambda>envelope.
     unless_error (give (decodeRefresh codec envelope)) (\<lambda>current.
     (case ValidateRefreshRotation current rotation now of
        Some err \<Rightarrow> give (Inl err)
      | None \<Rightarrow>
     (let successor = rr_Successor rotation
      in
     if rg_Generation successor \<ge> cap_MaxRefreshGenerations (sp_Capacity policy) then revoke_all
     else
     unless_error (give (encodePrincipal codec (rg_Principal successor))) (\<lambda>p.
     unless_error (give (marshal_refreshEnvelope successor p)) (\<lambda>payload.
     insert_or_conflict (insert_grant successor payload)
     (unless_error (exec (db_grants_update
       (consume_grant (rr_CurrentDigest rotation) (rfc3339 now)))) (\<lambda>_.
     Commit))))))))))))"

section \<open>Counts\<close>

definition Sql_Counts :: "(Conn, StateCounts result) state" where
  "Sql_Counts =
     unless_error (count_rows db_clients) (\<lambda>clients.
     unless_error (count_rows db_authorizations) (\<lambda>authorizations.
     unless_error (count_rows db_consents) (\<lambda>consents.
     unless_error (count_rows db_codes) (\<lambda>codes.
     unless_error (count_rows db_grants) (\<lambda>grants.
     give (Inr \<lparr>sc_Clients = clients, sc_Authorizations = authorizations, sc_Consents = consents,
       sc_Codes = codes, sc_RefreshGrants = grants\<rparr>))))))"

end
