(* ===== verification/Sqlite_Tables.thy ===== *)
theory Sqlite_Tables
  imports Sqlite_Store
begin

text \<open>
  The library of the SQLite proofs: tables that represent a map of the in-memory store row by row,
  and the rules for statements inside a transaction.
\<close>

section \<open>Tables represent maps\<close>

definition rep_table :: "('v \<Rightarrow> 'r \<Rightarrow> bool) \<Rightarrow> ('k, 'v) gomap \<Rightarrow> ('k, 'r) gomap \<Rightarrow> bool" where
  "rep_table R m t \<longleftrightarrow> list_all2 (\<lambda>(k, v) (k', row). k = k' \<and> R v row) m t"

lemma rep_table_Nil [simp]: "rep_table R [] []"
  by (simp add: rep_table_def)

lemma rep_table_Cons [simp]:
  "rep_table R ((k, v) # m) t \<longleftrightarrow> (\<exists>row t'. t = (k, row) # t' \<and> R v row \<and> rep_table R m t')"
  by (auto simp: rep_table_def list_all2_Cons1)

lemma rep_table_induct [consumes 1, case_names Nil Cons]:
  assumes "rep_table R m t" and "P [] []"
    and "\<And>k v m row t. R v row \<Longrightarrow> rep_table R m t \<Longrightarrow> P m t \<Longrightarrow> P ((k, v) # m) ((k, row) # t)"
  shows "P m t"
  using assms(1) unfolding rep_table_def
  by (induction rule: list_all2_induct)
    (use assms(2,3) in \<open>auto simp: rep_table_def\<close>)

lemma rep_table_length: "rep_table R m t \<Longrightarrow> length t = length m"
  unfolding rep_table_def by (auto dest: list_all2_lengthD)

lemma rep_table_keys: "rep_table R m t \<Longrightarrow> gm_keys t = gm_keys m"
  by (induction rule: rep_table_induct) auto

lemma rep_table_get_None: "rep_table R m t \<Longrightarrow> gm_get t k = None \<longleftrightarrow> gm_get m k = None"
  by (simp add: map_of_eq_None_iff rep_table_keys flip: set_map)

lemma rep_table_get: "rep_table R m t \<Longrightarrow> gm_get m k = Some v \<Longrightarrow> \<exists>row. gm_get t k = Some row \<and> R v row"
  by (induction rule: rep_table_induct) (auto split: if_splits)

lemma rep_table_getE:
  assumes "rep_table R m t"
  obtains "gm_get m k = None" "gm_get t k = None"
  | v row where "gm_get m k = Some v" "gm_get t k = Some row" "R v row"
  using assms rep_table_get [of R m t k] rep_table_get_None [of R m t k]
  by (cases "gm_get m k") auto

lemma rep_table_delete:
  "rep_table R m t \<Longrightarrow> (\<And>k v row. (k, v) \<in> set m \<Longrightarrow> R v row \<Longrightarrow> P k v = Q k row) \<Longrightarrow>
   rep_table R (gm_delete_if P m) (gm_delete_if Q t)"
  by (induction rule: rep_table_induct) (auto simp: gm_delete_if_def)

lemma rep_table_append:
  "rep_table R m t \<Longrightarrow> R v row \<Longrightarrow> rep_table R (m @ [(k, v)]) (t @ [(k, row)])"
  unfolding rep_table_def by (simp add: list_all2_appendI)

lemma rep_table_insert:
  "rep_table R m t \<Longrightarrow> gm_get m k = None \<Longrightarrow> R v row \<Longrightarrow>
   rep_table R (gm_set k v m) (t @ [(k, row)])"
  by (simp add: gm_set_new rep_table_append)

lemma update_rows_Cons [simp]:
  "update_rows P f ((k, row) # t) = (k, if P k row then f row else row) # update_rows P f t"
  "update_rows P f [] = []"
  by (simp_all add: update_rows_def)

lemma rep_table_map:
  "rep_table R m t \<Longrightarrow>
   (\<And>k v row. (k, v) \<in> set m \<Longrightarrow> R v row \<Longrightarrow> R (f v) (if P k row then g row else row)) \<Longrightarrow>
   rep_table R (gm_map f m) (update_rows P g t)"
  by (induction rule: rep_table_induct) (auto simp: gm_map_def)

lemma update_rows_other: "k \<notin> set (gm_keys t) \<Longrightarrow> update_rows (\<lambda>k' row. k' = k \<and> P row) f t = t"
  by (induction t) auto

lemma rep_table_set:
  assumes "rep_table R m t" "gm_wf m" "gm_get m k = Some v"
    and "\<And>row. R v row \<Longrightarrow> R v' (if P row then f row else row)"
  shows "rep_table R (gm_set k v' m) (update_rows (\<lambda>k' row. k' = k \<and> P row) f t)"
  using assms(1,2,3)
proof (induction rule: rep_table_induct)
  case (Cons k' w m row t)
  show ?case
  proof (cases "k' = k")
    case True
    with Cons.prems have "w = v" "k \<notin> set (gm_keys t)" using rep_table_keys [OF Cons.hyps(2)] by auto
    with assms(4) [of row] Cons.hyps True show ?thesis
      by (auto simp: gm_set_def update_rows_other)
  next
    case False
    with Cons show ?thesis by (simp add: gm_set_def)
  qed
qed simp

lemma rep_table_count:
  "rep_table R m t \<Longrightarrow> (\<And>v row. R v row \<Longrightarrow> P v = Q row) \<Longrightarrow> gm_count Q t = gm_count P m"
  by (induction rule: rep_table_induct) (auto simp: gm_count_def)

text \<open>The elements of related tables correspond.\<close>

lemma rep_table_ex:
  "rep_table R m t \<Longrightarrow> (\<And>k v row. R v row \<Longrightarrow> P k v = Q k row) \<Longrightarrow>
   list_ex (\<lambda>(k, row). Q k row) t = list_ex (\<lambda>(k, v). P k v) m"
  by (induction rule: rep_table_induct) auto

section \<open>The connection\<close>

text \<open>Every fault the connection can still meet satisfies \<open>F\<close> and is no constraint violation; the
  driver reports violations so that \<open>isConstraint\<close> recognises them.\<close>

definition conn_ok :: "(go_error \<Rightarrow> bool) \<Rightarrow> Conn \<Rightarrow> bool" where
  "conn_ok F c \<longleftrightarrow> (\<forall>err. Some err \<in> set (cn_faults c) \<longrightarrow> F err) \<and>
     (\<forall>err. F err \<longrightarrow> \<not> isConstraint (Some err)) \<and>
     (\<forall>column. isConstraint (Some (cn_violation c column)))"

definition at :: "(go_error \<Rightarrow> bool) \<Rightarrow> Conn \<Rightarrow> DB \<Rightarrow> DB option \<Rightarrow> bool" where
  "at F c db tx \<longleftrightarrow> conn_ok F c \<and> cn_db c = db \<and> cn_tx c = tx"

lemma wp_next_fault:
  "at F c db tx \<Longrightarrow> (\<And>c'. at F c' db tx \<Longrightarrow> cn_violation c' = cn_violation c \<Longrightarrow> Q None c') \<Longrightarrow>
   (\<And>err c'. at F c' db tx \<Longrightarrow> F err \<Longrightarrow> Q (Some err) c') \<Longrightarrow> wp next_fault Q c"
  unfolding next_fault_def wp_def
  by (cases "cn_faults c"; cases "hd (cn_faults c)") (force simp: at_def conn_ok_def)+

lemma wp_statement:
  assumes "at F c db0 tx" "cn_current c = db"
    and "\<And>c' r db'. conn_ok F c' \<Longrightarrow> f (cn_violation c) db = (r, db') \<Longrightarrow>
      at F c' (case tx of None \<Rightarrow> db' | Some _ \<Rightarrow> db0) (map_option (\<lambda>_. db') tx) \<Longrightarrow> Q r c'"
    and "\<And>err c'. at F c' db0 tx \<Longrightarrow> F err \<Longrightarrow> Q (Inl err) c'"
  shows "wp (statement f) Q c"
  unfolding statement_def wp_bind
proof (rule wp_next_fault [OF assms(1)])
  fix c'
  assume c': "at F c' db0 tx" "cn_violation c' = cn_violation c"
  obtain r db' where f: "f (cn_violation c) db = (r, db')" by (cases "f (cn_violation c) db")
  have "cn_current c' = db" using c'(1) assms(1,2) by (cases tx) (simp_all add: at_def cn_current_def)
  moreover have "at F (set_current db' c') (case tx of None \<Rightarrow> db' | Some _ \<Rightarrow> db0) (map_option (\<lambda>_. db') tx)"
    using c'(1) by (auto simp: at_def set_current_def conn_ok_def split: option.splits)
  moreover from this have "conn_ok F (set_current db' c')" by (simp add: at_def)
  ultimately show "wp (case None of Some err \<Rightarrow> State_Monad.return (Inl err)
      | None \<Rightarrow> State (\<lambda>c. case f (cn_violation c) (cn_current c) of (r, db) \<Rightarrow> (r, set_current db c))) Q c'"
    using assms(3) [OF _ f] c'(2) f by (simp add: wp_def)
qed (simp add: wp_simps assms(4))

text \<open>What a transaction body ends with: a result and the database that is left once the
  transaction is rolled back.\<close>

definition ends :: "(go_error \<Rightarrow> bool) \<Rightarrow> ('r \<Rightarrow> DB \<Rightarrow> bool) \<Rightarrow> 'r \<Rightarrow> Conn \<Rightarrow> bool" where
  "ends F P r c \<longleftrightarrow> (\<exists>db tx. at F c db tx \<and> P r db)"

lemma ends_at: "at F c db tx \<Longrightarrow> P r db \<Longrightarrow> ends F P r c"
  by (auto simp: ends_def)

definition tolerates :: "(go_error \<Rightarrow> bool) \<Rightarrow> ('r result \<Rightarrow> DB \<Rightarrow> bool) \<Rightarrow> DB \<Rightarrow> bool" where
  "tolerates F P db \<longleftrightarrow> (\<forall>err. F err \<longrightarrow> P (Inl err) db)"

lemma toleratesD: "tolerates F P db \<Longrightarrow> F err \<Longrightarrow> P (Inl err) db"
  by (simp add: tolerates_def)

lemma ends_fault:
  "tolerates F P db \<Longrightarrow> F err \<Longrightarrow> at F c db tx \<Longrightarrow> ends F P (Inl err) c"
  "tolerates F P db \<Longrightarrow> F err \<Longrightarrow> at F c db None \<Longrightarrow> \<exists>db. at F c db None \<and> P (Inl err) db"
  by (auto simp: ends_def tolerates_def)

text \<open>A connection in a transaction that sees \<open>db\<close> and would roll back to \<open>db0\<close>.\<close>

definition inside :: "(go_error \<Rightarrow> bool) \<Rightarrow> DB \<Rightarrow> DB \<Rightarrow> Conn \<Rightarrow> bool" where
  "inside F db0 db c \<longleftrightarrow> at F c db0 (Some db)"

lemma inside_current: "inside F db0 db c \<Longrightarrow> cn_current c = db"
  by (simp add: inside_def at_def cn_current_def)

lemma ends_inside: "inside F db0 db c \<Longrightarrow> P r db0 \<Longrightarrow> ends F P r c"
  by (auto simp: inside_def ends_def)

lemma wp_in_tx:
  assumes "at F c db0 None" "tolerates F P db0"
    and "\<And>c'. inside F db0 db0 c' \<Longrightarrow> wp body (ends F P) c'"
  shows "wp (in_tx body) (\<lambda>r c'. \<exists>db. at F c' db None \<and> P r db) c"
proof -
  have "wp (do { r \<leftarrow> body; _ \<leftarrow> rollback; State_Monad.return r }) (\<lambda>r c'. \<exists>db. at F c' db None \<and> P r db) c'"
    if "inside F db0 db0 c'" for c'
    unfolding wp_bind
    by (rule wp_mono [OF assms(3) [OF that]])
      (auto simp: ends_def rollback_def wp_def at_def conn_ok_def)
  moreover have "wp BeginTx (\<lambda>r c'. (r = Inr () \<and> inside F db0 db0 c') \<or>
      (\<exists>err. r = Inl err \<and> F err \<and> at F c' db0 None)) c"
    unfolding BeginTx_def wp_bind
    by (rule wp_next_fault [OF assms(1)])
      (auto simp: wp_simps wp_def inside_def at_def conn_ok_def)
  ultimately show ?thesis
    unfolding in_tx_def wp_unless_error
    using assms(2) by (elim wp_mono) (auto intro: ends_fault)
qed

lemma wp_inside:
  assumes "inside F db0 db c" "tolerates F P db0"
    and "\<And>c' r db'. f (cn_violation c) db = (r, db') \<Longrightarrow> inside F db0 db' c' \<Longrightarrow> Q r c'"
    and "\<And>err c'. inside F db0 db c' \<Longrightarrow> F err \<Longrightarrow> ends F P (Inl err) c' \<Longrightarrow> Q (Inl err) c'"
  shows "wp (statement f) Q c"
proof (rule wp_statement [where tx = "Some db"])
  show "at F c db0 (Some db)" using assms(1) by (simp add: inside_def)
  show "cn_current c = db" using assms(1) by (rule inside_current)
next
  fix err c'
  assume "at F c' db0 (Some db)" "F err"
  with assms(2,4) show "Q (Inl err) c'"
    by (auto simp: inside_def tolerates_def intro: ends_at)
qed (use assms(3) in \<open>auto simp: inside_def\<close>)

named_theorems tx_rules

lemma tx_query [tx_rules]:
  assumes "inside F db0 db c" "tolerates F P db0" "\<And>c'. inside F db0 db c' \<Longrightarrow> wp (k (f db)) (ends F P) c'"
  shows "wp (unless_error (query f) k) (ends F P) c"
  unfolding wp_unless_error query_def by (rule wp_inside [OF assms(1,2)]) (auto intro: assms(3))

lemma tx_exec [tx_rules]:
  assumes "inside F db0 db c" "tolerates F P db0" "\<And>c'. inside F db0 (f db) c' \<Longrightarrow> wp (k ()) (ends F P) c'"
  shows "wp (unless_error (exec f) k) (ends F P) c"
  unfolding wp_unless_error exec_def by (rule wp_inside [OF assms(1,2)]) (auto intro: assms(3))

lemma tx_exec_count [tx_rules]:
  assumes "inside F db0 db c" "tolerates F P db0"
    and "\<And>c'. inside F db0 (snd (f db)) c' \<Longrightarrow> wp (k (fst (f db))) (ends F P) c'"
  shows "wp (unless_error (exec_count f) k) (ends F P) c"
  unfolding wp_unless_error exec_count_def
  by (rule wp_inside [OF assms(1,2)]) (use assms(3) in \<open>auto split: prod.splits\<close>)

lemma tx_count_rows [tx_rules]:
  assumes "inside F db0 db c" "tolerates F P db0"
    and "\<And>c'. inside F db0 db c' \<Longrightarrow> wp (k (int (length (table db)))) (ends F P) c'"
  shows "wp (unless_error (count_rows table) k) (ends F P) c"
  unfolding count_rows_def by (rule tx_query [OF assms(1,2)]) (rule assms(3))

lemma tx_give:
  assumes "inside F db0 db c" "\<And>err. r = Inl err \<Longrightarrow> P (Inl err) db0" "\<And>x. r = Inr x \<Longrightarrow> wp (k x) (ends F P) c"
  shows "wp (unless_error (give r) k) (ends F P) c"
  unfolding wp_unless_error wp_simps using assms by (auto split: sum.splits intro: ends_inside)

lemma tx_give_Inr: "r = Inr x \<Longrightarrow> wp (k x) (ends F P) c \<Longrightarrow> wp (unless_error (give r) k) (ends F P) c"
  unfolding wp_unless_error wp_simps by simp

lemma tx_refuse: "inside F db0 db c \<Longrightarrow> P (Inl err) db0 \<Longrightarrow> wp (give (Inl err)) (ends F P) c"
  by (simp add: wp_simps ends_inside)

lemma tx_select [tx_rules]:
  assumes "inside F db0 db c" "tolerates F P db0" "gm_get (table db) d = None \<Longrightarrow> P (Inl ErrNotFound) db0"
    and "\<And>row c'. gm_get (table db) d = Some row \<Longrightarrow> inside F db0 db c' \<Longrightarrow> wp (k row) (ends F P) c'"
  shows "wp (unless_error (select_row table d) k) (ends F P) c"
  unfolding wp_unless_error select_row_def query_def wp_simps
  by (rule wp_inside [OF assms(1,2)]) (auto simp: assms split: option.splits intro: ends_inside)

lemma tx_Commit_then:
  assumes "inside F db0 db c" "tolerates F P db0" "P r db"
  shows "wp (unless_error Commit (\<lambda>_. give r)) (ends F P) c"
proof -
  have "wp Commit (\<lambda>x c'. (x = Inr () \<and> at F c' db None) \<or>
      (\<exists>err. x = Inl err \<and> F err \<and> at F c' db0 None)) c"
    unfolding Commit_def wp_bind
    by (rule wp_next_fault [OF assms(1) [unfolded inside_def]])
      (auto simp: wp_simps wp_def at_def conn_ok_def cn_current_def)
  then show ?thesis
    unfolding wp_unless_error
    by (rule wp_mono) (use assms(2,3) in \<open>auto simp: wp_simps intro: ends_at ends_fault\<close>)
qed

lemma unless_error_give: "wp (unless_error m (\<lambda>x. give (Inr x))) Q c = wp m Q c"
proof -
  have "(\<lambda>r c'. case r of Inl err \<Rightarrow> Q (Inl err) c' | Inr x \<Rightarrow> wp (give (Inr x)) Q c') = Q"
    by (intro ext) (simp add: wp_simps split: sum.splits)
  then show ?thesis by (simp add: wp_unless_error)
qed

lemma tx_Commit:
  assumes "inside F db0 db c" "tolerates F P db0" "P (Inr ()) db"
  shows "wp Commit (ends F P) c"
proof -
  have "(\<lambda>x. give (Inr x)) = (\<lambda>_. give (Inr ()))" by (intro ext) simp
  with tx_Commit_then [OF assms] unless_error_give [of Commit] show ?thesis by simp
qed

lemma tx_insert_row:
  assumes "inside F db0 db c" "tolerates F P db0"
    and "gm_get (table db) key \<noteq> None \<Longrightarrow> P (Inl ErrConflict) db0"
    and "\<And>c'. gm_get (table db) key = None \<Longrightarrow> inside F db0 (set_table (table db @ [(key, row)]) db) c' \<Longrightarrow>
      wp next (ends F P) c'"
  shows "wp (insert_or_conflict (insert_row column table set_table key row) next) (ends F P) c"
  unfolding insert_or_conflict_def insert_row_def wp_bind
proof (rule wp_inside [OF assms(1,2)])
  have violation: "isConstraint (Some (cn_violation c column))"
    using assms(1) by (simp add: inside_def at_def conn_ok_def)
  fix c' r db'
  assume "(if gm_get (table db) key \<noteq> None then (Inl (cn_violation c column), db)
      else (Inr (), set_table (table db @ [(key, row)]) db)) = (r, db')" "inside F db0 db' c'"
  with assms(3,4) violation
  show "wp (case r of Inl err \<Rightarrow> if isConstraint (Some err) then State_Monad.return (Inl ErrConflict)
      else State_Monad.return (Inl err) | Inr _ \<Rightarrow> next) (ends F P) c'"
    by (auto simp: wp_simps split: if_splits intro: ends_inside)
qed (use assms(1) in \<open>auto simp: wp_simps inside_def at_def conn_ok_def\<close>)

end
