(* ===== verification/Sqlite_Relation.thy ===== *)
theory Sqlite_Relation
  imports Sqlite_Tables
begin

text \<open>
  How the database represents a state of the in-memory store: every row decodes to its record,
  without the raw token, and the SQL expressions read the fields they stand for.  Timestamps are
  compared as texts, so the relation holds for a set \<open>T\<close> of times on which the texts are ordered as
  the times are: whole seconds, for instance, or times in different seconds.
\<close>

definition ordered_times :: "time set \<Rightarrow> bool" where
  "ordered_times T \<longleftrightarrow> (\<forall>t \<in> T. json_time t) \<and> (\<forall>t \<in> T. \<forall>u \<in> T. rfc3339 t \<le> rfc3339 u \<longleftrightarrow> t \<le> u)"

lemma ordered_timesD:
  "ordered_times T \<Longrightarrow> t \<in> T \<Longrightarrow> json_time t"
  "ordered_times T \<Longrightarrow> t \<in> T \<Longrightarrow> u \<in> T \<Longrightarrow> rfc3339 t \<le> rfc3339 u \<longleftrightarrow> t \<le> u"
  "ordered_times T \<Longrightarrow> t \<in> T \<Longrightarrow> u \<in> T \<Longrightarrow> rfc3339 t < rfc3339 u \<longleftrightarrow> t < u"
  by (auto simp: ordered_times_def not_le [symmetric])

lemma whole_seconds_ordered: "ordered_times {t. json_time t \<and> second dvd t}"
proof -
  have "rfc3339 t \<le> rfc3339 u \<longleftrightarrow> t \<le> u"
    if "json_time t" "second dvd t" "json_time u" "second dvd u" for t u
    using rfc3339_order [of t u] whole_seconds [of t u] that
    by (cases "t div second = u div second") auto
  then show ?thesis by (simp add: ordered_times_def)
qed

lemma distinct_seconds_ordered:
  assumes "\<forall>t \<in> T. json_time t" "inj_on (\<lambda>t. t div second) T"
  shows "ordered_times T"
proof -
  have "rfc3339 t \<le> rfc3339 u \<longleftrightarrow> t \<le> u" if "t \<in> T" "u \<in> T" for t u
    using rfc3339_order [of t u] inj_onD [OF assms(2), of t u] assms(1) that
    by (cases "t div second = u div second") auto
  with assms(1) show ?thesis by (simp add: ordered_times_def)
qed

text \<open>A principal that the codec encodes so that it decodes again.\<close>

definition round_trips :: "'a PrincipalCodec \<Rightarrow> 'a Principal \<Rightarrow> bool" where
  "round_trips codec p \<longleftrightarrow> (\<exists>bs. codec_Encode codec p = Inr bs \<and> codec_Decode codec bs = Inr p)"

section \<open>Rows\<close>

definition column_holds :: "string option \<Rightarrow> time \<Rightarrow> bool" where
  "column_holds col t \<longleftrightarrow> json_time t \<and> col = (if t = 0 then None else Some (rfc3339 t))"

lemma column_or_holds: "column_holds col t \<Longrightarrow> column_or col 0 = t"
  by (auto simp: column_holds_def column_or_def parse_column_def json_time_def time_Parse_rfc3339)

lemma column_holds_None: "column_holds col t \<Longrightarrow> col = None \<longleftrightarrow> t = 0"
  by (simp add: column_holds_def)

lemma json_time_0 [simp]: "json_time 0"
  by code_simp

definition rep_client :: "time set \<Rightarrow> Client \<Rightarrow> ClientRow \<Rightarrow> bool" where
  "rep_client T cl row \<longleftrightarrow>
     (\<exists>t. unmarshal_Client (row_payload row) = Inr (cl\<lparr>cl_LastUsedAt := t\<rparr>)) \<and>
     extract_text (row_payload row) [''Trust''] = Some (cl_Trust cl) \<and>
     row_used row = Some (rfc3339 (cl_LastUsedAt cl)) \<and> cl_LastUsedAt cl \<in> T"

definition rep_authorization :: "time set \<Rightarrow> AuthorizationTransaction \<Rightarrow> StateRow \<Rightarrow> bool" where
  "rep_authorization T a row \<longleftrightarrow>
     unmarshal_AuthorizationTransaction (sr_payload row) =
       Inr (a\<lparr>at_Token := [], at_ConsumedAt := 0\<rparr>) \<and>
     extract_text (sr_payload row) [''ClientID''] = Some (at_ClientID a) \<and>
     extract_text (sr_payload row) [''ExpiresAt''] = Some (rfc3339 (at_ExpiresAt a)) \<and>
     column_holds (sr_consumed row) (at_ConsumedAt a) \<and> at_ExpiresAt a \<in> T"

definition rep_consent ::
  "'a PrincipalCodec \<Rightarrow> time set \<Rightarrow> 'a ConsentSession \<Rightarrow> StateRow \<Rightarrow> bool" where
  "rep_consent codec T c row \<longleftrightarrow>
     (\<exists>bs. unmarshal_envelope ''session'' (unmarshal_ConsentSession (codec_Zero codec)) (sr_payload row) =
         Inr (c\<lparr>cs_Token := [], cs_Principal := zero_Principal (codec_Zero codec), cs_ConsumedAt := 0\<rparr>, bs) \<and>
       codec_Decode codec bs = Inr (cs_Principal c)) \<and>
     extract_text (sr_payload row) [''session'', ''Client'', ''ID''] = Some (snap_ID (cs_Client c)) \<and>
     extract_text (sr_payload row) [''session'', ''ExpiresAt''] = Some (rfc3339 (cs_ExpiresAt c)) \<and>
     column_holds (sr_consumed row) (cs_ConsumedAt c) \<and> cs_ExpiresAt c \<in> T"

definition rep_code ::
  "'a PrincipalCodec \<Rightarrow> time set \<Rightarrow> 'a AuthorizationCodeRecord \<Rightarrow> StateRow \<Rightarrow> bool" where
  "rep_code codec T c row \<longleftrightarrow>
     (\<exists>bs. unmarshal_codeEnvelope codec (sr_payload row) =
         Inr (c\<lparr>ac_Principal := zero_Principal (codec_Zero codec), ac_ConsumedAt := 0\<rparr>, bs) \<and>
       codec_Decode codec bs = Inr (ac_Principal c)) \<and>
     extract_text (sr_payload row) [''record'', ''ClientID''] = Some (ac_ClientID c) \<and>
     extract_text (sr_payload row) [''record'', ''ExpiresAt''] = Some (rfc3339 (ac_ExpiresAt c)) \<and>
     column_holds (sr_consumed row) (ac_ConsumedAt c) \<and> ac_ExpiresAt c \<in> T"

definition rep_grant ::
  "'a PrincipalCodec \<Rightarrow> time set \<Rightarrow> 'a RefreshGrant \<Rightarrow> GrantRow \<Rightarrow> bool" where
  "rep_grant codec T g row \<longleftrightarrow>
     (\<exists>bs. unmarshal_refreshEnvelope codec (gr_payload row) =
         Inr (g\<lparr>rg_Principal := zero_Principal (codec_Zero codec), rg_ConsumedAt := 0,
           rg_RevokedAt := 0\<rparr>, bs) \<and>
       codec_Decode codec bs = Inr (rg_Principal g)) \<and>
     extract_text (gr_payload row) [''grant'', ''ClientID''] = Some (rg_ClientID g) \<and>
     extract_text (gr_payload row) [''grant'', ''ExpiresAt''] = Some (rfc3339 (rg_ExpiresAt g)) \<and>
     gr_family row = rg_FamilyID g \<and> gr_generation row = uint (rg_Generation g) \<and>
     column_holds (gr_consumed row) (rg_ConsumedAt g) \<and>
     column_holds (gr_revoked row) (rg_RevokedAt g) \<and> rg_ExpiresAt g \<in> T"

definition represents :: "'a PrincipalCodec \<Rightarrow> time set \<Rightarrow> 'a Store \<Rightarrow> DB \<Rightarrow> bool" where
  "represents codec T s db \<longleftrightarrow>
     rep_table (rep_client T) (st_clients s) (db_clients db) \<and>
     rep_table (rep_authorization T) (st_authorizers s) (db_authorizations db) \<and>
     rep_table (rep_consent codec T) (st_consents s) (db_consents db) \<and>
     rep_table (rep_code codec T) (st_codes s) (db_codes db) \<and>
     rep_table (rep_grant codec T) (st_refresh s) (db_grants db)"

lemma representsD:
  assumes "represents codec T s db"
  shows "rep_table (rep_client T) (st_clients s) (db_clients db)"
    "rep_table (rep_authorization T) (st_authorizers s) (db_authorizations db)"
    "rep_table (rep_consent codec T) (st_consents s) (db_consents db)"
    "rep_table (rep_code codec T) (st_codes s) (db_codes db)"
    "rep_table (rep_grant codec T) (st_refresh s) (db_grants db)"
  using assms by (simp_all add: represents_def)

lemma represents_mono:
  assumes "represents codec T s db" "T \<subseteq> T'"
  shows "represents codec T' s db"
proof -
  have "rep_table R' m t" if "rep_table R m t" "\<And>v row. R v row \<Longrightarrow> R' v row" for R R' m t
    using that(1) by (induction rule: rep_table_induct) (simp_all add: that(2))
  from this [OF representsD(1) [OF assms(1)], of "rep_client T'"] this [OF representsD(2) [OF assms(1)], of "rep_authorization T'"]
    this [OF representsD(3) [OF assms(1)], of "rep_consent codec T'"] this [OF representsD(4) [OF assms(1)], of "rep_code codec T'"]
    this [OF representsD(5) [OF assms(1)], of "rep_grant codec T'"] assms(2)
  show ?thesis
    by (auto simp: represents_def rep_client_def rep_authorization_def rep_consent_def rep_code_def rep_grant_def)
qed

section \<open>Reading a row\<close>

lemma read_authorization_rep:
  "rep_authorization T a row \<Longrightarrow> read_authorization row = Inr (a\<lparr>at_Token := []\<rparr>)"
  by (auto simp: rep_authorization_def read_authorization_def column_or_holds)

lemma read_consent_rep:
  "rep_consent codec T c row \<Longrightarrow> read_consent codec row = Inr (c\<lparr>cs_Token := []\<rparr>)"
  by (auto simp: rep_consent_def read_consent_def column_or_holds)

lemma read_code_rep:
  "rep_code codec T c row \<Longrightarrow> \<exists>e. unmarshal_codeEnvelope codec (sr_payload row) = Inr e \<and>
     ac_ClientID (fst e) = ac_ClientID c \<and> ac_RedirectURI (fst e) = ac_RedirectURI c \<and>
     decode_code codec (sr_consumed row) e = Inr c"
  by (auto simp: rep_code_def decode_code_def column_or_holds)

lemma decode_grant_rep:
  "rep_grant codec T g row \<Longrightarrow> \<exists>e. unmarshal_refreshEnvelope codec (gr_payload row) = Inr e \<and>
     decodeRefresh codec e = Inr (g\<lparr>rg_ConsumedAt := 0, rg_RevokedAt := 0\<rparr>)"
  by (auto simp: rep_grant_def decodeRefresh_def)

section \<open>What may be stored\<close>

definition ok_client :: "time set \<Rightarrow> Client \<Rightarrow> bool" where
  "ok_client T cl \<longleftrightarrow> list_all utf8 [cl_ID cl, cl_DisplayName cl, cl_Trust cl] \<and>
     list_all utf8 (cl_RedirectURIs cl) \<and> scopes_wf (cl_AllowedScopes cl) \<and>
     json_time (cl_CreatedAt cl) \<and> cl_LastUsedAt cl \<in> T"

definition ok_challenge :: "PKCEChallenge \<Rightarrow> bool" where
  "ok_challenge c \<longleftrightarrow> utf8 (pk_Value c) \<and> utf8 (pk_Method c)"

definition ok_authorization :: "time set \<Rightarrow> AuthorizationTransaction \<Rightarrow> bool" where
  "ok_authorization T a \<longleftrightarrow>
     list_all utf8 [at_ClientID a, at_RedirectURI a, at_State a, at_Resource a] \<and>
     ok_challenge (at_PKCEChallenge a) \<and> scopes_wf (at_RequestedScopes a) \<and>
     at_ExpiresAt a \<in> T \<and> at_ConsumedAt a = 0"

definition ok_consent :: "'a PrincipalCodec \<Rightarrow> time set \<Rightarrow> 'a ConsentSession \<Rightarrow> bool" where
  "ok_consent codec T c \<longleftrightarrow>
     list_all utf8 [snap_ID (cs_Client c), snap_DisplayName (cs_Client c), snap_Trust (cs_Client c),
       snap_RedirectURI (cs_Client c), snap_RedirectOrigin (cs_Client c), cs_State c, cs_Resource c] \<and>
     ok_challenge (cs_PKCEChallenge c) \<and> scopes_wf (cs_AllowedScopes c) \<and>
     round_trips codec (cs_Principal c) \<and> json_time (cs_AuthorizationEnds c) \<and>
     cs_ExpiresAt c \<in> T \<and> cs_ConsumedAt c = 0"

definition ok_code :: "'a PrincipalCodec \<Rightarrow> time set \<Rightarrow> 'a AuthorizationCodeRecord \<Rightarrow> bool" where
  "ok_code codec T c \<longleftrightarrow>
     list_all utf8 [ac_ClientID c, ac_RedirectURI c, ac_Resource c, ac_State c] \<and>
     length (ac_Digest c) = 32 \<and> ok_challenge (ac_PKCEChallenge c) \<and> scopes_wf (ac_Scopes c) \<and>
     round_trips codec (ac_Principal c) \<and> json_time (ac_AuthorizationEnds c) \<and>
     ac_ExpiresAt c \<in> T \<and> ac_ConsumedAt c = 0"

definition ok_grant :: "'a PrincipalCodec \<Rightarrow> time set \<Rightarrow> 'a RefreshGrant \<Rightarrow> bool" where
  "ok_grant codec T g \<longleftrightarrow>
     list_all utf8 [rg_FamilyID g, rg_ClientID g, rg_Resource g] \<and> length (rg_Digest g) = 32 \<and>
     uint (rg_Generation g) < 2 ^ 63 \<and> scopes_wf (rg_Scopes g) \<and> round_trips codec (rg_Principal g) \<and>
     rg_ExpiresAt g \<in> T"

named_theorems row_simps

lemma ok_challenge_dec [row_simps]:
  "ok_challenge c \<Longrightarrow> dec_PKCEChallenge (Some (enc_PKCEChallenge c)) = Inr c"
  by (simp add: dec_enc_PKCEChallenge ok_challenge_def)

lemma extract_text_simps [row_simps]:
  "extract_text (JString x) [] = Some x"
  "extract_text (enc_string x) [] = Some (valid_text x)"
  "extract_text (enc_time t) [] = Some (rfc3339 t)"
  "extract_text (JObject fs) (name # path) =
     (case map_of fs name of None \<Rightarrow> None | Some j \<Rightarrow> extract_text j path)"
  by (simp_all add: extract_text_def enc_string_def enc_time_def json_field_def split: option.splits)

lemma column_holds_0 [row_simps]: "column_holds None 0"
  by (simp add: column_holds_def)

lemma map_utf8: "list_all utf8 xs \<Longrightarrow> map valid_text xs = xs"
  by (simp add: list_all_iff map_idI)

lemma rep_new_client:
  assumes "ordered_times T" "ok_client T cl"
  shows "\<exists>payload. marshal_Client cl = Inr payload \<and>
    (\<forall>created. rep_client T cl \<lparr>row_payload = payload, row_created = created,
       row_used = Some (rfc3339 (cl_LastUsedAt cl))\<rparr>)"
proof -
  have "json_time (cl_LastUsedAt cl)" using assms by (auto simp: ok_client_def dest: ordered_timesD)
  with assms(2) show ?thesis
    by (auto simp: ok_client_def marshal_Client_def rep_client_def unmarshal_Client_def json_simps
        row_simps map_utf8 intro!: exI [of _ "cl_LastUsedAt cl"])
qed

lemma rep_new_authorization:
  assumes "ordered_times T" "ok_authorization T a"
  shows "\<exists>payload. marshal_AuthorizationTransaction a = Inr payload \<and>
    rep_authorization T a (new_row payload)"
proof -
  have "json_time (at_ExpiresAt a)" using assms by (auto simp: ok_authorization_def dest: ordered_timesD)
  with assms(2) show ?thesis
    by (simp add: ok_authorization_def marshal_AuthorizationTransaction_def rep_authorization_def
        unmarshal_AuthorizationTransaction_def json_simps row_simps new_row_def)
qed

lemma dec_snapshot [row_simps]:
  "list_all utf8 [snap_ID c, snap_DisplayName c, snap_Trust c, snap_RedirectURI c, snap_RedirectOrigin c] \<Longrightarrow>
   dec_ConsentClientSnapshot (Some (enc_ConsentClientSnapshot c)) = Inr c"
  by (simp add: dec_ConsentClientSnapshot_def enc_ConsentClientSnapshot_def json_simps)

lemma rep_new_consent:
  assumes "ordered_times T" "ok_consent codec T c" "codec_Decode codec bs = Inr (cs_Principal c)"
  shows "\<exists>payload. marshal_consentEnvelope c bs = Inr payload \<and> rep_consent codec T c (new_row payload)"
proof -
  have "json_time (cs_ExpiresAt c)" using assms by (auto simp: ok_consent_def dest: ordered_timesD)
  with assms(2,3) show ?thesis
    by (simp add: ok_consent_def marshal_consentEnvelope_def marshal_ConsentSession_def rep_consent_def
        unmarshal_envelope_def unmarshal_ConsentSession_def json_simps row_simps new_row_def)
      (simp add: enc_ConsentClientSnapshot_def row_simps)
qed

lemma rep_new_code:
  assumes "ordered_times T" "ok_code codec T c" "codec_Decode codec bs = Inr (ac_Principal c)"
  shows "\<exists>payload. marshal_codeEnvelope c bs = Inr payload \<and> rep_code codec T c (new_row payload)"
proof -
  have "json_time (ac_ExpiresAt c)" using assms by (auto simp: ok_code_def dest: ordered_timesD)
  with assms(2,3) show ?thesis
    by (simp add: ok_code_def marshal_codeEnvelope_def marshal_AuthorizationCodeRecord_def rep_code_def
        unmarshal_codeEnvelope_def unmarshal_envelope_def unmarshal_AuthorizationCodeRecord_def
        json_simps row_simps new_row_def)
qed

lemma rep_new_grant:
  assumes "ordered_times T" "ok_grant codec T g" "codec_Decode codec bs = Inr (rg_Principal g)"
    and "rg_ConsumedAt g = 0" "rg_RevokedAt g = 0"
  shows "\<exists>payload. marshal_refreshEnvelope g bs = Inr payload \<and>
    rep_grant codec T g \<lparr>gr_family = rg_FamilyID g, gr_generation = uint (rg_Generation g),
      gr_payload = payload, gr_consumed = None, gr_revoked = None\<rparr>"
proof -
  have "json_time (rg_ExpiresAt g)" using assms by (auto simp: ok_grant_def dest: ordered_timesD)
  with assms(2-) show ?thesis
    by (simp add: ok_grant_def marshal_refreshEnvelope_def marshal_RefreshGrant_def rep_grant_def
        unmarshal_refreshEnvelope_def unmarshal_envelope_def unmarshal_RefreshGrant_def
        json_simps row_simps)
qed

end
