(* ===== verification/Sqlite_Refines.thy ===== *)
theory Sqlite_Refines
  imports Sqlite_Relation
begin

text \<open>
  Every method of the SQLite store does what the in-memory store does, or fails without effect.
\<close>

section \<open>Pruning\<close>

definition pruned_db :: "time \<Rightarrow> DB \<Rightarrow> DB" where
  "pruned_db now db =
     db\<lparr>db_authorizations := delete_expired [''ExpiresAt''] (rfc3339 now) (db_authorizations db),
        db_consents := delete_expired [''session'', ''ExpiresAt''] (rfc3339 now) (db_consents db),
        db_codes := delete_expired [''record'', ''ExpiresAt''] (rfc3339 now) (db_codes db),
        db_grants := delete_families (rfc3339 now) (db_grants db)\<rparr>"

definition prune_stats :: "DB \<Rightarrow> DB \<Rightarrow> PruneStats" where
  "prune_stats db db' =
     \<lparr>ps_Clients = 0, ps_Authorizations = removed (db_authorizations db) (db_authorizations db'),
      ps_Consents = removed (db_consents db) (db_consents db'),
      ps_Codes = removed (db_codes db) (db_codes db'),
      ps_RefreshGrants = removed (db_grants db) (db_grants db')\<rparr>"

lemma unless_error_assoc:
  "wp (unless_error (unless_error m f) g) Q c = wp (unless_error m (\<lambda>x. unless_error (f x) g)) Q c"
  unfolding wp_unless_error sum.case ..

lemma tx_delete:
  assumes "inside F db0 db c" "tolerates F P db0" "f db = (n, db')"
    and "\<And>c'. inside F db0 db' c' \<Longrightarrow> wp (unless_error (k n) k') (ends F P) c'"
  shows "wp (unless_error (unless_error (exec_count f) k) k') (ends F P) c"
  unfolding unless_error_assoc
  by (rule tx_exec_count [OF assms(1,2)]) (use assms(3,4) in simp)

lemma tx_prune:
  assumes "inside F db0 db c" "tolerates F P db0"
    and "\<And>c'. inside F db0 (pruned_db now db) c' \<Longrightarrow>
      wp (k (prune_stats db (pruned_db now db))) (ends F P) c'"
  shows "wp (unless_error (pruneTx now) k) (ends F P) c"
  unfolding pruneTx_def Let_def
  apply (rule tx_delete [OF assms(1,2)], simp)
  apply (erule tx_delete [OF _ assms(2)], simp)
  apply (erule tx_delete [OF _ assms(2)], simp)
  apply (erule tx_delete [OF _ assms(2)], simp)
  apply (rule tx_give_Inr [OF refl])
  using assms(3) by (simp add: pruned_db_def prune_stats_def)

lemma rep_delete_expired:
  assumes "ordered_times T" "now \<in> T" "rep_table R m t"
    and "\<And>v row. R v row \<Longrightarrow>
      extract_text (sr_payload row) path = Some (rfc3339 (expiry v)) \<and> expiry v \<in> T"
  shows "rep_table R (gm_delete_if (\<lambda>_ v. expiry v \<le> now) m)
    (delete_expired path (rfc3339 now) t)"
  unfolding delete_expired_def
  by (rule rep_table_delete [OF assms(3)])
    (use assms(1,2,4) in \<open>auto simp: sql_le_def not_less dest: ordered_timesD(2)\<close>)

lemma sql_max_le: "sql_le (sql_max (map Some xs)) y \<longleftrightarrow> xs \<noteq> [] \<and> (\<forall>x \<in> set xs. x \<le> y)"
proof (induction xs)
  case (Cons x xs)
  show ?case
  proof (cases "sql_max (map Some xs)")
    case None
    then have "xs = []" by (cases xs) (auto split: option.splits)
    with None show ?thesis by (simp add: sql_le_def)
  next
    case (Some z)
    then have "xs \<noteq> []" by auto
    with Cons Some show ?thesis by (simp add: sql_le_def)
  qed
qed (simp add: sql_le_def)

lemma family_texts:
  assumes "rep_table (rep_grant codec T) m t" "(k, g) \<in> set m"
  shows "sql_le (family_max t (rg_FamilyID g)) y \<longleftrightarrow>
    (\<forall>(_, g') \<in> set m. rg_FamilyID g' = rg_FamilyID g \<longrightarrow> rfc3339 (rg_ExpiresAt g') \<le> y)"
proof -
  let ?f = "rg_FamilyID g"
  have "map (\<lambda>(_, row). extract_text (gr_payload row) [''grant'', ''ExpiresAt''])
        (filter (\<lambda>(_, row). gr_family row = ?f) t) =
      map Some (map (\<lambda>(_, g'). rfc3339 (rg_ExpiresAt g')) (filter (\<lambda>(_, g'). rg_FamilyID g' = ?f) m))"
    using assms(1) by (induction rule: rep_table_induct) (auto simp: rep_grant_def)
  then show ?thesis
    unfolding family_max_def using assms(2) by (auto simp only: sql_max_le) (auto simp: filter_empty_conv)
qed

lemma rep_family_max:
  assumes "ordered_times T" "now \<in> T" "rep_table (rep_grant codec T) m t" "(k, g) \<in> set m"
  shows "sql_le (family_max t (rg_FamilyID g)) (rfc3339 now) \<longleftrightarrow>
    \<not> (\<exists>(_, g') \<in> set m. rg_FamilyID g' = rg_FamilyID g \<and> now < rg_ExpiresAt g')"
proof -
  have "\<forall>(_, g') \<in> set m. rg_ExpiresAt g' \<in> T"
    using assms(3) by (induction rule: rep_table_induct) (auto simp: rep_grant_def)
  then show ?thesis
    using family_texts [OF assms(3,4)] ordered_timesD(2) [OF assms(1) _ assms(2)]
    by (fastforce simp: not_less [symmetric])
qed

lemma represents_pruned:
  assumes T: "ordered_times T" "now \<in> T" "0 \<le> now" and rep: "represents codec T s db"
  shows "represents codec T (pruned now s) (pruned_db now db)"
proof -
  note r = representsD [OF rep]
  have "rep_table (rep_grant codec T) (st_refresh (pruned now s))
      (delete_families (rfc3339 now) (db_grants db))"
    unfolding pruned_refresh [OF T(3)] delete_families_def
  proof (rule rep_table_delete [OF r(5)])
    fix k g row
    assume "(k, g) \<in> set (st_refresh s)" "rep_grant codec T g row"
    with rep_family_max [OF T(1,2) r(5), of k g]
    show "(\<not> family_live now s (rg_FamilyID g)) =
        sql_le (family_max (db_grants db) (gr_family row)) (rfc3339 now)"
      by (simp add: rep_grant_def family_live_def list_ex_iff case_prod_unfold)
  qed
  moreover have "rep_table (rep_authorization T) (st_authorizers (pruned now s))
      (delete_expired [''ExpiresAt''] (rfc3339 now) (db_authorizations db))"
    unfolding pruned_authorizers
    by (rule rep_delete_expired [OF T(1,2) r(2), where expiry = at_ExpiresAt]) (simp add: rep_authorization_def)
  moreover have "rep_table (rep_consent codec T) (st_consents (pruned now s))
      (delete_expired [''session'', ''ExpiresAt''] (rfc3339 now) (db_consents db))"
    unfolding pruned_consents
    by (rule rep_delete_expired [OF T(1,2) r(3), where expiry = cs_ExpiresAt]) (simp add: rep_consent_def)
  moreover have "rep_table (rep_code codec T) (st_codes (pruned now s))
      (delete_expired [''record'', ''ExpiresAt''] (rfc3339 now) (db_codes db))"
    unfolding pruned_codes
    by (rule rep_delete_expired [OF T(1,2) r(4), where expiry = ac_ExpiresAt]) (simp add: rep_code_def)
  ultimately show ?thesis using r(1) by (simp add: represents_def pruned_db_def)
qed

section \<open>Outcomes\<close>

text \<open>What a call may do to a database that represents \<open>s\<close>, when the in-memory store answers \<open>r0\<close>
  and goes to \<open>s'\<close>: fail with a fault and no effect; answer the same and go to \<open>s'\<close>; or answer the
  same refusal and leave the database alone, where the in-memory store keeps what it pruned.  A
  refusal by \<open>ErrRevoked\<close>, which revokes the family, is always committed.\<close>

definition outcome ::
  "(go_error \<Rightarrow> bool) \<Rightarrow> 'a PrincipalCodec \<Rightarrow> time set \<Rightarrow> DB \<Rightarrow> go_error option \<times> 'a Store \<Rightarrow> 'b result \<Rightarrow> DB \<Rightarrow> bool" where
  "outcome F codec T db0 mem r db \<longleftrightarrow>
     (\<exists>err. r = Inl err \<and> F err \<and> db = db0) \<or>
     result_error r = fst mem \<and>
       (represents codec T (snd mem) db \<or> (\<exists>err. r = Inl err \<and> err \<noteq> ErrRevoked \<and> db = db0))"

lemma outcome_tolerates: "tolerates F (outcome F codec T db0 mem) db0"
  by (simp add: tolerates_def outcome_def)

lemma outcome_refused:
  "fst mem = Some err \<Longrightarrow> err \<noteq> ErrRevoked \<Longrightarrow> outcome F codec T db0 mem (Inl err) db0"
  by (simp add: outcome_def result_error_def)

lemma outcome_done: "fst mem = None \<Longrightarrow> represents codec T (snd mem) db \<Longrightarrow> outcome F codec T db0 mem (Inr x) db"
  by (simp add: outcome_def result_error_def)

lemma outcome_fault: "F err \<Longrightarrow> outcome F codec T db0 mem (Inl err) db0"
  by (simp add: outcome_def)


lemma wp_if: "(b \<Longrightarrow> wp m Q c) \<Longrightarrow> (\<not> b \<Longrightarrow> wp n Q c) \<Longrightarrow> wp (if b then m else n) Q c"
  by simp

lemma wp_if_True: "b \<Longrightarrow> wp m Q c \<Longrightarrow> wp (if b then m else n) Q c"
  by simp

lemma wp_if_False: "\<not> b \<Longrightarrow> wp n Q c \<Longrightarrow> wp (if b then m else n) Q c"
  by simp

lemma wp_check:
  "(\<And>err. v = Some err \<Longrightarrow> wp (f err) Q c) \<Longrightarrow> (v = None \<Longrightarrow> wp n Q c) \<Longrightarrow>
   wp (case v of Some err \<Rightarrow> f err | None \<Rightarrow> n) Q c"
  by (cases v) simp_all

text \<open>The rules of a transaction that starts on \<open>db0\<close> and is judged by its outcome.\<close>

lemmas outcome_rules =
  tx_prune [OF _ outcome_tolerates] tx_query [OF _ outcome_tolerates] tx_exec [OF _ outcome_tolerates]
  tx_exec_count [OF _ outcome_tolerates] tx_count_rows [OF _ outcome_tolerates]
  tx_select [OF _ outcome_tolerates] tx_insert_row [OF _ outcome_tolerates]
  tx_Commit [OF _ outcome_tolerates] tx_Commit_then [OF _ outcome_tolerates] wp_if wp_check

lemma outcome_select:
  assumes "inside F db db' c" "rep_table R m (table db')" "gm_get m d = None \<Longrightarrow> fst mem = Some ErrNotFound"
    and "\<And>v row c'. gm_get m d = Some v \<Longrightarrow> R v row \<Longrightarrow> inside F db db' c' \<Longrightarrow>
      wp (k row) (ends F (outcome F codec T db mem)) c'"
  shows "wp (unless_error (select_row table d) k) (ends F (outcome F codec T db mem)) c"
proof (rule tx_select [OF assms(1) outcome_tolerates])
  assume "gm_get (table db') d = None"
  with assms(3) show "outcome F codec T db mem (Inl ErrNotFound) db"
    by (simp add: rep_table_get_None [OF assms(2)] outcome_refused)
next
  fix row c'
  assume "gm_get (table db') d = Some row" "inside F db db' c'"
  then show "wp (k row) (ends F (outcome F codec T db mem)) c'"
    by (cases rule: rep_table_getE [OF assms(2), of d]) (auto intro: assms(4))
qed

lemma outcome_encode:
  assumes "inside F db db' c" "round_trips codec p"
    and "\<And>bs. codec_Decode codec bs = Inr p \<Longrightarrow> wp (k bs) (ends F (outcome F codec T db mem)) c"
  shows "wp (unless_error (give (encodePrincipal codec p)) k) (ends F (outcome F codec T db mem)) c"
  by (rule tx_give [OF assms(1)])
    (use assms(2,3) in \<open>auto simp: encodePrincipal_def round_trips_def outcome_fault\<close>)

lemma outcome_marshal:
  "\<exists>x. r = Inr x \<and> R x \<Longrightarrow> (\<And>x. R x \<Longrightarrow> wp (k x) (ends F P) c) \<Longrightarrow>
   wp (unless_error (give r) k) (ends F P) c"
  by (auto intro: tx_give_Inr)

lemma outcome_refuse:
  "inside F db db' c \<Longrightarrow> fst mem = Some err \<Longrightarrow> err \<noteq> ErrRevoked \<Longrightarrow>
   wp (give (Inl err)) (ends F (outcome F codec T db mem)) c"
  by (erule tx_refuse) (rule outcome_refused)

lemma outcome_check:
  "inside F db db' c \<Longrightarrow> v \<noteq> Some ErrRevoked \<Longrightarrow> (\<And>err. v = Some err \<Longrightarrow> fst mem = Some err) \<Longrightarrow>
   (v = None \<Longrightarrow> wp n (ends F (outcome F codec T db mem)) c) \<Longrightarrow>
   wp (case v of Some err \<Rightarrow> give (Inl err) | None \<Rightarrow> n) (ends F (outcome F codec T db mem)) c"
  by (rule wp_check) (auto intro: outcome_refuse)

section \<open>The methods\<close>

lemma create_authorization_refines:
  assumes "at F c db None" "represents codec T s db" "ordered_times T" "now \<in> T" "0 < now"
    and "ok_authorization T a"
  shows "wp (Sql_CreateAuthorization now a p) (\<lambda>r c'. \<exists>db'. at F c' db' None \<and>
    outcome F codec T db (Mem_CreateAuthorization now a p s) r db') c"
proof -
  let ?s = "pruned now s" and ?db = "pruned_db now db"
  have rep: "represents codec T ?s ?db" using assms by (intro represents_pruned) simp_all
  note r = representsD [OF rep]
  note simps = Mem_CreateAuthorization_def Let_def rep_table_length [OF r(2)]
    rep_table_get_None [OF r(2)] digestBytes_def
  obtain payload where payload: "marshal_AuthorizationTransaction a = Inr payload"
      "rep_authorization T a (new_row payload)"
    using rep_new_authorization [OF assms(3,6)] by blast
  show ?thesis
    unfolding Sql_CreateAuthorization_def
    apply (rule wp_in_tx [OF assms(1) outcome_tolerates])
    apply (rule outcome_rules, assumption)
    apply (rule outcome_rules, assumption)
    apply (rule outcome_rules)
     apply (erule tx_refuse, rule outcome_refused; simp add: simps)
    apply (rule tx_give_Inr [OF payload(1)])
    apply (rule outcome_rules, assumption)
     apply (rule outcome_refused; simp add: simps)
    apply (rule outcome_rules, assumption)
    apply (rule outcome_done; simp add: simps represents_def)
    using r by (simp add: represents_def rep_table_insert payload)
qed


lemma validate_forgets_token [simp]:
  "ValidateLoginCommit (a\<lparr>at_Token := []\<rparr>) c now = ValidateLoginCommit a c now"
  "ValidateConsentCommit (s\<lparr>cs_Token := []\<rparr>) x now = ValidateConsentCommit s x now"
  by (simp_all add: ValidateLoginCommit_def ValidateConsentCommit_def Let_def)

lemma validate_not_revoked:
  "ValidateLoginCommit a c now \<noteq> Some ErrRevoked" "ValidateConsentCommit s x now \<noteq> Some ErrRevoked"
  "ValidateCodeExchangeCommit code y now \<noteq> Some ErrRevoked"
  "rg_RevokedAt g = 0 \<Longrightarrow> ValidateRefreshRotation g z now \<noteq> Some ErrRevoked"
  by (auto simp: ValidateLoginCommit_def ValidateConsentCommit_def ValidateCodeExchangeCommit_def
      ValidateRefreshRotation_def Let_def split: option.splits)

lemma rep_consume:
  assumes "rep_table R m t" "gm_wf m" "gm_get m d = Some v"
    and "\<And>row. R v row \<Longrightarrow> sr_consumed row = None \<and> R v' (row\<lparr>sr_consumed := Some (rfc3339 now)\<rparr>)"
  shows "rep_table R (gm_set d v' m) (consume_row d (rfc3339 now) t)"
  unfolding consume_row_def by (rule rep_table_set [OF assms(1,2,3)]) (use assms(4) in simp)

lemma rep_consumed:
  assumes "json_time now" "0 < now"
  shows "rep_authorization T a row \<Longrightarrow> at_ConsumedAt a = 0 \<Longrightarrow> sr_consumed row = None \<and>
      rep_authorization T (a\<lparr>at_ConsumedAt := now\<rparr>) (row\<lparr>sr_consumed := Some (rfc3339 now)\<rparr>)"
    and "rep_consent codec T s row \<Longrightarrow> cs_ConsumedAt s = 0 \<Longrightarrow> sr_consumed row = None \<and>
      rep_consent codec T (s\<lparr>cs_ConsumedAt := now\<rparr>) (row\<lparr>sr_consumed := Some (rfc3339 now)\<rparr>)"
    and "rep_code codec T code row \<Longrightarrow> ac_ConsumedAt code = 0 \<Longrightarrow> sr_consumed row = None \<and>
      rep_code codec T (code\<lparr>ac_ConsumedAt := now\<rparr>) (row\<lparr>sr_consumed := Some (rfc3339 now)\<rparr>)"
    and "rep_grant codec T g grow \<Longrightarrow> rg_ConsumedAt g = 0 \<Longrightarrow> gr_consumed grow = None \<and>
      rep_grant codec T (g\<lparr>rg_ConsumedAt := now\<rparr>) (grow\<lparr>gr_consumed := Some (rfc3339 now)\<rparr>)"
    and "rep_grant codec T g grow \<Longrightarrow> rg_RevokedAt g = 0 \<Longrightarrow> gr_revoked grow = None \<and>
      rep_grant codec T (g\<lparr>rg_RevokedAt := now\<rparr>) (grow\<lparr>gr_revoked := Some (rfc3339 now)\<rparr>)"
  using assms
  by (auto simp: rep_authorization_def rep_consent_def rep_code_def rep_grant_def column_holds_def)

lemma commit_login_refines:
  assumes "at F c db None" "represents codec T s db" "ordered_times T" "now \<in> T" "0 < now"
    and wf: "maps_wf s" and ok: "ok_consent codec T (lco_Consent l)"
  shows "wp (Sql_CommitLogin codec now l p) (\<lambda>r c'. \<exists>db'. at F c' db' None \<and>
    outcome F codec T db (Mem_CommitLogin now now l p s) r db') c"
proof -
  let ?s = "pruned now s" and ?db = "pruned_db now db" and ?d = "lco_TransactionDigest l"
  have rep: "represents codec T ?s ?db" using assms by (intro represents_pruned) simp_all
  have now: "json_time now" using assms(3,4) by (rule ordered_timesD)
  note r = representsD [OF rep]
  note simps = Mem_CommitLogin_def Let_def rep_table_length [OF r(3)]
    rep_table_get_None [OF r(3)] digestBytes_def
  show ?thesis
    unfolding Sql_CommitLogin_def
    apply (rule wp_in_tx [OF assms(1) outcome_tolerates])
    apply (rule outcome_rules, assumption)
    apply (rule outcome_select, assumption, rule r(2), simp add: simps)
    subgoal premises prems for _ _ a row c1
      apply (rule tx_give_Inr [OF read_authorization_rep [OF prems(4)]])
      apply (rule outcome_check [OF prems(5) validate_not_revoked(1)], simp add: simps prems(3))
      apply (rule outcome_rules, rule prems(5))
      apply (rule outcome_rules)
       apply (rule outcome_refuse, assumption; simp add: simps prems(3))
      apply (rule outcome_encode, assumption)
       apply (use ok in \<open>simp add: ok_consent_def\<close>)
      apply (rule outcome_marshal [OF rep_new_consent [OF assms(3) ok]], assumption)
      apply (rule outcome_rules, assumption)
       apply (rule outcome_refused; simp add: simps prems(3))
      apply (rule outcome_rules, assumption)
      apply (rule outcome_rules, assumption)
      apply (rule outcome_done)
       apply (simp add: simps prems(3))
      apply (simp add: represents_def simps prems(3) r r(1) [simplified] rep_table_insert)
      using wf prems(3)
      apply (intro rep_consume [OF r(2)] rep_consumed(1) now assms(5))
         apply (auto simp: ValidateLoginCommit_None)
      done
    done
qed


lemma commit_consent_refines:
  assumes "at F c db None" "represents codec T s db" "ordered_times T" "now \<in> T" "0 < now"
    and wf: "maps_wf s" and ok: "cco_Decision x = ConsentDecisionApprove \<Longrightarrow> ok_code codec T (cco_Code x)"
  shows "wp (Sql_CommitConsent codec now x p) (\<lambda>r c'. \<exists>db'. at F c' db' None \<and>
    outcome F codec T db (case Mem_CommitConsent now now x p s of (r, s') \<Rightarrow> (result_error r, s')) r db') c"
proof -
  let ?s = "pruned now s" and ?db = "pruned_db now db"
  have rep: "represents codec T ?s ?db" using assms by (intro represents_pruned) simp_all
  have now: "json_time now" using assms(3,4) by (rule ordered_timesD)
  note r = representsD [OF rep]
  note simps = Mem_CommitConsent_def Let_def rep_table_length [OF r(4)]
    rep_table_get_None [OF r(4)] result_error_def
  show ?thesis
    unfolding Sql_CommitConsent_def Let_def
    apply (rule wp_in_tx [OF assms(1) outcome_tolerates])
    apply (rule outcome_rules, assumption)
    apply (rule outcome_select, assumption, rule r(3), simp add: simps)
    subgoal premises prems for _ _ session row c1
    proof -
      have consumed: "rep_table (rep_consent codec T)
          (gm_set (cco_ConsentDigest x) (session\<lparr>cs_ConsumedAt := now\<rparr>) (st_consents ?s))
          (consume_row (cco_ConsentDigest x) (rfc3339 now) (db_consents ?db))"
        if "ValidateConsentCommit session x now = None"
        using that wf prems(3)
        by (intro rep_consume [OF r(3)] rep_consumed(2) now assms(5))
          (auto simp: ValidateConsentCommit_None)
      show ?thesis
        apply (rule tx_give_Inr [OF read_consent_rep [OF prems(4)]])
        apply (rule outcome_check [OF prems(5) validate_not_revoked(2)], simp add: simps prems(3))
        apply (rule outcome_rules)
         apply (rule outcome_rules, rule prems(5))
         apply (rule outcome_rules)
          apply (rule outcome_refuse, assumption; simp add: simps prems(3))
         apply (rule outcome_encode, assumption)
          apply (use ok in \<open>simp add: ok_code_def\<close>)
         apply (rule outcome_marshal [OF rep_new_code [OF assms(3) ok]], assumption, assumption)
         apply (rule outcome_rules, assumption)
          apply (rule outcome_refused; simp add: simps prems(3))
         apply (rule outcome_rules, assumption)
         apply (rule outcome_rules, assumption)
         apply (rule outcome_done)
          apply (simp add: simps prems(3))
         apply (simp add: represents_def simps prems(3) r r(1) [simplified] rep_table_insert consumed)
        apply (rule outcome_rules, rule prems(5))
        apply (rule outcome_rules, assumption)
        apply (rule outcome_done)
         apply (simp add: simps prems(3))
        apply (simp add: represents_def simps prems(3) r r(1) [simplified] consumed)
        done
    qed
    done
qed

lemma revoke_rows:
  assumes "rep_table (rep_grant codec T) m t" "json_time now" "0 < now"
  shows "rep_table (rep_grant codec T) (gm_map (revoke_grant family now) m)
    (update_rows (\<lambda>_ row. gr_family row = family \<and> gr_revoked row = None)
       (\<lambda>row. row\<lparr>gr_revoked := Some (rfc3339 now)\<rparr>) t)"
  by (rule rep_table_map [OF assms(1)])
    (use assms(2,3) in \<open>auto simp: revoke_grant_def rep_grant_def column_holds_def\<close>)

lemma outcome_revoke_all:
  assumes "inside F db0 db c" "represents codec T s db" "json_time now" "0 < now"
    and "mem = (Some ErrRevoked, revokeFamily family now s)"
  shows "wp (unless_error (revokeFamilyTx family now) (\<lambda>_. unless_error Commit (\<lambda>_. give (Inl ErrRevoked))))
    (ends F (outcome F codec T db0 mem)) c"
  unfolding revokeFamilyTx_def
  apply (rule outcome_rules, rule assms(1))
  apply (rule outcome_rules, assumption)
  using assms revoke_rows [OF representsD(5) [OF assms(2)] assms(3,4)]
  by (simp add: outcome_def result_error_def represents_def revokeFamily_def)

lemma revoke_family_refines:
  assumes "at F c db None" "represents codec T s db" "json_time now" "0 < now"
  shows "wp (Sql_RevokeRefreshFamily family now) (\<lambda>r c'. \<exists>db'. at F c' db' None \<and>
    outcome F codec T db (Mem_RevokeRefreshFamily family now s) r db') c"
  unfolding Sql_RevokeRefreshFamily_def revokeFamilyTx_def
  apply (rule wp_in_tx [OF assms(1) outcome_tolerates])
  apply (rule outcome_rules, assumption)
  apply (rule outcome_rules, assumption)
  using assms revoke_rows [OF representsD(5) [OF assms(2)] assms(3,4)]
  by (simp add: outcome_def result_error_def represents_def revokeFamily_def Mem_RevokeRefreshFamily_def)

lemma outcome_insert_grant:
  assumes "inside F db0 db c" "ok_grant codec T g" "represents codec T s db"
    and "gm_get (st_refresh s) (rg_Digest g) \<noteq> None \<Longrightarrow> fst mem = Some ErrConflict"
    and "\<And>c'. gm_get (st_refresh s) (rg_Digest g) = None \<Longrightarrow>
      inside F db0 (db\<lparr>db_grants := db_grants db @ [(rg_Digest g, \<lparr>gr_family = rg_FamilyID g,
        gr_generation = uint (rg_Generation g), gr_payload = payload, gr_consumed = None,
        gr_revoked = None\<rparr>)]\<rparr>) c' \<Longrightarrow> wp next (ends F (outcome F codec T db0 mem)) c'"
  shows "wp (insert_or_conflict (insert_grant g payload) next) (ends F (outcome F codec T db0 mem)) c"
proof -
  have "driver_uint64 (rg_Generation g) = Inr (uint (rg_Generation g))"
    using assms(2) by (simp add: driver_uint64_def ok_grant_def)
  then have "insert_grant g payload = insert_row ''oauth_refresh_grants.digest'' db_grants
      (\<lambda>t. db_grants_update (\<lambda>_. t)) (rg_Digest g) \<lparr>gr_family = rg_FamilyID g,
        gr_generation = uint (rg_Generation g), gr_payload = payload, gr_consumed = None, gr_revoked = None\<rparr>"
    by (simp add: insert_grant_def unless_error_def give_def)
  then show ?thesis
    using rep_table_get_None [OF representsD(5) [OF assms(3)], of "rg_Digest g"]
    by (auto intro!: tx_insert_row [OF assms(1) outcome_tolerates] outcome_refused assms(4,5))
qed


lemma commit_exchange_refines:
  assumes "at F c db None" "represents codec T s db" "ordered_times T" "now \<in> T" "0 < now"
    and wf: "maps_wf s" and ok: "\<And>g. cec_Refresh x = Some g \<Longrightarrow> ok_grant codec T g"
  shows "wp (Sql_CommitCodeExchange codec now x p) (\<lambda>r c'. \<exists>db'. at F c' db' None \<and>
    outcome F codec T db (Mem_CommitCodeExchange now now x p s) r db') c"
proof -
  let ?s = "pruned now s" and ?db = "pruned_db now db"
  have rep: "represents codec T ?s ?db" using assms by (intro represents_pruned) simp_all
  have now: "json_time now" using assms(3,4) by (rule ordered_timesD)
  note r = representsD [OF rep]
  have active: "int (gm_count active_row (db_grants ?db)) = activeRefreshGrantCount ?s"
    unfolding activeRefreshGrantCount_def
    by (intro arg_cong [where f = int] rep_table_count [OF r(5)])
      (auto simp: active_grant_def active_row_def rep_grant_def column_holds_def)
  note simps = Mem_CommitCodeExchange_def Let_def active
  show ?thesis
    unfolding Sql_CommitCodeExchange_def
    apply (rule wp_in_tx [OF assms(1) outcome_tolerates])
    apply (rule outcome_rules, assumption)
    apply (rule outcome_select, assumption, rule r(4), simp add: simps)
    subgoal premises prems for _ _ code row c1
    proof -
      obtain e where e: "unmarshal_codeEnvelope codec (sr_payload row) = Inr e"
          "decode_code codec (sr_consumed row) e = Inr code"
        using read_code_rep [OF prems(4)] by blast
      show ?thesis
      proof (cases "ValidateCodeExchangeCommit code x now")
        case (Some err)
        show ?thesis
          apply (rule tx_give_Inr [OF e(1)], rule tx_give_Inr [OF e(2)])
          using prems(5) validate_not_revoked(3) [of code x now]
          by (auto simp: Some simps prems(3) intro!: outcome_refuse)
      next
        case None
        then obtain g where g: "cec_Refresh x = Some g" and code: "ac_ConsumedAt code = 0"
          and fresh: "rg_ConsumedAt g = 0" "rg_RevokedAt g = 0"
          by (auto simp: ValidateCodeExchangeCommit_None)
        have consumed: "rep_table (rep_code codec T)
            (gm_set (cec_CodeDigest x) (code\<lparr>ac_ConsumedAt := now\<rparr>) (st_codes ?s))
            (consume_row (cec_CodeDigest x) (rfc3339 now) (db_codes ?db))"
          using wf prems(3) code
          by (intro rep_consume [OF r(4)] rep_consumed(3) now assms(5)) simp_all
        show ?thesis
          apply (rule tx_give_Inr [OF e(1)], rule tx_give_Inr [OF e(2)])
          apply (simp only: None g prod.case option.case)
          apply (rule outcome_rules, rule prems(5))
          apply (rule outcome_rules)
           apply (rule outcome_refuse, assumption; simp add: simps prems(3) None g)
          apply (rule outcome_encode, assumption)
           apply (use ok [OF g] in \<open>simp add: ok_grant_def\<close>)
          apply (rule outcome_marshal [OF rep_new_grant [OF assms(3) ok [OF g]]], assumption,
              rule fresh, rule fresh)
          apply (rule outcome_insert_grant [OF _ ok [OF g] rep], assumption)
           apply (simp add: simps prems(3) None g)
          apply (rule outcome_rules, assumption)
          apply (rule outcome_rules, assumption)
          apply (rule outcome_done)
           apply (simp add: simps prems(3) None g)
          apply (simp add: represents_def simps prems(3) None g r r(1) [simplified] rep_table_insert
              consumed)
          done
      qed
    qed
    done
qed

lemma consume_then_insert:
  assumes "rep_table (rep_grant codec T) m t" "gm_wf m" "gm_get m d = Some g" "rg_ConsumedAt g = 0"
    and "json_time now" "0 < now" "gm_get m d' = None" "rep_grant codec T g' row"
  shows "rep_table (rep_grant codec T) (gm_set d' g' (gm_set d (g\<lparr>rg_ConsumedAt := now\<rparr>) m))
    (consume_grant d (rfc3339 now) (t @ [(d', row)]))"
proof -
  have "consume_grant d (rfc3339 now) (t @ [(d', row)]) = consume_grant d (rfc3339 now) t @ [(d', row)]"
    using assms(3,7) by (auto simp: consume_grant_def update_rows_def)
  moreover have "rep_table (rep_grant codec T) (gm_set d (g\<lparr>rg_ConsumedAt := now\<rparr>) m)
      (consume_grant d (rfc3339 now) t)"
    unfolding consume_grant_def
    by (rule rep_table_set [OF assms(1-3)], drule rep_consumed(4) [OF assms(5,6) _ assms(4)], simp)
  moreover have "gm_get (gm_set d (g\<lparr>rg_ConsumedAt := now\<rparr>) m) d' = None"
    using assms(3,7) by auto
  ultimately show ?thesis
    using rep_table_insert [of _ _ _ d' g' row] assms(8) by simp
qed

lemma commit_rotation_refines:
  assumes "at F c db None" "represents codec T s db" "ordered_times T" "now \<in> T" "0 < now"
    and wf: "maps_wf s" and ok: "ok_grant codec T (rr_Successor x)"
  shows "wp (Sql_CommitRefreshRotation codec now x p) (\<lambda>r c'. \<exists>db'. at F c' db' None \<and>
    outcome F codec T db (Mem_CommitRefreshRotation now now x p s) r db') c"
proof -
  let ?s = "pruned now s" and ?db = "pruned_db now db"
  have rep: "represents codec T ?s ?db" using assms by (intro represents_pruned) simp_all
  have now: "json_time now" using assms(3,4) by (rule ordered_timesD)
  note r = representsD [OF rep]
  note simps = Mem_CommitRefreshRotation_def Let_def
  show ?thesis
    unfolding Sql_CommitRefreshRotation_def Let_def
    apply (rule wp_in_tx [OF assms(1) outcome_tolerates])
    apply (rule outcome_rules, assumption)
    apply (rule outcome_select, assumption, rule r(5), simp add: simps)
    subgoal premises prems for _ _ current row c1
    proof -
      have row: "gr_family row = rg_FamilyID current" "gr_generation row = uint (rg_Generation current)"
        "gr_consumed row = None \<longleftrightarrow> rg_ConsumedAt current = 0"
        "gr_revoked row = None \<longleftrightarrow> rg_RevokedAt current = 0"
        using prems(4) by (auto simp: rep_grant_def column_holds_None)
      show ?thesis
      proof (cases "rg_FamilyID current \<noteq> rr_FamilyID x \<or> rg_Generation current \<noteq> rr_Generation x")
        case True
        then have "gr_family row \<noteq> rr_FamilyID x \<or> gr_generation row \<noteq> uint (rr_Generation x)"
          using row(1,2) by (auto simp: word_uint_eq_iff)
        then show ?thesis
          by (rule wp_if_True)
            (rule outcome_refuse [OF prems(5)]; use True in \<open>auto simp: simps prems(3)\<close>)
      next
        case binding: False
        show ?thesis
        proof (cases "rg_ConsumedAt current \<noteq> 0 \<or> rg_RevokedAt current \<noteq> 0")
          case True
          with row binding show ?thesis
            apply simp
            apply (intro conjI impI outcome_revoke_all [OF prems(5) rep now assms(5)])
            apply (auto simp: simps prems(3))
            done
        next
          case False
          then have live: "rg_ConsumedAt current = 0" "rg_RevokedAt current = 0" by simp_all
          then have same: "current\<lparr>rg_ConsumedAt := 0, rg_RevokedAt := 0\<rparr> = current" by simp
          obtain e where e: "unmarshal_refreshEnvelope codec (gr_payload row) = Inr e"
              "decodeRefresh codec e = Inr current"
            using decode_grant_rep [OF prems(4), unfolded same] by blast
          let ?succ = "rr_Successor x"
          have mem: "Mem_CommitRefreshRotation now now x p s =
              (case ValidateRefreshRotation current x now of
                 Some err \<Rightarrow> (Some err, ?s)
               | None \<Rightarrow>
                   if rg_Generation ?succ \<ge> cap_MaxRefreshGenerations (sp_Capacity p)
                   then (Some ErrRevoked, revokeFamily (rr_FamilyID x) now ?s)
                   else if gm_get (st_refresh ?s) (rg_Digest ?succ) \<noteq> None then (Some ErrConflict, ?s)
                   else (None, ?s\<lparr>st_refresh := gm_set (rg_Digest ?succ) ?succ
                     (gm_set (rr_CurrentDigest x) (current\<lparr>rg_ConsumedAt := now\<rparr>) (st_refresh ?s))\<rparr>))"
            using binding live by (simp add: simps prems(3))
          show ?thesis
            apply (rule wp_if_False, use row(1,2) binding in simp)
            apply (rule wp_if_False, use row(3,4) live in simp)
            apply (rule tx_give_Inr [OF e(1)], rule tx_give_Inr [OF e(2)])
            apply (rule outcome_check [OF prems(5) validate_not_revoked(4) [OF live(2)]])
             apply (simp add: mem)
            apply (rule wp_if)
             apply (rule outcome_revoke_all [OF prems(5) rep now assms(5)])
             apply (simp add: mem)
            apply (rule outcome_encode [OF prems(5)])
             apply (use ok in \<open>simp add: ok_grant_def\<close>)
            apply (rule outcome_marshal [OF rep_new_grant [OF assms(3) ok]], assumption)
              apply (simp add: ValidateRefreshRotation_None)
             apply (simp add: ValidateRefreshRotation_None)
            apply (rule outcome_insert_grant [OF prems(5) ok rep])
             apply (simp add: mem)
            apply (rule outcome_rules, assumption)
            apply (rule outcome_rules, assumption)
            apply (rule outcome_done)
             apply (simp add: mem)
            apply (simp add: represents_def mem r r(1) [simplified])
            apply (rule consume_then_insert [OF r(5) _ prems(3) live(1) now assms(5)])
              apply (use wf in simp)
             apply assumption
            apply assumption
            done
        qed
      qed
    qed
    done
qed


section \<open>Clients\<close>

lemma touch_client_refines:
  assumes "at F c db None" "represents codec T s db" "now \<in> T" and wf: "maps_wf s"
  shows "wp (Sql_TouchClient cid now) (\<lambda>r c'. \<exists>db'. at F c' db' None \<and>
    outcome F codec T db (Mem_TouchClient cid now s) r db') c"
proof -
  note r = representsD [OF assms(2)]
  let ?rows = "update_rows (\<lambda>k _. k = cid) (\<lambda>row. row\<lparr>row_used := Some (rfc3339 now)\<rparr>) (db_clients db)"
  have count: "filter (\<lambda>(k, _). k = cid) (db_clients db) = [] \<longleftrightarrow> gm_get (st_clients s) cid = None"
    unfolding rep_table_get_None [OF r(1), symmetric]
    by (force simp: filter_empty_conv map_of_eq_None_iff)
  have rep: "represents codec T (snd (Mem_TouchClient cid now s)) (db\<lparr>db_clients := ?rows\<rparr>)"
  proof (cases "gm_get (st_clients s) cid")
    case None
    then have "cid \<notin> set (gm_keys (db_clients db))"
      using rep_table_get_None [OF r(1), of cid] by (simp add: map_of_eq_None_iff)
    then have "?rows = db_clients db"
      using update_rows_other [of cid "db_clients db" "\<lambda>_. True"] by simp
    with None assms(2) show ?thesis by (simp add: Mem_TouchClient_def)
  next
    case (Some cl)
    have "rep_table (rep_client T) (gm_set cid (cl\<lparr>cl_LastUsedAt := now\<rparr>) (st_clients s))
        (update_rows (\<lambda>k row. k = cid \<and> True) (\<lambda>row. row\<lparr>row_used := Some (rfc3339 now)\<rparr>) (db_clients db))"
      by (rule rep_table_set [OF r(1) _ Some]) (use wf assms(3) in \<open>auto simp: rep_client_def\<close>)
    with Some r show ?thesis by (simp add: Mem_TouchClient_def represents_def)
  qed
  show ?thesis
    unfolding Sql_TouchClient_def wp_unless_error exec_count_def
  proof (rule wp_statement [OF assms(1)])
    show "cn_current c = db" using assms(1) by (simp add: at_def cn_current_def)
  next
    fix c' and x :: "int result" and db'
    assume "at F c' (case None of None \<Rightarrow> db' | Some _ \<Rightarrow> db) (map_option (\<lambda>_. db') None)"
      "(case (int (length (filter (\<lambda>(k, _). k = cid) (db_clients db))), db\<lparr>db_clients := ?rows\<rparr>) of
        (n, db') \<Rightarrow> (Inr n, db')) = (x, db')"
    with rep count show "case x of Inl err \<Rightarrow> \<exists>db'. at F c' db' None \<and>
          outcome F codec T db (Mem_TouchClient cid now s) (Inl err) db'
        | Inr n \<Rightarrow> wp (if n = 0 then give (Inl ErrNotFound) else give (Inr ()))
          (\<lambda>r c'. \<exists>db'. at F c' db' None \<and> outcome F codec T db (Mem_TouchClient cid now s) r db') c'"
      by (auto simp: wp_simps outcome_def result_error_def Mem_TouchClient_def split: option.splits)
  next
    fix err c'
    assume "at F c' db None" "F err"
    then show "case Inl err of Inl err \<Rightarrow> \<exists>db'. at F c' db' None \<and>
          outcome F codec T db (Mem_TouchClient cid now s) (Inl err) db'
        | Inr n \<Rightarrow> wp (if n = 0 then give (Inl ErrNotFound) else give (Inr ()))
          (\<lambda>r c'. \<exists>db'. at F c' db' None \<and> outcome F codec T db (Mem_TouchClient cid now s) r db') c'"
      by (auto simp: outcome_fault)
  qed
qed

lemma live_owners_rep:
  assumes "ordered_times T" "now \<in> T" "rep_table R m t"
    and "\<And>v row. R v row \<Longrightarrow> extract_text (sr_payload row) owner_path = Some (owner v) \<and>
      extract_text (sr_payload row) path = Some (rfc3339 (expiry v)) \<and> expiry v \<in> T \<and>
      (sr_consumed row = None \<longleftrightarrow> consumed v = 0)"
  shows "live_owners owner_path path (rfc3339 now) t =
    map (\<lambda>(_, v). Some (owner v)) (filter (\<lambda>(_, v). consumed v = 0 \<and> now < expiry v) m)"
  using assms(3)
  by (induction rule: rep_table_induct)
    (use assms(4) ordered_timesD(3) [OF assms(1,2)] in \<open>auto simp: live_owners_def sql_gt_def\<close>)

lemma live_grant_owners_rep:
  assumes "ordered_times T" "now \<in> T" "rep_table (rep_grant codec T) m t"
  shows "live_grant_owners (rfc3339 now) t =
    map (\<lambda>(_, g). Some (rg_ClientID g)) (filter (\<lambda>(_, g). rg_RevokedAt g = 0 \<and> now < rg_ExpiresAt g) m)"
  using assms(3)
  by (induction rule: rep_table_induct)
    (use ordered_timesD(3) [OF assms(1,2)] in
      \<open>auto simp: live_grant_owners_def sql_gt_def rep_grant_def column_holds_def\<close>)

lemma live_clients_rep:
  assumes "ordered_times T" "now \<in> T" "represents codec T s db"
  shows "sql_not_in cid (live_clients (rfc3339 now) db) \<longleftrightarrow> \<not> clientHasLiveState s cid now"
proof -
  note r = representsD [OF assms(3)]
  have "live_clients (rfc3339 now) db =
     map (\<lambda>(_, v). Some (at_ClientID v))
       (filter (\<lambda>(_, v). at_ConsumedAt v = 0 \<and> now < at_ExpiresAt v) (st_authorizers s)) @
     map (\<lambda>(_, v). Some (snap_ID (cs_Client v)))
       (filter (\<lambda>(_, v). cs_ConsumedAt v = 0 \<and> now < cs_ExpiresAt v) (st_consents s)) @
     map (\<lambda>(_, v). Some (ac_ClientID v))
       (filter (\<lambda>(_, v). ac_ConsumedAt v = 0 \<and> now < ac_ExpiresAt v) (st_codes s)) @
     map (\<lambda>(_, g). Some (rg_ClientID g))
       (filter (\<lambda>(_, g). rg_RevokedAt g = 0 \<and> now < rg_ExpiresAt g) (st_refresh s))"
    unfolding live_clients_def live_grant_owners_rep [OF assms(1,2) r(5)]
    by (intro arg_cong2 [where f = append] live_owners_rep [OF assms(1,2) r(2)]
        live_owners_rep [OF assms(1,2) r(3)] live_owners_rep [OF assms(1,2) r(4)] refl)
      (auto simp: rep_authorization_def rep_consent_def rep_code_def column_holds_None)
  then show ?thesis
    by (auto simp: sql_not_in_def clientHasLiveState_def list_ex_iff)
qed

lemma stale_rep:
  assumes "ordered_times T" "now \<in> T" "represents codec T s db"
    and "time_Add now (- rp_UnverifiedClientTTL (sp_Registration p)) \<in> T" "rep_client T cl row"
  shows "(sql_le (row_used row) (rfc3339 (time_Add now (- rp_UnverifiedClientTTL (sp_Registration p)))) \<and>
      sql_eq (extract_text (row_payload row) [''Trust'']) ClientTrustUnverified \<and>
      sql_not_in cid (live_clients (rfc3339 now) db)) \<longleftrightarrow> stale_client s p now cid cl"
  using assms(5) ordered_timesD(2) [OF assms(1) _ assms(4)]
  unfolding live_clients_rep [OF assms(1-3)]
  by (auto simp: rep_client_def stale_client_def sql_le_def sql_eq_def not_less)


lemma register_client_refines:
  assumes "at F c db None" "represents codec T s db" "ordered_times T" "now \<in> T" "0 < now"
    and wf: "maps_wf s" and ok: "ok_client T client"
    and ttl: "time_Add now (- rp_UnverifiedClientTTL (sp_Registration p)) \<in> T"
  shows "wp (Sql_RegisterClient now client p) (\<lambda>r c'. \<exists>db'. at F c' db' None \<and>
    outcome F codec T db (Mem_RegisterClient now client p (pruned now s)) r db') c"
proof -
  let ?s = "pruned now s" and ?db = "pruned_db now db"
  have rep: "represents codec T ?s ?db" using assms by (intro represents_pruned) simp_all
  note r = representsD [OF rep]
  let ?rows = "gm_delete_if (\<lambda>cid row. sql_le (row_used row)
        (rfc3339 (time_Add now (- rp_UnverifiedClientTTL (sp_Registration p)))) \<and>
      sql_eq (extract_text (row_payload row) [''Trust'']) ClientTrustUnverified \<and>
      sql_not_in cid (live_clients (rfc3339 now) ?db)) (db_clients ?db)"
  have rows: "rep_table (rep_client T) (gm_delete_if (stale_client ?s p now) (st_clients ?s)) ?rows"
    by (rule rep_table_delete [OF r(1)]) (simp add: stale_rep [OF assms(3,4) rep ttl])
  obtain payload where payload: "marshal_Client client = Inr payload"
      "\<And>created. rep_client T client \<lparr>row_payload = payload, row_created = created,
        row_used = Some (rfc3339 (cl_LastUsedAt client))\<rparr>"
    using rep_new_client [OF assms(3) ok] by blast
  have clone: "cloneClient client = client"
    using ok by (simp add: cloneClient_id ok_client_def)
  note simps = Mem_RegisterClient_def Let_def rep_table_length [OF rows]
    rep_table_get_None [OF rows] clone
  show ?thesis
    unfolding Sql_RegisterClient_def pruneClientsTx_def Let_def
    apply (rule wp_in_tx [OF assms(1) outcome_tolerates])
    apply (rule outcome_rules, assumption)
    apply (rule outcome_rules, assumption)
    apply (rule outcome_rules, assumption)
    apply (simp only: snd_conv)
    apply (rule outcome_rules)
     apply (rule outcome_refuse, assumption; simp add: simps)
    apply (rule tx_give_Inr [OF payload(1)])
    apply (rule outcome_rules, assumption)
     apply (rule outcome_refused; simp add: simps)
    apply (rule outcome_rules, assumption)
    apply (rule outcome_done)
     apply (simp add: simps)
    using r rows payload(2)
    apply (simp add: represents_def simps rep_table_insert)
    done
qed

section \<open>Reads\<close>

text \<open>A read answers what the in-memory store answers, without the raw token, or fails.\<close>

definition answers :: "(go_error \<Rightarrow> bool) \<Rightarrow> DB \<Rightarrow> 'b result \<Rightarrow> 'b result \<Rightarrow> Conn \<Rightarrow> bool" where
  "answers F db expected r c \<longleftrightarrow> at F c db None \<and> (r = expected \<or> (\<exists>err. r = Inl err \<and> F err))"

lemma answers_query:
  assumes "at F c db None" and "\<And>c'. at F c' db None \<Longrightarrow> wp (k (f db)) (answers F db x) c'"
  shows "wp (unless_error (query f) k) (answers F db x) c"
  unfolding wp_unless_error query_def
  by (rule wp_statement [OF assms(1)])
    (use assms in \<open>auto simp: at_def cn_current_def answers_def\<close>)

lemma answers_select:
  assumes "at F c db None" "rep_table R m (table db)"
    and "gm_get m d = None \<Longrightarrow> expected = Inl ErrNotFound"
    and "\<And>v row c'. gm_get m d = Some v \<Longrightarrow> R v row \<Longrightarrow> at F c' db None \<Longrightarrow>
      wp (k row) (answers F db expected) c'"
  shows "wp (unless_error (select_row table d) k) (answers F db expected) c"
  unfolding select_row_def unless_error_assoc
proof (rule answers_query [OF assms(1)])
  fix c'
  assume c': "at F c' db None"
  show "wp (unless_error (give (case gm_get (table db) d of None \<Rightarrow> Inl ErrNotFound | Some row \<Rightarrow> Inr row)) k)
      (answers F db expected) c'"
    by (cases rule: rep_table_getE [OF assms(2), of d])
      (use c' assms(3,4) in \<open>auto simp: wp_unless_error wp_simps answers_def\<close>)
qed

lemma answers_give: "at F c db None \<Longrightarrow> r = x \<Longrightarrow> wp (give r) (answers F db x) c"
  by (simp add: wp_simps answers_def)

lemma get_authorization_answers:
  assumes "at F c db None" "represents codec T s db"
  shows "wp (Sql_GetAuthorization d) (answers F db
    (map_sum id (at_Token_update (\<lambda>_. [])) (Mem_GetAuthorization d s))) c"
  unfolding Sql_GetAuthorization_def
  by (rule answers_select, rule assms(1), rule representsD(2) [OF assms(2)])
    (auto simp: Mem_GetAuthorization_def intro!: answers_give dest: read_authorization_rep)

lemma get_consent_answers:
  assumes "at F c db None" "represents codec T s db"
  shows "wp (Sql_GetConsent codec d) (answers F db
    (map_sum id (cs_Token_update (\<lambda>_. [])) (Mem_GetConsent d s))) c"
  unfolding Sql_GetConsent_def
  by (rule answers_select, rule assms(1), rule representsD(3) [OF assms(2)])
    (auto simp: Mem_GetConsent_def intro!: answers_give dest: read_consent_rep)

lemma get_code_answers:
  assumes "at F c db None" "represents codec T s db"
  shows "wp (Sql_GetCodeForExchange codec b) (answers F db (Mem_GetCodeForExchange b s)) c"
  unfolding Sql_GetCodeForExchange_def
proof (rule answers_select, rule assms(1), rule representsD(4) [OF assms(2)])
  fix v row c'
  assume "gm_get (st_codes s) (ceb_Digest b) = Some v" "rep_code codec T v row" "at F c' db None"
  with read_code_rep [of codec T v row] show "wp (unless_error (give (unmarshal_codeEnvelope codec (sr_payload row)))
      (\<lambda>envelope. if ac_ClientID (fst envelope) \<noteq> ceb_ClientID b \<or>
          ac_RedirectURI (fst envelope) \<noteq> ceb_RedirectURI b then give (Inl ErrBinding)
        else give (decode_code codec (sr_consumed row) envelope)))
      (answers F db (Mem_GetCodeForExchange b s)) c'"
    by (auto simp: wp_unless_error wp_simps Mem_GetCodeForExchange_def answers_def)
qed (simp add: Mem_GetCodeForExchange_def)

lemma get_grant_answers:
  assumes "at F c db None" "represents codec T s db"
  shows "wp (Sql_GetRefreshGrant codec d) (answers F db (Mem_GetRefreshGrant d s)) c"
  unfolding Sql_GetRefreshGrant_def
proof (rule answers_select, rule assms(1), rule representsD(5) [OF assms(2)])
  fix v row c'
  assume g: "gm_get (st_refresh s) d = Some v" "rep_grant codec T v row" "at F c' db None"
  then have "column_or (gr_consumed row) 0 = rg_ConsumedAt v" "column_or (gr_revoked row) 0 = rg_RevokedAt v"
    by (simp_all add: rep_grant_def column_or_holds)
  with g decode_grant_rep [OF g(2)] show "wp (unless_error (give (unmarshal_refreshEnvelope codec (gr_payload row)))
      (\<lambda>envelope. unless_error (give (decodeRefresh codec envelope)) (\<lambda>grant.
        give (Inr (grant\<lparr>rg_ConsumedAt := column_or (gr_consumed row) (rg_ConsumedAt grant),
          rg_RevokedAt := column_or (gr_revoked row) (rg_RevokedAt grant)\<rparr>)))))
      (answers F db (Mem_GetRefreshGrant d s)) c'"
    by (auto simp: wp_unless_error wp_simps Mem_GetRefreshGrant_def answers_def)
qed (simp add: Mem_GetRefreshGrant_def)

lemma get_client_answers:
  assumes "at F c db None" "represents codec T s db" "ordered_times T" "maps_wf s"
  shows "wp (Sql_GetClient cid) (answers F db (Mem_GetClient cid s)) c"
  unfolding Sql_GetClient_def
proof (rule answers_query [OF assms(1)])
  fix c'
  assume c': "at F c' db None"
  show "wp (case gm_get (db_clients db) cid of
        None \<Rightarrow> give (Inl ErrNotFound)
      | Some row \<Rightarrow>
          (case row_used row of
             None \<Rightarrow> give (Inl (OtherError ''sql: converting NULL to string is unsupported''))
           | Some used \<Rightarrow>
               (case unmarshal_Client (row_payload row) of
                  Inl err \<Rightarrow> give (Inl (WrapError ''decode client'' err))
                | Inr client \<Rightarrow>
                    (case time_Parse used of
                       None \<Rightarrow> give (Inl (WrapError ''decode client activity''
                         (OtherError ''parsing time'')))
                     | Some t \<Rightarrow> give (Inr (client\<lparr>cl_LastUsedAt := t\<rparr>))))))
      (answers F db (Mem_GetClient cid s)) c'"
  proof (cases rule: rep_table_getE [OF representsD(1) [OF assms(2)], of cid])
    case 1
    with c' show ?thesis by (simp add: wp_simps answers_def Mem_GetClient_def)
  next
    case (2 v row)
    then have "time_Parse (rfc3339 (cl_LastUsedAt v)) = Some (cl_LastUsedAt v)"
      using assms(3) ordered_timesD(1) [of T]
      by (auto simp: rep_client_def json_time_def intro!: time_Parse_rfc3339)
    moreover have "cloneClient v = v"
      using maps_wf_client [OF assms(4) 2(1)] by (simp add: cloneClient_id)
    ultimately show ?thesis
      using 2 c' by (auto simp: wp_simps answers_def Mem_GetClient_def rep_client_def)
  qed
qed

lemma prune_answers:
  assumes "at F c db None" "represents codec T s db" "ordered_times T" "now \<in> T" "0 < now"
  shows "wp (Sql_Prune now) (\<lambda>r c'. \<exists>db'. at F c' db' None \<and>
    ((\<exists>err. r = Inl err \<and> F err \<and> db' = db) \<or>
     r = fst (Mem_Prune now p s) \<and> represents codec T (pruned now s) db')) c"
proof -
  let ?db = "pruned_db now db"
  let ?P = "\<lambda>r db'. (\<exists>err. r = Inl err \<and> F err \<and> db' = db) \<or>
     r = fst (Mem_Prune now p s) \<and> represents codec T (pruned now s) db'"
  have rep: "represents codec T (pruned now s) ?db" using assms by (intro represents_pruned) simp_all
  have t: "tolerates F ?P db" by (simp add: tolerates_def)
  note r = representsD [OF assms(2)] and r' = representsD [OF rep]
  have "prune_stats db ?db = fst (pruneExpired now s)"
    using rep_table_length [OF r(2)] rep_table_length [OF r(3)] rep_table_length [OF r(4)]
      rep_table_length [OF r(5)] rep_table_length [OF r'(2)] rep_table_length [OF r'(3)]
      rep_table_length [OF r'(4)] rep_table_length [OF r'(5)]
    by (simp add: prune_stats_def removed_def pruneExpired_def Let_def)
  then have stats: "Inr (prune_stats db ?db) = fst (Mem_Prune now p s)"
    by (simp add: Mem_Prune_def split: prod.splits)
  show ?thesis
    unfolding Sql_Prune_def
    apply (rule wp_in_tx [OF assms(1) t])
    apply (rule tx_prune [OF _ t], assumption)
    apply (rule tx_Commit_then [OF _ t], assumption)
    using rep stats by simp
qed

lemma counts_answers:
  assumes "at F c db None" "represents codec T s db"
  shows "wp Sql_Counts (answers F db (Mem_Counts s)) c"
  unfolding Sql_Counts_def count_rows_def
  apply (rule answers_query [OF assms(1)])
  apply (rule answers_query, assumption)+
  apply (rule answers_give, assumption)
  using representsD [OF assms(2), THEN rep_table_length] by (simp add: Mem_Counts_def)

end
