(* ===== verification/Sqlite_Trace.thy ===== *)
theory Sqlite_Trace
  imports Sqlite_Refines Families Capacity
begin

text \<open>
  Sequences of calls of the SQLite store.  A run of it corresponds to a run of the in-memory store
  with the same successes, so what holds of every run of the latter holds here.
\<close>

definition no_value :: "(Conn, 'b result) state \<Rightarrow> (Conn, unit result) state" where
  "no_value m = unless_error m (\<lambda>_. give (Inr ()))"

text \<open>The SQLite store reads its clock once per method.\<close>

fun sql_call :: "'a PrincipalCodec \<Rightarrow> StatePolicy \<Rightarrow> 'a store_call \<Rightarrow> (Conn, unit result) state" where
  "sql_call codec p (RegisterClient now client) = Sql_RegisterClient now client p"
| "sql_call codec p (TouchClient cid t) = Sql_TouchClient cid t"
| "sql_call codec p (CreateAuthorization t1 a) = Sql_CreateAuthorization t1 a p"
| "sql_call codec p (CommitLogin t1 t2 c) = Sql_CommitLogin codec t1 c p"
| "sql_call codec p (CommitConsent t1 t2 c) = no_value (Sql_CommitConsent codec t1 c p)"
| "sql_call codec p (CommitCodeExchange t1 t2 c) = Sql_CommitCodeExchange codec t1 c p"
| "sql_call codec p (CommitRefreshRotation t1 t2 r) = Sql_CommitRefreshRotation codec t1 r p"
| "sql_call codec p (RevokeRefreshFamily f t) = Sql_RevokeRefreshFamily f t"
| "sql_call codec p (Prune t) = no_value (Sql_Prune t)"

definition sql_step ::
  "'a PrincipalCodec \<Rightarrow> StatePolicy \<Rightarrow> 'a store_call \<Rightarrow> Conn \<Rightarrow> go_error option \<times> Conn" where
  "sql_step codec p call c = (case run_state (sql_call codec p call) c of (r, c') \<Rightarrow> (result_error r, c'))"

text \<open>What the calls are assumed to carry: storable records and times on which the order of the
  texts is that of the times.\<close>

fun ok_call :: "'a PrincipalCodec \<Rightarrow> time set \<Rightarrow> StatePolicy \<Rightarrow> 'a store_call \<Rightarrow> bool" where
  "ok_call codec T p (RegisterClient now client) \<longleftrightarrow> now \<in> T \<and> 0 < now \<and> ok_client T client \<and>
     time_Add now (- rp_UnverifiedClientTTL (sp_Registration p)) \<in> T"
| "ok_call codec T p (TouchClient cid t) \<longleftrightarrow> t \<in> T \<and> 0 < t"
| "ok_call codec T p (CreateAuthorization t1 a) \<longleftrightarrow> t1 \<in> T \<and> 0 < t1 \<and> ok_authorization T a"
| "ok_call codec T p (CommitLogin t1 t2 c) \<longleftrightarrow>
     t1 \<in> T \<and> 0 < t1 \<and> t2 = t1 \<and> ok_consent codec T (lco_Consent c)"
| "ok_call codec T p (CommitConsent t1 t2 c) \<longleftrightarrow> t1 \<in> T \<and> 0 < t1 \<and> t2 = t1 \<and>
     (cco_Decision c = ConsentDecisionApprove \<longrightarrow> ok_code codec T (cco_Code c))"
| "ok_call codec T p (CommitCodeExchange t1 t2 c) \<longleftrightarrow> t1 \<in> T \<and> 0 < t1 \<and> t2 = t1 \<and>
     (case cec_Refresh c of None \<Rightarrow> True | Some g \<Rightarrow> ok_grant codec T g)"
| "ok_call codec T p (CommitRefreshRotation t1 t2 r) \<longleftrightarrow>
     t1 \<in> T \<and> 0 < t1 \<and> t2 = t1 \<and> ok_grant codec T (rr_Successor r)"
| "ok_call codec T p (RevokeRefreshFamily f t) \<longleftrightarrow> t \<in> T \<and> 0 < t"
| "ok_call codec T p (Prune t) \<longleftrightarrow> t \<in> T \<and> 0 < t"

lemma ok_call_clock_set: "ok_call codec T p call \<Longrightarrow> clock_set call"
  by (cases call) auto

text \<open>The SQLite store prunes before it registers a client, the in-memory store does not.\<close>

fun before_call :: "'a store_call \<Rightarrow> 'a store_call list" where
  "before_call (RegisterClient now client) = [Prune now]"
| "before_call _ = []"

definition disk_step :: "StatePolicy \<Rightarrow> 'a store_call \<Rightarrow> 'a Store \<Rightarrow> go_error option \<times> 'a Store" where
  "disk_step p call s = store_step p call (snd (run (store_step p) (before_call call) s))"

lemma outcome_no_value:
  "outcome F codec T db mem r db' \<Longrightarrow> outcome F codec T db mem (map_sum id (\<lambda>_. ()) r) db'"
  by (cases r) (auto simp: outcome_def result_error_def)

lemma wp_no_value:
  assumes "wp m (\<lambda>r c'. Q (map_sum id (\<lambda>_. ()) r) c') c"
  shows "wp (no_value m) Q c"
  unfolding no_value_def wp_unless_error
  by (rule wp_mono [OF assms]) (auto simp: wp_simps split: sum.splits)

lemma sql_call_outcome:
  assumes "at F c db None" "represents codec T s db" "ordered_times T" "maps_wf s"
    and "ok_call codec T p call"
  shows "wp (sql_call codec p call) (\<lambda>r c'. \<exists>db'. at F c' db' None \<and>
    outcome F codec T db (disk_step p call s) r db') c"
proof (cases call)
  case (RegisterClient now client)
  with assms show ?thesis by (simp add: disk_step_def register_client_refines)
next
  case (TouchClient cid t)
  with assms show ?thesis by (simp add: disk_step_def touch_client_refines)
next
  case (CreateAuthorization t1 a)
  with assms show ?thesis by (simp add: disk_step_def create_authorization_refines)
next
  case (CommitLogin t1 t2 l)
  with assms show ?thesis by (simp add: disk_step_def commit_login_refines)
next
  case (CommitConsent t1 t2 x)
  with assms have "wp (Sql_CommitConsent codec t1 x p) (\<lambda>r c'. \<exists>db'. at F c' db' None \<and>
      outcome F codec T db (disk_step p call s) r db') c"
    by (simp add: disk_step_def commit_consent_refines)
  then show ?thesis
    unfolding CommitConsent sql_call.simps
    by (intro wp_no_value) (auto elim!: wp_mono intro: outcome_no_value)
next
  case (CommitCodeExchange t1 t2 x)
  with assms show ?thesis
    by (auto simp: disk_step_def intro!: commit_exchange_refines split: option.splits)
next
  case (CommitRefreshRotation t1 t2 x)
  with assms show ?thesis by (simp add: disk_step_def commit_rotation_refines)
next
  case (RevokeRefreshFamily f t)
  with assms show ?thesis
    using ordered_timesD(1) [OF assms(3)] by (simp add: disk_step_def revoke_family_refines)
next
  case (Prune t)
  with assms have "wp (Sql_Prune t) (\<lambda>r c'. \<exists>db'. at F c' db' None \<and>
    ((\<exists>err. r = Inl err \<and> F err \<and> db' = db) \<or>
     r = fst (Mem_Prune t p s) \<and> represents codec T (pruned t s) db')) c"
    by (intro prune_answers) simp_all
  then show ?thesis
    unfolding Prune sql_call.simps
    by (intro wp_no_value)
      (auto elim!: wp_mono simp: outcome_def disk_step_def result_error_def Mem_Prune_def
        split: prod.splits)
qed

section \<open>Runs\<close>

fun is_prune :: "'a store_call \<Rightarrow> bool" where
  "is_prune (Prune t) \<longleftrightarrow> True"
| "is_prune _ \<longleftrightarrow> False"

definition successes :: "('a store_call \<times> go_error option) list \<Rightarrow> 'a store_call list" where
  "successes log = map fst (filter (\<lambda>(call, r). r = None \<and> \<not> is_prune call) log)"

lemma successes_append: "successes (xs @ ys) = successes xs @ successes ys"
  by (simp add: successes_def)

lemma run_maps_wf: "run (store_step p) cs s = (log, s') \<Longrightarrow> maps_wf s \<Longrightarrow> maps_wf s'"
  by (induction cs arbitrary: s log) (auto split: prod.splits dest: store_step_maps_wf)

lemma before_call_run:
  "\<exists>log. run (store_step p) (before_call call) s = (log, snd (run (store_step p) (before_call call) s)) \<and>
     successes log = []"
  by (cases call) (simp_all add: successes_def)

lemma before_call_clock: "ok_call codec T p call \<Longrightarrow> list_all clock_set (before_call call)"
  by (cases call) simp_all

text \<open>One call of the SQLite store is no call of the in-memory store, or the call itself with the
  pruning before it.\<close>

lemma sql_step_simulates:
  assumes "at F c db None" "represents codec T s db" "ordered_times T" "maps_wf s"
    and "ok_call codec T p call" and "sql_step codec p call c = (r, c')"
  shows "\<exists>cs log s' db'. list_all clock_set cs \<and> run (store_step p) cs s = (log, s') \<and>
    at F c' db' None \<and> represents codec T s' db' \<and> successes log = successes [(call, r)]"
proof -
  obtain x where x: "run_state (sql_call codec p call) c = (x, c')" "r = result_error x"
    using assms(6) by (auto simp: sql_step_def split: prod.splits)
  obtain db' where db': "at F c' db' None" "outcome F codec T db (disk_step p call s) x db'"
    using wpD [OF sql_call_outcome [OF assms(1-5)] x(1)] by blast
  obtain log0 s0 where pre: "run (store_step p) (before_call call) s = (log0, s0)"
      "s0 = snd (run (store_step p) (before_call call) s)" "successes log0 = []"
    using before_call_run [of p call s] by blast
  consider (stays) "r \<noteq> None" "db' = db"
    | (goes) "r = fst (disk_step p call s)" "represents codec T (snd (disk_step p call s)) db'"
    using db'(2) x(2) by (auto simp: outcome_def result_error_def)
  then show ?thesis
  proof cases
    case stays
    then have "list_all clock_set []" "run (store_step p) [] s = ([], s)"
        "successes [] = successes [(call, r)]"
      by (simp_all add: successes_def)
    with stays db'(1) assms(2) show ?thesis by blast
  next
    case goes
    have "run (store_step p) (before_call call @ [call]) s =
        (log0 @ [(call, r)], snd (disk_step p call s))"
      by (simp add: run_append pre(1) goes(1) disk_step_def flip: pre(2) split: prod.splits)
    moreover have "list_all clock_set (before_call call @ [call])"
      using before_call_clock [OF assms(5)] ok_call_clock_set [OF assms(5)] by simp
    moreover have "successes (log0 @ [(call, r)]) = successes [(call, r)]"
      by (simp add: successes_append pre(3))
    ultimately show ?thesis using db'(1) goes(2) by blast
  qed
qed

lemma sql_run_simulates:
  assumes "at F c db None" "represents codec T s db" "ordered_times T" "maps_wf s"
    and "list_all (ok_call codec T p) calls" and "run (sql_step codec p) calls c = (log, c')"
  shows "\<exists>cs log' s' db'. list_all clock_set cs \<and> run (store_step p) cs s = (log', s') \<and>
    at F c' db' None \<and> represents codec T s' db' \<and> successes log' = successes log"
  using assms(1,2,4-)
proof (induction calls arbitrary: c db s log)
  case Nil
  then have "list_all clock_set []" "run (store_step p) [] s = ([], s)" "successes [] = successes log"
      "c' = c"
    by simp_all
  with Nil show ?case by blast
next
  case (Cons call calls)
  from Cons.prems(5) obtain r c1 log1 where step: "sql_step codec p call c = (r, c1)"
    and rest: "run (sql_step codec p) calls c1 = (log1, c')" and log: "log = (call, r) # log1"
    by (auto split: prod.splits)
  obtain cs1 l1 s1 db1 where 1: "list_all clock_set cs1" "run (store_step p) cs1 s = (l1, s1)"
      "at F c1 db1 None" "represents codec T s1 db1" "successes l1 = successes [(call, r)]"
    using sql_step_simulates [OF Cons.prems(1,2) assms(3) Cons.prems(3) _ step] Cons.prems(4) by auto
  obtain cs2 l2 s2 db2 where 2: "list_all clock_set cs2" "run (store_step p) cs2 s1 = (l2, s2)"
      "at F c' db2 None" "represents codec T s2 db2" "successes l2 = successes log1"
    using Cons.IH [OF 1(3,4) run_maps_wf [OF 1(2) Cons.prems(3)] _ rest] Cons.prems(4) by auto
  have "run (store_step p) (cs1 @ cs2) s = (l1 @ l2, s2)"
    using 1(2) 2(2) by (simp add: run_append)
  moreover have "successes (l1 @ l2) = successes log"
    using 1(5) 2(5) successes_append [of "[(call, r)]" log1] by (simp add: log successes_append)
  moreover have "list_all clock_set (cs1 @ cs2)" using 1(1) 2(1) by simp
  ultimately show ?case using 2(3,4) by blast
qed

text \<open>Counting successes.\<close>

definition counts_success :: "('a store_call \<Rightarrow> go_error option \<Rightarrow> bool) \<Rightarrow> bool" where
  "counts_success P \<longleftrightarrow> (\<forall>call r. P call r \<longrightarrow> r = None \<and> \<not> is_prune call)"

lemma count_successes:
  assumes "counts_success P"
  shows "count_events P log = length (filter (\<lambda>call. P call None) (successes log))"
proof (induction log)
  case (Cons entry log)
  obtain call r where "entry = (call, r)" by (cases entry)
  with Cons assms show ?case by (cases r) (auto simp: successes_def counts_success_def)
qed (simp add: successes_def)

lemma count_events_successes:
  "counts_success P \<Longrightarrow> successes log = successes log' \<Longrightarrow> count_events P log = count_events P log'"
  by (simp add: count_successes)

end
