(* ===== verification/Sqlite_Atomic.thy ===== *)
theory Sqlite_Atomic
  imports Sqlite_Trace
begin

text \<open>
  Atomicity of the SQLite store, whatever the database holds: a call that reports an error has
  left the tables as they were.  Only a rotation that answers \<open>ErrRevoked\<close> commits with an error.
\<close>

definition all_or_nothing :: "DB \<Rightarrow> 'r result \<Rightarrow> DB \<Rightarrow> bool" where
  "all_or_nothing db0 r db \<longleftrightarrow> (\<exists>x. r = Inr x) \<or> r = Inl ErrRevoked \<or> db = db0"

lemma all_or_nothing_simps [simp]:
  "all_or_nothing db0 (Inr x) db" "all_or_nothing db0 (Inl ErrRevoked) db" "all_or_nothing db0 r db0"
  by (simp_all add: all_or_nothing_def)

lemma all_or_nothing_tolerates: "tolerates F (all_or_nothing db) db"
  by (simp add: tolerates_def)

text \<open>The body of a transaction that takes effect as a whole or not at all.\<close>

definition atomic :: "(Conn, 'r result) state \<Rightarrow> bool" where
  "atomic m \<longleftrightarrow> (\<forall>F db0 db c. inside F db0 db c \<longrightarrow> wp m (ends F (all_or_nothing db0)) c)"

lemma atomicI: "(\<And>F db0 db c. inside F db0 db c \<Longrightarrow> wp m (ends F (all_or_nothing db0)) c) \<Longrightarrow> atomic m"
  by (simp add: atomic_def)

lemma atomicD: "atomic m \<Longrightarrow> inside F db0 db c \<Longrightarrow> wp m (ends F (all_or_nothing db0)) c"
  by (simp add: atomic_def)

named_theorems atomic_rules

lemma atomic_give [atomic_rules]: "(\<And>x. atomic (k x)) \<Longrightarrow> atomic (unless_error (give r) k)"
  by (rule atomicI, rule tx_give, assumption) (auto intro: atomicD)

lemma atomic_refuse [atomic_rules]: "atomic (give (Inl err))"
  by (rule atomicI, erule tx_refuse) simp

lemma atomic_insert [atomic_rules]:
  "atomic next \<Longrightarrow> atomic (insert_or_conflict (insert_row column table set_table key row) next)"
  by (rule atomicI, erule tx_insert_row [OF _ all_or_nothing_tolerates]) (simp_all add: atomicD)

lemma atomic_insert_grant [atomic_rules]:
  assumes "atomic next"
  shows "atomic (insert_or_conflict (insert_grant g payload) next)"
proof (cases "driver_uint64 (rg_Generation g)")
  case (Inl err)
  then have "insert_or_conflict (insert_grant g payload) next =
      give (if isConstraint (Some err) then Inl ErrConflict else Inl err)"
    by (simp add: insert_or_conflict_def insert_grant_def unless_error_def give_def)
  then show ?thesis by (simp add: atomic_refuse)
next
  case (Inr n)
  then have "insert_or_conflict (insert_grant g payload) next =
      insert_or_conflict (insert_row ''oauth_refresh_grants.digest'' db_grants (\<lambda>t. db_grants_update (\<lambda>_. t))
       (rg_Digest g) \<lparr>gr_family = rg_FamilyID g, gr_generation = n,
         gr_payload = payload, gr_consumed = None, gr_revoked = None\<rparr>) next"
    by (simp add: insert_grant_def unless_error_def give_def)
  with assms show ?thesis by (simp add: atomic_insert)
qed

lemma atomic_commit [atomic_rules]:
  "atomic Commit" "atomic (unless_error Commit (\<lambda>_. give (Inr x)))"
  "atomic (unless_error Commit (\<lambda>_. give (Inl ErrRevoked)))"
  by (auto intro!: atomicI intro: tx_Commit tx_Commit_then all_or_nothing_tolerates)

lemma atomic_prune [atomic_rules]: "(\<And>x. atomic (k x)) \<Longrightarrow> atomic (unless_error (pruneTx now) k)"
  by (rule atomicI, erule tx_prune [OF _ all_or_nothing_tolerates]) (simp add: atomicD)

lemma atomic_query [atomic_rules]: "(\<And>x. atomic (k x)) \<Longrightarrow> atomic (unless_error (query f) k)"
  by (rule atomicI, erule tx_query [OF _ all_or_nothing_tolerates]) (simp add: atomicD)

lemma atomic_exec [atomic_rules]: "(\<And>x. atomic (k x)) \<Longrightarrow> atomic (unless_error (exec f) k)"
  by (rule atomicI, erule tx_exec [OF _ all_or_nothing_tolerates]) (simp add: atomicD)

lemma atomic_exec_count [atomic_rules]: "(\<And>x. atomic (k x)) \<Longrightarrow> atomic (unless_error (exec_count f) k)"
  by (rule atomicI, erule tx_exec_count [OF _ all_or_nothing_tolerates]) (simp add: atomicD)

lemma atomic_count [atomic_rules]: "(\<And>x. atomic (k x)) \<Longrightarrow> atomic (unless_error (count_rows table) k)"
  by (rule atomicI, erule tx_count_rows [OF _ all_or_nothing_tolerates]) (simp add: atomicD)

lemma atomic_select [atomic_rules]: "(\<And>x. atomic (k x)) \<Longrightarrow> atomic (unless_error (select_row table d) k)"
  by (rule atomicI, erule tx_select [OF _ all_or_nothing_tolerates]) (simp_all add: atomicD)

lemma atomic_if [atomic_rules]: "atomic m \<Longrightarrow> atomic n \<Longrightarrow> atomic (if b then m else n)"
  by simp

lemma atomic_check [atomic_rules]:
  "(\<And>err. atomic (f err)) \<Longrightarrow> atomic n \<Longrightarrow> atomic (case v of Some err \<Rightarrow> f err | None \<Rightarrow> n)"
  by (cases v) simp_all

lemma atomic_exchange_check [atomic_rules]:
  "atomic m \<Longrightarrow> (\<And>g. atomic (f g)) \<Longrightarrow>
   atomic (case (v, refresh) of (Some err, _) \<Rightarrow> give (Inl err) | (None, None) \<Rightarrow> m | (None, Some g) \<Rightarrow> f g)"
  by (auto intro: atomic_refuse split: option.splits)

text \<open>A method with such a body.\<close>

definition reverts :: "(Conn, 'r result) state \<Rightarrow> bool" where
  "reverts m \<longleftrightarrow> (\<forall>F db c. at F c db None \<longrightarrow>
     wp m (\<lambda>r c'. \<exists>db'. at F c' db' None \<and> all_or_nothing db r db') c)"

lemma reverts_in_tx: "atomic m \<Longrightarrow> reverts (in_tx m)"
  unfolding reverts_def
  by (intro allI impI, erule wp_in_tx [OF _ all_or_nothing_tolerates]) (erule atomicD)

lemma reverts_no_value: "reverts m \<Longrightarrow> reverts (no_value m)"
  unfolding reverts_def
  by (intro allI impI wp_no_value) (auto elim!: wp_mono allE simp: all_or_nothing_def)

lemmas reverts_unfold = pruneClientsTx_def revokeFamilyTx_def Let_def

lemma reverts_TouchClient: "reverts (Sql_TouchClient cid t)"
proof -
  have "db\<lparr>db_clients := update_rows (\<lambda>k _. k = cid) f (db_clients db)\<rparr> = db"
    if "filter (\<lambda>(k, _). k = cid) (db_clients db) = []" for f db
  proof -
    have "update_rows (\<lambda>k _. k = cid) f (db_clients db) = db_clients db"
      using that by (auto simp: update_rows_def filter_empty_conv intro!: map_idI)
    then show ?thesis by simp
  qed
  then show ?thesis
    unfolding reverts_def Sql_TouchClient_def wp_unless_error exec_count_def
    by (auto intro!: wp_statement simp: at_def cn_current_def wp_simps)
      (simp add: all_or_nothing_def del: update_rows_Cons)
qed

lemma sql_call_reverts: "reverts (sql_call codec p call)"
proof (cases call)
  case (RegisterClient now client)
  show ?thesis
    unfolding RegisterClient sql_call.simps Sql_RegisterClient_def reverts_unfold
    by (intro reverts_in_tx atomic_rules)
next
  case (TouchClient cid t)
  then show ?thesis by (simp add: reverts_TouchClient)
next
  case (CreateAuthorization t1 a)
  show ?thesis
    unfolding CreateAuthorization sql_call.simps Sql_CreateAuthorization_def reverts_unfold
    by (intro reverts_in_tx atomic_rules)
next
  case (CommitLogin t1 t2 l)
  show ?thesis
    unfolding CommitLogin sql_call.simps Sql_CommitLogin_def reverts_unfold
    by (intro reverts_in_tx atomic_rules)
next
  case (CommitConsent t1 t2 x)
  show ?thesis
    unfolding CommitConsent sql_call.simps Sql_CommitConsent_def reverts_unfold
    by (intro reverts_no_value reverts_in_tx atomic_rules)
next
  case (CommitCodeExchange t1 t2 x)
  show ?thesis
    unfolding CommitCodeExchange sql_call.simps Sql_CommitCodeExchange_def reverts_unfold
    by (intro reverts_in_tx atomic_rules)
next
  case (CommitRefreshRotation t1 t2 x)
  show ?thesis
    unfolding CommitRefreshRotation sql_call.simps Sql_CommitRefreshRotation_def reverts_unfold
    by (intro reverts_in_tx atomic_rules)
next
  case (RevokeRefreshFamily f t)
  show ?thesis
    unfolding RevokeRefreshFamily sql_call.simps Sql_RevokeRefreshFamily_def reverts_unfold
    by (intro reverts_in_tx atomic_rules)
next
  case (Prune t)
  show ?thesis
    unfolding Prune sql_call.simps Sql_Prune_def reverts_unfold
    by (intro reverts_no_value reverts_in_tx atomic_rules)
qed

end
