(* ===== verification/Sqlite_Contract.thy ===== *)
theory Sqlite_Contract
  imports Sqlite_Atomic
begin

text \<open>
  The calls of the two stores with the values they answer, and how the answers and the states of
  the SQLite store relate to those of the in-memory store.
\<close>

section \<open>Answers with their values\<close>

datatype call_value = NoValue | RedirectValue RedirectURI | StatsValue PruneStats

definition with_value :: "('b \<Rightarrow> call_value) \<Rightarrow> (Conn, 'b result) state \<Rightarrow> (Conn, call_value result) state" where
  "with_value f m = unless_error m (\<lambda>x. give (Inr (f x)))"

fun sql_answer :: "'a PrincipalCodec \<Rightarrow> StatePolicy \<Rightarrow> 'a store_call \<Rightarrow> (Conn, call_value result) state" where
  "sql_answer codec p (CommitConsent t1 t2 c) =
     with_value (\<lambda>r. RedirectValue (ccr_RedirectURI r)) (Sql_CommitConsent codec t1 c p)"
| "sql_answer codec p (Prune t) = with_value StatsValue (Sql_Prune t)"
| "sql_answer codec p call = with_value (\<lambda>_. NoValue) (sql_call codec p call)"

text \<open>What the in-memory store answers to the same call.\<close>

fun mem_answer :: "StatePolicy \<Rightarrow> 'a store_call \<Rightarrow> 'a Store \<Rightarrow> call_value result \<times> 'a Store" where
  "mem_answer p (CommitConsent t1 t2 c) s =
     apfst (map_sum id (\<lambda>r. RedirectValue (ccr_RedirectURI r))) (Mem_CommitConsent t1 t2 c p s)"
| "mem_answer p (Prune t) s = apfst (map_sum id StatsValue) (Mem_Prune t p s)"
| "mem_answer p call s =
     apfst (\<lambda>r. case r of None \<Rightarrow> Inr NoValue | Some err \<Rightarrow> Inl err) (store_step p call s)"

text \<open>The two differences.  The SQLite store answers a decision with an empty redirect URI, and it prunes
  before it registers a client.\<close>

fun disk_value :: "call_value \<Rightarrow> call_value" where
  "disk_value (RedirectValue uri) = RedirectValue []"
| "disk_value v = v"

fun settled :: "'a store_call \<Rightarrow> 'a Store \<Rightarrow> 'a Store" where
  "settled (RegisterClient now client) s = pruned now s"
| "settled call s = s"

section \<open>Pruning and registration\<close>

lemma live_state_pruned:
  assumes "0 \<le> now"
  shows "clientHasLiveState (pruned now s) cid now = clientHasLiveState s cid now"
  unfolding clientHasLiveState_def
  by (intro arg_cong2 [where f = "(\<or>)"])
    (fastforce simp: pruned_authorizers pruned_consents pruned_codes pruned_refresh [OF assms] list_ex_iff
      gm_delete_if_def family_live_def)+

lemma pruned_register: "pruned now (s\<lparr>st_clients := m\<rparr>) = (pruned now s)\<lparr>st_clients := m\<rparr>"
  by (simp add: pruneExpired_def Let_def)

lemma register_pruned:
  assumes "0 \<le> now"
  shows "Mem_RegisterClient now client p (pruned now s) = apsnd (pruned now) (Mem_RegisterClient now client p s)"
proof -
  have "stale_client (pruned now s) p now = stale_client s p now"
    by (simp add: stale_client_def live_state_pruned [OF assms] fun_eq_iff)
  then show ?thesis by (simp add: Mem_RegisterClient_def Let_def pruned_register)
qed

lemma disk_step_settled:
  assumes "ok_call codec T p call"
  shows "disk_step p call s = apsnd (settled call) (store_step p call s)"
proof (cases call)
  case (RegisterClient now client)
  with assms show ?thesis by (simp add: disk_step_def register_pruned)
qed (simp_all add: disk_step_def prod_eq_iff)

lemma mem_answer_step: "mem_answer p call s = (r, s') \<Longrightarrow> store_step p call s = (result_error r, s')"
  by (cases call)
    (auto simp: result_error_def Mem_Prune_def apfst_def map_prod_def split: prod.splits sum.splits option.splits)

section \<open>The values\<close>

text \<open>A method whose successful answers satisfy \<open>P\<close>, whatever the database holds.\<close>

definition yields :: "('r \<Rightarrow> bool) \<Rightarrow> (Conn, 'r result) state \<Rightarrow> bool" where
  "yields P m \<longleftrightarrow> (\<forall>c. case fst (run_state m c) of Inl err \<Rightarrow> True | Inr x \<Rightarrow> P x)"

named_theorems yields_rules

lemma yields_give [yields_rules]: "P x \<Longrightarrow> yields P (give (Inr x))" "yields P (give (Inl err))"
  by (simp_all add: yields_def give_def)

lemma yields_then [yields_rules]: "(\<And>x. yields P (k x)) \<Longrightarrow> yields P (unless_error m k)"
  by (auto simp: yields_def unless_error_def State_Monad.bind_def split: prod.split sum.split)

lemma yields_insert [yields_rules]: "yields P next \<Longrightarrow> yields P (insert_or_conflict m next)"
  by (auto simp: yields_def insert_or_conflict_def State_Monad.bind_def split: prod.split sum.split)

lemma yields_tx [yields_rules]: "yields P m \<Longrightarrow> yields P (in_tx m)"
  unfolding in_tx_def
  by (rule yields_then) (auto simp: yields_def State_Monad.bind_def split: prod.split, metis fst_conv)

lemma yields_if [yields_rules]: "yields P m \<Longrightarrow> yields P n \<Longrightarrow> yields P (if b then m else n)"
  by simp

lemma yields_check [yields_rules]:
  "(\<And>err. yields P (f err)) \<Longrightarrow> yields P n \<Longrightarrow> yields P (case v of Some err \<Rightarrow> f err | None \<Rightarrow> n)"
  by (cases v) simp_all

lemma consent_value: "yields (\<lambda>r. ccr_RedirectURI r = []) (Sql_CommitConsent codec now commit p)"
  unfolding Sql_CommitConsent_def Let_def
  by (intro yields_rules) simp_all

section \<open>The contract\<close>

lemma run_with_value:
  "run_state (with_value f m) c = (case run_state m c of (r, c') \<Rightarrow> (map_sum id f r, c'))"
  by (auto simp: with_value_def unless_error_def State_Monad.bind_def give_def split: prod.split sum.split)

lemma run_no_value:
  "run_state (no_value m) c = (case run_state m c of (r, c') \<Rightarrow> (map_sum id (\<lambda>_. ()) r, c'))"
  by (auto simp: no_value_def unless_error_def State_Monad.bind_def give_def split: prod.split sum.split)

lemma map_sum_unit [simp]: "map_sum id (\<lambda>_. ()) r = r" "map_sum (\<lambda>x. x) (\<lambda>_. ()) r = r"
  for r :: "unit result"
  by (cases r; simp)+

lemma map_sum_no_error: "map_sum id (\<lambda>_. ()) r = map_sum (\<lambda>x. x) (\<lambda>_. ()) r"
  by (simp add: id_def)

lemma map_sum_Inr: "map_sum id f r = Inr v \<longleftrightarrow> (\<exists>x. r = Inr x \<and> v = f x)"
  by (cases r) auto

lemma sql_answer_call:
  "run_state (sql_answer codec p call) c = (r, c') \<Longrightarrow>
   run_state (sql_call codec p call) c = (map_sum id (\<lambda>_. ()) r, c')"
  by (cases call) (auto simp: run_with_value run_no_value sum.map_comp comp_def map_sum_no_error split: prod.splits)

lemma sql_answer_value:
  assumes "run_state (sql_answer codec p call) c = (Inr v, c')" and "\<nexists>t. call = Prune t"
  shows "v = (case call of CommitConsent t1 t2 x \<Rightarrow> RedirectValue [] | _ \<Rightarrow> NoValue)"
proof (cases "\<exists>t1 t2 x. call = CommitConsent t1 t2 x")
  case True
  then obtain t1 t2 x where call: "call = CommitConsent t1 t2 x" by blast
  with assms(1) obtain res c1 where "run_state (Sql_CommitConsent codec t1 x p) c = (Inr res, c1)"
      "v = RedirectValue (ccr_RedirectURI res)"
    by (auto simp: run_with_value map_sum_Inr split: prod.splits)
  moreover have "case fst (run_state (Sql_CommitConsent codec t1 x p) c) of Inl err \<Rightarrow> True
      | Inr res \<Rightarrow> ccr_RedirectURI res = []"
    using consent_value [of codec t1 x p] unfolding yields_def by blast
  ultimately show ?thesis using call by simp
next
  case False
  with assms show ?thesis
    by (cases call) (auto simp: run_with_value map_sum_Inr split: prod.splits)
qed

lemma sql_answer_contract:
  assumes "at F c db None" "represents codec T s db" "ordered_times T" "maps_wf s"
    and "ok_call codec T p call" and run: "run_state (sql_answer codec p call) c = (r, c')"
  shows "\<exists>db'. at F c' db' None \<and>
    ((\<exists>err. r = Inl err \<and> F err \<and> db' = db) \<or>
     r = map_sum id disk_value (fst (mem_answer p call s)) \<and>
       (if \<exists>err. r = Inl err \<and> err \<noteq> ErrRevoked then db' = db
        else represents codec T (settled call (snd (mem_answer p call s))) db'))"
proof (cases "\<exists>t. call = Prune t")
  case True
  then obtain t where t: "call = Prune t" by blast
  with run obtain x where x: "run_state (Sql_Prune t) c = (x, c')" "r = map_sum id StatsValue x"
    by (auto simp: run_with_value split: prod.splits)
  from wpD [OF prune_answers [OF assms(1-3)] x(1), of p] assms(5) t obtain db' where
    "at F c' db' None" "(\<exists>err. x = Inl err \<and> F err \<and> db' = db) \<or>
      x = fst (Mem_Prune t p s) \<and> represents codec T (pruned t s) db'" by auto
  then show ?thesis
    using x(2) by (intro exI [of _ db']) (auto simp: t Mem_Prune_def split: prod.splits)
next
  case False
  note call = sql_answer_call [OF run]
  obtain db' where db': "at F c' db' None" "outcome F codec T db (disk_step p call s) (map_sum id (\<lambda>_. ()) r) db'"
    using wpD [OF sql_call_outcome [OF assms(1-5)] call] by blast
  have "wp (sql_call codec p call) (\<lambda>r c'. \<exists>db'. at F c' db' None \<and> all_or_nothing db r db') c"
    using sql_call_reverts [of codec p call] assms(1) by (simp add: reverts_def)
  from wpD [OF this call] obtain db2 where "at F c' db2 None" "all_or_nothing db (map_sum id (\<lambda>_. ()) r) db2"
    by blast
  with db'(1) have undone: "db' = db" if "r = Inl err" "err \<noteq> ErrRevoked" for err
    using that by (auto simp: at_def all_or_nothing_def)
  obtain m s' where m: "mem_answer p call s = (m, s')" by fastforce
  have step: "disk_step p call s = (result_error m, settled call s')"
    by (simp add: disk_step_settled [OF assms(5)] mem_answer_step [OF m])
  show ?thesis
  proof (cases r)
    case (Inl err)
    with db' undone m step show ?thesis
      by (intro exI [of _ db']) (auto simp: outcome_def result_error_def split: sum.splits)
  next
    case (Inr v)
    with db'(2) step have mem: "result_error m = None" "represents codec T (settled call s') db'"
      by (auto simp: outcome_def result_error_def)
    then obtain v' where v': "m = Inr v'" by (auto simp: result_error_def split: sum.splits)
    have "disk_value v' = v"
      using sql_answer_value [OF run [unfolded Inr] False] m v' False
      by (cases call) (auto simp: apfst_def map_prod_def map_sum_Inr split: prod.splits option.splits)
    with mem db'(1) m v' Inr show ?thesis by auto
  qed
qed

end
