(* ===== verification/Sqlite_Pruning.thy ===== *)
theory Sqlite_Pruning
  imports Sqlite_Refines
begin

text \<open>
  What the pruning of the SQLite store deletes.  The store compares the texts of the times, which are
  ordered as the times are in different seconds and at whole seconds; no such order is assumed of the
  stored times here.
\<close>

text \<open>The row that expires at \<open>expiry\<close> before and after the pruning: it is deleted or kept as it is, kept if it
  expires in a later second, deleted if it expired in an earlier one, and treated exactly if both times are
  whole seconds.\<close>

definition pruned_as :: "time \<Rightarrow> time \<Rightarrow> 'r option \<Rightarrow> 'r option \<Rightarrow> bool" where
  "pruned_as now expiry old new \<longleftrightarrow>
     (new = None \<or> new = old) \<and>
     (now div second < expiry div second \<longrightarrow> new = old) \<and>
     (expiry div second < now div second \<longrightarrow> new = None) \<and>
     (second dvd now \<and> second dvd expiry \<longrightarrow> new = (if expiry \<le> now then None else old))"

text \<open>The expiries in a family of refresh grants, and the last of them.\<close>

definition family_expiries :: "'a Store \<Rightarrow> RefreshFamilyID \<Rightarrow> time set" where
  "family_expiries s family =
     (\<lambda>(_, g). rg_ExpiresAt g) ` set (filter (\<lambda>(_, g). rg_FamilyID g = family) (st_refresh s))"

definition family_latest :: "'a Store \<Rightarrow> RefreshFamilyID \<Rightarrow> time" where
  "family_latest s family = Max (family_expiries s family)"

text \<open>A table before and after the pruning, against the map it represents.\<close>

definition table_pruned ::
  "time \<Rightarrow> ('v \<Rightarrow> time) \<Rightarrow> ('k, 'v) gomap \<Rightarrow> ('k, 'r) gomap \<Rightarrow> ('k, 'r) gomap \<Rightarrow> bool" where
  "table_pruned now expiry m old new \<longleftrightarrow>
     (\<forall>k. case gm_get m k of None \<Rightarrow> gm_get new k = None
          | Some v \<Rightarrow> gm_get old k \<noteq> None \<and> pruned_as now (expiry v) (gm_get old k) (gm_get new k))"

lemma text_later:
  assumes "json_time t" "json_time now"
  shows "now div second < t div second \<Longrightarrow> \<not> rfc3339 t \<le> rfc3339 now"
    and "t div second < now div second \<Longrightarrow> rfc3339 t \<le> rfc3339 now"
  using rfc3339_less [of now t] rfc3339_less [of t now] assms by (auto simp: json_time_def)

lemma text_whole:
  "json_time t \<Longrightarrow> json_time now \<Longrightarrow> second dvd t \<Longrightarrow> second dvd now \<Longrightarrow>
   rfc3339 t \<le> rfc3339 now \<longleftrightarrow> t \<le> now"
  using rfc3339_order [of t now] whole_seconds [of t now] by (cases "t div second = now div second") auto

lemma pruned_as_text:
  assumes "json_time t" "json_time now"
  shows "pruned_as now t old (if rfc3339 t \<le> rfc3339 now then None else old)"
  using text_later [OF assms] text_whole [OF assms] by (auto simp: pruned_as_def)

lemma table_prunedI:
  assumes "rep_table R m t" "gm_wf m"
    and "\<And>k v row. (k, v) \<in> set m \<Longrightarrow> R v row \<Longrightarrow>
      pruned_as now (expiry v) (Some row) (if P k row then None else Some row)"
  shows "table_pruned now expiry m t (gm_delete_if P t)"
proof -
  have wf: "gm_wf t" using assms(2) rep_table_keys [OF assms(1)] by simp
  have "case gm_get m k of None \<Rightarrow> gm_get (gm_delete_if P t) k = None
      | Some v \<Rightarrow> gm_get t k \<noteq> None \<and> pruned_as now (expiry v) (gm_get t k) (gm_get (gm_delete_if P t) k)" for k
    using assms(1)
  proof (cases rule: rep_table_getE [of R m t k])
    case (2 v row)
    with assms(3) [OF gm_get_in] show ?thesis by (simp add: gm_get_delete_if [OF wf])
  qed (simp add: gm_get_delete_if [OF wf])
  then show ?thesis by (simp add: table_pruned_def)
qed

lemma expired_pruned:
  assumes "rep_table R m t" "gm_wf m" "json_time now"
    and "\<And>v row. R v row \<Longrightarrow>
      extract_text (sr_payload row) path = Some (rfc3339 (expiry v)) \<and> json_time (expiry v)"
  shows "table_pruned now expiry m t (delete_expired path (rfc3339 now) t)"
  unfolding delete_expired_def
proof (rule table_prunedI [OF assms(1,2)])
  fix k v row
  assume "R v row"
  from assms(4) [OF this]
  show "pruned_as now (expiry v) (Some row)
      (if sql_le (extract_text (sr_payload row) path) (rfc3339 now) then None else Some row)"
    using pruned_as_text [OF _ assms(3), of "expiry v" "Some row"] by (simp add: sql_le_def)
qed

text \<open>The greatest of the texts of several times belongs to the second of the last one.\<close>

lemma pruned_as_latest:
  assumes json: "\<And>t. t \<in> E \<Longrightarrow> json_time t" "json_time now" and last: "t1 \<in> E" "\<And>t. t \<in> E \<Longrightarrow> t \<le> t1"
  shows "pruned_as now t1 old (if \<forall>t \<in> E. rfc3339 t \<le> rfc3339 now then None else old)"
proof -
  note J = json(1) [OF last(1)]
  let ?gone = "\<forall>t \<in> E. rfc3339 t \<le> rfc3339 now"
  have gone: ?gone if "t1 div second < now div second"
  proof
    fix t assume t: "t \<in> E"
    from zdiv_mono1 [OF last(2) [OF t], of second] that have "t div second < now div second"
      by (simp add: second_def)
    then show "rfc3339 t \<le> rfc3339 now" by (rule text_later(2) [OF json(1) [OF t] json(2)])
  qed
  have whole: ?gone if d: "second dvd now" "second dvd t1" and le: "t1 \<le> now"
  proof (cases "t1 = now")
    case False
    with le whole_seconds [OF d(2,1)] zdiv_mono1 [OF le, of second] show ?thesis
      by (intro gone) (force simp: second_def)
  next
    case True
    show ?thesis
    proof
      fix t assume t: "t \<in> E"
      obtain n where n: "now = second * n" using d(1) by (elim dvdE)
      have "t div second < now div second" if "t \<noteq> now"
        using last(2) [OF t] that True n by (simp add: second_def)
      then show "rfc3339 t \<le> rfc3339 now" using text_later(2) [OF json(1) [OF t] json(2)] by fastforce
    qed
  qed
  from text_later(1) [OF J json(2)] text_whole [OF J json(2)] gone whole last(1) show ?thesis
    unfolding pruned_as_def by auto
qed

lemma grants_pruned:
  assumes "rep_table (rep_grant codec {t. json_time t}) (st_refresh s) t" "gm_wf (st_refresh s)" "json_time now"
  shows "table_pruned now (\<lambda>g. family_latest s (rg_FamilyID g)) (st_refresh s) t
    (delete_families (rfc3339 now) t)"
  unfolding delete_families_def
proof (rule table_prunedI [OF assms(1,2)])
  fix k g row
  assume g: "(k, g) \<in> set (st_refresh s)" "rep_grant codec {t. json_time t} g row"
  let ?E = "family_expiries s (rg_FamilyID g)"
  have "\<And>k' g'. (k', g') \<in> set (st_refresh s) \<Longrightarrow> json_time (rg_ExpiresAt g')"
    using assms(1) by (induction rule: rep_table_induct) (auto simp: rep_grant_def)
  then have json: "\<And>t. t \<in> ?E \<Longrightarrow> json_time t" by (auto simp: family_expiries_def)
  have "finite ?E" "?E \<noteq> {}" using g(1) by (auto simp: family_expiries_def)
  then have last: "family_latest s (rg_FamilyID g) \<in> ?E" "\<And>t. t \<in> ?E \<Longrightarrow> t \<le> family_latest s (rg_FamilyID g)"
    by (simp_all add: family_latest_def)
  have "sql_le (family_max t (gr_family row)) (rfc3339 now) \<longleftrightarrow> (\<forall>t \<in> ?E. rfc3339 t \<le> rfc3339 now)"
    using family_texts [OF assms(1) g(1)] g(2) by (auto simp: rep_grant_def family_expiries_def)
  then show "pruned_as now (family_latest s (rg_FamilyID g)) (Some row)
      (if sql_le (family_max t (gr_family row)) (rfc3339 now) then None else Some row)"
    using pruned_as_latest [OF json assms(3) last, of "Some row"] by simp
qed

section \<open>The method\<close>

lemma prune_runs:
  assumes "at F c db None" and "run_state (Sql_Prune now) c = (Inr stats, c')"
  shows "at F c' (pruned_db now db) None \<and> stats = prune_stats db (pruned_db now db)"
proof -
  let ?P = "\<lambda>r db'. case r of Inl err \<Rightarrow> True | Inr x \<Rightarrow> db' = pruned_db now db \<and> x = prune_stats db (pruned_db now db)"
  have t: "tolerates F ?P db" by (simp add: tolerates_def)
  have "wp (Sql_Prune now) (\<lambda>r c'. \<exists>db'. at F c' db' None \<and> ?P r db') c"
    unfolding Sql_Prune_def
    apply (rule wp_in_tx [OF assms(1) t])
    apply (rule tx_prune [OF _ t], assumption)
    apply (rule tx_Commit_then [OF _ t], assumption)
    by simp
  from wpD [OF this assms(2)] show ?thesis by auto
qed

end
