(* ===== verification/Sqlite_Schema.thy ===== *)
theory Sqlite_Schema
  imports Sqlite_Refines
begin

text \<open>
  Opening the SQLite store: the start-up script, the migration of version 1 databases, and the
  diagnostics.  A table that does not exist has no columns; the model keeps the columns of
  \<open>oauth_clients\<close>, the only table whose columns differ between the versions.  Indexes and PRAGMAs
  have no effect on the tables, but the statements can fail.
\<close>

section \<open>The start-up script\<close>

text \<open>Statements executed one after the other, each on its own.\<close>

primrec exec_script :: "(DB \<Rightarrow> DB) list \<Rightarrow> (Conn, unit result) state" where
  "exec_script [] = give (Inr ())"
| "exec_script (f # fs) = unless_error (exec f) (\<lambda>_. exec_script fs)"

definition unchanged :: "DB \<Rightarrow> DB" where
  "unchanged db = db"

definition insert_first_version :: "DB \<Rightarrow> DB" where
  "insert_first_version db = (if db_versions db = [] then db\<lparr>db_versions := [1]\<rparr> else db)"

definition create_clients :: "DB \<Rightarrow> DB" where
  "create_clients db =
     (if db_client_columns db = []
      then db\<lparr>db_client_columns := [''id'', ''payload'', ''created_at'', ''last_used_at'']\<rparr> else db)"

definition schema_script :: "(DB \<Rightarrow> DB) list" where
  "schema_script =
     [unchanged, insert_first_version, create_clients] @ replicate 4 unchanged @ [unchanged] @
     replicate 3 unchanged @ replicate 3 unchanged"

section \<open>Migration\<close>

definition currentSchemaVersion :: int where
  "currentSchemaVersion = 2"

definition int_text :: "int \<Rightarrow> string" where
  "int_text n = (if n < 0 then ''-'' @ decimal (- n) else decimal n)"

definition unsupported_state :: "int \<Rightarrow> int \<Rightarrow> int \<Rightarrow> go_error" where
  "unsupported_state count minimum maximum = OtherError
     (''unsupported sqlite schema version state: count='' @ int_text count @ '' min='' @
      int_text minimum @ '' max='' @ int_text maximum)"

text \<open>\<open>SELECT COUNT(*), COALESCE(MIN(version),0), COALESCE(MAX(version),0)\<close>.\<close>

definition version_state :: "DB \<Rightarrow> int \<times> int \<times> int" where
  "version_state db =
     (case db_versions db of
        [] \<Rightarrow> (0, 0, 0)
      | v # vs \<Rightarrow> (int (length (v # vs)), fold min vs v, fold max vs v))"

definition table_info :: "string \<Rightarrow> DB \<Rightarrow> string list" where
  "table_info table db = (if table = ''oauth_clients'' then db_client_columns db else [])"

text \<open>The loop over the rows of \<open>PRAGMA table_info\<close>; a scan and the end of the rows can fail.\<close>

primrec scan_columns :: "string \<Rightarrow> string list \<Rightarrow> (Conn, bool result) state" where
  "scan_columns column [] = unless_error (exec unchanged) (\<lambda>_. give (Inr False))"
| "scan_columns column (name # names) =
     unless_error (exec unchanged) (\<lambda>_.
     if name = column then give (Inr True) else scan_columns column names)"

definition txHasColumn :: "string \<Rightarrow> string \<Rightarrow> (Conn, bool result) state" where
  "txHasColumn table column =
     unless_error (query (table_info table)) (\<lambda>names. scan_columns column names)"

definition requireColumn :: "string \<Rightarrow> string \<Rightarrow> (Conn, unit result) state" where
  "requireColumn table column =
     unless_error (wrapping (''inspect '' @ table @ '' columns'') (txHasColumn table column)) (\<lambda>has.
     if has then give (Inr ())
     else give (Inl (OtherError (''schema version '' @ int_text currentSchemaVersion @
       '' is missing '' @ table @ ''.'' @ column))))"

definition add_last_used :: "DB \<Rightarrow> DB" where
  "add_last_used db = db\<lparr>db_client_columns := db_client_columns db @ [''last_used_at''],
     db_clients := update_rows (\<lambda>_ _. True) (\<lambda>row. row\<lparr>row_used := None\<rparr>) (db_clients db)\<rparr>"

definition backfill_last_used :: "DB \<Rightarrow> DB" where
  "backfill_last_used db = db\<lparr>db_clients :=
     update_rows (\<lambda>_ row. row_used row = None) (\<lambda>row. row\<lparr>row_used := Some (row_created row)\<rparr>)
       (db_clients db)\<rparr>"

definition advance_version :: "DB \<Rightarrow> DB" where
  "advance_version db = db\<lparr>db_versions :=
     map (\<lambda>v. if v = 1 then currentSchemaVersion else v) (db_versions db)\<rparr>"

definition migrate :: "(Conn, unit result) state" where
  "migrate =
     unless_error (wrapping ''read sqlite schema version'' (query version_state)) (\<lambda>(count, minimum, maximum).
     if count \<noteq> 1 \<or> minimum < 1 \<or> maximum < minimum
     then give (Inl (unsupported_state count minimum maximum))
     else if maximum > currentSchemaVersion
     then give (Inl (unsupported_state count minimum maximum))
     else if maximum = currentSchemaVersion
     then requireColumn ''oauth_clients'' ''last_used_at''
     else if maximum \<noteq> 1 then give (Inl (unsupported_state count minimum maximum))
     else
     unless_error (wrapping ''begin schema migration'' BeginTx) (\<lambda>_. do {
       r \<leftarrow>
         unless_error (wrapping ''inspect oauth_clients columns''
           (txHasColumn ''oauth_clients'' ''last_used_at'')) (\<lambda>has.
         unless_error (if has then give (Inr ())
           else
             unless_error (wrapping ''add oauth_clients.last_used_at'' (exec add_last_used)) (\<lambda>_.
             wrapping ''backfill oauth_clients.last_used_at'' (exec backfill_last_used))) (\<lambda>_.
         unless_error (wrapping ''advance sqlite schema version'' (exec advance_version)) (\<lambda>_.
         wrapping ''commit schema migration'' Commit)));
       _ \<leftarrow> rollback;
       State_Monad.return r
     }))"

section \<open>Opening the store\<close>

definition configure :: "(Conn, unit result) state" where
  "configure =
     unless_error (wrapping ''configure sqlite'' (exec_script (replicate 3 unchanged))) (\<lambda>_.
     unless_error (wrapping ''initialize sqlite schema'' (exec_script schema_script)) (\<lambda>_.
     wrapping ''migrate sqlite'' migrate))"

record ('a, 'c) SqliteStore =
  ss_path :: string
  ss_codec :: "'a PrincipalCodec"
  ss_clock :: 'c

text \<open>The default codec, the system clock and \<open>sql.Open\<close> are arguments; what is left of the
  connection is returned with the result.\<close>

definition Sql_Open ::
  "'a PrincipalCodec \<Rightarrow> 'c \<Rightarrow> (string \<Rightarrow> Conn result) \<Rightarrow> string \<Rightarrow> 'a PrincipalCodec option \<Rightarrow>
   'c option list \<Rightarrow> ('a, 'c) SqliteStore result \<times> Conn option" where
  "Sql_Open jsonCodec systemClock sql_Open path codec clocks =
     (let codec' = (case codec of None \<Rightarrow> jsonCodec | Some c \<Rightarrow> c)
      in if length clocks > 1 \<or> clocks = [None]
         then (Inl (OtherError ''SQLite store clock configuration is invalid''), None)
         else
           (let clock = (case clocks of [Some c] \<Rightarrow> c | _ \<Rightarrow> systemClock)
            in (case sql_Open path of
                  Inl err \<Rightarrow> (Inl (WrapError ''open sqlite'' err), None)
                | Inr c \<Rightarrow>
                    (case run_state configure c of
                       (Inl err, c') \<Rightarrow> (Inl err, Some c')
                     | (Inr _, c') \<Rightarrow>
                         (Inr \<lparr>ss_path = path, ss_codec = codec', ss_clock = clock\<rparr>, Some c')))))"

section \<open>Diagnostics\<close>

record Diagnostics =
  dg_Path :: string
  dg_SQLiteVersion :: string
  dg_SchemaVersion :: int
  dg_JournalMode :: string
  dg_BusyTimeoutMs :: int
  dg_ForeignKeys :: bool
  dg_Counts :: StateCounts
  dg_DatabaseBytes :: int
  dg_WALBytes :: int
  dg_WriteProbeOK :: bool
  dg_WriteProbeDetail :: string

text \<open>What the SQLite runtime and the file system report.\<close>

record Runtime =
  rt_sqlite_version :: string
  rt_journal_mode :: string
  rt_foreign_keys :: bool
  rt_busy_timeout :: int
  rt_file_size :: "string \<Rightarrow> int option"

definition zero_Counts :: StateCounts where
  "zero_Counts = \<lparr>sc_Clients = 0, sc_Authorizations = 0, sc_Consents = 0, sc_Codes = 0,
     sc_RefreshGrants = 0\<rparr>"

definition zero_Diagnostics :: "string \<Rightarrow> Diagnostics" where
  "zero_Diagnostics path = \<lparr>dg_Path = path, dg_SQLiteVersion = [], dg_SchemaVersion = 0,
     dg_JournalMode = [], dg_BusyTimeoutMs = 0, dg_ForeignKeys = False, dg_Counts = zero_Counts,
     dg_DatabaseBytes = 0, dg_WALBytes = 0, dg_WriteProbeOK = False, dg_WriteProbeDetail = []\<rparr>"

text \<open>A fact that is read, or the diagnostics so far with an error.\<close>

definition learn ::
  "string \<Rightarrow> (Conn, 'b result) state \<Rightarrow> Diagnostics \<Rightarrow> ('b \<Rightarrow> (Conn, Diagnostics \<times> go_error option) state) \<Rightarrow>
   (Conn, Diagnostics \<times> go_error option) state" where
  "learn msg m d k = do {
     r \<leftarrow> m;
     (case r of
        Inl err \<Rightarrow> State_Monad.return (d, Some (WrapError msg err))
      | Inr x \<Rightarrow> k x)
   }"

definition max_version :: "(Conn, int result) state" where
  "max_version =
     unless_error (query db_versions) (\<lambda>vs.
     give (case vs of [] \<Rightarrow> Inl (OtherError ''sql: converting NULL to int is unsupported'')
       | v # vs \<Rightarrow> Inr (fold max vs v)))"

definition file_sizes :: "Runtime \<Rightarrow> string \<Rightarrow> Diagnostics \<Rightarrow> Diagnostics" where
  "file_sizes rt path d =
     (case rt_file_size rt path of
        None \<Rightarrow> d
      | Some bytes \<Rightarrow>
          (let d' = d\<lparr>dg_DatabaseBytes := bytes\<rparr>
           in (case rt_file_size rt (path @ ''-wal'') of
                 None \<Rightarrow> d'
               | Some wal \<Rightarrow> d'\<lparr>dg_WALBytes := wal\<rparr>)))"

definition write_probe :: "Diagnostics \<Rightarrow> (Conn, Diagnostics \<times> go_error option) state" where
  "write_probe d = do {
     r \<leftarrow> BeginTx;
     (case r of
        Inl err \<Rightarrow> State_Monad.return (d\<lparr>dg_WriteProbeDetail := error_text err\<rparr>, None)
      | Inr _ \<Rightarrow> do {
          r \<leftarrow> exec (\<lambda>db. db\<lparr>db_versions := map (\<lambda>v. v) (db_versions db)\<rparr>);
          (case r of
             Inl err \<Rightarrow> do {
               _ \<leftarrow> rollback;
               State_Monad.return (d\<lparr>dg_WriteProbeDetail := error_text err\<rparr>, None)
             }
           | Inr _ \<Rightarrow> do {
               _ \<leftarrow> rollback;
               State_Monad.return (d\<lparr>dg_WriteProbeOK := True\<rparr>, None)
             })
        })
   }"

definition Sql_Diagnostics :: "Runtime \<Rightarrow> string \<Rightarrow> (Conn, Diagnostics \<times> go_error option) state" where
  "Sql_Diagnostics rt path =
     (let d = zero_Diagnostics path
      in learn ''read sqlite version'' (query (\<lambda>_. rt_sqlite_version rt)) d (\<lambda>x.
     (let d = d\<lparr>dg_SQLiteVersion := x\<rparr>
      in learn ''read sqlite schema version'' max_version d (\<lambda>x.
     (let d = d\<lparr>dg_SchemaVersion := x\<rparr>
      in learn ''read sqlite journal mode'' (query (\<lambda>_. rt_journal_mode rt)) d (\<lambda>x.
     (let d = d\<lparr>dg_JournalMode := x\<rparr>
      in learn ''read sqlite foreign keys'' (query (\<lambda>_. rt_foreign_keys rt)) d (\<lambda>x.
     (let d = d\<lparr>dg_ForeignKeys := x\<rparr>
      in learn ''read sqlite busy timeout'' (query (\<lambda>_. rt_busy_timeout rt)) d (\<lambda>x.
     (let d = d\<lparr>dg_BusyTimeoutMs := x\<rparr>
      in learn ''read sqlite counts'' Sql_Counts d (\<lambda>x.
     write_probe (file_sizes rt path (d\<lparr>dg_Counts := x\<rparr>))))))))))))))"

section \<open>What opening does to a database\<close>

definition initialised :: "DB \<Rightarrow> DB" where
  "initialised db = create_clients (insert_first_version db)"

definition has_last_used :: "DB \<Rightarrow> bool" where
  "has_last_used db \<longleftrightarrow> ''last_used_at'' \<in> set (db_client_columns db)"

definition supported :: "DB \<Rightarrow> bool" where
  "supported db \<longleftrightarrow> db_versions db = [1] \<or> db_versions db = [2] \<and> has_last_used db"

definition upgraded :: "DB \<Rightarrow> DB" where
  "upgraded db =
     (if db_versions db = [1]
      then advance_version (if has_last_used db then db else backfill_last_used (add_last_used db))
      else db)"

definition configured :: "DB \<Rightarrow> DB" where
  "configured db = upgraded (initialised db)"

lemma version_state_single:
  "version_state db = (1, m, x) \<longleftrightarrow> db_versions db = [m] \<and> x = m"
  by (auto simp: version_state_def split: list.splits)

text \<open>A statement outside a transaction is a transaction of its own.\<close>

lemma wp_exec:
  assumes "at F c db None" "\<And>c'. at F c' (f db) None \<Longrightarrow> Q (Inr ()) c'"
    and "\<And>err c'. at F c' db None \<Longrightarrow> Q (Inl err) c'"
  shows "wp (exec f) Q c"
  unfolding exec_def
  by (rule wp_statement [OF assms(1)])
    (use assms in \<open>auto simp: at_def cn_current_def\<close>)

text \<open>Every prefix of the script may be what is left.\<close>

lemma wp_exec_script:
  assumes "at F c db None"
  shows "wp (exec_script fs) (\<lambda>r c'. (r = Inr () \<and> at F c' (fold (\<lambda>f. f) fs db) None) \<or>
    (\<exists>n err. r = Inl err \<and> at F c' (fold (\<lambda>f. f) (take n fs) db) None)) c"
  using assms
proof (induction fs arbitrary: db c)
  case Nil
  then show ?case by (simp add: wp_simps)
next
  case (Cons f fs)
  show ?case
    unfolding exec_script.simps wp_unless_error
  proof (rule wp_exec [OF Cons.prems], unfold sum.case)
    fix c'
    assume "at F c' (f db) None"
    from Cons.IH [OF this] show "wp (exec_script fs) (\<lambda>r c'. (r = Inr () \<and>
        at F c' (fold (\<lambda>f. f) (f # fs) db) None) \<or>
        (\<exists>n err. r = Inl err \<and> at F c' (fold (\<lambda>f. f) (take n (f # fs)) db) None)) c'"
      by (rule wp_mono) (auto intro: exI [of _ "Suc _"])
  next
    fix err c'
    assume "at F c' db None"
    then have "at F c' (fold (\<lambda>f. f) (take 0 (f # fs)) db) None" by simp
    then show "(Inl err = Inr () \<and> at F c' (fold (\<lambda>f. f) (f # fs) db) None) \<or>
        (\<exists>n err'. Inl err = Inl err' \<and> at F c' (fold (\<lambda>f. f) (take n (f # fs)) db) None)"
      by blast
  qed
qed

lemma unchanged_id [simp]: "unchanged = id"
  by (simp add: fun_eq_iff unchanged_def)

lemma fold_unchanged: "set fs \<subseteq> {id} \<Longrightarrow> fold (\<lambda>f. f) fs db = db"
  by (induction fs arbitrary: db) auto

lemma script_prefix:
  "fold (\<lambda>f. f) (take n schema_script) db \<in> {db, insert_first_version db, initialised db}"
proof -
  obtain rest where rest: "schema_script = [id, insert_first_version, create_clients] @ rest"
      "set rest \<subseteq> {id}"
    by (simp add: schema_script_def)
  then have "set (take m rest) \<subseteq> {id}" for m
    using set_take_subset [of m rest] by blast
  then have rest_id: "fold (\<lambda>f. f) (take m rest) db' = db'" for m db'
    by (rule fold_unchanged)
  consider "n = 0" | "n = Suc 0" | "n = Suc (Suc 0)" | m where "n = Suc (Suc (Suc m))"
    by (metis not0_implies_Suc)
  then show ?thesis
    by cases (simp_all add: rest(1) rest_id initialised_def)
qed

lemma script_all: "fold (\<lambda>f. f) schema_script db = initialised db"
  by (simp add: schema_script_def initialised_def fold_unchanged)

text \<open>Looking for a column changes nothing.\<close>

lemma wp_scan_columns:
  assumes "at F c db tx" "\<And>c'. at F c' db tx \<Longrightarrow> Q (Inr (column \<in> set names)) c'"
    and "\<And>err c'. at F c' db tx \<Longrightarrow> F err \<Longrightarrow> Q (Inl err) c'"
  shows "wp (scan_columns column names) Q c"
  using assms(1,2)
proof (induction names arbitrary: c)
  case Nil
  show ?case
    unfolding scan_columns.simps wp_unless_error exec_def wp_simps
    by (rule wp_statement [OF Nil(1) refl])
      (use Nil assms(3) in \<open>auto simp: at_def cn_current_def split: option.splits\<close>)
next
  case (Cons name names)
  show ?case
    unfolding scan_columns.simps wp_unless_error exec_def
  proof (rule wp_statement [OF Cons.prems(1) refl])
    fix c' db' and r :: "unit result"
    assume "(Inr (), unchanged (cn_current c)) = (r, db')"
      "at F c' (case tx of None \<Rightarrow> db' | Some _ \<Rightarrow> db) (map_option (\<lambda>_. db') tx)"
    then have "r = Inr ()" "at F c' db tx"
      using Cons.prems(1) by (auto simp: at_def cn_current_def split: option.splits)
    with Cons.prems(2) Cons.IH [of c'] show "case r of Inl err \<Rightarrow> Q (Inl err) c'
        | Inr _ \<Rightarrow> wp (if name = column then give (Inr True) else scan_columns column names) Q c'"
      by (auto simp: wp_simps)
  qed (simp add: assms(3))
qed

lemma wp_txHasColumn:
  assumes "at F c db tx" "cn_current c = db'"
    and "\<And>c'. at F c' db tx \<Longrightarrow> Q (Inr (column \<in> set (table_info table db'))) c'"
    and "\<And>err c'. at F c' db tx \<Longrightarrow> F err \<Longrightarrow> Q (Inl err) c'"
  shows "wp (txHasColumn table column) Q c"
  unfolding txHasColumn_def wp_unless_error query_def
proof (rule wp_statement [OF assms(1,2)])
  fix c' db1 and r :: "string list result"
  assume "(Inr (table_info table db'), db') = (r, db1)"
    "at F c' (case tx of None \<Rightarrow> db1 | Some _ \<Rightarrow> db) (map_option (\<lambda>_. db1) tx)"
  then have "r = Inr (table_info table db')" "at F c' db tx"
    using assms(1,2) by (auto simp: at_def cn_current_def split: option.splits)
  with assms(3,4) show "case r of Inl err \<Rightarrow> Q (Inl err) c'
      | Inr names \<Rightarrow> wp (scan_columns column names) Q c'"
    by (auto intro: wp_scan_columns)
qed (simp add: assms(4))

text \<open>Opening either leaves the upgraded database or reports an error with no record touched.\<close>

definition opened_to :: "(go_error \<Rightarrow> bool) \<Rightarrow> DB \<Rightarrow> unit result \<Rightarrow> Conn \<Rightarrow> bool" where
  "opened_to F db r c \<longleftrightarrow>
     (r = Inr () \<and> supported (initialised db) \<and> at F c (configured db) None) \<or>
     (\<exists>err db'. r = Inl err \<and> at F c db' None \<and> db' \<in> {db, insert_first_version db, initialised db})"

lemma opened_error: "at F c (initialised db) None \<Longrightarrow> opened_to F db (Inl err) c"
  by (auto simp: opened_to_def)

text \<open>Wrapping its errors does not matter to a postcondition that does not tell errors apart.\<close>

definition any_error :: "('r result \<Rightarrow> 'c \<Rightarrow> bool) \<Rightarrow> bool" where
  "any_error Q \<longleftrightarrow> (\<forall>e e' c. Q (Inl e) c \<longrightarrow> Q (Inl e') c)"

lemma wp_wrap:
  "any_error Q \<Longrightarrow> wp m Q c \<Longrightarrow> wp (wrapping msg m) Q c"
  unfolding wp_wrapping any_error_def
  by (erule wp_mono, rename_tac r c', case_tac r) auto

lemma wp_wrap_then:
  "any_error Q \<Longrightarrow> wp (unless_error m k) Q c \<Longrightarrow> wp (unless_error (wrapping msg m) k) Q c"
  unfolding wp_wrapping wp_unless_error any_error_def
  by (erule wp_mono, rename_tac r c', case_tac r) auto

lemma any_error_ends: "any_error P \<Longrightarrow> any_error (ends F P)"
  by (auto simp: any_error_def ends_def)

lemma any_error_left: "any_error P \<Longrightarrow> any_error (\<lambda>r c. \<exists>db. at F c db None \<and> P r db)"
  by (auto simp: any_error_def)

lemma wp_query:
  assumes "at F c db None" "\<And>c'. at F c' db None \<Longrightarrow> wp (k (f db)) Q c'"
    and "\<And>err c'. at F c' db None \<Longrightarrow> Q (Inl err) c'"
  shows "wp (unless_error (query f) k) Q c"
  unfolding wp_unless_error query_def
  by (rule wp_statement [OF assms(1)])
    (use assms in \<open>auto simp: at_def cn_current_def\<close>)

lemma tx_has_column:
  assumes "inside F db0 db c" "tolerates F P db0"
    and "\<And>c'. inside F db0 db c' \<Longrightarrow> wp (k (column \<in> set (table_info table db))) (ends F P) c'"
  shows "wp (unless_error (txHasColumn table column) k) (ends F P) c"
  unfolding wp_unless_error
  by (rule wp_txHasColumn [OF assms(1) [unfolded inside_def] inside_current [OF assms(1)]])
    (use assms(2,3) in \<open>auto simp: inside_def intro: ends_fault\<close>)

definition migrated_to :: "DB \<Rightarrow> unit result \<Rightarrow> DB \<Rightarrow> bool" where
  "migrated_to db r db' \<longleftrightarrow> (r = Inr () \<and> supported db \<and> db' = upgraded db) \<or> (\<exists>err. r = Inl err \<and> db' = db)"

lemma migrated_to_rules:
  "any_error (migrated_to db)" "tolerates F (migrated_to db) db" "migrated_to db (Inl err) db"
  by (auto simp: any_error_def tolerates_def migrated_to_def)

lemmas migrated_to_ends = any_error_ends [OF migrated_to_rules(1)]

lemma tx_migrate:
  assumes "inside F db db c" "db_versions db = [1]"
  shows "wp (unless_error (wrapping ''inspect oauth_clients columns''
           (txHasColumn ''oauth_clients'' ''last_used_at'')) (\<lambda>has.
         unless_error (if has then give (Inr ())
           else
             unless_error (wrapping ''add oauth_clients.last_used_at'' (exec add_last_used)) (\<lambda>_.
             wrapping ''backfill oauth_clients.last_used_at'' (exec backfill_last_used))) (\<lambda>_.
         unless_error (wrapping ''advance sqlite schema version'' (exec advance_version)) (\<lambda>_.
         wrapping ''commit schema migration'' Commit)))) (ends F (migrated_to db)) c"
proof -
  have finish: "wp (unless_error (wrapping ''advance sqlite schema version'' (exec advance_version)) (\<lambda>_.
         wrapping ''commit schema migration'' Commit)) (ends F (migrated_to db)) c'"
    if "inside F db db' c'" "advance_version db' = upgraded db" for db' c'
    by (rule wp_wrap_then [OF migrated_to_ends], rule tx_exec [OF that(1) migrated_to_rules(2)],
        rule wp_wrap [OF migrated_to_ends], rule tx_Commit, assumption, rule migrated_to_rules(2))
      (use assms(2) that(2) in \<open>simp add: migrated_to_def supported_def\<close>)
  have rest: "wp (unless_error (if has then give (Inr ())
           else
             unless_error (wrapping ''add oauth_clients.last_used_at'' (exec add_last_used)) (\<lambda>_.
             wrapping ''backfill oauth_clients.last_used_at'' (exec backfill_last_used))) (\<lambda>_.
         unless_error (wrapping ''advance sqlite schema version'' (exec advance_version)) (\<lambda>_.
         wrapping ''commit schema migration'' Commit))) (ends F (migrated_to db)) c'"
    if "inside F db db c'" "has = has_last_used db" for has c'
  proof (cases has)
    case True
    with that finish [OF that(1)] assms(2) show ?thesis
      by (simp add: tx_give_Inr upgraded_def)
  next
    case False
    with that(2) assms(2) have up: "advance_version (backfill_last_used (add_last_used db)) = upgraded db"
      by (simp add: upgraded_def)
    show ?thesis
      unfolding if_not_P [OF False] unless_error_assoc
      by (rule wp_wrap_then [OF migrated_to_ends], rule tx_exec [OF that(1) migrated_to_rules(2)],
          rule wp_wrap_then [OF migrated_to_ends], rule tx_exec, assumption, rule migrated_to_rules(2),
          rule finish, assumption, rule up)
  qed
  show ?thesis
    by (rule wp_wrap_then [OF migrated_to_ends], rule tx_has_column [OF assms(1) migrated_to_rules(2)],
        rule rest, assumption) (simp add: has_last_used_def table_info_def)
qed

lemma wp_migrate:
  assumes c: "at F c (initialised db) None"
  shows "wp migrate (\<lambda>r. opened_to F db (map_sum f id r)) c"
proof -
  let ?Q = "\<lambda>r c'. \<exists>db'. at F c' db' None \<and> migrated_to (initialised db) r db'"
  have Q: "any_error ?Q" by (rule any_error_left [OF migrated_to_rules(1)])
  have stay: "?Q (Inl err) c'" if "at F c' (initialised db) None" for err c'
    using that migrated_to_rules(3) by blast
  have "wp migrate ?Q c"
    unfolding migrate_def
  proof (rule wp_wrap_then [OF Q], rule wp_query [OF c], goal_cases)
    case (1 c')
    obtain count minimum maximum where v: "version_state (initialised db) = (count, minimum, maximum)"
      by (cases "version_state (initialised db)")
    consider (refused) "count \<noteq> 1 \<or> minimum < 1 \<or> maximum < minimum \<or> maximum > 2"
      | (current) "db_versions (initialised db) = [2]" "count = 1" "minimum = 2" "maximum = 2"
      | (old) "db_versions (initialised db) = [1]" "count = 1" "minimum = 1" "maximum = 1"
    proof (cases "count \<noteq> 1 \<or> minimum < 1 \<or> maximum < minimum \<or> maximum > 2")
      case False
      with v have "db_versions (initialised db) = [minimum]" "maximum = minimum"
        by (auto simp: version_state_single)
      moreover from False have "minimum = 1 \<or> minimum = 2" by arith
      ultimately show ?thesis using False that(2,3) by auto
    qed (rule that(1))
    then show ?case
    proof cases
      case refused
      with 1 v stay show ?thesis by (auto simp: wp_simps currentSchemaVersion_def)
    next
      case current
      have "wp (requireColumn ''oauth_clients'' ''last_used_at'') ?Q c'"
        unfolding requireColumn_def
        by (rule wp_wrap_then [OF Q], unfold wp_unless_error, rule wp_txHasColumn [OF 1])
          (use 1 current stay in \<open>auto simp: wp_simps at_def cn_current_def table_info_def migrated_to_def
            supported_def upgraded_def has_last_used_def\<close>)
      with current v show ?thesis by (simp add: currentSchemaVersion_def)
    next
      case old
      have "wp (unless_error (wrapping ''begin schema migration'' BeginTx) (\<lambda>_. do {
           r \<leftarrow> body; _ \<leftarrow> rollback; State_Monad.return r })) ?Q c'"
        if "\<And>c'. inside F (initialised db) (initialised db) c' \<Longrightarrow> wp body (ends F (migrated_to (initialised db))) c'" for body
        by (rule wp_wrap_then [OF Q], fold in_tx_def, rule wp_in_tx [OF 1 migrated_to_rules(2) that])
      from this [OF tx_migrate [OF _ old(1)]] old v show ?thesis
        by (simp add: currentSchemaVersion_def)
    qed
  next
    case (2 err c')
    then show ?case by (rule stay)
  qed
  then show ?thesis
    by (rule wp_mono) (auto simp: migrated_to_def opened_to_def configured_def)
qed

lemma wp_script_step:
  assumes "at F c db None" "\<And>c'. at F c' (fold (\<lambda>f. f) fs db) None \<Longrightarrow> wp m Q c'"
    and "\<And>n err c'. at F c' (fold (\<lambda>f. f) (take n fs) db) None \<Longrightarrow> Q (Inl (WrapError msg err)) c'"
  shows "wp (unless_error (wrapping msg (exec_script fs)) (\<lambda>_. m)) Q c"
  unfolding wp_unless_error wp_wrapping
  by (rule wp_mono [OF wp_exec_script [OF assms(1)]]) (auto intro: assms(2,3))

lemma wp_configure:
  assumes "at F c db None"
  shows "wp configure (opened_to F db) c"
  unfolding configure_def
proof (rule wp_script_step [OF assms], goal_cases)
  case (1 c')
  then have "at F c' db None" by (simp add: fold_unchanged)
  then show ?case
  proof (rule wp_script_step, goal_cases)
    case (1 c')
    then show ?case by (simp add: script_all wp_wrapping wp_migrate)
  next
    case (2 n err c')
    then show ?case using script_prefix [of n db] by (auto simp: opened_to_def)
  qed
next
  case (2 n err c')
  then show ?case by (auto simp: opened_to_def take_replicate fold_unchanged)
qed

section \<open>What is left of the records\<close>

lemma initialised_records [simp]:
  "db_clients (initialised db) = db_clients db"
  "db_authorizations (initialised db) = db_authorizations db"
  "db_consents (initialised db) = db_consents db"
  "db_codes (initialised db) = db_codes db"
  "db_grants (initialised db) = db_grants db"
  by (simp_all add: initialised_def insert_first_version_def create_clients_def)

lemma initialised_again: "initialised (initialised db) = initialised db"
  by (auto simp: initialised_def insert_first_version_def create_clients_def)

lemma upgraded_records [simp]:
  "db_authorizations (upgraded db) = db_authorizations db"
  "db_consents (upgraded db) = db_consents db"
  "db_codes (upgraded db) = db_codes db"
  "db_grants (upgraded db) = db_grants db"
  by (simp_all add: upgraded_def advance_version_def add_last_used_def backfill_last_used_def)

lemma upgraded_clients:
  "db_clients (upgraded db) =
     (if db_versions db = [1] \<and> \<not> has_last_used db
      then gm_map (\<lambda>row. row\<lparr>row_used := Some (row_created row)\<rparr>) (db_clients db) else db_clients db)"
  by (auto simp: upgraded_def advance_version_def add_last_used_def backfill_last_used_def
      update_rows_def gm_map_def)

lemma configured_current:
  "supported (initialised db) \<Longrightarrow> db_versions (configured db) = [2] \<and> has_last_used (configured db)"
  by (auto simp: supported_def configured_def upgraded_def advance_version_def add_last_used_def
      backfill_last_used_def has_last_used_def currentSchemaVersion_def)

lemma current_configured: "db_versions db = [2] \<Longrightarrow> has_last_used db \<Longrightarrow> configured db = db"
  by (auto simp: configured_def upgraded_def initialised_def insert_first_version_def
      create_clients_def has_last_used_def)

lemma current_supported: "db_versions db = [2] \<Longrightarrow> has_last_used db \<Longrightarrow> initialised db = db \<and> supported db"
  by (auto simp: supported_def initialised_def insert_first_version_def create_clients_def has_last_used_def)

section \<open>Without faults\<close>

text \<open>On a connection without faults every statement succeeds, so what opening does can be computed.\<close>

named_theorems quiet_simps

lemma next_fault_quiet [simp]: "cn_faults c = [] \<Longrightarrow> run_state next_fault c = (None, c)"
  by (simp add: next_fault_def)

lemma statement_quiet [quiet_simps]:
  "cn_faults c = [] \<Longrightarrow> wp (statement f) Q c =
     (case f (cn_violation c) (cn_current c) of (r, db) \<Rightarrow> Q r (set_current db c))"
  by (simp add: statement_def wp_bind wp_def split: prod.splits)

lemma set_current_faults [simp]: "cn_faults (set_current db c) = cn_faults c"
  by (simp add: set_current_def split: option.splits)

lemma set_current_same [simp]: "set_current (cn_current c) c = c"
  by (simp add: set_current_def cn_current_def split: option.splits)

lemma cn_current_set [simp]: "cn_current (set_current db c) = db"
  by (simp add: set_current_def cn_current_def split: option.splits)

lemma set_current_twice [simp]: "set_current db' (set_current db c) = set_current db' c"
  by (simp add: set_current_def split: option.splits)

lemma exec_quiet [quiet_simps]:
  "cn_faults c = [] \<Longrightarrow> wp (exec f) Q c = Q (Inr ()) (set_current (f (cn_current c)) c)"
  by (simp add: exec_def quiet_simps)

lemma query_quiet [quiet_simps]:
  "cn_faults c = [] \<Longrightarrow> wp (query f) Q c = Q (Inr (f (cn_current c))) c"
  by (simp add: query_def quiet_simps)

lemma exec_script_quiet [quiet_simps]:
  "cn_faults c = [] \<Longrightarrow> wp (exec_script fs) Q c =
     Q (Inr ()) (set_current (fold (\<lambda>f. f) fs (cn_current c)) c)"
  by (induction fs arbitrary: c) (simp_all add: wp_unless_error quiet_simps wp_simps)

lemma scan_columns_quiet [quiet_simps]:
  "cn_faults c = [] \<Longrightarrow> wp (scan_columns column names) Q c = Q (Inr (column \<in> set names)) c"
  by (induction names) (auto simp: wp_unless_error quiet_simps wp_simps)

lemma txHasColumn_quiet [quiet_simps]:
  "cn_faults c = [] \<Longrightarrow> wp (txHasColumn ''oauth_clients'' ''last_used_at'') Q c =
     Q (Inr (has_last_used (cn_current c))) c"
  by (simp add: txHasColumn_def wp_unless_error quiet_simps table_info_def has_last_used_def)

lemma begin_quiet [quiet_simps]:
  "cn_faults c = [] \<Longrightarrow> wp BeginTx Q c = Q (Inr ()) (c\<lparr>cn_tx := Some (cn_db c)\<rparr>)"
  by (simp add: BeginTx_def wp_bind wp_def)

lemma commit_quiet [quiet_simps]:
  "cn_faults c = [] \<Longrightarrow> wp Commit Q c = Q (Inr ()) (c\<lparr>cn_db := cn_current c, cn_tx := None\<rparr>)"
  by (simp add: Commit_def wp_bind wp_def)

lemma rollback_quiet [quiet_simps]: "wp rollback Q c = Q () (c\<lparr>cn_tx := None\<rparr>)"
  by (simp add: rollback_def wp_def)

lemma migrate_quiet:
  assumes "cn_faults c = []" "cn_tx c = None" "supported (cn_db c)"
  shows "wp migrate (\<lambda>r c'. r = Inr () \<and> c' = c\<lparr>cn_db := upgraded (cn_db c)\<rparr>) c"
proof -
  have current: "cn_current c = cn_db c" using assms(2) by (simp add: cn_current_def)
  consider "db_versions (cn_db c) = [1]" "\<not> has_last_used (cn_db c)"
    | "db_versions (cn_db c) = [1]" "has_last_used (cn_db c)"
    | "db_versions (cn_db c) = [2]" "has_last_used (cn_db c)"
    using assms(3) by (auto simp: supported_def)
  then show ?thesis
    by cases
      (simp_all add: migrate_def wp_unless_error wp_simps wp_bind quiet_simps assms current version_state_def
        currentSchemaVersion_def requireColumn_def upgraded_def cn_current_def set_current_def)
qed

lemma configure_quiet:
  assumes "cn_faults c = []" "cn_tx c = None" "supported (initialised (cn_db c))"
  shows "wp configure (\<lambda>r c'. r = Inr () \<and> c' = c\<lparr>cn_db := configured (cn_db c)\<rparr>) c"
proof -
  let ?c = "c\<lparr>cn_db := initialised (cn_db c)\<rparr>"
  have "wp migrate (\<lambda>r c'. r = Inr () \<and> c' = ?c\<lparr>cn_db := upgraded (cn_db ?c)\<rparr>) ?c"
    by (rule migrate_quiet) (simp_all add: assms)
  then have "wp migrate (\<lambda>r c'. r = Inr () \<and> c' = c\<lparr>cn_db := configured (cn_db c)\<rparr>) ?c"
    by (simp add: configured_def)
  then have "wp migrate (\<lambda>r c'. map_sum (WrapError ''migrate sqlite'') id r = Inr () \<and>
      c' = c\<lparr>cn_db := configured (cn_db c)\<rparr>) ?c"
    by (rule wp_mono) simp
  then show ?thesis
    using assms(2)
    by (simp add: configure_def wp_unless_error wp_simps quiet_simps assms(1) fold_unchanged script_all
        cn_current_def set_current_def)
qed

section \<open>Diagnostics\<close>

text \<open>Reading the facts and the write probe leave the database as it is.\<close>

lemma learn_at:
  assumes "wp m (\<lambda>_ c'. at F c' db None) c" "\<And>x c'. at F c' db None \<Longrightarrow> wp (k x) (\<lambda>_ c'. at F c' db None) c'"
  shows "wp (learn msg m d k) (\<lambda>_ c'. at F c' db None) c"
  unfolding learn_def wp_bind
  by (rule wp_mono [OF assms(1)]) (use assms(2) in \<open>auto simp: wp_simps split: sum.splits\<close>)

lemma query_at: "at F c db None \<Longrightarrow> wp (query f) (\<lambda>_ c'. at F c' db None) c"
  unfolding query_def
  by (rule wp_statement) (auto simp: at_def cn_current_def)

lemma max_version_at: "at F c db None \<Longrightarrow> wp max_version (\<lambda>_ c'. at F c' db None) c"
  unfolding max_version_def wp_unless_error
  by (rule wp_mono [OF query_at]) (auto simp: wp_simps split: sum.splits)

lemma counts_at: "at F c db None \<Longrightarrow> wp Sql_Counts (\<lambda>_ c'. at F c' db None) c"
  unfolding Sql_Counts_def count_rows_def
  by (rule wp_query wp_give [THEN iffD2] | assumption)+

lemma write_probe_at:
  assumes "at F c db None"
  shows "wp (write_probe d) (\<lambda>_ c'. at F c' db None) c"
  unfolding write_probe_def BeginTx_def wp_bind
proof (rule wp_next_fault [OF assms], goal_cases)
  case (1 c')
  then have c': "at F (c'\<lparr>cn_tx := Some db\<rparr>) db (Some db)" by (simp add: at_def conn_ok_def)
  have "wp (exec (\<lambda>db. db\<lparr>db_versions := map (\<lambda>v. v) (db_versions db)\<rparr>))
      (\<lambda>r c'. at F (c'\<lparr>cn_tx := None\<rparr>) db None) (c'\<lparr>cn_tx := Some db\<rparr>)"
    unfolding exec_def
    by (rule wp_statement [OF c']) (use 1 in \<open>auto simp: at_def cn_current_def conn_ok_def\<close>)
  with 1 show ?case
    by (auto simp: wp_simps wp_def at_def rollback_def split: sum.splits prod.splits)
next
  case (2 err c')
  then show ?case by (simp add: wp_simps)
qed

lemma diagnostics_at: "at F c db None \<Longrightarrow> wp (Sql_Diagnostics rt path) (\<lambda>_ c'. at F c' db None) c"
  unfolding Sql_Diagnostics_def Let_def
  by (intro learn_at query_at max_version_at counts_at write_probe_at)

end
