(* ===== verification/Sqlite_Properties.thy ===== *)
theory Sqlite_Properties
  imports Sqlite_Contract Sqlite_Pruning Sqlite_Schema Store_Properties
begin

text \<open>
  The properties of the SQLite store, with a sample database: one authorization code, all times
  at whole seconds.
\<close>

section \<open>A sample database\<close>

definition sql_times :: "time set" where
  "sql_times = {t. json_time t \<and> second dvd t}"

definition sql_codec :: "unit PrincipalCodec" where
  "sql_codec = \<lparr>codec_Encode = (\<lambda>p. Inr (p_Subject p)),
     codec_Decode = (\<lambda>bs. Inr (sample_principal\<lparr>p_Subject := bs\<rparr>)), codec_Zero = ()\<rparr>"

definition sql_code :: "unit AuthorizationCodeRecord" where
  "sql_code = sample_code\<lparr>ac_AuthorizationEnds := second * 2000, ac_ExpiresAt := second * 700\<rparr>"

definition sql_exchange :: "char \<Rightarrow> unit store_call" where
  "sql_exchange c = CommitCodeExchange (second * 50) (second * 50)
     \<lparr>cec_CodeDigest = sample_digest (CHR ''c''),
      cec_Refresh = Some ((sample_grant c 0 sample_scopes)\<lparr>rg_ExpiresAt := second * 2000\<rparr>)\<rparr>"

definition sql_store :: "unit Store" where
  "sql_store = NewStore\<lparr>st_codes := [(sample_digest (CHR ''c''), sql_code)]\<rparr>"

definition sql_payload :: json where
  "sql_payload = (case marshal_codeEnvelope sql_code ''alice'' of Inl _ \<Rightarrow> JNull | Inr j \<Rightarrow> j)"

definition empty_db :: DB where
  "empty_db = \<lparr>db_versions = [], db_client_columns = [], db_clients = [], db_authorizations = [],
     db_consents = [], db_codes = [], db_grants = []\<rparr>"

definition sql_db :: DB where
  "sql_db = (configured empty_db)\<lparr>db_codes := [(sample_digest (CHR ''c''), new_row sql_payload)]\<rparr>"

definition sql_conn :: "DB \<Rightarrow> Conn" where
  "sql_conn db = \<lparr>cn_db = db, cn_tx = None, cn_faults = [],
     cn_violation = (\<lambda>column. OtherError (''UNIQUE constraint failed: '' @ column))\<rparr>"

lemmas sql_defs = sql_times_def sql_codec_def sql_code_def sql_exchange_def sql_store_def sql_db_def
  sql_conn_def

lemma sql_times_ordered: "ordered_times sql_times"
  unfolding sql_times_def by (rule whole_seconds_ordered)

lemma json_time_seconds: "0 \<le> n \<Longrightarrow> n \<le> 2000 \<Longrightarrow> json_time (second * n)"
proof -
  assume "0 \<le> n" "n \<le> 2000"
  moreover have "second * n div second = n" by (simp add: second_def)
  moreover have "year_of 0 = 1" by code_simp
  ultimately show ?thesis by (simp add: json_time_def time_year_def)
qed

lemma sql_times_seconds [simp]: "0 \<le> n \<Longrightarrow> n \<le> 2000 \<Longrightarrow> second * n \<in> sql_times"
  by (simp add: sql_times_def json_time_seconds)

lemma contains_prefix: "contains (part @ rest) part"
  by (auto simp: contains_def list_ex_iff intro!: bexI [of _ 0])

lemma sql_conn_at: "at (\<lambda>_. False) (sql_conn db) db None"
proof -
  have "isConstraint (Some (cn_violation (sql_conn db) column))" for column
    using contains_prefix [of "''UNIQUE constraint''" "'' failed: '' @ column"]
    by (simp add: isConstraint_def sql_conn_def ContextCanceled_def)
  then show ?thesis by (simp add: at_def conn_ok_def sql_conn_def)
qed

lemma sql_texts: "list_all utf8 [''app'', sample_redirect, ''https://api.test'', ''xyz'', ''challenge'',
    ''S256'', ''family-000000001'', ''read'', ''write'']" "scopes_wf sample_scopes"
  by code_simp+

lemma sql_round_trips: "round_trips sql_codec sample_principal"
  by (simp add: round_trips_def sql_codec_def sample_principal_def)

lemma sql_code_ok: "ok_code sql_codec sql_times sql_code"
  using sql_texts
  by (simp add: ok_code_def ok_challenge_def sql_code_def sample_code_def sample_challenge_def
      sample_digest_def sql_round_trips json_time_seconds)

lemma sql_db_represents: "represents sql_codec sql_times sql_store sql_db"
proof -
  have "codec_Decode sql_codec ''alice'' = Inr (ac_Principal sql_code)"
    by (simp add: sql_defs sample_defs)
  from rep_new_code [OF sql_times_ordered sql_code_ok this]
  have "rep_code sql_codec sql_times sql_code (new_row sql_payload)"
    by (auto simp: sql_payload_def)
  then show ?thesis
    by (simp add: represents_def sql_store_def sql_db_def NewStore_def configured_def upgraded_clients empty_db_def
       initialised_def insert_first_version_def create_clients_def has_last_used_def)
qed

lemma sql_store_wf: "maps_wf sql_store"
  by (simp add: maps_wf_def sql_defs sample_defs NewStore_def gm_all_def zero_digest_def)

lemma sql_exchange_ok: "ok_call sql_codec sql_times sample_policy (sql_exchange c)"
  using sql_texts
  by (simp add: sql_exchange_def ok_grant_def sample_grant_def sample_digest_def sql_round_trips)
    (simp add: second_def)

section \<open>The store contract\<close>

text \<open>C32. The SQLite store against the in-memory store.  On a database that represents a store \<open>s\<close>, a
  call either meets a fault of the driver (an error that satisfies \<open>F\<close>) and leaves the database as it
  was, or answers with the value or the refusal the in-memory store answers from \<open>s\<close>, with one difference:
  the redirect URI of a decision is answered empty.  A success and the refusal \<open>ErrRevoked\<close> leave a
  database that represents the store the in-memory store ends with, pruned first where the call registers
  a client; every other refusal leaves the database as it was.  The records are storable and the texts of
  the times that occur are ordered as the times are.\<close>

theorem sqlite_refines_memory:
  assumes "at F c db None" and "represents codec T s db" and "ordered_times T" and "maps_wf s"
    and "ok_call codec T p call"
    and "run_state (sql_answer codec p call) c = (r, c')" and "mem_answer p call s = (m, s')"
  shows "\<exists>db'. at F c' db' None \<and>
    ((\<exists>err. r = Inl err \<and> F err \<and> db' = db) \<or>
     r = map_sum id disk_value m \<and>
       (if \<exists>err. r = Inl err \<and> err \<noteq> ErrRevoked then db' = db
        else represents codec T (settled call s') db'))"
  using sql_answer_contract [OF assms(1-6)] unfolding assms(7) fst_conv snd_conv .

theorem sqlite_refines_memory_witness:
  "\<exists>c' db'. run_state (sql_answer sql_codec sample_policy (sql_exchange (CHR ''f''))) (sql_conn sql_db) =
       (Inr NoValue, c') \<and> at (\<lambda>_. False) c' db' None \<and>
     represents sql_codec sql_times (snd (mem_answer sample_policy (sql_exchange (CHR ''f'')) sql_store)) db'"
proof -
  let ?call = "sql_exchange (CHR ''f'')"
  obtain r c' where run: "run_state (sql_answer sql_codec sample_policy ?call) (sql_conn sql_db) = (r, c')"
    by fastforce
  obtain m s' where mem: "mem_answer sample_policy ?call sql_store = (m, s')" by fastforce
  have "fst (mem_answer sample_policy ?call sql_store) = Inr NoValue" by code_simp
  with mem have m: "m = Inr NoValue" by simp
  have "settled ?call s' = s'" by (simp add: sql_exchange_def)
  with sqlite_refines_memory [OF sql_conn_at sql_db_represents sql_times_ordered sql_store_wf sql_exchange_ok run mem]
    m mem run show ?thesis
    by auto
qed

text \<open>C34. Atomicity.  Whatever the database holds, and whichever statement or commit fails: a call that
  reports an error has left every table as it was, and no transaction open.  The only exception is a
  rotation that answers \<open>ErrRevoked\<close>, which commits the revocation of the family.\<close>

theorem sqlite_call_atomic:
  assumes "conn_ok F c" and "cn_tx c = None" and "sql_step codec p call c = (Some err, c')"
    and "err \<noteq> ErrRevoked"
  shows "cn_db c' = cn_db c \<and> cn_tx c' = None \<and> conn_ok F c'"
proof -
  obtain x where x: "run_state (sql_call codec p call) c = (x, c')" "result_error x = Some err"
    using assms(3) by (auto simp: sql_step_def split: prod.splits)
  have "at F c (cn_db c) None" using assms(1,2) by (simp add: at_def)
  with sql_call_reverts [of codec p call]
  have "wp (sql_call codec p call) (\<lambda>r c'. \<exists>db'. at F c' db' None \<and> all_or_nothing (cn_db c) r db') c"
    by (simp add: reverts_def)
  from wpD [OF this x(1)] x(2) assms(4) show ?thesis
    by (auto simp: at_def all_or_nothing_def result_error_def split: sum.splits)
qed

text \<open>The fourth statement of the exchange fails: begin, three of the pruning, the failing one.\<close>

definition sql_failing :: Conn where
  "sql_failing = (sql_conn sql_db)\<lparr>cn_faults := [None, None, None, None, Some (OtherError ''disk I/O error'')]\<rparr>"

theorem sqlite_call_atomic_witness:
  "\<exists>c'. sql_step sql_codec sample_policy (sql_exchange (CHR ''f'')) sql_failing =
     (Some (OtherError ''disk I/O error''), c') \<and> cn_db c' = cn_db sql_failing \<and> cn_tx c' = None"
proof -
  let ?e = "OtherError ''disk I/O error''"
  obtain c' where c': "sql_step sql_codec sample_policy (sql_exchange (CHR ''f'')) sql_failing = (Some ?e, c')"
  proof -
    have "fst (sql_step sql_codec sample_policy (sql_exchange (CHR ''f'')) sql_failing) = Some ?e"
      by code_simp
    then show ?thesis by (intro that) (simp add: prod_eq_iff)
  qed
  have "\<not> isConstraint (Some ?e)" by code_simp
  with sql_conn_at [of sql_db] have "conn_ok (\<lambda>err. err = ?e) sql_failing" "cn_tx sql_failing = None"
    by (auto simp: at_def conn_ok_def sql_failing_def sql_conn_def)
  from sqlite_call_atomic [OF this c'] c' show ?thesis by simp
qed

text \<open>C33. Single use on disk.  Along every sequence of calls of the SQLite store, under whatever
  faults, an authorization code is exchanged at most as often as an approval issued it (plus once if
  the database held it live), and a refresh grant rotated at most as often as it was created.\<close>

theorem sqlite_single_use:
  assumes "at F c db None" and "represents codec T s db" and "ordered_times T" and "maps_wf s"
    and "list_all (ok_call codec T p) calls"
  shows "count_events (exchanges_code d) (fst (run (sql_step codec p) calls c)) \<le>
      count_events (issues_code d) (fst (run (sql_step codec p) calls c)) + (if code_live s d then 1 else 0) \<and>
    count_events (rotates_grant d) (fst (run (sql_step codec p) calls c)) \<le>
      count_events (issues_grant d) (fst (run (sql_step codec p) calls c)) + (if grant_live s d then 1 else 0)"
proof -
  obtain log c' where run: "run (sql_step codec p) calls c = (log, c')" by fastforce
  obtain cs log' s' where mem: "list_all clock_set cs" "run (store_step p) cs s = (log', s')"
      "successes log' = successes log"
    using sql_run_simulates [OF assms run] by blast
  have "counts_success (exchanges_code d)" "counts_success (issues_code d)"
    "counts_success (rotates_grant d)" "counts_success (issues_grant d)"
    by (auto simp: counts_success_def elim: exchanges_code.elims issues_code.elims
        rotates_grant.elims issues_grant.elims)
  note same = this [THEN count_events_successes, OF mem(3)]
  show ?thesis
    using code_use.potential_run [OF assms(4) mem(1,2), of d] grant_use.potential_run [OF assms(4) mem(1,2), of d]
    by (simp add: run same)
qed

theorem sqlite_single_use_witness:
  "count_events (exchanges_code (sample_digest (CHR ''c''))) (fst (run (sql_step sql_codec sample_policy)
     [sql_exchange (CHR ''f''), sql_exchange (CHR ''g'')] (sql_conn sql_db))) \<le> 1"
proof -
  let ?d = "sample_digest (CHR ''c'')"
  let ?cs = "[sql_exchange (CHR ''f''), sql_exchange (CHR ''g'')]"
  have "list_all (ok_call sql_codec sql_times sample_policy) ?cs" by (simp add: sql_exchange_ok)
  note once = sqlite_single_use [OF sql_conn_at sql_db_represents sql_times_ordered sql_store_wf this, of ?d]
  have "count_events (issues_code ?d) (fst (run (sql_step sql_codec sample_policy) ?cs (sql_conn sql_db))) = 0"
    by (simp add: fst_run_Cons sql_exchange_def del: run.simps(2))
  with once show ?thesis by (simp split: if_splits)
qed

text \<open>C35. Reads.  On a database that represents \<open>s\<close> every read answers what the in-memory store
  answers, unless a statement fails, and changes nothing: clients, codes and grants in full, with the
  consumption and revocation columns; transactions and consent sessions without their raw token, which
  is not stored.\<close>

theorem sqlite_reads_answer:
  assumes "at F c db None" and "represents codec T s db" and "ordered_times T" and "maps_wf s"
  shows "wp (Sql_GetClient cid) (answers F db (Mem_GetClient cid s)) c \<and>
    wp (Sql_GetAuthorization d) (answers F db
      (map_sum id (at_Token_update (\<lambda>_. [])) (Mem_GetAuthorization d s))) c \<and>
    wp (Sql_GetConsent codec d) (answers F db
      (map_sum id (cs_Token_update (\<lambda>_. [])) (Mem_GetConsent d s))) c \<and>
    wp (Sql_GetCodeForExchange codec b) (answers F db (Mem_GetCodeForExchange b s)) c \<and>
    wp (Sql_GetRefreshGrant codec d) (answers F db (Mem_GetRefreshGrant d s)) c \<and>
    wp Sql_Counts (answers F db (Mem_Counts s)) c"
  using get_client_answers [OF assms] get_authorization_answers [OF assms(1,2)]
    get_consent_answers [OF assms(1,2)] get_code_answers [OF assms(1,2)]
    get_grant_answers [OF assms(1,2)] counts_answers [OF assms(1,2)]
  by blast

theorem sqlite_reads_answer_witness:
  "wp (Sql_GetCodeForExchange sql_codec \<lparr>ceb_Digest = sample_digest (CHR ''c''), ceb_ClientID = ''app'',
       ceb_RedirectURI = sample_redirect, ceb_CodeVerifier = []\<rparr>)
     (\<lambda>r c'. r = Inr sql_code \<and> cn_db c' = sql_db) (sql_conn sql_db)"
proof -
  let ?b = "\<lparr>ceb_Digest = sample_digest (CHR ''c''), ceb_ClientID = ''app'', ceb_RedirectURI = sample_redirect, ceb_CodeVerifier = []\<rparr>"
  have "Mem_GetCodeForExchange ?b sql_store = Inr sql_code"
    by (simp add: Mem_GetCodeForExchange_def sql_store_def sql_code_def sample_code_def)
  with sqlite_reads_answer [OF sql_conn_at sql_db_represents sql_times_ordered sql_store_wf, of "[]" "[]" ?b]
  have "wp (Sql_GetCodeForExchange sql_codec ?b) (answers (\<lambda>_. False) sql_db (Inr sql_code)) (sql_conn sql_db)"
    by simp
  then show ?thesis by (rule wp_mono) (simp add: answers_def at_def)
qed

section \<open>Pruning to the second\<close>

text \<open>C37. Pruning.  Whatever times the records carry, a pruning that succeeds treats every record as its
  expiry says up to the second: transactions, consent sessions and codes that expire in a later second are kept
  as they are, those that expired in an earlier second are deleted, and where both the clock and the expiry are whole
  seconds exactly the expired ones are deleted.  The refresh grants of a family are judged together by the
  last of their expiries.  Clients and schema are left alone, and the counts answered are those of the rows deleted.\<close>

theorem prune_exact_to_the_second:
  assumes "at F c db None" and "represents codec {t. json_time t} s db" and "maps_wf s" and "json_time now"
    and "run_state (Sql_Prune now) c = (Inr stats, c')"
  shows "table_pruned now at_ExpiresAt (st_authorizers s) (db_authorizations db) (db_authorizations (cn_db c')) \<and>
    table_pruned now cs_ExpiresAt (st_consents s) (db_consents db) (db_consents (cn_db c')) \<and>
    table_pruned now ac_ExpiresAt (st_codes s) (db_codes db) (db_codes (cn_db c')) \<and>
    table_pruned now (\<lambda>g. family_latest s (rg_FamilyID g)) (st_refresh s) (db_grants db) (db_grants (cn_db c')) \<and>
    db_clients (cn_db c') = db_clients db \<and> db_versions (cn_db c') = db_versions db \<and> cn_tx c' = None \<and>
    stats = \<lparr>ps_Clients = 0,
      ps_Authorizations = removed (db_authorizations db) (db_authorizations (cn_db c')),
      ps_Consents = removed (db_consents db) (db_consents (cn_db c')),
      ps_Codes = removed (db_codes db) (db_codes (cn_db c')),
      ps_RefreshGrants = removed (db_grants db) (db_grants (cn_db c'))\<rparr>"
proof -
  note r = representsD [OF assms(2)] and pruned = expired_pruned [OF _ _ assms(4)]
  from prune_runs [OF assms(1,5)] have db': "cn_db c' = pruned_db now db" "cn_tx c' = None"
    "stats = prune_stats db (pruned_db now db)"
    by (simp_all add: at_def)
  show ?thesis
    using assms(3) pruned [OF r(2), where expiry = at_ExpiresAt and path = "[''ExpiresAt'']"]
      pruned [OF r(3), where expiry = cs_ExpiresAt and path = "[''session'', ''ExpiresAt'']"]
      pruned [OF r(4), where expiry = ac_ExpiresAt and path = "[''record'', ''ExpiresAt'']"] grants_pruned [OF r(5) _ assms(4)]
    by (simp add: db' pruned_db_def prune_stats_def rep_authorization_def rep_consent_def rep_code_def)
qed

text \<open>The code of the sample expires at second 700: it survives the pruning one second earlier and not the
  one at that second.\<close>

theorem prune_exact_to_the_second_witness:
  "gm_get (db_codes (cn_db (snd (run_state (Sql_Prune (second * 699)) (sql_conn sql_db))))) (sample_digest (CHR ''c'')) =
     Some (new_row sql_payload) \<and>
   gm_get (db_codes (cn_db (snd (run_state (Sql_Prune (second * 700)) (sql_conn sql_db))))) (sample_digest (CHR ''c'')) = None"
proof -
  have rep: "represents sql_codec {t. json_time t} sql_store sql_db"
    by (rule represents_mono [OF sql_db_represents]) (auto simp: sql_times_def)
  let ?d = "sample_digest (CHR ''c'')"
  have quiet: "\<not> isl (fst (run_state (Sql_Prune (second * 699)) (sql_conn sql_db)))"
    "\<not> isl (fst (run_state (Sql_Prune (second * 700)) (sql_conn sql_db)))" by code_simp+
  have "pruned_as (second * n) (second * 700) (Some (new_row sql_payload))
      (gm_get (db_codes (cn_db (snd (run_state (Sql_Prune (second * n)) (sql_conn sql_db))))) (sample_digest (CHR ''c'')))"
    if n: "n = 699 \<or> n = 700" for n
  proof -
    obtain x c' where run: "run_state (Sql_Prune (second * n)) (sql_conn sql_db) = (x, c')" by fastforce
    with quiet n obtain stats where "x = Inr stats" by (cases x) auto
    with run have "run_state (Sql_Prune (second * n)) (sql_conn sql_db) = (Inr stats, c')" by simp
    from prune_exact_to_the_second [OF sql_conn_at rep sql_store_wf json_time_seconds this] n
    have "table_pruned (second * n) ac_ExpiresAt (st_codes sql_store) (db_codes sql_db) (db_codes (cn_db c'))"
      by auto
    moreover have "gm_get (st_codes sql_store) ?d = Some sql_code" "gm_get (db_codes sql_db) ?d = Some (new_row sql_payload)"
      by (simp_all add: sql_store_def sql_db_def)
    moreover have "ac_ExpiresAt sql_code = second * 700" by (simp add: sql_code_def)
    ultimately show ?thesis by (simp add: table_pruned_def run split: option.splits) (metis option.inject)
  qed
  from this [of 699] this [of 700] show ?thesis by (simp add: pruned_as_def second_def)
qed

text \<open>The text drops trailing zeros, so a code that is
  valid for another half second is pruned at the whole second, which the in-memory store does not do.\<close>

definition half_second_code :: "unit AuthorizationCodeRecord" where
  "half_second_code = sql_code\<lparr>ac_ExpiresAt := second * 5 + second div 2\<rparr>"

definition half_second_db :: DB where
  "half_second_db = empty_db\<lparr>db_codes :=
     (case marshal_codeEnvelope half_second_code ''alice'' of Inl _ \<Rightarrow> []
      | Inr j \<Rightarrow> [(sample_digest (CHR ''c''), new_row j)])\<rparr>"

lemma pruned_half_a_second_early:
  "map_sum id ps_Codes (fst (run_state (Sql_Prune (second * 5)) (sql_conn half_second_db))) = Inr 1 \<and>
   map_sum id ps_Codes (fst (Mem_Prune (second * 5) sample_policy
     (NewStore\<lparr>st_codes := [(sample_digest (CHR ''c''), half_second_code)]\<rparr>))) = Inr 0"
  by (intro conjI) code_simp+

section \<open>Opening a database\<close>

text \<open>C36. Opening.  Whatever the database holds and whichever statement fails, opening the store
  leaves the records of the four state tables and the identities of the clients as they were.  A store is
  returned only if the schema was empty, of version 1, or of version 2 with the column
  \<open>last_used_at\<close>; the schema is then of version 2 with the column, and a client of a version 1 database has
  its creation as its last use.\<close>

theorem open_keeps_records:
  assumes "at F c db None" and "opens path = Inr c" and "length clocks \<le> 1" and "clocks \<noteq> [None]"
  shows "\<exists>r c' db'. Sql_Open json_codec system_clock opens path codec clocks = (r, Some c') \<and>
    at F c' db' None \<and>
    db_authorizations db' = db_authorizations db \<and> db_consents db' = db_consents db \<and>
    db_codes db' = db_codes db \<and> db_grants db' = db_grants db \<and>
    ((\<exists>err. r = Inl err \<and> db_clients db' = db_clients db) \<or>
     (\<exists>store. r = Inr store \<and> supported (initialised db) \<and> db_versions db' = [2] \<and> has_last_used db' \<and>
        db_clients db' =
          (if db_versions (initialised db) = [1] \<and> \<not> has_last_used (initialised db)
           then gm_map (\<lambda>row. row\<lparr>row_used := Some (row_created row)\<rparr>) (db_clients db) else db_clients db)))"
proof -
  obtain r c' where run: "run_state configure c = (r, c')" by fastforce
  have records: "db_clients (insert_first_version db) = db_clients db"
    "db_authorizations (insert_first_version db) = db_authorizations db"
    "db_consents (insert_first_version db) = db_consents db"
    "db_codes (insert_first_version db) = db_codes db" "db_grants (insert_first_version db) = db_grants db"
    by (simp_all add: insert_first_version_def)
  from wpD [OF wp_configure [OF assms(1)] run]
  consider "r = Inr ()" "supported (initialised db)" "at F c' (configured db) None"
    | err db' where "r = Inl err" "at F c' db' None" "db' \<in> {db, insert_first_version db, initialised db}"
    by (auto simp: opened_to_def)
  then show ?thesis
  proof cases
    case 1
    have "\<exists>store. Sql_Open json_codec system_clock opens path codec clocks = (Inr store, Some c')"
      using 1 assms(2,3,4) run by (simp add: Sql_Open_def Let_def)
    moreover have "db_clients (configured db) =
        (if db_versions (initialised db) = [1] \<and> \<not> has_last_used (initialised db)
         then gm_map (\<lambda>row. row\<lparr>row_used := Some (row_created row)\<rparr>) (db_clients db) else db_clients db)"
      by (simp add: configured_def upgraded_clients)
    moreover have "db_authorizations (configured db) = db_authorizations db"
      "db_consents (configured db) = db_consents db" "db_codes (configured db) = db_codes db"
      "db_grants (configured db) = db_grants db"
      by (simp_all add: configured_def)
    ultimately show ?thesis using 1 configured_current [OF 1(2)] by blast
  next
    case 2
    then show ?thesis
      using assms(2,3,4) run records by (auto simp: Sql_Open_def Let_def)
  qed
qed

text \<open>A version 1 database with a client.\<close>

definition old_client :: Client where
  "old_client = sample_client\<lparr>cl_CreatedAt := second * 10, cl_LastUsedAt := 0\<rparr>"

definition old_db :: DB where
  "old_db = empty_db\<lparr>db_versions := [1], db_client_columns := [''id'', ''payload'', ''created_at''],
     db_clients := (case marshal_Client old_client of Inl _ \<Rightarrow> []
       | Inr j \<Rightarrow> [(''app'', \<lparr>row_payload = j, row_created = rfc3339 (second * 10), row_used = None\<rparr>)])\<rparr>"

theorem open_keeps_records_witness:
  "\<exists>r c'. Sql_Open sql_codec () (\<lambda>_. Inr (sql_conn old_db)) ''oauth.db'' None [] = (r, Some c') \<and>
     map fst (db_clients (cn_db c')) = [''app'']"
proof -
  have clients: "map fst (db_clients old_db) = [''app'']" by code_simp
  then have "map fst (gm_map f (db_clients old_db)) = [''app'']" for f
    by (auto simp: gm_map_def comp_def case_prod_beta)
  with clients open_keeps_records [OF sql_conn_at, of "\<lambda>_. Inr (sql_conn old_db)" "''oauth.db''" old_db "[]"
    sql_codec "()" None]
  show ?thesis by (auto simp: at_def split: if_splits)
qed

text \<open>Opening succeeds.  Without faults every database with a supported schema opens, the database
  is the upgraded one and the store has the given codec and clock; opening it again finds nothing to do.\<close>

lemma open_succeeds:
  assumes "cn_faults c = []" and "cn_tx c = None" and "supported (initialised (cn_db c))"
    and "opens path = Inr c"
  shows "Sql_Open json_codec system_clock opens path codec [Some clock] =
      (Inr \<lparr>ss_path = path, ss_codec = (case codec of None \<Rightarrow> json_codec | Some x \<Rightarrow> x), ss_clock = clock\<rparr>,
       Some (c\<lparr>cn_db := configured (cn_db c)\<rparr>)) \<and>
    configured (configured (cn_db c)) = configured (cn_db c)"
proof -
  obtain r c' where run: "run_state configure c = (r, c')" by fastforce
  from wpD [OF configure_quiet [OF assms(1-3)] run] assms(4) run
  show ?thesis
    using configured_current [OF assms(3)] current_configured [of "configured (cn_db c)"]
    by (simp add: Sql_Open_def)
qed

text \<open>Diagnostics change nothing, whatever they meet: neither the reads nor the write probe leave
  a trace in the database or an open transaction.\<close>

lemma diagnostics_harmless:
  assumes "at F c db None" and "run_state (Sql_Diagnostics rt path) c = (d, c')"
  shows "at F c' db None"
  using wpD [OF diagnostics_at [OF assms(1)] assms(2)] .

end
