(* ===== verification/Jwt.thy ===== *)
theory Jwt
  imports Json Ports Result_State
begin

text \<open>
  \<open>pkg/jwttokens/service.go\<close>: access tokens as signed JWTs.  The JOSE library is a parameter, the
  record of its functions that the service calls; what the service relies on in it is the contract
  \<open>jose_laws\<close>.  RSA keys are those of \<open>crypto/rsa\<close>, a claim of the application is a JSON value.
\<close>

section \<open>Numbers and keys\<close>

text \<open>\<open>BitLen\<close> and \<open>Bytes\<close> of \<open>big.Int\<close>.\<close>

fun bit_count :: "nat \<Rightarrow> nat" where
  "bit_count n = (if n = 0 then 0 else Suc (bit_count (n div 2)))"

declare bit_count.simps [simp del]

definition BitLen :: "int \<Rightarrow> nat" where
  "BitLen n = bit_count (nat \<bar>n\<bar>)"

fun be_bytes_of :: "nat \<Rightarrow> string" where
  "be_bytes_of n = (if n = 0 then [] else be_bytes_of (n div 256) @ [char_of (n mod 256)])"

declare be_bytes_of.simps [simp del]

definition big_Bytes :: "int \<Rightarrow> string" where
  "big_Bytes n = be_bytes_of (nat \<bar>n\<bar>)"

record PublicKey =
  pub_N :: "int option"
  pub_E :: int

record PrivateKey =
  priv_Public :: PublicKey
  priv_D :: int
  priv_Primes :: "int list"

text \<open>\<open>rsa.PrivateKey.Validate\<close>: at least two odd primes whose product is the modulus, and exponents
  that are inverse to each other modulo each of them less one.\<close>

definition priv_Validate :: "PrivateKey \<Rightarrow> bool" where
  "priv_Validate key =
     (case pub_N (priv_Public key) of
        None \<Rightarrow> False
      | Some n \<Rightarrow>
          odd (pub_E (priv_Public key)) \<and>
          2 \<le> pub_E (priv_Public key) \<and> pub_E (priv_Public key) \<le> 2 ^ 31 - 1 \<and>
          2 \<le> length (priv_Primes key) \<and>
          list_all (\<lambda>p. 1 < p \<and> odd p) (priv_Primes key) \<and> prod_list (priv_Primes key) = n \<and>
          list_all (\<lambda>p. (pub_E (priv_Public key) * priv_D key - 1) mod (p - 1) = 0) (priv_Primes key))"

section \<open>Claims and the library\<close>

text \<open>\<open>jwt.Claims\<close> and \<open>jose.Header\<close>.  A numeric date is a pointer to a number of seconds.\<close>

record JwtClaims =
  jc_Issuer :: string
  jc_Subject :: string
  jc_Audience :: "string list"
  jc_Expiry :: "int option"
  jc_NotBefore :: "int option"
  jc_IssuedAt :: "int option"
  jc_ID :: string

record JoseHeader =
  jh_Algorithm :: string
  jh_KeyID :: string
  jh_JSONWebKey :: bool
  jh_ExtraHeaders :: "(string, json) gomap"

text \<open>\<open>NewSigner\<close> of a key with the type and \<open>kid\<close> headers, \<open>Serialize\<close> of the claims under that
  signer, \<open>ParseSigned\<close> for RS256, \<open>Claims\<close> of a parsed token (which verifies the signature) and
  \<open>ValidateWithLeeway\<close> for an issuer, an audience and a time, without leeway.\<close>

record 't Jose =
  jo_NewSigner :: "PrivateKey \<Rightarrow> string \<Rightarrow> string \<Rightarrow> go_error option"
  jo_Serialize :: "PrivateKey \<Rightarrow> string \<Rightarrow> string \<Rightarrow> JwtClaims \<Rightarrow> (string, json) gomap \<Rightarrow> string result"
  jo_ParseSigned :: "string \<Rightarrow> (JoseHeader list \<times> 't) result"
  jo_Claims :: "'t \<Rightarrow> PublicKey \<Rightarrow> (JwtClaims \<times> (string, json) gomap) result"
  jo_Validate :: "JwtClaims \<Rightarrow> string \<Rightarrow> string list \<Rightarrow> time \<Rightarrow> go_error option"
  jo_NewNumericDate :: "time \<Rightarrow> int option"
  jo_Time :: "int \<Rightarrow> time"

definition RS256 :: string where
  "RS256 = ''RS256''"

section \<open>The service\<close>

type_synonym ('w, 'a) ClaimProvider =
  "ctx \<Rightarrow> 'a Principal \<Rightarrow> ('w, (string, json) gomap result) state"

record ('w, 'a) JwtService =
  js_issuer :: string
  js_tokenType :: string
  js_activeKey :: PrivateKey
  js_verification :: "(string, PublicKey) gomap"
  js_activeKeyID :: string
  js_claims :: "('w, 'a) ClaimProvider option"
  js_clock :: "'w ClockPort"

record ('w, 'a) JwtConfig =
  jcf_Issuer :: string
  jcf_TokenType :: string
  jcf_ActiveKeyID :: string
  jcf_ActiveKey :: "PrivateKey option"
  jcf_Verification :: "(string, PublicKey option) gomap"
  jcf_Claims :: "('w, 'a) ClaimProvider option"
  jcf_Clock :: "'w ClockPort option"

record 'w JwtVerifier =
  jv_issuer :: string
  jv_tokenType :: string
  jv_verification :: "(string, PublicKey) gomap"
  jv_clock :: "'w ClockPort"

record 'w VerificationConfig =
  vcf_Issuer :: string
  vcf_TokenType :: string
  vcf_Keys :: "(string, PublicKey option) gomap"
  vcf_Clock :: "'w ClockPort option"

definition default_type :: "string \<Rightarrow> string" where
  "default_type t = (if t = [] then ''at+jwt'' else t)"

text \<open>The loop over the verification keys.\<close>

fun verification_keys ::
  "(string, PublicKey option) gomap \<Rightarrow> (string, PublicKey) gomap \<Rightarrow> (string, PublicKey) gomap result" where
  "verification_keys [] verification = Inr verification"
| "verification_keys ((kid, key) # keys) verification =
     (case key of
        None \<Rightarrow> Inl (OtherError ''JWT verification key is invalid'')
      | Some k \<Rightarrow>
          (case pub_N k of
             None \<Rightarrow> Inl (OtherError ''JWT verification key is invalid'')
           | Some n \<Rightarrow>
               if kid = [] \<or> BitLen n < 2048 \<or> pub_E k < 3
               then Inl (OtherError ''JWT verification key is invalid'')
               else verification_keys keys (gm_set kid k verification)))"

definition Jwt_NewVerifier :: "'w ClockPort \<Rightarrow> 'w VerificationConfig \<Rightarrow> 'w JwtVerifier result" where
  "Jwt_NewVerifier systemClock config =
     (if vcf_Issuer config = [] \<or> vcf_Keys config = []
      then Inl (OtherError ''JWT verification configuration is incomplete'')
      else
        (case verification_keys (vcf_Keys config) [] of
           Inl err \<Rightarrow> Inl err
         | Inr verification \<Rightarrow>
             Inr \<lparr>jv_issuer = vcf_Issuer config, jv_tokenType = default_type (vcf_TokenType config),
               jv_verification = verification,
               jv_clock = (case vcf_Clock config of None \<Rightarrow> systemClock | Some c \<Rightarrow> c)\<rparr>))"

text \<open>\<open>BitLen\<close> of a nil modulus panics.\<close>

definition Jwt_New :: "'w ClockPort \<Rightarrow> ('w, 'a) JwtConfig \<Rightarrow> ('w, 'a) JwtService result" where
  "Jwt_New systemClock config =
     (case jcf_ActiveKey config of
        None \<Rightarrow> Inl (OtherError ''JWT configuration is incomplete'')
      | Some key \<Rightarrow>
     if jcf_Issuer config = [] \<or> jcf_ActiveKeyID config = []
     then Inl (OtherError ''JWT configuration is incomplete'')
     else
     (case pub_N (priv_Public key) of
        None \<Rightarrow> Inl (GoPanic ''nil pointer dereference'')
      | Some n \<Rightarrow>
     if BitLen n < 2048 \<or> \<not> priv_Validate key
     then Inl (OtherError ''active JWT key must be a valid RSA key of at least 2048 bits'')
     else
     (case verification_keys (jcf_Verification config) [] of
        Inl err \<Rightarrow> Inl err
      | Inr verification \<Rightarrow>
     if (case gm_get verification (jcf_ActiveKeyID config) of
           None \<Rightarrow> False
         | Some existing \<Rightarrow> pub_N existing \<noteq> Some n \<or> pub_E existing \<noteq> pub_E (priv_Public key))
     then Inl (OtherError ''active JWT key ID conflicts with a different verification key'')
     else
     Inr \<lparr>js_issuer = jcf_Issuer config, js_tokenType = default_type (jcf_TokenType config),
       js_activeKey = key,
       js_verification = gm_set (jcf_ActiveKeyID config) (priv_Public key) verification,
       js_activeKeyID = jcf_ActiveKeyID config, js_claims = jcf_Claims config,
       js_clock = (case jcf_Clock config of None \<Rightarrow> systemClock | Some c \<Rightarrow> c)\<rparr>)))"

definition Jwt_TokenIssuer :: "('w, 'a) JwtService \<Rightarrow> string" where
  "Jwt_TokenIssuer s = js_issuer s"

section \<open>Issuing\<close>

definition reserved_claims :: "string list" where
  "reserved_claims =
     [''iss'', ''sub'', ''aud'', ''iat'', ''nbf'', ''exp'', ''jti'', ''client_id'', ''scope'']"

definition isReservedClaim :: "string \<Rightarrow> bool" where
  "isReservedClaim key \<longleftrightarrow> key \<in> set reserved_claims"

definition newTokenID :: "'w entropy \<Rightarrow> ('w, string result) state" where
  "newTokenID rand = unless_error (rand 16) (\<lambda>buf. give (Inr (EncodeToString buf)))"

text \<open>The loop over the provided claims, in the order of the map.\<close>

fun add_claims ::
  "(string, json) gomap \<Rightarrow> (string, json) gomap \<Rightarrow> (string, json) gomap result" where
  "add_claims [] extra = Inr extra"
| "add_claims ((key, v) # provided) extra =
     (if isReservedClaim key
      then Inl (OtherError (''claim provider attempted reserved claim '' @ [CHR 0x22] @ key @ [CHR 0x22]))
      else add_claims provided (gm_set key v extra))"

definition grant_claims :: "'t Jose \<Rightarrow> string \<Rightarrow> 'a AccessGrant \<Rightarrow> string \<Rightarrow> JwtClaims" where
  "grant_claims jo issuer grant jti =
     \<lparr>jc_Issuer = issuer, jc_Subject = p_Subject (ag_Principal grant), jc_Audience = [ag_Resource grant],
      jc_Expiry = jo_NewNumericDate jo (ag_ExpiresAt grant),
      jc_NotBefore = jo_NewNumericDate jo (ag_IssuedAt grant),
      jc_IssuedAt = jo_NewNumericDate jo (ag_IssuedAt grant), jc_ID = jti\<rparr>"

definition Jwt_IssueAccessToken ::
  "'t Jose \<Rightarrow> 'w entropy \<Rightarrow> ('w, 'a) JwtService \<Rightarrow> ctx \<Rightarrow> 'a AccessGrant \<Rightarrow>
   ('w, IssuedAccessToken result) state" where
  "Jwt_IssueAccessToken jo rand s ctx grant =
     (if p_Subject (ag_Principal grant) = [] \<or> ag_ClientID grant = [] \<or> ag_Resource grant = [] \<or>
         IsZero (ag_ExpiresAt grant) \<or> IsZero (ag_IssuedAt grant)
      then give (Inl (OtherError ''access grant is incomplete''))
      else
      unless_error (newTokenID rand) (\<lambda>jti.
      (let claims = grant_claims jo (js_issuer s) grant jti;
           extra = [(''client_id'', JString (ag_ClientID grant)),
             (''scope'', JString (ScopeSet_String (ag_Scopes grant)))]
       in
      unless_error
        (case js_claims s of
           None \<Rightarrow> give (Inr extra)
         | Some provider \<Rightarrow>
             unless_error (provider ctx (ag_Principal grant)) (\<lambda>provided.
             give (add_claims provided extra))) (\<lambda>extra.
      (case jo_NewSigner jo (js_activeKey s) (js_tokenType s) (js_activeKeyID s) of
         Some err \<Rightarrow> give (Inl err)
       | None \<Rightarrow>
      unless_error (give (jo_Serialize jo (js_activeKey s) (js_tokenType s) (js_activeKeyID s) claims extra))
        (\<lambda>serialized.
      give (Inr \<lparr>ia_Value = serialized, ia_TokenType = ''Bearer'', ia_ExpiresAt = ag_ExpiresAt grant\<rparr>)))))))"

section \<open>Verifying\<close>

definition headerValue :: "(string, json) gomap \<Rightarrow> string \<Rightarrow> string" where
  "headerValue headers key = (case gm_get headers key of Some (JString s) \<Rightarrow> s | _ \<Rightarrow> [])"

definition hasUntrustedKeyHeader :: "JoseHeader \<Rightarrow> bool" where
  "hasUntrustedKeyHeader h \<longleftrightarrow>
     list_ex (\<lambda>key. key \<in> {''jku'', ''jwk'', ''x5u'', ''x5c''}) (gm_keys (jh_ExtraHeaders h))"

definition token_error :: "string \<Rightarrow> 'b result" where
  "token_error msg = Inl (OtherError msg)"

text \<open>The checks of the claims once the signature is verified.\<close>

definition accept_claims ::
  "'t Jose \<Rightarrow> string \<Rightarrow> time \<Rightarrow> ResourceID \<Rightarrow> JwtClaims \<Rightarrow> (string, json) gomap \<Rightarrow> VerifiedAccessToken result" where
  "accept_claims jo issuer now resource claims all =
     (case (jc_Expiry claims, jc_IssuedAt claims) of
        (Some expiry, Some issued) \<Rightarrow>
     if jc_Issuer claims \<noteq> issuer \<or> jc_Subject claims = [] \<or> jc_ID claims = [] \<or>
        jc_Audience claims \<noteq> [resource] \<or> jo_Validate jo claims issuer [resource] now \<noteq> None
     then token_error ''access token claims are invalid''
     else
     (case gm_get all ''client_id'' of
        Some (JString clientRaw) \<Rightarrow>
     if clientRaw = [] then token_error ''access token client is missing''
     else
     (case NewClientID clientRaw of
        Inl _ \<Rightarrow> token_error ''access token client is invalid''
      | Inr clientID \<Rightarrow>
     (case gm_get all ''scope'' of
        Some (JString scopeRaw) \<Rightarrow>
     (case ParseScopes scopeRaw of
        Inl _ \<Rightarrow> token_error ''access token scope is invalid''
      | Inr scopes \<Rightarrow>
     (case NewSubject (jc_Subject claims) of
        Inl _ \<Rightarrow> token_error ''access token subject is invalid''
      | Inr subject \<Rightarrow>
     Inr \<lparr>va_Subject = subject, va_ClientID = clientID, va_Issuer = jc_Issuer claims,
       va_Resource = resource, va_Scopes = scopes, va_IssuedAt = jo_Time jo issued,
       va_ExpiresAt = jo_Time jo expiry, va_TokenID = jc_ID claims,
       va_ExtraClaims = gm_delete_if (\<lambda>key _. isReservedClaim key) all\<rparr>))
      | _ \<Rightarrow> token_error ''access token scope is missing''))
      | _ \<Rightarrow> token_error ''access token client is missing'')
      | _ \<Rightarrow> token_error ''access token claims are invalid'')"

definition verifyAccessToken ::
  "'t Jose \<Rightarrow> string \<Rightarrow> string \<Rightarrow> (string, PublicKey) gomap \<Rightarrow> 'w ClockPort \<Rightarrow> string \<Rightarrow> ResourceID \<Rightarrow>
   ('w, VerifiedAccessToken result) state" where
  "verifyAccessToken jo issuer tokenType verification clock raw resource =
     (case jo_ParseSigned jo raw of
        Inr ([header], parsed) \<Rightarrow>
     if jh_Algorithm header \<noteq> RS256 \<or> jh_KeyID header = [] \<or> jh_JSONWebKey header \<or>
        headerValue (jh_ExtraHeaders header) ''typ'' \<noteq> tokenType \<or> hasUntrustedKeyHeader header
     then give (token_error ''access token header is invalid'')
     else
     (case gm_get verification (jh_KeyID header) of
        None \<Rightarrow> give (token_error ''access token key is unknown'')
      | Some key \<Rightarrow>
     (case jo_Claims jo parsed key of
        Inl _ \<Rightarrow> give (token_error ''access token signature is invalid'')
      | Inr (claims, all) \<Rightarrow> do {
          now \<leftarrow> clock;
          give (accept_claims jo issuer now resource claims all)
        }))
      | _ \<Rightarrow> give (token_error ''access token is invalid''))"

definition Jwt_VerifyAccessToken ::
  "'t Jose \<Rightarrow> ('w, 'a) JwtService \<Rightarrow> string \<Rightarrow> ResourceID \<Rightarrow> ('w, VerifiedAccessToken result) state" where
  "Jwt_VerifyAccessToken jo s raw resource =
     verifyAccessToken jo (js_issuer s) (js_tokenType s) (js_verification s) (js_clock s) raw resource"

definition Verifier_VerifyAccessToken ::
  "'t Jose \<Rightarrow> 'w JwtVerifier \<Rightarrow> string \<Rightarrow> ResourceID \<Rightarrow> ('w, VerifiedAccessToken result) state" where
  "Verifier_VerifyAccessToken jo v raw resource =
     verifyAccessToken jo (jv_issuer v) (jv_tokenType v) (jv_verification v) (jv_clock v) raw resource"

section \<open>The key set\<close>

text \<open>A modulus of the verification set is never nil.\<close>

definition jwk :: "string \<Rightarrow> PublicKey \<Rightarrow> (string, json) gomap" where
  "jwk kid key =
     [(''kty'', JString ''RSA''),
      (''n'', JString (EncodeToString (big_Bytes (case pub_N key of None \<Rightarrow> 0 | Some n \<Rightarrow> n)))),
      (''e'', JString (EncodeToString (big_Bytes (pub_E key)))),
      (''kid'', JString kid), (''use'', JString ''sig''), (''alg'', JString ''RS256'')]"

definition Jwt_JWKS :: "('w, 'a) JwtService \<Rightarrow> JWKS result" where
  "Jwt_JWKS s = Inr \<lparr>jwks_Keys =
     concat (map (\<lambda>kid. (case gm_get (js_verification s) kid of None \<Rightarrow> [] | Some key \<Rightarrow> [jwk kid key]))
       (sort (gm_keys (js_verification s))))\<rparr>"

section \<open>The contract of the library\<close>

text \<open>JSON values without invalid UTF-8, which \<open>encoding/json\<close> would replace.\<close>

primrec plain_json :: "json \<Rightarrow> bool" where
  "plain_json JNull \<longleftrightarrow> True"
| "plain_json (JBool b) \<longleftrightarrow> True"
| "plain_json (JNumber n) \<longleftrightarrow> True"
| "plain_json (JString s) \<longleftrightarrow> utf8 s"
| "plain_json (JBytes s) \<longleftrightarrow> True"
| "plain_json (JArray xs) \<longleftrightarrow> list_all (\<lambda>b. b) (map plain_json xs)"
| "plain_json (JObject fs) \<longleftrightarrow> list_all (\<lambda>(k, b). utf8 k \<and> b) (map (map_prod id plain_json) fs)"

definition registered_claims :: "string list" where
  "registered_claims = [''iss'', ''sub'', ''aud'', ''iat'', ''nbf'', ''exp'', ''jti'']"

definition plain_claims :: "(string, json) gomap \<Rightarrow> bool" where
  "plain_claims m \<longleftrightarrow> list_all (\<lambda>(k, v). utf8 k \<and> plain_json v) m"

definition plain_token :: "JwtClaims \<Rightarrow> (string, json) gomap \<Rightarrow> bool" where
  "plain_token c extra \<longleftrightarrow>
     list_all utf8 (jc_Issuer c # jc_Subject c # jc_ID c # jc_Audience c) \<and> plain_claims extra \<and>
     list_all (\<lambda>k. k \<notin> set registered_claims) (gm_keys extra)"

definition signed_header :: "string \<Rightarrow> string \<Rightarrow> JoseHeader" where
  "signed_header typ kid = \<lparr>jh_Algorithm = RS256, jh_KeyID = kid, jh_JSONWebKey = False,
     jh_ExtraHeaders = [(''typ'', JString typ)]\<rparr>"

text \<open>A numeric date is the time cut to the second; validation compares the issuer, the audience
  and the three dates; a serialized token parses to its header, and its claims under the public key
  of the signer are the claims that were signed.\<close>

definition jose_dates :: "'t Jose \<Rightarrow> bool" where
  "jose_dates jo \<longleftrightarrow> (\<forall>t. t \<noteq> 0 \<longrightarrow>
     (\<exists>d. jo_NewNumericDate jo t = Some d \<and> jo_Time jo d \<le> t \<and> t < jo_Time jo d + second))"

definition jose_validates :: "'t Jose \<Rightarrow> bool" where
  "jose_validates jo \<longleftrightarrow> (\<forall>c issuer audience now. issuer \<noteq> [] \<longrightarrow> now \<noteq> 0 \<longrightarrow>
     (jo_Validate jo c issuer [audience] now = None \<longleftrightarrow>
        jc_Issuer c = issuer \<and> audience \<in> set (jc_Audience c) \<and>
        (\<forall>d. jc_NotBefore c = Some d \<longrightarrow> jo_Time jo d \<le> now) \<and>
        (\<forall>d. jc_Expiry c = Some d \<longrightarrow> now \<le> jo_Time jo d) \<and>
        (\<forall>d. jc_IssuedAt c = Some d \<longrightarrow> jo_Time jo d \<le> now)))"

definition jose_signs :: "'t Jose \<Rightarrow> bool" where
  "jose_signs jo \<longleftrightarrow> (\<forall>key typ kid c extra raw.
     jo_Serialize jo key typ kid c extra = Inr raw \<longrightarrow> utf8 typ \<longrightarrow> utf8 kid \<longrightarrow> plain_token c extra \<longrightarrow>
     (\<exists>parsed all. jo_ParseSigned jo raw = Inr ([signed_header typ kid], parsed) \<and>
        jo_Claims jo parsed (priv_Public key) = Inr (c, all) \<and>
        (\<forall>k v. gm_get extra k = Some v \<longrightarrow> gm_get all k = Some v)))"

definition jose_laws :: "'t Jose \<Rightarrow> bool" where
  "jose_laws jo \<longleftrightarrow> jose_dates jo \<and> jose_validates jo \<and> jose_signs jo"

lemma jose_date:
  assumes "jose_laws jo" "t \<noteq> 0"
  obtains d where "jo_NewNumericDate jo t = Some d" "jo_Time jo d \<le> t" "t < jo_Time jo d + second"
  using assms unfolding jose_laws_def jose_dates_def by blast

lemma jose_validate:
  "jose_laws jo \<Longrightarrow> issuer \<noteq> [] \<Longrightarrow> now \<noteq> 0 \<Longrightarrow>
   jo_Validate jo c issuer [audience] now = None \<longleftrightarrow>
     jc_Issuer c = issuer \<and> audience \<in> set (jc_Audience c) \<and>
     (\<forall>d. jc_NotBefore c = Some d \<longrightarrow> jo_Time jo d \<le> now) \<and>
     (\<forall>d. jc_Expiry c = Some d \<longrightarrow> now \<le> jo_Time jo d) \<and>
     (\<forall>d. jc_IssuedAt c = Some d \<longrightarrow> jo_Time jo d \<le> now)"
  by (simp add: jose_laws_def jose_validates_def)

lemma jose_signed:
  assumes "jose_laws jo" "jo_Serialize jo key typ kid c extra = Inr raw" "utf8 typ" "utf8 kid"
    "plain_token c extra"
  obtains parsed all where "jo_ParseSigned jo raw = Inr ([signed_header typ kid], parsed)"
    "jo_Claims jo parsed (priv_Public key) = Inr (c, all)"
    "\<And>k v. gm_get extra k = Some v \<Longrightarrow> gm_get all k = Some v"
proof -
  from assms(1) have "jose_signs jo" by (simp add: jose_laws_def)
  from this [unfolded jose_signs_def, rule_format, OF assms(2-5)] that show thesis by blast
qed

section \<open>Lemmas\<close>

lemma verification_keys_Cons:
  "verification_keys ((kid, key) # keys) acc = Inr m \<longleftrightarrow>
   (\<exists>k n. key = Some k \<and> pub_N k = Some n \<and> kid \<noteq> [] \<and> 2048 \<le> BitLen n \<and> 3 \<le> pub_E k \<and>
      verification_keys keys (gm_set kid k acc) = Inr m)"
  by (cases key; simp split: option.splits; auto simp: not_less)

definition strong_key :: "string \<Rightarrow> PublicKey \<Rightarrow> bool" where
  "strong_key kid k \<longleftrightarrow> kid \<noteq> [] \<and> (\<exists>n. pub_N k = Some n \<and> 2048 \<le> BitLen n)"

lemma verification_keys_Inr:
  "verification_keys keys acc = Inr m \<Longrightarrow> gm_wf acc \<Longrightarrow>
   (\<And>kid k. gm_get acc kid = Some k \<Longrightarrow> strong_key kid k) \<Longrightarrow>
   gm_wf m \<and> (\<forall>kid k. gm_get m kid = Some k \<longrightarrow> strong_key kid k)"
proof (induction keys arbitrary: acc)
  case (Cons e keys)
  obtain kid key where e: "e = (kid, key)" by (cases e)
  from Cons.prems(1) obtain k where k: "strong_key kid k" "verification_keys keys (gm_set kid k acc) = Inr m"
    unfolding e verification_keys_Cons strong_key_def by blast
  show ?case
  proof (rule Cons.IH [OF k(2)])
    show "gm_wf (gm_set kid k acc)" using Cons.prems(2) by simp
    fix kid' k'
    assume "gm_get (gm_set kid k acc) kid' = Some k'"
    with Cons.prems(3) k(1) show "strong_key kid' k'" by (simp split: if_splits)
  qed
qed simp

lemma Jwt_New_Inr:
  assumes "Jwt_New systemClock config = Inr s"
  obtains key m where "jcf_Issuer config \<noteq> []" "jcf_ActiveKeyID config \<noteq> []"
    "strong_key (jcf_ActiveKeyID config) (priv_Public key)"
    "verification_keys (jcf_Verification config) [] = Inr m"
    "s = \<lparr>js_issuer = jcf_Issuer config, js_tokenType = default_type (jcf_TokenType config),
       js_activeKey = key,
       js_verification = gm_set (jcf_ActiveKeyID config) (priv_Public key) m,
       js_activeKeyID = jcf_ActiveKeyID config, js_claims = jcf_Claims config,
       js_clock = (case jcf_Clock config of None \<Rightarrow> systemClock | Some c \<Rightarrow> c)\<rparr>"
proof -
  obtain key where key: "jcf_ActiveKey config = Some key"
    using assms by (cases "jcf_ActiveKey config") (simp_all add: Jwt_New_def)
  have ids: "jcf_Issuer config \<noteq> []" "jcf_ActiveKeyID config \<noteq> []"
    using assms key by (auto simp: Jwt_New_def)
  obtain n where n: "pub_N (priv_Public key) = Some n"
    using assms key ids by (cases "pub_N (priv_Public key)") (simp_all add: Jwt_New_def)
  have "2048 \<le> BitLen n" using assms key ids n by (simp add: Jwt_New_def split: if_splits)
  with ids n have strong: "strong_key (jcf_ActiveKeyID config) (priv_Public key)" by (simp add: strong_key_def)
  obtain m where m: "verification_keys (jcf_Verification config) [] = Inr m"
    using assms key ids n by (cases "verification_keys (jcf_Verification config) []")
      (simp_all add: Jwt_New_def split: if_splits)
  show thesis
    by (rule that [OF ids strong m])
      (use assms key ids n m in \<open>simp add: Jwt_New_def split: if_splits\<close>)
qed

lemma Jwt_New_keys:
  assumes "Jwt_New systemClock config = Inr s"
  shows "gm_wf (js_verification s)"
    and "gm_get (js_verification s) (js_activeKeyID s) = Some (priv_Public (js_activeKey s))"
    and "gm_get (js_verification s) kid = Some k \<Longrightarrow> strong_key kid k"
    and "js_issuer s \<noteq> []" "js_activeKeyID s \<noteq> []" "js_tokenType s \<noteq> []"
proof -
  obtain key m where r: "jcf_Issuer config \<noteq> []" "jcf_ActiveKeyID config \<noteq> []"
    "strong_key (jcf_ActiveKeyID config) (priv_Public key)"
    "verification_keys (jcf_Verification config) [] = Inr m"
    and s: "s = \<lparr>js_issuer = jcf_Issuer config, js_tokenType = default_type (jcf_TokenType config),
       js_activeKey = key,
       js_verification = gm_set (jcf_ActiveKeyID config) (priv_Public key) m,
       js_activeKeyID = jcf_ActiveKeyID config, js_claims = jcf_Claims config,
       js_clock = (case jcf_Clock config of None \<Rightarrow> systemClock | Some c \<Rightarrow> c)\<rparr>"
    by (rule Jwt_New_Inr [OF assms])
  have m: "gm_wf m" "\<And>kid k. gm_get m kid = Some k \<Longrightarrow> strong_key kid k"
    using verification_keys_Inr [OF r(4)] by auto
  show "gm_wf (js_verification s)"
    "gm_get (js_verification s) (js_activeKeyID s) = Some (priv_Public (js_activeKey s))"
    "js_issuer s \<noteq> []" "js_activeKeyID s \<noteq> []" "js_tokenType s \<noteq> []"
    using r m(1) by (simp_all add: s default_type_def)
  show "gm_get (js_verification s) kid = Some k \<Longrightarrow> strong_key kid k"
    using r(3) m(2) by (simp add: s split: if_splits)
qed

text \<open>Bytes read back.\<close>

definition bytes_value :: "string \<Rightarrow> nat" where
  "bytes_value bs = foldl (\<lambda>n c. n * 256 + of_char c) 0 bs"

lemma bytes_value_snoc [simp]: "bytes_value (bs @ [c]) = bytes_value bs * 256 + of_char c"
  by (simp add: bytes_value_def)

lemma bytes_value_be_bytes: "bytes_value (be_bytes_of n) = n"
proof (induction n rule: be_bytes_of.induct)
  case (1 n)
  show ?case
  proof (cases "n = 0")
    case True
    then show ?thesis by (simp add: be_bytes_of.simps bytes_value_def)
  next
    case False
    with 1 have "bytes_value (be_bytes_of n) = n div 256 * 256 + of_char (char_of (n mod 256) :: char)"
      by (subst be_bytes_of.simps) simp
    then show ?thesis by (simp add: of_char_of)
  qed
qed

lemma bytes_value_big_Bytes: "0 \<le> n \<Longrightarrow> int (bytes_value (big_Bytes n)) = n"
  by (simp add: big_Bytes_def bytes_value_be_bytes)

lemma add_claims_Inr:
  "add_claims provided extra = Inr m \<Longrightarrow> plain_claims provided \<Longrightarrow> plain_claims extra \<Longrightarrow>
   list_all (\<lambda>(k, _). \<not> isReservedClaim k) provided \<and> plain_claims m \<and>
   (\<forall>k. isReservedClaim k \<longrightarrow> gm_get m k = gm_get extra k) \<and>
   set (gm_keys m) = set (gm_keys provided) \<union> set (gm_keys extra)"
proof (induction provided arbitrary: extra)
  case (Cons e provided)
  obtain k v where e: "e = (k, v)" by (cases e)
  from Cons.prems have k: "\<not> isReservedClaim k" "add_claims provided (gm_set k v extra) = Inr m"
    "plain_claims provided" "utf8 k" "plain_json v"
    by (auto simp: e plain_claims_def split: if_splits)
  have "plain_claims (gm_set k v extra)"
    using Cons.prems(3) k(4,5) gm_set_subset [of k v extra] by (auto simp: plain_claims_def list_all_iff)
  from Cons.IH [OF k(2,3) this] k(1) show ?case
    by (auto simp: e gm_keys_set simp del: set_map)
qed simp

end
