(* ===== verification/Jwt_Properties.thy ===== *)
theory Jwt_Properties
  imports Jwt
begin

text \<open>
  The properties of the token service: what it issues verifies, what verifies is bound to the issuer,
  the resource and the time, the claim provider cannot touch the claims of the protocol, and the
  published key set is the verification set.
\<close>

section \<open>Issuing\<close>

definition provided_claims ::
  "('w, 'a) JwtService \<Rightarrow> ctx \<Rightarrow> 'a AccessGrant \<Rightarrow> 'w \<Rightarrow> (string, json) gomap \<Rightarrow> bool" where
  "provided_claims s ctx grant w provided \<longleftrightarrow>
     (case js_claims s of
        None \<Rightarrow> provided = []
      | Some provider \<Rightarrow> \<exists>w'. run_state (provider ctx (ag_Principal grant)) w = (Inr provided, w'))"

definition base_claims :: "'a AccessGrant \<Rightarrow> (string, json) gomap" where
  "base_claims grant = [(''client_id'', JString (ag_ClientID grant)),
     (''scope'', JString (ScopeSet_String (ag_Scopes grant)))]"

text \<open>What a successful call did.\<close>

lemma issue_Inr:
  assumes "run_state (Jwt_IssueAccessToken jo rand s ctx grant) w = (Inr token, w')"
  obtains buf w1 provided extra where "run_state (rand 16) w = (Inr buf, w1)"
    "provided_claims s ctx grant w1 provided" "add_claims provided (base_claims grant) = Inr extra"
    "jo_Serialize jo (js_activeKey s) (js_tokenType s) (js_activeKeyID s)
       (grant_claims jo (js_issuer s) grant (EncodeToString buf)) extra = Inr (ia_Value token)"
    "ia_TokenType token = ''Bearer''" "ia_ExpiresAt token = ag_ExpiresAt grant"
    "p_Subject (ag_Principal grant) \<noteq> []" "ag_ClientID grant \<noteq> []" "ag_Resource grant \<noteq> []"
    "ag_ExpiresAt grant \<noteq> 0" "ag_IssuedAt grant \<noteq> 0"
proof -
  have complete: "\<not> (p_Subject (ag_Principal grant) = [] \<or> ag_ClientID grant = [] \<or> ag_Resource grant = [] \<or>
         IsZero (ag_ExpiresAt grant) \<or> IsZero (ag_IssuedAt grant))"
    using assms by (auto simp: Jwt_IssueAccessToken_def split: if_splits)
  obtain buf w1 extra w2 where 1: "run_state (rand 16) w = (Inr buf, w1)"
    "run_state (case js_claims s of None \<Rightarrow> give (Inr (base_claims grant))
       | Some provider \<Rightarrow> unless_error (provider ctx (ag_Principal grant)) (\<lambda>provided.
             give (add_claims provided (base_claims grant)))) w1 = (Inr extra, w2)"
    "jo_Serialize jo (js_activeKey s) (js_tokenType s) (js_activeKeyID s)
       (grant_claims jo (js_issuer s) grant (EncodeToString buf)) extra = Inr (ia_Value token)"
    "ia_TokenType token = ''Bearer''" "ia_ExpiresAt token = ag_ExpiresAt grant"
    using assms complete
    by (auto simp: Jwt_IssueAccessToken_def run_unless_error_Inr newTokenID_def Let_def base_claims_def
        split: option.splits)
  have "\<exists>provided. provided_claims s ctx grant w1 provided \<and> add_claims provided (base_claims grant) = Inr extra"
    using 1(2) by (auto simp: provided_claims_def run_unless_error_Inr split: option.splits)
  with 1 complete that show thesis by auto
qed

definition proper_grant :: "'a AccessGrant \<Rightarrow> bool" where
  "proper_grant grant \<longleftrightarrow> identifierPattern (ag_ClientID grant) \<and>
     identifierPattern (p_Subject (ag_Principal grant)) \<and> scopes_wf (ag_Scopes grant) \<and>
     utf8 (ag_Resource grant) \<and> 0 < ag_IssuedAt grant"

text \<open>Entropy of the requested length.\<close>

definition fills_buffers :: "'w entropy \<Rightarrow> bool" where
  "fills_buffers rand \<longleftrightarrow> (\<forall>n w buf w'. run_state (rand n) w = (Inr buf, w') \<longrightarrow> length buf = n)"

definition plain_service :: "('w, 'a) JwtService \<Rightarrow> bool" where
  "plain_service s \<longleftrightarrow> utf8 (js_issuer s) \<and> utf8 (js_tokenType s) \<and> utf8 (js_activeKeyID s) \<and>
     (\<forall>ctx grant w provided. provided_claims s ctx grant w provided \<longrightarrow> plain_claims provided)"

lemma ascii_Join: "list_all ascii_text xs \<Longrightarrow> ascii_text (Join xs '' '')"
proof -
  have blank: "(of_char (CHR '' '') :: int) < 128" by simp
  show "list_all ascii_text xs \<Longrightarrow> ascii_text (Join xs '' '')"
    by (induction xs "'' ''" rule: Join.induct) (simp_all add: ascii_text_def)
qed

lemma scopes_text_utf8: "scopes_wf scopes \<Longrightarrow> utf8 (ScopeSet_String scopes)"
  unfolding ScopeSet_String_def scopes_wf_def
  by (intro ascii_utf8 ascii_Join) (auto simp: list_all_iff identifier_ascii)

lemma encoded_utf8: "utf8 (EncodeToString bs)"
proof (rule ascii_utf8)
  have "list_all (\<lambda>c. (of_char c :: int) < 128) b64_alphabet" by (simp add: b64_alphabet_def)
  then show "ascii_text (EncodeToString bs)"
    using EncodeToString_alphabet [of _ bs] by (auto simp: ascii_text_def list_all_iff)
qed

lemma registered_reserved: "k \<in> set registered_claims \<Longrightarrow> isReservedClaim k"
  by (auto simp: registered_claims_def isReservedClaim_def reserved_claims_def)

lemma base_claims_plain:
  assumes "proper_grant grant"
  shows "plain_claims (base_claims grant)" "list_all (\<lambda>k. k \<notin> set registered_claims) (gm_keys (base_claims grant))"
proof -
  have "utf8 ''client_id''" "utf8 ''scope''" by code_simp+
  with assms show "plain_claims (base_claims grant)"
    by (simp add: plain_claims_def base_claims_def proper_grant_def identifier_utf8 scopes_text_utf8)
  show "list_all (\<lambda>k. k \<notin> set registered_claims) (gm_keys (base_claims grant))"
    by (simp add: base_claims_def registered_claims_def)
qed

text \<open>What the service issues it verifies.  A token issued for a grant is accepted, for the resource
  of the grant, at every time from the issue until the last second before the expiry, and yields the
  subject, the client, the scopes and the issuer of the grant; the times are cut to the second.\<close>

lemma jwt_roundtrip:
  assumes "jose_laws jo" and "fills_buffers rand" and "Jwt_New systemClock config = Inr s"
    and "plain_service s" and "proper_grant grant"
    and "run_state (Jwt_IssueAccessToken jo rand s ctx grant) w = (Inr token, w')"
    and "run_state (js_clock s) v = (now, v')"
    and "ag_IssuedAt grant \<le> now" and "now + second \<le> ag_ExpiresAt grant"
  shows "\<exists>t. run_state (Jwt_VerifyAccessToken jo s (ia_Value token) (ag_Resource grant)) v = (Inr t, v') \<and>
    va_Subject t = p_Subject (ag_Principal grant) \<and> va_ClientID t = ag_ClientID grant \<and>
    va_Scopes t = ag_Scopes grant \<and> va_Resource t = ag_Resource grant \<and> va_Issuer t = js_issuer s \<and>
    va_IssuedAt t \<le> ag_IssuedAt grant \<and> ag_IssuedAt grant < va_IssuedAt t + second \<and>
    va_ExpiresAt t \<le> ia_ExpiresAt token \<and> ia_ExpiresAt token < va_ExpiresAt t + second"
proof -
  obtain buf w1 provided extra where i: "run_state (rand 16) w = (Inr buf, w1)"
    "provided_claims s ctx grant w1 provided" "add_claims provided (base_claims grant) = Inr extra"
    "jo_Serialize jo (js_activeKey s) (js_tokenType s) (js_activeKeyID s)
       (grant_claims jo (js_issuer s) grant (EncodeToString buf)) extra = Inr (ia_Value token)"
    "ia_ExpiresAt token = ag_ExpiresAt grant" "ag_Resource grant \<noteq> []" "p_Subject (ag_Principal grant) \<noteq> []"
    "ag_ClientID grant \<noteq> []" "ag_ExpiresAt grant \<noteq> 0" "ag_IssuedAt grant \<noteq> 0"
    by (rule issue_Inr [OF assms(6)])
  let ?c = "grant_claims jo (js_issuer s) grant (EncodeToString buf)"
  obtain iat where iat: "jo_NewNumericDate jo (ag_IssuedAt grant) = Some iat"
    "jo_Time jo iat \<le> ag_IssuedAt grant" "ag_IssuedAt grant < jo_Time jo iat + second"
    by (rule jose_date [OF assms(1) i(10)])
  obtain exp where exp: "jo_NewNumericDate jo (ag_ExpiresAt grant) = Some exp"
    "jo_Time jo exp \<le> ag_ExpiresAt grant" "ag_ExpiresAt grant < jo_Time jo exp + second"
    by (rule jose_date [OF assms(1) i(9)])
  have plain: "plain_claims provided" "utf8 (js_issuer s)" "utf8 (js_tokenType s)" "utf8 (js_activeKeyID s)"
    using assms(4) i(2) by (auto simp: plain_service_def)
  note added = add_claims_Inr [OF i(3) plain(1) base_claims_plain(1) [OF assms(5)]]
  have "list_all (\<lambda>k. k \<notin> set registered_claims) (gm_keys extra)"
    using added base_claims_plain(2) [OF assms(5)] registered_reserved by (fastforce simp: list_all_iff)
  then have "plain_token ?c extra"
    using added plain(2) assms(5)
    by (simp add: plain_token_def grant_claims_def encoded_utf8 proper_grant_def identifier_utf8)
  from jose_signed [OF assms(1) i(4) plain(3,4) this]
  obtain parsed all where p: "jo_ParseSigned jo (ia_Value token) =
        Inr ([signed_header (js_tokenType s) (js_activeKeyID s)], parsed)"
      "jo_Claims jo parsed (priv_Public (js_activeKey s)) = Inr (?c, all)"
      "\<And>k v. gm_get extra k = Some v \<Longrightarrow> gm_get all k = Some v"
    by blast
  have "gm_get extra ''client_id'' = Some (JString (ag_ClientID grant))"
    "gm_get extra ''scope'' = Some (JString (ScopeSet_String (ag_Scopes grant)))"
    using added by (auto simp: isReservedClaim_def reserved_claims_def base_claims_def)
  note all = this [THEN p(3)]
  have "length buf = 16" using assms(2) i(1) by (auto simp: fills_buffers_def)
  then have jti: "EncodeToString buf \<noteq> []" using EncodeToString_length [of buf] by auto
  note keys = Jwt_New_keys [OF assms(3)]
  have "jo_Validate jo ?c (js_issuer s) [ag_Resource grant] now = None"
    using iat exp assms(5,8,9)
    by (subst jose_validate [OF assms(1) keys(4)]) (auto simp: grant_claims_def proper_grant_def)
  then have "accept_claims jo (js_issuer s) now (ag_Resource grant) ?c all =
      Inr \<lparr>va_Subject = p_Subject (ag_Principal grant), va_ClientID = ag_ClientID grant,
       va_Issuer = js_issuer s, va_Resource = ag_Resource grant, va_Scopes = ag_Scopes grant,
       va_IssuedAt = jo_Time jo iat, va_ExpiresAt = jo_Time jo exp, va_TokenID = EncodeToString buf,
       va_ExtraClaims = gm_delete_if (\<lambda>key _. isReservedClaim key) all\<rparr>"
    using iat(1) exp(1) all jti i(7,8) assms(5) ParseScopes_String [of "ag_Scopes grant"]
    by (simp add: accept_claims_def grant_claims_def proper_grant_def newIdentifier_ctor_defs newIdentifier_id)
  then show ?thesis
    using p(1,2) keys(2,5,6) assms(7) iat exp i(5)
    by (simp add: Jwt_VerifyAccessToken_def verifyAccessToken_def signed_header_def headerValue_def
        hasUntrustedKeyHeader_def State_Monad.bind_def)
qed

section \<open>A sample service\<close>

text \<open>A key with factors next to powers of two, a world that is the time, and a library that knows one token.\<close>

definition power_key :: "nat \<Rightarrow> PrivateKey" where
  "power_key k = \<lparr>priv_Public = \<lparr>pub_N = Some ((2 ^ k + 1) * (2 ^ (k + 1) + 1)), pub_E = 3\<rparr>,
     priv_D = (2 ^ (k + 1) + 1) div 3, priv_Primes = [2 ^ k + 1, 2 ^ (k + 1) + 1]\<rparr>"

definition jwt_key :: PrivateKey where
  "jwt_key = power_key (2 * 512)"

definition jwt_grant :: "unit AccessGrant" where
  "jwt_grant = \<lparr>ag_Principal = \<lparr>p_Subject = ''alice'', p_DisplayName = ''Alice'', p_Email = ''a@example.test'',
       p_AuthorizationVersion = 1, p_Attributes = ()\<rparr>,
     ag_ClientID = ''app'', ag_Resource = ''https://api.test'', ag_Scopes = ScopeSet [''read''],
     ag_IssuedAt = second * 10, ag_ExpiresAt = second * 100\<rparr>"

definition jwt_entropy :: "time entropy" where
  "jwt_entropy n = give (Inr (replicate n (CHR ''r'')))"

definition jwt_claims :: JwtClaims where
  "jwt_claims = \<lparr>jc_Issuer = ''https://auth.test'', jc_Subject = ''alice'',
     jc_Audience = [''https://api.test''], jc_Expiry = Some 100, jc_NotBefore = Some 10, jc_IssuedAt = Some 10,
     jc_ID = EncodeToString (replicate 16 (CHR ''r''))\<rparr>"

definition jwt_jose :: "unit Jose" where
  "jwt_jose =
     \<lparr>jo_NewSigner = (\<lambda>_ _ _. None),
      jo_Serialize = (\<lambda>key typ kid c extra.
        if (key, typ, kid, c, extra) = (jwt_key, ''at+jwt'', ''k1'', jwt_claims, base_claims jwt_grant)
        then Inr ''demo.access.token'' else Inl (OtherError ''unsupported'')),
      jo_ParseSigned = (\<lambda>raw. if raw = ''demo.access.token'' then Inr ([signed_header ''at+jwt'' ''k1''], ())
        else Inl (OtherError ''malformed'')),
      jo_Claims = (\<lambda>_ key. if key = priv_Public jwt_key then Inr (jwt_claims, base_claims jwt_grant)
        else Inl (OtherError ''signature'')),
      jo_Validate = (\<lambda>c issuer audience now.
        if jc_Issuer c = issuer \<and> list_ex (\<lambda>a. a \<in> set (jc_Audience c)) audience \<and>
          (\<forall>d. jc_NotBefore c = Some d \<longrightarrow> d * second \<le> now) \<and>
          (\<forall>d. jc_Expiry c = Some d \<longrightarrow> now \<le> d * second) \<and>
          (\<forall>d. jc_IssuedAt c = Some d \<longrightarrow> d * second \<le> now) then None else Some (OtherError ''claims'')),
      jo_NewNumericDate = (\<lambda>t. if t = 0 then None else Some (t div second)),
      jo_Time = (\<lambda>d. d * second)\<rparr>"

definition jwt_config :: "(time, unit) JwtConfig" where
  "jwt_config = \<lparr>jcf_Issuer = ''https://auth.test'', jcf_TokenType = [], jcf_ActiveKeyID = ''k1'',
     jcf_ActiveKey = Some jwt_key, jcf_Verification = [], jcf_Claims = None, jcf_Clock = None\<rparr>"

definition jwt_clock :: "time ClockPort" where
  "jwt_clock = State (\<lambda>t. (t, t))"

definition jwt_service :: "(time, unit) JwtService" where
  "jwt_service = \<lparr>js_issuer = ''https://auth.test'', js_tokenType = ''at+jwt'', js_activeKey = jwt_key,
     js_verification = [(''k1'', priv_Public jwt_key)], js_activeKeyID = ''k1'', js_claims = None,
     js_clock = jwt_clock\<rparr>"

lemma bit_count_ge: "2 ^ k \<le> n \<Longrightarrow> Suc k \<le> bit_count n"
proof (induction k arbitrary: n)
  case 0
  then show ?case by (subst bit_count.simps) simp
next
  case (Suc k)
  then have "2 ^ k \<le> n div 2" by auto
  moreover have "n \<noteq> 0" using Suc.prems by (cases n) simp_all
  ultimately show ?case using Suc.IH by (subst bit_count.simps) simp
qed

lemma BitLen_ge: "2 ^ k \<le> n \<Longrightarrow> Suc k \<le> BitLen n"
proof -
  assume "2 ^ k \<le> n"
  moreover have "nat ((2 :: int) ^ k) = 2 ^ k" by (simp add: nat_power_eq)
  ultimately have "2 ^ k \<le> nat \<bar>n\<bar>" by linarith
  then show ?thesis unfolding BitLen_def by (rule bit_count_ge)
qed

lemma three_divides: "(3 :: int) dvd 2 ^ (2 * j + 1) + 1"
proof (induction j)
  case (Suc j)
  then obtain m where "(2 :: int) ^ (2 * j + 1) + 1 = 3 * m" by (rule dvdE)
  then have "(2 :: int) ^ (2 * Suc j + 1) + 1 = 3 * (4 * m - 1)" by simp
  then show ?case by (rule dvdI)
qed simp

lemma power_key_valid:
  assumes "0 < j"
  shows "priv_Validate (power_key (2 * j))"
proof -
  have "3 * (((2 :: int) ^ (2 * j + 1) + 1) div 3) = 2 ^ (2 * j + 1) + 1"
    by (rule dvd_mult_div_cancel [OF three_divides])
  then have "3 * (((2 :: int) ^ (2 * j + 1) + 1) div 3) - 1 = 2 ^ (2 * j + 1)" by simp
  with assms show ?thesis by (simp add: priv_Validate_def power_key_def)
qed

lemma product_ge: "0 \<le> a \<Longrightarrow> 0 \<le> b \<Longrightarrow> a * b \<le> (a + 1) * (b + 1)" for a b :: int
  by (intro mult_mono) simp_all

lemma power_key_strong:
  "\<exists>n. pub_N (priv_Public (power_key k)) = Some n \<and> 2 * k + 2 \<le> BitLen n"
proof -
  have "(2 :: int) ^ (2 * k + 1) = 2 ^ k * 2 ^ (k + 1)"
    unfolding power_add [symmetric] by (simp only: mult_2 add.assoc)
  also have "\<dots> \<le> (2 ^ k + 1) * (2 ^ (k + 1) + 1)"
    by (rule product_ge) simp_all
  finally have "Suc (2 * k + 1) \<le> BitLen ((2 ^ k + 1) * (2 ^ (k + 1) + 1))" by (rule BitLen_ge)
  then show ?thesis unfolding power_key_def by simp
qed

lemma jwt_key_valid: "priv_Validate jwt_key"
  unfolding jwt_key_def by (rule power_key_valid) simp

lemma jwt_key_strong: "\<exists>n. pub_N (priv_Public jwt_key) = Some n \<and> 2048 \<le> BitLen n"
proof -
  obtain n where n: "pub_N (priv_Public jwt_key) = Some n" "2 * (2 * 512) + 2 \<le> BitLen n"
    using power_key_strong [of "2 * 512"] unfolding jwt_key_def by blast
  from n(2) have "2048 \<le> BitLen n" by simp
  with n(1) show ?thesis by blast
qed

lemma jwt_service_new: "Jwt_New jwt_clock jwt_config = Inr jwt_service"
proof -
  obtain n where n: "pub_N (priv_Public jwt_key) = Some n" "2048 \<le> BitLen n"
    using jwt_key_strong by blast
  have "gm_set ''k1'' (priv_Public jwt_key) [] = [(''k1'', priv_Public jwt_key)]"
    by (simp add: gm_set_new)
  with n jwt_key_valid show ?thesis
    by (simp add: Jwt_New_def jwt_config_def jwt_service_def default_type_def)
qed

lemma jwt_texts: "utf8 ''https://auth.test''" "utf8 ''at+jwt''" "utf8 ''k1''" "utf8 ''https://api.test''"
  "identifierPattern ''app''" "identifierPattern ''alice''" "scopes_wf (ScopeSet [''read''])"
  by code_simp+

lemma jwt_jose_laws: "jose_laws jwt_jose"
proof -
  have "jose_dates jwt_jose"
    using pos_mod_bound [of second] by (auto simp: jose_dates_def jwt_jose_def second_def minus_mod_eq_div_mult [symmetric])
  moreover have "jose_validates jwt_jose"
    by (simp add: jose_validates_def jwt_jose_def)
  moreover have "jose_signs jwt_jose"
    by (simp add: jose_signs_def jwt_jose_def)
  ultimately show ?thesis by (simp add: jose_laws_def)
qed

lemma jwt_issued:
  "run_state (Jwt_IssueAccessToken jwt_jose jwt_entropy jwt_service None jwt_grant) w =
     (Inr \<lparr>ia_Value = ''demo.access.token'', ia_TokenType = ''Bearer'', ia_ExpiresAt = second * 100\<rparr>, w)"
  by (simp add: Jwt_IssueAccessToken_def newTokenID_def unless_error_def State_Monad.bind_def jwt_entropy_def
      jwt_service_def jwt_jose_def jwt_grant_def jwt_claims_def grant_claims_def base_claims_def second_def)

section \<open>Verifying\<close>

lemma accept_claims_Inr:
  assumes "accept_claims jo issuer now resource claims all = Inr t"
  obtains expiry issued where "jc_Expiry claims = Some expiry" "jc_IssuedAt claims = Some issued"
    "jc_Issuer claims = issuer" "jc_Audience claims = [resource]"
    "jo_Validate jo claims issuer [resource] now = None"
    "va_Issuer t = issuer" "va_Resource t = resource" "va_TokenID t = jc_ID claims"
    "va_IssuedAt t = jo_Time jo issued" "va_ExpiresAt t = jo_Time jo expiry"
    "identifierPattern (va_ClientID t)" "identifierPattern (va_Subject t)" "scopes_wf (va_Scopes t)"
    "va_ExtraClaims t = gm_delete_if (\<lambda>key _. isReservedClaim key) all"
  using assms unfolding accept_claims_def token_error_def newIdentifier_ctor_defs
  by (auto simp: newIdentifier_Inr ParseScopes_wf
      split: option.splits if_splits json.splits sum.splits)

lemma gm_delete_if_None: "(\<And>v. P k v) \<Longrightarrow> gm_get (gm_delete_if P m) k = None"
  by (auto simp: gm_delete_if_def map_of_eq_None_iff)

lemma bind_Inr: "run_state (do { x \<leftarrow> m; give (f x) }) w = (Inr t, w') \<Longrightarrow>
  run_state m w = (x, w1) \<Longrightarrow> f x = Inr t"
  by (simp add: State_Monad.bind_def)

text \<open>C38. What verifies is bound.  If a token is accepted for a resource, then it parses with one RS256
  header of the configured type that embeds or refers to no key, its signature verifies under a
  configured key of at least 2048 bits, its issuer is the service's and its only audience the resource,
  the time lies between its issue and its expiry, client, subject and scopes are well-formed, and
  none of the protocol's claims is passed on as an extra claim.\<close>

theorem jwt_verified_sound:
  assumes "jose_laws jo" and "Jwt_New systemClock config = Inr s"
    and "run_state (Jwt_VerifyAccessToken jo s raw resource) w = (Inr t, w')"
    and "run_state (js_clock s) w = (now, w1)" and "now \<noteq> 0"
  shows "\<exists>header parsed key claims all. jo_ParseSigned jo raw = Inr ([header], parsed) \<and>
    jh_Algorithm header = RS256 \<and> headerValue (jh_ExtraHeaders header) ''typ'' = js_tokenType s \<and>
    \<not> jh_JSONWebKey header \<and> \<not> hasUntrustedKeyHeader header \<and>
    gm_get (js_verification s) (jh_KeyID header) = Some key \<and> strong_key (jh_KeyID header) key \<and>
    jo_Claims jo parsed key = Inr (claims, all) \<and>
    jc_Issuer claims = js_issuer s \<and> jc_Audience claims = [resource] \<and>
    va_Issuer t = js_issuer s \<and> va_Resource t = resource \<and> va_TokenID t = jc_ID claims \<and>
    va_IssuedAt t \<le> now \<and> now \<le> va_ExpiresAt t \<and>
    identifierPattern (va_ClientID t) \<and> identifierPattern (va_Subject t) \<and> scopes_wf (va_Scopes t) \<and>
    (\<forall>k. isReservedClaim k \<longrightarrow> gm_get (va_ExtraClaims t) k = None)"
proof -
  note keys = Jwt_New_keys [OF assms(2)]
  obtain header parsed key claims all where v: "jo_ParseSigned jo raw = Inr ([header], parsed)"
    "jh_Algorithm header = RS256" "headerValue (jh_ExtraHeaders header) ''typ'' = js_tokenType s"
    "\<not> jh_JSONWebKey header" "\<not> hasUntrustedKeyHeader header"
    "gm_get (js_verification s) (jh_KeyID header) = Some key" "jo_Claims jo parsed key = Inr (claims, all)"
    "run_state (do { now \<leftarrow> js_clock s; give (accept_claims jo (js_issuer s) now resource claims all) }) w =
       (Inr t, w')"
    using assms(3) unfolding Jwt_VerifyAccessToken_def verifyAccessToken_def token_error_def
    by (auto split: sum.splits list.splits prod.splits if_splits option.splits)
  have "accept_claims jo (js_issuer s) now resource claims all = Inr t"
    by (rule bind_Inr [OF v(8) assms(4)])
  then show ?thesis
  proof (rule accept_claims_Inr)
    fix expiry issued
    assume a: "jc_Expiry claims = Some expiry" "jc_IssuedAt claims = Some issued"
      "jc_Issuer claims = js_issuer s" "jc_Audience claims = [resource]"
      "jo_Validate jo claims (js_issuer s) [resource] now = None"
      "va_Issuer t = js_issuer s" "va_Resource t = resource" "va_TokenID t = jc_ID claims"
      "va_IssuedAt t = jo_Time jo issued" "va_ExpiresAt t = jo_Time jo expiry"
      "identifierPattern (va_ClientID t)" "identifierPattern (va_Subject t)" "scopes_wf (va_Scopes t)"
      "va_ExtraClaims t = gm_delete_if (\<lambda>key _. isReservedClaim key) all"
    have "va_IssuedAt t \<le> now" "now \<le> va_ExpiresAt t"
      using a(1,2,5,9,10) jose_validate [OF assms(1) keys(4) assms(5)] by auto
    moreover have "\<forall>k. isReservedClaim k \<longrightarrow> gm_get (va_ExtraClaims t) k = None"
      unfolding a(14) by (intro allI impI gm_delete_if_None)
    ultimately show ?thesis using v a keys(3) [OF v(6)] by blast
  qed
qed

theorem jwt_verified_sound_witness:
  "\<exists>t. fst (run_state (Jwt_VerifyAccessToken jwt_jose jwt_service ''demo.access.token'' ''https://api.test'')
     (second * 50)) = Inr t \<and> va_IssuedAt t \<le> second * 50 \<and> second * 50 \<le> va_ExpiresAt t"
proof -
  let ?m = "Jwt_VerifyAccessToken jwt_jose jwt_service ''demo.access.token'' ''https://api.test''"
  have clock: "run_state (js_clock jwt_service) (second * 50) = (second * 50, second * 50)"
    by (simp add: jwt_service_def jwt_clock_def)
  have "\<exists>t w. run_state ?m (second * 50) = (Inr t, w)"
    using jwt_texts(5,6,7) ParseScopes_String [OF jwt_texts(7)] EncodeToString_length [of "replicate 16 (CHR ''r'')"]
    by (auto simp: Jwt_VerifyAccessToken_def verifyAccessToken_def jwt_service_def jwt_jose_def signed_header_def
        headerValue_def hasUntrustedKeyHeader_def State_Monad.bind_def jwt_clock_def accept_claims_def
        jwt_claims_def base_claims_def jwt_grant_def newIdentifier_ctor_defs newIdentifier_id second_def
        simp del: identifierPattern.simps)
  then obtain t w where t: "run_state ?m (second * 50) = (Inr t, w)" by blast
  have later: "(second * 50 :: time) \<noteq> 0" by (simp add: second_def)
  have "va_IssuedAt t \<le> second * 50" "second * 50 \<le> va_ExpiresAt t"
    using jwt_verified_sound [OF jwt_jose_laws jwt_service_new t clock later] by blast+
  with t show ?thesis by (intro exI [of _ t]) simp
qed

section \<open>Reserved claims and the key set\<close>

lemma add_claims_reserved:
  assumes "k \<in> set (gm_keys provided)" "isReservedClaim k"
  shows "\<exists>k'. k' \<in> set (gm_keys provided) \<and> isReservedClaim k' \<and> add_claims provided extra =
    Inl (OtherError (''claim provider attempted reserved claim '' @ [CHR 0x22] @ k' @ [CHR 0x22]))"
  using assms(1)
proof (induction provided arbitrary: extra)
  case (Cons e provided)
  obtain k' v where "e = (k', v)" by (cases e)
  with Cons assms(2) show ?case by (cases "isReservedClaim k'") auto
qed simp

text \<open>C39. The claim provider cannot touch the protocol.  If the application's provider returns a claim of
  the protocol (issuer, subject, audience, a date, the token id, client or scope), no token is issued:
  the call fails and names such a claim, before anything is signed.\<close>

theorem jwt_reserved_refused:
  assumes "js_claims s = Some provider" and "run_state (rand 16) w = (Inr buf, w1)"
    and "run_state (provider ctx (ag_Principal grant)) w1 = (Inr provided, w2)"
    and "k \<in> set (gm_keys provided)" and "isReservedClaim k"
    and "p_Subject (ag_Principal grant) \<noteq> []" and "ag_ClientID grant \<noteq> []" and "ag_Resource grant \<noteq> []"
    and "ag_ExpiresAt grant \<noteq> 0" and "ag_IssuedAt grant \<noteq> 0"
  shows "\<exists>k'. isReservedClaim k' \<and> run_state (Jwt_IssueAccessToken jo rand s ctx grant) w =
    (Inl (OtherError (''claim provider attempted reserved claim '' @ [CHR 0x22] @ k' @ [CHR 0x22])), w2)"
proof -
  obtain k' where k': "isReservedClaim k'" "add_claims provided (base_claims grant) =
      Inl (OtherError (''claim provider attempted reserved claim '' @ [CHR 0x22] @ k' @ [CHR 0x22]))"
    using add_claims_reserved [OF assms(4,5)] by blast
  have "run_state (Jwt_IssueAccessToken jo rand s ctx grant) w =
      (Inl (OtherError (''claim provider attempted reserved claim '' @ [CHR 0x22] @ k' @ [CHR 0x22])), w2)"
    using k'(2) assms
    by (simp add: Jwt_IssueAccessToken_def newTokenID_def unless_error_def State_Monad.bind_def base_claims_def)
  with k'(1) show ?thesis by blast
qed

definition hostile_provider :: "(time, unit) ClaimProvider" where
  "hostile_provider ctx p = give (Inr [(''tenant'', JString ''t1''), (''sub'', JString ''root'')])"

theorem jwt_reserved_refused_witness:
  "\<exists>err. fst (run_state (Jwt_IssueAccessToken jwt_jose jwt_entropy (jwt_service\<lparr>js_claims := Some hostile_provider\<rparr>)
     None jwt_grant) 0) = Inl err"
proof -
  have "isReservedClaim ''sub''" by code_simp
  moreover have "run_state (jwt_entropy 16) 0 = (Inr (replicate 16 (CHR ''r'')), 0)"
    by (simp add: jwt_entropy_def)
  ultimately show ?thesis
    using jwt_reserved_refused [of "jwt_service\<lparr>js_claims := Some hostile_provider\<rparr>" hostile_provider jwt_entropy 0
      "replicate 16 (CHR ''r'')" 0 None jwt_grant "[(''tenant'', JString ''t1''), (''sub'', JString ''root'')]" 0
      "''sub''" jwt_jose]
    by (auto simp: hostile_provider_def jwt_grant_def second_def)
qed

text \<open>C40. The published keys.  The key set lists every verification key once, in the order of the key
  ids, the active key among them; every listed key has at least 2048 bits, and its modulus is read back from
  the published text.\<close>

theorem jwt_key_set:
  assumes "Jwt_New systemClock config = Inr s"
  shows "\<exists>kids. sorted kids \<and> distinct kids \<and> set kids = set (gm_keys (js_verification s)) \<and>
    js_activeKeyID s \<in> set kids \<and>
    Jwt_JWKS s = Inr \<lparr>jwks_Keys = map (\<lambda>kid. jwk kid (the (gm_get (js_verification s) kid))) kids\<rparr> \<and>
    (\<forall>kid \<in> set kids. \<exists>key n bs. gm_get (js_verification s) kid = Some key \<and> pub_N key = Some n \<and>
       2048 \<le> BitLen n \<and> gm_get (jwk kid key) ''n'' = Some (JString (EncodeToString bs)) \<and>
       DecodeString (EncodeToString bs) = Some bs \<and> int (bytes_value bs) = \<bar>n\<bar>)"
proof -
  note keys = Jwt_New_keys [OF assms]
  let ?kids = "sort (gm_keys (js_verification s))"
  have get: "\<exists>key. gm_get (js_verification s) kid = Some key" if "kid \<in> set ?kids" for kid
    using that by (simp add: map_of_eq_None_iff [symmetric] del: not_None_eq flip: not_None_eq) (metis domD domIff dom_map_of_conv_image_fst)
  have "concat (map (\<lambda>kid. (case gm_get (js_verification s) kid of None \<Rightarrow> [] | Some key \<Rightarrow> [jwk kid key])) xs) =
      map (\<lambda>kid. jwk kid (the (gm_get (js_verification s) kid))) xs" if "set xs \<subseteq> set ?kids" for xs
    using that by (induction xs) (use get in force)+
  then have "Jwt_JWKS s = Inr \<lparr>jwks_Keys = map (\<lambda>kid. jwk kid (the (gm_get (js_verification s) kid))) ?kids\<rparr>"
    by (simp add: Jwt_JWKS_def)
  moreover have "distinct ?kids" using keys(1) by simp
  moreover have "js_activeKeyID s \<in> set ?kids"
    using keys(2) by (force dest: map_of_SomeD)
  moreover have "\<exists>key n bs. gm_get (js_verification s) kid = Some key \<and> pub_N key = Some n \<and>
       2048 \<le> BitLen n \<and> gm_get (jwk kid key) ''n'' = Some (JString (EncodeToString bs)) \<and>
       DecodeString (EncodeToString bs) = Some bs \<and> int (bytes_value bs) = \<bar>n\<bar>"
    if kid: "kid \<in> set ?kids" for kid
  proof -
    obtain key where key: "gm_get (js_verification s) kid = Some key" using get [OF kid] by blast
    with keys(3) obtain n where "pub_N key = Some n" "2048 \<le> BitLen n" by (auto simp: strong_key_def)
    with key show ?thesis
      by (auto simp: jwk_def b64_roundtrip big_Bytes_def bytes_value_be_bytes)
  qed
  ultimately show ?thesis by (intro exI [of _ ?kids]) simp
qed

theorem jwt_key_set_witness:
  "\<exists>keys. Jwt_JWKS jwt_service = Inr \<lparr>jwks_Keys = keys\<rparr> \<and> length keys = 1"
proof -
  from jwt_key_set [OF jwt_service_new] obtain kids where "distinct kids" "set kids = {''k1''}"
    "Jwt_JWKS jwt_service = Inr \<lparr>jwks_Keys = map (\<lambda>kid. jwk kid (the (gm_get (js_verification jwt_service) kid))) kids\<rparr>"
    by (auto simp: jwt_service_def)
  moreover from this(1,2) have "length kids = 1" by (metis card.empty card_insert_disjoint distinct_card empty_iff finite.emptyI One_nat_def)
  ultimately show ?thesis by auto
qed

end
