(* ===== verification/Go_Mime.thy ===== *)
theory Go_Mime
  imports Go_Url Errors
begin

text \<open>
  \<open>mime.ParseMediaType\<close>: the media type of a \<open>Content-Type\<close> and whether the parameters are well
  formed.  The values of the parameters are of no use to the program; they matter only where a
  repeated parameter has two values.
\<close>

section \<open>Tokens\<close>

definition tspecials :: string where
  "tspecials = ''()<>@,;:/[]?='' @ [CHR 0x22, CHR 0x5C]"

definition token_char :: "char \<Rightarrow> bool" where
  "token_char c \<longleftrightarrow> graphic c \<and> c \<notin> set tspecials"

definition consumeToken :: "string \<Rightarrow> string \<times> string" where
  "consumeToken v = (takeWhile token_char v, dropWhile token_char v)"

text \<open>\<open>strings.ToLower\<close>, up to the letters outside ASCII that stay outside: two letters have an ASCII
  lower case, \<open>U+0130\<close> and the Kelvin sign \<open>U+212A\<close>.\<close>

fun to_lower :: "string \<Rightarrow> string" where
  "to_lower [] = []"
| "to_lower (c # s) =
     (if take 2 (c # s) = [CHR 0xC4, CHR 0xB0] then CHR ''i'' # to_lower (drop 1 s)
      else if take 3 (c # s) = [CHR 0xE2, CHR 0x84, CHR 0xAA] then CHR ''k'' # to_lower (drop 2 s)
      else ascii_lower c # to_lower s)"

definition checkMediaTypeDisposition :: "string \<Rightarrow> bool" where
  "checkMediaTypeDisposition s =
     (case consumeToken s of (typ, rest) \<Rightarrow>
        typ \<noteq> [] \<and>
        (case rest of
           [] \<Rightarrow> True
         | c # sub \<Rightarrow> c = CHR ''/'' \<and> (case consumeToken sub of (subtype, tail) \<Rightarrow> subtype \<noteq> [] \<and> tail = [])))"

section \<open>Parameters\<close>

text \<open>A quoted string from after its quote: the value read so far and the rest, if the end quote is
  found.\<close>

fun quoted_value :: "string \<Rightarrow> string \<Rightarrow> (string \<times> string) option" where
  "quoted_value seen [] = None"
| "quoted_value seen (r # v) =
     (if r = CHR 0x22 then Some (seen, v)
      else if r = CHR 0x5C \<and> v \<noteq> [] \<and> hd v \<in> set tspecials then quoted_value (seen @ [hd v]) (tl v)
      else if r = CHR 0x0D \<or> r = CHR 0x0A then None
      else quoted_value (seen @ [r]) v)"

text \<open>\<open>None\<close> is the failure (no value, nothing consumed).\<close>

definition consumeValue :: "string \<Rightarrow> (string \<times> string) option" where
  "consumeValue v =
     (case v of
        [] \<Rightarrow> None
      | c # w \<Rightarrow>
          if c = CHR 0x22 then quoted_value [] w
          else (case consumeToken v of (value, rest) \<Rightarrow> if value = [] then None else Some (value, rest)))"

definition cut_prefix :: "char \<Rightarrow> string \<Rightarrow> string option" where
  "cut_prefix x s = (case s of [] \<Rightarrow> None | c # r \<Rightarrow> if c = x then Some r else None)"

definition consumeMediaParam :: "string \<Rightarrow> (string \<times> string \<times> string) option" where
  "consumeMediaParam v =
     (case cut_prefix (CHR '';'') (trim_left v) of
        None \<Rightarrow> None
      | Some rest \<Rightarrow>
          (case consumeToken (trim_left rest) of (param, rest) \<Rightarrow>
             if param = [] then None
             else (case cut_prefix (CHR ''='') (trim_left rest) of
                     None \<Rightarrow> None
                   | Some rest \<Rightarrow>
                       (case consumeValue (trim_left rest) of
                          None \<Rightarrow> None
                        | Some (value, rest) \<Rightarrow> Some (map ascii_lower param, value, rest)))))"

text \<open>Every step consumes: the parameters are read in finitely many.\<close>

lemma trim_left_length: "length (trim_left s) \<le> length s"
proof (induction s rule: trim_left.induct)
  case (1 s)
  then show ?case by (subst trim_left.simps) (auto intro: le_trans)
qed

lemma cut_prefix_length: "cut_prefix x s = Some r \<Longrightarrow> length r < length s"
  by (auto simp: cut_prefix_def split: list.splits if_splits)

lemma consumeToken_length: "consumeToken v = (t, r) \<Longrightarrow> length r \<le> length v"
  by (auto simp: consumeToken_def length_dropWhile_le)

lemma quoted_value_length: "quoted_value seen v = Some (t, r) \<Longrightarrow> length r < length v"
  by (induction seen v rule: quoted_value.induct) (auto split: if_splits simp: less_Suc_eq_le)

lemma consumeValue_length: "consumeValue v = Some (t, r) \<Longrightarrow> length r \<le> length v"
  by (auto simp: consumeValue_def split: list.splits if_splits prod.splits
      dest: quoted_value_length consumeToken_length)

lemma consumeMediaParam_length:
  assumes "consumeMediaParam v = Some (param, value, rest)"
  shows "length rest < length v"
proof -
  obtain r1 t r2 r3 where r: "cut_prefix (CHR '';'') (trim_left v) = Some r1"
    "consumeToken (trim_left r1) = (t, r2)" "cut_prefix (CHR ''='') (trim_left r2) = Some r3"
    "consumeValue (trim_left r3) = Some (value, rest)"
    using assms by (auto simp: consumeMediaParam_def split: option.splits prod.splits if_splits)
  show ?thesis
    using cut_prefix_length [OF r(1)] consumeToken_length [OF r(2)] cut_prefix_length [OF r(3)]
      consumeValue_length [OF r(4)] trim_left_length [of v] trim_left_length [of r1]
      trim_left_length [of r2] trim_left_length [of r3]
    by linarith
qed

text \<open>The parameter map of a key with an asterisk is that of its base name; the full key is the key in
  either map.\<close>

function parse_params :: "(string \<times> string, string) gomap \<Rightarrow> string \<Rightarrow> bool" where
  "parse_params params v =
     (let v' = trim_left v
      in if v' = [] then True
         else
          (case consumeMediaParam v' of
             None \<Rightarrow> TrimSpace v' = '';''
           | Some (key, value, rest) \<Rightarrow>
               (let entry = (case cut (CHR ''*'') key of (base, None) \<Rightarrow> ([], key) | (base, Some _) \<Rightarrow> (CHR ''*'' # base, key))
                in (case gm_get params entry of
                      Some other \<Rightarrow> other = value \<and> parse_params params rest
                    | None \<Rightarrow> parse_params (gm_set entry value params) rest))))"
  by pat_completeness auto
termination
  by (relation "measure (\<lambda>(params, v). length v)")
    (use trim_left_length in \<open>auto dest!: consumeMediaParam_length intro: less_le_trans\<close>)

declare parse_params.simps [simp del]

definition ParseMediaType :: "string \<Rightarrow> string result" where
  "ParseMediaType v =
     (case cut (CHR '';'') v of (base, _) \<Rightarrow>
        (let mediatype = TrimSpace (to_lower base)
         in if \<not> checkMediaTypeDisposition mediatype then Inl (OtherError ''mime: invalid media type'')
            else if \<not> parse_params [] (drop (length base) v) then Inl (OtherError ''mime: invalid media parameter'')
            else Inr mediatype))"

end
