(* ===== verification/Go_Http.thy ===== *)
theory Go_Http
  imports Go_Mime Correlation Result_State Json_Value
begin

text \<open>
  \<open>net/http\<close> as the handlers use it.  A handler is a state transformer over an \<open>Exchange\<close>: the world
  of the engine, the world of the application around it (its login, observer, entropy and clock),
  and the response writer.  The writer is the interface \<open>ResponseWriter\<close>: a header map, a status
  line that is sent once, and the writes to the body.  Header maps have canonical keys.  A panic
  ends the handler: nothing is written after it.
\<close>

section \<open>Requests\<close>

type_synonym header = "(string, string list) gomap"

text \<open>\<open>rq_Body\<close> is what reading the body to its end gives.\<close>

record Request =
  rq_Method :: string
  rq_Path :: string
  rq_RawQuery :: string
  rq_Header :: header
  rq_Body :: "string result"
  rq_Context :: ctx

definition Header_Values :: "header \<Rightarrow> string \<Rightarrow> string list" where
  "Header_Values h k = (case gm_get h k of None \<Rightarrow> [] | Some vs \<Rightarrow> vs)"

definition Header_Get :: "header \<Rightarrow> string \<Rightarrow> string" where
  "Header_Get h k = (case Header_Values h k of [] \<Rightarrow> [] | v # _ \<Rightarrow> v)"

section \<open>Responses\<close>

text \<open>A write of text, or of the JSON encoding of a value.\<close>

datatype chunk = Text string | Encoded json

text \<open>\<open>rw_Sent\<close> is the header as it was when the status line was sent, \<open>rw_Recorders\<close> the status that
  each recording writer around this one holds, the innermost first.\<close>

record ResponseWriter =
  rw_Header :: header
  rw_Status :: "int option"
  rw_Sent :: header
  rw_Body :: "chunk list"
  rw_Recorders :: "int list"
  rw_Panic :: "string option"

definition new_writer :: ResponseWriter where
  "new_writer = \<lparr>rw_Header = [], rw_Status = None, rw_Sent = [], rw_Body = [], rw_Recorders = [],
     rw_Panic = None\<rparr>"

record ('w, 'x) Exchange =
  ex_engine :: 'w
  ex_env :: 'x
  ex_writer :: ResponseWriter

type_synonym ('w, 'x) handler = "(('w, 'x) Exchange, unit) state"

definition on_engine :: "('w, 'r) state \<Rightarrow> (('w, 'x) Exchange, 'r) state" where
  "on_engine m = State (\<lambda>x. (case run_state m (ex_engine x) of (r, w) \<Rightarrow> (r, x\<lparr>ex_engine := w\<rparr>)))"

definition on_env :: "('x, 'r) state \<Rightarrow> (('w, 'x) Exchange, 'r) state" where
  "on_env m = State (\<lambda>x. (case run_state m (ex_env x) of (r, e) \<Rightarrow> (r, x\<lparr>ex_env := e\<rparr>)))"

definition on_writer :: "(ResponseWriter \<Rightarrow> ResponseWriter) \<Rightarrow> ('w, 'x) handler" where
  "on_writer f = State (\<lambda>x. ((),
     if rw_Panic (ex_writer x) = None then x\<lparr>ex_writer := f (ex_writer x)\<rparr> else x))"

definition panic :: "string \<Rightarrow> ('w, 'x) handler" where
  "panic msg = on_writer (\<lambda>w. w\<lparr>rw_Panic := Some msg\<rparr>)"

definition Header_Set :: "string \<Rightarrow> string \<Rightarrow> ('w, 'x) handler" where
  "Header_Set k v = on_writer (\<lambda>w. w\<lparr>rw_Header := gm_set k [v] (rw_Header w)\<rparr>)"

text \<open>The recording writer notes every status; the connection sends the first one only.\<close>

definition send_status :: "int \<Rightarrow> ResponseWriter \<Rightarrow> ResponseWriter" where
  "send_status status w =
     (if rw_Status w = None then w\<lparr>rw_Status := Some status, rw_Sent := rw_Header w\<rparr> else w)"

definition WriteHeader :: "int \<Rightarrow> ('w, 'x) handler" where
  "WriteHeader status =
     on_writer (\<lambda>w. (let w = w\<lparr>rw_Recorders := map (\<lambda>_. status) (rw_Recorders w)\<rparr>
       in if status < 100 \<or> 999 < status then w\<lparr>rw_Panic := Some ''invalid WriteHeader code''\<rparr>
          else send_status status w))"

definition Write :: "chunk \<Rightarrow> ('w, 'x) handler" where
  "Write c = on_writer (\<lambda>w. (let w = send_status 200 w in w\<lparr>rw_Body := rw_Body w @ [c]\<rparr>))"

text \<open>When the handler returns without having written, the status is 200.\<close>

definition response_status :: "ResponseWriter \<Rightarrow> int" where
  "response_status w = (case rw_Status w of None \<Rightarrow> 200 | Some status \<Rightarrow> status)"

definition response_header :: "ResponseWriter \<Rightarrow> header" where
  "response_header w = (case rw_Status w of None \<Rightarrow> rw_Header w | Some _ \<Rightarrow> rw_Sent w)"

text \<open>The result of a call of the engine: a panic unwinds the handler.\<close>

definition engine_call ::
  "('w, 'r result) state \<Rightarrow> (go_error \<Rightarrow> ('w, 'x) handler) \<Rightarrow> ('r \<Rightarrow> ('w, 'x) handler) \<Rightarrow> ('w, 'x) handler"
where
  "engine_call m bad ok = do {
     r \<leftarrow> on_engine m;
     (case r of
        Inr y \<Rightarrow> ok y
      | Inl (GoPanic msg) \<Rightarrow> panic msg
      | Inl err \<Rightarrow> bad err)
   }"

section \<open>Redirect\<close>

text \<open>\<open>path.Clean\<close>; the segments kept so far are reversed.\<close>

fun clean_segments :: "bool \<Rightarrow> string list \<Rightarrow> string list \<Rightarrow> string list" where
  "clean_segments rooted kept [] = rev kept"
| "clean_segments rooted kept (s # ss) =
     (if s = [] \<or> s = ''.'' then clean_segments rooted kept ss
      else if s = ''..'' then
        (if kept \<noteq> [] \<and> hd kept \<noteq> ''..'' then clean_segments rooted (tl kept) ss
         else if rooted then clean_segments rooted kept ss
         else clean_segments rooted (s # kept) ss)
      else clean_segments rooted (s # kept) ss)"

definition path_Clean :: "string \<Rightarrow> string" where
  "path_Clean p =
     (let rooted = take 1 p = ''/''; q = Join (clean_segments rooted [] (split_on (CHR ''/'') p)) ''/''
      in if rooted then CHR ''/'' # q else if q = [] then ''.'' else q)"

text \<open>The directory of \<open>path.Split\<close>.\<close>

definition path_dir :: "string \<Rightarrow> string" where
  "path_dir p = rev (dropWhile (\<lambda>c. c \<noteq> CHR ''/'') (rev p))"

definition hexEscapeNonASCII :: "string \<Rightarrow> string" where
  "hexEscapeNonASCII s =
     concat (map (\<lambda>c. if (of_char c :: int) < 128 then [c] else CHR ''%'' # hex_encode [c]) s)"

definition html_char :: "char \<Rightarrow> string" where
  "html_char c =
     (if c = CHR ''&'' then ''&amp;'' else if c = CHR ''<'' then ''&lt;'' else if c = CHR ''>'' then ''&gt;''
      else if c = CHR 0x22 then ''&#34;'' else if c = CHR 0x27 then ''&#39;'' else [c])"

definition htmlEscape :: "string \<Rightarrow> string" where
  "htmlEscape s = concat (map html_char s)"

text \<open>A destination without scheme and host is made absolute on this server.\<close>

definition redirect_target :: "Request \<Rightarrow> string \<Rightarrow> string" where
  "redirect_target r url =
     (case url_Parse url of
        None \<Rightarrow> url
      | Some u \<Rightarrow>
          if url_Scheme u \<noteq> [] \<or> url_Host u \<noteq> [] then url
          else
            (let oldpath = (if rq_Path r = [] then ''/'' else rq_Path r);
                 full = (if take 1 url \<noteq> ''/'' then path_dir oldpath @ url else url)
             in (case cut (CHR ''?'') full of (p, query) \<Rightarrow>
                   (let clean = path_Clean p;
                        trailing = p \<noteq> [] \<and> last p = CHR ''/'' \<and> last clean \<noteq> CHR ''/''
                    in clean @ (if trailing then ''/'' else []) @
                       (case query of None \<Rightarrow> [] | Some q \<Rightarrow> CHR ''?'' # q)))))"

text \<open>\<open>http.Redirect\<close> with \<open>StatusFound\<close>.\<close>

definition Redirect :: "Request \<Rightarrow> string \<Rightarrow> ('w, 'x) handler" where
  "Redirect r url = do {
     x \<leftarrow> State_Monad.get;
     let target = redirect_target r url;
     let hadCT = gm_get (rw_Header (ex_writer x)) ''Content-Type'' \<noteq> None;
     Header_Set ''Location'' (hexEscapeNonASCII target);
     (if \<not> hadCT \<and> rq_Method r \<in> {''GET'', ''HEAD''}
      then Header_Set ''Content-Type'' ''text/html; charset=utf-8''
      else State_Monad.return ());
     WriteHeader 302;
     (if \<not> hadCT \<and> rq_Method r = ''GET''
      then Write (Text (''<a href='' @ [CHR 0x22] @ htmlEscape target @ [CHR 0x22] @ ''>Found</a>.'' @
             [CHR 0x0A, CHR 0x0A]))
      else State_Monad.return ())
   }"

section \<open>Bodies and forms\<close>

text \<open>Reading all of \<open>MaxBytesReader\<close>.\<close>

definition read_body :: "Request \<Rightarrow> int \<Rightarrow> string result" where
  "read_body r limit =
     (case rq_Body r of
        Inl err \<Rightarrow> Inl err
      | Inr body \<Rightarrow>
          if max 0 limit < int (length body) then Inl (OtherError ''http: request body too large'')
          else Inr body)"

text \<open>\<open>url.ParseQuery\<close>.\<close>

definition bad_pair :: "string \<Rightarrow> bool" where
  "bad_pair kv \<longleftrightarrow>
     CHR '';'' \<in> set kv \<or>
     kv \<noteq> [] \<and> (case cut (CHR ''='') kv of (k, v) \<Rightarrow>
       QueryUnescape k = None \<or> QueryUnescape (after_cut v) = None)"

definition ParseQuery :: "string \<Rightarrow> url_Values result" where
  "ParseQuery q =
     (if too_many_params q then Inl (OtherError ''number of URL query parameters exceeded limit'')
      else if list_ex bad_pair (split_on (CHR ''&'') q) then Inl (OtherError ''invalid query'')
      else Inr (decode_query q))"

definition form_type :: string where
  "form_type = ''application/x-www-form-urlencoded''"

definition octet_type :: "string \<Rightarrow> string" where
  "octet_type ct = (if ct = [] then ''application/octet-stream'' else ct)"

text \<open>\<open>parsePostForm\<close> of a request whose body is a \<open>MaxBytesReader\<close>.\<close>

definition parsePostForm :: "Request \<Rightarrow> int \<Rightarrow> url_Values result" where
  "parsePostForm r limit =
     (case ParseMediaType (octet_type (Header_Get (rq_Header r) ''Content-Type'')) of
        Inl err \<Rightarrow> Inl err
      | Inr ct \<Rightarrow>
          if ct \<noteq> form_type then Inr []
          else (case read_body r limit of Inl err \<Rightarrow> Inl err | Inr body \<Rightarrow> ParseQuery body))"

text \<open>\<open>ParseForm\<close>, with the \<open>PostForm\<close> it leaves.\<close>

definition ParseForm :: "Request \<Rightarrow> int \<Rightarrow> url_Values result" where
  "ParseForm r limit =
     (case (if rq_Method r \<in> {''POST'', ''PUT'', ''PATCH''} then parsePostForm r limit else Inr []) of
        Inl err \<Rightarrow> Inl err
      | Inr form \<Rightarrow> (case ParseQuery (rq_RawQuery r) of Inl err \<Rightarrow> Inl err | Inr _ \<Rightarrow> Inr form))"

end
