(* ===== verification/Resource_Server.thy ===== *)
theory Resource_Server
  imports Go_Http Json
begin

text \<open>
  \<open>pkg/oauthresource\<close>: what a resource server needs, the bearer token of a request, its
  verification for a resource, and the metadata document.  The verifier is a parameter.
\<close>

section \<open>token.go\<close>

type_synonym 'w VerifierPort = "ctx \<Rightarrow> string \<Rightarrow> ResourceID \<Rightarrow> ('w, VerifiedAccessToken result) state"

definition bearer_missing :: go_error where
  "bearer_missing = OtherError ''bearer token is missing''"

definition BearerToken :: "Request \<Rightarrow> string result" where
  "BearerToken r =
     (case Header_Values (rq_Header r) ''Authorization'' of
        [v] \<Rightarrow>
          (case Fields v of
             [scheme, token] \<Rightarrow>
               if \<not> EqualFold scheme ''Bearer'' \<or> token = [] \<or> ContainsAny token [CHR 0x0D, CHR 0x0A]
               then Inl bearer_missing else Inr token
           | _ \<Rightarrow> Inl bearer_missing)
      | _ \<Rightarrow> Inl bearer_missing)"

definition Authenticate ::
  "ctx \<Rightarrow> 'w VerifierPort \<Rightarrow> ResourceID \<Rightarrow> Request \<Rightarrow> ('w, VerifiedAccessToken result) state" where
  "Authenticate ctx verifier resource r =
     (case BearerToken r of
        Inl err \<Rightarrow> State_Monad.return (Inl err)
      | Inr token \<Rightarrow> verifier ctx token resource)"

section \<open>metadata.go\<close>

text \<open>\<open>Scopes\<close> of metadata.go.\<close>

definition scope_strings :: "ScopeSet \<Rightarrow> string list" where
  "scope_strings s = ScopeSet_Values s"

record Metadata =
  md_Resource :: string
  md_AuthorizationServers :: "string list"
  md_ScopesSupported :: "string list"
  md_ResourceName :: string

text \<open>A field tagged \<open>omitempty\<close>.\<close>

definition omit_empty :: "string \<Rightarrow> 'b list \<Rightarrow> json \<Rightarrow> (string \<times> json) list" where
  "omit_empty name v j = (if v = [] then [] else [(name, j)])"

definition enc_Metadata :: "Metadata \<Rightarrow> json" where
  "enc_Metadata m = JObject
     ([(''resource'', enc_string (md_Resource m)),
       (''authorization_servers'', enc_strings (md_AuthorizationServers m))] @
      omit_empty ''scopes_supported'' (md_ScopesSupported m) (enc_strings (md_ScopesSupported m)) @
      omit_empty ''resource_name'' (md_ResourceName m) (enc_string (md_ResourceName m)))"

text \<open>\<open>http.Error\<close>.\<close>

definition http_Error :: "string \<Rightarrow> int \<Rightarrow> ('w, 'x) handler" where
  "http_Error msg status = do {
     on_writer (\<lambda>w. w\<lparr>rw_Header := gm_delete_if (\<lambda>k _. k = ''Content-Length'') (rw_Header w)\<rparr>);
     Header_Set ''Content-Type'' ''text/plain; charset=utf-8'';
     Header_Set ''X-Content-Type-Options'' ''nosniff'';
     WriteHeader status;
     Write (Text (msg @ [CHR 0x0A]))
   }"

definition Metadata_Handler :: "Metadata \<Rightarrow> Request \<Rightarrow> ('w, 'x) handler" where
  "Metadata_Handler m r =
     (if rq_Method r \<noteq> ''GET'' then do {
        Header_Set ''Allow'' ''GET'';
        http_Error ''method not allowed'' 405
      } else do {
        Header_Set ''Content-Type'' ''application/json'';
        Header_Set ''Cache-Control'' ''no-store'';
        Write (Encoded (enc_Metadata m))
      })"

definition BearerChallenge :: "string \<Rightarrow> string" where \<open>
  BearerChallenge metadataURL = ''Bearer error="invalid_token", resource_metadata="'' @ metadataURL @ [CHR 0x22]\<close>

end
