(* ===== verification/Http_Correlation.thy ===== *)
theory Http_Correlation
  imports Go_Http Model
begin

text \<open>
  \<open>pkg/httptransport/correlation.go\<close>: the middleware that gives every request an identifier and
  reports it to the observer.  The entropy source and the system clock are parameters.  A recording
  writer is an entry of \<open>rw_Recorders\<close>; a panic of the handler unwinds the middleware, so that the
  observer is not called.
\<close>

record RequestObservation =
  ro_RequestID :: string
  ro_Method :: string
  ro_Path :: string
  ro_Status :: int
  ro_Duration :: duration

type_synonym 'x RequestObserver = "ctx \<Rightarrow> RequestObservation \<Rightarrow> ('x, unit) state"

text \<open>\<open>correlation.Header\<close>, in the canonical form of header keys.\<close>

definition Correlation_Header :: string where
  "Correlation_Header = ''X-Request-Id''"

definition push_recorder :: "('w, 'x) handler" where
  "push_recorder = on_writer (\<lambda>w. w\<lparr>rw_Recorders := 200 # rw_Recorders w\<rparr>)"

definition pop_recorder :: "('w, 'x) handler" where
  "pop_recorder = on_writer (\<lambda>w. w\<lparr>rw_Recorders := tl (rw_Recorders w)\<rparr>)"

definition Correlation ::
  "'x entropy \<Rightarrow> ('x, time) state \<Rightarrow> (Request \<Rightarrow> ('w, 'x) handler) \<Rightarrow> 'x RequestObserver option \<Rightarrow>
   Request \<Rightarrow> ('w, 'x) handler" where
  "Correlation rand sysnow handler observer r0 = do {
     sanitized \<leftarrow> on_env (SanitizeInbound rand (Header_Get (rq_Header r0) Correlation_Header));
     let requestID = (case sanitized of Inl err \<Rightarrow> [] | Inr rid \<Rightarrow> rid);
     Header_Set Correlation_Header requestID;
     let r = (if requestID \<noteq> [] then r0\<lparr>rq_Context := WithID (rq_Context r0) requestID\<rparr> else r0);
     (case observer of
        None \<Rightarrow> handler r
      | Some observe_request \<Rightarrow> do {
          start \<leftarrow> on_env sysnow;
          push_recorder;
          handler r;
          x \<leftarrow> State_Monad.get;
          (if rw_Panic (ex_writer x) \<noteq> None then State_Monad.return ()
           else do {
             end_time \<leftarrow> on_env sysnow;
             on_env (observe_request (rq_Context r)
               \<lparr>ro_RequestID = requestID, ro_Method = rq_Method r, ro_Path = rq_Path r,
                ro_Status = hd (rw_Recorders (ex_writer x)), ro_Duration = time_Sub end_time start\<rparr>);
             pop_recorder
           })
        })
   }"

end
