(* ===== verification/Json_Text.thy ===== *)
theory Json_Text
  imports Go_Url Json_Value
begin

text \<open>
  \<open>encoding/json\<close> on texts: the scanner of a \<open>Decoder\<close>, and \<open>Unmarshal\<close> into strings and slices
  of strings.  A number keeps its text.
\<close>

datatype jtext =
    TNull
  | TBool bool
  | TNumber string
  | TString string
  | TArray "jtext list"
  | TObject "(string \<times> jtext) list"

section \<open>Strings\<close>

definition utf8_bytes :: "nat list \<Rightarrow> string" where
  "utf8_bytes ns = map char_of ns"

definition encode_rune :: "nat \<Rightarrow> string" where
  "encode_rune n =
     (if n < 128 then utf8_bytes [n]
      else if n < 2048 then utf8_bytes [192 + n div 64, 128 + n mod 64]
      else if n < 65536 then utf8_bytes [224 + n div 4096, 128 + n div 64 mod 64, 128 + n mod 64]
      else utf8_bytes [240 + n div 262144, 128 + n div 4096 mod 64, 128 + n div 64 mod 64, 128 + n mod 64])"

text \<open>The four digits of a \<open>\u\<close> escape.\<close>

definition hex4 :: "string \<Rightarrow> nat option" where
  "hex4 s =
     (case map hex_value (take 4 s) of
        [Some a, Some b, Some c, Some d] \<Rightarrow> Some (4096 * a + 256 * b + 16 * c + d)
      | _ \<Rightarrow> None)"

definition surrogate_pair :: "nat \<Rightarrow> string \<Rightarrow> nat option" where
  "surrogate_pair n s =
     (if take 2 s = [CHR 0x5C, CHR ''u''] \<and> 55296 \<le> n \<and> n < 56320 then
        (case hex4 (drop 2 s) of
           Some m \<Rightarrow> if 56320 \<le> m \<and> m < 57344 then Some (65536 + 1024 * (n - 55296) + (m - 56320)) else None
         | None \<Rightarrow> None)
      else None)"

text \<open>The rune of a \<open>\u\<close> escape whose digits start the text, and the number of bytes it takes.\<close>

definition unicode_escape :: "string \<Rightarrow> (string \<times> nat) option" where
  "unicode_escape s =
     (case hex4 s of
        None \<Rightarrow> None
      | Some n \<Rightarrow>
          if 55296 \<le> n \<and> n < 57344 then
            (case surrogate_pair n (drop 4 s) of
               Some r \<Rightarrow> Some (encode_rune r, 10)
             | None \<Rightarrow> Some (replacement_rune, 4))
          else Some (encode_rune n, 4))"

definition simple_escape :: "char \<Rightarrow> char option" where
  "simple_escape c =
     map_of [(CHR 0x22, CHR 0x22), (CHR 0x5C, CHR 0x5C), (CHR ''/'', CHR ''/''), (CHR ''b'', CHR 0x08),
       (CHR ''f'', CHR 0x0C), (CHR ''n'', CHR 0x0A), (CHR ''r'', CHR 0x0D), (CHR ''t'', CHR 0x09)] c"

text \<open>From after the quote: the bytes with the escapes expanded, and what follows the end quote.\<close>

function scan_string :: "string \<Rightarrow> (string \<times> string) option" where
  "scan_string [] = None"
| "scan_string (c # s) =
     (if c = CHR 0x22 then Some ([], s)
      else if c = CHR 0x5C then
        (case s of
           [] \<Rightarrow> None
         | e # t \<Rightarrow>
             (if e = CHR ''u'' then
                (case unicode_escape t of
                   None \<Rightarrow> None
                 | Some (r, n) \<Rightarrow> map_option (apfst ((@) r)) (scan_string (drop n t)))
              else
                (case simple_escape e of
                   None \<Rightarrow> None
                 | Some r \<Rightarrow> map_option (apfst ((#) r)) (scan_string t))))
      else if (of_char c :: int) < 32 then None
      else map_option (apfst ((#) c)) (scan_string s))"
  by pat_completeness auto
termination
  by (relation "measure length") auto

section \<open>Numbers and literals\<close>

definition digits_of :: "string \<Rightarrow> string \<times> string" where
  "digits_of s = (takeWhile ascii_digit s, dropWhile ascii_digit s)"

text \<open>The rest after an optional fraction or exponent; \<open>None\<close> if it has no digits.\<close>

definition scan_fraction :: "string \<Rightarrow> string option" where
  "scan_fraction s =
     (case s of
        c # t \<Rightarrow> if c = CHR ''.'' then (case digits_of t of (ds, r) \<Rightarrow> if ds = [] then None else Some r) else Some s
      | [] \<Rightarrow> Some s)"

definition drop_sign :: "string \<Rightarrow> string" where
  "drop_sign t = (case t of c # r \<Rightarrow> if c \<in> set ''+-'' then r else t | [] \<Rightarrow> t)"

definition scan_exponent :: "string \<Rightarrow> string option" where
  "scan_exponent s =
     (case s of
        c # t \<Rightarrow>
          if c \<in> set ''eE'' then (case digits_of (drop_sign t) of (ds, r) \<Rightarrow> if ds = [] then None else Some r)
          else Some s
      | [] \<Rightarrow> Some s)"

definition scan_integer :: "string \<Rightarrow> string option" where
  "scan_integer s =
     (case digits_of s of (ds, r) \<Rightarrow>
        if ds = [] then None
        else if hd ds = CHR ''0'' then Some (tl s)
        else Some r)"

definition scan_number :: "string \<Rightarrow> (string \<times> string) option" where
  "scan_number s =
     (case scan_integer (if take 1 s = ''-'' then tl s else s) of
        None \<Rightarrow> None
      | Some r1 \<Rightarrow>
          (case scan_fraction r1 of
             None \<Rightarrow> None
           | Some r2 \<Rightarrow>
               (case scan_exponent r2 of
                  None \<Rightarrow> None
                | Some r3 \<Rightarrow> Some (take (length s - length r3) s, r3))))"

definition literals :: "(string \<times> jtext) list" where
  "literals = [(''null'', TNull), (''true'', TBool True), (''false'', TBool False)]"

definition scan_plain :: "string \<Rightarrow> (jtext \<times> string) option" where
  "scan_plain s =
     (case find (\<lambda>(l, v). take (length l) s = l) literals of
        Some (l, v) \<Rightarrow> Some (v, drop (length l) s)
      | None \<Rightarrow> map_option (apfst TNumber) (scan_number s))"

section \<open>Values\<close>

definition skip_space :: "string \<Rightarrow> string" where
  "skip_space s = dropWhile (\<lambda>c. c \<in> set blanks) s"

lemma skip_space_length: "length (skip_space s) \<le> length s"
  by (simp add: skip_space_def length_dropWhile_le)

lemma skip_space_less:
  "length s < n \<Longrightarrow> length (skip_space s) < n"
  "length s \<le> n \<Longrightarrow> 2 * length (skip_space s) < Suc (2 * n)"
  "length s \<le> n \<Longrightarrow> 2 * length (skip_space s) < Suc (Suc (2 * n))"
  using skip_space_length [of s] by linarith+

definition max_depth :: nat where
  "max_depth = 10000"

text \<open>\<open>d\<close> is the number of open objects and arrays.  A step on a rest that is not shorter is never
  taken; the test is what makes the recursion end.\<close>

function parse_value :: "nat \<Rightarrow> string \<Rightarrow> (jtext \<times> string) option"
  and parse_members :: "nat \<Rightarrow> string \<Rightarrow> ((string \<times> jtext) list \<times> string) option"
  and parse_elements :: "nat \<Rightarrow> string \<Rightarrow> (jtext list \<times> string) option" where
  "parse_value d [] = None"
| "parse_value d (c # s) =
     (if c = CHR 0x22 then map_option (apfst (\<lambda>t. TString (valid_text t))) (scan_string s)
      else if c = CHR ''{'' then
        (if max_depth \<le> d then None
         else if take 1 (skip_space s) = ''}'' then Some (TObject [], tl (skip_space s))
         else map_option (apfst TObject) (parse_members (Suc d) (skip_space s)))
      else if c = CHR ''['' then
        (if max_depth \<le> d then None
         else if take 1 (skip_space s) = '']'' then Some (TArray [], tl (skip_space s))
         else map_option (apfst TArray) (parse_elements (Suc d) (skip_space s)))
      else scan_plain (c # s))"
| "parse_members d [] = None"
| "parse_members d (c # s) =
     (if c \<noteq> CHR 0x22 then None
      else
      (case scan_string s of
         None \<Rightarrow> None
       | Some (key, r) \<Rightarrow>
      (case skip_space r of
         [] \<Rightarrow> None
       | colon # t \<Rightarrow>
      if colon \<noteq> CHR '':'' \<or> length s < length t then None
      else
      (case parse_value d (skip_space t) of
         None \<Rightarrow> None
       | Some (v, r2) \<Rightarrow>
      (case skip_space r2 of
         [] \<Rightarrow> None
       | e # t2 \<Rightarrow>
      if length s < length t2 then None
      else if e = CHR ''}'' then Some ([(valid_text key, v)], t2)
      else if e = CHR '','' then map_option (apfst ((#) (valid_text key, v))) (parse_members d (skip_space t2))
      else None)))))"
| "parse_elements d s =
     (case parse_value d s of
        None \<Rightarrow> None
      | Some (v, r) \<Rightarrow>
     (case skip_space r of
        [] \<Rightarrow> None
      | e # t \<Rightarrow>
     if length s \<le> length t then None
     else if e = CHR '']'' then Some ([v], t)
     else if e = CHR '','' then map_option (apfst ((#) v)) (parse_elements d (skip_space t))
     else None))"
  by pat_completeness auto
termination
  by (relation "measure (\<lambda>x. case x of Inl (d, s) \<Rightarrow> 2 * length s
      | Inr (Inl (d, s)) \<Rightarrow> 2 * length s | Inr (Inr (d, s)) \<Rightarrow> Suc (2 * length s))")
    (simp_all add: skip_space_less not_less not_le)

end
