(* ===== verification/Registration.thy ===== *)
theory Registration
  imports Json_Text Go_Http Model
begin

text \<open>
  \<open>decodeRegistrationJSON\<close> of \<open>pkg/httptransport/server.go\<close>: one JSON value of limited size, read into
  the request struct of the registration endpoint.
\<close>

section \<open>Unmarshal\<close>

text \<open>A slice of strings: the slots of its array that were ever written, and its length.  Reading an array
  into a slice reuses the array, and null leaves a slot as it is.\<close>

type_synonym slice = "string list \<times> nat"

definition slice_values :: "slice \<Rightarrow> string list" where
  "slice_values sl = take (snd sl) (fst sl)"

record RegistrationRequest =
  rgr_ClientName :: string
  rgr_RedirectURIs :: slice
  rgr_Scope :: string
  rgr_AuthMethod :: string
  rgr_GrantTypes :: slice
  rgr_ResponseTypes :: slice

definition empty_registration :: RegistrationRequest where
  "empty_registration = \<lparr>rgr_ClientName = [], rgr_RedirectURIs = ([], 0), rgr_Scope = [],
     rgr_AuthMethod = [], rgr_GrantTypes = ([], 0), rgr_ResponseTypes = ([], 0)\<rparr>"

text \<open>\<open>None\<close> is an error of the type.\<close>

fun read_string :: "jtext \<Rightarrow> string \<Rightarrow> string option" where
  "read_string TNull old = Some old"
| "read_string (TString s) old = Some s"
| "read_string _ old = None"

fun fill_slots :: "nat \<Rightarrow> string list \<Rightarrow> jtext list \<Rightarrow> string list option" where
  "fill_slots i slots [] = Some slots"
| "fill_slots i slots (x # xs) =
     (let slots = (if i < length slots then slots else slots @ [[]])
      in (case read_string x (slots ! i) of
            None \<Rightarrow> None
          | Some s \<Rightarrow> fill_slots (Suc i) (slots[i := s]) xs))"

fun read_slice :: "jtext \<Rightarrow> slice \<Rightarrow> slice option" where
  "read_slice TNull old = Some ([], 0)"
| "read_slice (TArray xs) old =
     (if xs = [] then Some ([], 0)
      else map_option (\<lambda>slots. (slots, length xs)) (fill_slots 0 (fst old) xs))"
| "read_slice _ old = None"

text \<open>Field names are compared under case folding; two letters outside ASCII fold to ASCII, \<open>U+017F\<close> and
  the Kelvin sign.\<close>

fun fold_name :: "string \<Rightarrow> string" where
  "fold_name [] = []"
| "fold_name (c # s) =
     (if take 2 (c # s) = [CHR 0xC5, CHR 0xBF] then CHR ''s'' # fold_name (drop 1 s)
      else if take 3 (c # s) = [CHR 0xE2, CHR 0x84, CHR 0xAA] then CHR ''k'' # fold_name (drop 2 s)
      else ascii_lower c # fold_name s)"

definition read_member :: "string \<times> jtext \<Rightarrow> RegistrationRequest \<Rightarrow> RegistrationRequest option" where
  "read_member m r =
     (case m of (key, v) \<Rightarrow>
        (let name = fold_name key
         in if name = ''client_name'' then
              map_option (\<lambda>s. r\<lparr>rgr_ClientName := s\<rparr>) (read_string v (rgr_ClientName r))
            else if name = ''redirect_uris'' then
              map_option (\<lambda>s. r\<lparr>rgr_RedirectURIs := s\<rparr>) (read_slice v (rgr_RedirectURIs r))
            else if name = ''scope'' then
              map_option (\<lambda>s. r\<lparr>rgr_Scope := s\<rparr>) (read_string v (rgr_Scope r))
            else if name = ''token_endpoint_auth_method'' then
              map_option (\<lambda>s. r\<lparr>rgr_AuthMethod := s\<rparr>) (read_string v (rgr_AuthMethod r))
            else if name = ''grant_types'' then
              map_option (\<lambda>s. r\<lparr>rgr_GrantTypes := s\<rparr>) (read_slice v (rgr_GrantTypes r))
            else if name = ''response_types'' then
              map_option (\<lambda>s. r\<lparr>rgr_ResponseTypes := s\<rparr>) (read_slice v (rgr_ResponseTypes r))
            else Some r))"

fun read_members :: "(string \<times> jtext) list \<Rightarrow> RegistrationRequest \<Rightarrow> RegistrationRequest option" where
  "read_members [] r = Some r"
| "read_members (m # ms) r = (case read_member m r of None \<Rightarrow> None | Some r' \<Rightarrow> read_members ms r')"

fun read_registration :: "jtext \<Rightarrow> RegistrationRequest option" where
  "read_registration TNull = Some empty_registration"
| "read_registration (TObject ms) = read_members ms empty_registration"
| "read_registration _ = None"

section \<open>The decoder\<close>

text \<open>The first value must fit the struct and only white space may follow it.\<close>

definition decode_one :: "string \<Rightarrow> jtext option" where
  "decode_one text =
     (case parse_value 0 (skip_space text) of
        None \<Rightarrow> None
      | Some (v, rest) \<Rightarrow> if skip_space rest = [] then Some v else None)"

definition decodeRegistrationJSON :: "HTTPPolicy \<Rightarrow> Request \<Rightarrow> RegistrationRequest result" where
  "decodeRegistrationJSON policy r =
     (case ParseMediaType (Header_Get (rq_Header r) ''Content-Type'') of
        Inl err \<Rightarrow> Inl (OtherError ''content type must be application/json'')
      | Inr mediaType \<Rightarrow>
     if mediaType \<noteq> ''application/json''
     then Inl (OtherError ''content type must be application/json'')
     else
     (case read_body r (hp_MaxBodyBytes policy) of
        Inl err \<Rightarrow> Inl err
      | Inr body \<Rightarrow>
     (case decode_one body of
        None \<Rightarrow> Inl (OtherError ''request must contain one JSON value'')
      | Some v \<Rightarrow>
     (case read_registration v of
        None \<Rightarrow> Inl (OtherError ''json: cannot unmarshal value'')
      | Some request \<Rightarrow> Inr request))))"

end
