(* ===== verification/Consent_Page.thy ===== *)
theory Consent_Page
  imports Go_Time Model
begin

text \<open>
  The consent page and its style sheet, \<open>consentPage\<close> and \<open>consentStyles\<close> of
  \<open>pkg/httptransport/server.go\<close>, with the escaping of \<open>html/template\<close> and the texts of
  \<open>time.Duration\<close> and \<open>time.Time\<close>.
\<close>

section \<open>Texts of times\<close>

definition frac_text :: "nat \<Rightarrow> int \<Rightarrow> string" where
  "frac_text prec u =
     (let f = u mod 10 ^ prec in if f = 0 then [] else CHR ''.'' # trim_zeros (padded prec f))"

definition unit_text :: "nat \<Rightarrow> string \<Rightarrow> int \<Rightarrow> string" where
  "unit_text prec name u = decimal (u div 10 ^ prec) @ frac_text prec u @ name"

definition clock_text :: "int \<Rightarrow> string" where
  "clock_text u =
     (let s = u div second; m = s div 60; h = m div 60
      in (if 0 < h then decimal h @ ''h'' else []) @
         (if 0 < m then decimal (m mod 60) @ ''m'' else []) @
         decimal (s mod 60) @ frac_text 9 u @ ''s'')"

text \<open>\<open>Duration.String\<close>.\<close>

definition Duration_String :: "duration \<Rightarrow> string" where
  "Duration_String d =
     (let u = \<bar>sint d\<bar>
      in (if sint d < 0 then ''-'' else []) @
         (if u = 0 then ''0s''
          else if u < 1000 then unit_text 0 ''ns'' u
          else if u < 1000000 then unit_text 3 [CHR 0xC2, CHR 0xB5, CHR ''s''] u
          else if u < second then unit_text 6 ''ms'' u
          else clock_text u))"

text \<open>\<open>Time.String\<close> of a time in UTC; a monotonic clock reading, which Go would append, is not part of
  the model's times.\<close>

definition time_String :: "time \<Rightarrow> string" where
  "time_String t =
     map (\<lambda>c. if c = CHR ''T'' then CHR '' '' else c) (date_text (t div second)) @
     fraction_text (t mod second) @ '' +0000 UTC''"

section \<open>Escaping\<close>

definition template_char :: "char \<Rightarrow> string" where
  "template_char c =
     (if c = CHR 0x00 then replacement_rune
      else if c = CHR 0x22 then ''&#34;'' else if c = CHR ''&'' then ''&amp;''
      else if c = CHR 0x27 then ''&#39;'' else if c = CHR ''+'' then ''&#43;''
      else if c = CHR ''<'' then ''&lt;'' else if c = CHR ''>'' then ''&gt;'' else [c])"

definition template_escape :: "string \<Rightarrow> string" where
  "template_escape s = concat (map template_char s)"

section \<open>The page\<close>

definition page_scope :: "ConsentScope \<Rightarrow> string" where \<open>
  page_scope scope =
     ''<label class="scope"><input type="checkbox" name="scope" value="'' @
     template_escape (csc_Scope scope) @
     ''" checked><span><strong>'' @
     template_escape (csc_Scope scope) @
     ''</strong><small>Grant this capability to the connector</small></span></label>''\<close>

definition consentPage :: "ConsentViewData \<Rightarrow> string" where \<open>
  consentPage view =
     ''<!doctype html>'' @
     [CHR 0x0A] @
     ''<html lang="en"><head><meta charset="utf-8"><meta name="viewport" content="width=device-width,in'' @
     ''itial-scale=1"><title>Authorize CoinVault</title><link rel="stylesheet" href="/oauth/consent.css'' @
     ''"></head>'' @
     [CHR 0x0A] @
     ''<body><main class="shell"><section class="card"><header class="brand"><span class="mark">CV</spa'' @
     ''n><span><strong>CoinVault</strong><small>Secure connector authorization</small></span></header>'' @
     [CHR 0x0A] @
     ''<div class="intro"><p class="eyebrow">Authorization request</p><h1>Connect '' @
     template_escape (cv_ClientName view) @
     ''</h1><p class="lede">Review the access this connector is requesting from '' @
     template_escape (cv_ResourceName view) @
     ''.</p></div>'' @
     [CHR 0x0A] @
     ''<div class="identity"><span class="avatar">ID</span><span><strong>'' @
     template_escape (cv_PrincipalName view) @
     ''</strong><small>'' @
     template_escape (cv_PrincipalEmail view) @
     ''</small></span></div>'' @
     [CHR 0x0A] @
     ''<form method="post" action="/oauth/consent"><input type="hidden" name="token" value="'' @
     template_escape (cv_Token view) @
     ''"><fieldset><legend>Requested access</legend><div class="scopes">'' @
     concat (map page_scope (cv_Scopes view)) @
     ''</div></fieldset>'' @
     [CHR 0x0A] @
     ''<dl class="details"><div><dt>Destination</dt><dd>'' @
     template_escape (cv_RedirectOrigin view) @
     ''</dd></div><div><dt>Client trust</dt><dd>'' @
     template_escape (cv_ClientTrust view) @
     ''</dd></div><div><dt>Access token</dt><dd>'' @
     template_escape (Duration_String (cv_AccessTokenTTL view)) @
     ''</dd></div><div><dt>Authorization ends</dt><dd>'' @
     template_escape (time_String (cv_AuthorizationEnds view)) @
     ''</dd></div></dl>'' @
     [CHR 0x0A] @
     ''<div class="actions"><button class="approve" name="decision" value="approve" type="submit">Appro'' @
     ''ve connection</button><button class="deny" name="decision" value="deny" type="submit">Deny</butt'' @
     ''on></div></form><footer>Only the selected scopes will be granted. You can revoke access later.</'' @
     ''footer></section></main></body></html>''\<close>

definition consentStyles :: string where \<open>
  consentStyles =
     '':root{color-scheme:dark;--bg:#090a0c;--panel:#121418;--line:#2a2d33;--muted:#9a9fa9;--text:#f4f2'' @
     ''eb;--gold:#d7aa45;--gold2:#f0cd72;--danger:#d36b67}*{box-sizing:border-box}body{margin:0;min-hei'' @
     ''ght:100vh;background:radial-gradient(circle at 50% -20%,#262019 0,#0d0e11 42%,var(--bg) 75%);col'' @
     ''or:var(--text);font:15px/1.5 Inter,ui-sans-serif,system-ui,-apple-system,BlinkMacSystemFont,"Seg'' @
     ''oe UI",sans-serif}.shell{min-height:100vh;display:grid;place-items:center;padding:32px 16px}.car'' @
     ''d{width:min(620px,100%);background:linear-gradient(180deg,#17191e,var(--panel));border:1px solid'' @
     '' #33363d;border-radius:18px;box-shadow:0 24px 80px #0009;overflow:hidden}.brand{display:flex;ali'' @
     ''gn-items:center;gap:12px;padding:20px 24px;border-bottom:1px solid var(--line)}.brand span:last-'' @
     ''child,.identity span:last-child{display:flex;flex-direction:column}.brand small,.identity small{'' @
     ''color:var(--muted)}.mark,.avatar{display:grid;place-items:center;flex:0 0 auto;width:42px;height'' @
     '':42px;border-radius:12px;background:linear-gradient(145deg,var(--gold2),#9b6b16);color:#171006;f'' @
     ''ont-weight:900;letter-spacing:-.04em}.intro{padding:28px 28px 12px}.eyebrow{margin:0 0 5px;color'' @
     '':var(--gold2);font-size:12px;font-weight:750;letter-spacing:.13em;text-transform:uppercase}h1{ma'' @
     ''rgin:0;font-size:clamp(26px,5vw,36px);line-height:1.15;letter-spacing:-.035em}.lede{color:#c2c5c'' @
     ''c;margin:12px 0 0}.identity{display:flex;align-items:center;gap:12px;margin:12px 28px 24px;paddi'' @
     ''ng:14px;border:1px solid var(--line);border-radius:12px;background:#0d0f12}.avatar{width:38px;he'' @
     ''ight:38px;border-radius:50%;text-transform:uppercase}form{padding:0 28px 28px}fieldset{padding:0'' @
     '';border:0}legend{margin-bottom:10px;font-size:13px;font-weight:700;color:#d8d9dc}.scopes{display'' @
     '':grid;gap:8px}.scope{display:flex;align-items:flex-start;gap:12px;padding:13px 14px;border:1px s'' @
     ''olid var(--line);border-radius:10px;background:#0e1013;cursor:pointer}.scope:has(input:checked){'' @
     ''border-color:#705a2b;background:#18150f}.scope input{margin-top:4px;accent-color:var(--gold)}.sc'' @
     ''ope span{display:flex;min-width:0;flex-direction:column}.scope strong{overflow-wrap:anywhere;fon'' @
     ''t-size:13px}.scope small{color:var(--muted)}.details{display:grid;gap:8px;margin:22px 0;padding-'' @
     ''top:18px;border-top:1px solid var(--line)}.details div{display:flex;justify-content:space-betwee'' @
     ''n;gap:20px}.details dt{color:var(--muted)}.details dd{margin:0;max-width:65%;overflow-wrap:anywh'' @
     ''ere;text-align:right}.actions{display:flex;gap:10px}.actions button{border-radius:10px;padding:1'' @
     ''2px 18px;font:inherit;font-weight:750;cursor:pointer}.approve{flex:1;border:1px solid #e4bb5d;ba'' @
     ''ckground:linear-gradient(180deg,var(--gold2),var(--gold));color:#1b1408}.approve:hover{filter:br'' @
     ''ightness(1.08)}.deny{border:1px solid #42464f;background:#1b1e23;color:#ddd}.deny:hover{border-c'' @
     ''olor:var(--danger);color:#ffd5d2}footer{padding:15px 28px;border-top:1px solid var(--line);color'' @
     '':var(--muted);font-size:12px;text-align:center}@media(max-width:520px){.shell{padding:0}.card{mi'' @
     ''n-height:100vh;border:0;border-radius:0}.intro,.identity,form{margin-left:18px;margin-right:18px'' @
     '';padding-left:0;padding-right:0}.details div{display:block}.details dd{max-width:none;text-align'' @
     '':left}.actions{flex-direction:column}.deny{order:-1}}''\<close>

end
