(* ===== verification/Http_Server.thy ===== *)
theory Http_Server
  imports Resource_Server Http_Correlation Registration Consent_Page Engine
begin

text \<open>
  \<open>pkg/httptransport/server.go\<close>: the OAuth endpoints.  Every handler is a function of the request to
  a state transformer of the exchange, with the calls of the engine and the writes of the code in
  their order.  The login starter and the observer belong to the application and act on its world.
\<close>

section \<open>The server\<close>

text \<open>\<open>LoginStarter\<close> of ports.go.\<close>

type_synonym 'x LoginStarter = "ctx \<Rightarrow> LoginContext \<Rightarrow> ('x, string result) state"

record ('w, 'x, 'a) HttpConfig =
  hc_Engine :: "('w, 'a) Engine option"
  hc_Login :: "'x LoginStarter option"
  hc_Observer :: "'x RequestObserver option"

record ('w, 'x, 'a) HttpServer =
  hs_engine :: "('w, 'a) Engine"
  hs_issuer :: string
  hs_resources :: "'w ResourcePort"
  hs_tokens :: "('w, 'a) TokenPort"
  hs_login :: "'x LoginStarter option"
  hs_policy :: HTTPPolicy
  hs_observer :: "'x RequestObserver option"

text \<open>The accessors of the engine.\<close>

definition Engine_Issuer :: "('w, 'a) Engine \<Rightarrow> string" where
  "Engine_Issuer e = cfg_Issuer (en_config e)"

definition Engine_Resources :: "('w, 'a) Engine \<Rightarrow> 'w ResourcePort" where
  "Engine_Resources e = en_Resources e"

definition Engine_Tokens :: "('w, 'a) Engine \<Rightarrow> ('w, 'a) TokenPort" where
  "Engine_Tokens e = en_Tokens e"

definition Engine_HTTPPolicy :: "('w, 'a) Engine \<Rightarrow> HTTPPolicy" where
  "Engine_HTTPPolicy e = cfg_HTTP (en_config e)"

definition Http_New :: "('w, 'x, 'a) HttpConfig \<Rightarrow> ('w, 'x, 'a) HttpServer result" where
  "Http_New config =
     (case hc_Engine config of
        None \<Rightarrow> Inl (OtherError ''HTTP transport configuration is incomplete'')
      | Some e \<Rightarrow> Inr \<lparr>hs_engine = e, hs_issuer = Engine_Issuer e, hs_resources = Engine_Resources e,
          hs_tokens = Engine_Tokens e, hs_login = hc_Login config, hs_policy = Engine_HTTPPolicy e,
          hs_observer = hc_Observer config\<rparr>)"

section \<open>Writing\<close>

definition set_headers :: "('w, 'x) handler" where
  "set_headers = do {
     Header_Set ''Cache-Control'' ''no-store'';
     Header_Set ''Pragma'' ''no-cache'';
     Header_Set ''X-Content-Type-Options'' ''nosniff''
   }"

definition method_not_allowed :: "string \<Rightarrow> ('w, 'x) handler" where
  "method_not_allowed allowed = do {
     Header_Set ''Allow'' allowed;
     WriteHeader 405
   }"

definition writeJSON :: "int \<Rightarrow> json \<Rightarrow> ('w, 'x) handler" where
  "writeJSON status v = do {
     Header_Set ''Content-Type'' ''application/json'';
     WriteHeader status;
     Write (Encoded v)
   }"

definition serverOAuthError :: "ErrorCode \<Rightarrow> string \<Rightarrow> int \<Rightarrow> go_error option \<Rightarrow> go_error" where
  "serverOAuthError code description status cause = OAuthError code description status cause"

definition invalid_request :: "ErrorCode \<Rightarrow> string \<Rightarrow> go_error option \<Rightarrow> go_error" where
  "invalid_request code description cause = serverOAuthError code description 400 cause"

text \<open>\<open>errors.As\<close> for \<open>*OAuthError\<close>: the first one of the chain, with the code, the description and the
  status.\<close>

fun as_OAuthError :: "go_error \<Rightarrow> (ErrorCode \<times> string \<times> int) option" where
  "as_OAuthError (OAuthError code description status cause) = Some (code, description, status)"
| "as_OAuthError (WrapError msg err) = as_OAuthError err"
| "as_OAuthError _ = None"

definition error_json :: "ErrorCode \<Rightarrow> string \<Rightarrow> json" where
  "error_json code description =
     JObject [(''error'', enc_string (error_code_text code)), (''error_description'', enc_string description)]"

definition public_view :: "string \<Rightarrow> go_error \<Rightarrow> ErrorCode \<times> string \<times> int" where
  "public_view fallback err =
     (case as_OAuthError err of
        Some v \<Rightarrow> v
      | None \<Rightarrow> (ErrorTemporary, fallback, 503))"

definition writeOAuthError :: "go_error \<Rightarrow> ('w, 'x) handler" where
  "writeOAuthError err =
     (case public_view ''service is temporarily unavailable'' err of
        (code, description, status) \<Rightarrow> writeJSON status (error_json code description))"

text \<open>The seconds of a duration, as Go divides: towards zero.\<close>

definition duration_seconds :: "duration \<Rightarrow> int" where
  "duration_seconds d = sgn (sint d) * (\<bar>sint d\<bar> div second)"

definition writeToken :: "TokenResponse \<Rightarrow> ('w, 'x) handler" where
  "writeToken result = writeJSON 200 (JObject
     [(''access_token'', enc_string (tok_AccessToken result)),
      (''expires_in'', JNumber (duration_seconds (tok_ExpiresIn result))),
      (''refresh_token'', enc_string (tok_RefreshToken result)),
      (''scope'', enc_string (ScopeSet_String (tok_Scopes result))),
      (''token_type'', enc_string (tok_TokenType result))])"

definition absolute_url :: "('w, 'x, 'a) HttpServer \<Rightarrow> string \<Rightarrow> string" where
  "absolute_url s path = TrimRight (hs_issuer s) ''/'' @ path"

section \<open>Metadata and keys\<close>

definition authorization_metadata :: "('w, 'x, 'a) HttpServer \<Rightarrow> string list \<Rightarrow> json" where
  "authorization_metadata s scopes = JObject
     ([(''issuer'', enc_string (hs_issuer s)),
       (''authorization_endpoint'', enc_string (absolute_url s ''/oauth/authorize'')),
       (''token_endpoint'', enc_string (absolute_url s ''/oauth/token'')),
       (''registration_endpoint'', enc_string (absolute_url s ''/oauth/register'')),
       (''revocation_endpoint'', enc_string (absolute_url s ''/oauth/revoke'')),
       (''jwks_uri'', enc_string (absolute_url s ''/jwks.json'')),
       (''response_types_supported'', enc_strings [''code'']),
       (''grant_types_supported'', enc_strings [''authorization_code'', ''refresh_token'']),
       (''code_challenge_methods_supported'', enc_strings [''S256'']),
       (''token_endpoint_auth_methods_supported'', enc_strings [''none''])] @
      omit_empty ''scopes_supported'' scopes (enc_strings scopes))"

definition metadata_handler :: "('w, 'x, 'a) HttpServer \<Rightarrow> Request \<Rightarrow> ('w, 'x) handler" where
  "metadata_handler s r =
     (if rq_Method r \<noteq> ''GET'' then method_not_allowed ''GET''
      else do {
        set_headers;
        engine_call (resources_List (hs_resources s) (rq_Context r))
          (\<lambda>err. writeOAuthError (serverOAuthError ErrorTemporary ''metadata unavailable'' 503 (Some err)))
          (\<lambda>resources. writeJSON 200 (authorization_metadata s
             (concat (map (\<lambda>resource. scope_strings (res_SupportedScopes resource)) resources))))
      })"

text \<open>A map is encoded in the order of its keys; a key set without keys is a nil slice, null.\<close>

definition enc_object :: "(string, json) gomap \<Rightarrow> json" where
  "enc_object m = JObject (sort_key fst m)"

definition enc_JWKS :: "JWKS \<Rightarrow> json" where
  "enc_JWKS keys =
     JObject [(''keys'', if jwks_Keys keys = [] then JNull else JArray (map enc_object (jwks_Keys keys)))]"

definition jwks_handler :: "('w, 'x, 'a) HttpServer \<Rightarrow> Request \<Rightarrow> ('w, 'x) handler" where
  "jwks_handler s r =
     (if rq_Method r \<noteq> ''GET'' then method_not_allowed ''GET''
      else do {
        set_headers;
        engine_call (tokens_JWKS (hs_tokens s) (rq_Context r))
          (\<lambda>err. writeOAuthError (serverOAuthError ErrorTemporary ''key set unavailable'' 503 (Some err)))
          (\<lambda>keys. writeJSON 200 (enc_JWKS keys))
      })"

section \<open>Registration\<close>

fun metadata_list_loop :: "string list \<Rightarrow> string list \<Rightarrow> string list \<Rightarrow> bool" where
  "metadata_list_loop allowed seen [] = True"
| "metadata_list_loop allowed seen (v # vs) =
     (if v \<notin> set allowed then False
      else if v \<in> set seen then False
      else metadata_list_loop allowed (v # seen) vs)"

definition validMetadataList :: "string list \<Rightarrow> int \<Rightarrow> string list \<Rightarrow> bool" where
  "validMetadataList vs maxLength allowed =
     (if maxLength < int (length vs) then False else metadata_list_loop allowed [] vs)"

definition registration_json :: "Client \<Rightarrow> json" where
  "registration_json c = JObject
     [(''client_id'', enc_string (cl_ID c)), (''client_name'', enc_string (cl_DisplayName c)),
      (''grant_types'', enc_strings [''authorization_code'', ''refresh_token'']),
      (''redirect_uris'', enc_strings (cl_RedirectURIs c)), (''response_types'', enc_strings [''code'']),
      (''scope'', enc_string (ScopeSet_String (cl_AllowedScopes c))),
      (''token_endpoint_auth_method'', enc_string ''none'')]"

definition register_handler :: "('w, 'x, 'a) HttpServer \<Rightarrow> Request \<Rightarrow> ('w, 'x) handler" where
  "register_handler s r =
     (if rq_Method r \<noteq> ''POST'' then method_not_allowed ''POST''
      else do {
        set_headers;
        (case decodeRegistrationJSON (hs_policy s) r of
           Inl err \<Rightarrow> writeOAuthError (invalid_request ErrorInvalidClientMetadata
             ''client metadata is invalid'' (Some err))
         | Inr request \<Rightarrow>
             if rgr_AuthMethod request \<noteq> [] \<and> rgr_AuthMethod request \<noteq> ''none''
             then writeOAuthError (invalid_request ErrorInvalidClientMetadata
               ''only public clients are supported'' (Some ErrInvalid))
             else if \<not> validMetadataList (slice_values (rgr_GrantTypes request))
                    (hp_MaxArrayLength (hs_policy s)) [''authorization_code'', ''refresh_token''] \<or>
                  \<not> validMetadataList (slice_values (rgr_ResponseTypes request))
                    (hp_MaxArrayLength (hs_policy s)) [''code''] \<or>
                  hp_MaxArrayLength (hs_policy s) < int (length (slice_values (rgr_RedirectURIs request)))
             then writeOAuthError (invalid_request ErrorInvalidClientMetadata
               ''client metadata is invalid'' (Some ErrInvalid))
             else engine_call
               (Engine_RegisterClient (hs_engine s) (rq_Context r)
                  \<lparr>rci_DisplayName = rgr_ClientName request,
                   rci_RedirectURIs = slice_values (rgr_RedirectURIs request),
                   rci_RequestedScopes = Fields (rgr_Scope request)\<rparr>)
               writeOAuthError (\<lambda>client. writeJSON 201 (registration_json client)))
      })"

section \<open>Authorization\<close>

definition query_in_limits :: "HTTPPolicy \<Rightarrow> string \<times> string list \<Rightarrow> bool" where
  "query_in_limits policy entry =
     (case entry of (key, vs) \<Rightarrow>
        \<not> (hp_MaxFieldBytes policy < int (length key) \<or> length vs \<noteq> 1 \<or>
           hp_MaxFieldBytes policy < int (length (hd vs))))"

definition authorizationQuery :: "('w, 'x, 'a) HttpServer \<Rightarrow> Request \<Rightarrow> url_Values result" where
  "authorizationQuery s r =
     (if hp_MaxBodyBytes (hs_policy s) < int (length (rq_RawQuery r))
      then Inl (OtherError ''authorization query is too large'')
      else
        (let query = parse_query (rq_RawQuery r)
         in if list_all (query_in_limits (hs_policy s)) query then Inr query
            else Inl (OtherError ''authorization query is ambiguous or too large'')))"

definition error_destination :: "string \<Rightarrow> string \<Rightarrow> go_error \<Rightarrow> string option" where
  "error_destination redirect state_text err =
     (case public_view ''authorization is temporarily unavailable'' err of
        (code, description, _) \<Rightarrow>
          map_option (\<lambda>u. url_String (u\<lparr>url_RawQuery :=
              Values_Encode (Values_Set ''state'' state_text
                (Values_Set ''error_description'' description
                  (Values_Set ''error'' (error_code_text code) (parse_query (url_RawQuery u)))))\<rparr>))
            (url_Parse redirect))"

definition redirectAuthorizationError ::
  "Request \<Rightarrow> TrustedRedirect \<Rightarrow> string \<Rightarrow> go_error \<Rightarrow> ('w, 'x) handler" where
  "redirectAuthorizationError r redirect state_text err =
     (case error_destination (tr_uri redirect) state_text err of
        None \<Rightarrow> writeOAuthError err
      | Some destination \<Rightarrow> Redirect r destination)"

definition redirectLoginError ::
  "('w, 'x, 'a) HttpServer \<Rightarrow> Request \<Rightarrow> LoginContext \<Rightarrow> go_error \<Rightarrow> ('w, 'x) handler" where
  "redirectLoginError s r login err =
     engine_call (Engine_ValidateRedirect (hs_engine s) (lc_ClientID login) (lc_RedirectURI login))
       (\<lambda>_. writeOAuthError err)
       (\<lambda>redirect. redirectAuthorizationError r redirect (lc_State login) err)"

definition authorize_input :: "url_Values \<Rightarrow> BeginAuthorizationInput" where
  "authorize_input query =
     \<lparr>bai_ClientID = Values_Get query ''client_id'', bai_RedirectURI = Values_Get query ''redirect_uri'',
      bai_ResponseType = Values_Get query ''response_type'', bai_State = Values_Get query ''state'',
      bai_CodeChallenge = Values_Get query ''code_challenge'',
      bai_ChallengeMethod = Values_Get query ''code_challenge_method'',
      bai_Scopes = Fields (Values_Get query ''scope''), bai_Resource = Values_Get query ''resource''\<rparr>"

definition authorize_refused ::
  "('w, 'x, 'a) HttpServer \<Rightarrow> Request \<Rightarrow> url_Values \<Rightarrow> go_error \<Rightarrow> ('w, 'x) handler" where
  "authorize_refused s r query err =
     engine_call (Engine_ValidateRedirect (hs_engine s) (Values_Get query ''client_id'')
         (Values_Get query ''redirect_uri''))
       (\<lambda>_. writeOAuthError err)
       (\<lambda>redirect.
          if Values_Get query ''state'' \<noteq> []
          then redirectAuthorizationError r redirect (Values_Get query ''state'') err
          else writeOAuthError err)"

definition start_login ::
  "('w, 'x, 'a) HttpServer \<Rightarrow> Request \<Rightarrow> BeginAuthorizationResult \<Rightarrow> ('w, 'x) handler" where
  "start_login s r result =
     (case hs_login s of
        None \<Rightarrow> redirectLoginError s r (bar_LoginContext result)
          (serverOAuthError ErrorTemporary ''login is unavailable'' 503 None)
      | Some login \<Rightarrow> do {
          d \<leftarrow> on_env (login (rq_Context r) (bar_LoginContext result));
          (case d of
             Inl err \<Rightarrow> redirectLoginError s r (bar_LoginContext result)
               (serverOAuthError ErrorTemporary ''login is unavailable'' 503 (Some err))
           | Inr destination \<Rightarrow> Redirect r destination)
        })"

definition authorize_handler :: "('w, 'x, 'a) HttpServer \<Rightarrow> Request \<Rightarrow> ('w, 'x) handler" where
  "authorize_handler s r = do {
     set_headers;
     (if rq_Method r \<noteq> ''GET'' then method_not_allowed ''GET''
      else
        (case authorizationQuery s r of
           Inl err \<Rightarrow> writeOAuthError (invalid_request ErrorInvalidRequest
             ''authorization request is invalid'' (Some err))
         | Inr query \<Rightarrow>
             engine_call (Engine_BeginAuthorization (hs_engine s) (rq_Context r) (authorize_input query))
               (authorize_refused s r query) (start_login s r)))
   }"

section \<open>Consent\<close>

definition consent_policy :: "string \<Rightarrow> string" where
  "consent_policy origin =
     ''default-src 'none'; style-src 'self'; form-action 'self' '' @ origin @
     ''; frame-ancestors 'none'; base-uri 'none'' @ [CHR 0x27]"

definition consent_headers :: "ConsentViewData \<Rightarrow> ('w, 'x) handler" where
  "consent_headers view = do {
     Header_Set ''Content-Type'' ''text/html; charset=utf-8'';
     Header_Set ''Content-Security-Policy'' (consent_policy (cv_RedirectOrigin view));
     Header_Set ''X-Frame-Options'' ''DENY'';
     Header_Set ''Referrer-Policy'' ''no-referrer''
   }"

definition consentGet :: "('w, 'x, 'a) HttpServer \<Rightarrow> Request \<Rightarrow> ('w, 'x) handler" where
  "consentGet s r = do {
     set_headers;
     (if rq_Method r \<noteq> ''GET'' then method_not_allowed ''GET''
      else engine_call
        (Engine_ConsentView (hs_engine s) (rq_Context r) (Values_Get (parse_query (rq_RawQuery r)) ''token''))
        writeOAuthError
        (\<lambda>view. do {
           consent_headers view;
           Write (Text (consentPage view))
         }))
   }"

definition consentCSS :: "Request \<Rightarrow> ('w, 'x) handler" where
  "consentCSS r =
     (if rq_Method r \<noteq> ''GET'' then method_not_allowed ''GET''
      else do {
        Header_Set ''Content-Type'' ''text/css; charset=utf-8'';
        Header_Set ''Cache-Control'' ''public, max-age=3600'';
        Write (Text consentStyles)
      })"

text \<open>\<open>parseForm\<close>: the form, if its type, size and cardinalities are those allowed.\<close>

definition form_in_limits :: "HTTPPolicy \<Rightarrow> string list \<Rightarrow> string \<times> string list \<Rightarrow> bool" where
  "form_in_limits policy arrayFields entry =
     (case entry of (key, vs) \<Rightarrow>
        (let arrayField = key \<in> set arrayFields
         in \<not> (hp_MaxFieldBytes policy < int (length key) \<or>
               arrayField \<and> hp_MaxArrayLength policy < int (length vs) \<or>
               \<not> arrayField \<and> length vs \<noteq> 1) \<and>
            list_all (\<lambda>v. \<not> hp_MaxFieldBytes policy < int (length v)) vs))"

definition parseForm :: "HTTPPolicy \<Rightarrow> Request \<Rightarrow> string list \<Rightarrow> url_Values result" where
  "parseForm policy r arrayFields =
     (if ParseMediaType (Header_Get (rq_Header r) ''Content-Type'') \<noteq> Inr form_type
      then Inl (OtherError ''content type must be application/x-www-form-urlencoded'')
      else if rq_RawQuery r \<noteq> []
      then Inl (OtherError ''form endpoint does not accept query parameters'')
      else
        (case ParseForm r (hp_MaxBodyBytes policy) of
           Inl err \<Rightarrow> Inl err
         | Inr form \<Rightarrow>
             if list_all (form_in_limits policy arrayFields) form then Inr form
             else Inl (OtherError ''form limits or parameter cardinality exceeded'')))"

definition form_decision :: "url_Values \<Rightarrow> ConsentDecision option" where
  "form_decision form =
     (if Values_Get form ''decision'' = ''approve'' then Some ConsentDecisionApprove
      else if Values_Get form ''decision'' = ''deny'' then Some ConsentDecisionDeny
      else None)"

definition form_values :: "url_Values \<Rightarrow> string \<Rightarrow> string list" where
  "form_values form key = (case gm_get form key of None \<Rightarrow> [] | Some vs \<Rightarrow> vs)"

definition consentPost :: "('w, 'x, 'a) HttpServer \<Rightarrow> Request \<Rightarrow> ('w, 'x) handler" where
  "consentPost s r = do {
     set_headers;
     (if rq_Method r \<noteq> ''POST'' then method_not_allowed ''POST''
      else
        (case parseForm (hs_policy s) r [''scope''] of
           Inl err \<Rightarrow> writeOAuthError (invalid_request ErrorInvalidRequest ''consent form is invalid'' (Some err))
         | Inr form \<Rightarrow>
             if hp_MaxFieldBytes (hs_policy s) < int (length (Values_Get form ''token''))
             then writeOAuthError (invalid_request ErrorInvalidRequest ''consent form is invalid'' (Some ErrInvalid))
             else
               (case form_decision form of
                  None \<Rightarrow> writeOAuthError
                    (invalid_request ErrorInvalidRequest ''consent decision is invalid'' (Some ErrInvalid))
                | Some decision \<Rightarrow>
                    engine_call
                      (Engine_DecideConsent (hs_engine s) (rq_Context r)
                         \<lparr>dci_Token = Values_Get form ''token'', dci_Decision = decision,
                          dci_SelectedScopes = form_values form ''scope''\<rparr>)
                      writeOAuthError (\<lambda>result. Redirect r (dcr_RedirectURI result)))))
   }"

definition consent_handler :: "('w, 'x, 'a) HttpServer \<Rightarrow> Request \<Rightarrow> ('w, 'x) handler" where
  "consent_handler s r =
     (if rq_Method r = ''GET'' then consentGet s r
      else if rq_Method r = ''POST'' then consentPost s r
      else do {
        set_headers;
        method_not_allowed ''GET, POST''
      })"

section \<open>Tokens\<close>

definition exchange_input :: "url_Values \<Rightarrow> ExchangeCodeInput" where
  "exchange_input form =
     \<lparr>eci_Code = Values_Get form ''code'', eci_ClientID = Values_Get form ''client_id'',
      eci_RedirectURI = Values_Get form ''redirect_uri'',
      eci_CodeVerifier = Values_Get form ''code_verifier''\<rparr>"

definition refresh_input :: "url_Values \<Rightarrow> RefreshInput" where
  "refresh_input form =
     \<lparr>rfi_RefreshToken = Values_Get form ''refresh_token'', rfi_ClientID = Values_Get form ''client_id''\<rparr>"

definition token_handler :: "('w, 'x, 'a) HttpServer \<Rightarrow> Request \<Rightarrow> ('w, 'x) handler" where
  "token_handler s r = do {
     set_headers;
     (if rq_Method r \<noteq> ''POST'' then method_not_allowed ''POST''
      else
        (case parseForm (hs_policy s) r [] of
           Inl err \<Rightarrow> writeOAuthError (invalid_request ErrorInvalidRequest ''token request is invalid'' (Some err))
         | Inr form \<Rightarrow>
             if Values_Get form ''grant_type'' = ''authorization_code''
             then engine_call (Engine_ExchangeCode (hs_engine s) (rq_Context r) (exchange_input form))
               writeOAuthError writeToken
             else if Values_Get form ''grant_type'' = ''refresh_token''
             then engine_call (Engine_Refresh (hs_engine s) (rq_Context r) (refresh_input form))
               writeOAuthError writeToken
             else writeOAuthError (serverOAuthError ErrorUnsupportedGrant ''grant type is not supported'' 400
               (Some ErrInvalid))))
   }"

definition revoke_handler :: "('w, 'x, 'a) HttpServer \<Rightarrow> Request \<Rightarrow> ('w, 'x) handler" where
  "revoke_handler s r = do {
     set_headers;
     (if rq_Method r \<noteq> ''POST'' then method_not_allowed ''POST''
      else
        (case parseForm (hs_policy s) r [] of
           Inl err \<Rightarrow>
             writeOAuthError (invalid_request ErrorInvalidRequest ''revocation request is invalid'' (Some err))
         | Inr form \<Rightarrow> do {
             failure \<leftarrow> on_engine (Engine_Revoke (hs_engine s) (rq_Context r)
               \<lparr>rvi_Token = Values_Get form ''token'', rvi_ClientID = Values_Get form ''client_id''\<rparr>);
             (case failure of
                Some err \<Rightarrow> writeOAuthError
                  (serverOAuthError ErrorTemporary ''revocation unavailable'' 503 (Some err))
              | None \<Rightarrow> WriteHeader 200)
           }))
   }"

section \<open>Callback and routes\<close>

type_synonym ('x, 'a) CallbackAuthenticator =
  "ctx \<Rightarrow> Request \<Rightarrow> ('x, (TransactionToken \<times> 'a Principal) result) state"

definition IdentityCallbackHandler ::
  "('w, 'x, 'a) HttpServer \<Rightarrow> ('x, 'a) CallbackAuthenticator \<Rightarrow> Request \<Rightarrow> ('w, 'x) handler" where
  "IdentityCallbackHandler s authenticator r = do {
     set_headers;
     d \<leftarrow> on_env (authenticator (rq_Context r) r);
     (case d of
        Inl err \<Rightarrow> writeOAuthError
          (serverOAuthError ErrorAccessDenied ''login was not accepted'' 400 (Some err))
      | Inr (transaction, who) \<Rightarrow>
          engine_call
            (Engine_CompleteLogin (hs_engine s) (rq_Context r)
               \<lparr>cli_Transaction = transaction, cli_Principal = who\<rparr>)
            writeOAuthError (\<lambda>result. Redirect r (clr_ConsentURL result)))
   }"

text \<open>\<open>Mount\<close> registers a handler per path, each within the correlation middleware.\<close>

definition endpoints :: "('w, 'x, 'a) HttpServer \<Rightarrow> (string, Request \<Rightarrow> ('w, 'x) handler) gomap" where
  "endpoints s =
     [(''/.well-known/oauth-authorization-server'', metadata_handler s),
      (''/jwks.json'', jwks_handler s), (''/oauth/register'', register_handler s),
      (''/oauth/authorize'', authorize_handler s), (''/oauth/consent'', consent_handler s),
      (''/oauth/consent.css'', consentCSS), (''/oauth/token'', token_handler s),
      (''/oauth/revoke'', revoke_handler s)]"

definition correlated ::
  "'x entropy \<Rightarrow> ('x, time) state \<Rightarrow> ('w, 'x, 'a) HttpServer \<Rightarrow> (Request \<Rightarrow> ('w, 'x) handler) \<Rightarrow>
   Request \<Rightarrow> ('w, 'x) handler" where
  "correlated rand sysnow s handler = Correlation rand sysnow handler (hs_observer s)"

definition Mount ::
  "'x entropy \<Rightarrow> ('x, time) state \<Rightarrow> ('w, 'x, 'a) HttpServer \<Rightarrow> (string, Request \<Rightarrow> ('w, 'x) handler) gomap"
where
  "Mount rand sysnow s = map (apsnd (correlated rand sysnow s)) (endpoints s)"

end
