(* ===== verification/Http_Spec.thy ===== *)
theory Http_Spec
  imports Http_Server Engine_System
begin

text \<open>
  What an endpoint means: a reply to the request by itself, or one request to the engine together
  with the reply to each of its answers.  The handlers implement it: \<open>Http_Refines\<close>.
\<close>

section \<open>Replies\<close>

text \<open>\<open>CrashReply\<close> is a panic, which leaves the connection without a complete response.\<close>

datatype reply =
    JsonReply int json
  | RedirectReply string
  | MethodReply string
  | PageReply ConsentViewData
  | StyleReply
  | EmptyReply
  | CrashReply

definition sent_header :: "ResponseWriter \<Rightarrow> string \<Rightarrow> string list" where
  "sent_header w k = Header_Values (response_header w) k"

fun sends :: "reply \<Rightarrow> ResponseWriter \<Rightarrow> bool" where
  "sends (JsonReply status j) w \<longleftrightarrow>
     rw_Status w = Some status \<and> rw_Body w = [Encoded j] \<and> sent_header w ''Content-Type'' = [''application/json'']"
| "sends (RedirectReply url) w \<longleftrightarrow>
     rw_Status w = Some 302 \<and> sent_header w ''Location'' = [hexEscapeNonASCII url]"
| "sends (MethodReply allowed) w \<longleftrightarrow>
     rw_Status w = Some 405 \<and> rw_Body w = [] \<and> sent_header w ''Allow'' = [allowed]"
| "sends (PageReply view) w \<longleftrightarrow>
     rw_Status w = Some 200 \<and> rw_Body w = [Text (consentPage view)] \<and>
     sent_header w ''Content-Type'' = [''text/html; charset=utf-8''] \<and>
     sent_header w ''Content-Security-Policy'' = [consent_policy (cv_RedirectOrigin view)] \<and>
     sent_header w ''X-Frame-Options'' = [''DENY''] \<and> sent_header w ''Referrer-Policy'' = [''no-referrer'']"
| "sends StyleReply w \<longleftrightarrow>
     rw_Status w = Some 200 \<and> rw_Body w = [Text consentStyles] \<and>
     sent_header w ''Content-Type'' = [''text/css; charset=utf-8''] \<and>
     sent_header w ''Cache-Control'' = [''public, max-age=3600'']"
| "sends EmptyReply w \<longleftrightarrow> rw_Status w = Some 200 \<and> rw_Body w = []"
| "sends CrashReply w \<longleftrightarrow> False"

text \<open>Before a handler has answered: nothing is written, and the recorders hold their initial status.\<close>

definition ready :: "ResponseWriter \<Rightarrow> bool" where
  "ready w \<longleftrightarrow> rw_Panic w = None \<and> rw_Status w = None \<and> rw_Body w = [] \<and> list_all (\<lambda>n. n = 200) (rw_Recorders w)"

definition reply_headers :: "reply \<Rightarrow> string list" where
  "reply_headers rep =
     (if rep = StyleReply then [''Content-Type'', ''Cache-Control'']
      else [''Content-Type'', ''Location'', ''Allow'', ''Content-Security-Policy'', ''X-Frame-Options'', ''Referrer-Policy''])"

definition keeps_headers :: "reply \<Rightarrow> ResponseWriter \<Rightarrow> ResponseWriter \<Rightarrow> bool" where
  "keeps_headers rep w w' \<longleftrightarrow>
     (\<forall>k. k \<notin> set (reply_headers rep) \<longrightarrow> gm_get (response_header w') k = gm_get (rw_Header w) k)"

definition recorded :: "ResponseWriter \<Rightarrow> ResponseWriter \<Rightarrow> bool" where
  "recorded w w' \<longleftrightarrow> rw_Recorders w' = map (\<lambda>_. response_status w') (rw_Recorders w)"

definition answered :: "reply \<Rightarrow> ResponseWriter \<Rightarrow> ResponseWriter \<Rightarrow> bool" where
  "answered rep w w' \<longleftrightarrow>
     (if rep = CrashReply then rw_Panic w' \<noteq> None
      else rw_Panic w' = None \<and> sends rep w' \<and> keeps_headers rep w w' \<and> recorded w w')"

definition answers_with :: "reply \<Rightarrow> ('w, 'x) handler \<Rightarrow> bool" where
  "answers_with rep h \<longleftrightarrow>
     (\<forall>x. ready (ex_writer x) \<longrightarrow>
        wp h (\<lambda>_ x'. ex_engine x' = ex_engine x \<and> ex_env x' = ex_env x \<and>
          answered rep (ex_writer x) (ex_writer x')) x)"

section \<open>Rules\<close>

lemma wp_on_engine [wp_simps]:
  "wp (on_engine m) Q x = wp m (\<lambda>r w. Q r (x\<lparr>ex_engine := w\<rparr>)) (ex_engine x)"
  by (simp add: on_engine_def wp_def split: prod.splits)

lemma wp_on_env [wp_simps]:
  "wp (on_env m) Q x = wp m (\<lambda>r e. Q r (x\<lparr>ex_env := e\<rparr>)) (ex_env x)"
  by (simp add: on_env_def wp_def split: prod.splits)

lemma wp_on_writer [wp_simps]:
  "wp (on_writer f) Q x =
     Q () (if rw_Panic (ex_writer x) = None then x\<lparr>ex_writer := f (ex_writer x)\<rparr> else x)"
  by (simp add: on_writer_def wp_def)

lemmas writer_defs = Header_Set_def WriteHeader_def Write_def panic_def send_status_def Let_def

lemma Header_Values_set [simp]:
  "Header_Values (gm_set k [v] h) k' = (if k' = k then [v] else Header_Values h k')"
  by (simp add: Header_Values_def)

lemma map_const: "list_all (\<lambda>n. n = c) ns \<Longrightarrow> map (\<lambda>_. c) ns = ns"
  by (induction ns) simp_all

lemmas answer_defs = answers_with_def answered_def ready_def keeps_headers_def reply_headers_def recorded_def
  response_header_def response_status_def sent_header_def

lemma answers_writeJSON:
  "100 \<le> status \<Longrightarrow> status \<le> 999 \<Longrightarrow> answers_with (JsonReply status j) (writeJSON status j)"
  by (auto simp: answer_defs writeJSON_def writer_defs wp_simps)

lemma answers_method: "answers_with (MethodReply allowed) (method_not_allowed allowed)"
  by (auto simp: answer_defs method_not_allowed_def writer_defs wp_simps)

lemma answers_empty: "answers_with EmptyReply (WriteHeader 200)"
  by (auto simp: answer_defs writer_defs wp_simps map_const)

lemma answers_style:
  "answers_with StyleReply (do {
     Header_Set ''Content-Type'' ''text/css; charset=utf-8'';
     Header_Set ''Cache-Control'' ''public, max-age=3600'';
     Write (Text consentStyles)
   })"
  by (auto simp: answer_defs writer_defs wp_simps map_const)

lemma answers_page:
  "answers_with (PageReply view) (do { consent_headers view; Write (Text (consentPage view)) })"
  unfolding answers_with_def consent_headers_def writer_defs
  by (simp add: wp_simps ready_def, simp add: answer_defs map_const)

lemma answers_panic: "answers_with CrashReply (panic msg)"
  by (auto simp: answer_defs writer_defs wp_simps)

lemma answers_redirect: "answers_with (RedirectReply (redirect_target r url)) (Redirect r url)"
  by (auto simp: answer_defs Redirect_def writer_defs wp_simps)

definition error_reply :: "string \<Rightarrow> go_error \<Rightarrow> reply" where
  "error_reply fallback err =
     (case public_view fallback err of (code, description, status) \<Rightarrow>
        if status < 100 \<or> 999 < status then CrashReply else JsonReply status (error_json code description))"

abbreviation service_error :: "go_error \<Rightarrow> reply" where
  "service_error err \<equiv> error_reply ''service is temporarily unavailable'' err"

lemma answers_error: "answers_with (service_error err) (writeOAuthError err)"
proof -
  obtain code description status where v: "public_view ''service is temporarily unavailable'' err = (code, description, status)"
    by (cases "public_view ''service is temporarily unavailable'' err")
  show ?thesis
  proof (cases "status < 100 \<or> 999 < status")
    case True
    then show ?thesis
      by (auto simp: error_reply_def writeOAuthError_def v answer_defs writeJSON_def writer_defs wp_simps)
  next
    case False
    then show ?thesis
      using answers_writeJSON [of status "error_json code description"]
      by (simp add: error_reply_def writeOAuthError_def v)
  qed
qed

section \<open>The meaning of the endpoints\<close>

type_synonym ('w, 'x, 'r) http = "('w \<times> 'x, 'r) state"

text \<open>A request to the engine, a read of one of its ports, and a call of the application.\<close>

definition ask :: "('w, 'a) Engine \<Rightarrow> 'a request \<Rightarrow> ('w, 'x, response) http" where
  "ask e req = State (\<lambda>(w, x). (case serve e req w of (resp, w') \<Rightarrow> (resp, (w', x))))"

definition fetch :: "('w, 'r) state \<Rightarrow> ('w, 'x, 'r) http" where
  "fetch m = State (\<lambda>(w, x). (case run_state m w of (r, w') \<Rightarrow> (r, (w', x))))"

definition consult :: "('x, 'r) state \<Rightarrow> ('w, 'x, 'r) http" where
  "consult m = State (\<lambda>(w, x). (case run_state m x of (r, x') \<Rightarrow> (r, (w, x'))))"

text \<open>A panic of the engine, or else the reply to its error.\<close>

definition failure_reply :: "(go_error \<Rightarrow> reply) \<Rightarrow> go_error \<Rightarrow> reply" where
  "failure_reply f err = (case err of GoPanic msg \<Rightarrow> CrashReply | _ \<Rightarrow> f err)"

definition temporary :: "string \<Rightarrow> go_error option \<Rightarrow> reply" where
  "temporary description cause = service_error (serverOAuthError ErrorTemporary description 503 cause)"

definition malformed :: "ErrorCode \<Rightarrow> string \<Rightarrow> go_error \<Rightarrow> reply" where
  "malformed code description err = service_error (invalid_request code description (Some err))"

definition metadata_spec :: "('w, 'x, 'a) HttpServer \<Rightarrow> Request \<Rightarrow> ('w, 'x, reply) http" where
  "metadata_spec s r =
     (if rq_Method r \<noteq> ''GET'' then State_Monad.return (MethodReply ''GET'')
      else do {
        listed \<leftarrow> fetch (resources_List (hs_resources s) (rq_Context r));
        State_Monad.return (case listed of
          Inl err \<Rightarrow> failure_reply (\<lambda>err. temporary ''metadata unavailable'' (Some err)) err
        | Inr resources \<Rightarrow> JsonReply 200 (authorization_metadata s
            (concat (map (\<lambda>resource. scope_strings (res_SupportedScopes resource)) resources))))
      })"

definition jwks_spec :: "('w, 'x, 'a) HttpServer \<Rightarrow> Request \<Rightarrow> ('w, 'x, reply) http" where
  "jwks_spec s r =
     (if rq_Method r \<noteq> ''GET'' then State_Monad.return (MethodReply ''GET'')
      else do {
        fetched \<leftarrow> fetch (tokens_JWKS (hs_tokens s) (rq_Context r));
        State_Monad.return (case fetched of
          Inl err \<Rightarrow> failure_reply (\<lambda>err. temporary ''key set unavailable'' (Some err)) err
        | Inr keys \<Rightarrow> JsonReply 200 (enc_JWKS keys))
      })"

text \<open>The request struct that the registration endpoint accepts.\<close>

definition registration_refused :: "HTTPPolicy \<Rightarrow> RegistrationRequest \<Rightarrow> reply option" where
  "registration_refused policy request =
     (if rgr_AuthMethod request \<noteq> [] \<and> rgr_AuthMethod request \<noteq> ''none''
      then Some (malformed ErrorInvalidClientMetadata ''only public clients are supported'' ErrInvalid)
      else if validMetadataList (slice_values (rgr_GrantTypes request)) (hp_MaxArrayLength policy)
             [''authorization_code'', ''refresh_token''] \<and>
           validMetadataList (slice_values (rgr_ResponseTypes request)) (hp_MaxArrayLength policy) [''code''] \<and>
           int (length (slice_values (rgr_RedirectURIs request))) \<le> hp_MaxArrayLength policy
      then None
      else Some (malformed ErrorInvalidClientMetadata ''client metadata is invalid'' ErrInvalid))"

definition registration_input :: "RegistrationRequest \<Rightarrow> RegisterClientInput" where
  "registration_input request =
     \<lparr>rci_DisplayName = rgr_ClientName request, rci_RedirectURIs = slice_values (rgr_RedirectURIs request),
      rci_RequestedScopes = Fields (rgr_Scope request)\<rparr>"

fun register_reply :: "response \<Rightarrow> reply" where
  "register_reply (Registered c) = JsonReply 201 (registration_json c)"
| "register_reply (Failed err) = failure_reply (error_reply ''service is temporarily unavailable'') err"
| "register_reply _ = CrashReply"

definition register_spec :: "('w, 'x, 'a) HttpServer \<Rightarrow> Request \<Rightarrow> ('w, 'x, reply) http" where
  "register_spec s r =
     (if rq_Method r \<noteq> ''POST'' then State_Monad.return (MethodReply ''POST'')
      else
        (case decodeRegistrationJSON (hs_policy s) r of
           Inl err \<Rightarrow> State_Monad.return (malformed ErrorInvalidClientMetadata ''client metadata is invalid'' err)
         | Inr request \<Rightarrow>
             (case registration_refused (hs_policy s) request of
                Some rep \<Rightarrow> State_Monad.return rep
              | None \<Rightarrow> do {
                  resp \<leftarrow> ask (hs_engine s) (RegisterReq (rq_Context r) (registration_input request));
                  State_Monad.return (register_reply resp)
                })))"

text \<open>A refusal goes to the client's redirect URI when the engine trusts it and the request has a state.\<close>

definition error_redirect :: "Request \<Rightarrow> TrustedRedirect \<Rightarrow> string \<Rightarrow> go_error \<Rightarrow> reply" where
  "error_redirect r redirect state_text err =
     (case error_destination (tr_uri redirect) state_text err of
        None \<Rightarrow> service_error err
      | Some destination \<Rightarrow> RedirectReply (redirect_target r destination))"

fun trusted_reply :: "Request \<Rightarrow> string \<Rightarrow> go_error \<Rightarrow> response \<Rightarrow> reply" where
  "trusted_reply r state_text err (Trusted redirect) = error_redirect r redirect state_text err"
| "trusted_reply r state_text err (Failed why) = failure_reply (\<lambda>_. service_error err) why"
| "trusted_reply r state_text err _ = CrashReply"

definition login_failed_spec ::
  "('w, 'x, 'a) HttpServer \<Rightarrow> Request \<Rightarrow> LoginContext \<Rightarrow> go_error option \<Rightarrow> ('w, 'x, reply) http" where
  "login_failed_spec s r login cause = do {
     resp \<leftarrow> ask (hs_engine s) (ValidateRedirectReq (lc_ClientID login) (lc_RedirectURI login));
     State_Monad.return (trusted_reply r (lc_State login)
       (serverOAuthError ErrorTemporary ''login is unavailable'' 503 cause) resp)
   }"

definition login_spec ::
  "('w, 'x, 'a) HttpServer \<Rightarrow> Request \<Rightarrow> LoginContext \<Rightarrow> ('w, 'x, reply) http" where
  "login_spec s r context =
     (case hs_login s of
        None \<Rightarrow> login_failed_spec s r context None
      | Some login \<Rightarrow> do {
          d \<leftarrow> consult (login (rq_Context r) context);
          (case d of
             Inl err \<Rightarrow> login_failed_spec s r context (Some err)
           | Inr destination \<Rightarrow> State_Monad.return (RedirectReply (redirect_target r destination)))
        })"

fun stateless_reply :: "go_error \<Rightarrow> response \<Rightarrow> reply" where
  "stateless_reply err (Trusted redirect) = service_error err"
| "stateless_reply err (Failed why) = failure_reply (\<lambda>_. service_error err) why"
| "stateless_reply err _ = CrashReply"

definition refused_spec ::
  "('w, 'x, 'a) HttpServer \<Rightarrow> Request \<Rightarrow> url_Values \<Rightarrow> go_error \<Rightarrow> ('w, 'x, reply) http" where
  "refused_spec s r query err = do {
     resp \<leftarrow> ask (hs_engine s) (ValidateRedirectReq (Values_Get query ''client_id'') (Values_Get query ''redirect_uri''));
     State_Monad.return
       (if Values_Get query ''state'' \<noteq> [] then trusted_reply r (Values_Get query ''state'') err resp
        else stateless_reply err resp)
   }"

definition begun_spec ::
  "('w, 'x, 'a) HttpServer \<Rightarrow> Request \<Rightarrow> url_Values \<Rightarrow> response \<Rightarrow> ('w, 'x, reply) http" where
  "begun_spec s r query resp =
     (case resp of
        Begun result \<Rightarrow> login_spec s r (bar_LoginContext result)
      | Failed (GoPanic msg) \<Rightarrow> State_Monad.return CrashReply
      | Failed err \<Rightarrow> refused_spec s r query err
      | _ \<Rightarrow> State_Monad.return CrashReply)"

definition authorize_spec :: "('w, 'x, 'a) HttpServer \<Rightarrow> Request \<Rightarrow> ('w, 'x, reply) http" where
  "authorize_spec s r =
     (if rq_Method r \<noteq> ''GET'' then State_Monad.return (MethodReply ''GET'')
      else
        (case authorizationQuery s r of
           Inl err \<Rightarrow> State_Monad.return (malformed ErrorInvalidRequest ''authorization request is invalid'' err)
         | Inr query \<Rightarrow> do {
             resp \<leftarrow> ask (hs_engine s) (BeginReq (rq_Context r) (authorize_input query));
             begun_spec s r query resp
           }))"

fun consent_view_reply :: "response \<Rightarrow> reply" where
  "consent_view_reply (Viewed view) = PageReply view"
| "consent_view_reply (Failed err) = failure_reply (error_reply ''service is temporarily unavailable'') err"
| "consent_view_reply _ = CrashReply"

fun decision_reply :: "Request \<Rightarrow> response \<Rightarrow> reply" where
  "decision_reply r (Decided result) = RedirectReply (redirect_target r (dcr_RedirectURI result))"
| "decision_reply r (Failed err) = failure_reply (error_reply ''service is temporarily unavailable'') err"
| "decision_reply r _ = CrashReply"

definition consent_post_spec :: "('w, 'x, 'a) HttpServer \<Rightarrow> Request \<Rightarrow> ('w, 'x, reply) http" where
  "consent_post_spec s r =
     (case parseForm (hs_policy s) r [''scope''] of
        Inl err \<Rightarrow> State_Monad.return (malformed ErrorInvalidRequest ''consent form is invalid'' err)
      | Inr form \<Rightarrow>
          if hp_MaxFieldBytes (hs_policy s) < int (length (Values_Get form ''token''))
          then State_Monad.return (malformed ErrorInvalidRequest ''consent form is invalid'' ErrInvalid)
          else
            (case form_decision form of
               None \<Rightarrow> State_Monad.return
                 (malformed ErrorInvalidRequest ''consent decision is invalid'' ErrInvalid)
             | Some decision \<Rightarrow> do {
                 resp \<leftarrow> ask (hs_engine s) (DecideReq (rq_Context r)
                   \<lparr>dci_Token = Values_Get form ''token'', dci_Decision = decision,
                    dci_SelectedScopes = form_values form ''scope''\<rparr>);
                 State_Monad.return (decision_reply r resp)
               }))"

definition consent_spec :: "('w, 'x, 'a) HttpServer \<Rightarrow> Request \<Rightarrow> ('w, 'x, reply) http" where
  "consent_spec s r =
     (if rq_Method r = ''GET'' then do {
        resp \<leftarrow> ask (hs_engine s)
          (ConsentViewReq (rq_Context r) (Values_Get (parse_query (rq_RawQuery r)) ''token''));
        State_Monad.return (consent_view_reply resp)
      }
      else if rq_Method r = ''POST'' then consent_post_spec s r
      else State_Monad.return (MethodReply ''GET, POST''))"

definition style_spec :: "Request \<Rightarrow> ('w, 'x, reply) http" where
  "style_spec r = State_Monad.return (if rq_Method r = ''GET'' then StyleReply else MethodReply ''GET'')"

definition token_json :: "TokenResponse \<Rightarrow> json" where
  "token_json t = JObject
     [(''access_token'', enc_string (tok_AccessToken t)),
      (''expires_in'', JNumber (duration_seconds (tok_ExpiresIn t))),
      (''refresh_token'', enc_string (tok_RefreshToken t)),
      (''scope'', enc_string (ScopeSet_String (tok_Scopes t))),
      (''token_type'', enc_string (tok_TokenType t))]"

fun token_reply :: "response \<Rightarrow> reply" where
  "token_reply (TokensIssued t) = JsonReply 200 (token_json t)"
| "token_reply (Failed err) = failure_reply (error_reply ''service is temporarily unavailable'') err"
| "token_reply _ = CrashReply"

text \<open>The request to the engine that a token form stands for.\<close>

definition token_request :: "ctx \<Rightarrow> url_Values \<Rightarrow> 'a request option" where
  "token_request ctx form =
     (if Values_Get form ''grant_type'' = ''authorization_code'' then Some (ExchangeReq ctx (exchange_input form))
      else if Values_Get form ''grant_type'' = ''refresh_token'' then Some (RefreshReq ctx (refresh_input form))
      else None)"

definition token_spec :: "('w, 'x, 'a) HttpServer \<Rightarrow> Request \<Rightarrow> ('w, 'x, reply) http" where
  "token_spec s r =
     (if rq_Method r \<noteq> ''POST'' then State_Monad.return (MethodReply ''POST'')
      else
        (case parseForm (hs_policy s) r [] of
           Inl err \<Rightarrow> State_Monad.return (malformed ErrorInvalidRequest ''token request is invalid'' err)
         | Inr form \<Rightarrow>
             (case token_request (rq_Context r) form of
                None \<Rightarrow> State_Monad.return
                  (malformed ErrorUnsupportedGrant ''grant type is not supported'' ErrInvalid)
              | Some req \<Rightarrow> do {
                  resp \<leftarrow> ask (hs_engine s) req;
                  State_Monad.return (token_reply resp)
                })))"

text \<open>\<open>Revoke\<close> hands on the error of the store, whatever it is.\<close>

fun revoke_reply :: "response \<Rightarrow> reply" where
  "revoke_reply Revoked = EmptyReply"
| "revoke_reply (Failed err) = temporary ''revocation unavailable'' (Some err)"
| "revoke_reply _ = CrashReply"

definition revoke_spec :: "('w, 'x, 'a) HttpServer \<Rightarrow> Request \<Rightarrow> ('w, 'x, reply) http" where
  "revoke_spec s r =
     (if rq_Method r \<noteq> ''POST'' then State_Monad.return (MethodReply ''POST'')
      else
        (case parseForm (hs_policy s) r [] of
           Inl err \<Rightarrow> State_Monad.return (malformed ErrorInvalidRequest ''revocation request is invalid'' err)
         | Inr form \<Rightarrow> do {
             resp \<leftarrow> ask (hs_engine s) (RevokeReq (rq_Context r)
               \<lparr>rvi_Token = Values_Get form ''token'', rvi_ClientID = Values_Get form ''client_id''\<rparr>);
             State_Monad.return (revoke_reply resp)
           }))"

fun callback_reply :: "Request \<Rightarrow> response \<Rightarrow> reply" where
  "callback_reply r (LoggedIn result) = RedirectReply (redirect_target r (clr_ConsentURL result))"
| "callback_reply r (Failed err) = failure_reply (error_reply ''service is temporarily unavailable'') err"
| "callback_reply r _ = CrashReply"

definition callback_spec ::
  "('w, 'x, 'a) HttpServer \<Rightarrow> ('x, 'a) CallbackAuthenticator \<Rightarrow> Request \<Rightarrow> ('w, 'x, reply) http" where
  "callback_spec s authenticator r = do {
     d \<leftarrow> consult (authenticator (rq_Context r) r);
     (case d of
        Inl err \<Rightarrow> State_Monad.return (malformed ErrorAccessDenied ''login was not accepted'' err)
      | Inr (transaction, who) \<Rightarrow> do {
          resp \<leftarrow> ask (hs_engine s) (LoginReq (rq_Context r) \<lparr>cli_Transaction = transaction, cli_Principal = who\<rparr>);
          State_Monad.return (callback_reply r resp)
        })
   }"

definition endpoint_specs :: "('w, 'x, 'a) HttpServer \<Rightarrow> (string, Request \<Rightarrow> ('w, 'x, reply) http) gomap" where
  "endpoint_specs s =
     [(''/.well-known/oauth-authorization-server'', metadata_spec s), (''/jwks.json'', jwks_spec s),
      (''/oauth/register'', register_spec s), (''/oauth/authorize'', authorize_spec s),
      (''/oauth/consent'', consent_spec s), (''/oauth/consent.css'', style_spec),
      (''/oauth/token'', token_spec s), (''/oauth/revoke'', revoke_spec s)]"

end
