(* ===== verification/Http_Refines.thy ===== *)
theory Http_Refines
  imports Http_Spec
begin

text \<open>
  The handlers implement the meaning of their endpoints: from a writer on which nothing is written,
  a handler acts on the worlds as the specification does and writes exactly its reply.
\<close>

definition simulates ::
  "(ResponseWriter \<Rightarrow> ResponseWriter) \<Rightarrow> ('w, 'x, reply) http \<Rightarrow> ('w, 'x) Exchange \<Rightarrow> unit \<Rightarrow> ('w, 'x) Exchange \<Rightarrow> bool"
where
  "simulates f m x u x' \<longleftrightarrow>
     (\<exists>rep. run_state m (ex_engine x, ex_env x) = (rep, ex_engine x', ex_env x') \<and>
        answered rep (f (ex_writer x)) (ex_writer x'))"

definition implements ::
  "(ResponseWriter \<Rightarrow> ResponseWriter) \<Rightarrow> ('w, 'x, reply) http \<Rightarrow> ('w, 'x) handler \<Rightarrow> bool" where
  "implements f m h \<longleftrightarrow> (\<forall>x. ready (ex_writer x) \<longrightarrow> wp h (simulates f m x) x)"

text \<open>The headers of every reply that no cache may keep.\<close>

definition protect :: "ResponseWriter \<Rightarrow> ResponseWriter" where
  "protect w = w\<lparr>rw_Header := gm_set ''X-Content-Type-Options'' [''nosniff''] (gm_set ''Pragma'' [''no-cache'']
     (gm_set ''Cache-Control'' [''no-store''] (rw_Header w)))\<rparr>"

named_theorems implements_rules

lemma implements_return [implements_rules]:
  fixes h :: "('w, 'x) handler"
  assumes "answers_with rep h"
  shows "implements (\<lambda>w. w) (State_Monad.return rep) h"
  unfolding implements_def
proof (intro allI impI)
  fix x :: "('w, 'x) Exchange"
  assume "ready (ex_writer x)"
  with assms have "wp h (\<lambda>_ x'. ex_engine x' = ex_engine x \<and> ex_env x' = ex_env x \<and>
      answered rep (ex_writer x) (ex_writer x')) x"
    by (simp add: answers_with_def)
  then show "wp h (simulates (\<lambda>w. w) (State_Monad.return rep) x) x"
    by (rule wp_mono) (simp add: simulates_def)
qed

lemma wp_set_headers: "rw_Panic (ex_writer x) = None \<Longrightarrow>
    wp set_headers Q x = Q () (x\<lparr>ex_writer := protect (ex_writer x)\<rparr>)"
  by (simp add: set_headers_def Header_Set_def wp_simps protect_def)

lemma implements_protect [implements_rules]:
  fixes h :: "('w, 'x) handler"
  assumes "implements (\<lambda>w. w) m h"
  shows "implements protect m (do { set_headers; h })"
  unfolding implements_def
proof (intro allI impI)
  fix x :: "('w, 'x) Exchange"
  let ?y = "x\<lparr>ex_writer := protect (ex_writer x)\<rparr>"
  assume r: "ready (ex_writer x)"
  then have "ready (ex_writer ?y)" by (simp add: ready_def protect_def)
  with assms have "wp h (simulates (\<lambda>w. w) m ?y) ?y" by (simp add: implements_def)
  then have "wp h (simulates protect m x) ?y"
    by (rule wp_mono) (simp add: simulates_def)
  with r show "wp (do { set_headers; h }) (simulates protect m x) x"
    by (simp add: wp_simps wp_set_headers ready_def)
qed

lemma implements_on_env [implements_rules]:
  fixes m :: "('x, 'r) state" and h :: "'r \<Rightarrow> ('w, 'x) handler"
  assumes "\<And>r. implements (\<lambda>w. w) (k r) (h r)"
  shows "implements (\<lambda>w. w) (consult m \<bind> k) (on_env m \<bind> h)"
  unfolding implements_def
proof (intro allI impI)
  fix x :: "('w, 'x) Exchange"
  assume r: "ready (ex_writer x)"
  obtain a e where m: "run_state m (ex_env x) = (a, e)" by fastforce
  let ?y = "x\<lparr>ex_env := e\<rparr>"
  from r assms have "wp (h a) (simulates (\<lambda>w. w) (k a) ?y) ?y" by (simp add: implements_def)
  then have "wp (h a) (simulates (\<lambda>w. w) (consult m \<bind> k) x) ?y"
    by (rule wp_mono) (simp add: simulates_def consult_def State_Monad.bind_def m)
  with m show "wp (on_env m \<bind> h) (simulates (\<lambda>w. w) (consult m \<bind> k) x) x"
    by (simp add: wp_simps) (simp add: wp_def)
qed

lemma implements_on_engine:
  fixes m :: "('w, 'r) state" and h :: "'r \<Rightarrow> ('w, 'x) handler"
  assumes "\<And>r. implements (\<lambda>w. w) (k r) (h r)"
  shows "implements (\<lambda>w. w) (fetch m \<bind> k) (on_engine m \<bind> h)"
  unfolding implements_def
proof (intro allI impI)
  fix x :: "('w, 'x) Exchange"
  assume r: "ready (ex_writer x)"
  obtain a e where m: "run_state m (ex_engine x) = (a, e)" by fastforce
  let ?y = "x\<lparr>ex_engine := e\<rparr>"
  from r assms have "wp (h a) (simulates (\<lambda>w. w) (k a) ?y) ?y" by (simp add: implements_def)
  then have "wp (h a) (simulates (\<lambda>w. w) (fetch m \<bind> k) x) ?y"
    by (rule wp_mono) (simp add: simulates_def fetch_def State_Monad.bind_def m)
  with m show "wp (on_engine m \<bind> h) (simulates (\<lambda>w. w) (fetch m \<bind> k) x) x"
    by (simp add: wp_simps) (simp add: wp_def)
qed

text \<open>A request to the engine is the call of its operation.\<close>

lemma ask_fetch:
  assumes "\<And>w. serve e req w = apfst f (run_state m w)"
  shows "ask e req \<bind> k = fetch m \<bind> (\<lambda>r. k (f r))"
  unfolding ask_def fetch_def State_Monad.bind_def
  by (simp add: assms fun_eq_iff split: prod.splits)

text \<open>The two continuations of a call: its error, unless it is a panic, and its result.\<close>

lemma implements_call [implements_rules]:
  assumes "\<And>err. \<nexists>msg. err = GoPanic msg \<Longrightarrow> implements (\<lambda>w. w) (k (Inl err)) (bad err)"
    and "\<And>msg. k (Inl (GoPanic msg)) = State_Monad.return CrashReply"
    and "\<And>y. implements (\<lambda>w. w) (k (Inr y)) (ok y)"
  shows "implements (\<lambda>w. w) (fetch m \<bind> k) (engine_call m bad ok)"
  unfolding engine_call_def
proof (rule implements_on_engine)
  fix r
  show "implements (\<lambda>w. w) (k r)
      (case r of Inr y \<Rightarrow> ok y | Inl (GoPanic msg) \<Rightarrow> panic msg | Inl err \<Rightarrow> bad err)"
  proof (cases r)
    case (Inl err)
    then show ?thesis
      using assms(1) [of err] assms(2) implements_return [OF answers_panic]
      by (cases err) simp_all
  qed (simp add: assms(3))
qed

lemma failure_reply_simps [simp]:
  "failure_reply f (GoPanic msg) = CrashReply"
  "\<nexists>msg. err = GoPanic msg \<Longrightarrow> failure_reply f err = f err"
  by (cases err; simp add: failure_reply_def)+

lemma ask_simps:
  "ask e (RegisterReq ctx i1) \<bind> k = fetch (Engine_RegisterClient e ctx i1) \<bind> (\<lambda>r. k (respond Registered r))"
  "ask e (ValidateRedirectReq cid uri) \<bind> k = fetch (Engine_ValidateRedirect e cid uri) \<bind> (\<lambda>r. k (respond Trusted r))"
  "ask e (BeginReq ctx i2) \<bind> k = fetch (Engine_BeginAuthorization e ctx i2) \<bind> (\<lambda>r. k (respond Begun r))"
  "ask e (LoginReq ctx i3) \<bind> k = fetch (Engine_CompleteLogin e ctx i3) \<bind> (\<lambda>r. k (respond LoggedIn r))"
  "ask e (ConsentViewReq ctx t) \<bind> k = fetch (Engine_ConsentView e ctx t) \<bind> (\<lambda>r. k (respond Viewed r))"
  "ask e (DecideReq ctx i4) \<bind> k = fetch (Engine_DecideConsent e ctx i4) \<bind> (\<lambda>r. k (respond Decided r))"
  "ask e (ExchangeReq ctx i5) \<bind> k = fetch (Engine_ExchangeCode e ctx i5) \<bind> (\<lambda>r. k (respond TokensIssued r))"
  "ask e (RefreshReq ctx i6) \<bind> k = fetch (Engine_Refresh e ctx i6) \<bind> (\<lambda>r. k (respond TokensIssued r))"
  "ask e (RevokeReq ctx i7) \<bind> k = fetch (Engine_Revoke e ctx i7) \<bind> (\<lambda>r. k (revoke_response r))"
  by (rule ask_fetch, simp)+

lemmas answer_rules = implements_return [OF answers_error] implements_return [OF answers_method]
  implements_return [OF answers_writeJSON] implements_return [OF answers_redirect]
  implements_return [OF answers_page] implements_return [OF answers_style]
  implements_return [OF answers_empty]

section \<open>The endpoints\<close>

lemma implements_if [implements_rules]:
  "(b \<Longrightarrow> implements f m h) \<Longrightarrow> (\<not> b \<Longrightarrow> implements f m' h') \<Longrightarrow>
   implements f (if b then m else m') (if b then h else h')"
  by simp

lemma implements_result [implements_rules]:
  "(\<And>err. implements f (m err) (h err)) \<Longrightarrow> (\<And>y. implements f (m' y) (h' y)) \<Longrightarrow>
   implements f (case r of Inl err \<Rightarrow> m err | Inr y \<Rightarrow> m' y) (case r of Inl err \<Rightarrow> h err | Inr y \<Rightarrow> h' y)"
  by (simp split: sum.split)

lemma implements_option [implements_rules]:
  "implements f m h \<Longrightarrow> (\<And>y. implements f (m' y) (h' y)) \<Longrightarrow>
   implements f (case r of None \<Rightarrow> m | Some y \<Rightarrow> m' y) (case r of None \<Rightarrow> h | Some y \<Rightarrow> h' y)"
  by (simp split: option.split)

lemma answers_token: "answers_with (JsonReply 200 (token_json t)) (writeToken t)"
  unfolding writeToken_def token_json_def by (rule answers_writeJSON) simp_all

lemma answers_refusal:
  "answers_with (malformed code description err) (writeOAuthError (invalid_request code description (Some err)))"
  "answers_with (temporary description cause) (writeOAuthError (serverOAuthError ErrorTemporary description 503 cause))"
  unfolding malformed_def temporary_def by (rule answers_error)+

lemmas endpoint_intros = implements_call answer_rules implements_return [OF answers_token]
  implements_return [OF answers_refusal(1)] implements_return [OF answers_refusal(2)]

lemma token_refines: "implements protect (token_spec s r) (token_handler s r)"
  unfolding token_spec_def token_handler_def
  by (rule implements_protect)
    (auto simp: token_request_def ask_simps malformed_def invalid_request_def split: sum.split intro!: endpoint_intros)

lemma metadata_refines:
  "implements (if rq_Method r = ''GET'' then protect else (\<lambda>w. w)) (metadata_spec s r) (metadata_handler s r)"
  unfolding metadata_spec_def metadata_handler_def
  by (auto intro!: implements_protect endpoint_intros)

lemma jwks_refines:
  "implements (if rq_Method r = ''GET'' then protect else (\<lambda>w. w)) (jwks_spec s r) (jwks_handler s r)"
  unfolding jwks_spec_def jwks_handler_def
  by (auto intro!: implements_protect endpoint_intros)

lemma revoke_refines: "implements protect (revoke_spec s r) (revoke_handler s r)"
  unfolding revoke_spec_def revoke_handler_def
  by (rule implements_protect)
    (auto simp: ask_simps revoke_response_def split: sum.split option.split intro!: endpoint_intros implements_on_engine)

lemma style_refines: "implements (\<lambda>w. w) (style_spec r) (consentCSS r)"
  unfolding style_spec_def consentCSS_def by (auto intro!: endpoint_intros)

lemma register_refines:
  "implements (if rq_Method r = ''POST'' then protect else (\<lambda>w. w)) (register_spec s r) (register_handler s r)"
  unfolding register_spec_def register_handler_def
  by (auto simp: registration_refused_def registration_input_def ask_simps malformed_def not_less split: sum.split
      intro!: implements_protect endpoint_intros)

lemma consent_post_refines: "rq_Method r = ''POST'' \<Longrightarrow> implements protect (consent_post_spec s r) (consentPost s r)"
  unfolding consent_post_spec_def consentPost_def
  by (rule implements_protect)
    (auto simp: ask_simps malformed_def split: sum.split option.split intro!: endpoint_intros)

lemma consent_refines: "implements protect (consent_spec s r) (consent_handler s r)"
  unfolding consent_spec_def consent_handler_def
  by (auto simp: ask_simps consentGet_def consent_post_refines intro!: implements_protect endpoint_intros)

lemma callback_refines:
  "implements protect (callback_spec s authenticator r) (IdentityCallbackHandler s authenticator r)"
  unfolding callback_spec_def IdentityCallbackHandler_def
  by (rule implements_protect, rule implements_on_env)
    (auto simp: ask_simps malformed_def serverOAuthError_def invalid_request_def split: sum.split
      intro!: endpoint_intros)

lemma error_redirect_refines:
  "implements (\<lambda>w. w) (State_Monad.return (error_redirect r redirect state_text err))
     (redirectAuthorizationError r redirect state_text err)"
  unfolding error_redirect_def redirectAuthorizationError_def
  by (auto split: option.split intro!: endpoint_intros)

lemma login_failed_refines:
  "implements (\<lambda>w. w) (login_failed_spec s r login cause)
     (redirectLoginError s r login (serverOAuthError ErrorTemporary ''login is unavailable'' 503 cause))"
  unfolding login_failed_spec_def redirectLoginError_def ask_simps
  by (rule implements_call) (auto intro!: error_redirect_refines endpoint_intros)

lemma login_refines: "implements (\<lambda>w. w) (login_spec s r (bar_LoginContext result)) (start_login s r result)"
  unfolding login_spec_def start_login_def
  by (auto split: option.split sum.split intro!: login_failed_refines implements_on_env endpoint_intros)

lemma refused_refines: "implements (\<lambda>w. w) (refused_spec s r query err) (authorize_refused s r query err)"
  unfolding refused_spec_def authorize_refused_def ask_simps
  by (rule implements_call) (auto intro!: error_redirect_refines endpoint_intros)

lemma begun_simps:
  "\<nexists>msg. err = GoPanic msg \<Longrightarrow> begun_spec s r query (Failed err) = refused_spec s r query err"
  "begun_spec s r query (Failed (GoPanic msg)) = State_Monad.return CrashReply"
  "begun_spec s r query (Begun result) = login_spec s r (bar_LoginContext result)"
  by (cases err; simp add: begun_spec_def)+

lemma authorize_refines: "implements protect (authorize_spec s r) (authorize_handler s r)"
  unfolding authorize_spec_def authorize_handler_def ask_simps malformed_def
  by (rule implements_protect)
    (auto simp: begun_simps split: sum.split
      intro!: refused_refines login_refines implements_call endpoint_intros)

section \<open>All endpoints\<close>

text \<open>The replies that no cache may keep: all but the style sheet and, where the method is tested first,
  the refusal of a method.\<close>

definition protects :: "Request \<Rightarrow> ResponseWriter \<Rightarrow> ResponseWriter" where
  "protects r =
     (if rq_Path r = ''/oauth/consent.css'' \<or>
         rq_Path r \<in> {''/.well-known/oauth-authorization-server'', ''/jwks.json''} \<and> rq_Method r \<noteq> ''GET'' \<or>
         rq_Path r = ''/oauth/register'' \<and> rq_Method r \<noteq> ''POST''
      then (\<lambda>w. w) else protect)"

lemma endpoints_refine:
  assumes "gm_get (endpoints s) (rq_Path r) = Some h"
  shows "\<exists>m. gm_get (endpoint_specs s) (rq_Path r) = Some m \<and> implements (protects r) (m r) (h r)"
proof -
  note refines = metadata_refines [of r s] jwks_refines [of r s] register_refines [of r s] authorize_refines [of s r]
    consent_refines [of s r] style_refines [of r] token_refines [of s r] revoke_refines [of s r]
  show ?thesis
    using assms refines by (auto simp: endpoints_def endpoint_specs_def protects_def split: if_splits)
qed

text \<open>A context that names the request changes nothing in which endpoint and headers apply.\<close>

lemma protects_context [simp]: "protects (r\<lparr>rq_Context := c\<rparr>) = protects r"
  by (simp add: protects_def)

section \<open>The middleware\<close>

text \<open>What a mounted endpoint does: the request gets an identifier, the endpoint acts on the worlds, and
  the observer, if there is one, is told the status of the reply.\<close>

definition tagged :: "Request \<Rightarrow> string \<Rightarrow> Request" where
  "tagged r rid = (if rid \<noteq> [] then r\<lparr>rq_Context := WithID (rq_Context r) rid\<rparr> else r)"

definition id_or_empty :: "string result \<Rightarrow> string" where
  "id_or_empty sanitized = (case sanitized of Inl err \<Rightarrow> [] | Inr rid \<Rightarrow> rid)"

fun reply_status :: "reply \<Rightarrow> int" where
  "reply_status (JsonReply status j) = status"
| "reply_status (RedirectReply url) = 302"
| "reply_status (MethodReply allowed) = 405"
| "reply_status CrashReply = 0"
| "reply_status _ = 200"

definition observed_spec ::
  "('x, time) state \<Rightarrow> 'x RequestObserver option \<Rightarrow> Request \<Rightarrow> string \<Rightarrow> ('w, 'x, reply) http \<Rightarrow> ('w, 'x, reply) http"
where
  "observed_spec sysnow observer r rid m =
     (case observer of
        None \<Rightarrow> m
      | Some observe_request \<Rightarrow> do {
          start \<leftarrow> consult sysnow;
          rep \<leftarrow> m;
          (if rep = CrashReply then State_Monad.return rep
           else do {
             end_time \<leftarrow> consult sysnow;
             _ \<leftarrow> consult (observe_request (rq_Context (tagged r rid))
               \<lparr>ro_RequestID = rid, ro_Method = rq_Method r, ro_Path = rq_Path r,
                ro_Status = reply_status rep, ro_Duration = time_Sub end_time start\<rparr>);
             State_Monad.return rep
           })
        })"

definition mounted_spec ::
  "'x entropy \<Rightarrow> ('x, time) state \<Rightarrow> ('w, 'x, 'a) HttpServer \<Rightarrow> (Request \<Rightarrow> ('w, 'x, reply) http) \<Rightarrow> Request \<Rightarrow>
   ('w, 'x, string \<times> reply) http" where
  "mounted_spec rand sysnow s m r = do {
     sanitized \<leftarrow> consult (SanitizeInbound rand (Header_Get (rq_Header r) Correlation_Header));
     let rid = id_or_empty sanitized;
     rep \<leftarrow> observed_spec sysnow (hs_observer s) r rid (m (tagged r rid));
     State_Monad.return (rid, rep)
   }"

definition identified :: "string \<Rightarrow> ResponseWriter \<Rightarrow> ResponseWriter" where
  "identified rid w = w\<lparr>rw_Header := gm_set Correlation_Header [rid] (rw_Header w)\<rparr>"

lemma answered_status: "answered rep w w' \<Longrightarrow> rep \<noteq> CrashReply \<Longrightarrow> response_status w' = reply_status rep"
  by (cases rep) (auto simp: answered_def response_status_def)

lemma answered_panic: "answered rep w w' \<Longrightarrow> rw_Panic w' = None \<longleftrightarrow> rep \<noteq> CrashReply"
  by (auto simp: answered_def split: if_splits)

text \<open>Without its recorder the writer has answered just the same.\<close>

lemma response_recorders [simp]:
  "response_header (w\<lparr>rw_Recorders := ns\<rparr>) = response_header w"
  "response_status (w\<lparr>rw_Recorders := ns\<rparr>) = response_status w"
  by (simp_all add: response_header_def response_status_def split: option.split)

lemma sends_recorders [simp]: "sends rep (w\<lparr>rw_Recorders := ns\<rparr>) = sends rep w"
  by (cases rep) (simp_all add: sent_header_def)

lemma protects_recorders [simp]:
  "protects r (w\<lparr>rw_Recorders := ns\<rparr>) = (protects r w)\<lparr>rw_Recorders := ns\<rparr>"
  "rw_Recorders (protects r w) = rw_Recorders w"
  by (simp_all add: protects_def protect_def)

lemma answered_pop:
  assumes "answered rep (protects r (w\<lparr>rw_Recorders := 200 # rw_Recorders w\<rparr>)) w'" and "rep \<noteq> CrashReply"
  shows "answered rep (protects r w) (w'\<lparr>rw_Recorders := tl (rw_Recorders w')\<rparr>)"
    and "hd (rw_Recorders w') = reply_status rep"
  using assms answered_status [OF assms]
  by (simp_all add: answered_def keeps_headers_def recorded_def)

text \<open>The middleware up to the handler, and what it does after it.\<close>

definition report_request ::
  "('x, time) state \<Rightarrow> 'x RequestObserver \<Rightarrow> Request \<Rightarrow> string \<Rightarrow> time \<Rightarrow> ('w, 'x) Exchange \<Rightarrow> ('w, 'x) handler" where
  "report_request sysnow observe_request r rid start y =
     (if rw_Panic (ex_writer y) \<noteq> None then State_Monad.return ()
      else do {
        end_time \<leftarrow> on_env sysnow;
        on_env (observe_request (rq_Context r)
          \<lparr>ro_RequestID = rid, ro_Method = rq_Method r, ro_Path = rq_Path r,
           ro_Status = hd (rw_Recorders (ex_writer y)), ro_Duration = time_Sub end_time start\<rparr>);
        pop_recorder
      })"

lemma wp_Correlation:
  assumes "rw_Panic (ex_writer x) = None"
    and "run_state (SanitizeInbound rand (Header_Get (rq_Header r) Correlation_Header)) (ex_env x) = (sanitized, e)"
    and "id_or_empty sanitized = rid"
  shows "wp (Correlation rand sysnow h None r) Q x =
      wp (h (tagged r rid)) Q (x\<lparr>ex_env := e, ex_writer := identified rid (ex_writer x)\<rparr>)"
    and "run_state sysnow e = (start, e1) \<Longrightarrow>
      wp (Correlation rand sysnow h (Some observe_request) r) Q x =
      wp (h (tagged r rid)) (\<lambda>_ y. wp (report_request sysnow observe_request (tagged r rid) rid start y) Q y)
        (x\<lparr>ex_env := e1, ex_writer := (identified rid (ex_writer x))\<lparr>rw_Recorders := 200 # rw_Recorders (ex_writer x)\<rparr>\<rparr>)"
proof -
  have san: "wp (SanitizeInbound rand (Header_Get (rq_Header r) Correlation_Header)) P (ex_env x) = P sanitized e" for P
    by (simp add: wp_def assms(2))
  note folds = id_or_empty_def [symmetric] tagged_def [symmetric] report_request_def [symmetric]
  show "wp (Correlation rand sysnow h None r) Q x =
      wp (h (tagged r rid)) Q (x\<lparr>ex_env := e, ex_writer := identified rid (ex_writer x)\<rparr>)"
    unfolding Correlation_def Header_Set_def Let_def folds
    by (simp add: wp_bind wp_on_env wp_on_writer san assms(1,3) identified_def)
  assume "run_state sysnow e = (start, e1)"
  then have now: "wp sysnow P e = P start e1" for P by (simp add: wp_def)
  show "wp (Correlation rand sysnow h (Some observe_request) r) Q x =
      wp (h (tagged r rid)) (\<lambda>_ y. wp (report_request sysnow observe_request (tagged r rid) rid start y) Q y)
        (x\<lparr>ex_env := e1, ex_writer := (identified rid (ex_writer x))\<lparr>rw_Recorders := 200 # rw_Recorders (ex_writer x)\<rparr>\<rparr>)"
    unfolding Correlation_def Header_Set_def Let_def push_recorder_def folds
    by (simp add: wp_bind wp_get wp_on_env wp_on_writer san now assms(1,3) identified_def)
qed

lemma correlation_refines:
  fixes h :: "Request \<Rightarrow> ('w, 'x) handler"
  assumes impl: "\<And>rid. implements (protects r) (m (tagged r rid)) (h (tagged r rid))"
    and "ready (ex_writer x)"
  shows "wp (correlated rand sysnow s h r) (\<lambda>_ x'. \<exists>rid rep.
    run_state (mounted_spec rand sysnow s m r) (ex_engine x, ex_env x) = ((rid, rep), ex_engine x', ex_env x') \<and>
    (rep = CrashReply \<and> rw_Panic (ex_writer x') \<noteq> None \<or>
     answered rep (protects r (identified rid (ex_writer x))) (ex_writer x'))) x"
proof -
  let ?inbound = "SanitizeInbound rand (Header_Get (rq_Header r) Correlation_Header)"
  obtain sanitized e where san: "run_state ?inbound (ex_env x) = (sanitized, e)" by fastforce
  define rid where "rid = id_or_empty sanitized"
  let ?w = "identified rid (ex_writer x)"
  have ready: "ready ?w" "ready (?w\<lparr>rw_Recorders := 200 # rw_Recorders ?w\<rparr>)"
    using assms(2) by (simp_all add: ready_def identified_def)
  show ?thesis
  proof (cases "hs_observer s")
    case None
    let ?x = "x\<lparr>ex_env := e, ex_writer := ?w\<rparr>"
    have "wp (h (tagged r rid)) (simulates (protects r) (m (tagged r rid)) ?x) ?x"
      using impl [of rid] ready(1) by (simp add: implements_def)
    moreover have "run_state (mounted_spec rand sysnow s m r) (ex_engine x, ex_env x) =
        (case run_state (m (tagged r rid)) (ex_engine x, e) of (rep, y) \<Rightarrow> ((rid, rep), y))"
      by (simp add: mounted_spec_def observed_spec_def None consult_def san State_Monad.bind_def rid_def Let_def
          split: prod.split)
    ultimately have "wp (h (tagged r rid)) (\<lambda>_ x'. \<exists>rid rep.
        run_state (mounted_spec rand sysnow s m r) (ex_engine x, ex_env x) = ((rid, rep), ex_engine x', ex_env x') \<and>
        (rep = CrashReply \<and> rw_Panic (ex_writer x') \<noteq> None \<or>
         answered rep (protects r (identified rid (ex_writer x))) (ex_writer x'))) ?x"
      by (elim wp_mono) (auto simp: simulates_def)
    then show ?thesis
      using assms(2) unfolding correlated_def None
      by (subst wp_Correlation(1) [OF _ san rid_def [symmetric]]) (simp_all add: ready_def)
  next
    case (Some observe_request)
    obtain start e1 where start: "run_state sysnow e = (start, e1)" by fastforce
    let ?w2 = "?w\<lparr>rw_Recorders := 200 # rw_Recorders ?w\<rparr>"
    let ?x = "x\<lparr>ex_env := e1, ex_writer := ?w2\<rparr>"
    have h: "wp (h (tagged r rid)) (simulates (protects r) (m (tagged r rid)) ?x) ?x"
      using impl [of rid] ready(2) by (simp add: implements_def)
    let ?report = "report_request sysnow observe_request (tagged r rid) rid start"
    let ?Q = "\<lambda>x'. \<exists>rid rep.
      run_state (mounted_spec rand sysnow s m r) (ex_engine x, ex_env x) = ((rid, rep), ex_engine x', ex_env x') \<and>
      (rep = CrashReply \<and> rw_Panic (ex_writer x') \<noteq> None \<or>
       answered rep (protects r (identified rid (ex_writer x))) (ex_writer x'))"
    have tag: "rq_Method (tagged r rid) = rq_Method r" "rq_Path (tagged r rid) = rq_Path r"
      by (simp_all add: tagged_def)
    have report: "wp (?report y) (\<lambda>_. ?Q) y" if "simulates (protects r) (m (tagged r rid)) ?x () y" for y
    proof -
      from that obtain rep where rep: "run_state (m (tagged r rid)) (ex_engine x, e1) = (rep, ex_engine y, ex_env y)"
        "answered rep ((protects r ?w)\<lparr>rw_Recorders := 200 # rw_Recorders ?w\<rparr>) (ex_writer y)"
        by (auto simp: simulates_def)
      show ?thesis
      proof (cases "rep = CrashReply")
        case True
        then show ?thesis
          using rep answered_panic [OF rep(2)]
          by (auto simp: report_request_def wp_simps mounted_spec_def observed_spec_def Some consult_def san State_Monad.bind_def
              rid_def [symmetric] Let_def start)
      next
        case False
        obtain t1 e2 where t1: "run_state sysnow (ex_env y) = (t1, e2)" by fastforce
        let ?ob = "\<lparr>ro_RequestID = rid, ro_Method = rq_Method r, ro_Path = rq_Path r, ro_Status = reply_status rep,
          ro_Duration = time_Sub t1 start\<rparr>"
        obtain e3 where u: "run_state (observe_request (rq_Context (tagged r rid)) ?ob) e2 = ((), e3)"
          by (cases "run_state (observe_request (rq_Context (tagged r rid)) ?ob) e2") simp
        have "run_state (mounted_spec rand sysnow s m r) (ex_engine x, ex_env x) = ((rid, rep), ex_engine y, e3)"
          using rep(1) False
          by (simp add: mounted_spec_def observed_spec_def Some consult_def san State_Monad.bind_def
              rid_def [symmetric] Let_def start t1 u)
        moreover have "rw_Panic (ex_writer y) = None" using answered_panic [OF rep(2)] False by simp
        moreover have "answered rep (protects r ?w) ((ex_writer y)\<lparr>rw_Recorders := tl (rw_Recorders (ex_writer y))\<rparr>)"
          "hd (rw_Recorders (ex_writer y)) = reply_status rep"
          using answered_pop [of rep r ?w "ex_writer y"] rep(2) False by simp_all
        ultimately show ?thesis
          by (simp add: report_request_def wp_simps tag pop_recorder_def) (simp add: wp_def t1 u)
      qed
    qed
    have "wp (h (tagged r rid)) (\<lambda>_ y. wp (?report y) (\<lambda>_. ?Q) y) ?x"
      by (rule wp_mono [OF h]) (use report in simp)
    then show ?thesis
      using ready(1) unfolding correlated_def Some
      by (subst wp_Correlation(2) [OF _ san rid_def [symmetric] start]) (simp_all add: ready_def identified_def)
  qed
qed

end
