(* ===== verification/Http_System.thy ===== *)
theory Http_System
  imports Http_Refines Engine_Invariants
begin

text \<open>
  The HTTP server as a system that serves a sequence of requests, on an engine whose dependencies
  keep their contracts.  Every HTTP request is at most two requests to the engine, and its reply
  accounts for their answers; so what holds of the engine along every sequence of requests holds
  of the server along every sequence of HTTP requests.
\<close>

section \<open>The system\<close>

text \<open>A request to a mounted endpoint, or one that the application's login callback handles.\<close>

datatype web_event = Endpoint Request | Callback Request

definition run_handler :: "('w, 'x) handler \<Rightarrow> 'w \<times> 'x \<Rightarrow> ResponseWriter \<times> ('w \<times> 'x)" where
  "run_handler h y =
     (let x = snd (run_state h \<lparr>ex_engine = fst y, ex_env = snd y, ex_writer = new_writer\<rparr>)
      in (ex_writer x, (ex_engine x, ex_env x)))"

fun http_call ::
  "'x entropy \<Rightarrow> ('x, time) state \<Rightarrow> ('w, 'x, 'a) HttpServer \<Rightarrow> ('x, 'a) CallbackAuthenticator \<Rightarrow>
   web_event \<Rightarrow> 'w \<times> 'x \<Rightarrow> ResponseWriter \<times> ('w \<times> 'x)" where
  "http_call rand sysnow s authenticator (Endpoint r) y =
     (case gm_get (Mount rand sysnow s) (rq_Path r) of
        None \<Rightarrow> (send_status 404 new_writer, y)
      | Some h \<Rightarrow> run_handler (h r) y)"
| "http_call rand sysnow s authenticator (Callback r) y = run_handler (IdentityCallbackHandler s authenticator r) y"

text \<open>The response with the events that the request produced.\<close>

definition http_served ::
  "'x entropy \<Rightarrow> ('x, time) state \<Rightarrow> ('w, 'x, 'a) HttpServer \<Rightarrow> ('x, 'a) CallbackAuthenticator \<Rightarrow> ('w, 'a) Ghost \<Rightarrow>
   web_event \<Rightarrow> 'w \<times> 'x \<Rightarrow> (ResponseWriter \<times> 'a observation list) \<times> ('w \<times> 'x)" where
  "http_served rand sysnow s authenticator g ev y =
     (case http_call rand sysnow s authenticator ev y of
        (resp, y') \<Rightarrow> ((resp, drop (length (gh_obs g (fst y))) (gh_obs g (fst y'))), y'))"

section \<open>Which requests the engine gets\<close>

definition token_form :: "HTTPPolicy \<Rightarrow> Request \<Rightarrow> url_Values option" where
  "token_form policy r =
     (if rq_Path r = ''/oauth/token'' \<and> rq_Method r = ''POST''
      then (case parseForm policy r [] of Inl _ \<Rightarrow> None | Inr form \<Rightarrow> Some form) else None)"

definition consent_form :: "HTTPPolicy \<Rightarrow> Request \<Rightarrow> url_Values option" where
  "consent_form policy r =
     (if rq_Path r = ''/oauth/consent'' \<and> rq_Method r = ''POST''
      then (case parseForm policy r [''scope''] of Inl _ \<Rightarrow> None | Inr form \<Rightarrow> Some form) else None)"

definition whenever_some :: "('b \<Rightarrow> bool) \<Rightarrow> 'b option \<Rightarrow> bool" where
  "whenever_some P v = (case v of None \<Rightarrow> False | Some y \<Rightarrow> P y)"

lemma whenever_some_iff [simp]: "whenever_some P v \<longleftrightarrow> (\<exists>y. v = Some y \<and> P y)"
  by (simp add: whenever_some_def split: option.split)

text \<open>What the engine is asked at an endpoint, with the fields of the input that credentials and
  decisions travel in.\<close>

fun asks :: "HTTPPolicy \<Rightarrow> web_event \<Rightarrow> 'a request \<Rightarrow> bool" where
  "asks policy (Endpoint r) (ExchangeReq ctx inp) =
     whenever_some (\<lambda>form. Values_Get form ''grant_type'' = ''authorization_code'' \<and> inp = exchange_input form)
       (token_form policy r)"
| "asks policy (Endpoint r) (RefreshReq ctx inp) =
     whenever_some (\<lambda>form. Values_Get form ''grant_type'' = ''refresh_token'' \<and> inp = refresh_input form)
       (token_form policy r)"
| "asks policy (Endpoint r) (DecideReq ctx inp) =
     whenever_some (\<lambda>form. dci_Token inp = Values_Get form ''token'' \<and>
       form_decision form = Some (dci_Decision inp) \<and> dci_SelectedScopes inp = form_values form ''scope'')
       (consent_form policy r)"
| "asks policy (Endpoint r) (ConsentViewReq ctx token) =
     (rq_Path r = ''/oauth/consent'' \<and> rq_Method r = ''GET'' \<and> token = Values_Get (parse_query (rq_RawQuery r)) ''token'')"
| "asks policy (Endpoint r) (RegisterReq ctx inp) =
     (rq_Path r = ''/oauth/register'' \<and> rq_Method r = ''POST'' \<and>
      (case decodeRegistrationJSON policy r of
         Inl _ \<Rightarrow> False
       | Inr request \<Rightarrow> registration_refused policy request = None \<and> inp = registration_input request))"
| "asks policy (Endpoint r) (BeginReq ctx inp) =
     (rq_Path r = ''/oauth/authorize'' \<and> rq_Method r = ''GET'' \<and> inp = authorize_input (parse_query (rq_RawQuery r)) \<and>
      list_all (query_in_limits policy) (parse_query (rq_RawQuery r)))"
| "asks policy (Endpoint r) (ValidateRedirectReq cid uri) = (rq_Path r = ''/oauth/authorize'' \<and> rq_Method r = ''GET'')"
| "asks policy (Endpoint r) (RevokeReq ctx inp) =
     (rq_Path r = ''/oauth/revoke'' \<and> rq_Method r = ''POST'' \<and>
      (case parseForm policy r [] of
         Inl _ \<Rightarrow> False
       | Inr form \<Rightarrow> inp = \<lparr>rvi_Token = Values_Get form ''token'', rvi_ClientID = Values_Get form ''client_id''\<rparr>))"
| "asks policy (Callback r) (LoginReq ctx inp) = True"
| "asks policy _ _ = False"

text \<open>The answers that a request can get.\<close>

fun replies_to :: "'a request \<Rightarrow> response \<Rightarrow> bool" where
  "replies_to req (Failed err) = (\<not> is_panic err \<and> (hands_on req \<or> public_error err))"
| "replies_to (RegisterReq ctx inp) (Registered c) = True"
| "replies_to (ValidateRedirectReq cid uri) (Trusted redirect) = True"
| "replies_to (BeginReq ctx inp) (Begun result) = True"
| "replies_to (LoginReq ctx inp) (LoggedIn result) = True"
| "replies_to (ConsentViewReq ctx token) (Viewed view) = True"
| "replies_to (DecideReq ctx inp) (Decided result) = True"
| "replies_to (ExchangeReq ctx inp) (TokensIssued tok) = True"
| "replies_to (RefreshReq ctx inp) (TokensIssued tok) = True"
| "replies_to (RevokeReq ctx inp) Revoked = True"
| "replies_to _ _ = False"

type_synonym 'a engine_log = "('a request \<times> response \<times> 'a observation list) list"

text \<open>A reply is no panic; a JSON reply is a success, or an error object whose code fits its status.\<close>

definition proper_reply :: "reply \<Rightarrow> bool" where
  "proper_reply rep \<longleftrightarrow> rep \<noteq> CrashReply \<and>
     (\<forall>status j. rep = JsonReply status j \<longrightarrow> status = 200 \<or> status = 201 \<or>
        (\<exists>code description. j = error_json code description \<and>
           status = (if code = ErrorTemporary then 503 else 400)))"

lemma proper_reply_simps [simp]:
  "\<not> proper_reply CrashReply" "proper_reply (RedirectReply url)" "proper_reply (MethodReply allowed)"
  "proper_reply (PageReply view)" "proper_reply StyleReply" "proper_reply EmptyReply"
  "proper_reply (JsonReply 200 j)" "proper_reply (JsonReply 201 j)"
  "code \<noteq> ErrorTemporary \<Longrightarrow> proper_reply (JsonReply 400 (error_json code description))"
  "proper_reply (JsonReply 503 (error_json ErrorTemporary description))"
  by (auto simp: proper_reply_def)

text \<open>A refusal in a JSON object, with the status of its code.\<close>

definition error_shown :: "reply \<Rightarrow> bool" where
  "error_shown rep \<longleftrightarrow> (\<exists>code description.
     rep = JsonReply (if code = ErrorTemporary then 503 else 400) (error_json code description))"

text \<open>The endpoints, with the status of a success per method.\<close>

definition routes :: "(string, (string, int) gomap) gomap" where
  "routes =
     [(''/.well-known/oauth-authorization-server'', [(''GET'', 200)]), (''/jwks.json'', [(''GET'', 200)]),
      (''/oauth/register'', [(''POST'', 201)]), (''/oauth/authorize'', [(''GET'', 302)]),
      (''/oauth/consent'', [(''GET'', 200), (''POST'', 302)]), (''/oauth/consent.css'', [(''GET'', 200)]),
      (''/oauth/token'', [(''POST'', 200)]), (''/oauth/revoke'', [(''POST'', 200)])]"

text \<open>An endpoint refuses every method but its own, and names these; it answers its own with the status
  of a success or with a JSON error.  A callback redirects or fails.\<close>

fun conforms :: "web_event \<Rightarrow> reply \<Rightarrow> bool" where
  "conforms (Endpoint r) rep =
     whenever_some (\<lambda>methods. case gm_get methods (rq_Method r) of
         None \<Rightarrow> rep = MethodReply (Join (gm_keys methods) '', '')
       | Some status \<Rightarrow> reply_status rep = status \<or> error_shown rep)
       (gm_get routes (rq_Path r))"
| "conforms (Callback r) rep = (reply_status rep = 302 \<or> error_shown rep)"

text \<open>The reply that renders the answer to the one request that an endpoint makes.\<close>

definition error_object :: "go_error \<Rightarrow> reply" where
  "error_object err =
     (case public_view ''service is temporarily unavailable'' err of
        (code, description, status) \<Rightarrow> JsonReply status (error_json code description))"

fun rendered :: "Request \<Rightarrow> 'a request \<Rightarrow> response \<Rightarrow> reply" where
  "rendered r (RevokeReq ctx inp) (Failed err) =
     JsonReply 503 (error_json ErrorTemporary ''revocation unavailable'')"
| "rendered r req (Failed err) = error_object err"
| "rendered r req (Registered c) = JsonReply 201 (registration_json c)"
| "rendered r req (LoggedIn result) = RedirectReply (redirect_target r (clr_ConsentURL result))"
| "rendered r req (Viewed view) = PageReply view"
| "rendered r req (Decided result) = RedirectReply (redirect_target r (dcr_RedirectURI result))"
| "rendered r req (TokensIssued t) = JsonReply 200 (token_json t)"
| "rendered r req Revoked = EmptyReply"
| "rendered r req _ = CrashReply"

text \<open>An error that the authorization endpoint reports: to the redirect URI if the engine trusts it, and
  otherwise to the browser.\<close>

definition error_returned :: "Request \<Rightarrow> string \<Rightarrow> go_error \<Rightarrow> response \<Rightarrow> reply \<Rightarrow> bool" where
  "error_returned r state_text err resp rep \<longleftrightarrow> rep = error_object err \<or>
     (\<exists>t dest. resp = Trusted t \<and> error_destination (tr_uri t) state_text err = Some dest \<and>
        rep = RedirectReply (redirect_target r dest))"

definition authorize_accounts :: "Request \<Rightarrow> reply \<Rightarrow> 'a engine_log \<Rightarrow> bool" where
  "authorize_accounts r rep log \<longleftrightarrow>
     log = [] \<and> reply_status rep \<noteq> 302 \<or>
     (\<exists>ctx inp res xs. log = [(BeginReq ctx inp, Begun res, xs)] \<and> reply_status rep = 302) \<or>
     (\<exists>ctx inp err xs resp ys.
        log = [(BeginReq ctx inp, Failed err, xs),
          (ValidateRedirectReq (bai_ClientID inp) (bai_RedirectURI inp), resp, ys)] \<and>
        error_returned r (bai_State inp) err resp rep \<and> (bai_State inp = [] \<longrightarrow> rep = error_object err)) \<or>
     (\<exists>ctx inp res login xs resp ys cause.
        log = [(BeginReq ctx inp, Begun res, xs),
          (ValidateRedirectReq (lc_ClientID login) (lc_RedirectURI login), resp, ys)] \<and>
        login = bar_LoginContext res \<and>
        error_returned r (lc_State login) (serverOAuthError ErrorTemporary ''login is unavailable'' 503 cause) resp rep)"

text \<open>A reply accounts for the answers of the engine; without one it is a refusal, unless the endpoint
  serves a document.\<close>

definition serves_document :: "web_event \<Rightarrow> bool" where
  "serves_document ev \<longleftrightarrow>
     (\<exists>r. ev = Endpoint r \<and> rq_Path r \<in>
        {''/.well-known/oauth-authorization-server'', ''/jwks.json'', ''/oauth/consent.css''})"

definition event_request :: "web_event \<Rightarrow> Request" where
  "event_request ev = (case ev of Endpoint r \<Rightarrow> r | Callback r \<Rightarrow> r)"

definition accounts :: "web_event \<Rightarrow> reply \<Rightarrow> 'a engine_log \<Rightarrow> bool" where
  "accounts ev rep log \<longleftrightarrow>
     (if \<exists>r. ev = Endpoint r \<and> rq_Path r = ''/oauth/authorize''
      then authorize_accounts (event_request ev) rep log
      else
        log = [] \<and> (serves_document ev \<or> error_shown rep \<or> (\<exists>allowed. rep = MethodReply allowed)) \<or>
        (\<exists>req resp xs. log = [(req, resp, xs)] \<and> rep = rendered (event_request ev) req resp))"

text \<open>What the engine recorded about an answer.\<close>

definition heard :: "response \<Rightarrow> 'a observation list \<Rightarrow> bool" where
  "heard resp xs \<longleftrightarrow> (\<exists>err. resp = Failed err) \<or> list_all (\<lambda>x. \<not> reports_refusal x) xs"

lemma heard_Failed [simp]: "heard (Failed err) xs"
  by (simp add: heard_def)

definition faithful :: "HTTPPolicy \<Rightarrow> web_event \<Rightarrow> reply \<Rightarrow> 'a engine_log \<Rightarrow> bool" where
  "faithful policy ev rep log \<longleftrightarrow>
     proper_reply rep \<and> conforms ev rep \<and> accounts ev rep log \<and> length log \<le> 2 \<and>
     list_all (\<lambda>(req, resp, xs). asks policy ev req \<and> replies_to req resp \<and> heard resp xs) log"

text \<open>A response accounts for the requests that the engine got; an unknown path is not found.\<close>

definition outcome :: "HTTPPolicy \<Rightarrow> web_event \<Rightarrow> ResponseWriter \<Rightarrow> 'a engine_log \<Rightarrow> bool" where
  "outcome policy ev wr log \<longleftrightarrow> rw_Panic wr = None \<and>
     ((\<exists>rep. faithful policy ev rep log \<and> sends rep wr \<and> response_status wr = reply_status rep) \<or>
      log = [] \<and> response_status wr = 404 \<and> (\<exists>r. ev = Endpoint r \<and> gm_get routes (rq_Path r) = None))"

section \<open>Runs of the engine\<close>

text \<open>The requests that one HTTP request makes, between reads that change nothing the contracts speak of.\<close>

inductive drives :: "('w, 'a) Engine \<Rightarrow> ('w, 'a) Ghost \<Rightarrow> 'w \<Rightarrow> 'a engine_log \<Rightarrow> 'w \<Rightarrow> bool"
  for e :: "('w, 'a) Engine" and g :: "('w, 'a) Ghost" where
  drives_done: "drives e g w [] w"
| drives_read: "logs g [] w w1 \<Longrightarrow> drives e g w1 log w' \<Longrightarrow> drives e g w log w'"
| drives_serve: "served e g req w = ((resp, xs), w1) \<Longrightarrow> drives e g w1 log w' \<Longrightarrow>
    drives e g w ((req, resp, xs) # log) w'"

inductive_cases drives_ConsE: "drives e g w ((req, resp, xs) # log) w'"

text \<open>What the engine relies on, and the two reads that only the transport makes.\<close>

locale http_world = engine_world "hs_engine s" g
  for s :: "('w, 'x, 'a) HttpServer" and g :: "('w, 'a) Ghost" +
  assumes list_resources: "observes g (resources_List (hs_resources s) ctx) (\<lambda>_. []) unpanicked"
    and key_set: "observes g (tokens_JWKS (hs_tokens s) ctx) (\<lambda>_. []) unpanicked"
begin

lemma drives_orderly: "drives (hs_engine s) g w log w' \<Longrightarrow> orderly w \<Longrightarrow> orderly w'"
  by (induction rule: drives.induct)
    (auto simp: orderly_def logs_def dest: served_orderly [unfolded orderly_def, rotated])

lemma drives_obs:
  assumes "drives (hs_engine s) g w log w'" and "orderly w"
  shows "gh_obs g w' = gh_obs g w @ concat (map (\<lambda>(req, resp, xs). xs) log)"
  using assms
proof (induction rule: drives.induct)
  case (drives_read w w1 log w')
  then have "orderly w1" by (simp add: orderly_def logs_def)
  with drives_read show ?case by (simp add: logs_def)
next
  case (drives_serve req w resp xs w1 log w')
  obtain l where "acts g policy xs l w w1"
    using served_proper [OF drives_serve.hyps(1)] drives_serve.prems by (auto simp: orderly_def)
  with drives_serve served_orderly [OF drives_serve.prems drives_serve.hyps(1)] show ?case
    by (simp add: acts_obs)
qed simp

text \<open>Codes and grants come alive only by a request that mints them.\<close>

lemma drives_code:
  assumes "drives (hs_engine s) g w log w'" and "orderly w" and "code_live (gh_view g w') d"
  shows "code_live (gh_view g w) d \<or> (\<exists>(req, r) \<in> set log. mints_code d req r)"
  using assms
proof (induction rule: drives.induct)
  case (drives_read w w1 log w')
  then have "orderly w1" by (simp add: orderly_def logs_def)
  with drives_read show ?case by (simp add: logs_def)
next
  case (drives_serve req w resp xs w1 log w')
  then have "code_live (gh_view g w1) d \<or> (\<exists>(req, r) \<in> set log. mints_code d req r)"
    using served_orderly [OF drives_serve.prems(1) drives_serve.hyps(1)] by blast
  moreover have "sound w" using drives_serve.prems(1) by (simp add: orderly_def sound_def)
  ultimately show ?case using served_code_issue [OF _ drives_serve.hyps(1)] by auto
qed simp

lemma drives_grant:
  assumes "drives (hs_engine s) g w log w'" and "orderly w" and "grant_live (gh_view g w') d"
  shows "grant_live (gh_view g w) d \<or> (\<exists>(req, r) \<in> set log. mints_grant d req r)"
  using assms
proof (induction rule: drives.induct)
  case (drives_read w w1 log w')
  then have "orderly w1" by (simp add: orderly_def logs_def)
  with drives_read show ?case by (simp add: logs_def)
next
  case (drives_serve req w resp xs w1 log w')
  then have "grant_live (gh_view g w1) d \<or> (\<exists>(req, r) \<in> set log. mints_grant d req r)"
    using served_orderly [OF drives_serve.prems(1) drives_serve.hyps(1)] by blast
  moreover have "sound w" using drives_serve.prems(1) by (simp add: orderly_def sound_def)
  ultimately show ?case using served_grant_issue [OF _ drives_serve.hyps(1)] by auto
qed simp

lemma drives_none_view: "drives (hs_engine s) g w log w' \<Longrightarrow> log = [] \<Longrightarrow> gh_view g w' = gh_view g w"
  by (induction rule: drives.induct) (simp_all add: logs_def)

lemma drives_single:
  assumes "drives (hs_engine s) g w log w'" and "log = [(req, r)]" and "orderly w"
  shows "redeems_code d req r \<Longrightarrow> code_live (gh_view g w) d \<and> \<not> code_live (gh_view g w') d"
    and "redeems_grant d req r \<Longrightarrow> grant_live (gh_view g w) d \<and> \<not> grant_live (gh_view g w') d"
  using assms
proof (induction rule: drives.induct)
  case (drives_read w w1 log w')
  {
    case 1
    from 1(3) drives_read.hyps(1) have "orderly w1" by (simp add: orderly_def logs_def)
    with 1 drives_read show ?case by (simp add: logs_def)
  next
    case 2
    from 2(3) drives_read.hyps(1) have "orderly w1" by (simp add: orderly_def logs_def)
    with 2 drives_read show ?case by (simp add: logs_def)
  }
next
  case (drives_serve req' w resp xs w1 log w')
  {
    case 1
    then have "sound w" by (simp add: orderly_def sound_def)
    with served_spend(1) [OF this drives_serve.hyps(1), of d] drives_none_view [OF drives_serve.hyps(2)] 1
    show ?case by simp
  next
    case 2
    then have "sound w" by (simp add: orderly_def sound_def)
    with served_spend(2) [OF this drives_serve.hyps(1), of d] drives_none_view [OF drives_serve.hyps(2)] 2
    show ?case by simp
  }
qed simp_all

section \<open>Answers\<close>

lemma served_replies:
  assumes "orderly w" and "served (hs_engine s) g req w = ((resp, xs), w')"
  shows "replies_to req resp"
proof (cases "\<exists>err. resp = Failed err")
  case False
  with assms(2) show ?thesis
    by (cases req) (auto simp: served_def respond_def revoke_response_def apfst_def map_prod_def
        split: prod.splits sum.splits option.splits)
next
  case True
  then obtain err where err: "resp = Failed err" by blast
  obtain log where "proper req resp xs log" using served_proper [OF assms(2)] assms(1) by (auto simp: orderly_def)
  with err served_unpanicked assms show ?thesis by (auto simp: proper_def orderly_def)
qed

lemma served_heard:
  assumes "orderly w" and "served (hs_engine s) g req w = ((resp, xs), w')"
  shows "heard resp xs"
  using served_proper [OF assms(2)] assms(1) by (auto simp: orderly_def proper_def heard_def)

section \<open>What an endpoint asks\<close>

definition leads :: "(reply \<Rightarrow> 'a engine_log \<Rightarrow> bool) \<Rightarrow> ('w, 'x, reply) http \<Rightarrow> bool" where
  "leads Q m \<longleftrightarrow> (\<forall>w x. orderly w \<longrightarrow>
     wp m (\<lambda>rep y. \<exists>log. drives (hs_engine s) g w log (fst y) \<and> Q rep log) (w, x))"

lemma leadsD:
  assumes "leads Q m" and "orderly w" and "run_state m (w, x) = (rep, (w', x'))"
  shows "\<exists>log. drives (hs_engine s) g w log w' \<and> Q rep log"
proof -
  have "wp m (\<lambda>rep y. \<exists>log. drives (hs_engine s) g w log (fst y) \<and> Q rep log) (w, x)"
    using assms(1,2) by (simp add: leads_def)
  from wpD [OF this assms(3)] show ?thesis by simp
qed

lemma leads_return: "Q rep [] \<Longrightarrow> leads Q (State_Monad.return rep)"
  by (auto simp: leads_def wp_simps intro: drives_done)

lemma leads_consult:
  assumes "\<And>a x. a = fst (run_state m x) \<Longrightarrow> leads Q (k a)"
  shows "leads Q (consult m \<bind> k)"
  unfolding leads_def
proof (intro allI impI)
  fix w and x :: 'x
  assume w: "orderly w"
  obtain a x1 where m: "run_state m x = (a, x1)" by fastforce
  from assms [of a x] m w have "wp (k a) (\<lambda>rep y. \<exists>log. drives (hs_engine s) g w log (fst y) \<and> Q rep log) (w, x1)"
    by (simp add: leads_def)
  with m show "wp (consult m \<bind> k) (\<lambda>rep y. \<exists>log. drives (hs_engine s) g w log (fst y) \<and> Q rep log) (w, x)"
    by (simp add: wp_simps consult_def) (simp add: wp_def)
qed

lemma leads_fetch:
  assumes "observes g m (\<lambda>_. []) P" and "\<And>a. P a \<Longrightarrow> leads Q (k a)"
  shows "leads Q (fetch m \<bind> k)"
  unfolding leads_def
proof (intro allI impI)
  fix w and x :: 'x
  assume w: "orderly w"
  obtain a w1 where m: "run_state m w = (a, w1)" by fastforce
  with assms(1) w have logs: "logs g [] w w1" "P a"
    by (auto simp: observes_def orderly_def wp_def split: prod.splits)
  with w have "orderly w1" by (simp add: orderly_def logs_def)
  with assms(2) [OF logs(2)] have "wp (k a) (\<lambda>rep y. \<exists>log. drives (hs_engine s) g w1 log (fst y) \<and> Q rep log) (w1, x)"
    by (simp add: leads_def)
  then have "wp (k a) (\<lambda>rep y. \<exists>log. drives (hs_engine s) g w log (fst y) \<and> Q rep log) (w1, x)"
    by (rule wp_mono) (blast intro: drives_read [OF logs(1)])
  with m show "wp (fetch m \<bind> k) (\<lambda>rep y. \<exists>log. drives (hs_engine s) g w log (fst y) \<and> Q rep log) (w, x)"
    by (simp add: wp_simps fetch_def) (simp add: wp_def)
qed

lemma leads_ask:
  assumes "\<And>resp xs. replies_to req resp \<Longrightarrow> heard resp xs \<Longrightarrow>
    leads (\<lambda>rep log. Q rep ((req, resp, xs) # log)) (k resp)"
  shows "leads Q (ask (hs_engine s) req \<bind> k)"
  unfolding leads_def
proof (intro allI impI)
  fix w and x :: 'x
  assume w: "orderly w"
  obtain resp xs w1 where r: "served (hs_engine s) g req w = ((resp, xs), w1)" by (metis prod.exhaust)
  then have "run_state (ask (hs_engine s) req) (w, x) = (resp, (w1, x))"
    by (simp add: served_def ask_def split: prod.splits)
  moreover have "wp (k resp) (\<lambda>rep y. \<exists>log. drives (hs_engine s) g w log (fst y) \<and> Q rep log) (w1, x)"
  proof (rule wp_mono)
    show "wp (k resp) (\<lambda>rep y. \<exists>log. drives (hs_engine s) g w1 log (fst y) \<and> Q rep ((req, resp, xs) # log)) (w1, x)"
      using assms [OF served_replies [OF w r] served_heard [OF w r]] served_orderly [OF w r] by (simp add: leads_def)
  qed (blast intro: drives_serve [OF r])
  ultimately show "wp (ask (hs_engine s) req \<bind> k)
      (\<lambda>rep y. \<exists>log. drives (hs_engine s) g w log (fst y) \<and> Q rep log) (w, x)"
    by (simp add: wp_simps) (simp add: wp_def)
qed

lemma leads_if: "(b \<Longrightarrow> leads Q m) \<Longrightarrow> (\<not> b \<Longrightarrow> leads Q m') \<Longrightarrow> leads Q (if b then m else m')"
  by simp

lemma leads_result:
  "(\<And>err. v = Inl err \<Longrightarrow> leads Q (m err)) \<Longrightarrow> (\<And>y. v = Inr y \<Longrightarrow> leads Q (m' y)) \<Longrightarrow>
   leads Q (case v of Inl err \<Rightarrow> m err | Inr y \<Rightarrow> m' y)"
  by (simp split: sum.split)

lemma leads_option:
  "(v = None \<Longrightarrow> leads Q m) \<Longrightarrow> (\<And>y. v = Some y \<Longrightarrow> leads Q (m' y)) \<Longrightarrow>
   leads Q (case v of None \<Rightarrow> m | Some y \<Rightarrow> m' y)"
  by (simp split: option.split)

lemmas leads_rules = leads_ask leads_fetch [OF list_resources] leads_fetch [OF key_set] leads_consult
  leads_if leads_result leads_option leads_return

end

text \<open>Refusals are JSON replies of status 400 or 503.\<close>

lemma refusal_replies [simp]:
  "malformed code description err = JsonReply 400 (error_json code description)"
  "temporary description cause = JsonReply 503 (error_json ErrorTemporary description)"
  by (simp_all add: malformed_def temporary_def error_reply_def public_view_def invalid_request_def serverOAuthError_def)

lemma error_shown_simps [simp]:
  "error_shown (JsonReply 503 (error_json ErrorTemporary description))"
  "code \<noteq> ErrorTemporary \<Longrightarrow> error_shown (JsonReply 400 (error_json code description))"
  "\<not> error_shown (MethodReply allowed)"
  by (auto simp: error_shown_def)

lemma public_object:
  assumes "public_error err"
  shows "service_error err = error_object err" "error_shown (error_object err)" "proper_reply (error_object err)"
    "reply_status (error_object err) \<noteq> 200" "reply_status (error_object err) \<noteq> 302"
  using assms by (cases err; auto simp: error_reply_def error_object_def public_view_def error_shown_def proper_reply_def)+

declare public_object [simp]

lemma not_panic [simp]: "\<not> is_panic err \<Longrightarrow> failure_reply f err = f err"
  by (cases err) (simp_all add: failure_reply_def)

section \<open>The mounted endpoints\<close>

lemma tagged_simps [simp]:
  "rq_Method (tagged r rid) = rq_Method r" "rq_Path (tagged r rid) = rq_Path r" "rq_RawQuery (tagged r rid) = rq_RawQuery r"
  "rq_Header (tagged r rid) = rq_Header r" "rq_Body (tagged r rid) = rq_Body r"
  by (simp_all add: tagged_def)

lemma read_body_tagged [simp]: "read_body (tagged r rid) limit = read_body r limit"
  by (simp add: read_body_def)

lemma parseForm_tagged [simp]: "parseForm p (tagged r rid) arrayFields = parseForm p r arrayFields"
  unfolding parseForm_def ParseForm_def parsePostForm_def tagged_simps read_body_tagged by (rule refl)

lemma decodeRegistrationJSON_tagged [simp]: "decodeRegistrationJSON p (tagged r rid) = decodeRegistrationJSON p r"
  unfolding decodeRegistrationJSON_def tagged_simps read_body_tagged by (rule refl)

lemma asks_tagged [simp]: "asks p (Endpoint (tagged r rid)) req = asks p (Endpoint r) req"
  by (cases req) (simp_all add: token_form_def consent_form_def)

lemma redirect_target_tagged [simp]: "redirect_target (tagged r rid) = redirect_target r"
  unfolding redirect_target_def [abs_def] tagged_simps by (rule refl)

lemma rendered_tagged [simp]: "rendered (tagged r rid) req resp = rendered r req resp"
  by (cases resp; cases req) simp_all

lemma accounts_tagged [simp]: "accounts (Endpoint (tagged r rid)) rep log = accounts (Endpoint r) rep log"
  by (simp add: accounts_def authorize_accounts_def error_returned_def serves_document_def event_request_def)

lemma faithful_tagged [simp]: "faithful p (Endpoint (tagged r rid)) = faithful p (Endpoint r)"
  by (simp add: faithful_def fun_eq_iff)

lemmas faithful_defs = faithful_def accounts_def serves_document_def event_request_def routes_def

text \<open>The middleware leaves the engine alone.\<close>

lemma mounted_run:
  assumes "run_state (mounted_spec rand sysnow s m r) (w, x) = ((rid, rep), (w', x'))"
  shows "\<exists>x1 x2. run_state (m (tagged r rid)) (w, x1) = (rep, (w', x2))"
  using assms
  by (auto simp: mounted_spec_def observed_spec_def consult_def State_Monad.bind_def Let_def
      split: prod.splits option.splits if_splits)

lemma Mount_get: "gm_get (Mount rand sysnow s) path = map_option (correlated rand sysnow s) (gm_get (endpoints s) path)"
  by (simp add: Mount_def endpoints_def)

lemma ready_new: "ready new_writer"
  by (simp add: ready_def new_writer_def)

lemma endpoint_of_spec: "gm_get (endpoint_specs s) path = Some m \<Longrightarrow> \<exists>h. gm_get (endpoints s) path = Some h"
  by (auto simp: endpoint_specs_def endpoints_def split: if_splits)

lemma http_call_spec:
  assumes "gm_get (endpoint_specs s) (rq_Path r) = Some m"
    and "http_call rand sysnow s authenticator (Endpoint r) (w, x) = (wr, (w', x'))"
  shows "\<exists>rid rep. run_state (mounted_spec rand sysnow s m r) (w, x) = ((rid, rep), (w', x')) \<and>
    (rep = CrashReply \<and> rw_Panic wr \<noteq> None \<or>
     Http_Spec.answered rep (protects r (identified rid new_writer)) wr)"
proof -
  obtain h where h: "gm_get (endpoints s) (rq_Path r) = Some h" using endpoint_of_spec [OF assms(1)] by blast
  have impl: "implements (protects r) (m (tagged r rid)) (h (tagged r rid))" for rid
    using endpoints_refine [of s "tagged r rid" h] h assms(1) by (auto simp: protects_def)
  let ?x = "\<lparr>ex_engine = w, ex_env = x, ex_writer = new_writer\<rparr>"
  have "gm_get (Mount rand sysnow s) (rq_Path r) = Some (correlated rand sysnow s h)"
    using h by (simp add: Mount_get)
  with assms(2) have run: "run_handler (correlated rand sysnow s h r) (w, x) = (wr, (w', x'))" by simp
  obtain z where z: "run_state (correlated rand sysnow s h r) ?x = ((), z)" by (metis prod.exhaust old.unit.exhaust)
  with run have wr: "wr = ex_writer z" "w' = ex_engine z" "x' = ex_env z"
    by (simp_all add: run_handler_def Let_def)
  have "wp (correlated rand sysnow s h r) (\<lambda>_ x'. \<exists>rid rep.
      run_state (mounted_spec rand sysnow s m r) (w, x) = ((rid, rep), ex_engine x', ex_env x') \<and>
      (rep = CrashReply \<and> rw_Panic (ex_writer x') \<noteq> None \<or>
       Http_Spec.answered rep (protects r (identified rid new_writer)) (ex_writer x'))) ?x"
    using correlation_refines [where r = r and m = m and h = h and x = ?x and rand = rand and sysnow = sysnow and s = s]
      impl ready_new by simp
  from wpD [OF this z] show ?thesis unfolding wr by blast
qed

context http_world
begin

abbreviation truthful :: "web_event \<Rightarrow> reply \<Rightarrow> 'a engine_log \<Rightarrow> bool" where
  "truthful \<equiv> faithful (hs_policy s)"

lemma token_leads: "rq_Path r = ''/oauth/token'' \<Longrightarrow> leads (truthful (Endpoint r)) (token_spec s r)"
  unfolding token_spec_def
  by (intro leads_rules)
    (auto simp: faithful_defs token_request_def token_form_def whenever_some_def elim: replies_to.elims split: if_splits)

lemma metadata_leads:
  "rq_Path r = ''/.well-known/oauth-authorization-server'' \<Longrightarrow> leads (truthful (Endpoint r)) (metadata_spec s r)"
  unfolding metadata_spec_def
  by (intro leads_rules) (auto simp: faithful_defs split: sum.splits)

lemma jwks_leads: "rq_Path r = ''/jwks.json'' \<Longrightarrow> leads (truthful (Endpoint r)) (jwks_spec s r)"
  unfolding jwks_spec_def
  by (intro leads_rules) (auto simp: faithful_defs split: sum.splits)

lemma style_leads: "rq_Path r = ''/oauth/consent.css'' \<Longrightarrow> leads (truthful (Endpoint r)) (style_spec r)"
  unfolding style_spec_def by (intro leads_rules) (auto simp: faithful_defs)

lemma register_leads: "rq_Path r = ''/oauth/register'' \<Longrightarrow> leads (truthful (Endpoint r)) (register_spec s r)"
  unfolding register_spec_def
  by (intro leads_rules) (auto simp: faithful_defs registration_refused_def registration_input_def elim: replies_to.elims split: if_splits)

lemma revoke_leads: "rq_Path r = ''/oauth/revoke'' \<Longrightarrow> leads (truthful (Endpoint r)) (revoke_spec s r)"
  unfolding revoke_spec_def
  by (intro leads_rules) (auto simp: faithful_defs elim: replies_to.elims)

lemma consent_leads: "rq_Path r = ''/oauth/consent'' \<Longrightarrow> leads (truthful (Endpoint r)) (consent_spec s r)"
  unfolding consent_spec_def consent_post_spec_def
  by (intro leads_rules) (auto simp: faithful_defs consent_form_def elim: replies_to.elims)

lemma callback_leads: "leads (truthful (Callback r)) (callback_spec s authenticator r)"
  unfolding callback_spec_def prod.case_distrib [of "leads Q" for Q, symmetric]
  by (intro leads_rules) (auto simp: faithful_defs split: prod.split intro!: leads_rules elim: replies_to.elims)

lemma returned_reply:
  assumes "error_returned r st err resp rep" and "public_error err"
  shows "proper_reply rep" "reply_status rep = 302 \<or> error_shown rep"
  using assms by (auto simp: error_returned_def)

lemma trusted_answers:
  assumes "replies_to (ValidateRedirectReq cid uri) resp" and "public_error err"
  shows "error_returned r st err resp (trusted_reply r st err resp)" "stateless_reply err resp = error_object err"
  using assms by (cases resp; auto simp: error_redirect_def error_returned_def split: option.split)+

lemma authorize_faithful:
  assumes "rq_Path r = ''/oauth/authorize''" and "rq_Method r = ''GET''"
    and "proper_reply rep" and "reply_status rep = 302 \<or> error_shown rep" and "authorize_accounts r rep log"
    and "length log \<le> 2"
    and "list_all (\<lambda>(req, resp, xs). asks (hs_policy s) (Endpoint r) req \<and> replies_to req resp \<and> heard resp xs) log"
  shows "truthful (Endpoint r) rep log"
  using assms by (simp add: faithful_defs)

lemma returned_leads:
  assumes "rq_Path r = ''/oauth/authorize''" and "rq_Method r = ''GET''"
    and "asks (hs_policy s) (Endpoint r) req" and "replies_to req resp" and "heard resp xs" and "public_error err"
    and "\<And>resp'. replies_to (ValidateRedirectReq cid uri :: 'a request) resp' \<Longrightarrow> error_returned r st err resp' (f resp')"
    and "\<And>resp' (ys :: 'a observation list). error_returned r st err resp' (f resp') \<Longrightarrow> replies_to (ValidateRedirectReq cid uri :: 'a request) resp' \<Longrightarrow>
      authorize_accounts r (f resp') [(req, resp, xs), (ValidateRedirectReq cid uri, resp', ys)]"
  shows "leads (\<lambda>rep log. truthful (Endpoint r) rep ((req, resp, xs) # log)) (do {
    resp \<leftarrow> ask (hs_engine s) (ValidateRedirectReq cid uri);
    State_Monad.return (f resp)
  })"
proof (intro leads_ask leads_return)
  fix resp' and ys :: "'a observation list"
  assume "replies_to (ValidateRedirectReq cid uri :: 'a request) resp'" "heard resp' ys"
  then show "truthful (Endpoint r) (f resp') ((req, resp, xs) # [(ValidateRedirectReq cid uri, resp', ys)])"
    using assms(1-5) assms(7,8) returned_reply [OF assms(7) assms(6)]
    by (intro authorize_faithful) simp_all
qed

lemma login_leads:
  assumes "rq_Path r = ''/oauth/authorize''" and "rq_Method r = ''GET''"
    and "asks (hs_policy s) (Endpoint r) (BeginReq ctx inp :: 'a request)" and "heard (Begun res) xs"
  shows "leads (\<lambda>rep log. truthful (Endpoint r) rep ((BeginReq ctx inp, Begun res, xs) # log))
    (login_spec s r (bar_LoginContext res))"
proof -
  have failed: "leads (\<lambda>rep log. truthful (Endpoint r) rep ((BeginReq ctx inp, Begun res, xs) # log))
      (login_failed_spec s r (bar_LoginContext res) cause)" for cause
    unfolding login_failed_spec_def
    by (rule returned_leads [OF assms(1-3) _ assms(4), where st = "lc_State (bar_LoginContext res)"
          and err = "serverOAuthError ErrorTemporary ''login is unavailable'' 503 cause"])
      (simp_all add: serverOAuthError_def trusted_answers, auto simp: authorize_accounts_def serverOAuthError_def,
        rule exI, erule trusted_answers(1), simp)
  show ?thesis
    unfolding login_spec_def
    by (intro leads_option leads_consult leads_result leads_return failed)
      (use assms in \<open>auto intro!: authorize_faithful simp: authorize_accounts_def\<close>)
qed

lemma begun_leads:
  assumes "rq_Path r = ''/oauth/authorize''" and "rq_Method r = ''GET''"
    and "asks (hs_policy s) (Endpoint r) (BeginReq ctx (authorize_input query) :: 'a request)"
    and "replies_to (BeginReq ctx (authorize_input query) :: 'a request) resp" and "heard resp xs"
  shows "leads (\<lambda>rep log. truthful (Endpoint r) rep ((BeginReq ctx (authorize_input query), resp, xs) # log))
    (begun_spec s r query resp)"
proof (cases resp)
  case (Failed err)
  with assms(4) have public: "public_error err" by simp
  have inp: "bai_ClientID (authorize_input query) = Values_Get query ''client_id''"
    "bai_RedirectURI (authorize_input query) = Values_Get query ''redirect_uri''"
    "bai_State (authorize_input query) = Values_Get query ''state''"
    by (simp_all add: authorize_input_def)
  from public have "begun_spec s r query resp = refused_spec s r query err"
    by (cases err) (simp_all add: begun_spec_def Failed)
  moreover have "leads (\<lambda>rep log. truthful (Endpoint r) rep ((BeginReq ctx (authorize_input query), resp, xs) # log))
      (refused_spec s r query err)"
    unfolding refused_spec_def
  proof (rule returned_leads [OF assms public, where st = "Values_Get query ''state''"])
    let ?f = "\<lambda>resp. if Values_Get query ''state'' \<noteq> [] then trusted_reply r (Values_Get query ''state'') err resp
      else stateless_reply err resp"
    fix resp'
    assume "replies_to (ValidateRedirectReq (Values_Get query ''client_id'') (Values_Get query ''redirect_uri'') :: 'a request) resp'"
    note t = trusted_answers [OF this public]
    show "error_returned r (Values_Get query ''state'') err resp' (?f resp')"
      using t by (simp add: error_returned_def)
    fix ys :: "'a observation list"
    assume "error_returned r (Values_Get query ''state'') err resp' (?f resp')"
    with t(2) show "authorize_accounts r (?f resp') [(BeginReq ctx (authorize_input query), resp, xs),
        (ValidateRedirectReq (Values_Get query ''client_id'') (Values_Get query ''redirect_uri''), resp', ys)]"
      unfolding authorize_accounts_def by (simp add: Failed inp)
  qed
  ultimately show ?thesis by simp
next
  case (Begun result)
  then show ?thesis
    using login_leads [OF assms(1-3)] assms(5) by (simp add: begun_spec_def)
qed (use assms(4) in simp_all)

lemma authorizationQuery_Inr: "authorizationQuery s r = Inr query \<Longrightarrow>
    query = parse_query (rq_RawQuery r) \<and> list_all (query_in_limits (hs_policy s)) query"
  by (auto simp: authorizationQuery_def Let_def split: if_splits)

lemma authorize_leads: "rq_Path r = ''/oauth/authorize'' \<Longrightarrow> leads (truthful (Endpoint r)) (authorize_spec s r)"
  unfolding authorize_spec_def
  by (intro leads_if leads_result leads_ask begun_leads leads_return)
    (auto simp: faithful_defs authorize_accounts_def dest: authorizationQuery_Inr)

section \<open>The mounted endpoints\<close>

lemma endpoint_leads:
  assumes "gm_get (endpoint_specs s) (rq_Path r) = Some m"
  shows "leads (truthful (Endpoint r)) (m (tagged r rid))"
proof -
  have "gm_get (endpoint_specs s) (rq_Path (tagged r rid)) = Some m"
    using assms by (simp add: tagged_def)
  then have "leads (truthful (Endpoint (tagged r rid))) (m (tagged r rid))"
    using metadata_leads [of "tagged r rid"] jwks_leads [of "tagged r rid"] style_leads [of "tagged r rid"]
      register_leads [of "tagged r rid"] revoke_leads [of "tagged r rid"] consent_leads [of "tagged r rid"]
      authorize_leads [of "tagged r rid"] token_leads [of "tagged r rid"]
    by (auto simp: endpoint_specs_def split: if_splits)
  then show ?thesis by simp
qed

lemma outcome_answered:
  assumes "Http_Spec.answered rep w0 wr" and "truthful ev rep log"
  shows "outcome (hs_policy s) ev wr log"
proof -
  have rep: "rep \<noteq> CrashReply" using assms(2) by (auto simp: faithful_def)
  with assms(1) have "rw_Panic wr = None" "sends rep wr" by (simp_all add: answered_def)
  with answered_status [OF assms(1) rep] assms(2) show ?thesis by (auto simp: outcome_def)
qed

lemma endpoint_outcome:
  assumes "orderly w" and "http_call rand sysnow s authenticator (Endpoint r) (w, x) = (wr, (w', x'))"
  shows "\<exists>log. drives (hs_engine s) g w log w' \<and> outcome (hs_policy s) (Endpoint r) wr log"
proof (cases "gm_get (endpoint_specs s) (rq_Path r)")
  case None
  then have "gm_get (Mount rand sysnow s) (rq_Path r) = None"
    by (auto simp: Mount_get endpoint_specs_def endpoints_def split: if_splits)
  with assms(2) have "wr = send_status 404 new_writer" "w' = w" by simp_all
  moreover from None have "gm_get routes (rq_Path r) = None"
    by (auto simp: endpoint_specs_def routes_def split: if_splits)
  ultimately show ?thesis
    by (intro exI [of _ "[]"]) (simp add: drives_done outcome_def send_status_def new_writer_def response_status_def)
next
  case (Some m)
  from http_call_spec [OF Some assms(2)] obtain rid rep where
    spec: "run_state (mounted_spec rand sysnow s m r) (w, x) = ((rid, rep), (w', x'))"
    and ans: "rep = CrashReply \<or> Http_Spec.answered rep (protects r (identified rid new_writer)) wr" by blast
  from mounted_run [OF spec] obtain x1 x2 where "run_state (m (tagged r rid)) (w, x1) = (rep, (w', x2))" by blast
  from leadsD [OF endpoint_leads [OF Some] assms(1) this] obtain log where
    log: "drives (hs_engine s) g w log w'" "truthful (Endpoint r) rep log" by blast
  moreover have "outcome (hs_policy s) (Endpoint r) wr log"
    using ans log(2) by (auto simp: faithful_def intro: outcome_answered)
  ultimately show ?thesis by blast
qed

lemma callback_outcome:
  assumes "orderly w" and "http_call rand sysnow s authenticator (Callback r) (w, x) = (wr, y')"
  shows "\<exists>log. drives (hs_engine s) g w log (fst y') \<and> outcome (hs_policy s) (Callback r) wr log"
proof -
  let ?x = "\<lparr>ex_engine = w, ex_env = x, ex_writer = new_writer\<rparr>"
  obtain z where z: "run_state (IdentityCallbackHandler s authenticator r) ?x = ((), z)"
    by (metis prod.exhaust old.unit.exhaust)
  with assms(2) have wr: "wr = ex_writer z" "y' = (ex_engine z, ex_env z)"
    by (simp_all add: run_handler_def Let_def)
  have "wp (IdentityCallbackHandler s authenticator r) (simulates protect (callback_spec s authenticator r) ?x) ?x"
    using callback_refines [of s authenticator r] ready_new by (simp add: implements_def)
  from wpD [OF this z] obtain rep where spec: "run_state (callback_spec s authenticator r) (w, x) = (rep, ex_engine z, ex_env z)"
    and ans: "Http_Spec.answered rep (protect new_writer) (ex_writer z)"
    by (auto simp: simulates_def)
  from leadsD [OF callback_leads assms(1) spec] obtain log where
    log: "drives (hs_engine s) g w log (ex_engine z)" "truthful (Callback r) rep log" by blast
  with outcome_answered [OF ans log(2)] wr show ?thesis by auto
qed

lemma call_outcome:
  assumes "orderly (fst y)" and "http_call rand sysnow s authenticator ev y = (wr, y')"
  shows "\<exists>log. drives (hs_engine s) g (fst y) log (fst y') \<and> outcome (hs_policy s) ev wr log"
proof (cases ev)
  case (Endpoint r)
  with assms endpoint_outcome [of "fst y" rand sysnow authenticator r "snd y" wr "fst y'" "snd y'"] show ?thesis
    by simp
next
  case (Callback r)
  with assms callback_outcome [of "fst y" rand sysnow authenticator r "snd y" wr y'] show ?thesis by simp
qed

end

section \<open>One-time credentials of the server\<close>

text \<open>A code is presented by a token request, and redeemed when the answer is 200; it is minted by an
  approval that draws it.\<close>

definition presents_code :: "HTTPPolicy \<Rightarrow> CredentialDigest \<Rightarrow> Request \<Rightarrow> bool" where
  "presents_code policy d r = whenever_some (\<lambda>form. Values_Get form ''grant_type'' = ''authorization_code'' \<and>
     DigestCredential (Values_Get form ''code'') = d) (token_form policy r)"

definition presents_refresh :: "HTTPPolicy \<Rightarrow> CredentialDigest \<Rightarrow> Request \<Rightarrow> bool" where
  "presents_refresh policy d r = whenever_some (\<lambda>form. Values_Get form ''grant_type'' = ''refresh_token'' \<and>
     DigestCredential (Values_Get form ''refresh_token'') = d) (token_form policy r)"

fun http_redeems_code ::
  "HTTPPolicy \<Rightarrow> CredentialDigest \<Rightarrow> web_event \<Rightarrow> ResponseWriter \<times> 'a observation list \<Rightarrow> bool" where
  "http_redeems_code policy d (Endpoint r) (wr, xs) = (presents_code policy d r \<and> response_status wr = 200)"
| "http_redeems_code policy d (Callback r) (wr, xs) = False"

fun http_redeems_grant ::
  "HTTPPolicy \<Rightarrow> CredentialDigest \<Rightarrow> web_event \<Rightarrow> ResponseWriter \<times> 'a observation list \<Rightarrow> bool" where
  "http_redeems_grant policy d (Endpoint r) (wr, xs) = (presents_refresh policy d r \<and> response_status wr = 200)"
| "http_redeems_grant policy d (Callback r) (wr, xs) = False"

fun http_mints_code ::
  "HTTPPolicy \<Rightarrow> CredentialDigest \<Rightarrow> web_event \<Rightarrow> ResponseWriter \<times> 'a observation list \<Rightarrow> bool" where
  "http_mints_code policy d (Endpoint r) (wr, xs) =
     (whenever_some (\<lambda>form. form_decision form = Some ConsentDecisionApprove) (consent_form policy r) \<and>
      list_ex (\<lambda>x. case x of Drawn v \<Rightarrow> DigestCredential v = d | _ \<Rightarrow> False) xs)"
| "http_mints_code policy d (Callback r) (wr, xs) = False"

text \<open>A refresh token is handed out in the body of an answer to a token request.\<close>

fun http_mints_grant ::
  "HTTPPolicy \<Rightarrow> CredentialDigest \<Rightarrow> web_event \<Rightarrow> ResponseWriter \<times> 'a observation list \<Rightarrow> bool" where
  "http_mints_grant policy d (Endpoint r) (wr, xs) =
     (token_form policy r \<noteq> None \<and> response_status wr = 200 \<and>
      (\<exists>t. rw_Body wr = [Encoded (token_json t)] \<and> DigestCredential (tok_RefreshToken t) = d))"
| "http_mints_grant policy d (Callback r) (wr, xs) = False"

context http_world
begin

lemma served_call:
  assumes "orderly (fst y)" and "http_served rand sysnow s authenticator g ev y = ((wr, xs), y')"
  obtains log where "drives (hs_engine s) g (fst y) log (fst y')" "outcome (hs_policy s) ev wr log"
    "xs = concat (map (\<lambda>(req, resp, xs). xs) log)"
proof -
  obtain z where z: "http_call rand sysnow s authenticator ev y = (wr, z)" "z = y'"
    "xs = drop (length (gh_obs g (fst y))) (gh_obs g (fst y'))"
    using assms(2) by (auto simp: http_served_def split: prod.splits)
  with call_outcome [OF assms(1) z(1)] drives_obs [OF _ assms(1)] that show ?thesis by auto
qed

lemma http_orderly:
  assumes "orderly (fst y)" and "http_served rand sysnow s authenticator g ev y = (r, y')"
  shows "orderly (fst y')"
proof -
  obtain wr xs where r: "r = (wr, xs)" by fastforce
  show ?thesis
    by (rule served_call [OF assms(1) assms(2) [unfolded r]]) (erule drives_orderly [OF _ assms(1)])
qed

text \<open>An answer 200 to a presented credential is one redemption by the engine.\<close>

lemma token_accounts:
  assumes "truthful (Endpoint r) rep log" and "rq_Path r = ''/oauth/token''"
  shows "(\<exists>req t xs. log = [(req, TokensIssued t, xs)] \<and> rep = JsonReply 200 (token_json t)) \<or>
    reply_status rep \<noteq> 200 \<and> list_all (\<lambda>(req, resp, xs). \<exists>err. resp = Failed err) log"
proof -
  from assms consider "log = []" "error_shown rep \<or> (\<exists>allowed. rep = MethodReply allowed)"
    | req resp xs where "log = [(req, resp, xs)]" "rep = rendered r req resp" "asks (hs_policy s) (Endpoint r) req"
        "replies_to req resp"
    by (auto simp: faithful_defs)
  then show ?thesis
  proof cases
    case 1
    then show ?thesis by (auto simp: error_shown_def split: if_splits)
  next
    case 2
    with assms(2) show ?thesis
      by (cases req; cases resp) (auto simp: consent_form_def split: if_splits)
  qed
qed

lemma outcome_tokens:
  fixes log :: "'a engine_log"
  assumes "outcome (hs_policy s) (Endpoint r) wr log" and "token_form (hs_policy s) r \<noteq> None" and "response_status wr = 200"
  obtains req t xs where "log = [(req, TokensIssued t, xs)]" "rw_Body wr = [Encoded (token_json t)]"
    "asks (hs_policy s) (Endpoint r) req" "replies_to req (TokensIssued t)"
proof -
  have path: "rq_Path r = ''/oauth/token''" using assms(2) by (auto simp: token_form_def split: if_splits)
  from assms(1,3) obtain rep where rep: "truthful (Endpoint r) rep log" "sends rep wr" "reply_status rep = 200"
    by (auto simp: outcome_def)
  with token_accounts [OF rep(1) path] obtain req t xs where
    log: "log = [(req, TokensIssued t, xs)]" "rep = JsonReply 200 (token_json t)" by blast
  with rep show thesis by (intro that) (auto simp: faithful_def)
qed

lemma web_code_spent:
  assumes "orderly (fst y)" and "http_served rand sysnow s authenticator g ev y = (r, y')"
    and "http_redeems_code (hs_policy s) d ev r"
  shows "code_live (gh_view g (fst y)) d \<and> \<not> code_live (gh_view g (fst y')) d"
proof -
  obtain wr xs where r: "r = (wr, xs)" by fastforce
  obtain log where log: "drives (hs_engine s) g (fst y) log (fst y')" "outcome (hs_policy s) ev wr log"
    using served_call [OF assms(1) assms(2) [unfolded r]] by blast
  from assms(3) r obtain rq where ev: "ev = Endpoint rq" "presents_code (hs_policy s) d rq" "response_status wr = 200"
    by (cases ev) auto
  then have "token_form (hs_policy s) rq \<noteq> None" by (auto simp: presents_code_def)
  from outcome_tokens [OF log(2) [unfolded ev(1)] this ev(3)] obtain req t ys where
    t: "log = [(req, TokensIssued t, ys)]" "asks (hs_policy s) (Endpoint rq) req" "replies_to req (TokensIssued t)" by metis
  with ev(2) have "redeems_code d req (TokensIssued t, ys)"
    by (cases req) (auto simp: presents_code_def exchange_input_def)
  with drives_single(1) [OF log(1) t(1) assms(1)] show ?thesis by simp
qed

lemma web_grant_spent:
  assumes "orderly (fst y)" and "http_served rand sysnow s authenticator g ev y = (r, y')"
    and "http_redeems_grant (hs_policy s) d ev r"
  shows "grant_live (gh_view g (fst y)) d \<and> \<not> grant_live (gh_view g (fst y')) d"
proof -
  obtain wr xs where r: "r = (wr, xs)" by fastforce
  obtain log where log: "drives (hs_engine s) g (fst y) log (fst y')" "outcome (hs_policy s) ev wr log"
    using served_call [OF assms(1) assms(2) [unfolded r]] by blast
  from assms(3) r obtain rq where ev: "ev = Endpoint rq" "presents_refresh (hs_policy s) d rq" "response_status wr = 200"
    by (cases ev) auto
  then have "token_form (hs_policy s) rq \<noteq> None" by (auto simp: presents_refresh_def)
  from outcome_tokens [OF log(2) [unfolded ev(1)] this ev(3)] obtain req t ys where
    t: "log = [(req, TokensIssued t, ys)]" "asks (hs_policy s) (Endpoint rq) req" "replies_to req (TokensIssued t)" by metis
  with ev(2) have "redeems_grant d req (TokensIssued t, ys)"
    by (cases req) (auto simp: presents_refresh_def refresh_input_def)
  with drives_single(2) [OF log(1) t(1) assms(1)] show ?thesis by simp
qed

lemma outcome_asks:
  assumes "outcome (hs_policy s) ev wr log" and "(req, resp, xs) \<in> set log"
  shows "asks (hs_policy s) ev req" and "replies_to req resp"
  using assms by (auto simp: outcome_def faithful_def list_all_iff)

lemma web_code_minted:
  assumes "orderly (fst y)" and "http_served rand sysnow s authenticator g ev y = (r, y')"
    and "code_live (gh_view g (fst y')) d"
  shows "code_live (gh_view g (fst y)) d \<or> http_mints_code (hs_policy s) d ev r"
proof -
  obtain wr xs where r: "r = (wr, xs)" by fastforce
  obtain log where log: "drives (hs_engine s) g (fst y) log (fst y')" "outcome (hs_policy s) ev wr log"
    "xs = concat (map (\<lambda>(req, resp, xs). xs) log)"
    using served_call [OF assms(1) assms(2) [unfolded r]] by blast
  show ?thesis
  proof (cases "code_live (gh_view g (fst y)) d")
    case False
    with drives_code [OF log(1) assms(1,3)] obtain req resp ys where
      m: "(req, resp, ys) \<in> set log" "mints_code d req (resp, ys)" by fastforce
    then obtain ctx inp where req: "req = DecideReq ctx inp" "dci_Decision inp = ConsentDecisionApprove"
      "list_ex (\<lambda>x. case x of Drawn v \<Rightarrow> DigestCredential v = d | _ \<Rightarrow> False) ys"
      by (cases req) auto
    from outcome_asks(1) [OF log(2) m(1)] req(1,2) obtain rq where
      "ev = Endpoint rq" "whenever_some (\<lambda>form. form_decision form = Some ConsentDecisionApprove) (consent_form (hs_policy s) rq)"
      by (cases ev) auto
    moreover have "set ys \<subseteq> set xs" using m(1) log(3) by force
    ultimately show ?thesis using req(3) r by (auto simp: list_ex_iff)
  qed simp
qed

lemma web_grant_minted:
  assumes "orderly (fst y)" and "http_served rand sysnow s authenticator g ev y = (r, y')"
    and "grant_live (gh_view g (fst y')) d"
  shows "grant_live (gh_view g (fst y)) d \<or> http_mints_grant (hs_policy s) d ev r"
proof -
  obtain wr xs where r: "r = (wr, xs)" by fastforce
  obtain log where log: "drives (hs_engine s) g (fst y) log (fst y')" "outcome (hs_policy s) ev wr log"
    using served_call [OF assms(1) assms(2) [unfolded r]] by blast
  show ?thesis
  proof (cases "grant_live (gh_view g (fst y)) d")
    case False
    with drives_grant [OF log(1) assms(1,3)] obtain req resp ys where
      m: "(req, resp, ys) \<in> set log" "mints_grant d req (resp, ys)" by fastforce
    then obtain t where t: "resp = TokensIssued t" "DigestCredential (tok_RefreshToken t) = d"
      by (cases req; cases resp) auto
    from outcome_asks [OF log(2) m(1)] t(1) obtain rq where ev: "ev = Endpoint rq" "token_form (hs_policy s) rq \<noteq> None"
      by (cases req; cases ev) auto
    then have path: "rq_Path rq = ''/oauth/token''" by (auto simp: token_form_def split: if_splits)
    from log(2) m(1) obtain rep where rep: "truthful ev rep log" "sends rep wr" "response_status wr = reply_status rep"
      by (auto simp: outcome_def)
    with path ev(1) token_accounts [of rq rep log] m(1) t(1) have "rep = JsonReply 200 (token_json t)"
      by (auto simp: list_all_iff)
    with rep ev t(2) r show ?thesis by auto
  qed simp
qed

end

text \<open>So the server, too, is a system whose codes and refresh tokens are used once.\<close>

sublocale http_world \<subseteq> web_codes: one_shot "http_served rand sysnow s authenticator g" "\<lambda>_. True" "\<lambda>y. orderly (fst y)"
    "\<lambda>y. code_live (gh_view g (fst y))" "http_mints_code (hs_policy s)" "http_redeems_code (hs_policy s)"
  for rand sysnow authenticator
  by unfold_locales (auto dest: http_orderly web_code_spent web_code_minted)

sublocale http_world \<subseteq> web_grants: one_shot "http_served rand sysnow s authenticator g" "\<lambda>_. True" "\<lambda>y. orderly (fst y)"
    "\<lambda>y. grant_live (gh_view g (fst y))" "http_mints_grant (hs_policy s)" "http_redeems_grant (hs_policy s)"
  for rand sysnow authenticator
  by unfold_locales (auto dest: http_orderly web_grant_spent web_grant_minted)

context http_world
begin

lemma web_once:
  assumes "orderly (fst y)" and "run (http_served rand sysnow s authenticator g) evs y = (log, y')"
  shows "count_events (http_redeems_code (hs_policy s) d) log \<le>
      count_events (http_mints_code (hs_policy s) d) log + (if code_live (gh_view g (fst y)) d then 1 else 0)"
    and "count_events (http_redeems_grant (hs_policy s) d) log \<le>
      count_events (http_mints_grant (hs_policy s) d) log + (if grant_live (gh_view g (fst y)) d then 1 else 0)"
  using web_codes.potential_run [OF assms(1) _ assms(2), of d] web_grants.potential_run [OF assms(1) _ assms(2), of d]
  by (simp_all add: list_all_iff)

end

end
