(* ===== verification/Http_Properties.thy ===== *)
theory Http_Properties
  imports Http_System System_Properties
begin

text \<open>
  What the HTTP server promises, for any engine whose dependencies keep their contracts: the
  meaning of its endpoints, the requests that reach the engine, single use and answers along every
  sequence of HTTP requests.
\<close>

section \<open>A server on the in-memory dependencies\<close>

definition fixture_server ::
  "('a World, 'a) Engine \<Rightarrow> 'x LoginStarter option \<Rightarrow> 'x RequestObserver option \<Rightarrow> ('a World, 'x, 'a) HttpServer" where
  "fixture_server e login observer =
     \<lparr>hs_engine = e, hs_issuer = Engine_Issuer e, hs_resources = Engine_Resources e, hs_tokens = Engine_Tokens e,
      hs_login = login, hs_policy = Engine_HTTPPolicy e, hs_observer = observer\<rparr>"

lemma Http_New_fixture:
  "Http_New \<lparr>hc_Engine = Some e, hc_Login = login, hc_Observer = observer\<rparr> = Inr (fixture_server e login observer)"
  by (simp add: Http_New_def fixture_server_def)

lemma ListResources_unpanicked: "unpanicked (ListResources r)"
  by (simp add: ListResources_def)

interpretation web: http_world
    "fixture_server (fixture_engine config available rv rv_err token_err zero) login observer" world_ghost
  for config available rv rv_err token_err zero login observer
proof -
  have "engine_world (fixture_engine config available rv rv_err token_err zero) world_ghost"
    by (rule fixture_engine_world)
  then show "http_world (fixture_server (fixture_engine config available rv rv_err token_err zero) login observer) world_ghost"
    unfolding http_world_def http_world_axioms_def
    by (auto simp: fixture_server_def fixture_engine_def Engine_Resources_def Engine_Tokens_def registry_port_def
        TokenService_def observes_def wp_simps logs_def ListResources_unpanicked)
qed

text \<open>A server on the in-memory engine, without entropy: its requests have no identifier.\<close>

definition demo_server :: "(unit World, unit, unit) HttpServer" where
  "demo_server = fixture_server demo_engine None None"

definition no_entropy :: "unit entropy" where
  "no_entropy n = State_Monad.return (Inl ErrNotFound)"

definition demo_now :: "(unit, time) state" where
  "demo_now = State_Monad.return 0"

definition demo_callback :: "(unit, unit) CallbackAuthenticator" where
  "demo_callback ctx r = State_Monad.return (Inl ErrNotFound)"

definition demo_form :: string where
  "demo_form = ''grant_type=authorization_code&code='' @ demo_secret ''code'' (CHR ''4'') @ ''&client_id='' @
     demo_secret ''client'' (CHR ''1'') @ ''&redirect_uri=https%3A%2F%2Fapp.test%2Fcb&code_verifier='' @ demo_verifier"

definition demo_token_request :: Request where
  "demo_token_request = \<lparr>rq_Method = ''POST'', rq_Path = ''/oauth/token'', rq_RawQuery = [],
     rq_Header = [(''Content-Type'', [''application/x-www-form-urlencoded''])], rq_Body = Inr demo_form,
     rq_Context = None\<rparr>"

lemma demo_form_parses:
  "(case parseForm (cfg_HTTP demo_config) demo_token_request [] of Inl _ \<Rightarrow> None | Inr form \<Rightarrow>
     Some (Values_Get form ''grant_type'', exchange_input form)) = Some (''authorization_code'', demo_exchange)"
  by code_simp

lemma demo_web: "http_world demo_server world_ghost"
  unfolding demo_server_def demo_engine_def by (rule web.http_world_axioms)

lemma demo_server_simps [simp]: "hs_engine demo_server = demo_engine" "hs_policy demo_server = cfg_HTTP demo_config"
  "hs_observer demo_server = None" "hs_login demo_server = None"
  by (simp_all add: demo_server_def fixture_server_def Engine_HTTPPolicy_def demo_engine_def fixture_engine_def)

lemma no_id: "run_state (SanitizeInbound no_entropy inbound) x = (if ValidID inbound then Inr inbound else Inl ErrNotFound, x)"
  by (simp add: SanitizeInbound_def NewID_def no_entropy_def State_Monad.bind_def)

text \<open>The code of the session is exchanged over HTTP.\<close>

lemma demo_exchange_http:
  "\<exists>wr w'. http_call no_entropy demo_now demo_server demo_callback (Endpoint demo_token_request) (demo_at 4, ()) =
     (wr, (w', ())) \<and> response_status wr = 200"
proof -
  obtain t w1 where run: "run_state (Engine_ExchangeCode demo_engine None demo_exchange) (demo_at 4) = (Inr t, w1)"
    using demo_run(5) by blast
  obtain form where form: "parseForm (cfg_HTTP demo_config) demo_token_request [] = Inr form"
    "Values_Get form ''grant_type'' = ''authorization_code''" "exchange_input form = demo_exchange"
    using demo_form_parses by (auto split: sum.splits)
  have r: "rq_Method demo_token_request = ''POST''" "rq_Path demo_token_request = ''/oauth/token''"
    "rq_Context demo_token_request = None" "rq_Header demo_token_request = [(''Content-Type'', [''application/x-www-form-urlencoded''])]"
    by (simp_all add: demo_token_request_def)
  obtain wr w' where call: "http_call no_entropy demo_now demo_server demo_callback (Endpoint demo_token_request) (demo_at 4, ()) =
      (wr, (w', ()))" by (metis old.unit.exhaust prod.exhaust)
  have m: "gm_get (endpoint_specs demo_server) (rq_Path demo_token_request) = Some (token_spec demo_server)"
    by (simp add: endpoint_specs_def r)
  have "run_state (mounted_spec no_entropy demo_now demo_server (token_spec demo_server) demo_token_request) (demo_at 4, ()) =
      (([], JsonReply 200 (token_json t)), (w1, ()))"
    by (simp add: mounted_spec_def observed_spec_def consult_def no_id State_Monad.bind_def r Header_Get_def Header_Values_def
        Correlation_Header_def ValidID_def MinIDLength_def id_or_empty_def tagged_def token_spec_def form token_request_def
        ask_def run)
  with http_call_spec [OF m call] call show ?thesis
    by (auto dest: answered_status)
qed

section \<open>The meaning of an endpoint\<close>

definition request_ids :: "'x entropy \<Rightarrow> bool" where
  "request_ids rand \<longleftrightarrow> (\<forall>n x. wp (rand n) (\<lambda>r _. case r of Inl _ \<Rightarrow> True | Inr buf \<Rightarrow> length buf = n) x)"

lemma mounted_id:
  assumes "request_ids rand" and "run_state (mounted_spec rand sysnow s m r) (w, x) = ((rid, rep), y)"
  shows "rid = [] \<or> ValidID rid"
    and "ValidID (Header_Get (rq_Header r) Correlation_Header) \<Longrightarrow> rid = Header_Get (rq_Header r) Correlation_Header"
proof -
  let ?inbound = "Header_Get (rq_Header r) Correlation_Header"
  obtain sanitized x1 where san: "run_state (SanitizeInbound rand ?inbound) x = (sanitized, x1)" by fastforce
  with assms(2) have rid: "rid = id_or_empty sanitized"
    by (auto simp: mounted_spec_def consult_def State_Monad.bind_def Let_def split: prod.splits)
  show "ValidID ?inbound \<Longrightarrow> rid = ?inbound"
    using san rid by (auto simp: SanitizeInbound_def id_or_empty_def)
  have "wp (rand 16) (\<lambda>r _. case r of Inl _ \<Rightarrow> True | Inr buf \<Rightarrow> length buf = 16) x"
    using assms(1) by (simp add: request_ids_def)
  then have "wp (SanitizeInbound rand ?inbound) (\<lambda>r _. id_or_empty r = [] \<or> ValidID (id_or_empty r)) x"
    by (auto simp: SanitizeInbound_def NewID_def wp_simps id_or_empty_def ValidID_hex elim!: wp_mono split: sum.splits)
  from wpD [OF this san] rid show "rid = [] \<or> ValidID rid" by simp
qed

lemma answered_headers:
  assumes "Http_Spec.answered rep w0 wr" and "rep \<noteq> CrashReply" and "k \<notin> set (reply_headers rep)"
  shows "sent_header wr k = Header_Values (rw_Header w0) k"
  using assms by (simp add: answered_def keeps_headers_def sent_header_def Header_Values_def)

text \<open>Where no header protects the reply, it is the style sheet, or the refusal of a method by one of the
  endpoints that write their headers later.\<close>

definition guarded_paths :: "string set" where
  "guarded_paths = {''/oauth/authorize'', ''/oauth/consent'', ''/oauth/token'', ''/oauth/revoke''}"

lemma unprotected_reply:
  assumes "gm_get (endpoint_specs s) (rq_Path r) = Some m" and "run_state (m (tagged r rid)) y = (rep, y')"
    and "protects r \<noteq> protect"
  shows "rep = StyleReply \<or> (\<exists>allowed. rep = MethodReply allowed) \<and> rq_Path r \<notin> guarded_paths"
  using assms
  by (auto simp: endpoint_specs_def protects_def style_spec_def metadata_spec_def jwks_spec_def register_spec_def
      guarded_paths_def split: if_splits)

text \<open>C14. What a mounted endpoint means.  A request to it acts on the worlds of the engine and of the
  application exactly as the specification of the endpoint, within the middleware, says; unless that
  is a panic, the response is exactly its reply and carries the request identifier.  No cache may keep
  it, with two exceptions: the style sheet may be kept for an hour, and where the metadata, key set,
  registration and style endpoints refuse a method nothing is said about caches.  The identifier is
  the one the client sent if that is valid, and otherwise a fresh valid one, or empty when the entropy
  source fails.\<close>

theorem http_refines:
  assumes "request_ids rand" and "gm_get (endpoint_specs s) (rq_Path r) = Some m"
    and "http_call rand sysnow s authenticator (Endpoint r) (w, x) = (wr, (w', x'))"
  shows "\<exists>rid rep. run_state (mounted_spec rand sysnow s m r) (w, x) = ((rid, rep), (w', x')) \<and>
    (rep = CrashReply \<and> rw_Panic wr \<noteq> None \<or>
     rep \<noteq> CrashReply \<and> rw_Panic wr = None \<and> sends rep wr \<and> response_status wr = reply_status rep \<and>
     sent_header wr ''X-Request-Id'' = [rid] \<and>
     (rep = StyleReply \<longrightarrow> sent_header wr ''Cache-Control'' = [''public, max-age=3600'']) \<and>
     (rep \<noteq> StyleReply \<and> (rq_Path r \<in> guarded_paths \<or> (\<nexists>allowed. rep = MethodReply allowed)) \<longrightarrow>
        sent_header wr ''Cache-Control'' = [''no-store'']) \<and>
     (rid = [] \<or> ValidID rid) \<and>
     (ValidID (Header_Get (rq_Header r) ''X-Request-Id'') \<longrightarrow> rid = Header_Get (rq_Header r) ''X-Request-Id''))"
proof -
  from http_call_spec [OF assms(2,3)] obtain rid rep where
    spec: "run_state (mounted_spec rand sysnow s m r) (w, x) = ((rid, rep), (w', x'))"
    and ans: "rep = CrashReply \<and> rw_Panic wr \<noteq> None \<or>
      Http_Spec.answered rep (protects r (identified rid new_writer)) wr" by blast
  note rid = mounted_id [OF assms(1) spec, unfolded Correlation_Header_def]
  show ?thesis
  proof (cases "rep = CrashReply")
    case True
    with spec ans show ?thesis by (auto simp: Http_Spec.answered_def)
  next
    case False
    with ans have a: "Http_Spec.answered rep (protects r (identified rid new_writer)) wr" by simp
    have rid_sent: "sent_header wr ''X-Request-Id'' = [rid]"
      by (subst answered_headers [OF a False])
        (auto simp: reply_headers_def protects_def protect_def identified_def Correlation_Header_def)
    have "sent_header wr ''Cache-Control'' = [''no-store'']"
      if "rep \<noteq> StyleReply" "rq_Path r \<in> guarded_paths \<or> (\<nexists>allowed. rep = MethodReply allowed)"
    proof -
      from mounted_run [OF spec] that have "protects r = protect"
        using unprotected_reply [OF assms(2)] by blast
      then show ?thesis using that(1)
        by (subst answered_headers [OF a False]) (auto simp: reply_headers_def protect_def)
    qed
    with a False spec rid rid_sent answered_status [OF a False] show ?thesis by (auto simp: Http_Spec.answered_def)
  qed
qed

definition demo_style_request :: Request where
  "demo_style_request = \<lparr>rq_Method = ''GET'', rq_Path = ''/oauth/consent.css'', rq_RawQuery = [],
     rq_Header = [(''X-Request-Id'', [''request-0001''])], rq_Body = Inr [], rq_Context = None\<rparr>"

theorem http_refines_witness:
  "\<exists>wr y. http_call no_entropy demo_now demo_server demo_callback (Endpoint demo_style_request) (demo_world, ()) = (wr, y) \<and>
     response_status wr = 200 \<and> sent_header wr ''X-Request-Id'' = [''request-0001'']"
proof -
  obtain wr w' x' where call: "http_call no_entropy demo_now demo_server demo_callback (Endpoint demo_style_request)
      (demo_world, ()) = (wr, (w', x'))" by (metis prod.exhaust)
  have entropy: "request_ids no_entropy" by (simp add: request_ids_def no_entropy_def wp_simps)
  have m: "gm_get (endpoint_specs demo_server) (rq_Path demo_style_request) = Some style_spec"
    by (simp add: endpoint_specs_def demo_style_request_def)
  have valid: "ValidID (Header_Get (rq_Header demo_style_request) ''X-Request-Id'')" by code_simp
  have "fst (run_state (mounted_spec no_entropy demo_now demo_server style_spec demo_style_request) (demo_world, ())) =
      (''request-0001'', StyleReply)"
    using valid by (simp add: mounted_spec_def observed_spec_def consult_def no_id State_Monad.bind_def style_spec_def
        Correlation_Header_def id_or_empty_def demo_style_request_def Header_Get_def Header_Values_def)
  with http_refines [OF entropy m call] call show ?thesis by auto
qed

section \<open>What reaches the engine\<close>

definition short :: "HTTPPolicy \<Rightarrow> string \<Rightarrow> bool" where
  "short policy v \<longleftrightarrow> int (length v) \<le> hp_MaxFieldBytes policy"

text \<open>The limits of the policy on what the engine is asked.  A registration is limited in its number of
  redirect URIs, apart from the size of its document; the token of a consent page, the login of the
  application's callback and the redirect that follows a login are not limited.\<close>

fun input_bounded :: "HTTPPolicy \<Rightarrow> 'a request \<Rightarrow> bool" where
  "input_bounded policy (ExchangeReq ctx inp) =
     list_all (short policy) [eci_Code inp, eci_ClientID inp, eci_RedirectURI inp, eci_CodeVerifier inp]"
| "input_bounded policy (RefreshReq ctx inp) = list_all (short policy) [rfi_RefreshToken inp, rfi_ClientID inp]"
| "input_bounded policy (RevokeReq ctx inp) = list_all (short policy) [rvi_Token inp, rvi_ClientID inp]"
| "input_bounded policy (DecideReq ctx inp) =
     (list_all (short policy) (dci_Token inp # dci_SelectedScopes inp) \<and>
      int (length (dci_SelectedScopes inp)) \<le> hp_MaxArrayLength policy)"
| "input_bounded policy (BeginReq ctx inp) =
     list_all (short policy) [bai_ClientID inp, bai_RedirectURI inp, bai_ResponseType inp, bai_State inp,
       bai_CodeChallenge inp, bai_ChallengeMethod inp, bai_Resource inp]"
| "input_bounded policy (RegisterReq ctx inp) = (int (length (rci_RedirectURIs inp)) \<le> hp_MaxArrayLength policy)"
| "input_bounded policy (ConsentViewReq ctx token) = True"
| "input_bounded policy (LoginReq ctx inp) = True"
| "input_bounded policy (ValidateRedirectReq cid uri) = True"

lemma parseForm_limits:
  assumes "parseForm policy r arrayFields = Inr form" and "gm_get form k = Some vs"
  shows "form_in_limits policy arrayFields (k, vs)"
  using assms gm_get_in [OF assms(2)]
  by (auto simp: parseForm_def list_all_iff split: if_splits sum.splits)

lemma form_get_short:
  "parseForm policy r arrayFields = Inr form \<Longrightarrow> 0 \<le> hp_MaxFieldBytes policy \<Longrightarrow> short policy (Values_Get form k)"
  by (auto simp: Values_Get_def short_def form_in_limits_def Let_def dest: parseForm_limits split: option.split list.split)

lemma form_values_bounded:
  assumes "parseForm policy r arrayFields = Inr form" and "k \<in> set arrayFields" and "0 \<le> hp_MaxArrayLength policy"
  shows "list_all (short policy) (form_values form k)" "int (length (form_values form k)) \<le> hp_MaxArrayLength policy"
proof -
  have "list_all (short policy) (form_values form k) \<and> int (length (form_values form k)) \<le> hp_MaxArrayLength policy"
  proof (cases "gm_get form k")
    case (Some vs)
    from parseForm_limits [OF assms(1) Some] assms(2) Some show ?thesis
      by (auto simp: form_values_def short_def form_in_limits_def Let_def list_all_iff not_less)
  qed (use assms(3) in \<open>simp add: form_values_def\<close>)
  then show "list_all (short policy) (form_values form k)" "int (length (form_values form k)) \<le> hp_MaxArrayLength policy"
    by simp_all
qed

lemma query_get_short:
  assumes "list_all (query_in_limits policy) query" and "0 \<le> hp_MaxFieldBytes policy"
  shows "short policy (Values_Get query k)"
proof (cases "gm_get query k")
  case (Some vs)
  with gm_get_in [OF Some] assms(1) have "query_in_limits policy (k, vs)" by (simp add: list_all_iff)
  then show ?thesis
    using Some by (auto simp: query_in_limits_def Values_Get_def short_def length_Suc_conv)
qed (use assms(2) in \<open>simp add: Values_Get_def short_def\<close>)

lemma asks_bounded:
  assumes "asks policy ev req" and "0 \<le> hp_MaxFieldBytes policy" and "0 \<le> hp_MaxArrayLength policy"
  shows "input_bounded policy req"
proof (cases ev)
  case (Endpoint r)
  with assms show ?thesis
    by (cases req)
      (auto simp: token_form_def consent_form_def exchange_input_def refresh_input_def authorize_input_def
          registration_refused_def registration_input_def
        intro: form_get_short form_values_bounded query_get_short split: if_splits sum.splits)
next
  case (Callback r)
  with assms(1) show ?thesis by (cases req) simp_all
qed

lemma http_orderly_iff:
  "http_world s g \<Longrightarrow> engine_world.orderly g w \<longleftrightarrow> gh_ok g w \<and> maps_wf (gh_view g w) \<and> records_wf (gh_view g w)"
  by (rule engine_world.orderly_def [OF http_world.axioms(1)])

text \<open>C12. What reaches the engine.  A request to the server makes at most two requests to the engine, each
  one that belongs to its endpoint and method, built from the fields of the parsed form, query or
  document.  The fields of a token, refresh, revocation, decision or authorization request, and the
  number of redirect URIs of a registration, are within the limits of the HTTP policy (the token in
  the query of the consent page is not limited by the transport).  At every endpoint the response renders
  the answer of the engine: a token response, the registered client, the consent page, the redirect of
  the decision, an empty 200 for a revocation, and an error as the JSON object of its public view; at the
  authorization endpoint an error goes, by redirect, to the URI that the engine trusts, or else is
  such an object.  Without a request to the engine the response is a refusal, unless the endpoint
  serves a document.\<close>

theorem http_requests_confined:
  assumes "http_world s g" and "gh_ok g w" and "maps_wf (gh_view g w)" and "records_wf (gh_view g w)"
    and "0 \<le> hp_MaxFieldBytes (hs_policy s)" and "0 \<le> hp_MaxArrayLength (hs_policy s)"
    and "http_served rand sysnow s authenticator g ev (w, x) = ((wr, xs), (w', x'))"
  shows "\<exists>log. drives (hs_engine s) g w log w' \<and> xs = concat (map (\<lambda>(req, resp, xs). xs) log) \<and>
    outcome (hs_policy s) ev wr log \<and> length log \<le> 2 \<and>
    list_all (\<lambda>(req, resp, xs). asks (hs_policy s) ev req \<and> input_bounded (hs_policy s) req) log"
proof -
  have "engine_world.orderly g (fst (w, x))" using assms(2-4) http_orderly_iff [OF assms(1)] by simp
  from http_world.served_call [OF assms(1) this assms(7)] obtain log where
    log: "drives (hs_engine s) g w log w'" "outcome (hs_policy s) ev wr log" "xs = concat (map (\<lambda>(req, resp, xs). xs) log)"
    by auto
  moreover from log(2) have "length log \<le> 2" "list_all (\<lambda>(req, resp, xs). asks (hs_policy s) ev req) log"
    by (auto simp: outcome_def faithful_def list_all_iff)
  moreover from this(2) have "list_all (\<lambda>(req, resp, xs). asks (hs_policy s) ev req \<and> input_bounded (hs_policy s) req) log"
    by (rule list.pred_mono_strong) (auto intro: asks_bounded [OF _ assms(5,6)])
  ultimately show ?thesis by blast
qed

theorem http_requests_confined_witness:
  "\<exists>wr xs w' log. http_served no_entropy demo_now demo_server demo_callback world_ghost (Endpoint demo_token_request)
       (demo_at 4, ()) = ((wr, xs), (w', ())) \<and> response_status wr = 200 \<and>
     drives demo_engine world_ghost (demo_at 4) log w' \<and> length log \<le> 2 \<and>
     list_all (\<lambda>(req, resp, xs). input_bounded (cfg_HTTP demo_config) req) log"
proof -
  obtain wr w' where "http_call no_entropy demo_now demo_server demo_callback (Endpoint demo_token_request) (demo_at 4, ()) =
      (wr, (w', ()))" and ok: "response_status wr = 200"
    using demo_exchange_http by blast
  then obtain xs where call: "http_served no_entropy demo_now demo_server demo_callback world_ghost (Endpoint demo_token_request)
      (demo_at 4, ()) = ((wr, xs), (w', ()))" by (simp add: http_served_def)
  have "0 \<le> hp_MaxFieldBytes (cfg_HTTP demo_config)" "0 \<le> hp_MaxArrayLength (cfg_HTTP demo_config)"
    by (simp_all add: demo_config_def DefaultConfig_def)
  with http_requests_confined [OF demo_web _ _ _ _ _ call] obtain log where
    "drives demo_engine world_ghost (demo_at 4) log w'" "length log \<le> 2"
    "list_all (\<lambda>(req, resp, xs). asks (cfg_HTTP demo_config) (Endpoint demo_token_request) req \<and>
       input_bounded (cfg_HTTP demo_config) req) log"
    by (auto simp: demo_orderly)
  moreover from this(3) have "list_all (\<lambda>(req, resp, xs). input_bounded (cfg_HTTP demo_config) req) log"
    by (rule list.pred_mono_strong) auto
  ultimately show ?thesis using call ok by blast
qed

section \<open>Sequences of HTTP requests\<close>

text \<open>C11. Single use, of the server.  Along every sequence of HTTP requests, to whatever endpoints and
  callbacks, a code is exchanged for a token response at most as often as an approval minted it, and a
  refresh token at most as often as a token response handed it out (plus once if it was live at the
  start).\<close>

theorem http_single_use:
  assumes "http_world s g" and "gh_ok g w" and "maps_wf (gh_view g w)" and "records_wf (gh_view g w)"
    and "run (http_served rand sysnow s authenticator g) evs (w, x) = (log, y)"
  shows "count_events (http_redeems_code (hs_policy s) d) log \<le>
      count_events (http_mints_code (hs_policy s) d) log + (if code_live (gh_view g w) d then 1 else 0) \<and>
    count_events (http_redeems_grant (hs_policy s) d) log \<le>
      count_events (http_mints_grant (hs_policy s) d) log + (if grant_live (gh_view g w) d then 1 else 0)"
proof -
  have "engine_world.orderly g (fst (w, x))" using assms(2-4) http_orderly_iff [OF assms(1)] by simp
  from http_world.web_once [OF assms(1) this assms(5), of d] show ?thesis by simp
qed

theorem http_single_use_witness:
  "\<exists>log y. run (http_served no_entropy demo_now demo_server demo_callback world_ghost)
       [Endpoint demo_token_request, Endpoint demo_token_request] (demo_at 4, ()) = (log, y) \<and>
     (\<forall>d. count_events (http_redeems_code (cfg_HTTP demo_config) d) log \<le> 1)"
proof -
  let ?step = "http_served no_entropy demo_now demo_server demo_callback world_ghost"
  let ?r = "[Endpoint demo_token_request, Endpoint demo_token_request]"
  obtain log y where r: "run ?step ?r (demo_at 4, ()) = (log, y)" by (metis prod.exhaust)
  have "count_events (http_redeems_code (cfg_HTTP demo_config) d) log \<le> 1" for d
  proof -
    have mints: "\<not> http_mints_code (cfg_HTTP demo_config) d (Endpoint demo_token_request) resp"
      for resp :: "_ \<times> unit observation list"
      by (cases resp) (simp add: consent_form_def demo_token_request_def)
    have "count_events (http_mints_code (cfg_HTTP demo_config) d) (fst (run ?step ?r (demo_at 4, ()))) = 0"
      by (simp add: fst_run_Cons count_events_def mints split_beta del: run.simps(2))
    with http_single_use [OF demo_web _ _ _ r, of d] r show ?thesis
      by (auto simp: demo_orderly split: if_splits)
  qed
  with r show ?thesis by blast
qed












end
