(* ===== verification/Http_Redirects.thy ===== *)
theory Http_Redirects
  imports Http_Properties Redirects
begin

text \<open>
  Where the authorization endpoint sends a browser, what an error that goes back to the client
  carries, and the consent page.
\<close>

section \<open>Destinations\<close>

text \<open>A destination that the login starter of the application returned.\<close>

definition login_destination :: "('w, 'x, 'a) HttpServer \<Rightarrow> string \<Rightarrow> bool" where
  "login_destination s dest \<longleftrightarrow>
     (\<exists>login ctx context x. hs_login s = Some login \<and> fst (run_state (login ctx context) x) = Inr dest)"

definition safe_redirect :: "('w, 'x, 'a) HttpServer \<Rightarrow> Request \<Rightarrow> reply \<Rightarrow> 'a engine_log \<Rightarrow> bool" where
  "safe_redirect s r rep log \<longleftrightarrow> reply_status rep = 302 \<longrightarrow>
     (\<exists>dest. rep = RedirectReply (redirect_target r dest) \<and>
        (login_destination s dest \<or>
         (\<exists>log0 cid uri t xs st err. log = log0 @ [(ValidateRedirectReq cid uri, Trusted t, xs)] \<and>
            public_error err \<and> error_destination (tr_uri t) st err = Some dest)))"

lemma safe_redirect_none [simp]: "reply_status rep \<noteq> 302 \<Longrightarrow> safe_redirect s r rep log"
  by (simp add: safe_redirect_def)

lemma safe_redirect_login: "login_destination s dest \<Longrightarrow> safe_redirect s r (RedirectReply (redirect_target r dest)) log"
  by (auto simp: safe_redirect_def)

lemma safe_redirect_error:
  assumes "public_error err"
  shows "safe_redirect s r (error_redirect r t st err) (log @ [(ValidateRedirectReq cid uri, Trusted t, xs)])"
proof (cases "error_destination (tr_uri t) st err")
  case (Some dest)
  with assms show ?thesis by (auto simp: safe_redirect_def error_redirect_def)
qed (use assms in \<open>simp add: error_redirect_def\<close>)

lemma safe_redirect_trusted:
  assumes "public_error err" and "replies_to (ValidateRedirectReq cid uri :: 'a request) resp"
  shows "safe_redirect s r (trusted_reply r st err resp) (log @ [(ValidateRedirectReq cid uri, resp, xs :: 'a observation list)])"
    and "safe_redirect s r (stateless_reply err resp) log"
  using assms by (cases resp; simp add: safe_redirect_error)+

context http_world
begin

lemma login_safe: "leads (\<lambda>rep log. safe_redirect s r rep (entry # log)) (login_spec s r context)"
proof -
  have failed: "leads (\<lambda>rep log. safe_redirect s r rep (entry # log)) (login_failed_spec s r context cause)" for cause
    unfolding login_failed_spec_def
    by (intro leads_ask leads_return, rule safe_redirect_trusted(1) [of _ _ _ _ _ _ _ "[entry]", simplified])
      (simp_all add: serverOAuthError_def)
  show ?thesis
    unfolding login_spec_def
    by (intro leads_option leads_consult leads_result leads_return failed safe_redirect_login)
      (auto simp: login_destination_def)
qed

lemma begun_safe:
  assumes "replies_to (BeginReq ctx inp :: 'a request) resp"
  shows "leads (\<lambda>rep log. safe_redirect s r rep ((BeginReq ctx inp, resp, xs) # log)) (begun_spec s r query resp)"
proof (cases resp)
  case (Failed err)
  with assms have public: "public_error err" by simp
  then have "begun_spec s r query resp = refused_spec s r query err"
    by (cases err) (simp_all add: begun_spec_def Failed)
  moreover have "leads (\<lambda>rep log. safe_redirect s r rep ((BeginReq ctx inp, resp, xs) # log)) (refused_spec s r query err)"
    unfolding refused_spec_def
    by (intro leads_ask leads_return) (use safe_redirect_trusted(1) [OF public, of _ _ _ _ _ _ "[(BeginReq ctx inp, resp, xs)]"]
        safe_redirect_trusted(2) [OF public] in auto)
  ultimately show ?thesis by simp
next
  case (Begun result)
  then show ?thesis using login_safe by (simp add: begun_spec_def)
qed (use assms in simp_all)

lemma authorize_safe: "leads (safe_redirect s r) (authorize_spec s r)"
  unfolding authorize_spec_def
  by (intro leads_if leads_result leads_ask begun_safe leads_return) simp_all

text \<open>A redirect URI that the engine trusts is registered for a client.\<close>

lemma drives_trusted:
  assumes "drives (hs_engine s) g w log w'" and "orderly w"
    and "log = log0 @ [(ValidateRedirectReq cid uri, Trusted t, xs)]"
  shows "\<exists>c client. Mem_GetClient c (gh_view g w') = Inr client \<and> tr_uri t \<in> set (cl_RedirectURIs client) \<and>
    validRedirectURI (tr_uri t) True"
  using assms
proof (induction arbitrary: log0 rule: drives.induct)
  case (drives_read w w1 log w')
  then have "orderly w1" by (simp add: orderly_def logs_def)
  with drives_read show ?case by blast
next
  case (drives_serve req w resp ys w1 log w')
  show ?case
  proof (cases log0)
    case Nil
    with drives_serve.prems(2) have eq: "req = ValidateRedirectReq cid uri" "resp = Trusted t" "log = []" by simp_all
    have ok: "gh_ok g w" using drives_serve.prems(1) by (simp add: orderly_def)
    let ?Q = "\<lambda>resp xs log. log = [] \<and> (\<forall>t. resp = Trusted t \<longrightarrow>
      (\<exists>c client. Mem_GetClient c (gh_view g w) = Inr client \<and> tr_uri t \<in> set (cl_RedirectURIs client) \<and>
        validRedirectURI (tr_uri t) True))"
    have "\<exists>log. acts g policy ys log w w1 \<and> ?Q resp ys log"
      by (rule served_traces [where m = "Engine_ValidateRedirect (hs_engine s) cid uri" and f = "respond Trusted",
          OF traces_mono [OF validate_redirect_traces] ok _ drives_serve.hyps(1)])
        (auto simp: respond_def eq(1) split: sum.splits)
    then obtain l where acts: "acts g policy ys l w w1" and q: "?Q resp ys l" by blast
    from q have "l = []" by (rule conjunct1)
    with acts have "gh_view g w1 = gh_view g w" by (simp add: acts_run)
    moreover from q eq(2) have "\<exists>c client. Mem_GetClient c (gh_view g w) = Inr client \<and>
        tr_uri t \<in> set (cl_RedirectURIs client) \<and> validRedirectURI (tr_uri t) True" by blast
    ultimately show ?thesis using drives_none_view [OF drives_serve.hyps(2) eq(3)] by simp
  next
    case (Cons entry log1)
    with drives_serve.prems(2) have "log = log1 @ [(ValidateRedirectReq cid uri, Trusted t, xs)]" by simp
    with drives_serve.IH [OF served_orderly [OF drives_serve.prems(1) drives_serve.hyps(1)]] show ?thesis by blast
  qed
qed simp

end

lemma safe_redirect_tagged [simp]: "safe_redirect s (tagged r rid) = safe_redirect s r"
  by (simp add: safe_redirect_def fun_eq_iff)

text \<open>C15. Where the authorization endpoint redirects.  A redirect of the authorization endpoint goes to a
  destination that the application's login starter returned, or else it carries a public error to a
  redirect URI that is valid and registered for some client: never to a URI of the request alone.\<close>

theorem authorize_redirects_safely:
  assumes "http_world s g" and "gh_ok g w" and "maps_wf (gh_view g w)" and "records_wf (gh_view g w)"
    and "rq_Path r = ''/oauth/authorize''"
    and "http_call rand sysnow s authenticator (Endpoint r) (w, x) = (wr, (w', x'))" and "response_status wr = 302"
  shows "\<exists>dest. sent_header wr ''Location'' = [hexEscapeNonASCII (redirect_target r dest)] \<and>
    (login_destination s dest \<or>
     (\<exists>cid client uri st err. Mem_GetClient cid (gh_view g w') = Inr client \<and> uri \<in> set (cl_RedirectURIs client) \<and>
        validRedirectURI uri True \<and> public_error err \<and> error_destination uri st err = Some dest))"
proof -
  have w: "engine_world.orderly g w" using assms(2-4) http_orderly_iff [OF assms(1)] by simp
  have m: "gm_get (endpoint_specs s) (rq_Path r) = Some (authorize_spec s)"
    using assms(5) by (simp add: endpoint_specs_def)
  from http_call_spec [OF m assms(6)] obtain rid rep where
    spec: "run_state (mounted_spec rand sysnow s (authorize_spec s) r) (w, x) = ((rid, rep), (w', x'))"
    and ans: "rep = CrashReply \<and> rw_Panic wr \<noteq> None \<or>
      Http_Spec.answered rep (protects r (identified rid new_writer)) wr" by blast
  from mounted_run [OF spec] obtain x1 x2 where run: "run_state (authorize_spec s (tagged r rid)) (w, x1) = (rep, (w', x2))"
    by blast
  from http_world.leadsD [OF assms(1) http_world.authorize_safe [OF assms(1)] w run] obtain log where
    log: "drives (hs_engine s) g w log w'" "safe_redirect s r rep log" by auto
  from http_world.leadsD [OF assms(1) http_world.authorize_leads [OF assms(1), of "tagged r rid"] w run] assms(5)
  have "rep \<noteq> CrashReply" by (auto simp: faithful_def)
  with ans have a: "Http_Spec.answered rep (protects r (identified rid new_writer)) wr" by simp
  from answered_status [OF a \<open>rep \<noteq> CrashReply\<close>] assms(7) have "reply_status rep = 302" by simp
  with log(2) obtain dest where
    dest: "rep = RedirectReply (redirect_target r dest)" and origin: "login_destination s dest \<or>
      (\<exists>log0 cid uri t xs st err. log = log0 @ [(ValidateRedirectReq cid uri, Trusted t, xs)] \<and>
         public_error err \<and> error_destination (tr_uri t) st err = Some dest)"
    unfolding safe_redirect_def by blast
  from a dest have location: "sent_header wr ''Location'' = [hexEscapeNonASCII (redirect_target r dest)]"
    by (simp add: Http_Spec.answered_def)
  from origin show ?thesis
  proof
    assume "login_destination s dest"
    with location show ?thesis by blast
  next
    assume "\<exists>log0 cid uri t xs st err. log = log0 @ [(ValidateRedirectReq cid uri, Trusted t, xs)] \<and>
      public_error err \<and> error_destination (tr_uri t) st err = Some dest"
    then obtain log0 cid uri t xs st err where last: "log = log0 @ [(ValidateRedirectReq cid uri, Trusted t, xs)]"
      and err: "public_error err" "error_destination (tr_uri t) st err = Some dest" by (elim exE conjE)
    obtain c client where "Mem_GetClient c (gh_view g w') = Inr client" "tr_uri t \<in> set (cl_RedirectURIs client)"
      "validRedirectURI (tr_uri t) True"
      using http_world.drives_trusted [OF assms(1) log(1) w last] by (elim exE conjE)
    with location err show ?thesis by (intro exI [of _ dest] conjI disjI2 exI) assumption+
  qed
qed

text \<open>A server whose application starts a login at a fixed page.\<close>

definition demo_starter :: "unit LoginStarter" where
  "demo_starter ctx context = State_Monad.return (Inr ''https://login.test/'')"

definition demo_login_server :: "(unit World, unit, unit) HttpServer" where
  "demo_login_server = fixture_server demo_engine (Some demo_starter) None"

definition demo_authorize_request :: Request where
  "demo_authorize_request = \<lparr>rq_Method = ''GET'', rq_Path = ''/oauth/authorize'',
     rq_RawQuery = ''client_id='' @ demo_secret ''client'' (CHR ''1'') @
       ''&redirect_uri=https%3A%2F%2Fapp.test%2Fcb&response_type=code&state=xyz&code_challenge='' @
       ''GRu3eXUpUrCBjfR4N39PZ2b1nrpvUKlkPmAeGlnZnSc&code_challenge_method=S256&scope=read'' @
       ''&resource=https%3A%2F%2Fapi.test'',
     rq_Header = [], rq_Body = Inr [], rq_Context = None\<rparr>"

lemma demo_query_parses:
  "map_option authorize_input (case authorizationQuery demo_login_server demo_authorize_request of
     Inl _ \<Rightarrow> None | Inr query \<Rightarrow> Some query) = Some demo_authorization"
  by code_simp

lemma demo_login_web: "http_world demo_login_server world_ghost"
  unfolding demo_login_server_def demo_engine_def by (rule web.http_world_axioms)

lemma demo_login_simps [simp]: "hs_engine demo_login_server = demo_engine" "hs_observer demo_login_server = None"
  "hs_login demo_login_server = Some demo_starter"
  by (simp_all add: demo_login_server_def fixture_server_def)

theorem authorize_redirects_safely_witness:
  "\<exists>wr y dest. http_call no_entropy demo_now demo_login_server demo_callback (Endpoint demo_authorize_request)
       (demo_at 1, ()) = (wr, y) \<and> response_status wr = 302 \<and>
     sent_header wr ''Location'' = [hexEscapeNonASCII (redirect_target demo_authorize_request dest)]"
proof -
  obtain result w1 where run: "run_state (Engine_BeginAuthorization demo_engine None demo_authorization) (demo_at 1) = (Inr result, w1)"
    using demo_run(2) by blast
  obtain query where query: "authorizationQuery demo_login_server demo_authorize_request = Inr query"
    "authorize_input query = demo_authorization"
    using demo_query_parses by (auto split: sum.splits)
  have r: "rq_Method demo_authorize_request = ''GET''" "rq_Path demo_authorize_request = ''/oauth/authorize''"
    "rq_Context demo_authorize_request = None" "rq_Header demo_authorize_request = []"
    by (simp_all add: demo_authorize_request_def)
  obtain wr w' where call: "http_call no_entropy demo_now demo_login_server demo_callback (Endpoint demo_authorize_request)
      (demo_at 1, ()) = (wr, (w', ()))" by (metis old.unit.exhaust prod.exhaust)
  have m: "gm_get (endpoint_specs demo_login_server) (rq_Path demo_authorize_request) = Some (authorize_spec demo_login_server)"
    by (simp add: endpoint_specs_def r)
  have "\<exists>url. run_state (mounted_spec no_entropy demo_now demo_login_server (authorize_spec demo_login_server)
      demo_authorize_request) (demo_at 1, ()) = (([], RedirectReply url), (w1, ()))"
    by (simp add: mounted_spec_def observed_spec_def consult_def no_id State_Monad.bind_def r Header_Get_def Header_Values_def
        Correlation_Header_def ValidID_def MinIDLength_def id_or_empty_def tagged_def authorize_spec_def query
        ask_def run [simplified] begun_spec_def login_spec_def demo_starter_def)
  with http_call_spec [OF m call] have status: "response_status wr = 302"
    by (auto dest: answered_status)
  from authorize_redirects_safely [OF demo_login_web _ _ _ r(2) call status] call status show ?thesis
    by (auto simp: demo_orderly)
qed

section \<open>Errors that go back to the client\<close>

text \<open>C16. The error redirect.  When the endpoint reports an error to a redirect URI, the destination
  differs from it in the query only: the query decodes to the code and the description of the public
  view of the error and to the state of the request, each once, whatever the redirect URI had under
  these names, and to the other parameters of the redirect URI as they were; nothing else of the error,
  such as its cause, has an effect on it.\<close>

theorem error_redirect_carries:
  assumes "error_destination redirect state_text err = Some dest"
    and "public_view ''authorization is temporarily unavailable'' err = (code, description, status)"
  shows "\<exists>u q. url_Parse redirect = Some u \<and> dest = url_String (u\<lparr>url_RawQuery := q\<rparr>) \<and>
    values_of (decode_query q) ''error'' = [error_code_text code] \<and>
    values_of (decode_query q) ''error_description'' = [description] \<and>
    values_of (decode_query q) ''state'' = [state_text] \<and>
    (\<forall>k. k \<in> {''error'', ''error_description'', ''state''} \<or>
       values_of (decode_query q) k = values_of (parse_query (url_RawQuery u)) k) \<and>
    (\<forall>err'. public_view ''authorization is temporarily unavailable'' err' = (code, description, status) \<longrightarrow>
       error_destination redirect state_text err' = Some dest)"
proof -
  obtain u where u: "url_Parse redirect = Some u"
    using assms by (auto simp: error_destination_def)
  let ?m = "Values_Set ''state'' state_text (Values_Set ''error_description'' description
    (Values_Set ''error'' (error_code_text code) (parse_query (url_RawQuery u))))"
  have dest: "dest = url_String (u\<lparr>url_RawQuery := Values_Encode ?m\<rparr>)"
    using assms u by (simp add: error_destination_def)
  have wf: "gm_wf ?m" by simp
  show ?thesis
    using assms u dest
    by (intro exI [of _ u] exI [of _ "Values_Encode ?m"])
      (simp add: decode_query_Encode [OF wf] error_destination_def)
qed

theorem error_redirect_carries_witness:
  "\<exists>u q. url_Parse ''https://app.test/cb?tenant=a&state=old'' = Some u \<and>
     values_of (decode_query q) ''error'' = [''access_denied''] \<and> values_of (decode_query q) ''state'' = [''x y'']"
proof -
  let ?err = "OAuthError ErrorAccessDenied ''denied'' 400 (Some ErrBinding)"
  have "url_Parse ''https://app.test/cb?tenant=a&state=old'' \<noteq> None" by code_simp
  then obtain u where "url_Parse ''https://app.test/cb?tenant=a&state=old'' = Some u" by blast
  then have "\<exists>dest. error_destination ''https://app.test/cb?tenant=a&state=old'' ''x y'' ?err = Some dest"
    by (simp add: error_destination_def public_view_def)
  then obtain dest where d: "error_destination ''https://app.test/cb?tenant=a&state=old'' ''x y'' ?err = Some dest" by blast
  have "public_view ''authorization is temporarily unavailable'' ?err = (ErrorAccessDenied, ''denied'', 400)"
    by (simp add: public_view_def)
  from error_redirect_carries [OF d this] show ?thesis by auto
qed

end
