(* ===== verification/Consent_Properties.thy ===== *)
theory Consent_Properties
  imports Consent_Page
begin

text \<open>
  The consent page shows values of clients and principals: they cannot change its markup, and a
  browser reads them back as they are.
\<close>

section \<open>Escaping\<close>

text \<open>The characters that open or close a tag or a quoted attribute.\<close>

definition markup_char :: "char \<Rightarrow> bool" where
  "markup_char c \<longleftrightarrow> c \<in> {CHR ''<'', CHR ''>'', CHR 0x22, CHR 0x27}"

definition markup :: "string \<Rightarrow> string" where
  "markup s = filter markup_char s"

lemma markup_append [simp]: "markup (s @ t) = markup s @ markup t"
  by (simp add: markup_def)

lemma markup_concat: "markup (concat ss) = concat (map markup ss)"
  by (induction ss) (simp_all add: markup_def)

lemma template_char_inert: "\<not> markup_char c' \<or> c' \<notin> set (template_char c)"
  by (auto simp: template_char_def markup_char_def replacement_rune_def)

lemma markup_escape [simp]: "markup (template_escape s) = []"
  using template_char_inert by (auto simp: markup_def template_escape_def filter_empty_conv)

text \<open>How HTML reads a text: the six character references that the escaping writes.\<close>

definition references :: "(string \<times> char) list" where
  "references = [(''&#34;'', CHR 0x22), (''&#39;'', CHR 0x27), (''&#43;'', CHR ''+''), (''&amp;'', CHR ''&''),
     (''&lt;'', CHR ''<''), (''&gt;'', CHR ''>'')]"

definition reference_at :: "string \<Rightarrow> (string \<times> char) option" where
  "reference_at s = find (\<lambda>(r, c). take (length r) s = r) references"

fun html_text :: "string \<Rightarrow> string" where
  "html_text [] = []"
| "html_text (c # s) =
     (case reference_at (c # s) of
        None \<Rightarrow> c # html_text s
      | Some (r, d) \<Rightarrow> d # html_text (drop (length r - 1) s))"

lemma html_text_char: "c \<noteq> CHR 0x00 \<Longrightarrow> html_text (template_char c @ s) = c # html_text s"
  by (auto simp: template_char_def reference_at_def references_def)

lemma html_text_escape: "CHR 0x00 \<notin> set s \<Longrightarrow> html_text (template_escape s) = s"
  by (induction s) (auto simp: template_escape_def html_text_char)

section \<open>The page\<close>

text \<open>A view without texts.\<close>

definition blank_view :: "nat \<Rightarrow> ConsentViewData" where
  "blank_view n = \<lparr>cv_Token = [], cv_ResourceName = [], cv_PrincipalName = [], cv_PrincipalEmail = [], cv_ClientName = [],
     cv_ClientTrust = [], cv_RedirectOrigin = [], cv_RedirectURI = [], cv_AccessTokenTTL = 0, cv_AuthorizationEnds = 0,
     cv_Scopes = replicate n \<lparr>csc_Scope = [], csc_Description = []\<rparr>\<rparr>"

lemma markup_scope: "markup (page_scope scope) = markup (page_scope \<lparr>csc_Scope = [], csc_Description = []\<rparr>)"
  unfolding page_scope_def markup_append markup_escape by (rule refl)

lemma markup_page:
  "map (markup \<circ> page_scope) (cv_Scopes view) = map (markup \<circ> page_scope) (cv_Scopes view') \<Longrightarrow>
   markup (consentPage view) = markup (consentPage view')"
  unfolding consentPage_def markup_append markup_escape markup_concat map_map by (simp only:)

lemma map_blank: "(\<And>x. f x = f y) \<Longrightarrow> map f xs = map f (replicate (length xs) y)"
proof -
  assume const: "\<And>x. f x = f y"
  have "map f xs = replicate (length xs) (f y)" 
  proof (induction xs)
    case (Cons x xs)
    with const [of x] show ?case by simp
  qed simp
  then show ?thesis by simp
qed

text \<open>C17. The consent page is inert.  Whatever the client, the principal, the token or the scopes are
  called, the page has the tags and the quotation marks of a page without any text and with as many
  scopes, so that no value opens a tag or leaves its attribute; and each value, unless it contains a
  NUL, is read by a browser as it was.\<close>

theorem consent_page_inert:
  "markup (consentPage view) = markup (consentPage (blank_view (length (cv_Scopes view)))) \<and>
   (\<forall>s. CHR 0x00 \<notin> set s \<longrightarrow> html_text (template_escape s) = s)"
proof -
  have "map (markup \<circ> page_scope) (cv_Scopes view) =
      map (markup \<circ> page_scope) (replicate (length (cv_Scopes view)) \<lparr>csc_Scope = [], csc_Description = []\<rparr>)"
    by (rule map_blank, unfold o_def, rule markup_scope)
  then have "markup (consentPage view) = markup (consentPage (blank_view (length (cv_Scopes view))))"
    by (intro markup_page) (simp only: blank_view_def ConsentViewData.simps)
  then show ?thesis using html_text_escape by blast
qed

definition hostile_view :: ConsentViewData where
  "hostile_view = (blank_view 1)\<lparr>cv_ClientName := ''</h1><script>alert(1)</script>''\<rparr>"

theorem consent_page_inert_witness:
  "markup (consentPage hostile_view) = markup (consentPage (blank_view 1)) \<and>
   html_text (template_escape ''</h1><script>alert(1)</script>'') = ''</h1><script>alert(1)</script>''"
proof -
  have "length (cv_Scopes hostile_view) = 1" by (simp add: hostile_view_def blank_view_def)
  with consent_page_inert [of hostile_view] show ?thesis by (simp del: One_nat_def)
qed

end
