(* ===== verification/Resource_Properties.thy ===== *)
theory Resource_Properties
  imports Jwt_Properties Resource_Server
begin

text \<open>
  The resource server's side: an access token that the token service issued, sent as a bearer token,
  is the one that is verified.
\<close>

section \<open>Bearer tokens\<close>

text \<open>A bearer token is the second of exactly two fields of the only authorization header.\<close>

lemma BearerToken_iff:
  "BearerToken r = Inr token \<longleftrightarrow>
     (\<exists>v scheme. Header_Values (rq_Header r) ''Authorization'' = [v] \<and> Fields v = [scheme, token] \<and>
        EqualFold scheme ''Bearer'' \<and> token \<noteq> [] \<and> \<not> ContainsAny token [CHR 0x0D, CHR 0x0A])"
  by (auto simp: BearerToken_def split: list.splits if_splits)

lemma graphic_line: "\<forall>c \<in> set token. graphic c \<Longrightarrow> \<not> ContainsAny token [CHR 0x0D, CHR 0x0A]"
  by (auto simp: ContainsAny_def list_ex_iff graphic_def)

lemma graphic_lower: "graphic (ascii_lower c) \<Longrightarrow> graphic c"
  using of_nat_of_char [where 'a = int, of c, symmetric]
  by (auto simp: ascii_lower_def graphic_def Let_def split: if_splits)

lemma bearer_scheme:
  assumes "EqualFold scheme ''Bearer''"
  shows "scheme \<noteq> [] \<and> (\<forall>c \<in> set scheme. graphic c)"
proof -
  have lower: "map ascii_lower scheme = ''bearer''"
  proof -
    have "map ascii_lower ''Bearer'' = ''bearer''" by code_simp
    with assms show ?thesis by (simp add: EqualFold_def)
  qed
  then have "\<forall>c \<in> set (map ascii_lower scheme). graphic c" by (simp add: graphic_def)
  moreover have "scheme \<noteq> []" using lower by auto
  ultimately show ?thesis by (auto intro: graphic_lower)
qed

lemma BearerToken_sent:
  assumes "Header_Values (rq_Header r) ''Authorization'' = [scheme @ '' '' @ token]" and "EqualFold scheme ''Bearer''"
    and "token \<noteq> []" and "\<forall>c \<in> set token. graphic c"
  shows "BearerToken r = Inr token"
  using assms Fields_Join [of "[scheme, token]"] bearer_scheme [OF assms(2)] graphic_line [OF assms(4)]
  by (simp add: BearerToken_iff)

section \<open>From the token service to the resource server\<close>

text \<open>C18. An issued token authenticates.  The access token that the service issued for a grant, sent in the
  only authorization header of a request after the word Bearer, however that is capitalised, is accepted
  by the resource of the grant at every time from the issue until the last second before the expiry, and
  yields the subject, the client, the scopes and the issuer of the grant; without such a header, or with
  two, nothing is verified and the request is refused.\<close>

theorem issued_token_authenticates:
  assumes "jose_laws jo" and "fills_buffers rand" and "Jwt_New systemClock config = Inr s"
    and "plain_service s" and "proper_grant grant"
    and "run_state (Jwt_IssueAccessToken jo rand s ctx grant) w = (Inr token, w')"
    and "run_state (js_clock s) v = (now, v')"
    and "ag_IssuedAt grant \<le> now" and "now + second \<le> ag_ExpiresAt grant"
    and "ia_Value token \<noteq> []" and "\<forall>c \<in> set (ia_Value token). graphic c" and "EqualFold scheme ''Bearer''"
  shows "\<exists>t.
    (\<forall>r. Header_Values (rq_Header r) ''Authorization'' = [scheme @ '' '' @ ia_Value token] \<longrightarrow>
       run_state (Authenticate (rq_Context r) (\<lambda>ctx raw resource. Jwt_VerifyAccessToken jo s raw resource) (ag_Resource grant) r) v =
         (Inr t, v')) \<and>
    (\<forall>r. length (Header_Values (rq_Header r) ''Authorization'') \<noteq> 1 \<longrightarrow>
       run_state (Authenticate (rq_Context r) (\<lambda>ctx raw resource. Jwt_VerifyAccessToken jo s raw resource) (ag_Resource grant) r) v =
         (Inl bearer_missing, v)) \<and>
    va_Subject t = p_Subject (ag_Principal grant) \<and> va_ClientID t = ag_ClientID grant \<and>
    va_Scopes t = ag_Scopes grant \<and> va_Resource t = ag_Resource grant \<and> va_Issuer t = js_issuer s \<and>
    va_IssuedAt t \<le> ag_IssuedAt grant \<and> ag_IssuedAt grant < va_IssuedAt t + second \<and>
    va_ExpiresAt t \<le> ia_ExpiresAt token \<and> ia_ExpiresAt token < va_ExpiresAt t + second"
proof -
  obtain t where t: "run_state (Jwt_VerifyAccessToken jo s (ia_Value token) (ag_Resource grant)) v = (Inr t, v')"
    "va_Subject t = p_Subject (ag_Principal grant) \<and> va_ClientID t = ag_ClientID grant \<and>
     va_Scopes t = ag_Scopes grant \<and> va_Resource t = ag_Resource grant \<and> va_Issuer t = js_issuer s \<and>
     va_IssuedAt t \<le> ag_IssuedAt grant \<and> ag_IssuedAt grant < va_IssuedAt t + second \<and>
     va_ExpiresAt t \<le> ia_ExpiresAt token \<and> ia_ExpiresAt token < va_ExpiresAt t + second"
    using jwt_roundtrip [OF assms(1-9)] by blast
  have "run_state (Authenticate (rq_Context r) (\<lambda>ctx raw resource. Jwt_VerifyAccessToken jo s raw resource) (ag_Resource grant) r) v =
      (Inr t, v')" if "Header_Values (rq_Header r) ''Authorization'' = [scheme @ '' '' @ ia_Value token]" for r
    using BearerToken_sent [OF that assms(12,10,11)] t(1) by (simp add: Authenticate_def)
  moreover have "run_state (Authenticate (rq_Context r) (\<lambda>ctx raw resource. Jwt_VerifyAccessToken jo s raw resource)
      (ag_Resource grant) r) v = (Inl bearer_missing, v)" if "length (Header_Values (rq_Header r) ''Authorization'') \<noteq> 1" for r
    using that by (auto simp: Authenticate_def BearerToken_def split: list.split)
  ultimately show ?thesis using t(2) by blast
qed

definition jwt_request :: Request where
  "jwt_request = \<lparr>rq_Method = ''GET'', rq_Path = ''/'', rq_RawQuery = [],
     rq_Header = [(''Authorization'', [''bearer demo.access.token''])], rq_Body = Inr [], rq_Context = None\<rparr>"

theorem issued_token_authenticates_witness:
  "\<exists>t. run_state (Authenticate None (\<lambda>ctx raw resource. Jwt_VerifyAccessToken jwt_jose jwt_service raw resource)
       ''https://api.test'' jwt_request) (second * 50) = (Inr t, second * 50) \<and>
     va_Subject t = ''alice'' \<and> va_Scopes t = ScopeSet [''read'']"
proof -
  have "fills_buffers jwt_entropy" by (simp add: fills_buffers_def jwt_entropy_def)
  moreover have "plain_service jwt_service"
    by (simp add: plain_service_def jwt_service_def jwt_texts provided_claims_def plain_claims_def)
  moreover have "proper_grant jwt_grant"
    using jwt_texts unfolding proper_grant_def jwt_grant_def by (simp add: second_def del: identifierPattern.simps)
  moreover have "run_state (js_clock jwt_service) (second * 50) = (second * 50, second * 50)"
    by (simp add: jwt_service_def jwt_clock_def)
  moreover have "ag_IssuedAt jwt_grant \<le> second * 50" "second * 50 + second \<le> ag_ExpiresAt jwt_grant"
    by (simp_all add: jwt_grant_def second_def)
  moreover have "EqualFold ''bearer'' ''Bearer''" by code_simp
  moreover have "\<forall>c \<in> set ''demo.access.token''. graphic c" by (simp add: graphic_def)
  moreover have "Header_Values (rq_Header jwt_request) ''Authorization'' = [''bearer'' @ '' '' @ ''demo.access.token'']"
    "rq_Context jwt_request = None"
    by (simp_all add: jwt_request_def Header_Values_def)
  moreover have "ag_Resource jwt_grant = ''https://api.test''" "p_Subject (ag_Principal jwt_grant) = ''alice''"
    "ag_Scopes jwt_grant = ScopeSet [''read'']"
    by (simp_all add: jwt_grant_def)
  ultimately show ?thesis
    using issued_token_authenticates [OF jwt_jose_laws _ jwt_service_new _ _ jwt_issued, of "second * 50" "second * 50" "second * 50"
      "''bearer''"] by fastforce
qed

end
