(* ===== verification/Json_Shorter.thy ===== *)
theory Json_Shorter
  imports Json_Text
begin

section \<open>The scanner consumes\<close>

lemma scan_string_shorter: "scan_string s = Some (t, r) \<Longrightarrow> length r < length s"
proof (induction s arbitrary: t r rule: scan_string.induct)
  case (2 c s)
  show ?case
  proof (cases "c = CHR 0x5C")
    case False
    with 2 show ?thesis by (auto split: if_splits intro: less_SucI)
  next
    case True
    with 2(4) obtain e u where s: "s = e # u" by (auto split: list.splits)
    show ?thesis
    proof (cases "e = CHR ''u''")
      case e: True
      with 2(4) True s obtain q n t' where "scan_string (drop n u) = Some (t', r)" "unicode_escape u = Some (q, n)"
        by (auto split: option.splits)
      with 2(1) [of e u "(q, n)" q n] True s e have "length r < length (drop n u)" by simp
      then show ?thesis by (simp add: s)
    next
      case e: False
      with 2(4) True s obtain q t' where "scan_string u = Some (t', r)" "simple_escape e = Some q"
        by (auto split: option.splits)
      with 2(2) [of e u q] True s e have "length r < length u" by simp
      then show ?thesis by (simp add: s)
    qed
  qed
qed simp

lemma digits_of_length: "digits_of s = (ds, r) \<Longrightarrow> length s = length ds + length r"
  by (auto simp: digits_of_def) (metis length_append takeWhile_dropWhile_id)

lemma scan_fraction_length: "scan_fraction s = Some r \<Longrightarrow> length r \<le> length s"
  by (auto simp: scan_fraction_def split: list.splits if_splits prod.splits dest!: digits_of_length)

lemma drop_sign_length: "length (drop_sign t) \<le> length t"
  by (simp add: drop_sign_def split: list.split)

lemma scan_exponent_length: "scan_exponent s = Some r \<Longrightarrow> length r \<le> length s"
proof (cases s)
  case (Cons c t)
  assume "scan_exponent s = Some r"
  with Cons show ?thesis
    using drop_sign_length [of t] digits_of_length [of "drop_sign t"]
    by (cases "digits_of (drop_sign t)") (auto simp: scan_exponent_def split: if_splits)
qed (simp add: scan_exponent_def)

lemma scan_integer_length: "scan_integer s = Some r \<Longrightarrow> length r < length s"
proof -
  assume "scan_integer s = Some r"
  moreover obtain ds r' where ds: "digits_of s = (ds, r')" by fastforce
  ultimately show ?thesis
    using digits_of_length [OF ds] by (cases s; cases ds) (auto simp: scan_integer_def split: if_splits)
qed

lemma scan_number_shorter: "scan_number s = Some (t, r) \<Longrightarrow> length r < length s"
proof -
  assume n: "scan_number s = Some (t, r)"
  let ?s = "if take 1 s = ''-'' then tl s else s"
  obtain r1 r2 where r: "scan_integer ?s = Some r1" "scan_fraction r1 = Some r2" "scan_exponent r2 = Some r"
    using n by (auto simp: scan_number_def split: option.splits)
  have "length ?s \<le> length s" by simp
  with scan_integer_length [OF r(1)] scan_fraction_length [OF r(2)] scan_exponent_length [OF r(3)]
  show ?thesis by linarith
qed

lemma scan_plain_shorter: "s \<noteq> [] \<Longrightarrow> scan_plain s = Some (v, r) \<Longrightarrow> length r < length s"
  by (auto simp: scan_plain_def literals_def split: option.splits if_splits dest: scan_number_shorter)

text \<open>So the tests of the length in \<open>parse_members\<close> and \<open>parse_elements\<close> never fail.\<close>

declare parse_elements.simps [simp del]

lemma parse_shorter:
  "parse_value d s = Some (v, r) \<Longrightarrow> length r < length s"
  "parse_members d s = Some (ms, r) \<Longrightarrow> length r < length s"
  "parse_elements d s = Some (xs, r) \<Longrightarrow> length r < length s"
proof (induction d s and d s and d s arbitrary: v r and ms r and xs r
    rule: parse_value_parse_members_parse_elements.induct)
  case (2 d c s)
  note skip = skip_space_length [of s]
  show ?case
  proof (cases "c \<in> {CHR 0x22, CHR ''{'', CHR ''[''}")
    case False
    with 2(3) have "scan_plain (c # s) = Some (v, r)" by simp
    then show ?thesis using scan_plain_shorter [of "c # s" v r] by simp
  next
    case True
    then consider (string) t where "scan_string s = Some (t, r)" | (empty) "r = tl (skip_space s)"
      | (members) ms where "c = CHR ''{''" "\<not> max_depth \<le> d" "take 1 (skip_space s) \<noteq> ''}''"
          "parse_members (Suc d) (skip_space s) = Some (ms, r)"
      | (elements) xs where "c = CHR ''[''" "\<not> max_depth \<le> d" "take 1 (skip_space s) \<noteq> '']''"
          "parse_elements (Suc d) (skip_space s) = Some (xs, r)"
      using 2(3) by (auto split: if_splits)
    then show ?thesis
    proof cases
      case string
      then show ?thesis by (simp add: scan_string_shorter less_SucI)
    next
      case empty
      with skip show ?thesis by simp
    next
      case members
      then have "length r < length (skip_space s)" using 2(1) by simp
      with skip show ?thesis by simp
    next
      case elements
      then have "length r < length (skip_space s)" using 2(2) by simp
      with skip show ?thesis by simp
    qed
  qed
next
  case (4 d c s)
  obtain key q colon t v q2 e t2 where m: "c = CHR 0x22" "scan_string s = Some (key, q)"
    "skip_space q = colon # t" "\<not> (colon \<noteq> CHR '':'' \<or> length s < length t)"
    "parse_value d (skip_space t) = Some (v, q2)" "skip_space q2 = e # t2" "\<not> length s < length t2"
    and out: "e = CHR ''}'' \<and> r = t2 \<or> e = CHR '','' \<and> (\<exists>ms'. parse_members d (skip_space t2) = Some (ms', r))"
    using 4(3) by (auto split: if_splits option.splits list.splits prod.splits)
  from out show ?case
  proof
    assume "e = CHR ''}'' \<and> r = t2"
    with m(7) show ?thesis by simp
  next
    assume "e = CHR '','' \<and> (\<exists>ms'. parse_members d (skip_space t2) = Some (ms', r))"
    then obtain ms' where e: "e = CHR '',''" "parse_members d (skip_space t2) = Some (ms', r)" by blast
    have "length r < length (skip_space t2)"
      by (rule 4(2) [OF _ m(2) refl m(3,4,5) refl m(6,7) _ e(1) e(2)]) (use m(1) e(1) in auto)
    with skip_space_length [of t2] m(7) show ?thesis by simp
  qed
next
  case (5 d s)
  obtain v q e t where m: "parse_value d s = Some (v, q)" "skip_space q = e # t" "\<not> length s \<le> length t"
    and out: "e = CHR '']'' \<and> r = t \<or> e = CHR '','' \<and> (\<exists>xs'. parse_elements d (skip_space t) = Some (xs', r))"
    using 5(3) unfolding parse_elements.simps [of d s]
    by (auto split: if_splits option.splits list.splits prod.splits)
  from out show ?case
  proof
    assume "e = CHR '']'' \<and> r = t"
    with m(3) show ?thesis by simp
  next
    assume "e = CHR '','' \<and> (\<exists>xs'. parse_elements d (skip_space t) = Some (xs', r))"
    then obtain xs' where e: "e = CHR '',''" "parse_elements d (skip_space t) = Some (xs', r)" by blast
    have "length r < length (skip_space t)"
      by (rule 5(2) [OF m(1) refl m(2,3) _ e(1) e(2)]) (use e(1) in auto)
    with skip_space_length [of t] m(3) show ?thesis by simp
  qed
qed simp_all

end
