(* ===== verification/Spec2Isabelle.thy ===== *)
theory Spec2Isabelle
  imports Core_Properties Store_Properties System_Properties Redirect_Origin Secrets_Source Sqlite_Properties Jwt_Properties
    Http_Redirects Consent_Properties Resource_Properties Json_Shorter
begin

text \<open>
  Verification of \<open>oh-auth\<close>, an OAuth 2.1 authorization server for Go programs.

  \<^bold>\<open>The program.\<close>  \<open>pkg/oauthserver\<close> is the protocol engine.  It knows nothing of HTTP or of a
  database: it is built by \<open>New\<close> from a configuration and from dependencies behind interfaces
  (\<open>ports.go\<close>) for the store, the resource registry, the scope policy, the revalidation of identities,
  the access tokens, the credential source, the clock and the audit log.  A flow is a chain of records,
  each consumed once: an authorization transaction (\<open>BeginAuthorization\<close>), a consent session
  (\<open>CompleteLogin\<close>), an authorization code (\<open>DecideConsent\<close>) and a family of refresh grants
  (\<open>ExchangeCode\<close>, \<open>Refresh\<close>, \<open>Revoke\<close>).  The store checks every transition once more
  (\<open>transitions.go\<close>), in its mutex (\<open>pkg/memorytest\<close>) or in an SQL transaction (\<open>pkg/sqlitestore\<close>).
  \<open>pkg/jwttokens\<close> issues and verifies the access tokens, \<open>pkg/httptransport\<close> turns HTTP requests into
  requests to the engine and its answers into responses, \<open>pkg/oauthresource\<close> is the resource server's
  side, and \<open>pkg/correlation\<close> names requests for the audit log.

  \<^bold>\<open>Conventions.\<close>  A Go string is a list of bytes, a \<open>time.Time\<close> a number of nanoseconds since the zero
  time, a \<open>time.Duration\<close> a \<open>64 word\<close>, a map an association list with distinct keys in one of the orders
  in which Go may range over it.  An error is a value of \<open>go_error\<close>, a function with an error result
  returns \<open>go_error + 'a\<close>, and \<open>GoPanic\<close> is a run-time panic.  An operation with effects is a state
  transformer over a world that holds whatever the dependencies keep.  Theory \<open>Prelude\<close> has this
  vocabulary with the rules of weakest preconditions, \<open>Result_State\<close> the early returns.

  \<^bold>\<open>The theories and the code.\<close>
  \<^item> The standard library, as far as it is used: \<open>Go_Strings\<close>, \<open>Go_Format\<close>, \<open>Go_Url\<close>, \<open>Go_Time\<close>,
    \<open>Go_Crypto\<close> (base64 and SHA-256, computed), \<open>Go_Mime\<close>, \<open>Go_Http\<close>, \<open>Json_Value\<close> and \<open>Json\<close> (records
    as JSON trees), \<open>Json_Text\<close> (the scanner of a decoder).
  \<^item> \<open>pkg/oauthserver\<close>: \<open>Errors\<close> (errors.go), \<open>Identifiers\<close> (identifiers.go), \<open>Scopes\<close> (scopes.go), \<open>Model\<close>
    (model.go and the data of config.go, ports.go, engine.go), \<open>Config\<close> (config.go), \<open>Registry\<close>
    (registry.go), \<open>Transitions\<close> (transitions.go), \<open>Ports\<close> (the interfaces of ports.go as records of
    methods), \<open>Engine\<close> (engine.go: \<open>New\<close> and the nine operations, with every early return and audit
    record), \<open>Secrets_Source\<close> (secrets.go).
  \<^item> \<open>pkg/memorytest\<close>: \<open>Memory_Store\<close> (store.go), \<open>Fixtures\<close> (fixtures.go, over the record \<open>World\<close>).
  \<^item> \<open>pkg/sqlitestore/store.go\<close>: \<open>Sql\<close> (five tables, one connection, a statement that may fail or be
    refused at any point), \<open>Sqlite_Rows\<close> (the payloads), \<open>Sqlite_Store\<close> (the methods, statement by
    statement), \<open>Sqlite_Schema\<close> (opening, migration, diagnostics).
  \<^item> \<open>pkg/jwttokens/service.go\<close>: \<open>Jwt\<close>.  \<open>pkg/correlation\<close>: \<open>Correlation\<close>.  \<open>pkg/oauthresource\<close>:
    \<open>Resource_Server\<close>.
  \<^item> \<open>pkg/httptransport\<close>: \<open>Registration\<close> (the body of a registration), \<open>Consent_Page\<close> (the page and its
    style sheet), \<open>Http_Correlation\<close> (correlation.go) and \<open>Http_Server\<close> (server.go).

  \<^bold>\<open>The lemmas.\<close>
  \<^item> \<open>Core_Properties\<close>, \<open>Redirects\<close>, \<open>Redirect_Origin\<close>, \<open>Secrets_Source\<close>: the value types (PKCE, scope
    sets as canonical lists), the redirect that ends the flow, what it carries and where it leads when
    its text is parsed again, the credential source and that no draw of it is rejected.
  \<^item> \<open>Store_Trace\<close>, \<open>Single_Use\<close>, \<open>Families\<close>, \<open>Capacity\<close>, \<open>Memory_Props\<close>, \<open>Store_Properties\<close>: sequences of
    store calls.  The locale \<open>one_shot\<close> is the contract of a one-time credential; it is interpreted for
    transactions, consents, codes and refresh grants of the store, and later for the codes and refresh
    tokens of the engine.  \<open>reachable\<close> is the set of stores that calls with fresh families lead to.
  \<^item> \<open>World\<close>, \<open>Engine_Rules\<close>, \<open>Engine_Traces\<close>, \<open>Engine_System\<close>, \<open>Engine_Invariants\<close>: one locale per
    interface of the engine states what the engine relies on in it; \<open>engine_world\<close> is all of them.  The
    contract of a store is refinement of the in-memory store.  Every operation is executed once against
    the contracts (\<open>*_traces\<close>), and the engine's properties (\<open>Engine_Properties\<close>, \<open>Flow_Properties\<close>,
    \<open>System_Properties\<close>) follow, for any dependencies that keep the contracts.  \<open>Fixtures\<close> interprets
    every contract on the in-memory dependencies; \<open>Session\<close> evaluates a whole session on them.
  \<^item> \<open>Sqlite_Tables\<close>, \<open>Sqlite_Relation\<close>, \<open>Sqlite_Refines\<close>, \<open>Sqlite_Atomic\<close>, \<open>Sqlite_Trace\<close>,
    \<open>Sqlite_Contract\<close>, \<open>Sqlite_Pruning\<close>, \<open>Sqlite_Properties\<close>: a database represents a state of the
    in-memory store, every method of the SQLite store does what the in-memory store does or fails
    without effect, so that single use holds there too.  The two differences are stated where they show
    (\<open>disk_value\<close>, \<open>settled\<close>): a decision answers an empty redirect URI, a registration prunes first.
    \<open>Sqlite_Pruning\<close> says what is pruned when the texts of the times are not ordered as the times.
  \<^item> \<open>Jwt_Properties\<close>: what the token service issues it verifies, what it verifies is bound to issuer,
    audience and time.
  \<^item> \<open>Http_Spec\<close>, \<open>Http_Refines\<close>: the meaning of an endpoint as requests to the engine and a reply, and
    the simulation that shows that the handlers, with the middleware, implement it.
  \<^item> \<open>Http_System\<close>, \<open>Http_Properties\<close>, \<open>Http_Redirects\<close>: the server as a system.  The locale
    \<open>http_world\<close> adds to \<open>engine_world\<close> the two reads of the transport; every HTTP request is at most two
    requests to the engine (\<open>drives\<close>), its response accounts for their answers (\<open>outcome\<close>), so that
    \<open>one_shot\<close> holds of whole sequences of HTTP requests, and with it what a client may rely on:
    single use, answers, limits, destinations of redirects.
  \<^item> \<open>Consent_Properties\<close>: the page is inert.  \<open>Resource_Properties\<close>: an issued token, sent as a bearer
    token, authenticates.

  \<^bold>\<open>Bounds and fuel.\<close>  No definition runs on fuel; every loop is structural or has a termination proof.
  The JSON scanner tests that its rest got shorter before it goes on; the test never fails
  (\<open>parse_shorter\<close>).  Its depth is the 10000 of \<open>encoding/json\<close>, a query string has at most 10000
  pairs, as in \<open>net/url\<close>.  The stored texts of times are ordered as the times only between different
  seconds (the finding on \<open>pruneTx\<close>), so the refinement of the SQLite store speaks of clock readings
  on which the two orders agree, such as whole seconds.

  \<^bold>\<open>Assumptions that are stronger than the code around the repository.\<close>  A COMMIT that fails counts as rolled
  back (\<open>Commit\<close> in \<open>Sql\<close>); SQLite may leave the transaction active when it is busy, which the one
  connection of the store makes unlikely, not impossible.  \<open>jose_laws\<close> lets every extra claim be read
  back as it was signed, where \<open>encoding/json\<close> gives a \<open>float64\<close> for a number and base64 text for bytes.
  The refinement and the single use of the SQLite store speak of records that can be stored (UTF-8
  texts, times of the years 0 to 9999, principals that the codec reads back).

  \<^bold>\<open>Not modelled.\<close>
  \<^item> Code that is not in the repository is a parameter: the JOSE library (hypothesis \<open>jose_laws\<close>, its
    documented behaviour), SQLite below the statement level (any statement may fail), the application's
    login starter, authenticator, observer, claim provider and audit sink, the entropy source.
  \<^item> Contexts carry the request identifier only: a cancelled context is an operational failure of the
    store.  \<open>Close\<close> of the SQLite store and its file handling, indexes and PRAGMAs have no state that a
    method reads.  Mutexes are not modelled: a method is atomic, as its lock makes it.
  \<^item> A nil slice is an empty slice, except where the program could tell them apart in a JSON text
    (\<open>enc_JWKS\<close>, \<open>slice\<close>).  A monotonic clock reading is not part of a time.
  \<^item> \<open>ServeMux\<close> beyond the lookup of a registered path, and the connection below \<open>ResponseWriter\<close>.
  \<^item> Tests, the documentation and the compile-time assertions of interfaces.
\<close>

end
